(* ===== verification/Prelude.thy ===== *)
theory Prelude
  imports Main
begin

text \<open>
  Shared vocabulary of the development: the error hierarchy of
  \<^verbatim>\<open>app/core/exceptions.py\<close> with its HTTP mapping, the service monad every
  operation is written in, a small weakest-precondition calculus for it, the preservation
  calculus (\<open>keeps\<close>, \<open>frames\<close>) that carries the invariant proofs, and lemmas on
  lists of rows.

  An asynchronous service function of the source is a HOL function from the state of the
  world to an outcome and the state it leaves: \<open>Inl e\<close> when it raises \<open>e\<close>,
  \<open>Inr a\<close> when it returns \<open>a\<close>. The state is kept on an error too, because some
  callers catch the exception; the rollback of a failed request is \<open>session_scope\<close> in
  the theory \<open>World\<close>.
\<close>

section \<open>Text\<close>

text \<open>The text methods of Python the code uses, on ASCII.\<close>

definition is_upper :: "char \<Rightarrow> bool" where
  "is_upper c \<longleftrightarrow> of_char c \<ge> (65 :: nat) \<and> of_char c \<le> (90 :: nat)"

definition is_lower :: "char \<Rightarrow> bool" where
  "is_lower c \<longleftrightarrow> of_char c \<ge> (97 :: nat) \<and> of_char c \<le> (122 :: nat)"

definition lower_char :: "char \<Rightarrow> char" where
  "lower_char c = (if is_upper c then char_of (of_char c + 32 :: nat) else c)"

definition title_char :: "char \<Rightarrow> char" where
  "title_char c = (if is_lower c then char_of (of_char c - 32 :: nat) else c)"

definition str_lower :: "string \<Rightarrow> string" where
  "str_lower s = map lower_char s"

text \<open>\<^verbatim>\<open>s.title()\<close>: a letter that does not follow a letter is capitalised, the others
  are lowered.\<close>

fun str_title :: "bool \<Rightarrow> string \<Rightarrow> string" where
  "str_title after_letter [] = []"
| "str_title after_letter (c # cs) =
     (if after_letter then lower_char c else title_char c) # str_title (is_upper c \<or> is_lower c) cs"

definition is_space :: "char \<Rightarrow> bool" where
  "is_space c \<longleftrightarrow> of_char c \<in> {9, 10, 11, 12, 13, 28, 29, 30, 31, 32 :: nat}"

definition str_strip :: "string \<Rightarrow> string" where
  "str_strip s = rev (dropWhile is_space (rev (dropWhile is_space s)))"

definition str_replace :: "char \<Rightarrow> char \<Rightarrow> string \<Rightarrow> string" where
  "str_replace a b s = map (\<lambda>c. if c = a then b else c) s"


section \<open>Errors\<close>

text \<open>
  The domain exceptions and the built-in ones the services can raise, with the status and the code
  the handlers of \<^verbatim>\<open>app/core/error_handlers.py\<close> answer them with. A message is kept as its
  constant text; interpolated parts are left out. \<open>InsufficientCredits\<close> keeps its
  \<^verbatim>\<open>details\<close>: feature key, needed amount and balance.
\<close>

datatype app_error =
    NotFound string
  | Conflict string
  | Unauthorized string
  | Forbidden string
  | ValidationFailed string
  | RateLimited string
  | PaymentRequired string
  | InsufficientCredits string int int
  | CryptoConfigError string
  | GoogleUpstreamError string
  | HTTPException nat string
  | IntegrityError
  | ValueError string
  | RuntimeError string
  | KeyError string
  | AttributeError string

fun status_code :: "app_error \<Rightarrow> nat" where
  "status_code (NotFound _) = 404"
| "status_code (Conflict _) = 409"
| "status_code (Unauthorized _) = 401"
| "status_code (Forbidden _) = 403"
| "status_code (ValidationFailed _) = 422"
| "status_code (RateLimited _) = 429"
| "status_code (PaymentRequired _) = 402"
| "status_code (InsufficientCredits _ _ _) = 402"
| "status_code (CryptoConfigError _) = 503"
| "status_code (GoogleUpstreamError _) = 503"
| "status_code (HTTPException n _) = n"
| "status_code IntegrityError = 409"
| "status_code (ValueError _) = 500"
| "status_code (RuntimeError _) = 500"
| "status_code (KeyError _) = 500"
| "status_code (AttributeError _) = 500"

fun error_code :: "app_error \<Rightarrow> string" where
  "error_code (NotFound _) = ''not_found''"
| "error_code (Conflict _) = ''conflict''"
| "error_code (Unauthorized _) = ''unauthorized''"
| "error_code (Forbidden _) = ''forbidden''"
| "error_code (ValidationFailed _) = ''validation_failed''"
| "error_code (RateLimited _) = ''rate_limited''"
| "error_code (PaymentRequired _) = ''payment_required''"
| "error_code (InsufficientCredits _ _ _) = ''insufficient_credits''"
| "error_code (CryptoConfigError _) = ''crypto_not_configured''"
| "error_code (GoogleUpstreamError _) = ''service_unavailable''"
| "error_code (HTTPException _ d) = str_replace (CHR '' '') (CHR ''_'') (str_lower d)"
| "error_code IntegrityError = ''conflict''"
| "error_code (ValueError _) = ''internal_error''"
| "error_code (RuntimeError _) = ''internal_error''"
| "error_code (KeyError _) = ''internal_error''"
| "error_code (AttributeError _) = ''internal_error''"


section \<open>The service monad\<close>

type_synonym ('w, 'a) svc = "'w \<Rightarrow> (app_error + 'a) \<times> 'w"

definition ret :: "'a \<Rightarrow> ('w, 'a) svc" where
  "ret a = (\<lambda>w. (Inr a, w))"

definition raise :: "app_error \<Rightarrow> ('w, 'a) svc" where
  "raise e = (\<lambda>w. (Inl e, w))"

definition bindS :: "('w, 'a) svc \<Rightarrow> ('a \<Rightarrow> ('w, 'b) svc) \<Rightarrow> ('w, 'b) svc" where
  "bindS m f = (\<lambda>w. case m w of (Inl e, w') \<Rightarrow> (Inl e, w') | (Inr a, w') \<Rightarrow> f a w')"

definition gets :: "('w \<Rightarrow> 'a) \<Rightarrow> ('w, 'a) svc" where
  "gets f = (\<lambda>w. (Inr (f w), w))"

definition modify :: "('w \<Rightarrow> 'w) \<Rightarrow> ('w, unit) svc" where
  "modify f = (\<lambda>w. (Inr (), f w))"

text \<open>A \<^verbatim>\<open>for\<close> loop over a list: the body runs per element, in order, and an
  exception ends the loop.\<close>

fun forS :: "'x list \<Rightarrow> ('x \<Rightarrow> ('w, unit) svc) \<Rightarrow> ('w, unit) svc" where
  "forS [] body = ret ()"
| "forS (x # xs) body = bindS (body x) (\<lambda>_. forS xs body)"

lemma forS_map: "forS (map g xs) f = forS xs (\<lambda>x. f (g x))"
  by (induction xs) simp_all

text \<open>A comprehension with a monadic body: the results, in order.\<close>

fun mapS :: "'x list \<Rightarrow> ('x \<Rightarrow> ('w, 'a) svc) \<Rightarrow> ('w, 'a list) svc" where
  "mapS [] body = ret []"
| "mapS (x # xs) body =
     bindS (body x) (\<lambda>y. bindS (mapS xs body) (\<lambda>ys. ret (y # ys)))"

text \<open>\<^verbatim>\<open>try: m except ...\<close>: the handler sees the exception and the state the
  failing body left.\<close>

definition tryS :: "('w, 'a) svc \<Rightarrow> (app_error \<Rightarrow> ('w, 'a) svc) \<Rightarrow> ('w, 'a) svc" where
  "tryS m h = (\<lambda>w. case m w of (Inl e, w') \<Rightarrow> h e w' | (Inr a, w') \<Rightarrow> (Inr a, w'))"

text \<open>\<^verbatim>\<open>try: r = m except Exception: ...\<close> whose handler does not go back into
  \<open>m\<close>: the outcome as a value.\<close>

definition attempt :: "('w, 'a) svc \<Rightarrow> ('w, app_error + 'a) svc" where
  "attempt m = (\<lambda>w. case m w of (r, w') \<Rightarrow> (Inr r, w'))"

text \<open>A pure computation that may raise.\<close>

definition liftE :: "app_error + 'a \<Rightarrow> ('w, 'a) svc" where
  "liftE r = (\<lambda>w. (r, w))"

named_theorems svc_simps "evaluation of the service monad"

lemma ret_apply [svc_simps]: "ret a w = (Inr a, w)"
  by (simp add: ret_def)

lemma raise_apply [svc_simps]: "raise e w = (Inl e, w)"
  by (simp add: raise_def)

lemma gets_apply [svc_simps]: "gets f w = (Inr (f w), w)"
  by (simp add: gets_def)

lemma modify_apply [svc_simps]: "modify f w = (Inr (), f w)"
  by (simp add: modify_def)

lemma liftE_apply [svc_simps]: "liftE r w = (r, w)"
  by (simp add: liftE_def)

lemma bindS_apply [svc_simps]:
  "bindS m f w = (case m w of (Inl e, w') \<Rightarrow> (Inl e, w') | (Inr a, w') \<Rightarrow> f a w')"
  by (simp add: bindS_def)

lemma tryS_apply [svc_simps]:
  "tryS m h w = (case m w of (Inl e, w') \<Rightarrow> h e w' | (Inr a, w') \<Rightarrow> (Inr a, w'))"
  by (simp add: tryS_def)

lemma attempt_apply [svc_simps]: "attempt m w = (Inr (fst (m w)), snd (m w))"
  by (simp add: attempt_def split: prod.splits)

lemma if_apply [svc_simps]: "(if b then m else n) w = (if b then m w else n w)"
  by simp

lemma option_case_apply [svc_simps]:
  "(case x of None \<Rightarrow> m | Some a \<Rightarrow> f a) w = (case x of None \<Rightarrow> m w | Some a \<Rightarrow> f a w)"
  by (cases x) simp_all

text \<open>Monad laws.\<close>

lemma bindS_ret [simp]: "bindS (ret a) f = f a"
  by (simp add: fun_eq_iff svc_simps)

lemma bindS_ret_right [simp]: "bindS m ret = m"
  by (auto simp: fun_eq_iff svc_simps split: prod.splits sum.splits)

lemma bindS_raise [simp]: "bindS (raise e) f = raise e"
  by (simp add: fun_eq_iff svc_simps)

lemma bindS_assoc: "bindS (bindS m f) g = bindS m (\<lambda>a. bindS (f a) g)"
  by (auto simp: fun_eq_iff svc_simps split: prod.splits sum.splits)

lemma bindS_InrE:
  assumes "bindS m f w = (Inr b, w'')"
  obtains a w' where "m w = (Inr a, w')" "f a w' = (Inr b, w'')"
  using assms by (auto simp: svc_simps split: prod.splits sum.splits)

lemma bindS_step: "m w = (Inr a, w') \<Longrightarrow> bindS m f w = f a w'"
  by (simp add: bindS_apply)

lemma bindS_fail: "m w = (Inl e, w') \<Longrightarrow> bindS m f w = (Inl e, w')"
  by (simp add: bindS_apply)

lemma bindS_fail_ex: "\<exists>w'. m w = (Inl e, w') \<Longrightarrow> \<exists>w'. bindS m f w = (Inl e, w')"
  by (auto simp: bindS_apply)

lemma bindS_Inr_iff:
  "bindS m f w = (Inr b, w'') \<longleftrightarrow> (\<exists>a w'. m w = (Inr a, w') \<and> f a w' = (Inr b, w''))"
  by (auto simp: svc_simps split: prod.splits sum.splits)


section \<open>Weakest preconditions\<close>

text \<open>\<open>wp m Q E w\<close>: run from \<open>w\<close>, \<open>m\<close> ends in \<open>Q\<close> if it returns and in
  \<open>E\<close> if it raises. The equations below compute it along the structure of a program.\<close>

definition wp :: "('w, 'a) svc \<Rightarrow> ('a \<Rightarrow> 'w \<Rightarrow> bool) \<Rightarrow> (app_error \<Rightarrow> 'w \<Rightarrow> bool) \<Rightarrow> 'w \<Rightarrow> bool" where
  "wp m Q E w = (case m w of (Inl e, w') \<Rightarrow> E e w' | (Inr a, w') \<Rightarrow> Q a w')"

named_theorems wp_simps "computation of weakest preconditions"

lemma wp_ret [wp_simps]: "wp (ret a) Q E w = Q a w"
  by (simp add: wp_def svc_simps)

lemma wp_raise [wp_simps]: "wp (raise e) Q E w = E e w"
  by (simp add: wp_def svc_simps)

lemma wp_gets [wp_simps]: "wp (gets f) Q E w = Q (f w) w"
  by (simp add: wp_def svc_simps)

lemma wp_modify [wp_simps]: "wp (modify f) Q E w = Q () (f w)"
  by (simp add: wp_def svc_simps)

lemma wp_bindS [wp_simps]: "wp (bindS m f) Q E w = wp m (\<lambda>a. wp (f a) Q E) E w"
  by (auto simp: wp_def svc_simps split: prod.splits sum.splits)

lemma wp_liftE [wp_simps]: "wp (liftE r) Q E w = (case r of Inl e \<Rightarrow> E e w | Inr a \<Rightarrow> Q a w)"
  by (auto simp: wp_def svc_simps split: sum.splits)

lemma wp_tryS [wp_simps]: "wp (tryS m h) Q E w = wp m Q (\<lambda>e. wp (h e) Q E) w"
  by (auto simp: wp_def svc_simps split: prod.splits sum.splits)

lemma wp_attempt [wp_simps]: "wp (attempt m) Q E w = wp m (\<lambda>a. Q (Inr a)) (\<lambda>e. Q (Inl e)) w"
  by (auto simp: wp_def attempt_def split: prod.splits sum.splits)

lemma wp_if [wp_simps]:
  "wp (if b then m else n) Q E w = (if b then wp m Q E w else wp n Q E w)"
  by simp

lemma wp_option [wp_simps]:
  "wp (case x of None \<Rightarrow> m | Some a \<Rightarrow> f a) Q E w =
     (case x of None \<Rightarrow> wp m Q E w | Some a \<Rightarrow> wp (f a) Q E w)"
  by (cases x) simp_all

lemma wp_mono:
  "wp m Q E w \<Longrightarrow> (\<And>a w'. Q a w' \<Longrightarrow> Q' a w') \<Longrightarrow> (\<And>e w'. E e w' \<Longrightarrow> E' e w') \<Longrightarrow> wp m Q' E' w"
  by (auto simp: wp_def split: prod.splits sum.splits)

lemma wp_InrD: "wp m Q E w \<Longrightarrow> m w = (Inr a, w') \<Longrightarrow> Q a w'"
  by (simp add: wp_def)

lemma wp_returns: "wp m Q (\<lambda>_ _. False) w \<Longrightarrow> \<exists>a w'. m w = (Inr a, w') \<and> Q a w'"
  by (auto simp: wp_def split: prod.splits sum.splits)

lemma wp_InlD: "wp m Q E w \<Longrightarrow> m w = (Inl e, w') \<Longrightarrow> E e w'"
  by (simp add: wp_def)


section \<open>Preservation and frames\<close>

text \<open>\<open>keeps I m\<close>: \<open>m\<close> takes states with \<open>I\<close> to states with \<open>I\<close>, whether it
  returns or raises. \<open>frames g m\<close>: the part \<open>g\<close> of the state is left as it was.\<close>

definition keeps :: "('w \<Rightarrow> bool) \<Rightarrow> ('w, 'a) svc \<Rightarrow> bool" where
  "keeps I m \<longleftrightarrow> (\<forall>w. I w \<longrightarrow> I (snd (m w)))"

definition frames :: "('w \<Rightarrow> 'b) \<Rightarrow> ('w, 'a) svc \<Rightarrow> bool" where
  "frames g m \<longleftrightarrow> (\<forall>w. g (snd (m w)) = g w)"

named_theorems keeps_intros "invariant preservation, along the program's structure"
named_theorems frames_intros "parts of the state a program leaves alone"

lemma keepsI: "(\<And>w. I w \<Longrightarrow> I (snd (m w))) \<Longrightarrow> keeps I m"
  by (simp add: keeps_def)

lemma keepsD: "keeps I m \<Longrightarrow> I w \<Longrightarrow> m w = (r, w') \<Longrightarrow> I w'"
  by (auto simp: keeps_def dest!: spec [of _ w])

lemma keeps_ret [keeps_intros]: "keeps I (ret a)"
  by (simp add: keeps_def svc_simps)

lemma keeps_raise [keeps_intros]: "keeps I (raise e)"
  by (simp add: keeps_def svc_simps)

lemma keeps_gets [keeps_intros]: "keeps I (gets f)"
  by (simp add: keeps_def svc_simps)

lemma keeps_liftE [keeps_intros]: "keeps I (liftE r)"
  by (simp add: keeps_def svc_simps)

lemma keeps_bindS [keeps_intros]:
  "keeps I m \<Longrightarrow> (\<And>a. keeps I (f a)) \<Longrightarrow> keeps I (bindS m f)"
  by (fastforce simp: keeps_def svc_simps split: prod.splits sum.splits)

lemma keeps_tryS [keeps_intros]:
  "keeps I m \<Longrightarrow> (\<And>e. keeps I (h e)) \<Longrightarrow> keeps I (tryS m h)"
  by (fastforce simp: keeps_def svc_simps split: prod.splits sum.splits)

lemma keeps_attempt [keeps_intros]: "keeps I m \<Longrightarrow> keeps I (attempt m)"
  by (simp add: keeps_def svc_simps)

lemma keeps_sum [keeps_intros]:
  "(\<And>e. x = Inl e \<Longrightarrow> keeps I (f e)) \<Longrightarrow> (\<And>a. x = Inr a \<Longrightarrow> keeps I (g a)) \<Longrightarrow>
     keeps I (case x of Inl e \<Rightarrow> f e | Inr a \<Rightarrow> g a)"
  by (cases x) simp_all

lemma keeps_if [keeps_intros]:
  "(b \<Longrightarrow> keeps I m) \<Longrightarrow> (\<not> b \<Longrightarrow> keeps I n) \<Longrightarrow> keeps I (if b then m else n)"
  by simp

lemma keeps_option [keeps_intros]:
  "(x = None \<Longrightarrow> keeps I m) \<Longrightarrow> (\<And>a. x = Some a \<Longrightarrow> keeps I (f a)) \<Longrightarrow>
     keeps I (case x of None \<Rightarrow> m | Some a \<Rightarrow> f a)"
  by (cases x) simp_all

lemma keeps_prod [keeps_intros]:
  "(\<And>a b. p = (a, b) \<Longrightarrow> keeps I (f a b)) \<Longrightarrow> keeps I (case p of (a, b) \<Rightarrow> f a b)"
  by (cases p) simp

lemma keeps_forS [keeps_intros]:
  "(\<And>x. x \<in> set xs \<Longrightarrow> keeps I (f x)) \<Longrightarrow> keeps I (forS xs f)"
proof (induction xs)
  case Nil
  show ?case by (simp add: keeps_ret)
next
  case (Cons x xs)
  have "keeps I (f x)" "keeps I (forS xs f)"
    using Cons by simp_all
  then show ?case by (simp add: keeps_bindS)
qed

lemma keeps_mapS [keeps_intros]:
  "(\<And>x. x \<in> set xs \<Longrightarrow> keeps I (f x)) \<Longrightarrow> keeps I (mapS xs f)"
proof (induction xs)
  case Nil
  show ?case by (simp add: keeps_ret)
next
  case (Cons x xs)
  have "keeps I (f x)" "keeps I (mapS xs f)"
    using Cons by simp_all
  then show ?case by (auto intro!: keeps_intros)
qed

lemma keeps_modify: "(\<And>w. I w \<Longrightarrow> I (f w)) \<Longrightarrow> keeps I (modify f)"
  by (simp add: keeps_def svc_simps)

lemma wp_same: "wp m (\<lambda>_. I) (\<lambda>_. I) w = I (snd (m w))"
  by (cases "m w"; cases "fst (m w)") (auto simp: wp_def)

lemma keeps_wp: "keeps I m \<longleftrightarrow> (\<forall>w. I w \<longrightarrow> wp m (\<lambda>_. I) (\<lambda>_. I) w)"
  by (simp add: keeps_def wp_same)

lemma wp_forS:
  assumes "\<And>x w. x \<in> set xs \<Longrightarrow> I w \<Longrightarrow> wp (f x) (\<lambda>_. I) E w" and "I w"
  shows "wp (forS xs f) (\<lambda>_. I) E w"
  using assms
proof (induction xs arbitrary: w)
  case Nil
  then show ?case by (simp add: wp_simps)
next
  case (Cons x xs)
  have "wp (f x) (\<lambda>_. wp (forS xs f) (\<lambda>_. I) E) E w"
    using Cons.IH Cons.prems by (intro wp_mono [OF Cons.prems(1) [of x w]]) auto
  then show ?case by (simp add: wp_simps)
qed

lemma framesD: "frames g m \<Longrightarrow> m w = (r, w') \<Longrightarrow> g w' = g w"
  by (auto simp: frames_def dest!: spec [of _ w])

lemma frames_keeps: "frames g m \<Longrightarrow> keeps (\<lambda>w. I (g w)) m"
  by (simp add: frames_def keeps_def)

lemma keeps_frames: "(\<And>c. keeps (\<lambda>w. g w = c) m) \<Longrightarrow> frames g m"
  by (simp add: frames_def keeps_def)

lemma frames_ret [frames_intros]: "frames g (ret a)"
  by (simp add: frames_def svc_simps)

lemma frames_raise [frames_intros]: "frames g (raise e)"
  by (simp add: frames_def svc_simps)

lemma frames_gets [frames_intros]: "frames g (gets f)"
  by (simp add: frames_def svc_simps)

lemma frames_liftE [frames_intros]: "frames g (liftE r)"
  by (simp add: frames_def svc_simps)

lemma frames_modify: "(\<And>w. g (f w) = g w) \<Longrightarrow> frames g (modify f)"
  by (simp add: frames_def svc_simps)

lemma frames_bindS [frames_intros]:
  "frames g m \<Longrightarrow> (\<And>a. frames g (f a)) \<Longrightarrow> frames g (bindS m f)"
  unfolding frames_def bindS_def
  by (auto split: prod.splits sum.splits) (metis snd_conv)+

lemma frames_tryS [frames_intros]:
  "frames g m \<Longrightarrow> (\<And>e. frames g (h e)) \<Longrightarrow> frames g (tryS m h)"
  unfolding frames_def tryS_def
  by (auto split: prod.splits sum.splits) (metis snd_conv)+

lemma frames_attempt [frames_intros]: "frames g m \<Longrightarrow> frames g (attempt m)"
  by (simp add: frames_def svc_simps)

lemma frames_sum [frames_intros]:
  "(\<And>e. x = Inl e \<Longrightarrow> frames g (f e)) \<Longrightarrow> (\<And>a. x = Inr a \<Longrightarrow> frames g (h a)) \<Longrightarrow>
     frames g (case x of Inl e \<Rightarrow> f e | Inr a \<Rightarrow> h a)"
  by (cases x) simp_all

lemma frames_if [frames_intros]:
  "(b \<Longrightarrow> frames g m) \<Longrightarrow> (\<not> b \<Longrightarrow> frames g n) \<Longrightarrow> frames g (if b then m else n)"
  by simp

lemma frames_option [frames_intros]:
  "(x = None \<Longrightarrow> frames g m) \<Longrightarrow> (\<And>a. x = Some a \<Longrightarrow> frames g (f a)) \<Longrightarrow>
     frames g (case x of None \<Rightarrow> m | Some a \<Rightarrow> f a)"
  by (cases x) simp_all

lemma frames_prod [frames_intros]:
  "(\<And>a b. p = (a, b) \<Longrightarrow> frames g (f a b)) \<Longrightarrow> frames g (case p of (a, b) \<Rightarrow> f a b)"
  by (cases p) simp

lemma frames_forS [frames_intros]:
  "(\<And>x. x \<in> set xs \<Longrightarrow> frames g (f x)) \<Longrightarrow> frames g (forS xs f)"
  by (rule keeps_frames, rule keeps_forS) (simp add: frames_def keeps_def)

lemma frames_mapS [frames_intros]:
  "(\<And>x. x \<in> set xs \<Longrightarrow> frames g (f x)) \<Longrightarrow> frames g (mapS xs f)"
  by (rule keeps_frames, rule keeps_mapS) (simp add: frames_def keeps_def)


lemma wp_frames:
  assumes "frames g m" and "\<And>a w'. g w' = g w \<Longrightarrow> Q a w'" and "\<And>e w'. g w' = g w \<Longrightarrow> E e w'"
  shows "wp m Q E w"
  using framesD [OF assms(1)] assms(2,3) by (auto simp: wp_def split: prod.splits sum.splits)


section \<open>Programs that always return\<close>

definition returns :: "('w, 'a) svc \<Rightarrow> bool" where
  "returns m \<longleftrightarrow> (\<forall>w. \<exists>a. fst (m w) = Inr a)"

named_theorems returns_intros "programs that never raise"

lemma returns_pure [returns_intros]: "returns (ret a)" "returns (gets f)" "returns (modify g)" "returns (attempt m)"
  by (simp_all add: returns_def svc_simps)

lemma returns_bindS [returns_intros]: "returns m \<Longrightarrow> (\<And>a. returns (f a)) \<Longrightarrow> returns (bindS m f)"
  unfolding returns_def bindS_def by (auto split: prod.splits sum.splits) (metis Inr_not_Inl fst_conv)+

lemma returns_if [returns_intros]:
  "(b \<Longrightarrow> returns m) \<Longrightarrow> (\<not> b \<Longrightarrow> returns n) \<Longrightarrow> returns (if b then m else n)"
  by simp

lemma returns_option [returns_intros]:
  "returns m \<Longrightarrow> (\<And>a. returns (f a)) \<Longrightarrow> returns (case x of None \<Rightarrow> m | Some a \<Rightarrow> f a)"
  by (cases x) simp_all

lemma returns_prod [returns_intros]: "(\<And>a b. returns (f a b)) \<Longrightarrow> returns (case p of (a, b) \<Rightarrow> f a b)"
  by (cases p) simp

lemma returns_forS [returns_intros]: "(\<And>x. x \<in> set xs \<Longrightarrow> returns (f x)) \<Longrightarrow> returns (forS xs f)"
proof (induction xs)
  case Nil
  show ?case by (simp add: returns_pure)
next
  case (Cons x xs)
  have "returns (f x)" "returns (forS xs f)" using Cons by simp_all
  then show ?case by (simp add: returns_bindS)
qed

lemma returns_wp: "returns m \<longleftrightarrow> (\<forall>w. wp m (\<lambda>_ _. True) (\<lambda>_ _. False) w)"
proof -
  have "(\<exists>a. fst (m w) = Inr a) \<longleftrightarrow> wp m (\<lambda>_ _. True) (\<lambda>_ _. False) w" for w
    by (cases "m w"; cases "fst (m w)") (auto simp: wp_def)
  then show ?thesis by (simp add: returns_def)
qed

lemma returnsI: "(\<And>w. wp m (\<lambda>_ _. True) (\<lambda>_ _. False) w) \<Longrightarrow> returns m"
  by (simp only: returns_wp) blast

lemma wp_returns_frames:
  assumes "returns m" and "frames g m" and "\<And>a w'. g w' = g w \<Longrightarrow> Q a w'"
  shows "wp m Q E w"
proof -
  obtain a w' where m: "m w = (Inr a, w')"
    using assms(1) unfolding returns_def by (metis prod.collapse)
  then show ?thesis
    using framesD [OF assms(2) m] assms(3) by (simp add: wp_def)
qed


section \<open>Lists of rows\<close>

text \<open>A table is the list of its rows in insertion order. A point query
  (\<^verbatim>\<open>db.scalar(select(...).where(...))\<close>) is the library's \<open>find\<close>.\<close>

definition map_rows :: "('r \<Rightarrow> bool) \<Rightarrow> ('r \<Rightarrow> 'r) \<Rightarrow> 'r list \<Rightarrow> 'r list" where
  "map_rows P f rs = map (\<lambda>r. if P r then f r else r) rs"

lemma map_rows_Nil [simp]: "map_rows P f [] = []"
  by (simp add: map_rows_def)

lemma map_rows_Cons [simp]:
  "map_rows P f (r # rs) = (if P r then f r else r) # map_rows P f rs"
  by (simp add: map_rows_def)

lemma map_rows_append [simp]: "map_rows P f (xs @ ys) = map_rows P f xs @ map_rows P f ys"
  by (simp add: map_rows_def)

lemma length_map_rows [simp]: "length (map_rows P f rs) = length rs"
  by (simp add: map_rows_def)

lemma set_map_rows: "set (map_rows P f rs) = (\<lambda>r. if P r then f r else r) ` set rs"
  by (simp add: map_rows_def)

lemma map_map_rows [simp]:
  "(\<And>r. key (f r) = key r) \<Longrightarrow> map key (map_rows P f rs) = map key rs"
  by (induction rs) auto

lemma image_map_rows:
  "(\<And>r. key (f r) = key r) \<Longrightarrow> key ` set (map_rows P f rs) = key ` set rs"
  by (induction rs) auto

lemma ball_map_rows:
  "(\<forall>r \<in> set (map_rows P f rs). Q r) \<longleftrightarrow> (\<forall>r \<in> set rs. Q (if P r then f r else r))"
  by (induction rs) auto

lemma map_rows_none: "(\<And>r. r \<in> set rs \<Longrightarrow> \<not> P r) \<Longrightarrow> map_rows P f rs = rs"
  by (induction rs) auto

lemma find_SomeD: "List.find P xs = Some x \<Longrightarrow> x \<in> set xs \<and> P x"
  by (induction xs) (auto split: if_splits)

lemma find_NoneD: "List.find P xs = None \<Longrightarrow> x \<in> set xs \<Longrightarrow> \<not> P x"
  by (induction xs) (auto split: if_splits)

lemma find_None_iff_all: "List.find P xs = None \<longleftrightarrow> (\<forall>x \<in> set xs. \<not> P x)"
  by (induction xs) auto

lemma find_not_None: "(\<exists>y. List.find P xs = Some y) \<longleftrightarrow> (\<exists>x \<in> set xs. P x)"
  by (induction xs) auto

lemma find_append: "List.find P (xs @ ys) =
    (case List.find P xs of None \<Rightarrow> List.find P ys | Some x \<Rightarrow> Some x)"
  by (induction xs) auto

lemma find_unique:
  assumes "x \<in> set xs" "P x" "\<And>y. y \<in> set xs \<Longrightarrow> P y \<Longrightarrow> y = x"
  shows "List.find P xs = Some x"
proof (cases "List.find P xs")
  case None
  then show ?thesis using find_NoneD [OF None assms(1)] assms(2) by simp
next
  case (Some y)
  then show ?thesis using find_SomeD [OF Some] assms(3) [of y] by simp
qed

lemma find_map_rows_keep:
  "(\<And>r. Q (f r) = Q r) \<Longrightarrow>
     List.find Q (map_rows P f rs) = map_option (\<lambda>r. if P r then f r else r) (List.find Q rs)"
  by (induction rs) auto

lemma find_cong_set: "(\<And>x. x \<in> set xs \<Longrightarrow> P x = Q x) \<Longrightarrow> List.find P xs = List.find Q xs"
  by (induction xs) auto

lemma distinct_map_eq:
  "distinct (map key xs) \<Longrightarrow> x \<in> set xs \<Longrightarrow> y \<in> set xs \<Longrightarrow> key x = key y \<Longrightarrow> x = y"
  by (auto simp: distinct_map inj_on_def)

text \<open>How a table may change: the old rows in their places, each related to what it has become by
  \<open>R\<close>, and new rows with \<open>Q\<close> after them.\<close>

definition grows :: "('r \<Rightarrow> 'r \<Rightarrow> bool) \<Rightarrow> ('r \<Rightarrow> bool) \<Rightarrow> 'r list \<Rightarrow> 'r list \<Rightarrow> bool" where
  "grows R Q rs rs' \<longleftrightarrow> (\<exists>old new. rs' = old @ new \<and> list_all2 R rs old \<and> (\<forall>r \<in> set new. Q r))"

lemma grows_refl: "(\<And>r. R r r) \<Longrightarrow> grows R Q rs rs"
  unfolding grows_def by (intro exI [of _ rs] exI [of _ "[]"]) (simp add: list.rel_refl)

lemma grows_append: "grows R Q rs rs' \<Longrightarrow> Q r \<Longrightarrow> grows R Q rs (rs' @ [r])"
  unfolding grows_def by (elim exE conjE, rule_tac x = old in exI, rule_tac x = "new @ [r]" in exI) auto

lemma grows_update:
  assumes "\<And>r. r \<in> set rs \<Longrightarrow> P r \<Longrightarrow> R r (f r)" and "\<And>r. R r r"
  shows "grows R Q rs (map_rows P f rs)"
proof -
  have "list_all2 R rs (map_rows P f rs)"
    using assms by (simp add: map_rows_def list.rel_map list_all2_same)
  then show ?thesis
    unfolding grows_def by (intro exI [of _ "map_rows P f rs"] exI [of _ "[]"]) simp
qed

lemma grows_row:
  assumes "grows R Q rs rs'" and "r \<in> set rs"
  shows "\<exists>r' \<in> set rs'. R r r'"
proof -
  obtain old new where "rs' = old @ new" "list_all2 R rs old"
    using assms(1) unfolding grows_def by blast
  then show ?thesis
    using assms(2) by (force simp: list_all2_conv_all_nth in_set_conv_nth)
qed

text \<open>Every row of the new table is an old one that changed, or a new one.\<close>

lemma grows_origin:
  assumes "grows R Q rs rs'" and "r' \<in> set rs'"
  shows "(\<exists>r \<in> set rs. R r r') \<or> Q r'"
proof -
  obtain old new where g: "rs' = old @ new" "list_all2 R rs old" "\<forall>r \<in> set new. Q r"
    using assms(1) unfolding grows_def by blast
  show ?thesis
  proof (cases "r' \<in> set new")
    case False
    then have "r' \<in> set old" using assms(2) g(1) by simp
    then show ?thesis using g(2) by (force simp: list_all2_conv_all_nth in_set_conv_nth)
  qed (use g(3) in blast)
qed

lemma grows_mono:
  assumes "grows R Q rs rs'" and "\<And>r r'. R r r' \<Longrightarrow> R' r r'" and "\<And>r. Q r \<Longrightarrow> Q' r"
  shows "grows R' Q' rs rs'"
  using assms(1) list_all2_mono [of R rs _ R', OF _ assms(2)] assms(3) unfolding grows_def by blast

lemma grows_column:
  assumes "grows R Q rs rs'" and "\<And>r r'. R r r' \<Longrightarrow> key r' = key r"
  shows "\<exists>new. map key rs' = map key rs @ map key new \<and> (\<forall>r \<in> set new. Q r \<and> r \<in> set rs')"
proof -
  obtain old new where g: "rs' = old @ new" "list_all2 R rs old" "\<forall>r \<in> set new. Q r"
    using assms(1) unfolding grows_def by blast
  have "map key old = map key rs"
    using g(2) by (induction rule: list_all2_induct) (simp_all add: assms(2))
  then show ?thesis using g by (intro exI [of _ new]) simp
qed

lemma grows_trans:
  assumes "grows R Q rs rs'" and "grows R Q rs' rs''"
    and "\<And>a b c. R a b \<Longrightarrow> R b c \<Longrightarrow> R a c" and "\<And>a b. Q a \<Longrightarrow> R a b \<Longrightarrow> Q b"
  shows "grows R Q rs rs''"
proof -
  obtain old new where g: "rs' = old @ new" "list_all2 R rs old" "\<forall>r \<in> set new. Q r"
    using assms(1) unfolding grows_def by blast
  obtain old' new' where h: "rs'' = old' @ new'" "list_all2 R rs' old'" "\<forall>r \<in> set new'. Q r"
    using assms(2) unfolding grows_def by blast
  obtain xs ys where o': "old' = xs @ ys" "list_all2 R old xs" "list_all2 R new ys"
    using h(2) g(1) by (auto simp: list_all2_append1)
  have "list_all2 R rs xs"
    using g(2) o'(2) assms(3) by (rule list_all2_trans [rotated])
  moreover have "\<forall>r \<in> set ys. Q r"
    using g(3) o'(3) assms(4) by (force simp: list_all2_conv_all_nth in_set_conv_nth)
  ultimately show ?thesis
    unfolding grows_def using h(1,3) o'(1) by (intro exI [of _ xs] exI [of _ "ys @ new'"]) auto
qed

text \<open>No two rows of a table collide.\<close>

definition keyed :: "('r \<Rightarrow> 'r \<Rightarrow> bool) \<Rightarrow> 'r list \<Rightarrow> bool" where
  "keyed clash rs \<longleftrightarrow> (\<forall>x \<in> set rs. \<forall>y \<in> set rs. clash x y \<longrightarrow> x = y)"

lemma keyed_Nil [simp]: "keyed clash []"
  by (simp add: keyed_def)

lemma keyed_filter: "keyed clash rs \<Longrightarrow> keyed clash (filter P rs)"
  by (simp add: keyed_def)

lemma keyed_append:
  assumes "keyed clash rs" and "\<And>x y. clash x y \<Longrightarrow> clash y x" and "\<forall>x \<in> set rs. \<not> clash x r"
  shows "keyed clash (rs @ [r])"
  using assms by (auto simp: keyed_def)

lemma keyed_map_rows:
  assumes "keyed clash rs" and "\<And>x y. clash (f x) y \<longleftrightarrow> clash x y" and "\<And>x y. clash x (f y) \<longleftrightarrow> clash x y"
  shows "keyed clash (map_rows P f rs)"
proof -
  define g where "g = (\<lambda>x. if P x then f x else x)"
  have "clash (g x) (g y) \<longleftrightarrow> clash x y" for x y
    using assms(2,3) by (simp add: g_def)
  then show ?thesis
    using assms(1) unfolding keyed_def set_map_rows g_def [symmetric] by auto
qed

lemma keyed_find:
  assumes "keyed clash rs" and "\<And>x y. P x \<Longrightarrow> P y \<Longrightarrow> clash x y" and "x \<in> set rs" and "P x"
  shows "List.find P rs = Some x" "List.find P (rev rs) = Some x"
proof -
  have uniq: "y = x" if "y \<in> set rs" "P y" for y
    using assms(1,3) assms(2) [OF that(2) assms(4)] that(1) by (simp add: keyed_def)
  show "List.find P rs = Some x"
    by (rule find_unique [OF assms(3), where P = P, OF assms(4) uniq])
  show "List.find P (rev rs) = Some x"
    by (rule find_unique [where P = P]) (simp_all add: assms(3,4) uniq)
qed

text \<open>A comprehension whose body only reads: the results, and the state as it was.\<close>

lemma mapS_reads:
  assumes "mapS rs f w = (Inr es, w')" and f: "\<And>r. f r w = (g r, w)"
  shows "w' = w" "list_all2 (\<lambda>r e. g r = Inr e) rs es"
proof -
  have "w' = w \<and> list_all2 (\<lambda>r e. g r = Inr e) rs es"
    using assms(1)
  proof (induction rs arbitrary: es)
    case (Cons r rs)
    obtain e es' where "g r = Inr e" "mapS rs f w = (Inr es', w')" "es = e # es'"
      using Cons.prems by (auto simp: bindS_apply f ret_apply split: sum.splits prod.splits)
    then show ?case using Cons.IH by simp
  qed (simp add: svc_simps)
  then show "w' = w" "list_all2 (\<lambda>r e. g r = Inr e) rs es" by simp_all
qed

lemma fst_eq_obtain:
  assumes "fst x = a" obtains b where "x = (a, b)"
  using assms by (cases x) simp

end
