(* ===== verification/Values.thy ===== *)
theory Values
  imports Prelude
begin

text \<open>
  The values the rows are made of: identifiers, instants, JSON documents, the text of
  identifiers, dates and random tokens, and the enumerations of \<^verbatim>\<open>app/models\<close>.
  Instants are microseconds since the epoch; \<^verbatim>\<open>NUMERIC(18,4)\<close> amounts are
  integers in units of one ten-thousandth.
\<close>

section \<open>Scalars\<close>

type_synonym uuid = nat
type_synonym time = int

definition NIL :: uuid where
  "NIL = 0"

definition seconds :: "int \<Rightarrow> time" where
  "seconds n = n * 1000000"

definition days :: "int \<Rightarrow> time" where
  "days n = n * 86400000000"

definition date_of :: "time \<Rightarrow> int" where
  "date_of t = t div 86400000000"

text \<open>JSON values. Numbers, identifiers and instants that the source renders to text inside an
  audit \<^verbatim>\<open>diff\<close> are kept as values (\<open>JDec\<close>, \<open>JUuid\<close>, \<open>JTime\<close>).\<close>

datatype json =
    JNull
  | JBool bool
  | JInt int
  | JDec int
  | JStr string
  | JUuid uuid
  | JTime time
  | JList "json list"
  | JObj "(string \<times> json) list"

type_synonym dict = "(string \<times> json) list"

text \<open>Python's truth value of a JSON value.\<close>

fun json_bool :: "json \<Rightarrow> bool" where
  "json_bool JNull = False"
| "json_bool (JBool b) = b"
| "json_bool (JInt i) = (i \<noteq> 0)"
| "json_bool (JDec i) = (i \<noteq> 0)"
| "json_bool (JStr s) = (s \<noteq> [])"
| "json_bool (JUuid _) = True"
| "json_bool (JTime _) = True"
| "json_bool (JList xs) = (xs \<noteq> [])"
| "json_bool (JObj fs) = (fs \<noteq> [])"

text \<open>\<^verbatim>\<open>d.get(k, default)\<close> of a dictionary, and of a value that may not be one.\<close>

definition dict_get :: "dict \<Rightarrow> string \<Rightarrow> json \<Rightarrow> json" where
  "dict_get d k dflt = (case map_of d k of None \<Rightarrow> dflt | Some v \<Rightarrow> v)"

fun json_get :: "json \<Rightarrow> string \<Rightarrow> json \<Rightarrow> app_error + json" where
  "json_get (JObj d) k dflt = Inr (dict_get d k dflt)"
| "json_get _ _ _ = Inl (AttributeError ''get'')"

text \<open>A JSON value for an optional one.\<close>

definition jopt :: "('a \<Rightarrow> json) \<Rightarrow> 'a option \<Rightarrow> json" where
  "jopt f x = (case x of None \<Rightarrow> JNull | Some a \<Rightarrow> f a)"


text \<open>Python's truth value of an optional string (\<^verbatim>\<open>if reference\<close>), and
  \<^verbatim>\<open>a or b\<close> on optional values.\<close>

fun truthy :: "string option \<Rightarrow> bool" where
  "truthy None = False"
| "truthy (Some s) = (s \<noteq> [])"

fun or_else :: "'a option \<Rightarrow> 'a option \<Rightarrow> 'a option" where
  "or_else (Some a) y = Some a"
| "or_else None y = y"

text \<open>A field of a PATCH body: left out, explicitly null, or given.\<close>

datatype 'a patch = Unset | Null | Given 'a

fun patch_value :: "'a patch \<Rightarrow> 'a \<Rightarrow> 'a" where
  "patch_value (Given a) b = a"
| "patch_value _ b = b"

fun patch_option :: "'a patch \<Rightarrow> 'a option \<Rightarrow> 'a option" where
  "patch_option (Given a) b = Some a"
| "patch_option Null b = None"
| "patch_option Unset b = b"

fun patch_given :: "'a patch \<Rightarrow> 'a option" where
  "patch_given (Given a) = Some a"
| "patch_given _ = None"

section \<open>Text of identifiers and random values\<close>

definition hex_char :: "nat \<Rightarrow> char" where
  "hex_char n = ''0123456789abcdef'' ! (n mod 16)"

fun hex_w :: "nat \<Rightarrow> nat \<Rightarrow> string" where
  "hex_w 0 n = []"
| "hex_w (Suc k) n = hex_w k (n div 16) @ [hex_char n]"

text \<open>\<^verbatim>\<open>str(uuid)\<close>: 32 hexadecimal digits in groups of 8-4-4-4-12.\<close>

definition uuid_str :: "uuid \<Rightarrow> string" where
  "uuid_str u =
     (let h = hex_w 32 u in
      take 8 h @ ''-'' @ take 4 (drop 8 h) @ ''-'' @ take 4 (drop 12 h) @ ''-'' @
      take 4 (drop 16 h) @ ''-'' @ drop 20 h)"

definition b64_char :: "nat \<Rightarrow> char" where
  "b64_char n = ''ABCDEFGHIJKLMNOPQRSTUVWXYZabcdefghijklmnopqrstuvwxyz0123456789-_'' ! (n mod 64)"

fun b64_w :: "nat \<Rightarrow> nat \<Rightarrow> string" where
  "b64_w 0 n = []"
| "b64_w (Suc k) n = b64_w k (n div 64) @ [b64_char n]"

text \<open>\<^verbatim>\<open>secrets.token_hex\<close> and \<^verbatim>\<open>secrets.token_urlsafe\<close> of \<open>n\<close>
  bytes, as functions of the random draw: \<open>2 n\<close> hexadecimal digits, and the unpadded
  base64 text of \<open>n\<close> bytes, which has \<open>(4 n + 2) div 3\<close> characters.\<close>

definition token_hex :: "nat \<Rightarrow> nat \<Rightarrow> string" where
  "token_hex n d = hex_w (2 * n) d"

definition token_urlsafe :: "nat \<Rightarrow> nat \<Rightarrow> string" where
  "token_urlsafe n d = b64_w ((4 * n + 2) div 3) d"

lemma length_hex_w [simp]: "length (hex_w k n) = k"
  by (induction k arbitrary: n) auto

lemma length_b64_w [simp]: "length (b64_w k n) = k"
  by (induction k arbitrary: n) auto

lemma length_token_hex [simp]: "length (token_hex n d) = 2 * n"
  by (simp add: token_hex_def)

lemma length_token_urlsafe [simp]: "length (token_urlsafe n d) = (4 * n + 2) div 3"
  by (simp add: token_urlsafe_def)

fun dec_str :: "nat \<Rightarrow> string" where
  "dec_str n = (if n < 10 then [''0123456789'' ! n] else dec_str (n div 10) @ [''0123456789'' ! (n mod 10)])"

declare dec_str.simps [simp del]

definition int_str :: "int \<Rightarrow> string" where
  "int_str i = (if i < 0 then ''-'' @ dec_str (nat (- i)) else dec_str (nat i))"

text \<open>\<^verbatim>\<open>str(date)\<close> in ISO format, \<open>date_of t\<close> being the days since
  1970-01-01 (the civil date of a day number in the proleptic Gregorian calendar).\<close>

definition pad :: "nat \<Rightarrow> string \<Rightarrow> string" where
  "pad k s = replicate (k - length s) (CHR ''0'') @ s"

definition date_str :: "int \<Rightarrow> string" where
  "date_str n =
     (let z = n + 719468;
          era = z div 146097;
          doe = z mod 146097;
          yoe = (doe - doe div 1460 + doe div 36524 - doe div 146096) div 365;
          doy = doe - (365 * yoe + yoe div 4 - yoe div 100);
          mp = (5 * doy + 2) div 153;
          d = doy - (153 * mp + 2) div 5 + 1;
          m = (if mp < 10 then mp + 3 else mp - 9);
          y = yoe + era * 400 + (if m \<le> 2 then 1 else 0)
      in pad 4 (int_str y) @ ''-'' @ pad 2 (int_str m) @ ''-'' @ pad 2 (int_str d))"


section \<open>Ordering by a text column\<close>

text \<open>\<^verbatim>\<open>ORDER BY\<close> on a text column, under the C collation.\<close>

fun str_le :: "string \<Rightarrow> string \<Rightarrow> bool" where
  "str_le [] _ = True"
| "str_le (_ # _) [] = False"
| "str_le (a # s) (b # t) = (of_char a < (of_char b :: nat) \<or> a = b \<and> str_le s t)"

fun insert_by :: "('r \<Rightarrow> string) \<Rightarrow> 'r \<Rightarrow> 'r list \<Rightarrow> 'r list" where
  "insert_by key t [] = [t]"
| "insert_by key t (u # us) = (if str_le (key t) (key u) then t # u # us else u # insert_by key t us)"

definition order_by :: "('r \<Rightarrow> string) \<Rightarrow> 'r list \<Rightarrow> 'r list" where
  "order_by key ts = foldr (insert_by key) ts []"

lemma set_insert_by [simp]: "set (insert_by key t ts) = insert t (set ts)"
  by (induction ts) auto

lemma set_order_by [simp]: "set (order_by key ts) = set ts"
  by (induction ts) (auto simp: order_by_def)

lemma distinct_insert_by: "distinct (map f (insert_by key t ts)) \<longleftrightarrow> distinct (map f (t # ts))"
  by (induction ts) auto

lemma distinct_order_by: "distinct (map f (order_by key ts)) \<longleftrightarrow> distinct (map f ts)"
proof (induction ts)
  case (Cons t ts)
  have "order_by key (t # ts) = insert_by key t (order_by key ts)"
    by (simp add: order_by_def)
  then show ?case
    using Cons by (simp add: distinct_insert_by image_comp [symmetric] del: image_comp)
qed (simp add: order_by_def)


section \<open>Enumerations\<close>

datatype TenantStatus = TenantActive | TenantSuspended | TenantDeactivated | TenantDeleted
datatype TenantType = Company | Individual
datatype ProductStatus = ProductActive | ProductDisabled | ProductArchived
datatype BillingInterval = Month | Year | OneTime
datatype SubscriptionStatus = Trial | Active | PastDue | Grace | Suspended | Cancelled | Expired
datatype InvoiceStatus = InvDraft | InvOpen | InvPaid | InvUncollectible | InvVoid
datatype CreditEntryType = Grant | Debit | Refund | Expiry | Adjustment
datatype JobStatus = Queued | Running | Done | Failed | JobCancelled
datatype TokenType = Access | Refresh

fun tenant_status_value :: "TenantStatus \<Rightarrow> string" where
  "tenant_status_value TenantActive = ''active''"
| "tenant_status_value TenantSuspended = ''suspended''"
| "tenant_status_value TenantDeactivated = ''deactivated''"
| "tenant_status_value TenantDeleted = ''deleted''"

fun tenant_type_value :: "TenantType \<Rightarrow> string" where
  "tenant_type_value Company = ''company''"
| "tenant_type_value Individual = ''individual''"

fun subscription_status_value :: "SubscriptionStatus \<Rightarrow> string" where
  "subscription_status_value Trial = ''trial''"
| "subscription_status_value Active = ''active''"
| "subscription_status_value PastDue = ''past_due''"
| "subscription_status_value Grace = ''grace''"
| "subscription_status_value Suspended = ''suspended''"
| "subscription_status_value Cancelled = ''cancelled''"
| "subscription_status_value Expired = ''expired''"

end
