(* ===== verification/World.thy ===== *)
theory World
  imports Values
begin

text \<open>
  The state the program works on: one record per table of \<^verbatim>\<open>app/models\<close>
  (\<open>Class_column\<close> is the column \<open>column\<close> of the model \<open>Class\<close>), the database as the
  lists of their rows in insertion order, and the world of one request: the database session,
  the context variables of \<^verbatim>\<open>app/core/tenant.py\<close>, the clock, the settings, the
  random draws and the third-party functions the services call (JWT, Argon2, SHA-256, AES-GCM,
  HMAC), which are parameters. The clock does not advance within one operation. Relationship
  attributes are queries on the other table; \<open>created_at\<close> and \<open>updated_at\<close> are kept
  where the code reads them.
\<close>

section \<open>Rows\<close>

record Product =
  Product_id :: uuid
  Product_name :: string
  Product_slug :: string
  Product_description :: "string option"
  Product_status :: ProductStatus
  Product_is_active :: bool
  Product_settings :: dict
  Product_deleted_at :: "time option"

record Tenant =
  Tenant_id :: uuid
  Tenant_product_id :: uuid
  Tenant_name :: string
  Tenant_slug :: string
  Tenant_status :: TenantStatus
  Tenant_type :: TenantType
  Tenant_parent_id :: "uuid option"
  Tenant_is_root :: bool
  Tenant_settings :: dict
  Tenant_expires_at :: "time option"
  Tenant_deleted_at :: "time option"
  Tenant_created_at :: time

text \<open>\<open>User_is_platform_admin\<close> is the attribute \<^verbatim>\<open>get_current_user\<close> sets on its
  transient user; it is False on every stored row.\<close>

record User =
  User_id :: uuid
  User_product_id :: uuid
  User_tenant_id :: uuid
  User_email :: string
  User_password_hash :: string
  User_full_name :: "string option"
  User_is_active :: bool
  User_is_verified :: bool
  User_last_login_at :: "time option"
  User_deleted_at :: "time option"
  User_is_platform_admin :: bool

record RefreshToken =
  RefreshToken_id :: uuid
  RefreshToken_product_id :: uuid
  RefreshToken_user_id :: uuid
  RefreshToken_jti :: uuid
  RefreshToken_expires_at :: time
  RefreshToken_revoked_at :: "time option"
  RefreshToken_user_agent :: "string option"
  RefreshToken_ip_address :: "string option"

record PasswordResetToken =
  PasswordResetToken_id :: uuid
  PasswordResetToken_product_id :: uuid
  PasswordResetToken_user_id :: uuid
  PasswordResetToken_token_hash :: string
  PasswordResetToken_expires_at :: time
  PasswordResetToken_used_at :: "time option"
  PasswordResetToken_requested_ip :: "string option"

record Permission =
  Permission_id :: uuid
  Permission_code :: string
  Permission_description :: "string option"

record RolePermission =
  RolePermission_id :: uuid
  RolePermission_role_id :: uuid
  RolePermission_permission_id :: uuid

record Role =
  Role_id :: uuid
  Role_product_id :: uuid
  Role_tenant_id :: "uuid option"
  Role_name :: string
  Role_description :: "string option"
  Role_is_system :: bool

record UserRole =
  UserRole_id :: uuid
  UserRole_product_id :: uuid
  UserRole_user_id :: uuid
  UserRole_role_id :: uuid
  UserRole_scope_tenant_id :: "uuid option"

record Plan =
  Plan_id :: uuid
  Plan_product_id :: uuid
  Plan_code :: string
  Plan_name :: string
  Plan_description :: "string option"
  Plan_price_cents :: int
  Plan_currency :: string
  Plan_interval :: BillingInterval
  Plan_trial_days :: int
  Plan_is_public :: bool
  Plan_is_active :: bool
  Plan_provider_refs :: dict

record PlanFeature =
  PlanFeature_id :: uuid
  PlanFeature_product_id :: uuid
  PlanFeature_plan_id :: uuid
  PlanFeature_feature_key :: string
  PlanFeature_limit_value :: "int option"
  PlanFeature_credit_amount :: "int option"
  PlanFeature_is_hard_limit :: bool
  PlanFeature_meta :: dict

record Subscription =
  Subscription_id :: uuid
  Subscription_product_id :: uuid
  Subscription_tenant_id :: uuid
  Subscription_plan_id :: uuid
  Subscription_status :: SubscriptionStatus
  Subscription_current_period_start :: time
  Subscription_current_period_end :: time
  Subscription_trial_end :: "time option"
  Subscription_grace_ends_at :: "time option"
  Subscription_cancel_at_period_end :: bool
  Subscription_cancelled_at :: "time option"
  Subscription_provider :: string
  Subscription_provider_subscription_id :: "string option"
  Subscription_provider_customer_id :: "string option"

record Invoice =
  Invoice_id :: uuid
  Invoice_product_id :: uuid
  Invoice_tenant_id :: uuid
  Invoice_subscription_id :: "uuid option"
  Invoice_status :: InvoiceStatus
  Invoice_amount_cents :: int
  Invoice_currency :: string
  Invoice_issued_at :: time
  Invoice_due_at :: time
  Invoice_paid_at :: "time option"
  Invoice_attempt_count :: int
  Invoice_last_attempt_at :: "time option"
  Invoice_next_attempt_at :: "time option"
  Invoice_provider :: string
  Invoice_provider_invoice_id :: "string option"
  Invoice_hosted_invoice_url :: "string option"

record CreditWallet =
  CreditWallet_id :: uuid
  CreditWallet_product_id :: uuid
  CreditWallet_tenant_id :: uuid
  CreditWallet_feature_key :: string
  CreditWallet_balance :: int
  CreditWallet_period_start :: "time option"
  CreditWallet_period_end :: "time option"

record CreditLedger =
  CreditLedger_id :: uuid
  CreditLedger_product_id :: uuid
  CreditLedger_tenant_id :: uuid
  CreditLedger_wallet_id :: uuid
  CreditLedger_entry_type :: CreditEntryType
  CreditLedger_amount :: int
  CreditLedger_balance_after :: int
  CreditLedger_reason :: "string option"
  CreditLedger_reference :: "string option"
  CreditLedger_created_at :: time

record ProductComponent =
  ProductComponent_id :: uuid
  ProductComponent_product_id :: uuid
  ProductComponent_code :: string
  ProductComponent_name :: string
  ProductComponent_description :: "string option"
  ProductComponent_is_default_enabled :: bool
  ProductComponent_is_active :: bool
  ProductComponent_settings :: dict
  ProductComponent_required_plan_codes :: "string list option"

record UserComponentOverride =
  UserComponentOverride_id :: uuid
  UserComponentOverride_product_id :: uuid
  UserComponentOverride_tenant_id :: uuid
  UserComponentOverride_user_id :: uuid
  UserComponentOverride_component_id :: uuid
  UserComponentOverride_is_enabled :: bool
  UserComponentOverride_reason :: "string option"
  UserComponentOverride_set_by_user_id :: "uuid option"
  UserComponentOverride_set_at :: time

record TenantComponentOverride =
  TenantComponentOverride_id :: uuid
  TenantComponentOverride_product_id :: uuid
  TenantComponentOverride_tenant_id :: uuid
  TenantComponentOverride_component_id :: uuid
  TenantComponentOverride_is_enabled :: bool
  TenantComponentOverride_reason :: "string option"
  TenantComponentOverride_set_by_user_id :: "uuid option"
  TenantComponentOverride_set_at :: time

record Job =
  Job_id :: uuid
  Job_product_id :: uuid
  Job_tenant_id :: uuid
  Job_type :: string
  Job_status :: JobStatus
  Job_payload :: dict
  Job_result :: "dict option"
  Job_error :: "(string \<times> string) option"
  Job_progress :: int
  Job_idempotency_key :: "string option"
  Job_reference :: "string option"
  Job_callback_url :: "string option"
  Job_credits_charged :: "int option"
  Job_queued_at :: time
  Job_started_at :: "time option"
  Job_completed_at :: "time option"
  Job_expires_at :: time
  Job_created_by_user_id :: "uuid option"
  Job_acting_from_tenant_id :: "uuid option"

record StorageCollection =
  StorageCollection_id :: uuid
  StorageCollection_product_id :: uuid
  StorageCollection_tenant_id :: uuid
  StorageCollection_name :: string
  StorageCollection_default_ttl_seconds :: int
  StorageCollection_description :: "string option"

record StorageDocument =
  StorageDocument_id :: uuid
  StorageDocument_product_id :: uuid
  StorageDocument_tenant_id :: uuid
  StorageDocument_collection_id :: uuid
  StorageDocument_key :: string
  StorageDocument_value :: dict
  StorageDocument_version :: int
  StorageDocument_expires_at :: "time option"
  StorageDocument_updated_at :: time

record ProductEnvVar =
  ProductEnvVar_id :: uuid
  ProductEnvVar_product_id :: uuid
  ProductEnvVar_key :: string
  ProductEnvVar_value_encrypted :: string
  ProductEnvVar_is_secret :: bool
  ProductEnvVar_description :: "string option"
  ProductEnvVar_last_rotated_at :: time

record ProductServiceToken =
  ProductServiceToken_id :: uuid
  ProductServiceToken_product_id :: uuid
  ProductServiceToken_name :: string
  ProductServiceToken_token_hash :: string
  ProductServiceToken_scopes :: "string list"
  ProductServiceToken_expires_at :: "time option"
  ProductServiceToken_revoked_at :: "time option"
  ProductServiceToken_last_used_at :: "time option"
  ProductServiceToken_last_used_ip :: "string option"
  ProductServiceToken_created_at :: time

record WebhookEndpoint =
  WebhookEndpoint_id :: uuid
  WebhookEndpoint_product_id :: uuid
  WebhookEndpoint_url :: string
  WebhookEndpoint_description :: "string option"
  WebhookEndpoint_secret :: string
  WebhookEndpoint_events :: "string list"
  WebhookEndpoint_is_active :: bool
  WebhookEndpoint_created_at :: time

record WebhookDelivery =
  WebhookDelivery_id :: uuid
  WebhookDelivery_endpoint_id :: uuid
  WebhookDelivery_product_id :: uuid
  WebhookDelivery_event_type :: string
  WebhookDelivery_payload :: dict
  WebhookDelivery_request_id :: "string option"
  WebhookDelivery_attempt :: int
  WebhookDelivery_status :: string
  WebhookDelivery_response_status :: "int option"
  WebhookDelivery_response_body :: "string option"
  WebhookDelivery_delivered_at :: "time option"
  WebhookDelivery_next_retry_at :: "time option"
  WebhookDelivery_created_at :: time

record AuditLog =
  AuditLog_id :: uuid
  AuditLog_product_id :: uuid
  AuditLog_tenant_id :: uuid
  AuditLog_acting_from_tenant_id :: "uuid option"
  AuditLog_actor_user_id :: "uuid option"
  AuditLog_actor_ip :: "string option"
  AuditLog_action :: string
  AuditLog_resource_type :: "string option"
  AuditLog_resource_id :: "uuid option"
  AuditLog_diff :: dict
  AuditLog_request_id :: "string option"
  AuditLog_created_at :: time


section \<open>The database and the world\<close>

record database =
  products :: "Product list"
  tenants :: "Tenant list"
  users :: "User list"
  refresh_tokens :: "RefreshToken list"
  password_reset_tokens :: "PasswordResetToken list"
  permissions :: "Permission list"
  role_permissions :: "RolePermission list"
  roles :: "Role list"
  user_roles :: "UserRole list"
  plans :: "Plan list"
  plan_features :: "PlanFeature list"
  subscriptions :: "Subscription list"
  invoices :: "Invoice list"
  credit_wallets :: "CreditWallet list"
  credit_ledger :: "CreditLedger list"
  product_components :: "ProductComponent list"
  user_component_overrides :: "UserComponentOverride list"
  tenant_component_overrides :: "TenantComponentOverride list"
  jobs :: "Job list"
  storage_collections :: "StorageCollection list"
  storage_documents :: "StorageDocument list"
  product_env_vars :: "ProductEnvVar list"
  product_service_tokens :: "ProductServiceToken list"
  webhook_endpoints :: "WebhookEndpoint list"
  webhook_deliveries :: "WebhookDelivery list"
  audit_log :: "AuditLog list"

definition empty_db :: database where
  "empty_db = \<lparr>products = [], tenants = [], users = [], refresh_tokens = [],
     password_reset_tokens = [], permissions = [], role_permissions = [], roles = [],
     user_roles = [], plans = [], plan_features = [], subscriptions = [], invoices = [],
     credit_wallets = [], credit_ledger = [], product_components = [],
     user_component_overrides = [], tenant_component_overrides = [], jobs = [],
     storage_collections = [], storage_documents = [], product_env_vars = [],
     product_service_tokens = [], webhook_endpoints = [], webhook_deliveries = [],
     audit_log = []\<rparr>"

text \<open>The fields of \<^verbatim>\<open>app.core.config.Settings\<close> that the modelled code reads,
  with the class's defaults.\<close>

record Settings =
  app_env :: string
  jwt_access_ttl_seconds :: int
  jwt_refresh_ttl_seconds :: int
  google_client_id :: string
  google_client_secret :: string
  billing_provider :: string
  default_trial_days :: int
  grace_period_days :: int
  rate_limit_per_minute :: int
  platform_admin_token :: string

definition default_settings :: Settings where
  "default_settings = \<lparr>app_env = ''development'', jwt_access_ttl_seconds = 60 * 15,
     jwt_refresh_ttl_seconds = 60 * 60 * 24 * 30, google_client_id = [],
     google_client_secret = [], billing_provider = ''mock'', default_trial_days = 14,
     grace_period_days = 7, rate_limit_per_minute = 120, platform_admin_token = []\<rparr>"

text \<open>The provider-neutral subscription of \<^verbatim>\<open>providers/billing/base.py\<close>; the price
  is passed through as the plan's JSON value.\<close>

record ProviderSubscription =
  psub_id :: string
  psub_customer_id :: string
  psub_price_id :: json
  psub_status :: string
  psub_current_period_start :: time
  psub_current_period_end :: time
  psub_cancel_at_period_end :: bool

text \<open>The claims of a JWT as \<^verbatim>\<open>issue_token\<close> writes them (instants in seconds).\<close>

record Claims =
  claim_sub :: uuid
  claim_tid :: "uuid option"
  claim_pid :: "uuid option"
  claim_typ :: TokenType
  claim_iat :: int
  claim_exp :: int
  claim_jti :: uuid

text \<open>
  Third-party code the services call. \<open>jwt_encode\<close> signs with the platform's secret;
  \<open>jwt_decode now t\<close> is the payload of a token PyJWT accepts at that instant. \<open>pw_hash\<close>
  and \<open>pw_verify\<close> are Argon2 (the salt is a random draw), \<open>sha256_hex\<close> and
  \<open>hmac_sha256_hex key msg\<close> the digests, \<open>aes_encrypt key nonce plaintext aad\<close> and
  \<open>aes_decrypt key nonce body aad\<close> AES-GCM (None: the tag does not verify), \<open>json_size\<close>
  the length of \<^verbatim>\<open>json.dumps\<close>'s UTF-8 bytes, \<open>env_key\<close> the outcome of the key
  provider.
\<close>

record libs =
  jwt_encode :: "Claims \<Rightarrow> string"
  jwt_decode :: "time \<Rightarrow> string \<Rightarrow> Claims option"
  pw_hash :: "nat \<Rightarrow> string \<Rightarrow> string"
  pw_verify :: "string \<Rightarrow> string \<Rightarrow> bool"
  pw_needs_rehash :: "string \<Rightarrow> bool"
  sha256_hex :: "string \<Rightarrow> string"
  hmac_sha256_hex :: "string \<Rightarrow> string \<Rightarrow> string"
  aes_encrypt :: "string \<Rightarrow> string \<Rightarrow> string \<Rightarrow> string \<Rightarrow> string"
  aes_decrypt :: "string \<Rightarrow> string \<Rightarrow> string \<Rightarrow> string \<Rightarrow> string option"
  json_size :: "dict \<Rightarrow> int"
  env_key :: "app_error + string"

text \<open>
  \<open>draws\<close> is the sequence of values the random source returns (\<^verbatim>\<open>uuid4\<close>, salts,
  nonces, token bytes), \<open>draw_no\<close> the number drawn so far. \<open>audit_new_tx\<close> holds the audit
  rows written in transactions of their own, which a rollback of the request does not undo;
  \<open>slug_cache\<close> and \<open>reminder_keys\<close> are the Redis keys \<^verbatim>\<open>product:slug:*\<close>
  and \<^verbatim>\<open>reminder:*\<close> (the latter with the instant they expire), \<open>sent_mail\<close> the calls of the notification provider,
  \<open>mock_subs\<close> the dictionary of the in-memory billing provider.
\<close>

record world =
  db :: database
  cur_product :: "uuid option"
  cur_tenant :: "uuid option"
  acting_from :: "uuid option"
  product_bypass :: bool
  tenant_bypass :: bool
  request_id :: "string option"
  now :: time
  settings :: Settings
  lib :: libs
  draws :: "nat \<Rightarrow> nat"
  draw_no :: nat
  audit_new_tx :: "AuditLog list"
  redis_up :: bool
  slug_cache :: "(string \<times> (uuid \<times> ProductStatus)) list"
  reminder_keys :: "((uuid \<times> int) \<times> time) list"
  sent_mail :: "(string \<times> dict) list"
  mock_subs :: "ProviderSubscription list"

type_synonym 'a service = "(world, 'a) svc"


section \<open>Random draws\<close>

definition fresh :: "uuid service" where
  "fresh = (\<lambda>w. (Inr (draws w (draw_no w)), w\<lparr>draw_no := Suc (draw_no w)\<rparr>))"

text \<open>What the code relies on when it calls \<^verbatim>\<open>uuid4\<close>: no value comes twice, and
  none is the NIL sentinel.\<close>

definition fresh_ids :: "world \<Rightarrow> bool" where
  "fresh_ids w \<longleftrightarrow> inj (draws w) \<and> (\<forall>n. draws w n \<noteq> NIL)"

text \<open>The identifiers drawn before the present state.\<close>

definition drawn :: "world \<Rightarrow> uuid set" where
  "drawn w = draws w ` {..<draw_no w}"

lemma fresh_apply [svc_simps]:
  "fresh w = (Inr (draws w (draw_no w)), w\<lparr>draw_no := Suc (draw_no w)\<rparr>)"
  by (simp add: fresh_def)

lemma wp_fresh [wp_simps]:
  "wp fresh Q E w = Q (draws w (draw_no w)) (w\<lparr>draw_no := Suc (draw_no w)\<rparr>)"
  by (simp add: wp_def svc_simps)

lemma fresh_not_drawn: "fresh_ids w \<Longrightarrow> draws w (draw_no w) \<notin> drawn w"
  by (auto simp: fresh_ids_def drawn_def inj_def)

lemma drawn_step: "drawn (w\<lparr>draw_no := Suc (draw_no w)\<rparr>) = insert (draws w (draw_no w)) (drawn w)"
  by (auto simp: drawn_def lessThan_Suc)


section \<open>Reading rows\<close>

text \<open>\<^verbatim>\<open>db.scalar(select(R).where(P))\<close> is the first matching row,
  \<^verbatim>\<open>db.scalars\<close> all of them.\<close>

definition scalar :: "(database \<Rightarrow> 'r list) \<Rightarrow> ('r \<Rightarrow> bool) \<Rightarrow> 'r option service" where
  "scalar sel P = gets (\<lambda>w. List.find P (sel (db w)))"

definition scalars :: "(database \<Rightarrow> 'r list) \<Rightarrow> ('r \<Rightarrow> bool) \<Rightarrow> 'r list service" where
  "scalars sel P = gets (\<lambda>w. filter P (sel (db w)))"

lemma scalar_apply [svc_simps]: "scalar sel P w = (Inr (List.find P (sel (db w))), w)"
  by (simp add: scalar_def svc_simps)

lemma scalars_apply [svc_simps]: "scalars sel P w = (Inr (filter P (sel (db w))), w)"
  by (simp add: scalars_def svc_simps)

lemma bindS_reads:
  "bindS (scalar sel P) f w = f (List.find P (sel (db w))) w"
  "bindS (scalars sel P) f2 w = f2 (filter P (sel (db w))) w"
  "bindS (gets g) f3 w = f3 (g w) w"
  by (simp_all add: svc_simps)

lemma wp_scalar [wp_simps]: "wp (scalar sel P) Q E w = Q (List.find P (sel (db w))) w"
  by (simp add: scalar_def wp_simps)

lemma wp_scalars [wp_simps]: "wp (scalars sel P) Q E w = Q (filter P (sel (db w))) w"
  by (simp add: scalars_def wp_simps)

lemma keeps_scalar [keeps_intros]: "keeps I (scalar sel P)"
  by (simp add: scalar_def keeps_gets)

lemma keeps_scalars [keeps_intros]: "keeps I (scalars sel P)"
  by (simp add: scalars_def keeps_gets)

lemma frames_scalar [frames_intros]: "frames g (scalar sel P)"
  by (simp add: scalar_def frames_gets)

lemma frames_scalars [frames_intros]: "frames g (scalars sel P)"
  by (simp add: scalars_def frames_gets)


section \<open>Writing rows\<close>

text \<open>
  \<^verbatim>\<open>db.add(row)\<close> with its flush: \<open>clash\<close> says which stored rows a unique
  constraint of the table makes the row collide with (\<open>IntegrityError\<close> then). Attribute
  assignments on a loaded row and bulk updates are \<open>update_rows\<close>.
\<close>

definition insert_row ::
    "(database \<Rightarrow> 'r list) \<Rightarrow> (('r list \<Rightarrow> 'r list) \<Rightarrow> database \<Rightarrow> database) \<Rightarrow>
     ('r \<Rightarrow> 'r \<Rightarrow> bool) \<Rightarrow> 'r \<Rightarrow> unit service" where
  "insert_row sel upd clash r =
     (\<lambda>w. if \<exists>x \<in> set (sel (db w)). clash x r then (Inl IntegrityError, w)
          else (Inr (), w\<lparr>db := upd (\<lambda>rs. rs @ [r]) (db w)\<rparr>))"

definition update_rows ::
    "(('r list \<Rightarrow> 'r list) \<Rightarrow> database \<Rightarrow> database) \<Rightarrow> ('r \<Rightarrow> bool) \<Rightarrow> ('r \<Rightarrow> 'r) \<Rightarrow> unit service" where
  "update_rows upd P f = modify (\<lambda>w. w\<lparr>db := upd (map_rows P f) (db w)\<rparr>)"

definition delete_rows ::
    "(('r list \<Rightarrow> 'r list) \<Rightarrow> database \<Rightarrow> database) \<Rightarrow> ('r \<Rightarrow> bool) \<Rightarrow> unit service" where
  "delete_rows upd P = modify (\<lambda>w. w\<lparr>db := upd (filter (\<lambda>r. \<not> P r)) (db w)\<rparr>)"

text \<open>A table without a unique constraint besides its random primary key.\<close>

abbreviation no_clash :: "'r \<Rightarrow> 'r \<Rightarrow> bool" where
  "no_clash \<equiv> (\<lambda>_ _. False)"

lemma insert_row_apply [svc_simps]:
  "insert_row sel upd clash r w =
     (if \<exists>x \<in> set (sel (db w)). clash x r then (Inl IntegrityError, w)
      else (Inr (), w\<lparr>db := upd (\<lambda>rs. rs @ [r]) (db w)\<rparr>))"
  by (simp add: insert_row_def)

lemma update_rows_apply [svc_simps]:
  "update_rows upd P f w = (Inr (), w\<lparr>db := upd (map_rows P f) (db w)\<rparr>)"
  by (simp add: update_rows_def svc_simps)

lemma delete_rows_apply [svc_simps]:
  "delete_rows upd P w = (Inr (), w\<lparr>db := upd (filter (\<lambda>r. \<not> P r)) (db w)\<rparr>)"
  by (simp add: delete_rows_def svc_simps)

lemma wp_insert_row [wp_simps]:
  "wp (insert_row sel upd clash r) Q E w =
     (if \<exists>x \<in> set (sel (db w)). clash x r then E IntegrityError w
      else Q () (w\<lparr>db := upd (\<lambda>rs. rs @ [r]) (db w)\<rparr>))"
  by (simp add: wp_def svc_simps)

lemma wp_update_rows [wp_simps]:
  "wp (update_rows upd P f) Q E w = Q () (w\<lparr>db := upd (map_rows P f) (db w)\<rparr>)"
  by (simp add: wp_def svc_simps)

lemma wp_delete_rows [wp_simps]:
  "wp (delete_rows upd P) Q E w = Q () (w\<lparr>db := upd (filter (\<lambda>r. \<not> P r)) (db w)\<rparr>)"
  by (simp add: wp_def svc_simps)

lemma returns_reads [returns_intros]:
  "returns (scalar sel P)" "returns (scalars sel P)" "returns fresh"
  "returns (update_rows upd P f)" "returns (delete_rows upd P)"
  by (simp_all add: returns_def svc_simps)

text \<open>Writing one table leaves whatever the update leaves alone.\<close>

lemma frames_insert_row:
  "(\<And>w f. g (w\<lparr>db := upd f (db w)\<rparr>) = g w) \<Longrightarrow> frames g (insert_row sel upd clash r)"
  by (simp add: frames_def svc_simps)

lemma frames_update_rows:
  "(\<And>w f. g (w\<lparr>db := upd f (db w)\<rparr>) = g w) \<Longrightarrow> frames g (update_rows upd P f)"
  by (simp add: frames_def svc_simps)

lemma frames_delete_rows:
  "(\<And>w f. g (w\<lparr>db := upd f (db w)\<rparr>) = g w) \<Longrightarrow> frames g (delete_rows upd P)"
  by (simp add: frames_def svc_simps)

lemma frames_fresh: "(\<And>w n. g (w\<lparr>draw_no := n\<rparr>) = g w) \<Longrightarrow> frames g fresh"
  by (simp add: frames_def svc_simps)

lemmas frames_writes = frames_insert_row frames_update_rows frames_delete_rows frames_fresh
  frames_modify

declare frames_writes [frames_intros]


text \<open>Writing one table keeps an invariant the update keeps.\<close>

lemma keeps_insert_row:
  "(\<And>w. I w \<Longrightarrow> I (w\<lparr>db := upd (\<lambda>rs. rs @ [r]) (db w)\<rparr>)) \<Longrightarrow> keeps I (insert_row sel upd clash r)"
  by (simp add: keeps_def svc_simps)

lemma keeps_update_rows:
  "(\<And>w. I w \<Longrightarrow> I (w\<lparr>db := upd (map_rows P f) (db w)\<rparr>)) \<Longrightarrow> keeps I (update_rows upd P f)"
  by (simp add: keeps_def svc_simps)

lemma keeps_delete_rows:
  "(\<And>w. I w \<Longrightarrow> I (w\<lparr>db := upd (filter (\<lambda>r. \<not> P r)) (db w)\<rparr>)) \<Longrightarrow> keeps I (delete_rows upd P)"
  by (simp add: keeps_def svc_simps)

lemma keeps_fresh: "(\<And>w. I w \<Longrightarrow> I (w\<lparr>draw_no := Suc (draw_no w)\<rparr>)) \<Longrightarrow> keeps I fresh"
  by (simp add: keeps_def svc_simps)

text \<open>A new row under a fresh identifier: the write happens only when no stored row collides.\<close>

lemma keeps_fresh_insert:
  assumes "\<And>w. I w \<Longrightarrow> \<forall>x \<in> set (sel (db w)). \<not> clash x (r (draws w (draw_no w))) \<Longrightarrow>
      I (w\<lparr>draw_no := Suc (draw_no w), db := upd (\<lambda>rs. rs @ [r (draws w (draw_no w))]) (db w)\<rparr>)"
    and "\<And>w. I w \<Longrightarrow> I (w\<lparr>draw_no := Suc (draw_no w)\<rparr>)"
    and "\<And>i u. keeps I (g i u)"
  shows "keeps I (bindS fresh (\<lambda>i. bindS (insert_row sel upd clash (r i)) (g i)))"
  using assms by (auto simp: keeps_def svc_simps)

lemma keeps_fresh_insert_last:
  assumes "\<And>w. I w \<Longrightarrow> \<forall>x \<in> set (sel (db w)). \<not> clash x (r (draws w (draw_no w))) \<Longrightarrow>
      I (w\<lparr>draw_no := Suc (draw_no w), db := upd (\<lambda>rs. rs @ [r (draws w (draw_no w))]) (db w)\<rparr>)"
    and "\<And>w. I w \<Longrightarrow> I (w\<lparr>draw_no := Suc (draw_no w)\<rparr>)"
  shows "keeps I (bindS fresh (\<lambda>i. insert_row sel upd clash (r i)))"
  using assms by (auto simp: keeps_def svc_simps)

lemmas keeps_writes = keeps_insert_row keeps_update_rows keeps_delete_rows keeps_fresh keeps_modify


section \<open>Quiet operations\<close>

text \<open>What a call of an outside service may do to the state: use up random draws and change its
  own records, but neither the database nor the clock or the settings.\<close>

definition quiet_step :: "world \<Rightarrow> world \<Rightarrow> bool" where
  "quiet_step w w' \<longleftrightarrow> db w' = db w \<and> now w' = now w \<and> settings w' = settings w \<and> lib w' = lib w \<and>
     draws w' = draws w \<and> draw_no w \<le> draw_no w' \<and> cur_product w' = cur_product w \<and>
     cur_tenant w' = cur_tenant w"

definition quiet :: "'a service \<Rightarrow> bool" where
  "quiet m \<longleftrightarrow> (\<forall>w. quiet_step w (snd (m w)))"

named_theorems quiet_intros "calls that leave the database alone"

lemma quietD: "quiet m \<Longrightarrow> m w = (r, w') \<Longrightarrow> quiet_step w w'"
  by (auto simp: quiet_def dest!: spec [of _ w])

lemma quiet_pure [quiet_intros]: "quiet (ret a)" "quiet (raise e)" "quiet (gets f)" "quiet (liftE r)"
  by (simp_all add: quiet_def quiet_step_def svc_simps)

lemma quiet_fresh [quiet_intros]: "quiet fresh"
  by (simp add: quiet_def quiet_step_def svc_simps)

lemma quiet_modify: "(\<And>w. quiet_step w (f w)) \<Longrightarrow> quiet (modify f)"
  by (simp add: quiet_def svc_simps)

lemma quiet_step_trans: "quiet_step w v \<Longrightarrow> quiet_step v u \<Longrightarrow> quiet_step w u"
  by (auto simp: quiet_step_def)

lemma quiet_bindS [quiet_intros]:
  assumes "quiet m" and "\<And>a. quiet (f a)"
  shows "quiet (bindS m f)"
  unfolding quiet_def
proof
  fix w
  obtain r v where m: "m w = (r, v)" by (cases "m w")
  then have v: "quiet_step w v" using quietD [OF assms(1)] by blast
  show "quiet_step w (snd (bindS m f w))"
  proof (cases r)
    case (Inl e)
    then show ?thesis using m v by (simp add: svc_simps)
  next
    case (Inr a)
    have "quiet_step v (snd (f a v))" using assms(2) by (simp add: quiet_def)
    then show ?thesis using m v Inr quiet_step_trans by (auto simp: svc_simps)
  qed
qed

lemma quiet_if [quiet_intros]: "quiet m \<Longrightarrow> quiet n \<Longrightarrow> quiet (if b then m else n)"
  by simp

lemma quiet_option [quiet_intros]:
  "quiet m \<Longrightarrow> (\<And>a. quiet (f a)) \<Longrightarrow> quiet (case x of None \<Rightarrow> m | Some a \<Rightarrow> f a)"
  by (cases x) simp_all

lemma quiet_reads [quiet_intros]: "quiet (scalar sel P)" "quiet (scalars sel P)"
  by (simp_all add: quiet_def quiet_step_def svc_simps)

lemma quiet_prod [quiet_intros]: "(\<And>a b. quiet (f a b)) \<Longrightarrow> quiet (case p of (a, b) \<Rightarrow> f a b)"
  by (cases p) simp

lemma quiet_let: "quiet (f a) \<Longrightarrow> quiet (let x = a in f x)"
  by simp

lemma keeps_quiet:
  assumes "quiet m" and "\<And>w w'. quiet_step w w' \<Longrightarrow> I w \<Longrightarrow> I w'"
  shows "keeps I m"
  using assms by (auto simp: keeps_def quiet_def)


lemma wp_quiet:
  assumes "quiet m" and "\<And>a w'. quiet_step w w' \<Longrightarrow> Q a w'" and "\<And>e w'. quiet_step w w' \<Longrightarrow> E e w'"
  shows "wp m Q E w"
  using quietD [OF assms(1)] assms(2,3) by (auto simp: wp_def split: prod.splits sum.splits)


section \<open>Transactions\<close>

text \<open>
  \<^verbatim>\<open>app.core.database.session_scope\<close>: the session of a request or a task commits
  when the body returns and rolls back when it raises. Only the database is transactional.
\<close>

definition session_scope :: "'a service \<Rightarrow> 'a service" where
  "session_scope m =
     (\<lambda>w. case m w of (Inr a, w') \<Rightarrow> (Inr a, w') | (Inl e, w') \<Rightarrow> (Inl e, w'\<lparr>db := db w\<rparr>))"

lemma session_scope_rollback:
  "session_scope m w = (Inl e, w') \<Longrightarrow> db w' = db w"
  by (auto simp: session_scope_def split: prod.splits sum.splits)

end
