(* ===== verification/AuditTrail.thy ===== *)
theory AuditTrail
  imports World
begin

text \<open>
  The request context of \<^verbatim>\<open>app/core/tenant.py\<close> (context variables and the two
  bypass context managers) and the audit log of \<^verbatim>\<open>app/services/audit.py\<close>. The bypass
  flags are read by \<^verbatim>\<open>TenantRepository\<close> only (theory \<open>Repository\<close>): the services
  issue explicit queries, so their definitions omit the \<^verbatim>\<open>with bypass_...\<close> blocks
  around them.
\<close>

section \<open>Context variables\<close>

definition set_current_product :: "uuid option \<Rightarrow> unit service" where
  "set_current_product p = modify (\<lambda>w. w\<lparr>cur_product := p\<rparr>)"

definition current_product_id :: "world \<Rightarrow> uuid option" where
  "current_product_id w = cur_product w"

definition is_product_bypass :: "world \<Rightarrow> bool" where
  "is_product_bypass w = product_bypass w"

definition bypass_product :: "'a service \<Rightarrow> 'a service" where
  "bypass_product m =
     (\<lambda>w. let (r, w') = m (w\<lparr>product_bypass := True\<rparr>)
          in (r, w'\<lparr>product_bypass := product_bypass w\<rparr>))"

definition set_current_tenant :: "uuid option \<Rightarrow> unit service" where
  "set_current_tenant t = modify (\<lambda>w. w\<lparr>cur_tenant := t\<rparr>)"

definition current_tenant_id :: "world \<Rightarrow> uuid option" where
  "current_tenant_id w = cur_tenant w"

definition set_acting_from_tenant :: "uuid option \<Rightarrow> unit service" where
  "set_acting_from_tenant t = modify (\<lambda>w. w\<lparr>acting_from := t\<rparr>)"

definition acting_from_tenant_id :: "world \<Rightarrow> uuid option" where
  "acting_from_tenant_id w = acting_from w"

definition is_bypass :: "world \<Rightarrow> bool" where
  "is_bypass w = tenant_bypass w"

definition bypass_tenant :: "'a service \<Rightarrow> 'a service" where
  "bypass_tenant m =
     (\<lambda>w. let (r, w') = m (w\<lparr>tenant_bypass := True\<rparr>)
          in (r, w'\<lparr>tenant_bypass := tenant_bypass w\<rparr>))"

lemmas context_defs = set_current_product_def current_product_id_def is_product_bypass_def
  set_current_tenant_def current_tenant_id_def set_acting_from_tenant_def
  acting_from_tenant_id_def is_bypass_def

text \<open>A bypass ends with the flag as it was, also when the body raises.\<close>

lemma bypass_product_restores: "product_bypass (snd (bypass_product m w)) = product_bypass w"
  by (simp add: bypass_product_def Let_def split: prod.splits)

lemma bypass_tenant_restores: "tenant_bypass (snd (bypass_tenant m w)) = tenant_bypass w"
  by (simp add: bypass_tenant_def Let_def split: prod.splits)


section \<open>Writing the audit log\<close>

text \<open>The keyword arguments of \<^verbatim>\<open>audit.record\<close>, with their defaults.\<close>

record audit_args =
  a_action :: string
  a_actor_user_id :: "uuid option"
  a_actor_ip :: "string option"
  a_resource_type :: "string option"
  a_resource_id :: "uuid option"
  a_diff :: dict
  a_tenant_id :: "uuid option"
  a_product_id :: "uuid option"
  a_acting_from_override :: "uuid option"

definition act :: "string \<Rightarrow> audit_args" where
  "act a = \<lparr>a_action = a, a_actor_user_id = None, a_actor_ip = None, a_resource_type = None,
     a_resource_id = None, a_diff = [], a_tenant_id = None, a_product_id = None,
     a_acting_from_override = None\<rparr>"

text \<open>The scope of an entry: the argument, else the context variable; the NIL sentinel of an
  empty product counts as no tenant.\<close>

definition audit_tid :: "audit_args \<Rightarrow> world \<Rightarrow> uuid option" where
  "audit_tid a w =
     (let tid = (case a_tenant_id a of Some t \<Rightarrow> Some t | None \<Rightarrow> current_tenant_id w)
      in if tid = Some NIL then None else tid)"

definition audit_pid :: "audit_args \<Rightarrow> world \<Rightarrow> uuid option" where
  "audit_pid a w = (case a_product_id a of Some p \<Rightarrow> Some p | None \<Rightarrow> current_product_id w)"

definition audit_acting_from :: "audit_args \<Rightarrow> uuid \<Rightarrow> world \<Rightarrow> uuid option" where
  "audit_acting_from a tid w =
     (let acting_from = (case a_acting_from_override a of
                           Some t \<Rightarrow> Some t | None \<Rightarrow> acting_from_tenant_id w)
      in if acting_from = Some tid then None else acting_from)"

definition audit_entry :: "audit_args \<Rightarrow> uuid \<Rightarrow> uuid \<Rightarrow> uuid option \<Rightarrow> string option \<Rightarrow> uuid \<Rightarrow> time \<Rightarrow> AuditLog" where
  "audit_entry a tid pid af rid i t =
     \<lparr>AuditLog_id = i, AuditLog_product_id = pid, AuditLog_tenant_id = tid,
      AuditLog_acting_from_tenant_id = af,
      AuditLog_actor_user_id = a_actor_user_id a, AuditLog_actor_ip = a_actor_ip a,
      AuditLog_action = a_action a, AuditLog_resource_type = a_resource_type a,
      AuditLog_resource_id = a_resource_id a, AuditLog_diff = a_diff a,
      AuditLog_request_id = rid, AuditLog_created_at = t\<rparr>"

definition record_audit :: "audit_args \<Rightarrow> unit service" where
  "record_audit a =
     bindS (gets (audit_tid a)) (\<lambda>tid.
     bindS (gets (audit_pid a)) (\<lambda>pid.
     case tid of None \<Rightarrow> ret () | Some tid \<Rightarrow>
     (case pid of None \<Rightarrow> ret () | Some pid \<Rightarrow>
     bindS (gets (audit_acting_from a tid)) (\<lambda>acting_from.
     bindS (gets request_id) (\<lambda>rid.
     bindS (gets now) (\<lambda>t.
     bindS fresh (\<lambda>i.
     insert_row audit_log audit_log_update no_clash
       (audit_entry a tid pid acting_from rid i t))))))))"

text \<open>\<^verbatim>\<open>audit_action\<close>: the block runs and returns its extra diff entries; the entry
  is written on a clean exit only, and an exception of the block passes through.\<close>

definition dict_merge :: "dict \<Rightarrow> dict \<Rightarrow> dict" where
  "dict_merge d e = filter (\<lambda>(k, _). k \<notin> fst ` set e) d @ e"

definition audit_action :: "audit_args \<Rightarrow> (dict \<times> 'a) service \<Rightarrow> 'a service" where
  "audit_action a body =
     bindS body (\<lambda>(extras, r).
     bindS (record_audit (a\<lparr>a_diff := dict_merge (a_diff a) extras\<rparr>)) (\<lambda>_.
     ret r))"


section \<open>What an audit record changes\<close>

text \<open>An entry never names the NIL tenant and never names its own tenant as the one acted from.\<close>

definition audit_ok :: "AuditLog \<Rightarrow> bool" where
  "audit_ok e \<longleftrightarrow> AuditLog_tenant_id e \<noteq> NIL \<and>
     AuditLog_acting_from_tenant_id e \<noteq> Some (AuditLog_tenant_id e)"

text \<open>The world after a record: at most one value is drawn and at most one row appended, and
  nothing else is touched. The equations below let the simplifier read every other part of the
  state through a record.\<close>

definition audited :: "audit_args \<Rightarrow> world \<Rightarrow> world" where
  "audited a w =
     (case (audit_tid a w, audit_pid a w) of
        (Some tid, Some pid) \<Rightarrow>
          w\<lparr>draw_no := Suc (draw_no w),
            db := audit_log_update (\<lambda>rs. rs @ [audit_entry a tid pid (audit_acting_from a tid w)
              (request_id w) (draws w (draw_no w)) (now w)]) (db w)\<rparr>
      | _ \<Rightarrow> w)"

lemma record_audit_apply [svc_simps]: "record_audit a w = (Inr (), audited a w)"
  by (simp add: record_audit_def audited_def svc_simps split: option.splits)

text \<open>The rules that take a run that returned apart, step by step.\<close>

lemmas inr_simps = bindS_Inr_iff ret_apply raise_apply gets_apply modify_apply liftE_apply if_apply
  option_case_apply fresh_apply scalar_apply scalars_apply insert_row_apply update_rows_apply
  delete_rows_apply record_audit_apply

lemma returns_record_audit [returns_intros]: "returns (record_audit a)"
  by (simp add: returns_def record_audit_apply)

lemma wp_record_audit [wp_simps]: "wp (record_audit a) Q E w = Q () (audited a w)"
  by (simp add: wp_def svc_simps)

lemma audited_world [simp]:
  "cur_product (audited a w) = cur_product w" "cur_tenant (audited a w) = cur_tenant w"
  "acting_from (audited a w) = acting_from w" "product_bypass (audited a w) = product_bypass w"
  "tenant_bypass (audited a w) = tenant_bypass w" "request_id (audited a w) = request_id w"
  "now (audited a w) = now w" "settings (audited a w) = settings w" "lib (audited a w) = lib w"
  "draws (audited a w) = draws w" "audit_new_tx (audited a w) = audit_new_tx w"
  "redis_up (audited a w) = redis_up w" "slug_cache (audited a w) = slug_cache w"
  "reminder_keys (audited a w) = reminder_keys w" "sent_mail (audited a w) = sent_mail w"
  "mock_subs (audited a w) = mock_subs w"
  by (simp_all add: audited_def split: option.splits)

lemma audited_db [simp]:
  "products (db (audited a w)) = products (db w)" "tenants (db (audited a w)) = tenants (db w)"
  "users (db (audited a w)) = users (db w)"
  "refresh_tokens (db (audited a w)) = refresh_tokens (db w)"
  "password_reset_tokens (db (audited a w)) = password_reset_tokens (db w)"
  "permissions (db (audited a w)) = permissions (db w)"
  "role_permissions (db (audited a w)) = role_permissions (db w)"
  "roles (db (audited a w)) = roles (db w)" "user_roles (db (audited a w)) = user_roles (db w)"
  "plans (db (audited a w)) = plans (db w)"
  "plan_features (db (audited a w)) = plan_features (db w)"
  "subscriptions (db (audited a w)) = subscriptions (db w)"
  "invoices (db (audited a w)) = invoices (db w)"
  "credit_wallets (db (audited a w)) = credit_wallets (db w)"
  "credit_ledger (db (audited a w)) = credit_ledger (db w)"
  "product_components (db (audited a w)) = product_components (db w)"
  "user_component_overrides (db (audited a w)) = user_component_overrides (db w)"
  "tenant_component_overrides (db (audited a w)) = tenant_component_overrides (db w)"
  "jobs (db (audited a w)) = jobs (db w)"
  "storage_collections (db (audited a w)) = storage_collections (db w)"
  "storage_documents (db (audited a w)) = storage_documents (db w)"
  "product_env_vars (db (audited a w)) = product_env_vars (db w)"
  "product_service_tokens (db (audited a w)) = product_service_tokens (db w)"
  "webhook_endpoints (db (audited a w)) = webhook_endpoints (db w)"
  "webhook_deliveries (db (audited a w)) = webhook_deliveries (db w)"
  by (simp_all add: audited_def split: option.splits)

lemma audit_entry_simps [simp]:
  "AuditLog_id (audit_entry a t p f r i c) = i" "AuditLog_tenant_id (audit_entry a t p f r i c) = t"
  "AuditLog_product_id (audit_entry a t p f r i c) = p"
  "AuditLog_acting_from_tenant_id (audit_entry a t p f r i c) = f"
  "AuditLog_action (audit_entry a t p f r i c) = a_action a"
  "AuditLog_diff (audit_entry a t p f r i c) = a_diff a"
  "AuditLog_resource_id (audit_entry a t p f r i c) = a_resource_id a"
  "AuditLog_actor_user_id (audit_entry a t p f r i c) = a_actor_user_id a"
  by (simp_all add: audit_entry_def)

text \<open>What is appended: nothing, or one well-formed entry of the call's scope.\<close>

lemma audited_log:
  "audit_log (db (audited a w)) = audit_log (db w) \<or>
   (\<exists>e. audit_log (db (audited a w)) = audit_log (db w) @ [e] \<and> audit_ok e
      \<and> AuditLog_action e = a_action a \<and> audit_tid a w = Some (AuditLog_tenant_id e)
      \<and> audit_pid a w = Some (AuditLog_product_id e))"
proof (cases "audit_tid a w")
  case None
  then show ?thesis by (simp add: audited_def)
next
  case tid: (Some tid)
  show ?thesis
  proof (cases "audit_pid a w")
    case None
    then show ?thesis by (simp add: audited_def tid)
  next
    case pid: (Some pid)
    have "tid \<noteq> NIL"
      using tid by (auto simp: audit_tid_def Let_def split: if_splits)
    moreover have "audit_acting_from a tid w \<noteq> Some tid"
      by (simp add: audit_acting_from_def Let_def)
    ultimately show ?thesis
      by (simp add: audited_def tid pid audit_ok_def)
  qed
qed

lemma audited_draws: "draw_no w \<le> draw_no (audited a w)" "draw_no (audited a w) \<le> Suc (draw_no w)"
  by (simp_all add: audited_def split: option.splits)

lemma audited_draw_le [simp]: "k \<le> draw_no v \<Longrightarrow> k \<le> draw_no (audited b v)" "k < draw_no v \<Longrightarrow> k < draw_no (audited b v)"
  using audited_draws(1) [of v b] by simp_all

lemma frames_record_audit [frames_intros]:
  "(\<And>w n. g (w\<lparr>draw_no := n\<rparr>) = g w) \<Longrightarrow>
   (\<And>w f. g (w\<lparr>db := audit_log_update f (db w)\<rparr>) = g w) \<Longrightarrow> frames g (record_audit a)"
  unfolding record_audit_def by (intro frames_intros) simp_all

text \<open>A property that reads neither the audit log nor the draw counter survives a record.\<close>

lemma keeps_record_audit: "(\<And>w. I w \<Longrightarrow> I (audited a w)) \<Longrightarrow> keeps I (record_audit a)"
  by (simp add: keeps_def svc_simps)


section \<open>The audit log has well-formed entries\<close>

definition audit_log_ok :: "world \<Rightarrow> bool" where
  "audit_log_ok w \<longleftrightarrow> (\<forall>e \<in> set (audit_log (db w)). audit_ok e)"

lemma keeps_audit_log_ok_record [keeps_intros]: "keeps audit_log_ok (record_audit a)"
proof (rule keepsI)
  fix w assume "audit_log_ok w"
  then show "audit_log_ok (snd (record_audit a w))"
    using audited_log [of a w] by (auto simp: audit_log_ok_def svc_simps)
qed

end
