(* ===== verification/Interfaces.thy ===== *)
theory Interfaces
  imports AuditTrail
begin

text \<open>
  The contracts that several components share, each stated once as a locale with what follows
  from it: operations that are idempotent by a caller's reference (grants, debits, jobs) and
  credentials that stop working (refresh and reset tokens, service tokens), and tables whose rows are
  looked up by a key (documents, environment variables). The component that provides the operations interprets the locale on its own definitions.
\<close>

section \<open>Operations that are idempotent by reference\<close>

text \<open>
  \<open>op k (Some r)\<close> is the operation with arguments \<open>k\<close> and the caller's reference
  \<open>r\<close>; \<open>ident k\<close> is the object the reference is looked up under, \<open>valid k\<close> the argument
  check that comes before the lookup. The provider promises that a successful call leaves the
  reference booked, and that a valid call under a booked reference returns without a write.
\<close>

locale idempotent_by_reference =
  fixes op :: "'k \<Rightarrow> string option \<Rightarrow> ('w, 'a) svc"
    and ident :: "'k \<Rightarrow> 'i"
    and valid :: "'k \<Rightarrow> bool"
    and seen :: "'i \<Rightarrow> string \<Rightarrow> 'w \<Rightarrow> bool"
  assumes booked: "r \<noteq> [] \<Longrightarrow> op k (Some r) w = (Inr a, w') \<Longrightarrow> seen (ident k) r w'"
    and skipped: "r \<noteq> [] \<Longrightarrow> seen (ident k) r w \<Longrightarrow> valid k \<Longrightarrow> \<exists>a. op k (Some r) w = (Inr a, w)"
begin

text \<open>A retry with the same reference, even with other arguments, returns and writes nothing.\<close>

lemma replay:
  assumes "r \<noteq> []" and "op k (Some r) w = (Inr a, w')" and "ident k' = ident k" and "valid k'"
  shows "\<exists>b. op k' (Some r) w' = (Inr b, w')"
  using skipped [of r k' w'] booked [OF assms(1,2)] assms by simp

text \<open>Any number of retries has the effect of one call.\<close>

lemma replays:
  assumes "r \<noteq> []" and "op k (Some r) w = (Inr a, w')"
    and "\<And>k'. k' \<in> set ks \<Longrightarrow> ident k' = ident k \<and> valid k'"
  shows "forS ks (\<lambda>k'. bindS (op k' (Some r)) (\<lambda>_. ret ())) w' = (Inr (), w')"
  using assms(3)
proof (induction ks)
  case Nil
  then show ?case by (simp add: svc_simps)
next
  case (Cons k' ks)
  obtain b where "op k' (Some r) w' = (Inr b, w')"
    using replay [OF assms(1,2), of k'] Cons.prems by auto
  then show ?case
    using Cons by (simp add: svc_simps)
qed

end

section \<open>Credentials that die\<close>

text \<open>
  \<open>use t\<close> presents a credential (with whatever else the call carries), \<open>token t\<close> is the
  credential itself. No step of the component revives a dead credential, and a dead one is
  refused. \<open>ok\<close> is what the component assumes of the state.
\<close>

locale revocable =
  fixes use :: "'t \<Rightarrow> ('w, 'a) svc"
    and token :: "'t \<Rightarrow> 'k"
    and dead :: "'k \<Rightarrow> 'w \<Rightarrow> bool"
    and ok :: "'w \<Rightarrow> bool"
    and step :: "'w \<Rightarrow> 'w \<Rightarrow> bool"
  assumes keeps_ok: "step w w' \<Longrightarrow> ok w \<Longrightarrow> ok w'"
    and stays_dead: "step w w' \<Longrightarrow> ok w \<Longrightarrow> dead k w \<Longrightarrow> dead k w'"
    and refused: "ok w \<Longrightarrow> dead (token t) w \<Longrightarrow> \<exists>e. fst (use t w) = Inl e"
begin

lemma ok_forever: "step\<^sup>*\<^sup>* w w' \<Longrightarrow> ok w \<Longrightarrow> ok w'"
  by (induction rule: rtranclp_induct) (blast intro: keeps_ok)+

lemma dead_forever:
  assumes "step\<^sup>*\<^sup>* w w'" and "ok w" and "dead k w"
  shows "ok w' \<and> dead k w'"
  using assms by (induction rule: rtranclp_induct) (blast intro: keeps_ok stays_dead)+

lemma refused_forever: "step\<^sup>*\<^sup>* w w' \<Longrightarrow> ok w \<Longrightarrow> dead (token t) w \<Longrightarrow> \<exists>e. fst (use t w') = Inl e"
  using dead_forever refused by blast

end

text \<open>Tokens that work once: a redemption that succeeds leaves the token dead.\<close>

locale single_use = revocable +
  assumes kills: "ok w \<Longrightarrow> use t w = (Inr a, w') \<Longrightarrow> dead (token t) w'"
    and uses: "use t w = (r, w') \<Longrightarrow> step w w'"
begin

text \<open>After a redemption, whatever the component does next, no further one succeeds.\<close>

lemma once:
  assumes "ok w" and "use t w = (Inr a, w')" and "step\<^sup>*\<^sup>* w' w''" and "token t' = token t"
  shows "\<exists>e. fst (use t' w'') = Inl e"
proof -
  have "ok w'" using keeps_ok uses assms(1,2) by blast
  then show ?thesis
    using refused_forever [OF assms(3), of t'] kills [OF assms(1,2)] assms(4) by simp
qed

end

section \<open>Tables looked up by a key\<close>

text \<open>
  \<open>at k\<close> is the query for the row with key \<open>k\<close>, \<open>rid\<close> the primary key an update or a delete
  goes by, \<open>clash\<close> the unique constraint on the key columns. A row has one key, and two rows with
  one key clash. Then a write under one key is seen under that key and under no other.
\<close>

locale keyed_rows =
  fixes at :: "'k \<Rightarrow> 'r \<Rightarrow> bool"
    and rid :: "'r \<Rightarrow> 'i"
    and clash :: "'r \<Rightarrow> 'r \<Rightarrow> bool"
  assumes one_key: "at k r \<Longrightarrow> at k' r \<Longrightarrow> k' = k"
    and at_clash: "at k x \<Longrightarrow> at k y \<Longrightarrow> clash x y"
begin

lemma find_insert:
  assumes "at k r" and "List.find (at k) rs = None"
  shows "List.find (at k') (rs @ [r]) = (if k' = k then Some r else List.find (at k') rs)"
proof (cases "k' = k")
  case False
  then have "\<not> at k' r" using one_key [OF assms(1)] by blast
  then show ?thesis using False by (simp add: find_append split: option.splits)
qed (use assms in \<open>simp add: find_append\<close>)

lemma find_update:
  assumes r: "List.find (at k) rs = Some r" and ids: "distinct (map rid rs)"
    and f: "\<And>k x. at k (f x) = at k x"
  shows "List.find (at k') (map_rows (\<lambda>x. rid x = rid r) f rs) = (if k' = k then Some (f r) else List.find (at k') rs)"
proof -
  have keep: "List.find (at k') (map_rows P f rs) = map_option (\<lambda>r. if P r then f r else r) (List.find (at k') rs)" for P
    by (rule find_map_rows_keep) (rule f)
  show ?thesis
  proof (cases "List.find (at k') rs")
    case (Some x)
    note x = find_SomeD [OF Some] and r' = find_SomeD [OF r]
    have "rid x = rid r \<longleftrightarrow> k' = k"
      using distinct_map_eq [OF ids, of x r] x r' r Some one_key [of k r k'] by auto
    then show ?thesis unfolding keep using r Some by (cases "k' = k") simp_all
  next
    case None
    then show ?thesis unfolding keep using r None by (cases "k' = k") simp_all
  qed
qed

lemma find_delete:
  assumes r: "List.find (at k) rs = Some r" and ids: "distinct (map rid rs)" and keys: "keyed clash rs"
  shows "List.find (at k') (filter (\<lambda>x. rid x \<noteq> rid r) rs) = (if k' = k then None else List.find (at k') rs)"
proof (cases "k' = k")
  case True
  note r' = find_SomeD [OF r]
  have "x = r" if "x \<in> set rs" "at k x" for x
    using keys that r' at_clash [OF that(2)] by (simp add: keyed_def)
  then show ?thesis using True by (auto simp: find_None_iff_all)
next
  case False
  note r' = find_SomeD [OF r]
  have "rid x \<noteq> rid r" if "x \<in> set rs" "at k' x" for x
    using distinct_map_eq [OF ids, of x r] that r' one_key [of k r k'] False by auto
  then have "List.find (at k') (filter (\<lambda>x. rid x \<noteq> rid r) rs) = List.find (at k') rs"
    by (induction rs) auto
  then show ?thesis using False by simp
qed

end

end
