(* ===== verification/Samples.thy ===== *)
theory Samples
  imports World
begin

text \<open>
  Concrete worlds for the witnesses: functions in the place of the third-party code that satisfy
  the hypotheses stated about it, a random source without repetitions, and an empty database. A
  list of numbers is written as text in unary, each number closed by a mark, so the texts below
  can be read back.
\<close>

section \<open>Reading back unary texts\<close>

fun unary :: "nat list \<Rightarrow> string" where
  "unary [] = []"
| "unary (n # ns) = replicate n (CHR ''0'') @ CHR ''1'' # unary ns"

fun ununary :: "nat \<Rightarrow> string \<Rightarrow> nat list" where
  "ununary k [] = []"
| "ununary k (c # cs) = (if c = CHR ''1'' then k # ununary 0 cs else ununary (Suc k) cs)"

lemma ununary_replicate: "ununary k (replicate n (CHR ''0'') @ cs) = ununary (k + n) cs"
  by (induction n arbitrary: k) auto

lemma ununary_unary [simp]: "ununary 0 (unary ns) = ns"
  by (induction ns) (simp_all add: ununary_replicate)

text \<open>A text paired with the text it is bound to.\<close>

definition bind_text :: "string \<Rightarrow> string \<Rightarrow> string" where
  "bind_text a p = replicate (length a) (CHR ''0'') @ CHR ''1'' # a @ p"

definition unbind_text :: "string \<Rightarrow> string \<Rightarrow> string option" where
  "unbind_text a b =
     (let n = length (takeWhile (\<lambda>c. c = CHR ''0'') b); r = drop (Suc n) b
      in if take n r = a \<and> n = length a then Some (drop n r) else None)"

lemma takeWhile_zeros [simp]:
  "takeWhile (\<lambda>c. c = CHR ''0'') (replicate n (CHR ''0'') @ CHR ''1'' # r) = replicate n (CHR ''0'')"
  by (induction n) auto

lemma unbind_bind [simp]: "unbind_text a (bind_text a' p) = (if a = a' then Some p else None)"
  by (auto simp: unbind_text_def bind_text_def Let_def)


section \<open>Sample libraries\<close>

fun opt_nat :: "nat option \<Rightarrow> nat" where
  "opt_nat None = 0"
| "opt_nat (Some n) = Suc n"

fun nat_opt :: "nat \<Rightarrow> nat option" where
  "nat_opt 0 = None"
| "nat_opt (Suc n) = Some n"

lemma nat_opt_opt_nat [simp]: "nat_opt (opt_nat x) = x"
  by (cases x) auto

definition int_code :: "int \<Rightarrow> nat" where
  "int_code i = (if i < 0 then 2 * nat (- i) + 1 else 2 * nat i)"

definition code_int :: "nat \<Rightarrow> int" where
  "code_int n = (if odd n then - int (n div 2) else int (n div 2))"

lemma code_int_int_code [simp]: "code_int (int_code i) = i"
  by (auto simp: code_int_def int_code_def)

definition sample_jwt_encode :: "Claims \<Rightarrow> string" where
  "sample_jwt_encode c = unary [claim_sub c, opt_nat (claim_tid c), opt_nat (claim_pid c),
     (case claim_typ c of Access \<Rightarrow> 0 | Refresh \<Rightarrow> 1), int_code (claim_iat c),
     int_code (claim_exp c), claim_jti c]"

fun sample_claims :: "nat list \<Rightarrow> Claims option" where
  "sample_claims [s, t, p, y, i, e, j] =
     Some \<lparr>claim_sub = s, claim_tid = nat_opt t, claim_pid = nat_opt p,
       claim_typ = (if y = 0 then Access else Refresh), claim_iat = code_int i,
       claim_exp = code_int e, claim_jti = j\<rparr>"
| "sample_claims _ = None"

text \<open>A token is accepted until its expiry instant.\<close>

definition sample_jwt_decode :: "time \<Rightarrow> string \<Rightarrow> Claims option" where
  "sample_jwt_decode t s =
     (case sample_claims (ununary 0 s) of
        None \<Rightarrow> None
      | Some c \<Rightarrow> if t < seconds (claim_exp c) then Some c else None)"

lemma sample_jwt:
  "sample_jwt_decode t (sample_jwt_encode c) = (if t < seconds (claim_exp c) then Some c else None)"
  by (cases c; cases "claim_typ c") (auto simp: sample_jwt_decode_def sample_jwt_encode_def simp del: unary.simps)

definition sample_lib :: libs where
  "sample_lib = \<lparr>jwt_encode = sample_jwt_encode, jwt_decode = sample_jwt_decode,
     pw_hash = (\<lambda>_ pw. CHR ''h'' # pw), pw_verify = (\<lambda>h pw. h = CHR ''h'' # pw),
     pw_needs_rehash = (\<lambda>_. False), sha256_hex = (\<lambda>s. CHR ''s'' # s),
     hmac_sha256_hex = bind_text, aes_encrypt = (\<lambda>k n p a. bind_text (bind_text k (bind_text n a)) p),
     aes_decrypt = (\<lambda>k n b a. unbind_text (bind_text k (bind_text n a)) b),
     json_size = (\<lambda>d. int (length d)), env_key = Inr ''key''\<rparr>"

definition sample_world :: world where
  "sample_world = \<lparr>db = empty_db, cur_product = None, cur_tenant = None, acting_from = None,
     product_bypass = False, tenant_bypass = False, request_id = None, now = seconds 1000,
     settings = default_settings, lib = sample_lib, draws = Suc, draw_no = 0, audit_new_tx = [],
     redis_up = True, slug_cache = [], reminder_keys = [], sent_mail = [], mock_subs = []\<rparr>"

lemma sample_fresh [simp]: "fresh_ids (sample_world\<lparr>db := d\<rparr>)" "fresh_ids sample_world"
  by (simp_all add: fresh_ids_def sample_world_def NIL_def)

end
