(* ===== verification/Repository.thy ===== *)
theory Repository
  imports Interfaces Samples
begin

text \<open>
  The tenant-scoped repository of \<^verbatim>\<open>app/repositories/base.py\<close>: every read and write
  of a scoped model is filtered by the product and the tenant of the request context, unless the
  caller is inside a bypass block. The repository is generic in its model: a \<open>repo\<close> says how
  the model's rows are read and stored and whether the class has the two scope columns
  (\<^verbatim>\<open>hasattr(self.model, "product_id")\<close>). An object that is not yet stored may lack
  either scope value; \<open>fill_product\<close> and \<open>fill_tenant\<close> set it.
\<close>

record ('r, 'o) repo =
  rows :: "world \<Rightarrow> 'r list"
  put_row :: "'o \<Rightarrow> world \<Rightarrow> world"
  row_id :: "'r \<Rightarrow> uuid"
  row_product :: "('r \<Rightarrow> uuid) option"
  row_tenant :: "('r \<Rightarrow> uuid) option"
  obj_product :: "'o \<Rightarrow> uuid option"
  obj_tenant :: "'o \<Rightarrow> uuid option"
  fill_product :: "uuid \<Rightarrow> 'o \<Rightarrow> 'o"
  fill_tenant :: "uuid \<Rightarrow> 'o \<Rightarrow> 'o"

text \<open>\<^verbatim>\<open>_stmt\<close>: the rows a statement of this repository selects from.\<close>

definition product_filter :: "('r, 'o) repo \<Rightarrow> world \<Rightarrow> app_error + ('r \<Rightarrow> bool)" where
  "product_filter rp w =
     (case row_product rp of
        None \<Rightarrow> Inr (\<lambda>_. True)
      | Some f \<Rightarrow>
          if is_product_bypass w then Inr (\<lambda>_. True)
          else (case current_product_id w of
                  None \<Rightarrow> Inl (RuntimeError ''repository used without an active product context'')
                | Some pid \<Rightarrow> Inr (\<lambda>r. f r = pid)))"

definition tenant_filter :: "('r, 'o) repo \<Rightarrow> world \<Rightarrow> app_error + ('r \<Rightarrow> bool)" where
  "tenant_filter rp w =
     (case row_tenant rp of
        None \<Rightarrow> Inr (\<lambda>_. True)
      | Some f \<Rightarrow>
          if is_bypass w then Inr (\<lambda>_. True)
          else (case current_tenant_id w of
                  None \<Rightarrow> Inl (RuntimeError ''repository used without an active tenant context'')
                | Some tid \<Rightarrow> Inr (\<lambda>r. f r = tid)))"

definition repo_stmt :: "('r, 'o) repo \<Rightarrow> 'r list service" where
  "repo_stmt rp =
     (\<lambda>w. case product_filter rp w of
            Inl e \<Rightarrow> (Inl e, w)
          | Inr p \<Rightarrow>
              (case tenant_filter rp w of
                 Inl e \<Rightarrow> (Inl e, w)
               | Inr t \<Rightarrow> (Inr (filter (\<lambda>r. p r \<and> t r) (rows rp w)), w)))"

definition repo_get :: "('r, 'o) repo \<Rightarrow> uuid \<Rightarrow> 'r option service" where
  "repo_get rp i = bindS (repo_stmt rp) (\<lambda>rs. ret (List.find (\<lambda>r. row_id rp r = i) rs))"

definition repo_get_or_404 :: "('r, 'o) repo \<Rightarrow> uuid \<Rightarrow> 'r service" where
  "repo_get_or_404 rp i =
     bindS (repo_get rp i) (\<lambda>r.
     case r of None \<Rightarrow> raise (NotFound ''not found'') | Some obj \<Rightarrow> ret obj)"

definition repo_list :: "('r, 'o) repo \<Rightarrow> nat \<Rightarrow> nat \<Rightarrow> 'r list service" where
  "repo_list rp limit offset = bindS (repo_stmt rp) (\<lambda>rs. ret (take limit (drop offset rs)))"

text \<open>\<^verbatim>\<open>add\<close>: the product is checked when the object has the column, the tenant
  always (the source tests no \<^verbatim>\<open>hasattr\<close> for it).\<close>

definition repo_add :: "('r, 'o) repo \<Rightarrow> 'o \<Rightarrow> 'o service" where
  "repo_add rp obj =
     bindS
       (\<lambda>w. if row_product rp \<noteq> None \<and> \<not> is_product_bypass w then
              (case current_product_id w of
                 None \<Rightarrow> (Inl (RuntimeError ''Cannot add product-scoped row without product context.''), w)
               | Some pid \<Rightarrow>
                   (case obj_product rp obj of
                      None \<Rightarrow> (Inr (fill_product rp pid obj), w)
                    | Some p \<Rightarrow>
                        if p \<noteq> pid
                        then (Inl (RuntimeError ''product_id on object does not match current product context.''), w)
                        else (Inr obj, w)))
            else (Inr obj, w))
       (\<lambda>obj.
     bindS
       (\<lambda>w. if \<not> is_bypass w then
              (case current_tenant_id w of
                 None \<Rightarrow> (Inl (RuntimeError ''Cannot add tenant-scoped row without tenant context.''), w)
               | Some tid \<Rightarrow>
                   (case obj_tenant rp obj of
                      None \<Rightarrow> (Inr (fill_tenant rp tid obj), w)
                    | Some t \<Rightarrow>
                        if t \<noteq> tid
                        then (Inl (RuntimeError ''tenant_id on object does not match current tenant context.''), w)
                        else (Inr obj, w)))
            else (Inr obj, w))
       (\<lambda>obj.
     bindS (modify (put_row rp obj)) (\<lambda>_.
     ret obj)))"


section \<open>Isolation\<close>

text \<open>The contract of a scoped repository: a row is in scope when its product and its tenant are
  those of the request.\<close>

definition in_scope :: "('r, 'o) repo \<Rightarrow> world \<Rightarrow> 'r \<Rightarrow> bool" where
  "in_scope rp w r \<longleftrightarrow>
     (\<forall>f. row_product rp = Some f \<longrightarrow> Some (f r) = current_product_id w) \<and>
     (\<forall>f. row_tenant rp = Some f \<longrightarrow> Some (f r) = current_tenant_id w)"

lemma repo_stmt_scoped:
  assumes "repo_stmt rp w = (Inr rs, w')"
    and "\<not> is_product_bypass w" and "\<not> is_bypass w"
  shows "w' = w" and "set rs = {r \<in> set (rows rp w). in_scope rp w r}"
proof -
  show "w' = w"
    using assms(1) by (auto simp: repo_stmt_def split: sum.splits)
  show "set rs = {r \<in> set (rows rp w). in_scope rp w r}"
    using assms
    by (auto simp: repo_stmt_def product_filter_def tenant_filter_def in_scope_def
        split: sum.splits option.splits)
qed

text \<open>The repository of one model of the code, \<^verbatim>\<open>StorageCollection\<close>.\<close>

definition storage_collection_repo :: "(StorageCollection, StorageCollection) repo" where
  "storage_collection_repo =
     \<lparr>rows = (\<lambda>w. storage_collections (db w)),
      put_row = (\<lambda>r w. w\<lparr>db := storage_collections_update (\<lambda>rs. rs @ [r]) (db w)\<rparr>),
      row_id = StorageCollection_id,
      row_product = Some StorageCollection_product_id,
      row_tenant = Some StorageCollection_tenant_id,
      obj_product = (\<lambda>r. Some (StorageCollection_product_id r)),
      obj_tenant = (\<lambda>r. Some (StorageCollection_tenant_id r)),
      fill_product = (\<lambda>p r. r\<lparr>StorageCollection_product_id := p\<rparr>),
      fill_tenant = (\<lambda>t r. r\<lparr>StorageCollection_tenant_id := t\<rparr>)\<rparr>"

lemma repo_add_scoped:
  assumes "\<not> is_product_bypass w" and "\<not> is_bypass w"
    and "repo_add storage_collection_repo obj w = (Inr r, w')"
  shows "in_scope storage_collection_repo w r \<and>
    storage_collections (db w') = storage_collections (db w) @ [r]"
  using assms
  by (auto simp: repo_add_def in_scope_def storage_collection_repo_def svc_simps
      split: option.splits if_splits)

text \<open>C40: outside a bypass block a scoped repository works on the rows of the request's product
  and tenant only: \<^verbatim>\<open>get\<close> and \<^verbatim>\<open>list\<close> return stored rows in scope
  (so a foreign identifier is a 404), and without a product in the context they raise.\<close>

theorem repository_isolation:
  assumes "\<not> is_product_bypass w" and "\<not> is_bypass w"
  shows "(\<forall>r w'. repo_get_or_404 rp i w = (Inr r, w') \<longrightarrow>
            r \<in> set (rows rp w) \<and> row_id rp r = i \<and> in_scope rp w r \<and> w' = w) \<and>
         (\<forall>rs w'. repo_list rp l k w = (Inr rs, w') \<longrightarrow>
            (\<forall>r \<in> set rs. r \<in> set (rows rp w) \<and> in_scope rp w r) \<and> length rs \<le> l \<and> w' = w) \<and>
         ((\<exists>f. row_product rp = Some f) \<and> current_product_id w = None \<longrightarrow>
            (\<exists>m. repo_list rp l k w = (Inl (RuntimeError m), w)))"
proof (intro conjI allI impI)
  fix r w' assume get: "repo_get_or_404 rp i w = (Inr r, w')"
  then obtain rs where st: "repo_stmt rp w = (Inr rs, w')"
      and f: "List.find (\<lambda>r. row_id rp r = i) rs = Some r"
    by (auto simp: repo_get_or_404_def repo_get_def bindS_Inr_iff ret_apply raise_apply
        split: option.splits)
  show "r \<in> set (rows rp w)" "row_id rp r = i" "in_scope rp w r" "w' = w"
    using repo_stmt_scoped [OF st assms] find_SomeD [OF f] by auto
next
  fix rs w' assume "repo_list rp l k w = (Inr rs, w')"
  then obtain all where st: "repo_stmt rp w = (Inr all, w')" and "rs = take l (drop k all)"
    by (auto simp: repo_list_def bindS_Inr_iff ret_apply)
  then show "\<forall>r \<in> set rs. r \<in> set (rows rp w) \<and> in_scope rp w r" "length rs \<le> l" "w' = w"
    using repo_stmt_scoped [OF st assms] by (auto dest: in_set_takeD in_set_dropD)
next
  assume "(\<exists>f. row_product rp = Some f) \<and> current_product_id w = None"
  then show "\<exists>m. repo_list rp l k w = (Inl (RuntimeError m), w)"
    using assms by (auto simp: repo_list_def repo_stmt_def product_filter_def svc_simps)
qed

definition sample_collection :: "uuid \<Rightarrow> uuid \<Rightarrow> uuid \<Rightarrow> StorageCollection" where
  "sample_collection i p t = \<lparr>StorageCollection_id = i, StorageCollection_product_id = p,
     StorageCollection_tenant_id = t, StorageCollection_name = ''c'',
     StorageCollection_default_ttl_seconds = 60, StorageCollection_description = None\<rparr>"

definition sample_scoped :: world where
  "sample_scoped = sample_world\<lparr>cur_product := Some 5, cur_tenant := Some 7,
     db := empty_db\<lparr>storage_collections := [sample_collection 1 5 8, sample_collection 2 5 7]\<rparr>\<rparr>"

theorem repository_isolation_witness:
  "\<exists>r w'. repo_get_or_404 storage_collection_repo 2 sample_scoped = (Inr r, w') \<and>
     in_scope storage_collection_repo sample_scoped r"
proof -
  have ok: "\<not> is_product_bypass sample_scoped" "\<not> is_bypass sample_scoped"
    by (simp_all add: sample_scoped_def sample_world_def is_product_bypass_def is_bypass_def)
  have "repo_get_or_404 storage_collection_repo 2 sample_scoped = (Inr (sample_collection 2 5 7), sample_scoped)"
    by (simp add: repo_get_or_404_def repo_get_def repo_stmt_def product_filter_def tenant_filter_def
        storage_collection_repo_def sample_scoped_def sample_world_def empty_db_def sample_collection_def
        context_defs svc_simps)
  then show ?thesis
    using repository_isolation [OF ok, of storage_collection_repo 2] by blast
qed

end
