(* ===== verification/Credit.thy ===== *)
theory Credit
  imports Interfaces Samples
begin

text \<open>
  The credit ledger of \<^verbatim>\<open>app/services/credit.py\<close>: wallets per tenant and feature key,
  an append-only ledger, grants and debits that are idempotent by reference, and the period
  reset. Amounts are in units of one ten-thousandth (\<^verbatim>\<open>Numeric(18,4)\<close>); an amount the
  caller passes with more decimals is outside the model. \<^verbatim>\<open>grant\<close> is written as its
  reading half and its writing half, because it reads the wallet without a lock: the section on
  interleaving runs another transaction between the two.
\<close>

section \<open>Operations\<close>

definition wallet_key :: "uuid \<Rightarrow> string \<Rightarrow> CreditWallet \<Rightarrow> bool" where
  "wallet_key tenant_id feature_key x \<longleftrightarrow>
     CreditWallet_tenant_id x = tenant_id \<and> CreditWallet_feature_key x = feature_key"

text \<open>The unique constraint \<^verbatim>\<open>uq_credit_wallets_unique\<close>.\<close>

definition wallet_clash :: "CreditWallet \<Rightarrow> CreditWallet \<Rightarrow> bool" where
  "wallet_clash x y \<longleftrightarrow>
     CreditWallet_tenant_id x = CreditWallet_tenant_id y \<and>
     CreditWallet_feature_key x = CreditWallet_feature_key y"

definition get_or_create_wallet :: "uuid \<Rightarrow> uuid \<Rightarrow> string \<Rightarrow> CreditWallet service" where
  "get_or_create_wallet tenant_id product_id feature_key =
     bindS (scalar credit_wallets (wallet_key tenant_id feature_key)) (\<lambda>wallet.
     case wallet of
       Some x \<Rightarrow> ret x
     | None \<Rightarrow>
         bindS fresh (\<lambda>i.
         let x = \<lparr>CreditWallet_id = i, CreditWallet_product_id = product_id,
                  CreditWallet_tenant_id = tenant_id, CreditWallet_feature_key = feature_key,
                  CreditWallet_balance = 0, CreditWallet_period_start = None,
                  CreditWallet_period_end = None\<rparr>
         in bindS (insert_row credit_wallets credit_wallets_update wallet_clash x) (\<lambda>_. ret x)))"

definition lock_wallet :: "uuid \<Rightarrow> string \<Rightarrow> CreditWallet service" where
  "lock_wallet tenant_id feature_key =
     bindS (scalar credit_wallets (wallet_key tenant_id feature_key)) (\<lambda>wallet.
     case wallet of None \<Rightarrow> raise (NotFound ''wallet not found'') | Some x \<Rightarrow> ret x)"

definition was_referenced :: "uuid \<Rightarrow> string \<Rightarrow> bool service" where
  "was_referenced wallet_id reference =
     bindS (scalar credit_ledger (\<lambda>e. CreditLedger_wallet_id e = wallet_id \<and>
              CreditLedger_reference e = Some reference)) (\<lambda>e.
     ret (e \<noteq> None))"

text \<open>\<^verbatim>\<open>reference and await _was_referenced(...)\<close>\<close>

definition already_booked :: "CreditWallet \<Rightarrow> string option \<Rightarrow> bool service" where
  "already_booked wallet reference =
     (case reference of
        None \<Rightarrow> ret False
      | Some r \<Rightarrow> if r = [] then ret False else was_referenced (CreditWallet_id wallet) r)"

text \<open>The statements the operations share: \<^verbatim>\<open>wallet.balance = balance\<close> and
  \<^verbatim>\<open>db.add(CreditLedger(...))\<close>; the wallet object is the row with the new balance.\<close>

definition book ::
    "CreditWallet \<Rightarrow> uuid \<Rightarrow> uuid \<Rightarrow> CreditEntryType \<Rightarrow> int \<Rightarrow> int \<Rightarrow> string option \<Rightarrow> string option \<Rightarrow>
     CreditWallet service" where
  "book wallet product_id tenant_id entry_type amount balance reason reference =
     bindS (update_rows credit_wallets_update (\<lambda>x. CreditWallet_id x = CreditWallet_id wallet)
              (\<lambda>x. x\<lparr>CreditWallet_balance := balance\<rparr>)) (\<lambda>_.
     bindS (gets now) (\<lambda>t.
     bindS fresh (\<lambda>i.
     bindS (insert_row credit_ledger credit_ledger_update no_clash
       \<lparr>CreditLedger_id = i, CreditLedger_product_id = product_id,
        CreditLedger_tenant_id = tenant_id, CreditLedger_wallet_id = CreditWallet_id wallet,
        CreditLedger_entry_type = entry_type, CreditLedger_amount = amount,
        CreditLedger_balance_after = balance, CreditLedger_reason = reason,
        CreditLedger_reference = reference, CreditLedger_created_at = t\<rparr>) (\<lambda>_.
     ret (wallet\<lparr>CreditWallet_balance := balance\<rparr>)))))"

text \<open>The reading half of \<^verbatim>\<open>grant\<close>: the wallet as it was read, and whether the
  reference was booked before.\<close>

definition grant_read ::
    "uuid \<Rightarrow> uuid \<Rightarrow> string \<Rightarrow> string option \<Rightarrow> (CreditWallet \<times> bool) service" where
  "grant_read tenant_id product_id feature_key reference =
     bindS (get_or_create_wallet tenant_id product_id feature_key) (\<lambda>wallet.
     bindS (already_booked wallet reference) (\<lambda>seen.
     ret (wallet, seen)))"

definition grant_write ::
    "uuid \<Rightarrow> uuid \<Rightarrow> int \<Rightarrow> string option \<Rightarrow> string option \<Rightarrow> CreditEntryType \<Rightarrow>
     CreditWallet \<times> bool \<Rightarrow> CreditWallet service" where
  "grant_write tenant_id product_id amount reason reference entry_type =
     (\<lambda>(wallet, seen).
        if seen then ret wallet
        else book wallet product_id tenant_id entry_type amount
               (CreditWallet_balance wallet + amount) reason reference)"

definition grant ::
    "uuid \<Rightarrow> uuid \<Rightarrow> string \<Rightarrow> int \<Rightarrow> string option \<Rightarrow> string option \<Rightarrow> CreditEntryType \<Rightarrow>
     CreditWallet service" where
  "grant tenant_id product_id feature_key amount reason reference entry_type =
     bindS (grant_read tenant_id product_id feature_key reference)
       (grant_write tenant_id product_id amount reason reference entry_type)"

definition consume ::
    "uuid \<Rightarrow> uuid \<Rightarrow> string \<Rightarrow> int \<Rightarrow> string option \<Rightarrow> string option \<Rightarrow> CreditWallet service" where
  "consume tenant_id product_id feature_key amount reason reference =
     (if amount \<le> 0 then raise (ValueError ''amount must be positive'')
      else
     bindS (lock_wallet tenant_id feature_key) (\<lambda>wallet.
     if CreditWallet_product_id wallet \<noteq> product_id
     then raise (NotFound ''wallet not in current product'')
     else
     bindS (already_booked wallet reference) (\<lambda>seen.
     if seen then ret wallet
     else if CreditWallet_balance wallet < amount
     then raise (InsufficientCredits feature_key amount (CreditWallet_balance wallet))
     else book wallet product_id tenant_id Debit (- amount) (CreditWallet_balance wallet - amount)
            reason reference)))"

text \<open>The features of a plan are the rows that point to it, whether the relationship is loaded or
  the fallback query runs.\<close>

definition grant_plan_credits :: "uuid \<Rightarrow> uuid \<Rightarrow> Plan \<Rightarrow> string \<Rightarrow> unit service" where
  "grant_plan_credits tenant_id product_id plan reference =
     bindS (scalars plan_features (\<lambda>f. PlanFeature_plan_id f = Plan_id plan)) (\<lambda>features.
     forS features (\<lambda>feat.
       case PlanFeature_credit_amount feat of
         None \<Rightarrow> ret ()
       | Some n \<Rightarrow>
           if n > 0
           then bindS (grant tenant_id product_id (PlanFeature_feature_key feat) n
                         (Some (''plan:'' @ Plan_code plan))
                         (Some (reference @ '':'' @ PlanFeature_feature_key feat)) Grant) (\<lambda>_. ret ())
           else ret ()))"

definition reset_period :: "uuid \<Rightarrow> uuid \<Rightarrow> string \<Rightarrow> uuid option \<Rightarrow> CreditWallet service" where
  "reset_period tenant_id product_id feature_key actor_user_id =
     bindS (lock_wallet tenant_id feature_key) (\<lambda>wallet.
     if CreditWallet_product_id wallet \<noteq> product_id
     then raise (NotFound ''wallet not in current product'')
     else if CreditWallet_balance wallet = 0 then ret wallet
     else
     bindS (gets now) (\<lambda>t.
     let expired = CreditWallet_balance wallet;
         roll = (\<lambda>x. x\<lparr>CreditWallet_period_start := Some t, CreditWallet_period_end := Some (t + days 30)\<rparr>)
     in
     bindS (update_rows credit_wallets_update (\<lambda>x. CreditWallet_id x = CreditWallet_id wallet) roll) (\<lambda>_.
     bindS (book (roll wallet) product_id tenant_id Expiry (- expired) 0 (Some ''period_reset'') None)
       (\<lambda>wallet.
     bindS (record_audit ((act ''credits.period_reset'')\<lparr>a_actor_user_id := actor_user_id,
              a_resource_type := Some ''credit_wallet'',
              a_resource_id := Some (CreditWallet_id wallet), a_tenant_id := Some tenant_id,
              a_product_id := Some product_id,
              a_diff := [(''feature_key'', JStr feature_key), (''expired'', JDec expired)]\<rparr>)) (\<lambda>_.
     ret wallet)))))"

section \<open>The ledger invariant\<close>

text \<open>The entries of a wallet, and what they must say: every entry's \<open>balance_after\<close> is the
  sum of the entries up to it.\<close>

definition entries :: "uuid \<Rightarrow> CreditLedger list \<Rightarrow> CreditLedger list" where
  "entries i ls = filter (\<lambda>e. CreditLedger_wallet_id e = i) ls"

fun running :: "int \<Rightarrow> CreditLedger list \<Rightarrow> bool" where
  "running b [] = True"
| "running b (e # es) =
     (CreditLedger_balance_after e = b + CreditLedger_amount e \<and>
      running (b + CreditLedger_amount e) es)"

definition ledger_sum :: "CreditLedger list \<Rightarrow> int" where
  "ledger_sum es = sum_list (map CreditLedger_amount es)"

definition wallet_ok :: "CreditLedger list \<Rightarrow> CreditWallet \<Rightarrow> bool" where
  "wallet_ok ls x \<longleftrightarrow>
     running 0 (entries (CreditWallet_id x) ls) \<and>
     CreditWallet_balance x = ledger_sum (entries (CreditWallet_id x) ls) \<and>
     0 \<le> CreditWallet_balance x"

definition wallet_unique_key :: "CreditWallet \<Rightarrow> uuid \<times> string" where
  "wallet_unique_key x = (CreditWallet_tenant_id x, CreditWallet_feature_key x)"

definition credit_ok :: "world \<Rightarrow> bool" where
  "credit_ok w \<longleftrightarrow>
     fresh_ids w \<and>
     distinct (map CreditWallet_id (credit_wallets (db w))) \<and>
     distinct (map wallet_unique_key (credit_wallets (db w))) \<and>
     (\<forall>x \<in> set (credit_wallets (db w)). CreditWallet_id x \<in> drawn w) \<and>
     (\<forall>e \<in> set (credit_ledger (db w)). CreditLedger_wallet_id e \<in> drawn w) \<and>
     (\<forall>x \<in> set (credit_wallets (db w)). wallet_ok (credit_ledger (db w)) x)"

lemma entries_simps [simp]:
  "entries i [] = []"
  "entries i (es @ fs) = entries i es @ entries i fs"
  "entries i (e # es) = (if CreditLedger_wallet_id e = i then e # entries i es else entries i es)"
  by (simp_all add: entries_def)

lemma ledger_sum_simps [simp]:
  "ledger_sum [] = 0" "ledger_sum (es @ fs) = ledger_sum es + ledger_sum fs"
  "ledger_sum (e # es) = CreditLedger_amount e + ledger_sum es"
  by (simp_all add: ledger_sum_def)

lemma running_append:
  "running b (es @ fs) \<longleftrightarrow> running b es \<and> running (b + ledger_sum es) fs"
  by (induction es arbitrary: b) (auto simp: algebra_simps)

lemma entries_none: "(\<And>e. e \<in> set ls \<Longrightarrow> CreditLedger_wallet_id e \<noteq> i) \<Longrightarrow> entries i ls = []"
  by (induction ls) auto

lemma credit_okD:
  assumes "credit_ok w" and "x \<in> set (credit_wallets (db w))"
  shows "wallet_ok (credit_ledger (db w)) x" "CreditWallet_id x \<in> drawn w"
  using assms by (auto simp: credit_ok_def)

text \<open>Drawing a value and every write outside the two credit tables keep the invariant.\<close>

lemma drawn_mono:
  "draws w' = draws w \<Longrightarrow> draw_no w \<le> draw_no w' \<Longrightarrow> i \<in> drawn w \<Longrightarrow> i \<in> drawn w'"
  by (auto simp: drawn_def)

lemma credit_ok_other:
  assumes "credit_ok w" and "draws w' = draws w" and "draw_no w \<le> draw_no w'"
    and "credit_wallets (db w') = credit_wallets (db w)"
    and "credit_ledger (db w') = credit_ledger (db w)"
  shows "credit_ok w'"
  using assms drawn_mono [OF assms(2,3)] by (auto simp: credit_ok_def fresh_ids_def)

text \<open>An update that keeps a wallet's identity, key and balance keeps the invariant.\<close>

lemma credit_ok_map_rows:
  assumes "credit_ok w" and "draws w' = draws w" and "draw_no w' = draw_no w"
    and "credit_wallets (db w') = map_rows P f (credit_wallets (db w))"
    and "credit_ledger (db w') = credit_ledger (db w)"
    and f: "\<And>x. CreditWallet_id (f x) = CreditWallet_id x"
      "\<And>x. wallet_unique_key (f x) = wallet_unique_key x"
      "\<And>x. CreditWallet_balance (f x) = CreditWallet_balance x"
  shows "credit_ok w'"
  using assms by (auto simp: credit_ok_def fresh_ids_def drawn_def set_map_rows wallet_ok_def)

text \<open>Opening a wallet.\<close>

lemma credit_ok_open:
  assumes ok: "credit_ok w" and i: "i = draws w (draw_no w)"
    and none: "\<forall>y \<in> set (credit_wallets (db w)). \<not> wallet_clash y x"
    and x: "CreditWallet_id x = i" "CreditWallet_balance x = 0"
  shows "credit_ok (w\<lparr>draw_no := Suc (draw_no w),
           db := credit_wallets_update (\<lambda>rs. rs @ [x]) (db w)\<rparr>)"
proof -
  have new: "i \<notin> drawn w"
    using ok i fresh_not_drawn by (auto simp: credit_ok_def)
  have "entries i (credit_ledger (db w)) = []"
    using ok new by (intro entries_none) (auto simp: credit_ok_def)
  then have "wallet_ok (credit_ledger (db w)) x"
    by (simp add: wallet_ok_def x)
  moreover have "wallet_unique_key x \<notin> wallet_unique_key ` set (credit_wallets (db w))"
    using none by (auto simp: wallet_unique_key_def wallet_clash_def)
  moreover have "i \<notin> CreditWallet_id ` set (credit_wallets (db w))"
    using ok new by (auto simp: credit_ok_def)
  ultimately show ?thesis
    using ok i by (auto simp: credit_ok_def fresh_ids_def drawn_def x lessThan_Suc)
qed

text \<open>A booking whose new balance is the old one plus the booked amount, and not negative.\<close>

lemma credit_ok_book:
  assumes ok: "credit_ok w" and x: "x \<in> set (credit_wallets (db w))"
    and e: "CreditLedger_wallet_id e = CreditWallet_id x" "CreditLedger_balance_after e = b"
      "b = CreditWallet_balance x + CreditLedger_amount e" and b: "0 \<le> b"
    and n: "draw_no w \<le> Suc n"
  shows "credit_ok (w\<lparr>draw_no := Suc n, db := credit_ledger_update (\<lambda>rs. rs @ [e])
           (credit_wallets_update (map_rows (\<lambda>y. CreditWallet_id y = CreditWallet_id x)
              (\<lambda>y. y\<lparr>CreditWallet_balance := b\<rparr>)) (db w))\<rparr>)"
proof -
  let ?ws = "credit_wallets (db w)" and ?ls = "credit_ledger (db w)"
  let ?w = "w\<lparr>draw_no := Suc n, db := credit_ledger_update (\<lambda>rs. rs @ [e])
     (credit_wallets_update (map_rows (\<lambda>y. CreditWallet_id y = CreditWallet_id x)
        (\<lambda>y. y\<lparr>CreditWallet_balance := b\<rparr>)) (db w))\<rparr>"
  have mono: "i \<in> drawn w \<Longrightarrow> i \<in> drawn ?w" for i
    using drawn_mono [of ?w w i] n by simp
  have same: "y = x" if "y \<in> set ?ws" "CreditWallet_id y = CreditWallet_id x" for y
    using ok x that by (auto simp: credit_ok_def dest: distinct_map_eq)
  have "wallet_ok (?ls @ [e]) y'" if y'_in: "y' \<in> set (credit_wallets (db ?w))" for y'
  proof -
    obtain y where y: "y \<in> set ?ws"
        and y': "y' = (if CreditWallet_id y = CreditWallet_id x
                       then y\<lparr>CreditWallet_balance := b\<rparr> else y)"
      using y'_in by (auto simp: set_map_rows)
    show ?thesis
    proof (cases "CreditWallet_id y = CreditWallet_id x")
      case True
      then have "y = x" using same y by simp
      then show ?thesis
        using credit_okD(1) [OF ok x] e b y' by (simp add: wallet_ok_def running_append)
    next
      case False
      then show ?thesis
        using credit_okD(1) [OF ok y] e(1) y' by (auto simp: wallet_ok_def)
    qed
  qed
  moreover have "CreditWallet_id ` set (credit_wallets (db ?w)) = CreditWallet_id ` set ?ws"
    by (simp add: image_map_rows)
  ultimately show ?thesis
    using ok x e(1) mono
    by (auto simp: credit_ok_def fresh_ids_def set_map_rows wallet_unique_key_def)
qed

section \<open>The operations keep the ledger invariant\<close>

definition booked_before :: "CreditWallet \<Rightarrow> string option \<Rightarrow> world \<Rightarrow> bool" where
  "booked_before x reference w =
     (truthy reference \<and> (\<exists>e \<in> set (credit_ledger (db w)).
        CreditLedger_wallet_id e = CreditWallet_id x \<and> CreditLedger_reference e = reference))"

lemma already_booked_apply [svc_simps]:
  "already_booked x reference w = (Inr (booked_before x reference w), w)"
  by (auto simp: already_booked_def was_referenced_def booked_before_def svc_simps
      find_not_None split: option.splits)

lemma wp_already_booked [wp_simps]:
  "wp (already_booked x reference) Q E w = Q (booked_before x reference w) w"
  by (simp add: wp_def svc_simps)

lemma wp_get_or_create_wallet:
  assumes "credit_ok w"
  shows "wp (get_or_create_wallet t p f)
    (\<lambda>x w'. credit_ok w' \<and> x \<in> set (credit_wallets (db w')) \<and> wallet_key t f x) (\<lambda>_. credit_ok) w"
proof (cases "List.find (wallet_key t f) (credit_wallets (db w))")
  case None
  let ?x = "\<lparr>CreditWallet_id = draws w (draw_no w), CreditWallet_product_id = p,
     CreditWallet_tenant_id = t, CreditWallet_feature_key = f, CreditWallet_balance = 0,
     CreditWallet_period_start = None, CreditWallet_period_end = None\<rparr>"
  have "\<forall>y \<in> set (credit_wallets (db w)). \<not> wallet_clash y ?x"
    using None by (auto simp: find_None_iff_all wallet_key_def wallet_clash_def)
  from credit_ok_open [OF assms refl this] show ?thesis
    using assms None \<open>\<forall>y \<in> set (credit_wallets (db w)). \<not> wallet_clash y ?x\<close>
    by (auto simp: get_or_create_wallet_def wp_simps Let_def wallet_key_def)
next
  case (Some x)
  then show ?thesis
    using assms by (auto simp: get_or_create_wallet_def wp_simps dest: find_SomeD)
qed

lemma wp_lock_wallet [wp_simps]:
  "wp (lock_wallet t f) Q E w =
     (case List.find (wallet_key t f) (credit_wallets (db w)) of
        None \<Rightarrow> E (NotFound ''wallet not found'') w | Some x \<Rightarrow> Q x w)"
  by (simp add: lock_wallet_def wp_simps split: option.splits)

lemma wp_book:
  assumes "credit_ok w" and "x \<in> set (credit_wallets (db w))"
    and "b = CreditWallet_balance x + amount" and "0 \<le> b"
  shows "wp (book x p t et amount b reason reference) (\<lambda>_. credit_ok) (\<lambda>_. credit_ok) w"
  using assms by (simp add: book_def wp_simps) (rule credit_ok_book, simp_all)

lemma keeps_grant:
  assumes "0 \<le> amount"
  shows "keeps credit_ok (grant t p f amount reason reference et)"
  unfolding keeps_wp
proof (intro allI impI)
  fix w assume "credit_ok w"
  show "wp (grant t p f amount reason reference et) (\<lambda>_. credit_ok) (\<lambda>_. credit_ok) w"
    unfolding grant_def grant_read_def grant_write_def wp_bindS
  proof (rule wp_mono [OF wp_get_or_create_wallet [OF \<open>credit_ok w\<close>]], goal_cases)
    case (1 x w')
    then show ?case
      using assms credit_okD(1) [of w' x]
      by (auto simp: wp_simps wallet_ok_def intro!: wp_book)
  qed
qed

lemma keeps_consume: "keeps credit_ok (consume t p f amount reason reference)"
  unfolding keeps_wp
proof (intro allI impI)
  fix w assume "credit_ok w"
  then show "wp (consume t p f amount reason reference) (\<lambda>_. credit_ok) (\<lambda>_. credit_ok) w"
    by (auto simp: consume_def wp_simps split: option.splits dest: find_SomeD intro!: wp_book)
qed

lemma keeps_reset_period: "keeps credit_ok (reset_period t p f actor)"
  unfolding keeps_wp
proof (intro allI impI)
  fix w assume ok: "credit_ok w"
  have audit: "credit_ok v \<Longrightarrow> credit_ok (audited a v)" for v a
    by (rule credit_ok_other) (simp_all add: audited_draws)
  show "wp (reset_period t p f actor) (\<lambda>_. credit_ok) (\<lambda>_. credit_ok) w"
  proof (cases "List.find (wallet_key t f) (credit_wallets (db w))")
    case None
    then show ?thesis using ok by (simp add: reset_period_def wp_simps)
  next
    case (Some x)
    let ?roll = "\<lambda>y. y\<lparr>CreditWallet_period_start := Some (now w),
       CreditWallet_period_end := Some (now w + days 30)\<rparr>"
    let ?w = "w\<lparr>db := credit_wallets_update
       (map_rows (\<lambda>y. CreditWallet_id y = CreditWallet_id x) ?roll) (db w)\<rparr>"
    have roll: "credit_ok ?w"
      by (rule credit_ok_map_rows [OF ok, where f = ?roll]) (auto simp: wallet_unique_key_def)
    moreover have "?roll x \<in> set (credit_wallets (db ?w))"
      using Some by (auto simp: set_map_rows dest: find_SomeD)
    ultimately have "wp (book (?roll x) p t Expiry (- CreditWallet_balance x) 0 r None)
        (\<lambda>_. credit_ok) (\<lambda>_. credit_ok) ?w" for r
      by (rule wp_book) simp_all
    from wp_mono [OF this] show ?thesis
      using ok Some by (simp add: reset_period_def wp_simps Let_def audit)
  qed
qed

lemma keeps_grant_plan_credits: "keeps credit_ok (grant_plan_credits t p plan reference)"
  unfolding grant_plan_credits_def
  by (intro keeps_intros keeps_grant) simp_all


section \<open>Runs of the ledger\<close>

text \<open>One operation of the service, committed (or ended by an exception), with any other operation
  of the program in between: those do not write the two credit tables.\<close>

inductive credit_step :: "world \<Rightarrow> world \<Rightarrow> bool" where
  step_grant: "0 \<le> amount \<Longrightarrow> grant t p f amount reason reference et w = (r, w') \<Longrightarrow> credit_step w w'"
| step_consume: "consume t p f amount reason reference w = (r, w') \<Longrightarrow> credit_step w w'"
| step_plan: "grant_plan_credits t p plan ref w = (r', w') \<Longrightarrow> credit_step w w'"
| step_reset: "reset_period t p f actor w = (r, w') \<Longrightarrow> credit_step w w'"
| step_other: "draws w' = draws w \<Longrightarrow> draw_no w \<le> draw_no w' \<Longrightarrow>
    credit_wallets (db w') = credit_wallets (db w) \<Longrightarrow>
    credit_ledger (db w') = credit_ledger (db w) \<Longrightarrow> credit_step w w'"

inductive credit_reachable :: "world \<Rightarrow> bool" where
  credit_init: "fresh_ids w \<Longrightarrow> credit_wallets (db w) = [] \<Longrightarrow> credit_ledger (db w) = [] \<Longrightarrow>
    credit_reachable w"
| credit_next: "credit_reachable w \<Longrightarrow> credit_step w w' \<Longrightarrow> credit_reachable w'"

lemma credit_step_ok: "credit_step w w' \<Longrightarrow> credit_ok w \<Longrightarrow> credit_ok w'"
proof (induction rule: credit_step.induct)
  case (step_grant amount t p f reason reference et w r w')
  then show ?case using keepsD [OF keeps_grant] by blast
next
  case (step_consume t p f amount reason reference w r w')
  then show ?case using keepsD [OF keeps_consume] by blast
next
  case (step_plan t p plan ref w r w')
  then show ?case using keepsD [OF keeps_grant_plan_credits] by blast
next
  case (step_reset t p f actor w r w')
  then show ?case using keepsD [OF keeps_reset_period] by blast
next
  case (step_other w' w)
  then show ?case using credit_ok_other by blast
qed

lemma credit_reachable_ok: "credit_reachable w \<Longrightarrow> credit_ok w"
proof (induction rule: credit_reachable.induct)
  case (credit_init w)
  then show ?case by (simp add: credit_ok_def)
next
  case (credit_next w w')
  then show ?case by (blast intro: credit_step_ok)
qed

section \<open>Refinement of an abstract account\<close>

text \<open>What a caller may think of: an account per tenant and feature, with a balance and the set of
  references already booked.\<close>

record account =
  acc_product :: uuid
  acc_balance :: int
  acc_refs :: "string set"

definition refs_of :: "uuid \<Rightarrow> CreditLedger list \<Rightarrow> string set" where
  "refs_of i ls = {r. r \<noteq> [] \<and> (\<exists>e \<in> set ls. CreditLedger_wallet_id e = i \<and>
     CreditLedger_reference e = Some r)}"

definition account_of :: "world \<Rightarrow> CreditWallet \<Rightarrow> account" where
  "account_of w x =
     \<lparr>acc_product = CreditWallet_product_id x, acc_balance = CreditWallet_balance x,
      acc_refs = refs_of (CreditWallet_id x) (credit_ledger (db w))\<rparr>"

definition accounts :: "world \<Rightarrow> uuid \<times> string \<Rightarrow> account option" where
  "accounts w = (\<lambda>(t, f). map_option (account_of w) (List.find (wallet_key t f) (credit_wallets (db w))))"

definition refs_in :: "string option \<Rightarrow> string set" where
  "refs_in reference = (case reference of None \<Rightarrow> {} | Some r \<Rightarrow> if r = [] then {} else {r})"

definition acc_book :: "int \<Rightarrow> string option \<Rightarrow> account \<Rightarrow> account" where
  "acc_book n reference a =
     (if refs_in reference \<inter> acc_refs a \<noteq> {} then a
      else a\<lparr>acc_balance := acc_balance a + n, acc_refs := acc_refs a \<union> refs_in reference\<rparr>)"

fun acc_grant :: "uuid \<Rightarrow> int \<Rightarrow> string option \<Rightarrow> account option \<Rightarrow> account" where
  "acc_grant p n reference None = acc_book n reference \<lparr>acc_product = p, acc_balance = 0, acc_refs = {}\<rparr>"
| "acc_grant p n reference (Some a) = acc_book n reference a"

fun acc_consume :: "uuid \<Rightarrow> string \<Rightarrow> int \<Rightarrow> string option \<Rightarrow> account option \<Rightarrow> app_error + account" where
  "acc_consume p f n reference None =
     Inl (if n \<le> 0 then ValueError ''amount must be positive'' else NotFound ''wallet not found'')"
| "acc_consume p f n reference (Some a) =
     (if n \<le> 0 then Inl (ValueError ''amount must be positive'')
      else if acc_product a \<noteq> p then Inl (NotFound ''wallet not in current product'')
      else if refs_in reference \<inter> acc_refs a = {} \<and> acc_balance a < n
      then Inl (InsufficientCredits f n (acc_balance a))
      else Inr (acc_book (- n) reference a))"

lemma booked_before_refs:
  "booked_before x reference w \<longleftrightarrow>
     refs_in reference \<inter> refs_of (CreditWallet_id x) (credit_ledger (db w)) \<noteq> {}"
  by (cases reference) (auto simp: booked_before_def refs_in_def refs_of_def)

lemma refs_of_append:
  "refs_of i (ls @ [e]) =
     (if CreditLedger_wallet_id e = i then refs_of i ls \<union> refs_in (CreditLedger_reference e)
      else refs_of i ls)"
  by (cases "CreditLedger_reference e") (auto simp: refs_of_def refs_in_def)

lemma refs_in_nonempty: "refs_in reference \<noteq> {} \<longleftrightarrow> truthy reference"
  by (cases reference) (auto simp: refs_in_def)

lemma accounts_book:
  assumes ok: "credit_ok w" and x: "List.find (wallet_key t f) (credit_wallets (db w)) = Some x"
    and e: "CreditLedger_wallet_id e = CreditWallet_id x"
  shows "accounts (w\<lparr>draw_no := n, db := credit_ledger_update (\<lambda>rs. rs @ [e])
           (credit_wallets_update (map_rows (\<lambda>y. CreditWallet_id y = CreditWallet_id x)
              (\<lambda>y. y\<lparr>CreditWallet_balance := b\<rparr>)) (db w))\<rparr>) =
         (accounts w)((t, f) \<mapsto> (account_of w x)\<lparr>acc_balance := b,
            acc_refs := acc_refs (account_of w x) \<union> refs_in (CreditLedger_reference e)\<rparr>)"
    (is "accounts ?w = ?r")
proof (rule ext, clarify)
  fix t' f'
  have found: "List.find (wallet_key t' f') (credit_wallets (db ?w)) =
      map_option (\<lambda>y. if CreditWallet_id y = CreditWallet_id x then y\<lparr>CreditWallet_balance := b\<rparr> else y)
        (List.find (wallet_key t' f') (credit_wallets (db w)))"
    by (simp add: find_map_rows_keep wallet_key_def)
  show "accounts ?w (t', f') = ?r (t', f')"
  proof (cases "(t', f') = (t, f)")
    case True
    then show ?thesis
      using x found e by (simp add: accounts_def account_of_def refs_of_append)
  next
    case False
    show ?thesis
    proof (cases "List.find (wallet_key t' f') (credit_wallets (db w))")
      case None
      then show ?thesis using found False by (auto simp: accounts_def)
    next
      case (Some y)
      have "CreditWallet_id y \<noteq> CreditWallet_id x"
        using find_SomeD [OF x] find_SomeD [OF Some] False ok
        by (auto simp: credit_ok_def wallet_key_def dest: distinct_map_eq)
      then show ?thesis
        using found False Some e by (auto simp: accounts_def account_of_def refs_of_append)
    qed
  qed
qed

lemma wp_book_accounts:
  assumes "credit_ok w" and "List.find (wallet_key t f) (credit_wallets (db w)) = Some x"
  shows "wp (book x p t' et amount b reason reference)
     (\<lambda>y w'. CreditWallet_balance y = b \<and>
        accounts w' = (accounts w)((t, f) \<mapsto> (account_of w x)\<lparr>acc_balance := b,
            acc_refs := acc_refs (account_of w x) \<union> refs_in reference\<rparr>)) (\<lambda>_ _. False) w"
  by (simp add: book_def wp_simps accounts_book [OF assms])

lemma wp_get_or_create_wallet_accounts:
  assumes ok: "credit_ok w"
  shows "wp (get_or_create_wallet t p f)
    (\<lambda>x w'. credit_ok w' \<and> List.find (wallet_key t f) (credit_wallets (db w')) = Some x \<and>
       (case accounts w (t, f) of
          None \<Rightarrow> accounts w' = (accounts w)((t, f) \<mapsto> account_of w' x) \<and>
             account_of w' x = \<lparr>acc_product = p, acc_balance = 0, acc_refs = {}\<rparr>
        | Some a \<Rightarrow> w' = w \<and> a = account_of w x)) (\<lambda>_ _. False) w"
proof (cases "List.find (wallet_key t f) (credit_wallets (db w))")
  case (Some x)
  then show ?thesis
    using ok by (simp add: get_or_create_wallet_def wp_simps accounts_def)
next
  case None
  let ?i = "draws w (draw_no w)"
  let ?x = "\<lparr>CreditWallet_id = ?i, CreditWallet_product_id = p,
     CreditWallet_tenant_id = t, CreditWallet_feature_key = f, CreditWallet_balance = 0,
     CreditWallet_period_start = None, CreditWallet_period_end = None\<rparr>"
  let ?w = "w\<lparr>draw_no := Suc (draw_no w), db := credit_wallets_update (\<lambda>rs. rs @ [?x]) (db w)\<rparr>"
  have clash: "\<forall>y \<in> set (credit_wallets (db w)). \<not> wallet_clash y ?x"
    using None by (auto simp: find_None_iff_all wallet_key_def wallet_clash_def)
  have "refs_of ?i (credit_ledger (db w)) = {}"
    using ok fresh_not_drawn [of w] by (auto simp: refs_of_def credit_ok_def)
  then have "account_of ?w ?x = \<lparr>acc_product = p, acc_balance = 0, acc_refs = {}\<rparr>"
    by (simp add: account_of_def)
  moreover have "accounts ?w = (accounts w)((t, f) \<mapsto> account_of ?w ?x)"
    using None
    by (auto simp: accounts_def fun_eq_iff find_append account_of_def wallet_key_def
        split: option.splits)
  ultimately show ?thesis
    using None clash credit_ok_open [OF ok refl clash]
    by (simp add: get_or_create_wallet_def wp_simps Let_def find_append accounts_def wallet_key_def)
qed

section \<open>Idempotence by reference\<close>

text \<open>A reference is booked under a tenant's feature when the wallet exists and its ledger has it.\<close>

definition reference_seen :: "uuid \<times> string \<Rightarrow> string \<Rightarrow> world \<Rightarrow> bool" where
  "reference_seen = (\<lambda>(t, f) r w. \<exists>x. List.find (wallet_key t f) (credit_wallets (db w)) = Some x \<and>
     booked_before x (Some r) w)"

definition wallet_seen :: "uuid \<times> uuid \<times> string \<Rightarrow> string \<Rightarrow> world \<Rightarrow> bool" where
  "wallet_seen = (\<lambda>(t, p, f) r w. \<exists>x. List.find (wallet_key t f) (credit_wallets (db w)) = Some x \<and>
     CreditWallet_product_id x = p \<and> booked_before x (Some r) w)"

lemma wp_book_seen:
  assumes "List.find (wallet_key t f) (credit_wallets (db w)) = Some x" and "r \<noteq> []"
  shows "wp (book x p t' et amount b reason (Some r))
     (\<lambda>_ w'. wallet_seen (t, CreditWallet_product_id x, f) r w') (\<lambda>_ _. False) w"
  using assms
  by (simp add: book_def wp_simps wallet_seen_def booked_before_def find_map_rows_keep wallet_key_def)

lemma consume_books:
  assumes "r \<noteq> []" and "consume t p f amount reason (Some r) w = (Inr a, w')"
  shows "wallet_seen (t, p, f) r w'"
proof -
  have "wp (consume t p f amount reason (Some r)) (\<lambda>_. wallet_seen (t, p, f) r) (\<lambda>_ _. True) w"
  proof (cases "List.find (wallet_key t f) (credit_wallets (db w))")
    case None
    then show ?thesis by (simp add: consume_def wp_simps)
  next
    case (Some x)
    then show ?thesis
      using wp_mono [OF wp_book_seen [OF Some assms(1)]]
      by (auto simp: consume_def wp_simps wallet_seen_def)
  qed
  from wp_InrD [OF this assms(2)] show ?thesis .
qed

lemma grant_books:
  assumes "r \<noteq> []" and "grant t p f amount reason (Some r) et w = (Inr a, w')"
  shows "reference_seen (t, f) r w'"
proof -
  have seen: "wallet_seen (t, q, f) r v \<Longrightarrow> reference_seen (t, f) r v" for q v
    by (auto simp: wallet_seen_def reference_seen_def)
  have get: "wp (get_or_create_wallet t p f)
      (\<lambda>x v. List.find (wallet_key t f) (credit_wallets (db v)) = Some x) (\<lambda>_ _. True) w"
    by (auto simp: get_or_create_wallet_def wp_simps Let_def find_append wallet_key_def
        split: option.splits)
  have "wp (grant t p f amount reason (Some r) et) (\<lambda>_. reference_seen (t, f) r) (\<lambda>_ _. True) w"
    unfolding grant_def grant_read_def grant_write_def wp_bindS
  proof (rule wp_mono [OF get], goal_cases)
    case (1 x v)
    then show ?case
      using wp_mono [OF wp_book_seen [OF 1 assms(1)], OF seen]
      by (auto simp: wp_simps reference_seen_def)
  qed simp
  from wp_InrD [OF this assms(2)] show ?thesis .
qed

text \<open>Both operations meet the contract of \<open>idempotent_by_reference\<close>: a grant under the tenant
  and feature, a debit under the product as well.\<close>

interpretation grants: idempotent_by_reference
  "\<lambda>(t, p, f, amount, reason, et) reference. grant t p f amount reason reference et"
  "\<lambda>(t, p, f, amount, reason, et). (t, f)" "\<lambda>_. True" reference_seen
proof
  fix r :: string and k :: "uuid \<times> uuid \<times> string \<times> int \<times> string option \<times> CreditEntryType"
  fix w w' :: world and a :: CreditWallet
  assume r: "r \<noteq> []"
  obtain t p f amount reason et where k: "k = (t, p, f, amount, reason, et)" by (cases k)
  show "reference_seen (case k of (t, p, f, amount, reason, et) \<Rightarrow> (t, f)) r w'"
    if "(case k of (t, p, f, amount, reason, et) \<Rightarrow>
           \<lambda>reference. grant t p f amount reason reference et) (Some r) w = (Inr a, w')"
    using that grant_books [OF r] by (simp add: k)
  show "\<exists>a. (case k of (t, p, f, amount, reason, et) \<Rightarrow>
           \<lambda>reference. grant t p f amount reason reference et) (Some r) w = (Inr a, w)"
    if "reference_seen (case k of (t, p, f, amount, reason, et) \<Rightarrow> (t, f)) r w"
    using that r
    by (auto simp: k reference_seen_def grant_def grant_read_def grant_write_def
        get_or_create_wallet_def svc_simps)
qed

interpretation debits: idempotent_by_reference
  "\<lambda>(t, p, f, amount, reason) reference. consume t p f amount reason reference"
  "\<lambda>(t, p, f, amount, reason). (t, p, f)" "\<lambda>(t, p, f, amount, reason). 0 < amount" wallet_seen
proof
  fix r :: string and k :: "uuid \<times> uuid \<times> string \<times> int \<times> string option"
  fix w w' :: world and a :: CreditWallet
  assume r: "r \<noteq> []"
  obtain t p f amount reason where k: "k = (t, p, f, amount, reason)" by (cases k)
  show "wallet_seen (case k of (t, p, f, amount, reason) \<Rightarrow> (t, p, f)) r w'"
    if "(case k of (t, p, f, amount, reason) \<Rightarrow> consume t p f amount reason) (Some r) w = (Inr a, w')"
    using that consume_books [OF r] by (simp add: k)
  show "\<exists>a. (case k of (t, p, f, amount, reason) \<Rightarrow> consume t p f amount reason) (Some r) w = (Inr a, w)"
    if "wallet_seen (case k of (t, p, f, amount, reason) \<Rightarrow> (t, p, f)) r w"
      and "case k of (t, p, f, amount, reason) \<Rightarrow> 0 < amount"
    using that r
    by (auto simp: k wallet_seen_def consume_def lock_wallet_def svc_simps)
qed

section \<open>Properties\<close>


text \<open>A run for the witnesses: tenant 7 of product 5 is granted 100 units and spends 30.\<close>

definition sample_granted :: world where
  "sample_granted = snd (grant 7 5 ''api'' 100 None (Some ''r1'') Grant sample_world)"

definition sample_spent :: world where
  "sample_spent = snd (consume 7 5 ''api'' 30 None (Some ''r2'') sample_granted)"

lemmas credit_eval = grant_def grant_read_def grant_write_def get_or_create_wallet_def consume_def
  lock_wallet_def book_def svc_simps wallet_key_def booked_before_def sample_world_def empty_db_def Let_def

lemma sample_granted_eval:
  "sample_granted = sample_world\<lparr>draw_no := 2, db := empty_db\<lparr>
     credit_wallets := [\<lparr>CreditWallet_id = 1, CreditWallet_product_id = 5, CreditWallet_tenant_id = 7,
       CreditWallet_feature_key = ''api'', CreditWallet_balance = 100,
       CreditWallet_period_start = None, CreditWallet_period_end = None\<rparr>],
     credit_ledger := [\<lparr>CreditLedger_id = 2, CreditLedger_product_id = 5,
       CreditLedger_tenant_id = 7, CreditLedger_wallet_id = 1, CreditLedger_entry_type = Grant,
       CreditLedger_amount = 100, CreditLedger_balance_after = 100, CreditLedger_reason = None,
       CreditLedger_reference = Some ''r1'', CreditLedger_created_at = seconds 1000\<rparr>]\<rparr>\<rparr>"
  by (simp add: sample_granted_def credit_eval)

lemma sample_granted_reachable: "credit_reachable sample_granted"
proof (rule credit_next [OF credit_init])
  show "fresh_ids sample_world" by simp
  show "credit_wallets (db sample_world) = []" "credit_ledger (db sample_world) = []"
    by (simp_all add: sample_world_def empty_db_def)
  show "credit_step sample_world sample_granted"
    unfolding sample_granted_def by (rule step_grant [OF _ prod.collapse [symmetric]]) simp
qed

lemma sample_spent_reachable: "credit_reachable sample_spent"
  using sample_granted_reachable
proof (rule credit_next)
  show "credit_step sample_granted sample_spent"
    unfolding sample_spent_def by (rule step_consume [OF prod.collapse [symmetric]])
qed


text \<open>C2: \<^verbatim>\<open>consume\<close> implements the debit of an abstract account: it rejects a
  non-positive amount, a missing wallet, a wallet of another product and, for a reference not yet
  booked, a balance that is too small, each with its error and without any write; otherwise it
  takes exactly the amount off that one account, once per reference, and no other account changes.\<close>

theorem consume_refines:
  assumes ok: "credit_ok w"
  shows "case acc_consume p f n reference (accounts w (t, f)) of
           Inl e \<Rightarrow> consume t p f n reason reference w = (Inl e, w)
         | Inr a \<Rightarrow> \<exists>x w'. consume t p f n reason reference w = (Inr x, w') \<and>
             CreditWallet_balance x = acc_balance a \<and> accounts w' = (accounts w)((t, f) \<mapsto> a)"
proof (cases "List.find (wallet_key t f) (credit_wallets (db w))")
  case None
  then show ?thesis by (simp add: accounts_def consume_def lock_wallet_def svc_simps)
next
  case (Some x)
  let ?n = "CreditWallet_balance x - n"
  obtain y w' where b: "book x p t Debit (- n) ?n reason reference w = (Inr y, w')"
      "CreditWallet_balance y = ?n"
      "accounts w' = (accounts w)((t, f) \<mapsto> (account_of w x)\<lparr>acc_balance := ?n,
            acc_refs := acc_refs (account_of w x) \<union> refs_in reference\<rparr>)"
    using wp_returns [OF wp_book_accounts [OF ok Some, of p t Debit "- n" ?n reason reference]]
    by blast
  then show ?thesis
    using Some
    by (auto simp: accounts_def acc_book_def consume_def lock_wallet_def svc_simps
        booked_before_refs account_of_def fun_upd_idem)
qed

theorem consume_refines_witness:
  "fst (consume 7 5 ''api'' 130 None None sample_granted) = Inl (InsufficientCredits ''api'' 130 100)"
  using consume_refines [OF credit_reachable_ok [OF sample_granted_reachable],
      where p = 5 and f = "''api''" and n = 130 and reference = None and t = 7 and reason = None]
  by (simp add: accounts_def account_of_def sample_granted_eval wallet_key_def refs_in_def)

text \<open>C3: \<^verbatim>\<open>grant\<close> never fails: it opens the account if need be and credits it, once
  per reference, and no other account changes.\<close>

lemma grant_refines:
  assumes ok: "credit_ok w"
  shows "\<exists>x w'. grant t p f n reason reference et w = (Inr x, w') \<and>
    CreditWallet_balance x = acc_balance (acc_grant p n reference (accounts w (t, f))) \<and>
    accounts w' = (accounts w)((t, f) \<mapsto> acc_grant p n reference (accounts w (t, f)))"
proof -
  let ?Q = "\<lambda>x w'. CreditWallet_balance x = acc_balance (acc_grant p n reference (accounts w (t, f))) \<and>
    accounts w' = (accounts w)((t, f) \<mapsto> acc_grant p n reference (accounts w (t, f)))"
  have "wp (grant t p f n reason reference et) ?Q (\<lambda>_ _. False) w"
    unfolding grant_def grant_read_def grant_write_def wp_bindS
  proof (rule wp_mono [OF wp_get_or_create_wallet_accounts [OF ok]], goal_cases)
    case (1 x v)
    then have v: "credit_ok v" "List.find (wallet_key t f) (credit_wallets (db v)) = Some x"
      by simp_all
    have acc: "accounts v = (accounts w)((t, f) \<mapsto> account_of v x)"
      "acc_grant p n reference (accounts w (t, f)) = acc_book n reference (account_of v x)"
      using 1 v(2) by (auto simp: accounts_def split: option.splits)
    show ?case
    proof (cases "booked_before x reference v")
      case True
      then show ?thesis
        using acc by (simp add: wp_simps acc_book_def booked_before_refs) (simp add: account_of_def)
    next
      case False
      have b: "acc_book n reference (account_of v x) =
          (account_of v x)\<lparr>acc_balance := CreditWallet_balance x + n,
             acc_refs := acc_refs (account_of v x) \<union> refs_in reference\<rparr>"
        using False by (simp add: acc_book_def booked_before_refs account_of_def)
      show ?thesis
        using False wp_mono [OF wp_book_accounts [OF v]] acc b by (simp add: wp_simps)
    qed
  qed simp
  from wp_returns [OF this] show ?thesis by blast
qed

lemma grant_refines_witness:
  "\<exists>x. fst (grant 7 5 ''api'' 40 None None Grant sample_granted) = Inr x \<and> CreditWallet_balance x = 140"
  using grant_refines [OF credit_reachable_ok [OF sample_granted_reachable],
      where p = 5 and f = "''api''" and n = 40 and reference = None and t = 7 and reason = None and et = Grant]
  by (force simp: accounts_def account_of_def sample_granted_eval wallet_key_def refs_in_def acc_book_def)

text \<open>C3: retries are safe. After a debit with a reference went through, any number of further
  debits with the same reference on that wallet, whatever their amounts, return and write nothing;
  and the same holds of grants.\<close>

theorem credit_replay:
  assumes "r \<noteq> []"
  shows "(consume t p f n reason (Some r) w = (Inr x, w') \<longrightarrow>
            (\<forall>ms. (\<forall>m \<in> set ms. 0 < m) \<longrightarrow>
               forS ms (\<lambda>m. bindS (consume t p f m reason (Some r)) (\<lambda>_. ret ())) w' = (Inr (), w'))) \<and>
         (grant t p f n reason (Some r) et w = (Inr x, w') \<longrightarrow>
            (\<forall>ms. forS ms (\<lambda>m. bindS (grant t p f m reason (Some r) et) (\<lambda>_. ret ())) w' = (Inr (), w')))"
proof (intro conjI impI allI)
  fix ms :: "int list"
  assume c: "consume t p f n reason (Some r) w = (Inr x, w')" and pos: "\<forall>m \<in> set ms. 0 < m"
  have "forS (map (\<lambda>m. (t, p, f, m, reason)) ms) (\<lambda>k. bindS ((case k of (t, p, f, amount, reason) \<Rightarrow>
      consume t p f amount reason) (Some r)) (\<lambda>_. ret ())) w' = (Inr (), w')"
    by (rule debits.replays [where k = "(t, p, f, n, reason)" and w = w and a = x]) (use assms c pos in auto)
  then show "forS ms (\<lambda>m. bindS (consume t p f m reason (Some r)) (\<lambda>_. ret ())) w' = (Inr (), w')"
    by (simp add: forS_map)
next
  fix ms :: "int list"
  assume g: "grant t p f n reason (Some r) et w = (Inr x, w')"
  have "forS (map (\<lambda>m. (t, p, f, m, reason, et)) ms) (\<lambda>k. bindS ((case k of (t, p, f, amount, reason, et) \<Rightarrow>
      \<lambda>reference. grant t p f amount reason reference et) (Some r)) (\<lambda>_. ret ())) w' = (Inr (), w')"
    by (rule grants.replays [where k = "(t, p, f, n, reason, et)" and w = w and a = x]) (use assms g in auto)
  then show "forS ms (\<lambda>m. bindS (grant t p f m reason (Some r) et) (\<lambda>_. ret ())) w' = (Inr (), w')"
    by (simp add: forS_map)
qed

theorem credit_replay_witness:
  "forS [10, 20] (\<lambda>m. bindS (grant 7 5 ''api'' m None (Some ''r1'') Grant) (\<lambda>_. ret ())) sample_granted =
     (Inr (), sample_granted)"
proof -
  obtain x where "grant 7 5 ''api'' 100 None (Some ''r1'') Grant sample_world = (Inr x, sample_granted)"
    unfolding sample_granted_def by (simp add: credit_eval)
  then show ?thesis
    using credit_replay [of "''r1''" 7 5 "''api''" 100 None sample_world x sample_granted Grant] by blast
qed

text \<open>C5: \<^verbatim>\<open>grant\<close> reads the wallet without the lock \<^verbatim>\<open>consume\<close> takes, and
  writes an absolute balance. When a debit commits between the two halves of a grant, the debit is
  in the ledger and missing from the balance: the wallet no longer equals its ledger.\<close>

lemma grant_race_loses_debit:
  "\<exists>w. credit_reachable w \<and> (\<exists>y w'.
     bindS (grant_read 7 5 ''api'' None) (\<lambda>s.
     bindS (consume 7 5 ''api'' 30 None None) (\<lambda>_.
     grant_write 7 5 50 None None Grant s)) w = (Inr y, w') \<and>
     CreditWallet_balance y = 150 \<and>
     ledger_sum (entries (CreditWallet_id y) (credit_ledger (db w'))) = 120)"
proof (intro exI [of _ sample_granted] conjI)
  show "credit_reachable sample_granted" by (rule sample_granted_reachable)
qed (simp add: sample_granted_eval credit_eval)

end
