(* ===== verification/PlanCatalog.thy ===== *)
theory PlanCatalog
  imports Interfaces Samples
begin

text \<open>
  The per-product plan catalogue of \<^verbatim>\<open>app/services/plan.py\<close>: the standard
  templates and their idempotent seeding, listing, lookup by code, creation and PATCH updates.
\<close>

section \<open>Templates\<close>

record plan_template =
  tpl_code :: string
  tpl_name :: string
  tpl_price_cents :: int
  tpl_trial_days :: int
  tpl_is_public :: bool

fun STANDARD_PLAN_TEMPLATES :: "TenantType \<Rightarrow> plan_template list" where
  "STANDARD_PLAN_TEMPLATES Company =
     [\<lparr>tpl_code = ''free'', tpl_name = ''Free'', tpl_price_cents = 0, tpl_trial_days = 0, tpl_is_public = True\<rparr>,
      \<lparr>tpl_code = ''pro'', tpl_name = ''Pro'', tpl_price_cents = 4900, tpl_trial_days = 14, tpl_is_public = True\<rparr>,
      \<lparr>tpl_code = ''enterprise'', tpl_name = ''Enterprise'', tpl_price_cents = 29900, tpl_trial_days = 30, tpl_is_public = True\<rparr>]"
| "STANDARD_PLAN_TEMPLATES Individual =
     [\<lparr>tpl_code = ''free'', tpl_name = ''Free'', tpl_price_cents = 0, tpl_trial_days = 0, tpl_is_public = True\<rparr>,
      \<lparr>tpl_code = ''pro'', tpl_name = ''Pro'', tpl_price_cents = 999, tpl_trial_days = 14, tpl_is_public = True\<rparr>,
      \<lparr>tpl_code = ''max'', tpl_name = ''Max'', tpl_price_cents = 1999, tpl_trial_days = 14, tpl_is_public = True\<rparr>]"

text \<open>\<^verbatim>\<open>uq_plans_product_code\<close> and \<^verbatim>\<open>uq_plan_features_unique\<close>.\<close>

definition plan_clash :: "Plan \<Rightarrow> Plan \<Rightarrow> bool" where
  "plan_clash x y \<longleftrightarrow> Plan_product_id x = Plan_product_id y \<and> Plan_code x = Plan_code y"

definition plan_feature_clash :: "PlanFeature \<Rightarrow> PlanFeature \<Rightarrow> bool" where
  "plan_feature_clash x y \<longleftrightarrow> PlanFeature_plan_id x = PlanFeature_plan_id y \<and>
     PlanFeature_feature_key x = PlanFeature_feature_key y"


section \<open>Operations\<close>

text \<open>The new rows are added in the order of the template; one flush writes them all before the
  first audit entry.\<close>

definition seed_standard_plans :: "uuid \<Rightarrow> TenantType \<Rightarrow> Plan list service" where
  "seed_standard_plans product_id tenant_type =
     bindS (scalars plans (\<lambda>p. Plan_product_id p = product_id)) (\<lambda>existing.
     let existing_codes = map Plan_code existing in
     bindS (mapS (filter (\<lambda>tpl. tpl_code tpl \<notin> set existing_codes) (STANDARD_PLAN_TEMPLATES tenant_type))
       (\<lambda>tpl.
         bindS fresh (\<lambda>i.
         let plan = \<lparr>Plan_id = i, Plan_product_id = product_id, Plan_code = tpl_code tpl,
               Plan_name = tpl_name tpl, Plan_description = None,
               Plan_price_cents = tpl_price_cents tpl, Plan_currency = ''USD'',
               Plan_interval = Month, Plan_trial_days = tpl_trial_days tpl,
               Plan_is_public = tpl_is_public tpl, Plan_is_active = True, Plan_provider_refs = []\<rparr>
         in bindS (insert_row plans plans_update plan_clash plan) (\<lambda>_. ret plan)))) (\<lambda>created.
     bindS (forS created (\<lambda>plan. record_audit ((act ''plan.create'')\<lparr>
              a_resource_type := Some ''plan'', a_resource_id := Some (Plan_id plan),
              a_product_id := Some product_id,
              a_diff := [(''code'', JStr (Plan_code plan)), (''price_cents'', JInt (Plan_price_cents plan)),
                         (''seeded'', JBool True)]\<rparr>))) (\<lambda>_.
     ret created)))"

definition list_plans :: "uuid \<Rightarrow> bool \<Rightarrow> Plan list service" where
  "list_plans product_id only_public =
     scalars plans (\<lambda>p. Plan_product_id p = product_id \<and> Plan_is_active p \<and>
       (only_public \<longrightarrow> Plan_is_public p))"

definition plan_by_code :: "uuid \<Rightarrow> string \<Rightarrow> Plan service" where
  "plan_by_code product_id code =
     bindS (scalar plans (\<lambda>p. Plan_product_id p = product_id \<and> Plan_code p = code)) (\<lambda>plan.
     case plan of None \<Rightarrow> raise (NotFound ''plan not found in product'') | Some p \<Rightarrow> ret p)"

record PlanFeatureIn =
  pf_feature_key :: string
  pf_limit_value :: "int option"
  pf_credit_amount :: "int option"
  pf_is_hard_limit :: bool
  pf_meta :: dict

record PlanCreate =
  pc_code :: string
  pc_name :: string
  pc_description :: "string option"
  pc_price_cents :: int
  pc_currency :: string
  pc_interval :: BillingInterval
  pc_trial_days :: int
  pc_is_public :: bool
  pc_features :: "PlanFeatureIn list"
  pc_provider_refs :: dict

definition create_plan :: "PlanCreate \<Rightarrow> uuid \<Rightarrow> uuid option \<Rightarrow> Plan service" where
  "create_plan data product_id actor_user_id =
     bindS (scalar plans (\<lambda>p. Plan_product_id p = product_id \<and> Plan_code p = pc_code data)) (\<lambda>old.
     if old \<noteq> None then raise (Conflict ''plan code already exists in this product'')
     else
     bindS fresh (\<lambda>i.
     let plan = \<lparr>Plan_id = i, Plan_product_id = product_id, Plan_code = pc_code data,
           Plan_name = pc_name data, Plan_description = pc_description data,
           Plan_price_cents = pc_price_cents data, Plan_currency = pc_currency data,
           Plan_interval = pc_interval data, Plan_trial_days = pc_trial_days data,
           Plan_is_public = pc_is_public data, Plan_is_active = True,
           Plan_provider_refs = pc_provider_refs data\<rparr>
     in
     bindS (insert_row plans plans_update plan_clash plan) (\<lambda>_.
     bindS (forS (pc_features data) (\<lambda>feat.
       bindS fresh (\<lambda>j.
       insert_row plan_features plan_features_update plan_feature_clash
         \<lparr>PlanFeature_id = j, PlanFeature_product_id = product_id, PlanFeature_plan_id = i,
          PlanFeature_feature_key = pf_feature_key feat, PlanFeature_limit_value = pf_limit_value feat,
          PlanFeature_credit_amount = pf_credit_amount feat,
          PlanFeature_is_hard_limit = pf_is_hard_limit feat, PlanFeature_meta = pf_meta feat\<rparr>))) (\<lambda>_.
     bindS (record_audit ((act ''plan.create'')\<lparr>a_actor_user_id := actor_user_id,
              a_resource_type := Some ''plan'', a_resource_id := Some i, a_product_id := Some product_id,
              a_diff := [(''code'', JStr (Plan_code plan)),
                         (''price_cents'', JInt (Plan_price_cents plan))]\<rparr>)) (\<lambda>_.
     ret plan)))))"

record PlanUpdate =
  pu_name :: "string patch"
  pu_description :: "string patch"
  pu_price_cents :: "int patch"
  pu_currency :: "string patch"
  pu_interval :: "BillingInterval patch"
  pu_trial_days :: "int patch"
  pu_is_public :: "bool patch"
  pu_is_active :: "bool patch"
  pu_provider_refs :: "dict patch"

definition plan_changes :: "PlanUpdate \<Rightarrow> Plan \<Rightarrow> Plan" where
  "plan_changes data p = p\<lparr>Plan_name := patch_value (pu_name data) (Plan_name p),
     Plan_description := patch_option (pu_description data) (Plan_description p),
     Plan_price_cents := patch_value (pu_price_cents data) (Plan_price_cents p),
     Plan_currency := patch_value (pu_currency data) (Plan_currency p),
     Plan_interval := patch_value (pu_interval data) (Plan_interval p),
     Plan_trial_days := patch_value (pu_trial_days data) (Plan_trial_days p),
     Plan_is_public := patch_value (pu_is_public data) (Plan_is_public p),
     Plan_is_active := patch_value (pu_is_active data) (Plan_is_active p),
     Plan_provider_refs := patch_value (pu_provider_refs data) (Plan_provider_refs p)\<rparr>"

text \<open>An explicit null for a column that is NOT NULL fails at the flush; for the JSON column it is
  written, and the response of the route, which must be an object, then fails and rolls back.\<close>

definition plan_null_violation :: "PlanUpdate \<Rightarrow> bool" where
  "plan_null_violation data \<longleftrightarrow> pu_name data = Null \<or> pu_price_cents data = Null \<or>
     pu_currency data = Null \<or> pu_interval data = Null \<or> pu_trial_days data = Null \<or>
     pu_is_public data = Null \<or> pu_is_active data = Null"

definition update_plan :: "string \<Rightarrow> PlanUpdate \<Rightarrow> uuid \<Rightarrow> uuid option \<Rightarrow> Plan service" where
  "update_plan code data product_id actor_user_id =
     bindS (plan_by_code product_id code) (\<lambda>plan.
     if plan_null_violation data then raise IntegrityError
     else
     bindS (update_rows plans_update (\<lambda>p. Plan_id p = Plan_id plan) (plan_changes data)) (\<lambda>_.
     bindS (record_audit ((act ''plan.update'')\<lparr>a_actor_user_id := actor_user_id,
              a_resource_type := Some ''plan'', a_resource_id := Some (Plan_id plan),
              a_product_id := Some product_id\<rparr>)) (\<lambda>_.
     if pu_provider_refs data = Null then raise (ValueError ''response validation'')
     else ret (plan_changes data plan))))"

end
