(* ===== verification/BillingProvider.thy ===== *)
theory BillingProvider
  imports Interfaces Samples
begin

text \<open>
  The billing provider interface of \<^verbatim>\<open>app/providers/billing\<close>: the neutral records,
  the abstract class as a record of operations, the in-memory mock, the signature check and the
  mappings of the Razorpay driver, and the factory. The HTTP side of the Stripe and Razorpay
  drivers talks to services whose code is not in the repository: a driver is a value of the type
  \<open>provider\<close>, which the lifecycle operations take as an argument.
\<close>

section \<open>Interface\<close>

record ProviderCustomer =
  pcus_id :: string
  pcus_email :: string

record ProviderInvoice =
  pinv_id :: string
  pinv_customer_id :: string
  pinv_subscription_id :: "string option"
  pinv_amount_cents :: int
  pinv_currency :: string
  pinv_status :: string
  pinv_hosted_url :: "string option"
  pinv_issued_at :: time
  pinv_due_at :: time

record WebhookEvent =
  event_id :: string
  event_type :: string
  event_data :: dict

text \<open>A webhook body is given as its text and what \<^verbatim>\<open>json.loads\<close> makes of it.\<close>

record provider =
  provider_name :: string
  ensure_customer :: "string \<Rightarrow> string \<Rightarrow> ProviderCustomer service"
  create_subscription :: "string \<Rightarrow> json \<Rightarrow> int \<Rightarrow> string option \<Rightarrow> string option \<Rightarrow> ProviderSubscription service"
  change_subscription :: "string \<Rightarrow> json \<Rightarrow> bool \<Rightarrow> string option \<Rightarrow> ProviderSubscription service"
  cancel_subscription :: "string \<Rightarrow> bool \<Rightarrow> ProviderSubscription service"
  parse_webhook :: "string \<Rightarrow> json option \<Rightarrow> string \<Rightarrow> WebhookEvent service"
  retry_invoice :: "string \<Rightarrow> ProviderInvoice service"


section \<open>The mock provider\<close>

definition mock_ensure_customer :: "string \<Rightarrow> string \<Rightarrow> ProviderCustomer service" where
  "mock_ensure_customer tenant_id email =
     ret \<lparr>pcus_id = ''mock_cus_'' @ tenant_id, pcus_email = email\<rparr>"

definition mock_create_subscription ::
    "string \<Rightarrow> json \<Rightarrow> int \<Rightarrow> string option \<Rightarrow> string option \<Rightarrow> ProviderSubscription service" where
  "mock_create_subscription customer_id price_id trial_days payment_method_token idempotency_key =
     bindS (gets now) (\<lambda>t.
     bindS fresh (\<lambda>u.
     let sub = \<lparr>psub_id = ''mock_sub_'' @ take 12 (hex_w 32 u), psub_customer_id = customer_id,
           psub_price_id = price_id,
           psub_status = (if trial_days \<noteq> 0 then ''trialing'' else ''active''),
           psub_current_period_start = t, psub_current_period_end = t + days 30,
           psub_cancel_at_period_end = False\<rparr>
     in
     bindS (modify (\<lambda>w. w\<lparr>mock_subs := filter (\<lambda>s. psub_id s \<noteq> psub_id sub) (mock_subs w) @ [sub]\<rparr>)) (\<lambda>_.
     ret sub)))"

definition mock_lookup :: "string \<Rightarrow> ProviderSubscription service" where
  "mock_lookup subscription_id =
     bindS (gets mock_subs) (\<lambda>subs.
     case List.find (\<lambda>s. psub_id s = subscription_id) subs of
       None \<Rightarrow> raise (KeyError subscription_id) | Some s \<Rightarrow> ret s)"

definition mock_set :: "ProviderSubscription \<Rightarrow> ProviderSubscription service" where
  "mock_set sub =
     bindS (modify (\<lambda>w. w\<lparr>mock_subs := map_rows (\<lambda>s. psub_id s = psub_id sub) (\<lambda>_. sub) (mock_subs w)\<rparr>)) (\<lambda>_.
     ret sub)"

definition mock_change_subscription ::
    "string \<Rightarrow> json \<Rightarrow> bool \<Rightarrow> string option \<Rightarrow> ProviderSubscription service" where
  "mock_change_subscription subscription_id new_price_id proration idempotency_key =
     bindS (mock_lookup subscription_id) (\<lambda>sub.
     mock_set (sub\<lparr>psub_price_id := new_price_id\<rparr>))"

definition mock_cancel_subscription :: "string \<Rightarrow> bool \<Rightarrow> ProviderSubscription service" where
  "mock_cancel_subscription subscription_id at_period_end =
     bindS (mock_lookup subscription_id) (\<lambda>sub.
     mock_set (if at_period_end then sub\<lparr>psub_cancel_at_period_end := True\<rparr>
               else sub\<lparr>psub_status := ''canceled''\<rparr>))"

text \<open>\<^verbatim>\<open>body["key"]\<close> and \<^verbatim>\<open>str(...)\<close> of a JSON value.\<close>

definition json_item :: "json \<Rightarrow> string \<Rightarrow> app_error + json" where
  "json_item j k =
     (case j of
        JObj d \<Rightarrow> (case map_of d k of None \<Rightarrow> Inl (KeyError k) | Some v \<Rightarrow> Inr v)
      | _ \<Rightarrow> Inl (ValueError ''not subscriptable''))"

fun json_str :: "json \<Rightarrow> string" where
  "json_str (JStr s) = s"
| "json_str (JInt i) = int_str i"
| "json_str (JBool b) = (if b then ''True'' else ''False'')"
| "json_str (JUuid u) = uuid_str u"
| "json_str _ = ''None''"

fun json_dict :: "json \<Rightarrow> dict" where
  "json_dict (JObj d) = d"
| "json_dict _ = []"

definition mock_parse_webhook :: "string \<Rightarrow> json option \<Rightarrow> string \<Rightarrow> WebhookEvent service" where
  "mock_parse_webhook payload body signature =
     (case body of
        None \<Rightarrow> raise (ValueError ''JSONDecodeError'')
      | Some b \<Rightarrow>
          bindS (liftE (json_get b ''id'' (JStr ''evt_mock''))) (\<lambda>i.
          bindS (liftE (json_item b ''type'')) (\<lambda>ty.
          bindS (liftE (json_get b ''data'' (JObj []))) (\<lambda>d.
          ret \<lparr>event_id = json_str i, event_type = json_str ty, event_data = json_dict d\<rparr>))))"

definition mock_retry_invoice :: "string \<Rightarrow> ProviderInvoice service" where
  "mock_retry_invoice invoice_id =
     bindS (gets now) (\<lambda>t.
     ret \<lparr>pinv_id = invoice_id, pinv_customer_id = ''mock_cus'', pinv_subscription_id = None,
       pinv_amount_cents = 0, pinv_currency = ''USD'', pinv_status = ''paid'', pinv_hosted_url = None,
       pinv_issued_at = t, pinv_due_at = t\<rparr>)"

definition mock_provider :: provider where
  "mock_provider = \<lparr>provider_name = ''mock'', ensure_customer = mock_ensure_customer,
     create_subscription = mock_create_subscription, change_subscription = mock_change_subscription,
     cancel_subscription = mock_cancel_subscription, parse_webhook = mock_parse_webhook,
     retry_invoice = mock_retry_invoice\<rparr>"

text \<open>\<^verbatim>\<open>get_billing_provider\<close>: the two networked drivers are the arguments.\<close>

definition get_billing_provider :: "provider \<Rightarrow> provider \<Rightarrow> Settings \<Rightarrow> provider" where
  "get_billing_provider stripe razorpay st =
     (if billing_provider st = ''stripe'' then stripe
      else if billing_provider st = ''razorpay'' then razorpay
      else mock_provider)"


section \<open>The contract\<close>

text \<open>What the lifecycle relies on: a call to the provider, whether it returns or raises, leaves the
  program's database, clock and settings alone.\<close>

locale quiet_provider =
  fixes bp :: provider
  assumes quiet_customer: "quiet (ensure_customer bp tenant email)"
    and quiet_create: "quiet (create_subscription bp customer price trial method key)"
    and quiet_change: "quiet (change_subscription bp sub price proration key)"
    and quiet_cancel: "quiet (cancel_subscription bp sub at_end)"
    and quiet_parse: "quiet (parse_webhook bp payload body signature)"

lemma quiet_mock_lookup [quiet_intros]: "quiet (mock_lookup i)"
  unfolding mock_lookup_def by (intro quiet_intros)

lemma quiet_mock_set [quiet_intros]: "quiet (mock_set s)"
  unfolding mock_set_def by (intro quiet_intros quiet_modify) (simp add: quiet_step_def)

lemma quiet_mock_customer: "quiet (mock_ensure_customer tenant email)"
  unfolding mock_ensure_customer_def by (intro quiet_intros)

lemma quiet_mock_create: "quiet (mock_create_subscription customer price trial pm key)"
  unfolding mock_create_subscription_def Let_def
  by (intro quiet_intros quiet_modify) (simp add: quiet_step_def)

lemma quiet_mock_change: "quiet (mock_change_subscription sub price proration key)"
  unfolding mock_change_subscription_def by (intro quiet_intros)

lemma quiet_mock_cancel: "quiet (mock_cancel_subscription sub at_end)"
  unfolding mock_cancel_subscription_def by (intro quiet_intros)

lemma quiet_mock_parse: "quiet (mock_parse_webhook payload body signature)"
  unfolding mock_parse_webhook_def by (intro quiet_intros)

interpretation mock: quiet_provider mock_provider
  by unfold_locales
    (simp_all add: mock_provider_def quiet_mock_customer quiet_mock_create quiet_mock_change
      quiet_mock_cancel quiet_mock_parse)

end
