(* ===== verification/Drivers.thy ===== *)
theory Drivers
  imports BillingProvider
begin

text \<open>
  The Razorpay and Stripe drivers of \<^verbatim>\<open>app/providers/billing\<close> as values of
  \<open>provider\<close>. What they send and how they read the answers is modelled; the HTTP client and the
  vendor SDK are parameters: \<open>http method path body headers\<close> is the status and the JSON body
  of an answer, \<open>stripe_sdk\<close> the SDK calls the driver makes.
\<close>

section \<open>Reading JSON answers\<close>

definition dict_item :: "dict \<Rightarrow> string \<Rightarrow> app_error + json" where
  "dict_item d k = json_item (JObj d) k"

text \<open>\<^verbatim>\<open>d.get(k) or default\<close>\<close>

definition get_or :: "dict \<Rightarrow> string \<Rightarrow> json \<Rightarrow> json" where
  "get_or d k dflt = (let v = dict_get d k JNull in if json_bool v then v else dflt)"

text \<open>\<^verbatim>\<open>_ts(ts) = datetime.fromtimestamp(ts or 0, tz=UTC)\<close>\<close>

fun ts :: "json \<Rightarrow> app_error + time" where
  "ts (JInt n) = Inr (seconds n)"
| "ts v = (if json_bool v then Inl (RuntimeError ''TypeError'') else Inr 0)"


section \<open>Razorpay\<close>

type_synonym http_client = "string \<Rightarrow> string \<Rightarrow> dict \<Rightarrow> (string \<times> string) list \<Rightarrow> (int \<times> dict) service"

definition razorpay_headers :: "string \<Rightarrow> string option \<Rightarrow> (string \<times> string) list" where
  "razorpay_headers auth idempotency_key =
     [(''Authorization'', ''Basic '' @ auth), (''Content-Type'', ''application/json'')] @
     (if truthy idempotency_key then [(''X-Razorpay-Idempotency'', the idempotency_key)] else [])"

definition razorpay_request ::
    "http_client \<Rightarrow> string \<Rightarrow> string \<Rightarrow> string \<Rightarrow> dict \<Rightarrow> string option \<Rightarrow> dict service" where
  "razorpay_request http auth method_name path body idempotency_key =
     bindS (http method_name path body (razorpay_headers auth idempotency_key)) (\<lambda>(status, answer).
     if status \<ge> 400 then raise (RuntimeError ''razorpay request failed'') else ret answer)"

definition razorpay_sub :: "dict \<Rightarrow> ProviderSubscription service" where
  "razorpay_sub sub =
     bindS (liftE (dict_item sub ''id'')) (\<lambda>i.
     bindS (liftE (ts (dict_get sub ''current_start'' JNull))) (\<lambda>period_start.
     bindS (liftE (ts (dict_get sub ''current_end'' JNull))) (\<lambda>period_end.
     ret \<lparr>psub_id = json_str i, psub_customer_id = json_str (get_or sub ''customer_id'' (JStr [])),
       psub_price_id = JStr (json_str (get_or sub ''plan_id'' (JStr []))),
       psub_status = json_str (get_or sub ''status'' (JStr ''created'')),
       psub_current_period_start = period_start, psub_current_period_end = period_end,
       psub_cancel_at_period_end = json_bool (get_or sub ''cancel_at_cycle_end'' (JBool False))\<rparr>)))"

definition razorpay_ensure_customer :: "http_client \<Rightarrow> string \<Rightarrow> string \<Rightarrow> string \<Rightarrow> ProviderCustomer service" where
  "razorpay_ensure_customer http auth tenant_id email =
     bindS (razorpay_request http auth ''POST'' ''/customers''
              [(''email'', JStr email), (''notes'', JObj [(''tenant_id'', JStr tenant_id)]),
               (''fail_existing'', JInt 0)] None) (\<lambda>data.
     bindS (liftE (dict_item data ''id'')) (\<lambda>i.
     ret \<lparr>pcus_id = json_str i, pcus_email = json_str (get_or data ''email'' (JStr email))\<rparr>))"

definition razorpay_create_subscription ::
    "http_client \<Rightarrow> string \<Rightarrow> string \<Rightarrow> json \<Rightarrow> int \<Rightarrow> string option \<Rightarrow> string option \<Rightarrow>
     ProviderSubscription service" where
  "razorpay_create_subscription http auth customer_id price_id trial_days payment_method_token idempotency_key =
     bindS (gets now) (\<lambda>t.
     bindS (razorpay_request http auth ''POST'' ''/subscriptions''
              ([(''plan_id'', price_id), (''customer_id'', JStr customer_id),
                (''total_count'', JInt 120), (''customer_notify'', JInt 1)] @
               (if trial_days \<noteq> 0 then [(''start_at'', JInt (t div 1000000 + trial_days * 86400))] else []))
              idempotency_key) (\<lambda>data.
     razorpay_sub data))"

definition razorpay_change_subscription ::
    "http_client \<Rightarrow> string \<Rightarrow> string \<Rightarrow> json \<Rightarrow> bool \<Rightarrow> string option \<Rightarrow> ProviderSubscription service" where
  "razorpay_change_subscription http auth subscription_id new_price_id proration idempotency_key =
     bindS (razorpay_request http auth ''PATCH'' (''/subscriptions/'' @ subscription_id)
              [(''plan_id'', new_price_id),
               (''schedule_change_at'', JStr (if proration then ''now'' else ''cycle_end''))]
              idempotency_key) (\<lambda>data.
     razorpay_sub data)"

definition razorpay_cancel_subscription ::
    "http_client \<Rightarrow> string \<Rightarrow> string \<Rightarrow> bool \<Rightarrow> ProviderSubscription service" where
  "razorpay_cancel_subscription http auth subscription_id at_period_end =
     bindS (razorpay_request http auth ''POST'' (''/subscriptions/'' @ subscription_id @ ''/cancel'')
              [(''cancel_at_cycle_end'', JInt (if at_period_end then 1 else 0))] None) (\<lambda>data.
     razorpay_sub data)"

text \<open>The signature is compared before the body is looked at.\<close>

definition razorpay_parse_webhook :: "string \<Rightarrow> string \<Rightarrow> json option \<Rightarrow> string \<Rightarrow> WebhookEvent service" where
  "razorpay_parse_webhook secret payload body signature =
     (if secret = [] then raise (RuntimeError ''RAZORPAY_WEBHOOK_SECRET missing'')
      else
     bindS (gets lib) (\<lambda>l.
     if hmac_sha256_hex l secret payload \<noteq> signature
     then raise (RuntimeError ''razorpay webhook signature verification failed'')
     else
     (case body of
        None \<Rightarrow> raise (ValueError ''JSONDecodeError'')
      | Some (JObj b) \<Rightarrow>
          bindS (liftE (dict_item b ''event'')) (\<lambda>ev.
          ret \<lparr>event_id = json_str (get_or b ''id'' (get_or b ''account_id'' (JStr ''evt_razorpay''))),
            event_type = json_str ev, event_data = json_dict (dict_get b ''payload'' (JObj []))\<rparr>)
      | Some _ \<Rightarrow> raise (AttributeError ''get''))))"

definition json_opt_str :: "json \<Rightarrow> string option" where
  "json_opt_str v = (case v of JNull \<Rightarrow> None | _ \<Rightarrow> Some (json_str v))"

definition json_upper_str :: "string \<Rightarrow> string" where
  "json_upper_str s = map (\<lambda>c. if of_char c \<ge> (97 :: nat) \<and> of_char c \<le> (122 :: nat)
     then char_of (of_char c - 32 :: nat) else c) s"

definition razorpay_retry_invoice :: "http_client \<Rightarrow> string \<Rightarrow> string \<Rightarrow> ProviderInvoice service" where
  "razorpay_retry_invoice http auth invoice_id =
     bindS (razorpay_request http auth ''GET'' (''/invoices/'' @ invoice_id) [] None) (\<lambda>data.
     bindS (liftE (dict_item data ''id'')) (\<lambda>i.
     bindS (liftE (case get_or data ''amount'' (JInt 0) of
              JInt n \<Rightarrow> Inr n | _ \<Rightarrow> Inl (RuntimeError ''int()''))) (\<lambda>amount.
     bindS (liftE (ts (get_or data ''issued_at'' (dict_get data ''created_at'' JNull)))) (\<lambda>issued.
     bindS (liftE (ts (get_or data ''expire_by'' (dict_get data ''created_at'' JNull)))) (\<lambda>due.
     ret \<lparr>pinv_id = json_str i, pinv_customer_id = json_str (get_or data ''customer_id'' (JStr [])),
       pinv_subscription_id = json_opt_str (dict_get data ''subscription_id'' JNull),
       pinv_amount_cents = amount,
       pinv_currency = json_upper_str (json_str (get_or data ''currency'' (JStr ''INR''))),
       pinv_status = json_str (get_or data ''status'' (JStr ''issued'')),
       pinv_hosted_url = json_opt_str (dict_get data ''short_url'' JNull),
       pinv_issued_at = issued, pinv_due_at = due\<rparr>)))))"

definition razorpay_provider :: "http_client \<Rightarrow> string \<Rightarrow> string \<Rightarrow> provider" where
  "razorpay_provider http auth webhook_secret = \<lparr>provider_name = ''razorpay'',
     ensure_customer = razorpay_ensure_customer http auth,
     create_subscription = razorpay_create_subscription http auth,
     change_subscription = razorpay_change_subscription http auth,
     cancel_subscription = razorpay_cancel_subscription http auth,
     parse_webhook = razorpay_parse_webhook webhook_secret,
     retry_invoice = razorpay_retry_invoice http auth\<rparr>"


section \<open>Stripe\<close>

record stripe_sdk =
  Customer_search :: "string \<Rightarrow> ProviderCustomer list service"
  Customer_create :: "string \<Rightarrow> string \<Rightarrow> ProviderCustomer service"
  Subscription_create :: "dict \<Rightarrow> string option \<Rightarrow> json service"
  Subscription_retrieve :: "string \<Rightarrow> json service"
  Subscription_modify :: "string \<Rightarrow> dict \<Rightarrow> string option \<Rightarrow> json service"
  Subscription_cancel :: "string \<Rightarrow> json service"
  construct_event :: "string \<Rightarrow> string \<Rightarrow> string \<Rightarrow> json service"
  Invoice_pay :: "string \<Rightarrow> ProviderInvoice service"

text \<open>\<^verbatim>\<open>x["a"]["b"]\<close> and \<^verbatim>\<open>xs[0]\<close>.\<close>

definition json_head :: "json \<Rightarrow> app_error + json" where
  "json_head j = (case j of JList (x # _) \<Rightarrow> Inr x | _ \<Rightarrow> Inl (RuntimeError ''IndexError''))"

definition first_item :: "json \<Rightarrow> json service" where
  "first_item sub =
     bindS (liftE (json_item sub ''items'')) (\<lambda>items.
     bindS (liftE (json_item items ''data'')) (\<lambda>data.
     liftE (json_head data)))"

definition stripe_sub :: "json \<Rightarrow> ProviderSubscription service" where
  "stripe_sub sub =
     bindS (liftE (json_item sub ''id'')) (\<lambda>i.
     bindS (liftE (json_item sub ''customer'')) (\<lambda>customer.
     bindS (first_item sub) (\<lambda>item.
     bindS (liftE (json_item item ''price'')) (\<lambda>price.
     bindS (liftE (json_item price ''id'')) (\<lambda>price_id.
     bindS (liftE (json_item sub ''status'')) (\<lambda>status.
     bindS (liftE (json_item sub ''current_period_start'')) (\<lambda>cps.
     bindS (liftE (ts cps)) (\<lambda>period_start.
     bindS (liftE (json_item sub ''current_period_end'')) (\<lambda>cpe.
     bindS (liftE (ts cpe)) (\<lambda>period_end.
     bindS (liftE (json_item sub ''cancel_at_period_end'')) (\<lambda>at_end.
     ret \<lparr>psub_id = json_str i, psub_customer_id = json_str customer, psub_price_id = price_id,
       psub_status = json_str status, psub_current_period_start = period_start,
       psub_current_period_end = period_end, psub_cancel_at_period_end = json_bool at_end\<rparr>)))))))))))"

definition stripe_ensure_customer :: "stripe_sdk \<Rightarrow> string \<Rightarrow> string \<Rightarrow> ProviderCustomer service" where
  "stripe_ensure_customer sdk tenant_id email =
     bindS (Customer_search sdk (''metadata['' @ [CHR 0x22] @ ''tenant_id'' @ [CHR 0x22] @ '']:'' @
              [CHR 0x22] @ tenant_id @ [CHR 0x22])) (\<lambda>existing.
     bindS (case existing of cust # _ \<Rightarrow> ret cust | [] \<Rightarrow> Customer_create sdk email tenant_id) (\<lambda>cust.
     ret \<lparr>pcus_id = pcus_id cust, pcus_email = (if pcus_email cust = [] then email else pcus_email cust)\<rparr>))"

definition stripe_create_subscription ::
    "stripe_sdk \<Rightarrow> string \<Rightarrow> json \<Rightarrow> int \<Rightarrow> string option \<Rightarrow> string option \<Rightarrow> ProviderSubscription service" where
  "stripe_create_subscription sdk customer_id price_id trial_days payment_method_token idempotency_key =
     bindS (Subscription_create sdk
              ([(''customer'', JStr customer_id), (''items'', JList [JObj [(''price'', price_id)]]),
                (''payment_behavior'', JStr ''default_incomplete''),
                (''expand'', JList [JStr ''latest_invoice.payment_intent''])] @
               (if trial_days \<noteq> 0 then [(''trial_period_days'', JInt trial_days)] else []) @
               (if truthy payment_method_token
                then [(''default_payment_method'', JStr (the payment_method_token))] else []))
              idempotency_key) (\<lambda>sub.
     stripe_sub sub)"

definition stripe_change_subscription ::
    "stripe_sdk \<Rightarrow> string \<Rightarrow> json \<Rightarrow> bool \<Rightarrow> string option \<Rightarrow> ProviderSubscription service" where
  "stripe_change_subscription sdk subscription_id new_price_id proration idempotency_key =
     bindS (Subscription_retrieve sdk subscription_id) (\<lambda>current.
     bindS (first_item current) (\<lambda>item.
     bindS (liftE (json_item item ''id'')) (\<lambda>item_id.
     bindS (Subscription_modify sdk subscription_id
              [(''items'', JList [JObj [(''id'', item_id), (''price'', new_price_id)]]),
               (''proration_behavior'', JStr (if proration then ''create_prorations'' else ''none''))]
              idempotency_key) (\<lambda>sub.
     stripe_sub sub))))"

definition stripe_cancel_subscription :: "stripe_sdk \<Rightarrow> string \<Rightarrow> bool \<Rightarrow> ProviderSubscription service" where
  "stripe_cancel_subscription sdk subscription_id at_period_end =
     bindS (if at_period_end
            then Subscription_modify sdk subscription_id [(''cancel_at_period_end'', JBool True)] None
            else Subscription_cancel sdk subscription_id) (\<lambda>sub.
     stripe_sub sub)"

definition stripe_parse_webhook :: "stripe_sdk \<Rightarrow> string \<Rightarrow> string \<Rightarrow> json option \<Rightarrow> string \<Rightarrow> WebhookEvent service" where
  "stripe_parse_webhook sdk secret payload body signature =
     bindS (construct_event sdk payload signature secret) (\<lambda>event.
     bindS (liftE (json_item event ''id'')) (\<lambda>i.
     bindS (liftE (json_item event ''type'')) (\<lambda>ty.
     bindS (liftE (json_item event ''data'')) (\<lambda>data.
     bindS (liftE (json_item data ''object'')) (\<lambda>object.
     ret \<lparr>event_id = json_str i, event_type = json_str ty, event_data = json_dict object\<rparr>)))))"

definition stripe_provider :: "stripe_sdk \<Rightarrow> string \<Rightarrow> provider" where
  "stripe_provider sdk webhook_secret = \<lparr>provider_name = ''stripe'',
     ensure_customer = stripe_ensure_customer sdk,
     create_subscription = stripe_create_subscription sdk,
     change_subscription = stripe_change_subscription sdk,
     cancel_subscription = stripe_cancel_subscription sdk,
     parse_webhook = stripe_parse_webhook sdk webhook_secret,
     retry_invoice = Invoice_pay sdk\<rparr>"


section \<open>Both drivers meet the contract\<close>

text \<open>A driver is quiet when the client it calls is: the other side of the network cannot reach the
  program's database.\<close>

lemma quiet_sdk_parts [quiet_intros]:
  "quiet (razorpay_sub d)" "quiet (first_item j)" "quiet (stripe_sub j)"
  unfolding razorpay_sub_def first_item_def stripe_sub_def by (intro quiet_intros)+

lemma quiet_request:
  assumes "\<And>verb path body headers. quiet (http verb path body headers)"
  shows "quiet (razorpay_request http auth verb path body key)"
  unfolding razorpay_request_def by (intro quiet_intros assms)

lemma quiet_razorpay_parse: "quiet (razorpay_parse_webhook secret payload body signature)"
  unfolding razorpay_parse_webhook_def
  by (auto intro!: quiet_intros split: option.split json.split)

lemma razorpay_quiet:
  assumes "\<And>verb path body headers. quiet (http verb path body headers)"
  shows "quiet_provider (razorpay_provider http auth secret)"
  by unfold_locales
    (auto simp: razorpay_provider_def razorpay_ensure_customer_def razorpay_create_subscription_def
      razorpay_change_subscription_def razorpay_cancel_subscription_def quiet_razorpay_parse
      intro!: quiet_intros quiet_request assms)

lemma stripe_quiet:
  assumes "\<And>q. quiet (Customer_search sdk q)" and "\<And>e t. quiet (Customer_create sdk e t)"
    and "\<And>d k. quiet (Subscription_create sdk d k)" and "\<And>i. quiet (Subscription_retrieve sdk i)"
    and "\<And>i d k. quiet (Subscription_modify sdk i d k)" and "\<And>i. quiet (Subscription_cancel sdk i)"
    and "\<And>p s k. quiet (construct_event sdk p s k)"
  shows "quiet_provider (stripe_provider sdk secret)"
  by unfold_locales
    (auto simp: stripe_provider_def stripe_ensure_customer_def stripe_create_subscription_def
      stripe_change_subscription_def stripe_cancel_subscription_def stripe_parse_webhook_def
      intro!: quiet_intros assms split: list.split)

end
