(* ===== verification/Lifecycle.thy ===== *)
theory Lifecycle
  imports PlanCatalog Drivers Credit
begin

text \<open>
  The subscription lifecycle: \<^verbatim>\<open>app/services/subscription.py\<close>,
  \<^verbatim>\<open>app/services/billing.py\<close> and the billing webhook of
  \<^verbatim>\<open>app/api/v1/webhooks.py\<close>. The provider is an argument of the operations that call
  it. \<^verbatim>\<open>db.get(Subscription, id)\<close> is the lookup by primary key; assignments on the
  loaded object are updates of its row.
\<close>

section \<open>Subscriptions\<close>

definition has_access :: "Subscription \<Rightarrow> bool" where
  "has_access s \<longleftrightarrow> Subscription_status s \<in> {Trial, Active, PastDue, Grace}"

text \<open>\<^verbatim>\<open>uq_subscriptions_tenant\<close>\<close>

definition subscription_clash :: "Subscription \<Rightarrow> Subscription \<Rightarrow> bool" where
  "subscription_clash x y \<longleftrightarrow> Subscription_tenant_id x = Subscription_tenant_id y"

definition set_subscription :: "uuid \<Rightarrow> (Subscription \<Rightarrow> Subscription) \<Rightarrow> unit service" where
  "set_subscription i f = update_rows subscriptions_update (\<lambda>s. Subscription_id s = i) f"

text \<open>\<^verbatim>\<open>min(plans, key=...)\<close>: the first of the cheapest.\<close>

fun cheapest :: "Plan list \<Rightarrow> Plan option" where
  "cheapest [] = None"
| "cheapest (p # ps) =
     (case cheapest ps of
        None \<Rightarrow> Some p
      | Some q \<Rightarrow> if Plan_price_cents p \<le> Plan_price_cents q then Some p else Some q)"

definition trial_plan :: "uuid \<Rightarrow> string option \<Rightarrow> Plan service" where
  "trial_plan product_id plan_code =
     (case plan_code of
        Some c \<Rightarrow>
          if c \<noteq> [] then plan_by_code product_id c
          else bindS (list_plans product_id True) (\<lambda>ps.
               case cheapest ps of
                 None \<Rightarrow> raise (ValidationFailed ''no public plans available; seed plans first'')
               | Some p \<Rightarrow> ret p)
      | None \<Rightarrow>
          bindS (list_plans product_id True) (\<lambda>ps.
          case cheapest ps of
            None \<Rightarrow> raise (ValidationFailed ''no public plans available; seed plans first'')
          | Some p \<Rightarrow> ret p))"

definition start_trial :: "uuid \<Rightarrow> uuid \<Rightarrow> string option \<Rightarrow> Subscription service" where
  "start_trial tenant_id product_id plan_code =
     bindS (scalar subscriptions (\<lambda>s. Subscription_tenant_id s = tenant_id)) (\<lambda>old.
     if old \<noteq> None then raise (Conflict ''subscription already exists'')
     else
     bindS (trial_plan product_id plan_code) (\<lambda>plan.
     bindS (gets now) (\<lambda>t.
     bindS (gets settings) (\<lambda>st.
     let free = (Plan_price_cents plan = 0);
         status = (if free then Active else Trial);
         trial_days = (if free then 0
                       else if Plan_trial_days plan \<noteq> 0 then Plan_trial_days plan
                       else default_trial_days st);
         trial_end = (if free then None else Some (t + days trial_days));
         current_period_end = (if free then t + days (365 * 100) else t + days 30)
     in
     bindS fresh (\<lambda>i.
     let sub = \<lparr>Subscription_id = i, Subscription_product_id = product_id,
           Subscription_tenant_id = tenant_id, Subscription_plan_id = Plan_id plan,
           Subscription_status = status, Subscription_current_period_start = t,
           Subscription_current_period_end = current_period_end, Subscription_trial_end = trial_end,
           Subscription_grace_ends_at = None, Subscription_cancel_at_period_end = False,
           Subscription_cancelled_at = None, Subscription_provider = ''mock'',
           Subscription_provider_subscription_id = None, Subscription_provider_customer_id = None\<rparr>
     in
     bindS (insert_row subscriptions subscriptions_update subscription_clash sub) (\<lambda>_.
     bindS (grant_plan_credits tenant_id product_id plan (''trial:'' @ uuid_str i)) (\<lambda>_.
     bindS (record_audit ((act (if free then ''subscription.activated_free''
                                else ''subscription.trial_started''))\<lparr>
              a_resource_type := Some ''subscription'', a_resource_id := Some i,
              a_tenant_id := Some tenant_id, a_product_id := Some product_id,
              a_diff := [(''plan'', JStr (Plan_code plan)), (''trial_days'', JInt trial_days),
                         (''status'', JStr (subscription_status_value status))]\<rparr>)) (\<lambda>_.
     ret sub))))))))"

definition get_or_raise :: "uuid \<Rightarrow> Subscription service" where
  "get_or_raise tenant_id =
     bindS (scalar subscriptions (\<lambda>s. Subscription_tenant_id s = tenant_id)) (\<lambda>sub.
     case sub of None \<Rightarrow> raise (NotFound ''subscription not found'') | Some s \<Rightarrow> ret s)"

text \<open>\<^verbatim>\<open>purchase\<close>, in its two halves: the lookups and the calls to the provider,
  then the upsert. A new row is written by one insert at the flush, with the values the
  assignments gave it.\<close>

definition purchase_at_provider ::
    "provider \<Rightarrow> uuid \<Rightarrow> string \<Rightarrow> string option \<Rightarrow> string option \<Rightarrow>
     (Tenant \<times> Plan \<times> ProviderCustomer \<times> ProviderSubscription) service" where
  "purchase_at_provider provider tenant_id plan_code payment_method_token idempotency_key =
     bindS (scalar tenants (\<lambda>t. Tenant_id t = tenant_id)) (\<lambda>tenant.
     case tenant of None \<Rightarrow> raise (NotFound ''tenant missing'') | Some tenant \<Rightarrow>
     bindS (plan_by_code (Tenant_product_id tenant) plan_code) (\<lambda>plan.
     let price_id = dict_get (Plan_provider_refs plan) (provider_name provider) JNull in
     if \<not> json_bool price_id \<and> provider_name provider \<noteq> ''mock''
     then raise (ValidationFailed ''plan has no price for provider'')
     else
     bindS (ensure_customer provider (uuid_str tenant_id) (''billing@'' @ Tenant_slug tenant)) (\<lambda>customer.
     bindS (create_subscription provider (pcus_id customer)
              (if json_bool price_id then price_id else JStr (Plan_code plan)) 0
              payment_method_token idempotency_key) (\<lambda>p_sub.
     ret (tenant, plan, customer, p_sub)))))"

definition purchased ::
    "provider \<Rightarrow> Plan \<Rightarrow> ProviderCustomer \<Rightarrow> ProviderSubscription \<Rightarrow> Subscription \<Rightarrow> Subscription" where
  "purchased provider plan customer p_sub s =
     s\<lparr>Subscription_plan_id := Plan_id plan, Subscription_status := Active,
       Subscription_current_period_start := psub_current_period_start p_sub,
       Subscription_current_period_end := psub_current_period_end p_sub,
       Subscription_trial_end := None, Subscription_grace_ends_at := None,
       Subscription_cancel_at_period_end := False, Subscription_cancelled_at := None,
       Subscription_provider := provider_name provider,
       Subscription_provider_customer_id := Some (pcus_id customer),
       Subscription_provider_subscription_id := Some (psub_id p_sub)\<rparr>"

text \<open>\<^verbatim>\<open>Subscription(product_id=..., tenant_id=..., plan_id=...)\<close> with the column
  defaults; the two NOT NULL period columns are assigned before the flush.\<close>

definition blank_subscription :: "uuid \<Rightarrow> uuid \<Rightarrow> uuid \<Rightarrow> uuid \<Rightarrow> Subscription" where
  "blank_subscription i product_id tenant_id plan_id =
     \<lparr>Subscription_id = i, Subscription_product_id = product_id, Subscription_tenant_id = tenant_id,
      Subscription_plan_id = plan_id, Subscription_status = Trial,
      Subscription_current_period_start = 0, Subscription_current_period_end = 0,
      Subscription_trial_end = None, Subscription_grace_ends_at = None,
      Subscription_cancel_at_period_end = False, Subscription_cancelled_at = None,
      Subscription_provider = ''mock'', Subscription_provider_subscription_id = None,
      Subscription_provider_customer_id = None\<rparr>"

definition upsert_subscription ::
    "uuid \<Rightarrow> uuid \<Rightarrow> uuid \<Rightarrow> (Subscription \<Rightarrow> Subscription) \<Rightarrow> (Subscription \<times> bool) service" where
  "upsert_subscription tenant_id product_id plan_id assign =
     bindS (scalar subscriptions (\<lambda>s. Subscription_tenant_id s = tenant_id)) (\<lambda>existing.
     case existing of
       Some s \<Rightarrow>
         bindS (set_subscription (Subscription_id s) assign) (\<lambda>_. ret (assign s, False))
     | None \<Rightarrow>
         bindS fresh (\<lambda>i.
         bindS (insert_row subscriptions subscriptions_update subscription_clash
                  (assign (blank_subscription i product_id tenant_id plan_id))) (\<lambda>_.
         ret (assign (blank_subscription i product_id tenant_id plan_id), True))))"

definition purchase ::
    "provider \<Rightarrow> uuid \<Rightarrow> string \<Rightarrow> string option \<Rightarrow> uuid option \<Rightarrow> string option \<Rightarrow> Subscription service" where
  "purchase provider tenant_id plan_code payment_method_token actor_user_id idempotency_key =
     bindS (purchase_at_provider provider tenant_id plan_code payment_method_token idempotency_key)
       (\<lambda>(tenant, plan, customer, p_sub).
     bindS (upsert_subscription tenant_id (Tenant_product_id tenant) (Plan_id plan)
              (purchased provider plan customer p_sub)) (\<lambda>(sub, is_new).
     bindS (grant_plan_credits tenant_id (Tenant_product_id tenant) plan
              (''period:'' @ psub_id p_sub @ '':'' @ date_str (date_of (psub_current_period_start p_sub)))) (\<lambda>_.
     bindS (record_audit ((act (if is_new then ''subscription.start'' else ''subscription.purchase''))\<lparr>
              a_actor_user_id := actor_user_id, a_resource_type := Some ''subscription'',
              a_resource_id := Some (Subscription_id sub), a_tenant_id := Some tenant_id,
              a_product_id := Some (Tenant_product_id tenant),
              a_diff := [(''plan'', JStr (Plan_code plan)), (''provider'', JStr (provider_name provider)),
                         (''created'', JBool is_new)]\<rparr>)) (\<lambda>_.
     ret sub))))"

definition change_plan ::
    "provider \<Rightarrow> uuid \<Rightarrow> string \<Rightarrow> bool \<Rightarrow> uuid option \<Rightarrow> string option \<Rightarrow> Subscription service" where
  "change_plan provider tenant_id new_plan_code proration actor_user_id idempotency_key =
     bindS (get_or_raise tenant_id) (\<lambda>sub.
     bindS (plan_by_code (Subscription_product_id sub) new_plan_code) (\<lambda>new_plan.
     bindS (scalar plans (\<lambda>p. Plan_id p = Subscription_plan_id sub)) (\<lambda>old_plan.
     if (case old_plan of None \<Rightarrow> False | Some o' \<Rightarrow> Plan_id o' = Plan_id new_plan)
     then raise (Conflict ''subscription already on this plan'')
     else
     let is_upgrade = (Plan_price_cents new_plan >
           (case old_plan of None \<Rightarrow> 0 | Some o' \<Rightarrow> Plan_price_cents o'))
     in
     bindS (if truthy (Subscription_provider_subscription_id sub)
            then
              bindS (change_subscription provider (the (Subscription_provider_subscription_id sub))
                       (dict_get (Plan_provider_refs new_plan) (provider_name provider)
                          (JStr (Plan_code new_plan)))
                       proration idempotency_key) (\<lambda>p_sub.
              let assign = (\<lambda>s. s\<lparr>Subscription_current_period_start := psub_current_period_start p_sub,
                    Subscription_current_period_end := psub_current_period_end p_sub\<rparr>)
              in bindS (set_subscription (Subscription_id sub) assign) (\<lambda>_. ret (assign sub)))
            else ret sub) (\<lambda>sub.
     let assign = (\<lambda>s. s\<lparr>Subscription_plan_id := Plan_id new_plan\<rparr>) in
     bindS (set_subscription (Subscription_id sub) assign) (\<lambda>_.
     let sub = assign sub in
     bindS (grant_plan_credits tenant_id (Subscription_product_id sub) new_plan
              (''change:'' @ uuid_str (Subscription_id sub) @ '':'' @ Plan_code new_plan @ '':'' @
               date_str (date_of (Subscription_current_period_start sub)))) (\<lambda>_.
     bindS (record_audit ((act (if is_upgrade then ''subscription.upgrade'' else ''subscription.downgrade''))\<lparr>
              a_actor_user_id := actor_user_id, a_resource_type := Some ''subscription'',
              a_resource_id := Some (Subscription_id sub), a_tenant_id := Some tenant_id,
              a_product_id := Some (Subscription_product_id sub),
              a_diff := [(''from'', jopt (\<lambda>o'. JStr (Plan_code o')) old_plan),
                         (''to'', JStr (Plan_code new_plan)), (''proration'', JBool proration)]\<rparr>)) (\<lambda>_.
     ret sub)))))))"

definition cancel ::
    "provider \<Rightarrow> uuid \<Rightarrow> bool \<Rightarrow> string option \<Rightarrow> uuid option \<Rightarrow> Subscription service" where
  "cancel provider tenant_id at_period_end reason actor_user_id =
     bindS (get_or_raise tenant_id) (\<lambda>sub.
     bindS (if truthy (Subscription_provider_subscription_id sub)
            then bindS (cancel_subscription provider (the (Subscription_provider_subscription_id sub))
                          at_period_end) (\<lambda>_. ret ())
            else ret ()) (\<lambda>_.
     bindS (gets now) (\<lambda>t.
     let assign = (\<lambda>s. if at_period_end then s\<lparr>Subscription_cancel_at_period_end := True\<rparr>
           else s\<lparr>Subscription_status := Cancelled, Subscription_cancelled_at := Some t\<rparr>)
     in
     bindS (set_subscription (Subscription_id sub) assign) (\<lambda>_.
     bindS (record_audit ((act ''subscription.cancel'')\<lparr>a_actor_user_id := actor_user_id,
              a_resource_type := Some ''subscription'', a_resource_id := Some (Subscription_id sub),
              a_tenant_id := Some tenant_id, a_product_id := Some (Subscription_product_id sub),
              a_diff := [(''at_period_end'', JBool at_period_end), (''reason'', jopt JStr reason)]\<rparr>)) (\<lambda>_.
     ret (assign sub))))))"

definition enter_grace_period :: "uuid \<Rightarrow> Subscription service" where
  "enter_grace_period subscription_id =
     bindS (scalar subscriptions (\<lambda>s. Subscription_id s = subscription_id)) (\<lambda>sub.
     case sub of None \<Rightarrow> raise (NotFound ''subscription not found'') | Some sub \<Rightarrow>
     if Subscription_status sub \<in> {Suspended, Cancelled} then ret sub
     else
     bindS (gets now) (\<lambda>t.
     bindS (gets settings) (\<lambda>st.
     let ends = t + days (grace_period_days st);
         assign = (\<lambda>s. s\<lparr>Subscription_status := Grace, Subscription_grace_ends_at := Some ends\<rparr>)
     in
     bindS (set_subscription (Subscription_id sub) assign) (\<lambda>_.
     bindS (record_audit ((act ''subscription.grace_started'')\<lparr>
              a_resource_type := Some ''subscription'', a_resource_id := Some (Subscription_id sub),
              a_tenant_id := Some (Subscription_tenant_id sub),
              a_product_id := Some (Subscription_product_id sub),
              a_diff := [(''grace_ends_at'', JTime ends)]\<rparr>)) (\<lambda>_.
     ret (assign sub))))))"

text \<open>The sweep: a NULL deadline never compares as lapsed.\<close>

definition grace_lapsed :: "time \<Rightarrow> Subscription \<Rightarrow> bool" where
  "grace_lapsed t s \<longleftrightarrow> Subscription_status s = Grace \<and>
     (case Subscription_grace_ends_at s of None \<Rightarrow> False | Some e \<Rightarrow> e \<le> t)"

definition suspend_if_grace_expired :: "nat service" where
  "suspend_if_grace_expired =
     bindS (gets now) (\<lambda>t.
     bindS (scalars subscriptions (grace_lapsed t)) (\<lambda>candidates.
     bindS (forS candidates (\<lambda>sub.
       bindS (set_subscription (Subscription_id sub) (\<lambda>s. s\<lparr>Subscription_status := Suspended\<rparr>)) (\<lambda>_.
       record_audit ((act ''subscription.suspended'')\<lparr>a_resource_type := Some ''subscription'',
         a_resource_id := Some (Subscription_id sub), a_tenant_id := Some (Subscription_tenant_id sub),
         a_product_id := Some (Subscription_product_id sub)\<rparr>)))) (\<lambda>_.
     ret (length candidates))))"


section \<open>Invoices and payment events\<close>

definition set_invoice :: "uuid \<Rightarrow> (Invoice \<Rightarrow> Invoice) \<Rightarrow> unit service" where
  "set_invoice i f = update_rows invoices_update (\<lambda>x. Invoice_id x = i) f"

text \<open>\<^verbatim>\<open>uq_invoices_provider_id\<close>; NULLs never collide.\<close>

definition invoice_clash :: "Invoice \<Rightarrow> Invoice \<Rightarrow> bool" where
  "invoice_clash x y \<longleftrightarrow> Invoice_provider x = Invoice_provider y \<and>
     Invoice_provider_invoice_id x \<noteq> None \<and>
     Invoice_provider_invoice_id x = Invoice_provider_invoice_id y"

definition record_invoice ::
    "uuid \<Rightarrow> uuid \<Rightarrow> uuid option \<Rightarrow> string \<Rightarrow> string \<Rightarrow> int \<Rightarrow> string \<Rightarrow> InvoiceStatus \<Rightarrow> time \<Rightarrow> time \<Rightarrow>
     string option \<Rightarrow> Invoice service" where
  "record_invoice tenant_id product_id subscription_id prov_name provider_invoice_id amount_cents
       currency status issued_at due_at hosted_url =
     bindS (scalar invoices (\<lambda>x. Invoice_provider x = prov_name \<and>
              Invoice_provider_invoice_id x = Some provider_invoice_id)) (\<lambda>existing.
     bindS (gets now) (\<lambda>t.
     case existing of
       Some x \<Rightarrow>
         let assign = (\<lambda>x. x\<lparr>Invoice_status := status,
               Invoice_paid_at := (if status = InvPaid \<and> Invoice_paid_at x = None then Some t
                                   else Invoice_paid_at x)\<rparr>)
         in bindS (set_invoice (Invoice_id x) assign) (\<lambda>_. ret (assign x))
     | None \<Rightarrow>
         bindS fresh (\<lambda>i.
         let x = \<lparr>Invoice_id = i, Invoice_product_id = product_id, Invoice_tenant_id = tenant_id,
               Invoice_subscription_id = subscription_id, Invoice_status = status,
               Invoice_amount_cents = amount_cents, Invoice_currency = currency,
               Invoice_issued_at = issued_at, Invoice_due_at = due_at,
               Invoice_paid_at = (if status = InvPaid then Some t else None),
               Invoice_attempt_count = 0, Invoice_last_attempt_at = None,
               Invoice_next_attempt_at = None, Invoice_provider = prov_name,
               Invoice_provider_invoice_id = Some provider_invoice_id,
               Invoice_hosted_invoice_url = hosted_url\<rparr>
         in bindS (insert_row invoices invoices_update invoice_clash x) (\<lambda>_. ret x))))"

text \<open>The subscription of an invoice: \<^verbatim>\<open>if invoice.subscription_id: db.get(...)\<close>.\<close>

definition invoice_subscription :: "Invoice \<Rightarrow> Subscription option service" where
  "invoice_subscription invoice =
     (case Invoice_subscription_id invoice of
        None \<Rightarrow> ret None
      | Some i \<Rightarrow> scalar subscriptions (\<lambda>s. Subscription_id s = i))"

definition handle_payment_failed :: "uuid \<Rightarrow> unit service" where
  "handle_payment_failed invoice_id =
     bindS (scalar invoices (\<lambda>x. Invoice_id x = invoice_id)) (\<lambda>invoice.
     case invoice of None \<Rightarrow> ret () | Some invoice \<Rightarrow>
     bindS (gets now) (\<lambda>t.
     let attempt_count = Invoice_attempt_count invoice + 1 in
     bindS (set_invoice (Invoice_id invoice) (\<lambda>x. x\<lparr>Invoice_attempt_count := attempt_count,
              Invoice_last_attempt_at := Some t, Invoice_next_attempt_at := Some (t + days 3)\<rparr>)) (\<lambda>_.
     bindS (invoice_subscription invoice) (\<lambda>sub.
     case sub of None \<Rightarrow> ret () | Some sub \<Rightarrow>
     if Subscription_status sub \<notin> {Grace, Suspended}
     then
       (if attempt_count \<ge> 3 then bindS (enter_grace_period (Subscription_id sub)) (\<lambda>_. ret ())
        else
        bindS (set_subscription (Subscription_id sub) (\<lambda>s. s\<lparr>Subscription_status := PastDue\<rparr>)) (\<lambda>_.
        record_audit ((act ''subscription.past_due'')\<lparr>a_resource_type := Some ''subscription'',
          a_resource_id := Some (Subscription_id sub), a_tenant_id := Some (Subscription_tenant_id sub),
          a_product_id := Some (Subscription_product_id sub),
          a_diff := [(''attempt'', JInt attempt_count)]\<rparr>)))
     else ret ()))))"

definition handle_payment_succeeded :: "uuid \<Rightarrow> unit service" where
  "handle_payment_succeeded invoice_id =
     bindS (scalar invoices (\<lambda>x. Invoice_id x = invoice_id)) (\<lambda>invoice.
     case invoice of None \<Rightarrow> ret () | Some invoice \<Rightarrow>
     bindS (gets now) (\<lambda>t.
     bindS (set_invoice (Invoice_id invoice) (\<lambda>x. x\<lparr>Invoice_status := InvPaid, Invoice_paid_at := Some t\<rparr>)) (\<lambda>_.
     bindS (invoice_subscription invoice) (\<lambda>sub.
     case sub of None \<Rightarrow> ret () | Some sub \<Rightarrow>
     if Subscription_status sub \<in> {PastDue, Grace, Suspended}
     then
       bindS (set_subscription (Subscription_id sub)
                (\<lambda>s. s\<lparr>Subscription_status := Active, Subscription_grace_ends_at := None\<rparr>)) (\<lambda>_.
       record_audit ((act ''subscription.reactivated'')\<lparr>a_resource_type := Some ''subscription'',
         a_resource_id := Some (Subscription_id sub), a_tenant_id := Some (Subscription_tenant_id sub),
         a_product_id := Some (Subscription_product_id sub)\<rparr>))
     else ret ()))))"


section \<open>The billing webhook\<close>

text \<open>\<^verbatim>\<open>Subscription.provider_subscription_id == data.get("subscription")\<close>: a JSON null
  or a missing key is None, which SQLAlchemy compares with IS NULL; a value that is not text
  cannot be bound to the column.\<close>

definition event_subscription :: "dict \<Rightarrow> app_error + string option" where
  "event_subscription data =
     (case dict_get data ''subscription'' JNull of
        JNull \<Rightarrow> Inr None
      | JStr s \<Rightarrow> Inr (Some s)
      | _ \<Rightarrow> Inl (RuntimeError ''cannot bind subscription''))"

text \<open>\<^verbatim>\<open>datetime.fromtimestamp(x, tz=UTC)\<close> raises on None.\<close>

fun fromtimestamp :: "json \<Rightarrow> app_error + time" where
  "fromtimestamp (JInt n) = Inr (seconds n)"
| "fromtimestamp _ = Inl (RuntimeError ''TypeError: an integer is required'')"

fun json_int :: "json \<Rightarrow> app_error + int" where
  "json_int (JInt n) = Inr n"
| "json_int _ = Inl (RuntimeError ''cannot bind amount'')"

definition upper_char :: "char \<Rightarrow> char" where
  "upper_char c = (if of_char c \<ge> (97 :: nat) \<and> of_char c \<le> (122 :: nat) then char_of (of_char c - 32 :: nat) else c)"

fun json_upper :: "json \<Rightarrow> app_error + string" where
  "json_upper (JStr s) = Inr (map upper_char s)"
| "json_upper _ = Inl (AttributeError ''upper'')"

definition event_invoice :: "provider \<Rightarrow> Subscription \<Rightarrow> dict \<Rightarrow> string \<Rightarrow> InvoiceStatus \<Rightarrow> Invoice service" where
  "event_invoice provider sub data amount_key status =
     bindS (liftE (json_item (JObj data) ''id'')) (\<lambda>i.
     bindS (liftE (json_int (dict_get data amount_key (JInt 0)))) (\<lambda>amount.
     bindS (liftE (json_upper (dict_get data ''currency'' (JStr ''USD'')))) (\<lambda>cur.
     bindS (liftE (fromtimestamp (dict_get data ''created'' (JInt 0)))) (\<lambda>issued.
     bindS (liftE (fromtimestamp (dict_get data ''due_date'' (dict_get data ''created'' (JInt 0))))) (\<lambda>due.
     record_invoice (Subscription_tenant_id sub) (Subscription_product_id sub) (Some (Subscription_id sub))
       (provider_name provider) (json_str i) amount cur status issued due None)))))"

datatype http_reply = Received | InvalidSignature

fun reply_status :: "http_reply \<Rightarrow> nat" where
  "reply_status Received = 200"
| "reply_status InvalidSignature = 400"

definition webhook_subscription :: "dict \<Rightarrow> Subscription option service" where
  "webhook_subscription data =
     bindS (liftE (event_subscription data)) (\<lambda>ref.
     scalar subscriptions (\<lambda>s. Subscription_provider_subscription_id s = ref))"

definition payment_succeeded_event :: "provider \<Rightarrow> WebhookEvent \<Rightarrow> http_reply service" where
  "payment_succeeded_event provider event =
     bindS (webhook_subscription (event_data event)) (\<lambda>sub.
     case sub of None \<Rightarrow> ret Received | Some sub \<Rightarrow>
     bindS (set_current_product (Some (Subscription_product_id sub))) (\<lambda>_.
     bindS (event_invoice provider sub (event_data event) ''amount_paid'' InvPaid) (\<lambda>invoice.
     bindS (handle_payment_succeeded (Invoice_id invoice)) (\<lambda>_.
     bindS (record_audit ((act ''webhook.payment_succeeded'')\<lparr>a_resource_type := Some ''invoice'',
              a_resource_id := Some (Invoice_id invoice),
              a_tenant_id := Some (Subscription_tenant_id sub),
              a_product_id := Some (Subscription_product_id sub),
              a_diff := [(''event_id'', JStr (event_id event)),
                         (''provider'', JStr (provider_name provider))]\<rparr>)) (\<lambda>_.
     ret Received)))))"

definition payment_failed_event :: "provider \<Rightarrow> WebhookEvent \<Rightarrow> http_reply service" where
  "payment_failed_event provider event =
     bindS (webhook_subscription (event_data event)) (\<lambda>sub.
     case sub of None \<Rightarrow> ret Received | Some sub \<Rightarrow>
     bindS (set_current_product (Some (Subscription_product_id sub))) (\<lambda>_.
     bindS (event_invoice provider sub (event_data event) ''amount_due'' InvOpen) (\<lambda>invoice.
     bindS (handle_payment_failed (Invoice_id invoice)) (\<lambda>_.
     bindS (record_audit ((act ''webhook.payment_failed'')\<lparr>a_resource_type := Some ''invoice'',
              a_resource_id := Some (Invoice_id invoice),
              a_tenant_id := Some (Subscription_tenant_id sub),
              a_product_id := Some (Subscription_product_id sub),
              a_diff := [(''event_id'', JStr (event_id event)),
                         (''provider'', JStr (provider_name provider)),
                         (''attempt'', JInt (Invoice_attempt_count invoice + 1))]\<rparr>)) (\<lambda>_.
     ret Received)))))"

definition billing_webhook :: "provider \<Rightarrow> string \<Rightarrow> json option \<Rightarrow> string option \<Rightarrow> http_reply service" where
  "billing_webhook provider payload body stripe_signature =
     bindS (attempt (parse_webhook provider payload body
              (case stripe_signature of None \<Rightarrow> [] | Some s \<Rightarrow> s))) (\<lambda>parsed.
     case parsed of
       Inl _ \<Rightarrow> ret InvalidSignature
     | Inr event \<Rightarrow>
         if event_type event \<in> {''invoice.payment_succeeded'', ''invoice.paid''}
         then payment_succeeded_event provider event
         else if event_type event = ''invoice.payment_failed''
         then payment_failed_event provider event
         else ret Received)"

section \<open>The lifecycle invariant\<close>

text \<open>What every stored subscription satisfies: the program never marks one \<open>Expired\<close>, a grace
  period has a deadline, a cancellation a date and a trial an end.\<close>

definition subscription_ok :: "Subscription \<Rightarrow> bool" where
  "subscription_ok s \<longleftrightarrow>
     Subscription_status s \<noteq> Expired \<and>
     (Subscription_status s = Grace \<longrightarrow> Subscription_grace_ends_at s \<noteq> None) \<and>
     (Subscription_status s = Cancelled \<longrightarrow> Subscription_cancelled_at s \<noteq> None) \<and>
     (Subscription_status s = Trial \<longrightarrow> Subscription_trial_end s \<noteq> None)"

definition lifecycle_ok :: "world \<Rightarrow> bool" where
  "lifecycle_ok w \<longleftrightarrow>
     fresh_ids w \<and>
     distinct (map Subscription_id (subscriptions (db w))) \<and>
     distinct (map Subscription_tenant_id (subscriptions (db w))) \<and>
     (\<forall>s \<in> set (subscriptions (db w)). Subscription_id s \<in> drawn w \<and> subscription_ok s)"

text \<open>The allowed changes of status.\<close>

inductive status_edge :: "SubscriptionStatus \<Rightarrow> SubscriptionStatus \<Rightarrow> bool" where
  edge_same: "status_edge s s"
| edge_purchase: "status_edge s Active"
| edge_cancel: "status_edge s Cancelled"
| edge_failed: "s \<notin> {Grace, Suspended} \<Longrightarrow> status_edge s PastDue"
| edge_grace: "s \<notin> {Suspended, Cancelled} \<Longrightarrow> status_edge s Grace"
| edge_suspend: "status_edge Grace Suspended"

inductive_simps edge_to_simps: "status_edge s Suspended" "status_edge s Trial" "status_edge s Expired"
  "status_edge s Grace"

code_pred status_edge .

lemma lifecycle_other:
  assumes "lifecycle_ok w" and "draws w' = draws w" and "draw_no w \<le> draw_no w'"
    and "subscriptions (db w') = subscriptions (db w)"
  shows "lifecycle_ok w'"
  using assms drawn_mono [OF assms(2,3)] by (auto simp: lifecycle_ok_def fresh_ids_def)

lemma lifecycle_audited: "lifecycle_ok w \<Longrightarrow> lifecycle_ok (audited a w)"
  by (rule lifecycle_other) (simp_all add: audited_draws)

lemma lifecycle_draw: "lifecycle_ok w \<Longrightarrow> lifecycle_ok (w\<lparr>draw_no := Suc (draw_no w)\<rparr>)"
  by (rule lifecycle_other) simp_all

lemma lifecycle_cur_product: "lifecycle_ok w \<Longrightarrow> lifecycle_ok (w\<lparr>cur_product := p\<rparr>)"
  by (rule lifecycle_other) simp_all

lemma lifecycle_invoice: "lifecycle_ok w \<Longrightarrow> lifecycle_ok (w\<lparr>db := invoices_update f (db w)\<rparr>)"
  by (rule lifecycle_other) simp_all

lemma lifecycle_credit:
  "lifecycle_ok w \<Longrightarrow> lifecycle_ok (w\<lparr>db := credit_wallets_update f (db w)\<rparr>)"
  "lifecycle_ok w \<Longrightarrow> lifecycle_ok (w\<lparr>db := credit_ledger_update g (db w)\<rparr>)"
  by (rule lifecycle_other; simp)+

lemmas lifecycle_rules = lifecycle_audited lifecycle_draw lifecycle_cur_product lifecycle_invoice
  lifecycle_credit

lemma keeps_lifecycle_quiet: "quiet m \<Longrightarrow> keeps lifecycle_ok m"
  by (rule keeps_quiet, assumption, rule lifecycle_other) (auto simp: quiet_step_def)

text \<open>An assignment to one subscription that keeps its keys and its well-formedness.\<close>

lemma lifecycle_set:
  assumes "lifecycle_ok w"
    and "\<And>s. Subscription_id (f s) = Subscription_id s"
    and "\<And>s. Subscription_tenant_id (f s) = Subscription_tenant_id s"
    and "\<And>s. s \<in> set (subscriptions (db w)) \<Longrightarrow> P s \<Longrightarrow> subscription_ok (f s)"
  shows "lifecycle_ok (w\<lparr>db := subscriptions_update (map_rows P f) (db w)\<rparr>)"
  using assms by (auto simp: lifecycle_ok_def fresh_ids_def ball_map_rows drawn_def)

lemma lifecycle_insert:
  assumes "lifecycle_ok w" and "Subscription_id s = draws w (draw_no w)" and "subscription_ok s"
    and "\<forall>x \<in> set (subscriptions (db w)). \<not> subscription_clash x s"
  shows "lifecycle_ok (w\<lparr>draw_no := Suc (draw_no w),
           db := subscriptions_update (\<lambda>rs. rs @ [s]) (db w)\<rparr>)"
proof -
  have "draws w (draw_no w) \<notin> Subscription_id ` set (subscriptions (db w))"
    using assms(1) fresh_not_drawn [of w] by (auto simp: lifecycle_ok_def)
  then show ?thesis
    using assms by (auto simp: lifecycle_ok_def fresh_ids_def drawn_def subscription_clash_def lessThan_Suc)
qed

text \<open>Granting credits reads and writes no subscription.\<close>

lemma keeps_credit_grant:
  assumes "\<And>w f. I w \<Longrightarrow> I (w\<lparr>db := credit_wallets_update f (db w)\<rparr>)"
    and "\<And>w f. I w \<Longrightarrow> I (w\<lparr>db := credit_ledger_update f (db w)\<rparr>)"
    and "\<And>w. I w \<Longrightarrow> I (w\<lparr>draw_no := Suc (draw_no w)\<rparr>)"
  shows "keeps I (grant_plan_credits t p plan reference)"
  unfolding grant_plan_credits_def grant_def grant_read_def grant_write_def
    get_or_create_wallet_def already_booked_def was_referenced_def book_def Let_def
  by (intro keeps_intros keeps_writes) (simp_all add: assms)

lemma keeps_lifecycle_grant: "keeps lifecycle_ok (grant_plan_credits t p plan reference)"
  by (intro keeps_credit_grant lifecycle_rules)

lemma frames_subscriptions_grant: "frames (\<lambda>w. subscriptions (db w)) (grant_plan_credits t p plan reference)"
  by (rule keeps_frames, rule keeps_credit_grant) simp_all

lemma returns_grant: "returns (grant t p f n reason reference et)"
proof -
  have "returns (get_or_create_wallet t p f)"
    by (rule returnsI) (auto simp: get_or_create_wallet_def wp_simps Let_def find_None_iff_all wallet_key_def wallet_clash_def
        split: option.splits)
  moreover have "returns (already_booked x reference)" for x
    by (rule returnsI) (simp add: wp_simps)
  moreover have "returns (book x p t et n b reason reference)" for x b
    by (rule returnsI) (simp add: book_def wp_simps)
  ultimately show ?thesis
    unfolding grant_def grant_read_def grant_write_def by (intro returns_intros)
qed

lemma returns_grant_plan_credits: "returns (grant_plan_credits t p plan reference)"
  unfolding grant_plan_credits_def by (intro returns_intros returns_grant)

lemmas wp_grant_plan_credits = wp_returns_frames [OF returns_grant_plan_credits frames_subscriptions_grant]

section \<open>Every operation keeps the invariant\<close>

lemma subscription_okI:
  "Subscription_status s = Active \<Longrightarrow> subscription_ok s"
  by (simp add: subscription_ok_def)

lemma find_subscription: "List.find P (subscriptions (db w)) = Some s \<Longrightarrow> s \<in> set (subscriptions (db w)) \<and> P s"
  by (rule find_SomeD)

lemma keeps_enter_grace: "keeps lifecycle_ok (enter_grace_period i)"
  unfolding keeps_wp
proof (intro allI impI)
  fix w assume "lifecycle_ok w"
  then show "wp (enter_grace_period i) (\<lambda>_. lifecycle_ok) (\<lambda>_. lifecycle_ok) w"
    by (auto simp: enter_grace_period_def set_subscription_def wp_simps Let_def subscription_ok_def
        split: option.splits intro!: lifecycle_audited lifecycle_set)
qed

lemma keeps_suspend: "keeps lifecycle_ok suspend_if_grace_expired"
proof -
  have set: "keeps lifecycle_ok (set_subscription i (\<lambda>s. s\<lparr>Subscription_status := Suspended\<rparr>))" for i
    unfolding set_subscription_def
    by (intro keeps_update_rows lifecycle_set) (simp_all add: subscription_ok_def)
  show ?thesis
    unfolding suspend_if_grace_expired_def
    by (intro keeps_intros keeps_record_audit set lifecycle_audited)
qed

lemma keeps_payment_failed: "keeps lifecycle_ok (handle_payment_failed i)"
proof -
  have set: "keeps lifecycle_ok (set_subscription i (\<lambda>s. s\<lparr>Subscription_status := PastDue\<rparr>))" for i
    unfolding set_subscription_def
    by (intro keeps_update_rows lifecycle_set) (simp_all add: subscription_ok_def)
  show ?thesis
    unfolding handle_payment_failed_def Let_def set_invoice_def invoice_subscription_def
    by (intro keeps_intros keeps_record_audit set lifecycle_audited keeps_enter_grace
        keeps_update_rows lifecycle_invoice)
qed

lemma keeps_payment_succeeded: "keeps lifecycle_ok (handle_payment_succeeded i)"
proof -
  have set: "keeps lifecycle_ok (set_subscription i
      (\<lambda>s. s\<lparr>Subscription_status := Active, Subscription_grace_ends_at := None\<rparr>))" for i
    unfolding set_subscription_def
    by (intro keeps_update_rows lifecycle_set) (simp_all add: subscription_ok_def)
  show ?thesis
    unfolding handle_payment_succeeded_def Let_def set_invoice_def invoice_subscription_def
    by (intro keeps_intros keeps_record_audit set lifecycle_audited keeps_update_rows lifecycle_invoice)
qed

lemma keeps_record_invoice:
  "keeps lifecycle_ok (record_invoice t p s pn pi amount cur st issued due url)"
  unfolding record_invoice_def Let_def set_invoice_def
  by (intro keeps_intros keeps_writes lifecycle_rules)

lemma keeps_start_trial: "keeps lifecycle_ok (start_trial t p c)"
  unfolding start_trial_def trial_plan_def list_plans_def plan_by_code_def Let_def
  by (intro keeps_fresh_insert keeps_intros keeps_record_audit keeps_lifecycle_grant
      lifecycle_rules lifecycle_insert) (simp_all add: subscription_ok_def)

text \<open>The operations that call the provider, under its contract.\<close>

context quiet_provider
begin

lemmas provider_quiet = keeps_lifecycle_quiet [OF quiet_customer] keeps_lifecycle_quiet [OF quiet_create]
  keeps_lifecycle_quiet [OF quiet_change] keeps_lifecycle_quiet [OF quiet_cancel]
  keeps_lifecycle_quiet [OF quiet_parse]

lemma quiet_purchase_at_provider: "quiet (purchase_at_provider bp t c pm key)"
  unfolding purchase_at_provider_def plan_by_code_def Let_def
  by (intro quiet_intros quiet_customer quiet_create)

lemma keeps_purchase: "keeps lifecycle_ok (purchase bp t c pm actor key)"
  unfolding purchase_def upsert_subscription_def set_subscription_def
  by (intro keeps_fresh_insert keeps_intros keeps_record_audit keeps_lifecycle_grant
      keeps_lifecycle_quiet quiet_purchase_at_provider
      lifecycle_rules lifecycle_insert keeps_update_rows lifecycle_set)
    (simp_all add: subscription_ok_def purchased_def blank_subscription_def)

lemma keeps_change_plan: "keeps lifecycle_ok (change_plan bp t c pror actor key)"
  unfolding change_plan_def get_or_raise_def plan_by_code_def set_subscription_def Let_def
  by (intro keeps_intros keeps_record_audit keeps_lifecycle_grant provider_quiet lifecycle_rules
      keeps_update_rows lifecycle_set)
    (simp_all add: subscription_ok_def lifecycle_ok_def)

lemma keeps_cancel: "keeps lifecycle_ok (cancel bp t at_end reason actor)"
  unfolding cancel_def get_or_raise_def set_subscription_def Let_def
  by (intro keeps_intros keeps_record_audit provider_quiet lifecycle_rules keeps_update_rows lifecycle_set)
    (simp_all add: subscription_ok_def lifecycle_ok_def)

lemma keeps_webhook: "keeps lifecycle_ok (billing_webhook bp payload body signature)"
  unfolding billing_webhook_def payment_succeeded_event_def payment_failed_event_def
    webhook_subscription_def event_invoice_def set_current_product_def
  by (intro keeps_intros provider_quiet keeps_record_invoice keeps_modify
      keeps_payment_succeeded keeps_payment_failed keeps_record_audit lifecycle_rules)

end

section \<open>Runs\<close>

text \<open>One lifecycle operation under a provider that meets the contract, or any step of the rest of
  the program.\<close>

inductive lifecycle_step :: "provider \<Rightarrow> world \<Rightarrow> world \<Rightarrow> bool" for bp where
  step_trial: "start_trial t p c w = (r, w') \<Longrightarrow> lifecycle_step bp w w'"
| step_purchase: "purchase bp t c pm actor key w = (r, w') \<Longrightarrow> lifecycle_step bp w w'"
| step_change: "change_plan bp t c pror actor key w = (r, w') \<Longrightarrow> lifecycle_step bp w w'"
| step_cancel: "cancel bp t at_end reason actor w = (r, w') \<Longrightarrow> lifecycle_step bp w w'"
| step_sweep: "suspend_if_grace_expired w = (n, w') \<Longrightarrow> lifecycle_step bp w w'"
| step_webhook: "billing_webhook bp payload body sig w = (h, w') \<Longrightarrow> lifecycle_step bp w w'"
| step_rest: "draws w' = draws w \<Longrightarrow> draw_no w \<le> draw_no w' \<Longrightarrow>
    subscriptions (db w') = subscriptions (db w) \<Longrightarrow> lifecycle_step bp w w'"

inductive lifecycle_reachable :: "provider \<Rightarrow> world \<Rightarrow> bool" for bp where
  lifecycle_init: "fresh_ids w \<Longrightarrow> subscriptions (db w) = [] \<Longrightarrow> lifecycle_reachable bp w"
| lifecycle_next: "lifecycle_reachable bp w \<Longrightarrow> lifecycle_step bp w w' \<Longrightarrow> lifecycle_reachable bp w'"

context quiet_provider
begin

lemma step_ok:
  assumes step: "lifecycle_step bp w w'" and ok: "lifecycle_ok w"
  shows "lifecycle_ok w'"
  using step ok
proof (induction rule: lifecycle_step.induct)
  case (step_trial t p c w r w')
  then show ?case using keepsD [OF keeps_start_trial] by blast
next
  case (step_purchase t c pm actor key w r w')
  then show ?case using keepsD [OF keeps_purchase] by blast
next
  case (step_change t c pror actor key w r w')
  then show ?case using keepsD [OF keeps_change_plan] by blast
next
  case (step_cancel t at_end reason actor w r w')
  then show ?case using keepsD [OF keeps_cancel] by blast
next
  case (step_sweep w n w')
  then show ?case using keepsD [OF keeps_suspend] by blast
next
  case (step_webhook payload body sig w h w')
  then show ?case using keepsD [OF keeps_webhook] by blast
next
  case (step_rest w' w)
  then show ?case using lifecycle_other by blast
qed

lemma reachable_ok: "lifecycle_reachable bp w \<Longrightarrow> lifecycle_ok w"
proof (induction rule: lifecycle_reachable.induct)
  case (lifecycle_init w)
  then show ?case by (simp add: lifecycle_ok_def)
next
  case (lifecycle_next w w')
  then show ?case by (blast intro: step_ok)
qed

end


section \<open>Effects of the single operations\<close>

lemma sweep_loop:
  "wp (forS xs (\<lambda>sub.
       bindS (update_rows subscriptions_update (\<lambda>s. Subscription_id s = Subscription_id sub)
                (\<lambda>s. s\<lparr>Subscription_status := Suspended\<rparr>)) (\<lambda>_.
       record_audit (a sub))))
     (\<lambda>_ w'. subscriptions (db w') = map_rows (\<lambda>s. Subscription_id s \<in> Subscription_id ` set xs)
        (\<lambda>s. s\<lparr>Subscription_status := Suspended\<rparr>) (subscriptions (db w))) (\<lambda>_ _. False) w"
proof (induction xs arbitrary: w)
  case Nil
  show ?case by (simp add: wp_simps map_rows_none)
next
  case (Cons x xs)
  let ?susp = "\<lambda>s. s\<lparr>Subscription_status := Suspended\<rparr>"
  have comp: "map_rows (\<lambda>s. Subscription_id s \<in> A) ?susp (map_rows (\<lambda>s. Subscription_id s = i) ?susp S) =
      map_rows (\<lambda>s. Subscription_id s = i \<or> Subscription_id s \<in> A) ?susp S" for A i and S :: "Subscription list"
    by (induction S) auto
  show ?case
    by (simp add: wp_simps, rule wp_mono [OF Cons.IH]) (simp_all add: comp)
qed

lemma sweep_effect:
  assumes "distinct (map Subscription_id (subscriptions (db w)))"
  shows "wp suspend_if_grace_expired
     (\<lambda>n w'. n = length (filter (grace_lapsed (now w)) (subscriptions (db w))) \<and>
        subscriptions (db w') = map_rows (grace_lapsed (now w))
          (\<lambda>s. s\<lparr>Subscription_status := Suspended\<rparr>) (subscriptions (db w))) (\<lambda>_ _. False) w"
proof -
  let ?S = "subscriptions (db w)"
  have "map_rows (\<lambda>s. Subscription_id s \<in> Subscription_id ` set (filter (grace_lapsed (now w)) ?S)) f ?S =
      map_rows (grace_lapsed (now w)) f ?S" for f
    unfolding map_rows_def using assms by (intro map_cong refl) (auto dest: distinct_map_eq)
  then show ?thesis
    unfolding suspend_if_grace_expired_def set_subscription_def
    by (simp add: wp_simps, intro wp_mono [OF sweep_loop]) (simp_all add: wp_simps)
qed

text \<open>The status a failed attempt moves a subscription to, \<open>n\<close> being the number of attempts
  with this one.\<close>

fun after_failure :: "int \<Rightarrow> SubscriptionStatus \<Rightarrow> SubscriptionStatus" where
  "after_failure n Grace = Grace"
| "after_failure n Suspended = Suspended"
| "after_failure n Cancelled = (if n \<ge> 3 then Cancelled else PastDue)"
| "after_failure n s = (if n \<ge> 3 then Grace else PastDue)"

definition failed_subscription :: "world \<Rightarrow> int \<Rightarrow> Subscription \<Rightarrow> Subscription" where
  "failed_subscription w n s =
     s\<lparr>Subscription_status := after_failure n (Subscription_status s),
       Subscription_grace_ends_at :=
         (if after_failure n (Subscription_status s) = Grace \<and> Subscription_status s \<noteq> Grace
          then Some (now w + days (grace_period_days (settings w))) else Subscription_grace_ends_at s)\<rparr>"

definition failed_invoice :: "world \<Rightarrow> Invoice \<Rightarrow> Invoice" where
  "failed_invoice w x = x\<lparr>Invoice_attempt_count := Invoice_attempt_count x + 1,
     Invoice_last_attempt_at := Some (now w), Invoice_next_attempt_at := Some (now w + days 3)\<rparr>"

lemma payment_failed_effect:
  assumes "List.find (\<lambda>x. Invoice_id x = i) (invoices (db w)) = Some iv"
    and "Invoice_subscription_id iv = Some j"
    and "List.find (\<lambda>s. Subscription_id s = j) (subscriptions (db w)) = Some s"
  shows "wp (handle_payment_failed i)
     (\<lambda>_ w'. now w' = now w \<and> settings w' = settings w \<and>
        List.find (\<lambda>x. Invoice_id x = i) (invoices (db w')) = Some (failed_invoice w iv) \<and>
        List.find (\<lambda>s. Subscription_id s = j) (subscriptions (db w')) =
          Some (failed_subscription w (Invoice_attempt_count iv + 1) s)) (\<lambda>_ _. False) w"
proof -
  have ids: "Invoice_id iv = i" "Subscription_id s = j"
    using find_SomeD [OF assms(1)] find_SomeD [OF assms(3)] by auto
  show ?thesis
    using assms ids
    by (cases "Subscription_status s")
      (auto simp: handle_payment_failed_def set_invoice_def set_subscription_def invoice_subscription_def
        enter_grace_period_def wp_simps Let_def find_map_rows_keep failed_invoice_def failed_subscription_def)
qed

text \<open>A purchase, under the contract: the tenant's one subscription is active on the plan.\<close>

definition others_unchanged :: "uuid \<Rightarrow> world \<Rightarrow> world \<Rightarrow> bool" where
  "others_unchanged t w w' \<longleftrightarrow> (\<forall>t'. t' \<noteq> t \<longrightarrow>
     List.find (\<lambda>s. Subscription_tenant_id s = t') (subscriptions (db w')) =
     List.find (\<lambda>s. Subscription_tenant_id s = t') (subscriptions (db w)))"

definition tenant_subscription :: "uuid \<Rightarrow> world \<Rightarrow> Subscription option" where
  "tenant_subscription t w = List.find (\<lambda>s. Subscription_tenant_id s = t) (subscriptions (db w))"

lemma set_subscription_find:
  assumes ok: "lifecycle_ok w" and s: "tenant_subscription t w = Some s"
    and f: "\<And>x. Subscription_tenant_id (f x) = Subscription_tenant_id x"
    and w': "subscriptions (db w') = map_rows (\<lambda>x. Subscription_id x = Subscription_id s) f (subscriptions (db w))"
  shows "tenant_subscription t w' = Some (f s) \<and> others_unchanged t w w'"
proof -
  have found: "List.find (\<lambda>x. Subscription_tenant_id x = t') (subscriptions (db w')) =
      map_option (\<lambda>x. if Subscription_id x = Subscription_id s then f x else x)
        (List.find (\<lambda>x. Subscription_tenant_id x = t') (subscriptions (db w)))" for t'
    by (simp add: w' find_map_rows_keep f)
  have "others_unchanged t w w'"
    unfolding others_unchanged_def
  proof (intro allI impI)
    fix t' assume ne: "t' \<noteq> t"
    show "List.find (\<lambda>x. Subscription_tenant_id x = t') (subscriptions (db w')) =
        List.find (\<lambda>x. Subscription_tenant_id x = t') (subscriptions (db w))"
    proof (cases "List.find (\<lambda>x. Subscription_tenant_id x = t') (subscriptions (db w))")
      case None
      then show ?thesis by (simp add: found)
    next
      case (Some x)
      then have "Subscription_id x \<noteq> Subscription_id s"
        using find_SomeD [OF Some] find_SomeD [OF s [unfolded tenant_subscription_def]] ok ne
        by (auto simp: lifecycle_ok_def dest: distinct_map_eq)
      then show ?thesis using Some by (simp add: found)
    qed
  qed
  then show ?thesis
    using s found by (simp add: tenant_subscription_def)
qed

lemma new_subscription_find:
  assumes "tenant_subscription t w = None" and "Subscription_tenant_id s = t"
    and "subscriptions (db w') = subscriptions (db w) @ [s]"
  shows "tenant_subscription t w' = Some s \<and> others_unchanged t w w'"
  using assms by (auto simp: tenant_subscription_def others_unchanged_def find_append split: option.splits)

lemma wp_upsert:
  assumes ok: "lifecycle_ok w" and u: "db u = db w"
    and f: "\<And>x. Subscription_tenant_id (f x) = Subscription_tenant_id x"
  shows "wp (upsert_subscription t p i f)
    (\<lambda>(s, _) w'. tenant_subscription t w' = Some s \<and> others_unchanged t w w' \<and> s \<in> range f \<and>
       Subscription_tenant_id s = t) (\<lambda>_ _. True) u"
proof (cases "List.find (\<lambda>s. Subscription_tenant_id s = t) (subscriptions (db u))")
  case None
  let ?s = "f (blank_subscription (draws u (draw_no u)) p t i)"
  let ?w = "u\<lparr>draw_no := Suc (draw_no u), db := subscriptions_update (\<lambda>rs. rs @ [?s]) (db u)\<rparr>"
  have "tenant_subscription t ?w = Some ?s \<and> others_unchanged t w ?w"
    using None u by (intro new_subscription_find) (simp_all add: tenant_subscription_def f blank_subscription_def)
  then show ?thesis
    using None by (simp add: upsert_subscription_def wp_simps f) (simp add: f blank_subscription_def)
next
  case (Some x)
  let ?w = "u\<lparr>db := subscriptions_update (map_rows (\<lambda>y. Subscription_id y = Subscription_id x) f) (db u)\<rparr>"
  have "tenant_subscription t ?w = Some (f x) \<and> others_unchanged t w ?w"
    using Some u by (intro set_subscription_find [OF ok _ f]) (simp_all add: tenant_subscription_def)
  then show ?thesis
    using Some find_SomeD [OF Some]
    by (simp add: upsert_subscription_def set_subscription_def wp_simps f)
qed

context quiet_provider
begin

lemma wp_purchase:
  assumes ok: "lifecycle_ok w"
  shows "wp (purchase bp t c pm actor key)
    (\<lambda>s w'. tenant_subscription t w' = Some s \<and> Subscription_status s = Active \<and>
       Subscription_tenant_id s = t \<and> Subscription_grace_ends_at s = None \<and>
       Subscription_trial_end s = None \<and> others_unchanged t w w') (\<lambda>_ _. True) w"
  unfolding purchase_def wp_bindS
proof (rule wp_quiet [OF quiet_purchase_at_provider], goal_cases)
  case (1 x u)
  obtain tenant plan customer p_sub where x: "x = (tenant, plan, customer, p_sub)" by (cases x)
  have u: "db u = db w" using 1 by (simp add: quiet_step_def)
  have grants: "wp (grant_plan_credits t' p' pl ref) Q (\<lambda>_ _. True) v"
    if "\<And>v'. subscriptions (db v') = subscriptions (db v) \<Longrightarrow> Q () v'" for t' p' pl ref Q v
    using that by (intro wp_frames [OF frames_subscriptions_grant]) simp_all
  show ?case
    unfolding x prod.case wp_bindS
  proof (rule wp_mono [OF wp_upsert [OF ok u]], goal_cases)
    case (2 y v)
    then show ?case
      by (cases y) (auto simp: wp_simps purchased_def tenant_subscription_def others_unchanged_def intro!: grants)
  qed (simp_all add: purchased_def)
qed simp

end

end
