(* ===== verification/LifecycleProperties.thy ===== *)
theory LifecycleProperties
  imports Lifecycle
begin

text \<open>
  The properties of the subscription lifecycle and the billing webhook (theory \<open>Lifecycle\<close>),
  with the sample runs their witnesses use.
\<close>

section \<open>Sample runs\<close>

definition sample_plan :: "uuid \<Rightarrow> string \<Rightarrow> int \<Rightarrow> int \<Rightarrow> Plan" where
  "sample_plan i code price trial =
     \<lparr>Plan_id = i, Plan_product_id = 5, Plan_code = code, Plan_name = code, Plan_description = None,
      Plan_price_cents = price, Plan_currency = ''USD'', Plan_interval = Month,
      Plan_trial_days = trial, Plan_is_public = True, Plan_is_active = True, Plan_provider_refs = []\<rparr>"

definition sample_tenant :: "uuid \<Rightarrow> Tenant" where
  "sample_tenant i = \<lparr>Tenant_id = i, Tenant_product_id = 5, Tenant_name = ''Acme'',
     Tenant_slug = ''acme'', Tenant_status = TenantActive, Tenant_type = Company,
     Tenant_parent_id = None, Tenant_is_root = False, Tenant_settings = [],
     Tenant_expires_at = None, Tenant_deleted_at = None, Tenant_created_at = 0\<rparr>"

text \<open>Product 5 with two plans and tenant 107; then the tenant's trial.\<close>

definition sample_shop :: world where
  "sample_shop = sample_world\<lparr>db := empty_db\<lparr>tenants := [sample_tenant 107],
     plans := [sample_plan 121 ''pro'' 4900 14, sample_plan 122 ''basic'' 900 0]\<rparr>\<rparr>"

definition sample_trial :: world where
  "sample_trial = snd (start_trial 107 5 None sample_shop)"

definition sample_sub :: Subscription where
  "sample_sub = \<lparr>Subscription_id = 1, Subscription_product_id = 5, Subscription_tenant_id = 107,
     Subscription_plan_id = 122, Subscription_status = Trial,
     Subscription_current_period_start = seconds 1000,
     Subscription_current_period_end = seconds 1000 + days 30,
     Subscription_trial_end = Some (seconds 1000 + days 14), Subscription_grace_ends_at = None,
     Subscription_cancel_at_period_end = False, Subscription_cancelled_at = None,
     Subscription_provider = ''mock'', Subscription_provider_subscription_id = None,
     Subscription_provider_customer_id = None\<rparr>"

lemmas start_trial_eval = start_trial_def trial_plan_def list_plans_def plan_by_code_def
  grant_plan_credits_def svc_simps Let_def

lemma sample_shop_simps [simp]:
  "subscriptions (db sample_shop) = []" "invoices (db sample_shop) = []"
  "plans (db sample_shop) = [sample_plan 121 ''pro'' 4900 14, sample_plan 122 ''basic'' 900 0]"
  "plan_features (db sample_shop) = []" "tenants (db sample_shop) = [sample_tenant 107]"
  "now sample_shop = seconds 1000" "settings sample_shop = default_settings"
  "draws sample_shop = Suc" "draw_no sample_shop = 0" "fresh_ids sample_shop"
  by (simp_all add: sample_shop_def sample_world_def empty_db_def fresh_ids_def NIL_def)

lemma sample_trial_result: "start_trial 107 5 None sample_shop = (Inr sample_sub, sample_trial)"
  by (simp add: sample_trial_def start_trial_eval sample_plan_def sample_sub_def default_settings_def)

lemma sample_trial_simps [simp]:
  "subscriptions (db sample_trial) = [sample_sub]" "invoices (db sample_trial) = []"
  "plans (db sample_trial) = plans (db sample_shop)" "plan_features (db sample_trial) = []"
  "tenants (db sample_trial) = [sample_tenant 107]"
  "now sample_trial = seconds 1000" "settings sample_trial = default_settings" "draws sample_trial = Suc"
  by (simp_all add: sample_trial_def start_trial_eval sample_plan_def sample_sub_def default_settings_def)

lemma sample_trial_reachable: "lifecycle_reachable mock_provider sample_trial"
proof (rule lifecycle_next [OF lifecycle_init])
  show "lifecycle_step mock_provider sample_shop sample_trial"
    by (rule step_trial [OF sample_trial_result])
qed simp_all

lemma sample_trial_ok: "lifecycle_ok sample_trial"
  by (rule mock.reachable_ok [OF sample_trial_reachable])


section \<open>Properties\<close>

text \<open>C4: in every run of the lifecycle, with any billing provider that leaves the database alone,
  a tenant has one subscription at most; a subscription in grace has a deadline the sweep will
  find, a cancelled one its date, a trial its end; and no operation ever marks a subscription
  \<open>Expired\<close>.\<close>

theorem subscription_invariant:
  assumes "quiet_provider bp" and "lifecycle_reachable bp w" and "s \<in> set (subscriptions (db w))"
  shows "subscription_ok s \<and>
    (\<forall>s' \<in> set (subscriptions (db w)). Subscription_tenant_id s' = Subscription_tenant_id s \<longrightarrow> s' = s)"
  using quiet_provider.reachable_ok [OF assms(1,2)] assms(3)
  by (auto simp: lifecycle_ok_def dest: distinct_map_eq)

theorem subscription_invariant_witness: "subscription_ok sample_sub"
  using subscription_invariant [OF mock.quiet_provider_axioms sample_trial_reachable, of sample_sub] by simp

lemma cheapest_None: "cheapest ps = None \<longleftrightarrow> ps = []"
  by (induction ps) (auto split: option.splits)

lemma cheapest_Some:
  "cheapest ps = Some x \<Longrightarrow> x \<in> set ps \<and> (\<forall>y \<in> set ps. Plan_price_cents x \<le> Plan_price_cents y)"
proof (induction ps arbitrary: x)
  case Nil
  then show ?case by simp
next
  case (Cons p ps)
  show ?case
  proof (cases "cheapest ps")
    case None
    then show ?thesis using Cons.prems by (simp add: cheapest_None)
  next
    case (Some q)
    show ?thesis
      using Cons.prems Some Cons.IH [OF Some] by (auto split: if_splits)
  qed
qed

text \<open>A trial starts on the first of the cheapest active public plans (or the plan named); a free
  plan is active at once with a period of a hundred years and no trial, any other plan is a trial
  of the plan's trial days, or of the default when it has none. A second trial is a conflict, and
  a product without public plans cannot start one; neither writes anything.\<close>

lemma start_trial_spec:
  "if \<exists>s \<in> set (subscriptions (db w)). Subscription_tenant_id s = t
    then \<exists>m. start_trial t p None w = (Inl (Conflict m), w)
    else if \<forall>x \<in> set (plans (db w)). Plan_product_id x = p \<longrightarrow> \<not> (Plan_is_active x \<and> Plan_is_public x)
    then \<exists>m. start_trial t p None w = (Inl (ValidationFailed m), w)
    else \<exists>s w'. start_trial t p None w = (Inr s, w') \<and>
      s \<in> set (subscriptions (db w')) \<and> Subscription_tenant_id s = t \<and> has_access s \<and>
      (\<exists>x \<in> set (plans (db w)). Plan_id x = Subscription_plan_id s \<and> Plan_product_id x = p \<and>
         Plan_is_active x \<and> Plan_is_public x \<and>
         (\<forall>y \<in> set (plans (db w)). Plan_product_id y = p \<and> Plan_is_active y \<and> Plan_is_public y \<longrightarrow>
            Plan_price_cents x \<le> Plan_price_cents y) \<and>
         (if Plan_price_cents x = 0
          then Subscription_status s = Active \<and> Subscription_trial_end s = None \<and>
               Subscription_current_period_end s = now w + days 36500
          else Subscription_status s = Trial \<and>
               Subscription_trial_end s = Some (now w + days (if Plan_trial_days x \<noteq> 0
                 then Plan_trial_days x else default_trial_days (settings w)))))"
  (is "if ?old then ?conflict else if ?none then ?invalid else ?started")
proof -
  let ?ps = "filter (\<lambda>x. Plan_product_id x = p \<and> Plan_is_active x \<and> Plan_is_public x) (plans (db w))"
  consider ?old | "\<not> ?old" "?none" | "\<not> ?old" "\<not> ?none" by blast
  then show ?thesis
  proof cases
    case 1
    then have "List.find (\<lambda>s. Subscription_tenant_id s = t) (subscriptions (db w)) \<noteq> None"
      by (auto simp: find_None_iff_all)
    then show ?thesis using 1 by (auto simp: start_trial_def svc_simps)
  next
    case 2
    then have "List.find (\<lambda>s. Subscription_tenant_id s = t) (subscriptions (db w)) = None" "?ps = []"
      by (auto simp: find_None_iff_all filter_empty_conv)
    then show ?thesis
      using 2 by (simp add: start_trial_eval)
  next
    case 3
    then have none: "List.find (\<lambda>s. Subscription_tenant_id s = t) (subscriptions (db w)) = None"
      and "?ps \<noteq> []"
      by (auto simp: find_None_iff_all filter_empty_conv)
    then obtain x where x: "cheapest ?ps = Some x" using cheapest_None by fastforce
    have pl: "wp (trial_plan p None) (\<lambda>pl v. pl = x \<and> v = w) (\<lambda>_ _. False) w"
      using x by (simp add: trial_plan_def list_plans_def wp_simps)
    have "wp (start_trial t p None) (\<lambda>s w'. s \<in> set (subscriptions (db w')) \<and> Subscription_tenant_id s = t \<and>
        Subscription_plan_id s = Plan_id x \<and>
        (if Plan_price_cents x = 0
          then Subscription_status s = Active \<and> Subscription_trial_end s = None \<and>
               Subscription_current_period_end s = now w + days 36500
          else Subscription_status s = Trial \<and>
               Subscription_trial_end s = Some (now w + days (if Plan_trial_days x \<noteq> 0
                 then Plan_trial_days x else default_trial_days (settings w))))) (\<lambda>_ _. False) w"
      unfolding start_trial_def
      using none
      by (auto simp: wp_simps Let_def find_None_iff_all subscription_clash_def
          intro!: wp_mono [OF pl] wp_grant_plan_credits)
    from wp_returns [OF this] obtain s w' where st: "start_trial t p None w = (Inr s, w')"
      "s \<in> set (subscriptions (db w'))" "Subscription_tenant_id s = t" "Subscription_plan_id s = Plan_id x"
      "if Plan_price_cents x = 0
          then Subscription_status s = Active \<and> Subscription_trial_end s = None \<and>
               Subscription_current_period_end s = now w + days 36500
          else Subscription_status s = Trial \<and>
               Subscription_trial_end s = Some (now w + days (if Plan_trial_days x \<noteq> 0
                 then Plan_trial_days x else default_trial_days (settings w)))"
      by blast
    have "has_access s" using st(5) by (auto simp: has_access_def split: if_splits)
    then have "?started"
      using cheapest_Some [OF x] st by (intro exI [of _ s] exI [of _ w'] conjI bexI [of _ x]) auto
    then show ?thesis by (simp only: if_not_P [OF 3(1)] if_not_P [OF 3(2)])
  qed
qed

lemma start_trial_spec_witness:
  "Subscription_plan_id sample_sub = 122 \<and> has_access sample_sub"
  using start_trial_spec [of sample_shop 107 5] sample_trial_result
  by (auto simp: sample_plan_def sample_sub_def)

text \<open>A purchase that goes through, on any provider that leaves the database alone, leaves the
  tenant with one subscription, active, out of any trial and grace period, whatever its status was
  before, and every other tenant's subscription as it was.\<close>

lemma purchase_activates:
  assumes "quiet_provider bp" and "lifecycle_ok w" and "purchase bp t c pm actor key w = (Inr s, w')"
  shows "tenant_subscription t w' = Some s \<and> Subscription_status s = Active \<and> has_access s \<and>
    Subscription_trial_end s = None \<and> Subscription_grace_ends_at s = None \<and> others_unchanged t w w'"
  using wp_InrD [OF quiet_provider.wp_purchase [OF assms(1,2)] assms(3)] by (simp add: has_access_def)

lemma purchase_activates_witness:
  "\<exists>s w'. purchase mock_provider 107 ''pro'' None None None sample_trial = (Inr s, w') \<and>
     Subscription_status s = Active"
proof -
  have "\<exists>s w'. purchase mock_provider 107 ''pro'' None None None sample_trial = (Inr s, w')"
    by (simp add: purchase_def purchase_at_provider_def plan_by_code_def upsert_subscription_def
        set_subscription_def mock_provider_def mock_ensure_customer_def mock_create_subscription_def
        dict_get_def grant_plan_credits_def svc_simps Let_def sample_tenant_def sample_plan_def sample_sub_def)
  then show ?thesis
    using purchase_activates [OF mock.quiet_provider_axioms sample_trial_ok] by blast
qed

text \<open>C5: the sweep suspends exactly the subscriptions in grace whose deadline has passed: no other
  row changes, no other field changes, and the count it returns is theirs. So a subscription in
  grace keeps access until its deadline and loses it at the first sweep from then on.\<close>

theorem grace_sweep_exact:
  assumes "lifecycle_ok w"
  shows "\<exists>w'. suspend_if_grace_expired w =
      (Inr (length (filter (grace_lapsed (now w)) (subscriptions (db w)))), w') \<and>
    subscriptions (db w') = map (\<lambda>s. if Subscription_status s = Grace \<and>
        (\<exists>e. Subscription_grace_ends_at s = Some e \<and> e \<le> now w)
      then s\<lparr>Subscription_status := Suspended\<rparr> else s) (subscriptions (db w))"
proof -
  have "distinct (map Subscription_id (subscriptions (db w)))"
    using assms by (simp add: lifecycle_ok_def)
  moreover have "grace_lapsed (now w) = (\<lambda>s. Subscription_status s = Grace \<and>
      (\<exists>e. Subscription_grace_ends_at s = Some e \<and> e \<le> now w))"
    by (auto simp: grace_lapsed_def fun_eq_iff split: option.splits)
  ultimately show ?thesis
    using wp_returns [OF sweep_effect] unfolding map_rows_def by fastforce
qed

definition sample_grace :: world where
  "sample_grace = sample_shop\<lparr>draw_no := 1, db := (db sample_shop)\<lparr>subscriptions :=
     [sample_sub\<lparr>Subscription_status := Grace, Subscription_grace_ends_at := Some (seconds 900)\<rparr>]\<rparr>\<rparr>"

theorem grace_sweep_exact_witness:
  "\<exists>w' s. suspend_if_grace_expired sample_grace = (Inr 1, w') \<and> subscriptions (db w') = [s] \<and>
     \<not> has_access s"
proof -
  have ok: "lifecycle_ok sample_grace"
    by (simp add: lifecycle_ok_def sample_grace_def drawn_def sample_sub_def subscription_ok_def
        fresh_ids_def NIL_def)
  obtain w' where w': "suspend_if_grace_expired sample_grace =
      (Inr (length (filter (grace_lapsed (now sample_grace)) (subscriptions (db sample_grace)))), w')"
    "subscriptions (db w') = map (\<lambda>s. if Subscription_status s = Grace \<and>
        (\<exists>e. Subscription_grace_ends_at s = Some e \<and> e \<le> now sample_grace)
      then s\<lparr>Subscription_status := Suspended\<rparr> else s) (subscriptions (db sample_grace))"
    using grace_sweep_exact [OF ok] by blast
  have "length (filter (grace_lapsed (now sample_grace)) (subscriptions (db sample_grace))) = 1"
    by (simp add: sample_grace_def grace_lapsed_def seconds_def)
  moreover have "\<exists>s. subscriptions (db w') = [s] \<and> \<not> has_access s"
    using w'(2) by (simp add: sample_grace_def has_access_def seconds_def)
  ultimately show ?thesis using w'(1) by auto
qed

text \<open>The invoice \<open>i\<close> with its subscription \<open>j\<close> in one picture.\<close>

definition billed :: "uuid \<Rightarrow> uuid \<Rightarrow> world \<Rightarrow> (int \<times> Subscription) option" where
  "billed i j w =
     (case List.find (\<lambda>x. Invoice_id x = i) (invoices (db w)) of
        None \<Rightarrow> None
      | Some x \<Rightarrow>
          if Invoice_subscription_id x \<noteq> Some j then None
          else map_option (\<lambda>s. (Invoice_attempt_count x, s))
            (List.find (\<lambda>s. Subscription_id s = j) (subscriptions (db w))))"

lemma billed_failed:
  assumes "billed i j w = Some (n, s)"
  shows "wp (handle_payment_failed i) (\<lambda>_ w'. billed i j w' = Some (n + 1, failed_subscription w (n + 1) s) \<and>
     now w' = now w \<and> settings w' = settings w) (\<lambda>_ _. False) w"
proof -
  obtain x where x: "List.find (\<lambda>x. Invoice_id x = i) (invoices (db w)) = Some x"
      "Invoice_subscription_id x = Some j" "n = Invoice_attempt_count x"
      "List.find (\<lambda>s. Subscription_id s = j) (subscriptions (db w)) = Some s"
    using assms by (auto simp: billed_def split: option.splits if_splits)
  show ?thesis
    by (rule wp_mono [OF payment_failed_effect [OF x(1,2,4)]])
      (auto simp: billed_def failed_invoice_def x)
qed

lemma billed_succeeded:
  assumes "billed i j w = Some (n, s)"
  shows "wp (handle_payment_succeeded i)
    (\<lambda>_ w'. billed i j w' = Some (n, if Subscription_status s \<in> {PastDue, Grace, Suspended}
       then s\<lparr>Subscription_status := Active, Subscription_grace_ends_at := None\<rparr> else s)) (\<lambda>_ _. False) w"
  using assms
  by (auto simp: billed_def handle_payment_succeeded_def set_invoice_def set_subscription_def
      invoice_subscription_def wp_simps Let_def find_map_rows_keep dest: find_SomeD
      split: option.splits if_splits)

text \<open>C6: dunning. Three failed attempts on a fresh invoice take a subscription from trial or
  active to past due, past due and, at the third, into the grace period, which ends the configured
  number of days later; access is kept throughout. A successful payment then makes it active again
  and ends the grace period.\<close>

theorem dunning:
  assumes "billed i j w = Some (0, s)" and "Subscription_status s \<in> {Trial, Active, PastDue}"
  shows "\<exists>w1 w2 w3 w4 s1 s2 s3 s4.
    handle_payment_failed i w = (Inr (), w1) \<and> billed i j w1 = Some (1, s1) \<and>
    handle_payment_failed i w1 = (Inr (), w2) \<and> billed i j w2 = Some (2, s2) \<and>
    handle_payment_failed i w2 = (Inr (), w3) \<and> billed i j w3 = Some (3, s3) \<and>
    handle_payment_succeeded i w3 = (Inr (), w4) \<and> billed i j w4 = Some (3, s4) \<and>
    Subscription_status s1 = PastDue \<and> Subscription_status s2 = PastDue \<and>
    Subscription_status s3 = Grace \<and>
    Subscription_grace_ends_at s3 = Some (now w + days (grace_period_days (settings w))) \<and>
    has_access s1 \<and> has_access s2 \<and> has_access s3 \<and>
    Subscription_status s4 = Active \<and> Subscription_grace_ends_at s4 = None"
proof -
  obtain w1 where w1: "handle_payment_failed i w = (Inr (), w1)" "now w1 = now w" "settings w1 = settings w"
      "billed i j w1 = Some (1, failed_subscription w 1 s)"
    using wp_returns [OF billed_failed [OF assms(1)]] by auto
  obtain w2 where w2: "handle_payment_failed i w1 = (Inr (), w2)" "now w2 = now w" "settings w2 = settings w"
      "billed i j w2 = Some (2, failed_subscription w1 2 (failed_subscription w 1 s))"
    using wp_returns [OF billed_failed [OF w1(4)]] w1(2,3) by auto
  let ?s2 = "failed_subscription w1 2 (failed_subscription w 1 s)"
  obtain w3 where w3: "handle_payment_failed i w2 = (Inr (), w3)"
      "billed i j w3 = Some (3, failed_subscription w2 3 ?s2)"
    using wp_returns [OF billed_failed [OF w2(4)]] by auto
  let ?s3 = "failed_subscription w2 3 ?s2"
  have st: "Subscription_status (failed_subscription w 1 s) = PastDue" "Subscription_status ?s2 = PastDue"
    "Subscription_status ?s3 = Grace"
    "Subscription_grace_ends_at ?s3 = Some (now w + days (grace_period_days (settings w)))"
    using assms(2) w2(2,3) by (auto simp: failed_subscription_def)
  obtain w4 where w4: "handle_payment_succeeded i w3 = (Inr (), w4)"
      "billed i j w4 = Some (3, ?s3\<lparr>Subscription_status := Active, Subscription_grace_ends_at := None\<rparr>)"
    using wp_returns [OF billed_succeeded [OF w3(2)]] st by auto
  show ?thesis
    by (intro exI conjI, rule w1(1), rule w1(4), rule w2(1), rule w2(4), rule w3(1), rule w3(2),
        rule w4(1), rule w4(2)) (simp_all add: st has_access_def)
qed

definition sample_invoice :: Invoice where
  "sample_invoice = \<lparr>Invoice_id = 90, Invoice_product_id = 5, Invoice_tenant_id = 107,
     Invoice_subscription_id = Some 1, Invoice_status = InvOpen, Invoice_amount_cents = 900,
     Invoice_currency = ''USD'', Invoice_issued_at = 0, Invoice_due_at = 0, Invoice_paid_at = None,
     Invoice_attempt_count = 0, Invoice_last_attempt_at = None, Invoice_next_attempt_at = None,
     Invoice_provider = ''mock'', Invoice_provider_invoice_id = Some ''in_1'',
     Invoice_hosted_invoice_url = None\<rparr>"

definition sample_billed :: "SubscriptionStatus \<Rightarrow> world" where
  "sample_billed st = sample_trial\<lparr>db := (db sample_trial)\<lparr>invoices := [sample_invoice],
     subscriptions := [sample_sub\<lparr>Subscription_status := st\<rparr>]\<rparr>\<rparr>"

lemma sample_billed_eval: "billed 90 1 (sample_billed st) = Some (0, sample_sub\<lparr>Subscription_status := st\<rparr>)"
  by (simp add: billed_def sample_billed_def sample_invoice_def sample_sub_def)

theorem dunning_witness:
  "\<exists>w1 w2 w3. handle_payment_failed 90 (sample_billed Trial) = (Inr (), w1) \<and>
     handle_payment_failed 90 w1 = (Inr (), w2) \<and> handle_payment_failed 90 w2 = (Inr (), w3) \<and>
     (\<exists>s. billed 90 1 w3 = Some (3, s) \<and> Subscription_status s = Grace)"
  using dunning [OF sample_billed_eval [of Trial]] by fastforce

text \<open>A subscription that was cancelled, and so has no access, is put back to past due, with
  access, by the first failed attempt on one of its invoices: \<^verbatim>\<open>handle_payment_failed\<close>
  does not test for \<open>Cancelled\<close>, as \<^verbatim>\<open>enter_grace_period\<close> does.\<close>

lemma cancelled_regains_access:
  assumes "billed i j w = Some (0, s)" and "Subscription_status s = Cancelled"
  shows "\<not> has_access s \<and> (\<exists>w' s'. handle_payment_failed i w = (Inr (), w') \<and>
    billed i j w' = Some (1, s') \<and> Subscription_status s' = PastDue \<and> has_access s')"
  using wp_returns [OF billed_failed [OF assms(1)]] assms(2)
  by (auto simp: has_access_def failed_subscription_def)

lemma cancelled_regains_access_witness:
  "\<exists>w' s'. handle_payment_failed 90 (sample_billed Cancelled) = (Inr (), w') \<and>
    billed 90 1 w' = Some (1, s') \<and> has_access s'"
  using cancelled_regains_access [OF sample_billed_eval [of Cancelled]] by auto

section \<open>Plan credits are granted once per reference\<close>

lemma keeps_reference_seen: "keeps (reference_seen k r) (grant t p f n reason reference et)"
proof -
  have wallets: "reference_seen k r (w\<lparr>db := credit_wallets_update (map_rows P g) (db w)\<rparr>)"
    if seen: "reference_seen k r w" and g: "\<And>x. CreditWallet_id (g x) = CreditWallet_id x"
      "\<And>t f x. wallet_key t f (g x) = wallet_key t f x" for w P g
  proof (cases k)
    case (Pair t' f')
    then obtain x e where x: "List.find (wallet_key t' f') (credit_wallets (db w)) = Some x" "truthy (Some r)"
        "e \<in> set (credit_ledger (db w))" "CreditLedger_wallet_id e = CreditWallet_id x"
        "CreditLedger_reference e = Some r"
      using seen by (auto simp: reference_seen_def booked_before_def)
    then show ?thesis
      using g Pair
      by (auto simp: reference_seen_def booked_before_def find_map_rows_keep
          intro!: exI [of _ "if P x then g x else x"] bexI [of _ e])
  qed
  have opened: "reference_seen k r (w\<lparr>db := credit_wallets_update (\<lambda>rs. rs @ [x]) (db w)\<rparr>)"
    if "reference_seen k r w" for w x
    using that by (cases k) (auto simp: reference_seen_def booked_before_def find_append)
  have ledger: "reference_seen k r (w\<lparr>db := credit_ledger_update (\<lambda>rs. rs @ [e]) (db w)\<rparr>)"
    if "reference_seen k r w" for w e
    using that by (cases k) (auto simp: reference_seen_def booked_before_def)
  have drawn: "reference_seen k r (w\<lparr>draw_no := n\<rparr>) = reference_seen k r w" for w n
    by (cases k) (simp add: reference_seen_def booked_before_def)
  show ?thesis
    unfolding grant_def grant_read_def grant_write_def get_or_create_wallet_def book_def Let_def
      already_booked_def was_referenced_def
    by (intro keeps_intros keeps_writes opened ledger wallets) (simp_all add: drawn wallet_key_def)
qed

definition granted_feature :: "uuid \<Rightarrow> string \<Rightarrow> PlanFeature \<Rightarrow> world \<Rightarrow> bool" where
  "granted_feature t reference feat w \<longleftrightarrow>
     (case PlanFeature_credit_amount feat of None \<Rightarrow> True | Some n \<Rightarrow>
        n > 0 \<longrightarrow> reference_seen (t, PlanFeature_feature_key feat)
          (reference @ '':'' @ PlanFeature_feature_key feat) w)"

definition grant_feature :: "uuid \<Rightarrow> uuid \<Rightarrow> Plan \<Rightarrow> string \<Rightarrow> PlanFeature \<Rightarrow> unit service" where
  "grant_feature t p plan reference feat =
     (case PlanFeature_credit_amount feat of
        None \<Rightarrow> ret ()
      | Some n \<Rightarrow>
          if n > 0
          then bindS (grant t p (PlanFeature_feature_key feat) n (Some (''plan:'' @ Plan_code plan))
                 (Some (reference @ '':'' @ PlanFeature_feature_key feat)) Grant) (\<lambda>_. ret ())
          else ret ())"

lemma grant_feature_books:
  "grant_feature t p plan reference feat w = (Inr (), w') \<Longrightarrow> granted_feature t reference feat w'"
  using grant_books [of "reference @ '':'' @ PlanFeature_feature_key feat"]
  by (auto simp: grant_feature_def granted_feature_def bindS_Inr_iff ret_apply split: option.splits if_splits)

lemma grant_feature_skips:
  assumes "granted_feature t reference feat w"
  shows "grant_feature t p plan reference feat w = (Inr (), w)"
proof (cases "PlanFeature_credit_amount feat")
  case (Some n)
  show ?thesis
  proof (cases "n > 0")
    case True
    let ?r = "reference @ '':'' @ PlanFeature_feature_key feat"
    obtain a where "grant t p (PlanFeature_feature_key feat) n (Some (''plan:'' @ Plan_code plan))
        (Some ?r) Grant w = (Inr a, w)"
      using grants.skipped [of ?r "(t, p, PlanFeature_feature_key feat, n, Some (''plan:'' @ Plan_code plan), Grant)" w]
        assms Some True by (auto simp: granted_feature_def)
    then show ?thesis using Some True by (simp add: grant_feature_def svc_simps)
  qed (simp add: grant_feature_def Some svc_simps)
qed (simp add: grant_feature_def svc_simps)

lemma keeps_granted_feature: "keeps (granted_feature t reference feat) (grant_feature t' p plan reference' feat')"
proof -
  have "keeps (granted_feature t reference feat) (grant t' p f n reason r et)" for f n reason r et
    using keeps_reference_seen
    by (cases "PlanFeature_credit_amount feat") (auto simp: granted_feature_def keeps_def)
  then show ?thesis
    unfolding grant_feature_def by (intro keeps_intros)
qed

lemma grant_features_books:
  "forS fs (grant_feature t p plan reference) w = (Inr (), w') \<Longrightarrow>
     \<forall>f \<in> set fs. granted_feature t reference f w'"
proof (induction fs arbitrary: w)
  case Nil
  then show ?case by simp
next
  case (Cons f fs)
  from Cons.prems obtain v where v: "grant_feature t p plan reference f w = (Inr (), v)"
      "forS fs (grant_feature t p plan reference) v = (Inr (), w')"
    by (auto simp: bindS_Inr_iff)
  have kept: "keeps (granted_feature t reference f) (forS fs (grant_feature t p plan reference))"
    by (intro keeps_forS keeps_granted_feature)
  have "granted_feature t reference f w'"
    by (rule keepsD [where w = v]) (rule kept, rule grant_feature_books [OF v(1)], rule v(2))
  then show ?case using Cons.IH [OF v(2)] by simp
qed

lemma grant_features_skip:
  "\<forall>f \<in> set fs. granted_feature t reference f w \<Longrightarrow> forS fs (grant_feature t p plan reference) w = (Inr (), w)"
  by (induction fs) (simp_all add: svc_simps grant_feature_skips)

lemma grant_plan_credits_features:
  "grant_plan_credits t p plan reference =
     bindS (scalars plan_features (\<lambda>f. PlanFeature_plan_id f = Plan_id plan)) (\<lambda>features.
     forS features (grant_feature t p plan reference))"
  by (simp add: grant_plan_credits_def grant_feature_def [abs_def])

lemma frames_plan_features_grant: "frames (\<lambda>w. plan_features (db w)) (grant_plan_credits t p plan reference)"
  by (rule keeps_frames, rule keeps_credit_grant) simp_all

text \<open>The credits of a plan are granted at most once per reference. A trial, a purchase and a
  plan change use references of the subscription, the plan and the period, so repeating one of
  them for the same period (switching away from a plan and back, a retried webhook) books
  nothing.\<close>

lemma plan_credits_once:
  assumes "grant_plan_credits t p plan reference w = (Inr (), w')"
  shows "grant_plan_credits t p plan reference w' = (Inr (), w')"
proof -
  let ?fs = "filter (\<lambda>f. PlanFeature_plan_id f = Plan_id plan) (plan_features (db w))"
  have same: "plan_features (db w') = plan_features (db w)"
    by (rule framesD [OF frames_plan_features_grant assms])
  have "forS ?fs (grant_feature t p plan reference) w = (Inr (), w')"
    using assms by (simp add: grant_plan_credits_features svc_simps)
  then show ?thesis
    using grant_features_skip [OF grant_features_books] same
    by (simp add: grant_plan_credits_features svc_simps)
qed

definition sample_feature :: PlanFeature where
  "sample_feature = \<lparr>PlanFeature_id = 130, PlanFeature_product_id = 5, PlanFeature_plan_id = 121,
     PlanFeature_feature_key = ''api'', PlanFeature_limit_value = None,
     PlanFeature_credit_amount = Some 1000, PlanFeature_is_hard_limit = True, PlanFeature_meta = []\<rparr>"

definition sample_metered :: world where
  "sample_metered = sample_world\<lparr>db := empty_db\<lparr>plan_features := [sample_feature]\<rparr>\<rparr>"

lemma plan_credits_once_witness:
  "let m = grant_plan_credits 107 5 (sample_plan 121 ''pro'' 4900 14) ''trial:1'';
       w' = snd (m sample_metered)
   in m sample_metered = (Inr (), w') \<and> m w' = (Inr (), w') \<and>
      map CreditWallet_balance (credit_wallets (db w')) = [1000]"
proof -
  let ?m = "grant_plan_credits 107 5 (sample_plan 121 ''pro'' 4900 14) ''trial:1''"
  have m: "fst (?m sample_metered) = Inr ()"
    "map CreditWallet_balance (credit_wallets (db (snd (?m sample_metered)))) = [1000]"
    by (simp_all add: grant_plan_credits_def credit_eval sample_metered_def sample_feature_def sample_plan_def)
  then have "?m sample_metered = (Inr (), snd (?m sample_metered))"
    by (simp add: prod_eq_iff)
  from this plan_credits_once [OF this] m(2) show ?thesis by (simp only: Let_def)
qed

section \<open>The webhook\<close>

text \<open>A webhook body whose signature the provider rejects is answered 400 and an event of any
  other type 200, and neither changes the database, with any provider that leaves it alone.\<close>

lemma webhook_rejects:
  assumes "quiet_provider bp"
    and "parse_webhook bp payload body (case sig of None \<Rightarrow> [] | Some s \<Rightarrow> s) w = (parsed, v)"
    and "\<And>ev. parsed = Inr ev \<Longrightarrow>
      event_type ev \<notin> {''invoice.payment_succeeded'', ''invoice.paid'', ''invoice.payment_failed''}"
  shows "\<exists>reply w'. billing_webhook bp payload body sig w = (Inr reply, w') \<and> db w' = db w \<and>
    reply_status reply = (case parsed of Inl _ \<Rightarrow> 400 | Inr _ \<Rightarrow> 200)"
proof -
  have "db v = db w"
    using quietD [OF quiet_provider.quiet_parse [OF assms(1)] assms(2)] by (simp add: quiet_step_def)
  then show ?thesis
    using assms(2,3) by (cases parsed) (auto simp: billing_webhook_def svc_simps)
qed

lemma webhook_rejects_witness:
  "\<exists>reply w'. billing_webhook mock_provider [] None None sample_trial = (Inr reply, w') \<and>
     db w' = db sample_trial \<and> reply_status reply = 400"
proof -
  have p: "parse_webhook mock_provider [] None (case None of None \<Rightarrow> [] | Some s \<Rightarrow> s) sample_trial =
      (Inl (ValueError ''JSONDecodeError''), sample_trial)"
    by (simp add: mock_provider_def mock_parse_webhook_def svc_simps)
  show ?thesis
    using webhook_rejects [OF mock.quiet_provider_axioms p] by simp
qed

text \<open>Under Razorpay every webhook is answered 400, whatever its body and signature header:
  the route reads the \<^verbatim>\<open>Stripe-Signature\<close> header only, so the driver compares the
  digest with the empty text.\<close>

lemma razorpay_webhook_rejected:
  assumes "\<And>k m. hmac_sha256_hex (lib w) k m \<noteq> []"
  shows "billing_webhook (razorpay_provider http auth secret) payload body None w = (Inr InvalidSignature, w)"
  using assms
  by (simp add: billing_webhook_def razorpay_provider_def razorpay_parse_webhook_def svc_simps)

lemma razorpay_webhook_rejected_witness:
  "billing_webhook (razorpay_provider (\<lambda>_ _ _ _. ret (200, [])) ''auth'' ''key'') ''{}''
     (Some (JObj [(''event'', JStr ''invoice.paid'')])) None sample_world = (Inr InvalidSignature, sample_world)"
  by (rule razorpay_webhook_rejected) (simp add: sample_world_def sample_lib_def bind_text_def)

definition one_off_failure :: json where
  "one_off_failure = JObj [(''type'', JStr ''invoice.payment_failed''),
     (''data'', JObj [(''id'', JStr ''in_9''), (''subscription'', JNull)])]"

text \<open>An invoice event without a subscription (a one-off invoice) is attributed to a
  subscription that has no provider reference, because the comparison with None becomes IS NULL: a
  failed one-off payment puts a tenant on trial into past due.\<close>

lemma webhook_one_off_invoice:
  "\<exists>w s. lifecycle_reachable mock_provider w \<and> subscriptions (db w) = [s] \<and>
     Subscription_status s = Trial \<and> Subscription_provider_subscription_id s = None \<and>
     (\<exists>w'. billing_webhook mock_provider [] (Some one_off_failure) None w = (Inr Received, w') \<and>
        subscriptions (db w') = [s\<lparr>Subscription_status := PastDue\<rparr>])"
proof (rule exI [of _ sample_trial], rule exI [of _ sample_sub], intro conjI)
  show "lifecycle_reachable mock_provider sample_trial" by (rule sample_trial_reachable)
  show "\<exists>w'. billing_webhook mock_provider [] (Some one_off_failure) None sample_trial = (Inr Received, w') \<and>
        subscriptions (db w') = [sample_sub\<lparr>Subscription_status := PastDue\<rparr>]"
    by (simp add: billing_webhook_def payment_failed_event_def webhook_subscription_def
        event_subscription_def event_invoice_def record_invoice_def handle_payment_failed_def set_invoice_def
        invoice_subscription_def set_subscription_def set_current_product_def mock_provider_def
        mock_parse_webhook_def one_off_failure_def json_item_def dict_get_def upper_char_def sample_sub_def
        invoice_clash_def svc_simps Let_def)
qed (simp_all add: sample_sub_def)

text \<open>Conversions of a webhook's JSON values fail with internal errors only.\<close>

definition internal_error :: "(world, 'a) svc \<Rightarrow> world \<Rightarrow> bool" where
  "internal_error m u \<longleftrightarrow> (\<exists>e. m u = (Inl e, u) \<and> status_code e = 500)"

lemma internal_error_bind:
  "(\<And>e. r = Inl e \<Longrightarrow> status_code e = 500) \<Longrightarrow> (\<And>a. r = Inr a \<Longrightarrow> internal_error (f a) u) \<Longrightarrow>
     internal_error (bindS (liftE r) f) u"
  by (cases r) (auto simp: internal_error_def svc_simps)

lemma json_item_500: "json_item j k = Inl e \<Longrightarrow> status_code e = 500"
  by (auto simp: json_item_def split: json.splits option.splits)

lemma json_conversions_500:
  "json_int v = Inl e \<Longrightarrow> status_code e = 500" "json_upper v = Inl e \<Longrightarrow> status_code e = 500"
  "fromtimestamp v = Inl e \<Longrightarrow> status_code e = 500"
  by (cases v; auto)+

text \<open>A payment event whose invoice has a null due date (Stripe sends one for invoices charged
  automatically) fails with an internal error, for every provider: the default of
  \<^verbatim>\<open>data.get("due_date", ...)\<close> does not apply to a key that is present.\<close>

lemma webhook_null_due_date:
  assumes "parse_webhook bp payload body (case sig of None \<Rightarrow> [] | Some s \<Rightarrow> s) w = (Inr ev, v)"
    and "event_type ev \<in> {''invoice.payment_succeeded'', ''invoice.paid'', ''invoice.payment_failed''}"
    and "dict_get (event_data ev) ''subscription'' JNull = JStr i"
    and "\<exists>s \<in> set (subscriptions (db v)). Subscription_provider_subscription_id s = Some i"
    and "map_of (event_data ev) ''due_date'' = Some JNull"
  shows "\<exists>e w'. billing_webhook bp payload body sig w = (Inl e, w') \<and> status_code e = 500"
proof -
  let ?data = "event_data ev"
  obtain s where s: "List.find (\<lambda>s. Subscription_provider_subscription_id s = Some i) (subscriptions (db v)) = Some s"
    using assms(4) find_not_None [of "\<lambda>s. Subscription_provider_subscription_id s = Some i" "subscriptions (db v)"]
    by blast
  have due: "fromtimestamp (dict_get ?data ''due_date'' d) = Inl (RuntimeError ''TypeError: an integer is required'')" for d
    using assms(5) by (simp add: dict_get_def)
  have bad: "internal_error (event_invoice bp s ?data k st) u" for k st u
    unfolding event_invoice_def
    by (intro internal_error_bind) (auto dest: json_item_500 json_conversions_500 simp: due)
  let ?u = "v\<lparr>cur_product := Some (Subscription_product_id s)\<rparr>"
  obtain e1 where "event_invoice bp s ?data ''amount_paid'' InvPaid ?u = (Inl e1, ?u)" "status_code e1 = 500"
    using bad unfolding internal_error_def by blast
  moreover obtain e2 where "event_invoice bp s ?data ''amount_due'' InvOpen ?u = (Inl e2, ?u)" "status_code e2 = 500"
    using bad unfolding internal_error_def by blast
  ultimately show ?thesis
    using assms(1,2,3) s
    by (auto simp: billing_webhook_def payment_succeeded_event_def payment_failed_event_def
        webhook_subscription_def event_subscription_def set_current_product_def svc_simps)
qed

definition sample_paid :: world where
  "sample_paid = sample_trial\<lparr>db := (db sample_trial)\<lparr>subscriptions :=
     [sample_sub\<lparr>Subscription_provider_subscription_id := Some ''sub_1''\<rparr>]\<rparr>\<rparr>"

definition null_due_date :: json where
  "null_due_date = JObj [(''type'', JStr ''invoice.paid''), (''data'', JObj [(''id'', JStr ''in_9''),
     (''subscription'', JStr ''sub_1''), (''due_date'', JNull)])]"

lemma webhook_null_due_date_witness:
  "\<exists>e w'. billing_webhook mock_provider [] (Some null_due_date) None sample_paid = (Inl e, w') \<and>
     status_code e = 500"
proof (rule webhook_null_due_date [where i = "''sub_1''"])
  show "parse_webhook mock_provider [] (Some null_due_date) (case None of None \<Rightarrow> [] | Some s \<Rightarrow> s) sample_paid =
      (Inr \<lparr>event_id = ''evt_mock'', event_type = ''invoice.paid'', event_data = [(''id'', JStr ''in_9''),
         (''subscription'', JStr ''sub_1''), (''due_date'', JNull)]\<rparr>, sample_paid)"
    by (simp add: mock_provider_def mock_parse_webhook_def null_due_date_def json_item_def dict_get_def svc_simps)
qed (simp_all add: dict_get_def sample_paid_def)

end
