(* ===== verification/Security.thy ===== *)
theory Security
  imports Interfaces Samples
begin

text \<open>
  Passwords and JWTs: \<^verbatim>\<open>app/core/security.py\<close> over the third-party functions of the
  state (\<open>libs\<close>), and what the
  code relies on about Argon2, PyJWT and SHA-256, as one predicate on the libraries.
\<close>

section \<open>Passwords\<close>

definition hash_password :: "string \<Rightarrow> string service" where
  "hash_password password = bindS fresh (\<lambda>salt. gets (\<lambda>w. pw_hash (lib w) salt password))"

definition verify_password :: "string \<Rightarrow> string \<Rightarrow> bool service" where
  "verify_password password hashed = gets (\<lambda>w. pw_verify (lib w) hashed password)"

definition needs_rehash :: "string \<Rightarrow> bool service" where
  "needs_rehash hashed = gets (\<lambda>w. pw_needs_rehash (lib w) hashed)"


section \<open>Tokens\<close>

text \<open>\<^verbatim>\<open>int(t.timestamp())\<close>, for instants after 1970.\<close>

definition timestamp :: "time \<Rightarrow> int" where
  "timestamp t = t div 1000000"

fun ttl :: "Settings \<Rightarrow> TokenType \<Rightarrow> int" where
  "ttl st Access = jwt_access_ttl_seconds st"
| "ttl st Refresh = jwt_refresh_ttl_seconds st"

definition issue_token ::
    "uuid \<Rightarrow> uuid option \<Rightarrow> uuid option \<Rightarrow> TokenType \<Rightarrow> int option \<Rightarrow> (string \<times> uuid \<times> time) service" where
  "issue_token subject tenant_id product_id typ ttl_seconds =
     bindS fresh (\<lambda>jti.
     gets (\<lambda>w.
       let exp = now w + seconds (case ttl_seconds of Some n \<Rightarrow> n | None \<Rightarrow> ttl (settings w) typ)
       in (jwt_encode (lib w) \<lparr>claim_sub = subject, claim_tid = tenant_id, claim_pid = product_id,
             claim_typ = typ, claim_iat = timestamp (now w), claim_exp = timestamp exp, claim_jti = jti\<rparr>,
           jti, exp)))"

text \<open>None stands for a \<^verbatim>\<open>PyJWTError\<close>, which every caller catches.\<close>

definition decode_token :: "string \<Rightarrow> TokenType option \<Rightarrow> Claims option service" where
  "decode_token token expected_type =
     gets (\<lambda>w. case jwt_decode (lib w) (now w) token of
       None \<Rightarrow> None
     | Some payload \<Rightarrow>
         (case expected_type of
            None \<Rightarrow> Some payload
          | Some typ \<Rightarrow> if claim_typ payload = typ then Some payload else None))"


section \<open>What is assumed of the libraries\<close>

text \<open>PyJWT accepts what it signed until the expiry instant and not after it,
  and reads the same claims at any time; Argon2 verifies
  the password a hash was made of and no other; SHA-256 does not collide on the texts hashed.\<close>

definition auth_libs_ok :: "libs \<Rightarrow> bool" where
  "auth_libs_ok l \<longleftrightarrow>
     (\<forall>c t. jwt_decode l t (jwt_encode l c) = (if t < seconds (claim_exp c) then Some c else None)) \<and>
     (\<forall>t t' s c c'. jwt_decode l t s = Some c \<longrightarrow> jwt_decode l t' s = Some c' \<longrightarrow> c = c') \<and>
     (\<forall>salt p q. pw_verify l (pw_hash l salt p) q \<longleftrightarrow> q = p) \<and>
     (\<forall>a b. sha256_hex l a = sha256_hex l b \<longrightarrow> a = b)"

lemma decode_encode:
  "auth_libs_ok (lib w) \<Longrightarrow> decode_token (jwt_encode (lib w) c) (Some (claim_typ c)) w =
     (Inr (if now w < seconds (claim_exp c) then Some c else None), w)"
  by (simp add: auth_libs_ok_def decode_token_def svc_simps)

lemma hash_password_apply [svc_simps]:
  "hash_password p w = (Inr (pw_hash (lib w) (draws w (draw_no w)) p), w\<lparr>draw_no := Suc (draw_no w)\<rparr>)"
  by (simp add: hash_password_def svc_simps)

lemma verify_password_apply [svc_simps]: "verify_password p h w = (Inr (pw_verify (lib w) h p), w)"
  by (simp add: verify_password_def svc_simps)

lemma needs_rehash_apply [svc_simps]: "needs_rehash h w = (Inr (pw_needs_rehash (lib w) h), w)"
  by (simp add: needs_rehash_def svc_simps)

end
