(* ===== verification/Rbac.thy ===== *)
theory Rbac
  imports Interfaces Samples
begin

text \<open>
  Permissions and roles: \<^verbatim>\<open>app/services/rbac.py\<close> and the role routes of
  \<^verbatim>\<open>app/api/v1/roles.py\<close>. A role's permissions are the \<open>RolePermission\<close> rows that
  point to it. The session does not flush on a query, and a flush writes inserts before deletes:
  \<open>update_role\<close> keeps that order. In the descriptions of the catalogue an arrow is written
  \<open>->\<close>.
\<close>

section \<open>Catalogue and templates\<close>

definition SYSTEM_PERMISSIONS :: "(string \<times> string) list" where
  "SYSTEM_PERMISSIONS = [
     (''*:*'', ''Super admin: all actions''),
     (''tenants:read'', ''Read tenants''),
     (''tenants:write'', ''Create / update tenants''),
     (''tenants:delete'', ''Delete tenants''),
     (''tenants:act_as_child'', ''Switch context into a child tenant (parent -> child)''),
     (''users:read'', ''Read users''),
     (''users:write'', ''Create / update users''),
     (''users:delete'', ''Delete users''),
     (''users:activate'', ''Activate / deactivate users''),
     (''roles:read'', ''Read roles''),
     (''roles:write'', ''Manage roles + assignments''),
     (''plans:read'', ''Read plans''),
     (''plans:write'', ''Manage plans (platform-admin)''),
     (''subscriptions:read'', ''Read subscription''),
     (''subscriptions:purchase'', ''Purchase a plan''),
     (''subscriptions:change'', ''Upgrade / downgrade plan''),
     (''subscriptions:cancel'', ''Cancel subscription''),
     (''credits:read'', ''Read credit balance + ledger''),
     (''credits:consume'', ''Consume credits''),
     (''credits:grant'', ''Grant credits (admin)''),
     (''audit:read'', ''Read audit log''),
     (''jobs:read'', ''List + read background jobs''),
     (''jobs:write'', ''Enqueue a background job''),
     (''jobs:cancel'', ''Cancel a queued job''),
     (''storage:read'', ''Read storage collections and documents''),
     (''storage:write'', ''Create collections + upsert documents''),
     (''storage:delete'', ''Delete storage documents''),
     (''components:read'', ''List components + per-user effective access''),
     (''components:override'', ''Enable / disable a component for a specific user''),
     (''client:create'', ''Create clients''),
     (''client:read'', ''Read clients''),
     (''client:update'', ''Update clients''),
     (''session:create'', ''Create sessions''),
     (''session:read'', ''Read sessions''),
     (''session:update'', ''Update sessions''),
     (''note:create'', ''Create session notes''),
     (''note:read'', ''Read session notes''),
     (''note:sign'', ''Sign session notes''),
     (''availability:read'', ''Read availability (slots, time-off, closures)''),
     (''availability:manage'', ''Manage availability (slots, time-off, closures)''),
     (''booking:create'', ''Create bookings''),
     (''booking:read'', ''Read bookings''),
     (''booking:manage'', ''Manage bookings (reschedule / cancel / conflicts)''),
     (''inbox:read'', ''Read inbox conversations''),
     (''inbox:send'', ''Send inbox messages''),
     (''approval:decide'', ''Approve / reject AI-drafted actions''),
     (''payment:read'', ''Read payments''),
     (''payment:manage'', ''Manage payments (links, nudges, reconciliation)''),
     (''digest:read'', ''Read practice digests''),
     (''gdpr:export'', ''Export a client'' @ [CHR 0x27] @ ''s personal data (GDPR subject-access)''),
     (''gdpr:erase'', ''Erase a client'' @ [CHR 0x27] @ ''s personal data (GDPR right-to-erasure)''),
     (''settings:manage'', ''Manage practice settings'')]"

definition SYSTEM_ROLES :: "(string \<times> string list) list" where
  "SYSTEM_ROLES = [
     (''owner'',
       [''*:*'']),
     (''admin'',
       [''tenants:read'', ''tenants:write'', ''tenants:act_as_child'', ''users:read'',
        ''users:write'', ''users:activate'', ''roles:read'', ''roles:write'',
        ''subscriptions:read'', ''subscriptions:purchase'', ''subscriptions:change'',
        ''subscriptions:cancel'', ''credits:read'', ''credits:grant'', ''audit:read'',
        ''jobs:read'', ''jobs:write'', ''jobs:cancel'', ''storage:read'', ''storage:write'',
        ''storage:delete'', ''components:read'', ''components:override'']),
     (''member'',
       [''tenants:read'', ''users:read'', ''subscriptions:read'', ''credits:read'',
        ''credits:consume'', ''jobs:read'', ''storage:read'', ''components:read''])]"

definition PRODUCT_SYSTEM_ROLES :: "(string \<times> (string \<times> string list) list) list" where
  "PRODUCT_SYSTEM_ROLES = [
     (''mayva'', [
     (''practitioner'',
       [''client:create'', ''client:read'', ''client:update'', ''session:create'',
        ''session:read'', ''session:update'', ''note:create'', ''note:read'', ''note:sign'',
        ''availability:read'', ''availability:manage'', ''booking:create'', ''booking:read'',
        ''booking:manage'', ''inbox:read'', ''inbox:send'', ''approval:decide'',
        ''payment:read'', ''payment:manage'', ''digest:read'', ''gdpr:export'',
        ''gdpr:erase'', ''audit:read'']),
     (''assistant'',
       [''client:read'', ''booking:create'', ''booking:read'', ''booking:manage'',
        ''inbox:read''])])]"

text \<open>\<^verbatim>\<open>{**SYSTEM_ROLES, **PRODUCT_SYSTEM_ROLES.get(slug or "", {})}\<close>\<close>

definition role_templates :: "string option \<Rightarrow> (string \<times> string list) list" where
  "role_templates slug =
     (let extra = (case map_of PRODUCT_SYSTEM_ROLES (case slug of None \<Rightarrow> [] | Some s \<Rightarrow> s) of
                     None \<Rightarrow> [] | Some d \<Rightarrow> d)
      in map (\<lambda>(n, ps). (n, case map_of extra n of None \<Rightarrow> ps | Some qs \<Rightarrow> qs)) SYSTEM_ROLES @
         filter (\<lambda>(n, _). n \<notin> fst ` set SYSTEM_ROLES) extra)"

section \<open>Matching\<close>

text \<open>\<^verbatim>\<open>code.split(":", 1)\<close>, unpacked into two.\<close>

definition split_code :: "string \<Rightarrow> app_error + (string \<times> string)" where
  "split_code s =
     (if CHR '':'' \<in> set s
      then Inr (takeWhile (\<lambda>c. c \<noteq> CHR '':'') s, drop 1 (dropWhile (\<lambda>c. c \<noteq> CHR '':'') s))
      else Inl (ValueError ''not enough values to unpack''))"

definition perm_matches :: "string \<Rightarrow> string \<Rightarrow> app_error + bool" where
  "perm_matches granted required =
     (case split_code granted of Inl e \<Rightarrow> Inl e | Inr (g_res, g_act) \<Rightarrow>
     (case split_code required of Inl e \<Rightarrow> Inl e | Inr (r_res, r_act) \<Rightarrow>
      Inr (g_res \<in> {''*'', r_res} \<and> g_act \<in> {''*'', r_act})))"

text \<open>\<^verbatim>\<open>any(_matches(g, required) for g in codes)\<close>\<close>

fun any_matches :: "string list \<Rightarrow> string \<Rightarrow> app_error + bool" where
  "any_matches [] required = Inr False"
| "any_matches (g # gs) required =
     (case perm_matches g required of
        Inl e \<Rightarrow> Inl e | Inr True \<Rightarrow> Inr True | Inr False \<Rightarrow> any_matches gs required)"

section \<open>Seeding\<close>

definition permission_clash :: "Permission \<Rightarrow> Permission \<Rightarrow> bool" where
  "permission_clash x y \<longleftrightarrow> Permission_code x = Permission_code y"

definition role_permission_clash :: "RolePermission \<Rightarrow> RolePermission \<Rightarrow> bool" where
  "role_permission_clash x y \<longleftrightarrow> RolePermission_role_id x = RolePermission_role_id y \<and>
     RolePermission_permission_id x = RolePermission_permission_id y"

text \<open>Unique over product, tenant and name; rows with a NULL tenant never collide.\<close>

definition role_clash :: "Role \<Rightarrow> Role \<Rightarrow> bool" where
  "role_clash x y \<longleftrightarrow> Role_product_id x = Role_product_id y \<and> Role_tenant_id x \<noteq> None \<and>
     Role_tenant_id x = Role_tenant_id y \<and> Role_name x = Role_name y"

definition user_role_clash :: "UserRole \<Rightarrow> UserRole \<Rightarrow> bool" where
  "user_role_clash x y \<longleftrightarrow> UserRole_user_id x = UserRole_user_id y \<and>
     UserRole_role_id x = UserRole_role_id y \<and> UserRole_scope_tenant_id x \<noteq> None \<and>
     UserRole_scope_tenant_id x = UserRole_scope_tenant_id y"

definition add_role_permission :: "uuid \<Rightarrow> uuid \<Rightarrow> unit service" where
  "add_role_permission role_id permission_id =
     bindS fresh (\<lambda>i.
     insert_row role_permissions role_permissions_update role_permission_clash
       \<lparr>RolePermission_id = i, RolePermission_role_id = role_id,
        RolePermission_permission_id = permission_id\<rparr>)"

definition add_permission :: "string \<times> string \<Rightarrow> Permission service" where
  "add_permission = (\<lambda>(code, desc).
     bindS fresh (\<lambda>i.
     let p = \<lparr>Permission_id = i, Permission_code = code, Permission_description = Some desc\<rparr>
     in bindS (insert_row permissions permissions_update permission_clash p) (\<lambda>_. ret p)))"

definition ensure_permission_catalog :: "Permission list service" where
  "ensure_permission_catalog =
     bindS (scalars permissions (\<lambda>_. True)) (\<lambda>rows.
     bindS (mapS (filter (\<lambda>(code, _). code \<notin> Permission_code ` set rows) SYSTEM_PERMISSIONS)
       add_permission) (\<lambda>added.
     ret (rows @ added)))"

text \<open>\<^verbatim>\<open>perm_catalog[code].id\<close>\<close>

definition catalog_id :: "Permission list \<Rightarrow> string \<Rightarrow> app_error + uuid" where
  "catalog_id catalog code =
     (case List.find (\<lambda>p. Permission_code p = code) (rev catalog) of
        None \<Rightarrow> Inl (KeyError code) | Some p \<Rightarrow> Inr (Permission_id p))"

definition ensure_template :: "Permission list \<Rightarrow> uuid \<Rightarrow> Role list \<Rightarrow> string \<times> string list \<Rightarrow> unit service" where
  "ensure_template perm_catalog product_id existing_roles =
     (\<lambda>(name, perms).
     bindS (case List.find (\<lambda>r. Role_name r = name) (rev existing_roles) of
              Some role \<Rightarrow> ret (Role_id role)
            | None \<Rightarrow>
                bindS fresh (\<lambda>i.
                bindS (insert_row roles roles_update role_clash
                  \<lparr>Role_id = i, Role_product_id = product_id, Role_tenant_id = None, Role_name = name,
                   Role_description = Some (''System role: '' @ name), Role_is_system = True\<rparr>) (\<lambda>_.
                ret i))) (\<lambda>role_id.
     bindS (scalars role_permissions (\<lambda>rp. RolePermission_role_id rp = role_id)) (\<lambda>rps.
     let current = map RolePermission_permission_id rps in
     forS perms (\<lambda>code.
       bindS (liftE (catalog_id perm_catalog code)) (\<lambda>pid.
       if pid \<notin> set current then add_role_permission role_id pid else ret ())))))"

definition ensure_system_roles_for_product :: "uuid \<Rightarrow> unit service" where
  "ensure_system_roles_for_product product_id =
     bindS ensure_permission_catalog (\<lambda>perm_catalog.
     bindS (scalar products (\<lambda>p. Product_id p = product_id)) (\<lambda>product.
     bindS (scalars roles (\<lambda>r. Role_product_id r = product_id \<and> Role_tenant_id r = None)) (\<lambda>existing_roles.
     forS (role_templates (map_option Product_slug product))
       (ensure_template perm_catalog product_id existing_roles))))"

section \<open>Checking\<close>

text \<open>The join of \<^verbatim>\<open>list_user_permission_codes\<close>: permission, role permission, role and
  binding of the user, the binding's scope being NULL or the tenant asked for (the route keeps
  the set of codes, so duplicates of the join do not count).\<close>

definition binding_applies :: "uuid option \<Rightarrow> UserRole \<Rightarrow> bool" where
  "binding_applies target_tid b \<longleftrightarrow>
     UserRole_scope_tenant_id b = None \<or> (target_tid \<noteq> None \<and> UserRole_scope_tenant_id b = target_tid)"

definition permission_codes :: "database \<Rightarrow> uuid \<Rightarrow> uuid option \<Rightarrow> string list" where
  "permission_codes d user_id target_tid =
     map Permission_code (filter (\<lambda>p.
       \<exists>rp \<in> set (role_permissions d). RolePermission_permission_id rp = Permission_id p \<and>
         (\<exists>r \<in> set (roles d). Role_id r = RolePermission_role_id rp \<and>
            (\<exists>b \<in> set (user_roles d). UserRole_role_id b = Role_id r \<and> UserRole_user_id b = user_id \<and>
               binding_applies target_tid b))) (permissions d))"

definition list_user_permission_codes :: "User \<Rightarrow> uuid option \<Rightarrow> string list service" where
  "list_user_permission_codes user tenant_id =
     gets (\<lambda>w. permission_codes (db w) (User_id user)
       (case tenant_id of Some t \<Rightarrow> Some t | None \<Rightarrow> current_tenant_id w))"

definition user_has_permission :: "User \<Rightarrow> string \<Rightarrow> uuid option \<Rightarrow> bool service" where
  "user_has_permission user required tenant_id =
     (if User_is_platform_admin user then ret True
      else
      bindS (list_user_permission_codes user tenant_id) (\<lambda>codes.
      liftE (any_matches codes required)))"

definition assign_role :: "uuid \<Rightarrow> uuid \<Rightarrow> uuid \<Rightarrow> uuid option \<Rightarrow> UserRole service" where
  "assign_role user_id role_id product_id scope_tenant_id =
     bindS fresh (\<lambda>i.
     let b = \<lparr>UserRole_id = i, UserRole_product_id = product_id, UserRole_user_id = user_id,
              UserRole_role_id = role_id, UserRole_scope_tenant_id = scope_tenant_id\<rparr>
     in bindS (insert_row user_roles user_roles_update user_role_clash b) (\<lambda>_. ret b))"

definition assign_role_by_name :: "User \<Rightarrow> string \<Rightarrow> UserRole service" where
  "assign_role_by_name user role_name =
     bindS (scalar roles (\<lambda>r. Role_name r = role_name \<and> Role_tenant_id r = None \<and>
              Role_product_id r = User_product_id user)) (\<lambda>role.
     case role of
       None \<Rightarrow> raise (RuntimeError ''System role missing for product'')
     | Some r \<Rightarrow> assign_role (User_id user) (Role_id r) (User_product_id user) None)"

text \<open>\<^verbatim>\<open>actor_id\<close> of \<^verbatim>\<open>core/dependencies.py\<close>.\<close>

definition actor_id :: "User \<Rightarrow> uuid option" where
  "actor_id user = (if User_is_platform_admin user then None else Some (User_id user))"

section \<open>Role routes\<close>

definition effective_tenant :: "User \<Rightarrow> uuid service" where
  "effective_tenant user =
     gets (\<lambda>w. case current_tenant_id w of Some t \<Rightarrow> t | None \<Rightarrow> User_tenant_id user)"

definition list_roles :: "User \<Rightarrow> Role list service" where
  "list_roles user =
     bindS (effective_tenant user) (\<lambda>tid.
     scalars roles (\<lambda>r. Role_product_id r = User_product_id user \<and>
       (Role_tenant_id r = Some tid \<or> Role_tenant_id r = None)))"

definition permission_ids :: "string list \<Rightarrow> uuid list service" where
  "permission_ids codes =
     mapS codes (\<lambda>code.
       bindS (scalar permissions (\<lambda>p. Permission_code p = code)) (\<lambda>perm.
       case perm of
         None \<Rightarrow> raise (NotFound ''permission not found'')
       | Some p \<Rightarrow> ret (Permission_id p)))"

definition create_role :: "User \<Rightarrow> string \<Rightarrow> string option \<Rightarrow> string list \<Rightarrow> Role service" where
  "create_role user name description codes =
     audit_action ((act ''role.create'')\<lparr>a_actor_user_id := actor_id user, a_resource_type := Some ''role'',
         a_diff := [(''name'', JStr name)]\<rparr>)
       (bindS (effective_tenant user) (\<lambda>tid.
        bindS (scalar roles (\<lambda>r. Role_product_id r = User_product_id user \<and> Role_name r = name \<and>
                 (Role_tenant_id r = Some tid \<or> Role_tenant_id r = None))) (\<lambda>existing.
        if existing \<noteq> None then raise (Conflict ''role already exists in this product'')
        else
        bindS fresh (\<lambda>i.
        let role = \<lparr>Role_id = i, Role_product_id = User_product_id user, Role_tenant_id = Some tid,
              Role_name = name, Role_description = description, Role_is_system = False\<rparr>
        in
        bindS (insert_row roles roles_update role_clash role) (\<lambda>_.
        bindS (permission_ids codes) (\<lambda>ids.
        bindS (forS ids (add_role_permission i)) (\<lambda>_.
        ret ([(''role_id'', JUuid i), (''permission_codes'', JList (map JStr codes))], role))))))))"

text \<open>The flush of an update of the role's columns: a name another role of the tenant has is a
  unique violation.\<close>

definition flush_role :: "Role \<Rightarrow> (Role \<Rightarrow> Role) \<Rightarrow> unit service" where
  "flush_role role assign =
     bindS (scalar roles (\<lambda>r. Role_id r \<noteq> Role_id role \<and> role_clash r (assign role))) (\<lambda>other.
     if other \<noteq> None then raise IntegrityError
     else update_rows roles_update (\<lambda>r. Role_id r = Role_id role) assign)"

text \<open>\<^verbatim>\<open>payload.model_dump(exclude_unset=True)\<close>\<close>

definition role_changes :: "string patch \<Rightarrow> string patch \<Rightarrow> string list patch \<Rightarrow> dict" where
  "role_changes name description codes =
     (let field = (\<lambda>k p. case p of Unset \<Rightarrow> [] | Null \<Rightarrow> [(k, JNull)] | Given v \<Rightarrow> [(k, v)])
      in field ''name'' (map_patch JStr name) @ field ''description'' (map_patch JStr description) @
         field ''permission_codes'' (map_patch (\<lambda>cs. JList (map JStr cs)) codes))"

text \<open>\<^verbatim>\<open>update_role\<close>; a field that is null counts as left out. The new rows are
  inserted before the old ones are deleted, in one flush.\<close>

definition update_role :: "User \<Rightarrow> uuid \<Rightarrow> string patch \<Rightarrow> string patch \<Rightarrow> string list patch \<Rightarrow> Role service" where
  "update_role user role_id name description codes =
     bindS (scalar roles (\<lambda>r. Role_id r = role_id \<and> Role_product_id r = User_product_id user)) (\<lambda>role.
     case role of
       None \<Rightarrow> raise (NotFound ''role not found'')
     | Some role \<Rightarrow>
     if Role_is_system role then raise (Forbidden ''system roles are immutable'')
     else
     let assign = (\<lambda>r. r\<lparr>Role_name := patch_value name (Role_name r),
           Role_description := or_else (patch_given description) (Role_description r)\<rparr>)
     in
     audit_action ((act ''role.update'')\<lparr>a_actor_user_id := actor_id user, a_resource_type := Some ''role'',
         a_resource_id := Some (Role_id role), a_diff := [(''changes'', JObj (role_changes name description codes))]\<rparr>)
       (bindS (case patch_given codes of
                 None \<Rightarrow> flush_role role assign
               | Some cs \<Rightarrow>
                   bindS (scalars role_permissions (\<lambda>rp. RolePermission_role_id rp = Role_id role)) (\<lambda>old.
                   bindS (permission_ids cs) (\<lambda>ids.
                   bindS (flush_role role assign) (\<lambda>_.
                   bindS (forS ids (add_role_permission (Role_id role))) (\<lambda>_.
                   delete_rows role_permissions_update
                     (\<lambda>rp. RolePermission_id rp \<in> RolePermission_id ` set old)))))) (\<lambda>_.
        ret ([], assign role))))"

definition assign_role_route :: "User \<Rightarrow> uuid \<Rightarrow> uuid \<Rightarrow> uuid option \<Rightarrow> unit service" where
  "assign_role_route user user_id role_id scope_tenant_id =
     bindS (scalar users (\<lambda>u. User_id u = user_id)) (\<lambda>target_user.
     if \<not> (case target_user of None \<Rightarrow> False | Some u \<Rightarrow> User_product_id u = User_product_id user)
     then raise (NotFound ''user not found in this product'')
     else
     bindS (scalar roles (\<lambda>r. Role_id r = role_id)) (\<lambda>target_role.
     if \<not> (case target_role of None \<Rightarrow> False | Some r \<Rightarrow> Role_product_id r = User_product_id user)
     then raise (NotFound ''role not found in this product'')
     else
     audit_action ((act ''role.assign'')\<lparr>a_actor_user_id := actor_id user, a_resource_type := Some ''user'',
         a_resource_id := Some user_id,
         a_diff := [(''role_id'', JUuid role_id), (''scope_tenant_id'', jopt JUuid scope_tenant_id)]\<rparr>)
       (bindS (assign_role user_id role_id (User_product_id user) scope_tenant_id) (\<lambda>_.
        ret ([], ())))))"

section \<open>Matching and scopes\<close>

lemma split_code_app [simp]:
  "CHR '':'' \<notin> set a \<Longrightarrow> split_code (a @ CHR '':'' # b) = Inr (a, b)"
  by (induction a) (auto simp: split_code_def split: sum.splits)

text \<open>A granted code covers a required one: each of the two parts is equal or the wildcard.\<close>

definition covers :: "string \<Rightarrow> string \<Rightarrow> bool" where
  "covers g r \<longleftrightarrow>
     takeWhile (\<lambda>c. c \<noteq> CHR '':'') g \<in> {''*'', takeWhile (\<lambda>c. c \<noteq> CHR '':'') r} \<and>
     drop 1 (dropWhile (\<lambda>c. c \<noteq> CHR '':'') g) \<in> {''*'', drop 1 (dropWhile (\<lambda>c. c \<noteq> CHR '':'') r)}"

lemma perm_matches_covers:
  "CHR '':'' \<in> set g \<Longrightarrow> CHR '':'' \<in> set r \<Longrightarrow> perm_matches g r = Inr (covers g r)"
  by (simp add: perm_matches_def split_code_def covers_def)

lemma any_matches_covers:
  "\<forall>g \<in> set gs. CHR '':'' \<in> set g \<Longrightarrow> CHR '':'' \<in> set r \<Longrightarrow>
     any_matches gs r = Inr (\<exists>g \<in> set gs. covers g r)"
  by (induction gs) (auto simp: perm_matches_covers split: bool.splits)

definition grants :: "database \<Rightarrow> uuid \<Rightarrow> UserRole \<Rightarrow> string \<Rightarrow> bool" where
  "grants d user_id b code \<longleftrightarrow> UserRole_user_id b = user_id \<and>
     (\<exists>r \<in> set (roles d). UserRole_role_id b = Role_id r \<and>
        (\<exists>rp \<in> set (role_permissions d). RolePermission_role_id rp = Role_id r \<and>
           (\<exists>p \<in> set (permissions d). Permission_id p = RolePermission_permission_id rp \<and> Permission_code p = code)))"

lemma permission_codes_iff:
  "code \<in> set (permission_codes d u t) \<longleftrightarrow> (\<exists>b \<in> set (user_roles d). binding_applies t b \<and> grants d u b code)"
proof
  assume "code \<in> set (permission_codes d u t)"
  then obtain p rp r b where "p \<in> set (permissions d)" "Permission_code p = code"
      "rp \<in> set (role_permissions d)" "RolePermission_permission_id rp = Permission_id p"
      "r \<in> set (roles d)" "Role_id r = RolePermission_role_id rp" "b \<in> set (user_roles d)"
      "UserRole_role_id b = Role_id r" "UserRole_user_id b = u" "binding_applies t b"
    by (auto simp: permission_codes_def)
  then show "\<exists>b \<in> set (user_roles d). binding_applies t b \<and> grants d u b code"
    unfolding grants_def by (metis (no_types, lifting))
next
  assume "\<exists>b \<in> set (user_roles d). binding_applies t b \<and> grants d u b code"
  then obtain p rp r b where p: "p \<in> set (permissions d)" "Permission_code p = code"
      "rp \<in> set (role_permissions d)" "RolePermission_permission_id rp = Permission_id p"
      "r \<in> set (roles d)" "RolePermission_role_id rp = Role_id r" "b \<in> set (user_roles d)"
      "UserRole_role_id b = Role_id r" "UserRole_user_id b = u" "binding_applies t b"
    unfolding grants_def by metis
  then have "p \<in> {p \<in> set (permissions d).
      \<exists>rp \<in> set (role_permissions d). RolePermission_permission_id rp = Permission_id p \<and>
         (\<exists>r \<in> set (roles d). Role_id r = RolePermission_role_id rp \<and>
            (\<exists>b \<in> set (user_roles d). UserRole_role_id b = Role_id r \<and> UserRole_user_id b = u \<and>
               binding_applies t b))}"
    by (auto intro!: bexI [of _ rp] bexI [of _ r] bexI [of _ b])
  then show "code \<in> set (permission_codes d u t)"
    unfolding permission_codes_def using p(2) by auto
qed

text \<open>C7: a permission check in a tenant is exactly this: the platform admin passes, and a user
  passes when one of the user's bindings that is unscoped or scoped to that very tenant leads
  through a role to a code that covers the one required, part by part. Bindings scoped to any
  other tenant count for nothing. The check writes nothing.\<close>

theorem user_has_permission_iff:
  assumes "\<forall>p \<in> set (permissions (db w)). CHR '':'' \<in> set (Permission_code p)"
    and "CHR '':'' \<in> set required"
  shows "user_has_permission user required (Some t) w =
    (Inr (User_is_platform_admin user \<or>
      (\<exists>b \<in> set (user_roles (db w)). (UserRole_scope_tenant_id b = None \<or> UserRole_scope_tenant_id b = Some t) \<and>
         (\<exists>code. grants (db w) (User_id user) b code \<and> covers code required))), w)"
proof -
  let ?codes = "permission_codes (db w) (User_id user) (Some t)"
  have "\<forall>g \<in> set ?codes. CHR '':'' \<in> set g"
    using assms(1) by (auto simp: permission_codes_def)
  then have "any_matches ?codes required = Inr (\<exists>g \<in> set ?codes. covers g required)"
    using assms(2) by (rule any_matches_covers)
  moreover have "(\<exists>g \<in> set ?codes. covers g required) \<longleftrightarrow>
      (\<exists>b \<in> set (user_roles (db w)). (UserRole_scope_tenant_id b = None \<or> UserRole_scope_tenant_id b = Some t) \<and>
         (\<exists>code. grants (db w) (User_id user) b code \<and> covers code required))"
    unfolding Bex_def permission_codes_iff binding_applies_def by blast
  ultimately show ?thesis
    by (simp add: user_has_permission_def list_user_permission_codes_def svc_simps)
qed

definition sample_user :: "uuid \<Rightarrow> uuid \<Rightarrow> User" where
  "sample_user i t = \<lparr>User_id = i, User_product_id = 5, User_tenant_id = t, User_email = ''a@b.c'',
     User_password_hash = ''hpw'', User_full_name = None, User_is_active = True, User_is_verified = True,
     User_last_login_at = None, User_deleted_at = None, User_is_platform_admin = False\<rparr>"

definition sample_role :: Role where
  "sample_role = \<lparr>Role_id = 140, Role_product_id = 5, Role_tenant_id = Some 107, Role_name = ''clerk'',
     Role_description = None, Role_is_system = False\<rparr>"

text \<open>User 120 is bound to a role with \<open>users:*\<close>, inside tenant 108 only.\<close>

definition sample_rbac :: world where
  "sample_rbac = sample_world\<lparr>db := empty_db\<lparr>
     permissions := [\<lparr>Permission_id = 141, Permission_code = ''users:*'', Permission_description = None\<rparr>],
     roles := [sample_role],
     role_permissions := [\<lparr>RolePermission_id = 142, RolePermission_role_id = 140, RolePermission_permission_id = 141\<rparr>],
     user_roles := [\<lparr>UserRole_id = 143, UserRole_product_id = 5, UserRole_user_id = 120,
       UserRole_role_id = 140, UserRole_scope_tenant_id = Some 108\<rparr>]\<rparr>\<rparr>"

lemma sample_rbac_simps [simp]:
  "permissions (db sample_rbac) = [\<lparr>Permission_id = 141, Permission_code = ''users:*'', Permission_description = None\<rparr>]"
  "roles (db sample_rbac) = [sample_role]"
  "role_permissions (db sample_rbac) = [\<lparr>RolePermission_id = 142, RolePermission_role_id = 140, RolePermission_permission_id = 141\<rparr>]"
  "user_roles (db sample_rbac) = [\<lparr>UserRole_id = 143, UserRole_product_id = 5, UserRole_user_id = 120,
       UserRole_role_id = 140, UserRole_scope_tenant_id = Some 108\<rparr>]"
  by (simp_all add: sample_rbac_def empty_db_def)

theorem user_has_permission_iff_witness:
  "user_has_permission (sample_user 120 107) ''users:read'' (Some 108) sample_rbac = (Inr True, sample_rbac) \<and>
   user_has_permission (sample_user 120 107) ''users:read'' (Some 107) sample_rbac = (Inr False, sample_rbac)"
proof -
  have g: "grants (db sample_rbac) 120 b code \<longleftrightarrow> UserRole_user_id b = 120 \<and> UserRole_role_id b = 140 \<and> code = ''users:*''" for b code
    by (auto simp: grants_def sample_role_def)
  have c: "covers ''users:*'' ''users:read''"
    by (simp add: covers_def)
  show ?thesis
    by (simp add: user_has_permission_iff [of sample_rbac] g c sample_user_def)
qed

text \<open>C15: a permission a role is to keep makes the update of the role fail. With a list of codes
  that all exist, one of which the role already has, \<^verbatim>\<open>update_role\<close> is always answered
  409: the new row is inserted before the old one is deleted.\<close>

lemma add_permissions_clash:
  assumes "\<exists>i \<in> set ids. \<exists>rp \<in> set (role_permissions (db w)). RolePermission_role_id rp = r \<and> RolePermission_permission_id rp = i"
  shows "\<exists>w'. forS ids (add_role_permission r) w = (Inl IntegrityError, w')"
  using assms
proof (induction ids arbitrary: w)
  case Nil
  then show ?case by simp
next
  case (Cons i ids)
  let ?clash = "\<exists>rp \<in> set (role_permissions (db w)). RolePermission_role_id rp = r \<and> RolePermission_permission_id rp = i"
  show ?case
  proof (cases ?clash)
    case True
    then show ?thesis
      by (auto simp: add_role_permission_def svc_simps role_permission_clash_def)
  next
    case False
    let ?rp = "\<lparr>RolePermission_id = draws w (draw_no w), RolePermission_role_id = r, RolePermission_permission_id = i\<rparr>"
    let ?w = "w\<lparr>draw_no := Suc (draw_no w), db := role_permissions_update (\<lambda>rs. rs @ [?rp]) (db w)\<rparr>"
    have "add_role_permission r i w = (Inr (), ?w)"
      using False by (auto simp: add_role_permission_def svc_simps role_permission_clash_def)
    moreover have "\<exists>w'. forS ids (add_role_permission r) ?w = (Inl IntegrityError, w')"
      using Cons.prems False by (intro Cons.IH) auto
    ultimately show ?thesis by (simp add: svc_simps)
  qed
qed

lemma permission_ids_found:
  assumes "\<forall>c \<in> set cs. \<exists>p \<in> set (permissions (db w)). Permission_code p = c"
  shows "\<exists>ids. permission_ids cs w = (Inr ids, w) \<and>
    (\<forall>c \<in> set cs. \<exists>p. List.find (\<lambda>p. Permission_code p = c) (permissions (db w)) = Some p \<and> Permission_id p \<in> set ids)"
  using assms
proof (induction cs)
  case Nil
  then show ?case by (simp add: permission_ids_def svc_simps)
next
  case (Cons c cs)
  obtain ids where ids: "permission_ids cs w = (Inr ids, w)"
      "\<forall>c \<in> set cs. \<exists>p. List.find (\<lambda>p. Permission_code p = c) (permissions (db w)) = Some p \<and> Permission_id p \<in> set ids"
    using Cons by auto
  obtain p where "List.find (\<lambda>p. Permission_code p = c) (permissions (db w)) = Some p"
    using Cons.prems find_not_None [of "\<lambda>p. Permission_code p = c"] by auto
  then show ?case
    using ids by (auto simp: permission_ids_def svc_simps intro!: exI [of _ "Permission_id p # ids"])
qed

lemma permission_ids_all:
  assumes "\<forall>c \<in> set cs. \<exists>p \<in> set (permissions (db w)). Permission_code p = c"
  obtains ids where "permission_ids cs w = (Inr ids, w)"
    "\<And>c. c \<in> set cs \<Longrightarrow> \<exists>p. List.find (\<lambda>p. Permission_code p = c) (permissions (db w)) = Some p \<and> Permission_id p \<in> set ids"
  using permission_ids_found [OF assms] by blast

text \<open>What the flush of the role's own columns leaves alone.\<close>

lemma flush_role_frames: "frames (\<lambda>w. role_permissions (db w)) (flush_role role assign)"
  unfolding flush_role_def by (intro frames_intros frames_writes) simp_all

lemma flush_role_outcome:
  "flush_role role assign w = (Inl IntegrityError, w) \<or>
   (\<exists>w'. flush_role role assign w = (Inr (), w') \<and> role_permissions (db w') = role_permissions (db w))"
  by (auto simp: flush_role_def svc_simps)

text \<open>A permission that a role is to keep makes the update of the role fail. With a list of
  codes that all exist, one of which the role already has, \<^verbatim>\<open>update_role\<close> raises
  the unique violation (409): the new row is inserted before the old one is deleted.\<close>

lemma update_role_overlap_fails:
  assumes "List.find (\<lambda>r. Role_id r = role_id \<and> Role_product_id r = User_product_id user) (roles (db w)) = Some role"
    and "\<not> Role_is_system role"
    and codes: "\<forall>c \<in> set cs. \<exists>p \<in> set (permissions (db w)). Permission_code p = c"
    and "c \<in> set cs"
    and p: "List.find (\<lambda>p. Permission_code p = c) (permissions (db w)) = Some p"
    and rp: "rp \<in> set (role_permissions (db w))" "RolePermission_role_id rp = Role_id role"
      "RolePermission_permission_id rp = Permission_id p"
  shows "\<exists>w'. update_role user role_id name description (Given cs) w = (Inl IntegrityError, w')"
proof -
  obtain ids where ids: "permission_ids cs w = (Inr ids, w)" "Permission_id p \<in> set ids"
    using permission_ids_all [OF codes] assms(4) p by (metis option.inject)
  have clash: "\<exists>w''. forS ids (add_role_permission (Role_id role)) w' = (Inl IntegrityError, w'')"
    if "role_permissions (db w') = role_permissions (db w)" for w'
    using that ids(2) rp by (intro add_permissions_clash) auto
  have "\<exists>w'. bindS (flush_role role assign) (\<lambda>_. bindS (forS ids (add_role_permission (Role_id role))) g) w =
      (Inl IntegrityError, w')" for assign g
    using flush_role_outcome [of role assign w] clash by (fastforce simp: bindS_apply)
  note fails = this
  show ?thesis
    unfolding update_role_def audit_action_def
    by (simp add: bindS_assoc bindS_reads bindS_step [where m = "permission_ids cs", OF ids(1)]
        assms(1,2) Let_def) (rule fails)
qed

lemma update_role_overlap_fails_witness:
  "\<exists>w'. update_role (sample_user 120 107) 140 Unset Unset (Given [''users:*'']) sample_rbac = (Inl IntegrityError, w')"
  by (rule update_role_overlap_fails [where role = sample_role and c = "''users:*''"
        and p = "\<lparr>Permission_id = 141, Permission_code = ''users:*'', Permission_description = None\<rparr>"
        and rp = "\<lparr>RolePermission_id = 142, RolePermission_role_id = 140, RolePermission_permission_id = 141\<rparr>"])
    (simp_all add: sample_user_def sample_role_def)

section \<open>Seeding twice is seeding once\<close>

lemma role_templates_names: "distinct (map fst (role_templates slug))"
proof (cases "map_of PRODUCT_SYSTEM_ROLES (case slug of None \<Rightarrow> [] | Some s \<Rightarrow> s)")
  case None
  then show ?thesis by (simp add: role_templates_def SYSTEM_ROLES_def)
next
  case (Some d)
  then have "d \<in> snd ` set PRODUCT_SYSTEM_ROLES"
    by (metis map_of_SomeD image_eqI snd_conv)
  then show ?thesis
    using Some by (auto simp: role_templates_def SYSTEM_ROLES_def PRODUCT_SYSTEM_ROLES_def)
qed

definition has_permission :: "world \<Rightarrow> uuid \<Rightarrow> uuid \<Rightarrow> bool" where
  "has_permission w r i \<longleftrightarrow> (\<exists>rp \<in> set (role_permissions (db w)).
     RolePermission_role_id rp = r \<and> RolePermission_permission_id rp = i)"

definition system_role :: "world \<Rightarrow> uuid \<Rightarrow> string \<Rightarrow> Role option" where
  "system_role w pid name = List.find (\<lambda>r. Role_name r = name)
     (rev (filter (\<lambda>r. Role_product_id r = pid \<and> Role_tenant_id r = None) (roles (db w))))"

definition template_done :: "Permission list \<Rightarrow> uuid \<Rightarrow> world \<Rightarrow> string \<times> string list \<Rightarrow> bool" where
  "template_done cat pid w = (\<lambda>(name, perms). \<exists>r. system_role w pid name = Some r \<and>
     (\<forall>code \<in> set perms. \<exists>i. catalog_id cat code = Inr i \<and> has_permission w (Role_id r) i))"

text \<open>Adding a permission to a role, when it succeeds.\<close>

lemma add_permissions_done:
  assumes "forS perms (\<lambda>code.
       bindS (liftE (catalog_id cat code)) (\<lambda>pid.
       if pid \<notin> set current then add_role_permission r pid else ret ())) w = (Inr (), w')"
    and "\<forall>i \<in> set current. has_permission w r i"
  shows "(\<forall>code \<in> set perms. \<exists>i. catalog_id cat code = Inr i \<and> has_permission w' r i) \<and>
    (\<forall>r i. has_permission w r i \<longrightarrow> has_permission w' r i) \<and>
    roles (db w') = roles (db w) \<and> permissions (db w') = permissions (db w) \<and> products (db w') = products (db w)"
  using assms
proof (induction perms arbitrary: w)
  case Nil
  then show ?case by (simp add: svc_simps)
next
  case (Cons code perms)
  obtain i where i: "catalog_id cat code = Inr i"
    using Cons.prems(1) by (auto simp: svc_simps split: sum.splits)
  define m where "m = (if i \<notin> set current then add_role_permission r i else ret ())"
  obtain v where v: "m w = (Inr (), v)" and rest: "forS perms (\<lambda>code.
       bindS (liftE (catalog_id cat code)) (\<lambda>pid.
       if pid \<notin> set current then add_role_permission r pid else ret ())) v = (Inr (), w')"
    using Cons.prems(1) i unfolding m_def forS.simps bindS_Inr_iff liftE_apply by auto
  have step: "has_permission v r i" "\<forall>r i. has_permission w r i \<longrightarrow> has_permission v r i"
      "roles (db v) = roles (db w)" "permissions (db v) = permissions (db w)" "products (db v) = products (db w)"
    using v Cons.prems(2)
    by (auto simp: m_def has_permission_def add_role_permission_def svc_simps split: if_splits)
  show ?case
    using Cons.IH [OF rest] Cons.prems(2) step i by auto
qed

lemma find_other_new:
  "List.find (\<lambda>r. Role_name r = n') (rev (filter Q (rs @ [x]))) =
     (if Q x \<and> Role_name x = n' then Some x else List.find (\<lambda>r. Role_name r = n') (rev (filter Q rs)))"
  by simp

lemma ensure_template_done:
  assumes "ensure_template cat pid ex (name, perms) w = (Inr (), w')"
    and "List.find (\<lambda>r. Role_name r = name) (rev ex) = system_role w pid name"
  shows "template_done cat pid w' (name, perms) \<and>
    (\<forall>n. n \<noteq> name \<longrightarrow> system_role w' pid n = system_role w pid n) \<and>
    (\<forall>n r. system_role w pid n = Some r \<longrightarrow> system_role w' pid n = Some r) \<and>
    (\<forall>r i. has_permission w r i \<longrightarrow> has_permission w' r i) \<and>
    permissions (db w') = permissions (db w) \<and> products (db w') = products (db w)"
proof (cases "system_role w pid name")
  case (Some role)
  have "forS perms (\<lambda>code.
       bindS (liftE (catalog_id cat code)) (\<lambda>i.
       if i \<notin> set (map RolePermission_permission_id (filter (\<lambda>rp. RolePermission_role_id rp = Role_id role) (role_permissions (db w))))
       then add_role_permission (Role_id role) i else ret ())) w = (Inr (), w')"
    using assms Some by (simp add: ensure_template_def bindS_reads Let_def bindS_step [OF ret_apply])
  note filled = add_permissions_done [OF this]
  have held: "\<forall>i \<in> set (map RolePermission_permission_id (filter (\<lambda>rp. RolePermission_role_id rp = Role_id role)
      (role_permissions (db w)))). has_permission w (Role_id role) i"
    by (auto simp: has_permission_def)
  show ?thesis
    using Some filled [OF held] by (auto simp: template_done_def system_role_def)
next
  case None
  let ?i = "draws w (draw_no w)"
  let ?role = "\<lparr>Role_id = ?i, Role_product_id = pid, Role_tenant_id = None, Role_name = name,
                   Role_description = Some (''System role: '' @ name), Role_is_system = True\<rparr>"
  let ?v = "w\<lparr>draw_no := Suc (draw_no w), db := roles_update (\<lambda>rs. rs @ [?role]) (db w)\<rparr>"
  have "bindS fresh (\<lambda>i. bindS (insert_row roles roles_update role_clash
      \<lparr>Role_id = i, Role_product_id = pid, Role_tenant_id = None, Role_name = name,
       Role_description = Some (''System role: '' @ name), Role_is_system = True\<rparr>) (\<lambda>_. ret i)) w = (Inr ?i, ?v)"
    by (auto simp: svc_simps role_clash_def)
  then have "forS perms (\<lambda>code.
       bindS (liftE (catalog_id cat code)) (\<lambda>i.
       if i \<notin> set (map RolePermission_permission_id (filter (\<lambda>rp. RolePermission_role_id rp = ?i) (role_permissions (db ?v))))
       then add_role_permission ?i i else ret ())) ?v = (Inr (), w')"
    using assms None by (simp add: ensure_template_def bindS_reads Let_def bindS_step)
  note filled = add_permissions_done [OF this]
  have held: "\<forall>i \<in> set (map RolePermission_permission_id (filter (\<lambda>rp. RolePermission_role_id rp = ?i)
      (role_permissions (db ?v)))). has_permission ?v ?i i"
    by (auto simp: has_permission_def)
  have kept: "has_permission ?v r i = has_permission w r i" for r i
    by (simp add: has_permission_def)
  show ?thesis
    using None filled [OF held] unfolding kept
    by (auto simp: template_done_def system_role_def)
qed

lemma template_done_mono:
  "template_done cat pid w t \<Longrightarrow> (\<And>n r. system_role w pid n = Some r \<Longrightarrow> system_role w' pid n = Some r) \<Longrightarrow>
   (\<And>r i. has_permission w r i \<Longrightarrow> has_permission w' r i) \<Longrightarrow> template_done cat pid w' t"
  by (cases t) (fastforce simp: template_done_def)

lemma ensure_templates_done:
  assumes "forS ts (ensure_template cat pid ex) w = (Inr (), w')" and "distinct (map fst ts)"
    and "\<forall>n \<in> fst ` set ts. List.find (\<lambda>r. Role_name r = n) (rev ex) = system_role w pid n"
  shows "(\<forall>t \<in> set ts. template_done cat pid w' t) \<and>
    (\<forall>n r. system_role w pid n = Some r \<longrightarrow> system_role w' pid n = Some r) \<and>
    (\<forall>r i. has_permission w r i \<longrightarrow> has_permission w' r i) \<and>
    permissions (db w') = permissions (db w) \<and> products (db w') = products (db w)"
  using assms
proof (induction ts arbitrary: w)
  case Nil
  then show ?case by (simp add: svc_simps)
next
  case (Cons t ts)
  obtain name perms where t: "t = (name, perms)" by (cases t)
  obtain v where v: "ensure_template cat pid ex (name, perms) w = (Inr (), v)"
      and rest: "forS ts (ensure_template cat pid ex) v = (Inr (), w')"
    using Cons.prems(1) unfolding forS.simps bindS_Inr_iff t by auto
  have "List.find (\<lambda>r. Role_name r = name) (rev ex) = system_role w pid name"
    using Cons.prems(3) t by simp
  note head = ensure_template_done [OF v this]
  have "\<forall>n \<in> fst ` set ts. List.find (\<lambda>r. Role_name r = n) (rev ex) = system_role v pid n"
  proof
    fix n assume n: "n \<in> fst ` set ts"
    then have "n \<noteq> name" using Cons.prems(2) t by auto
    moreover have "List.find (\<lambda>r. Role_name r = n) (rev ex) = system_role w pid n"
      using Cons.prems(3) n by auto
    ultimately show "List.find (\<lambda>r. Role_name r = n) (rev ex) = system_role v pid n"
      using head by simp
  qed
  with Cons.IH [OF rest] Cons.prems(2) have tail: "(\<forall>t \<in> set ts. template_done cat pid w' t) \<and>
    (\<forall>n r. system_role v pid n = Some r \<longrightarrow> system_role w' pid n = Some r) \<and>
    (\<forall>r i. has_permission v r i \<longrightarrow> has_permission w' r i) \<and>
    permissions (db w') = permissions (db v) \<and> products (db w') = products (db v)"
    by simp
  have "template_done cat pid w' t"
    by (rule template_done_mono [of cat pid v]) (use head tail t in simp_all)
  then show ?case using head tail by auto
qed

text \<open>The catalogue, once it is complete.\<close>

definition catalog_complete :: "world \<Rightarrow> bool" where
  "catalog_complete w \<longleftrightarrow> fst ` set SYSTEM_PERMISSIONS \<subseteq> Permission_code ` set (permissions (db w))"

lemma add_permissions_catalog:
  assumes "mapS ps add_permission w = (Inr added, w')"
  shows "permissions (db w') = permissions (db w) @ added \<and> Permission_code ` set added = fst ` set ps \<and>
     roles (db w') = roles (db w) \<and> role_permissions (db w') = role_permissions (db w) \<and> products (db w') = products (db w)"
  using assms
proof (induction ps arbitrary: w added)
  case Nil
  then show ?case by (simp add: svc_simps)
next
  case (Cons p ps)
  obtain code desc where p: "p = (code, desc)" by (cases p)
  let ?p = "\<lparr>Permission_id = draws w (draw_no w), Permission_code = code, Permission_description = Some desc\<rparr>"
  let ?v = "w\<lparr>draw_no := Suc (draw_no w), db := permissions_update (\<lambda>rs. rs @ [?p]) (db w)\<rparr>"
  obtain rest where rest: "added = ?p # rest" "mapS ps add_permission ?v = (Inr rest, w')"
    using Cons.prems unfolding mapS.simps bindS_Inr_iff p
    by (auto simp: add_permission_def bindS_Inr_iff Let_def fresh_apply insert_row_apply ret_apply split: if_splits)
  show ?case
    using Cons.IH [OF rest(2)] rest(1) p by auto
qed

lemma ensure_permission_catalog_done:
  assumes "ensure_permission_catalog w = (Inr cat, w')"
  shows "cat = permissions (db w') \<and> catalog_complete w' \<and> roles (db w') = roles (db w) \<and>
    role_permissions (db w') = role_permissions (db w) \<and> products (db w') = products (db w)"
proof -
  let ?miss = "filter (\<lambda>(code, _). code \<notin> Permission_code ` set (permissions (db w))) SYSTEM_PERMISSIONS"
  obtain added where a: "mapS ?miss add_permission w = (Inr added, w')"
      and cat: "cat = permissions (db w) @ added"
    using assms unfolding ensure_permission_catalog_def bindS_reads bindS_Inr_iff
    by (auto simp: ret_apply)
  have "fst ` set SYSTEM_PERMISSIONS \<subseteq> Permission_code ` set (permissions (db w)) \<union> fst ` set ?miss"
    by force
  then show ?thesis
    using add_permissions_catalog [OF a] cat by (simp add: catalog_complete_def image_Un)
qed

text \<open>A complete state is left as it is.\<close>

lemma ensure_template_noop:
  assumes "template_done cat pid w (name, perms)"
    and "List.find (\<lambda>r. Role_name r = name) (rev ex) = system_role w pid name"
  shows "ensure_template cat pid ex (name, perms) w = (Inr (), w)"
proof -
  obtain r where r: "system_role w pid name = Some r"
      "\<forall>code \<in> set perms. \<exists>i. catalog_id cat code = Inr i \<and> has_permission w (Role_id r) i"
    using assms(1) by (auto simp: template_done_def)
  have "forS ps (\<lambda>code.
       bindS (liftE (catalog_id cat code)) (\<lambda>i.
       if i \<notin> set (map RolePermission_permission_id (filter (\<lambda>rp. RolePermission_role_id rp = Role_id r) (role_permissions (db w))))
       then add_role_permission (Role_id r) i else ret ())) w = (Inr (), w)" if "set ps \<subseteq> set perms" for ps
    using that
  proof (induction ps)
    case Nil
    then show ?case by (simp add: svc_simps)
  next
    case (Cons code ps)
    obtain i where i: "catalog_id cat code = Inr i" "has_permission w (Role_id r) i"
      using r(2) Cons.prems by auto
    have "i \<in> set (map RolePermission_permission_id (filter (\<lambda>rp. RolePermission_role_id rp = Role_id r) (role_permissions (db w))))"
      using i(2) by (auto simp: has_permission_def)
    then have "bindS (liftE (catalog_id cat code)) (\<lambda>i.
       if i \<notin> set (map RolePermission_permission_id (filter (\<lambda>rp. RolePermission_role_id rp = Role_id r) (role_permissions (db w))))
       then add_role_permission (Role_id r) i else ret ()) w = (Inr (), w)"
      using i(1) by (simp add: svc_simps)
    then show ?case
      using Cons by (simp add: bindS_step del: set_map set_filter)
  qed
  then show ?thesis
    using assms(2) r(1) by (simp add: ensure_template_def bindS_reads Let_def bindS_step [OF ret_apply])
qed

lemma role_templates_source:
  assumes "(name, perms) \<in> set (role_templates slug)"
  shows "(name, perms) \<in> set SYSTEM_ROLES \<or> (\<exists>s d. (s, d) \<in> set PRODUCT_SYSTEM_ROLES \<and> (name, perms) \<in> set d)"
proof -
  let ?extra = "case map_of PRODUCT_SYSTEM_ROLES (case slug of None \<Rightarrow> [] | Some s \<Rightarrow> s) of None \<Rightarrow> [] | Some d \<Rightarrow> d"
  have "(name, perms) \<in> set SYSTEM_ROLES \<or> (name, perms) \<in> set ?extra"
    using assms by (fastforce simp: role_templates_def Let_def dest: map_of_SomeD split: option.splits)
  moreover have "(name, perms) \<in> set ?extra \<Longrightarrow> \<exists>s d. (s, d) \<in> set PRODUCT_SYSTEM_ROLES \<and> (name, perms) \<in> set d"
    by (cases "map_of PRODUCT_SYSTEM_ROLES (case slug of None \<Rightarrow> [] | Some s \<Rightarrow> s)") (auto dest!: map_of_SomeD)
  ultimately show ?thesis by blast
qed

lemma system_templates:
  "\<forall>(n, ps) \<in> set SYSTEM_ROLES. distinct ps" "\<forall>(n, ps) \<in> set SYSTEM_ROLES. set ps \<subseteq> fst ` set SYSTEM_PERMISSIONS"
  by (simp_all add: SYSTEM_ROLES_def SYSTEM_PERMISSIONS_def)

lemma product_templates:
  "\<forall>(s, d) \<in> set PRODUCT_SYSTEM_ROLES. \<forall>(n, ps) \<in> set d. distinct ps"
  "\<forall>(s, d) \<in> set PRODUCT_SYSTEM_ROLES. \<forall>(n, ps) \<in> set d. set ps \<subseteq> fst ` set SYSTEM_PERMISSIONS"
  by (simp_all add: PRODUCT_SYSTEM_ROLES_def SYSTEM_PERMISSIONS_def)

text \<open>Every code of a template is one of the catalogue.\<close>

lemma template_codes_known:
  "(name, perms) \<in> set (role_templates slug) \<Longrightarrow> c \<in> set perms \<Longrightarrow> c \<in> fst ` set SYSTEM_PERMISSIONS"
  using role_templates_source [of name perms slug] system_templates(2) product_templates(2) by blast

lemma role_template_perms_distinct: "(name, perms) \<in> set (role_templates slug) \<Longrightarrow> distinct perms"
  using role_templates_source [of name perms slug] system_templates(1) product_templates(1) by blast

lemma catalog_id_found:
  assumes "catalog_complete w" and "code \<in> fst ` set SYSTEM_PERMISSIONS"
  shows "\<exists>i. catalog_id (permissions (db w)) code = Inr i"
proof -
  have "\<exists>p \<in> set (rev (permissions (db w))). Permission_code p = code"
    using assms by (force simp: catalog_complete_def)
  then show ?thesis
    using find_not_None [of "\<lambda>p. Permission_code p = code" "rev (permissions (db w))"]
    by (auto simp: catalog_id_def)
qed

definition seeded :: "uuid \<Rightarrow> world \<Rightarrow> bool" where
  "seeded pid w \<longleftrightarrow> catalog_complete w \<and>
     (\<forall>t \<in> set (role_templates (map_option Product_slug (List.find (\<lambda>p. Product_id p = pid) (products (db w))))).
        template_done (permissions (db w)) pid w t)"

lemma ensure_system_roles_seeds:
  assumes "ensure_system_roles_for_product pid w = (Inr (), w')"
  shows "seeded pid w'"
proof -
  obtain cat v where v: "ensure_permission_catalog w = (Inr cat, v)"
      and rest: "forS (role_templates (map_option Product_slug (List.find (\<lambda>p. Product_id p = pid) (products (db v)))))
        (ensure_template cat pid (filter (\<lambda>r. Role_product_id r = pid \<and> Role_tenant_id r = None) (roles (db v)))) v = (Inr (), w')"
    using assms unfolding ensure_system_roles_for_product_def bindS_Inr_iff by (auto simp: scalar_apply scalars_apply)
  have "\<forall>t \<in> set (role_templates (map_option Product_slug (List.find (\<lambda>p. Product_id p = pid) (products (db v))))).
      template_done cat pid w' t" "permissions (db w') = permissions (db v)" "products (db w') = products (db v)"
    using ensure_templates_done [OF rest role_templates_names] by (auto simp: system_role_def)
  then show ?thesis
    using ensure_permission_catalog_done [OF v] by (simp add: seeded_def catalog_complete_def)
qed

lemma ensure_system_roles_noop:
  assumes "seeded pid w"
  shows "ensure_system_roles_for_product pid w = (Inr (), w)"
proof -
  let ?ts = "role_templates (map_option Product_slug (List.find (\<lambda>p. Product_id p = pid) (products (db w))))"
  let ?ex = "filter (\<lambda>r. Role_product_id r = pid \<and> Role_tenant_id r = None) (roles (db w))"
  have "filter (\<lambda>(code, _). code \<notin> Permission_code ` set (permissions (db w))) SYSTEM_PERMISSIONS = []"
    using assms by (auto simp: seeded_def catalog_complete_def filter_empty_conv)
  then have cat: "ensure_permission_catalog w = (Inr (permissions (db w)), w)"
    by (simp add: ensure_permission_catalog_def bindS_reads svc_simps)
  have "forS ts (ensure_template (permissions (db w)) pid ?ex) w = (Inr (), w)" if "set ts \<subseteq> set ?ts" for ts
    using that
  proof (induction ts)
    case Nil
    then show ?case by (simp add: svc_simps)
  next
    case (Cons t ts)
    obtain name perms where t: "t = (name, perms)" by (cases t)
    have "template_done (permissions (db w)) pid w (name, perms)"
      using assms Cons.prems t by (auto simp: seeded_def)
    from ensure_template_noop [OF this, of ?ex] Cons show ?case
      by (simp add: t bindS_step system_role_def)
  qed
  then show ?thesis
    by (simp add: ensure_system_roles_for_product_def bindS_step [where m = ensure_permission_catalog, OF cat] bindS_reads)
qed

text \<open>The seeding always returns: no insert of it collides.\<close>

lemma add_permissions_returns:
  assumes "distinct perms" and "inj_on (catalog_id cat) (set perms)"
    and "\<forall>code \<in> set perms. \<exists>i. catalog_id cat code = Inr i \<and> (has_permission w r i \<longrightarrow> i \<in> set current)"
  shows "\<exists>w'. forS perms (\<lambda>code.
       bindS (liftE (catalog_id cat code)) (\<lambda>pid.
       if pid \<notin> set current then add_role_permission r pid else ret ())) w = (Inr (), w')"
  using assms
proof (induction perms arbitrary: w)
  case Nil
  then show ?case by (simp add: svc_simps)
next
  case (Cons code perms)
  let ?step = "\<lambda>code. bindS (liftE (catalog_id cat code)) (\<lambda>pid.
       if pid \<notin> set current then add_role_permission r pid else ret ())"
  obtain i where i: "catalog_id cat code = Inr i" "has_permission w r i \<longrightarrow> i \<in> set current"
    using Cons.prems(3) by auto
  obtain v where v: "?step code w = (Inr (), v)"
      "\<forall>j. has_permission v r j \<longrightarrow> has_permission w r j \<or> j = i"
    using i by (cases "i \<in> set current")
      (auto simp: svc_simps add_role_permission_def has_permission_def role_permission_clash_def)
  have "\<exists>w'. forS perms ?step v = (Inr (), w')"
  proof (rule Cons.IH)
    show "\<forall>code \<in> set perms. \<exists>i. catalog_id cat code = Inr i \<and> (has_permission v r i \<longrightarrow> i \<in> set current)"
    proof
      fix c assume c: "c \<in> set perms"
      then obtain j where j: "catalog_id cat c = Inr j" "has_permission w r j \<longrightarrow> j \<in> set current"
        using Cons.prems(3) by auto
      have "j \<noteq> i"
        using Cons.prems(1,2) c i(1) j(1) by (auto simp: inj_on_def)
      then show "\<exists>i. catalog_id cat c = Inr i \<and> (has_permission v r i \<longrightarrow> i \<in> set current)"
        using j v(2) by auto
    qed
  qed (use Cons.prems in \<open>simp_all add: inj_on_def\<close>)
  then show ?case using v(1) by (simp add: bindS_step)
qed

text \<open>The identifiers of the catalogue are those of random draws, without repetition.\<close>

definition permission_ids_ok :: "world \<Rightarrow> bool" where
  "permission_ids_ok w \<longleftrightarrow> fresh_ids w \<and> distinct (map Permission_id (permissions (db w))) \<and>
     Permission_id ` set (permissions (db w)) \<subseteq> drawn w"

lemma catalog_id_inj:
  assumes "distinct (map Permission_id cat)" and "\<forall>c \<in> A. \<exists>i. catalog_id cat c = Inr i"
  shows "inj_on (catalog_id cat) A"
proof (rule inj_onI)
  fix c d assume cd: "c \<in> A" "d \<in> A" "catalog_id cat c = catalog_id cat d"
  then obtain p q where p: "List.find (\<lambda>p. Permission_code p = c) (rev cat) = Some p"
      "List.find (\<lambda>p. Permission_code p = d) (rev cat) = Some q" "Permission_id p = Permission_id q"
    using assms(2) by (fastforce simp: catalog_id_def split: option.splits)
  then have "p = q"
    using assms(1) find_SomeD [OF p(1)] find_SomeD [OF p(2)] distinct_map_eq by fastforce
  then show "c = d"
    using find_SomeD [OF p(1)] find_SomeD [OF p(2)] by simp
qed

lemma add_catalog_returns:
  assumes "permission_ids_ok w" and "distinct (map fst ps)"
    and "\<forall>c \<in> fst ` set ps. c \<notin> Permission_code ` set (permissions (db w))"
  shows "\<exists>added w'. mapS ps add_permission w = (Inr added, w') \<and>
     permission_ids_ok w'"
  using assms
proof (induction ps arbitrary: w)
  case Nil
  then show ?case by (simp add: svc_simps)
next
  case (Cons p ps)
  obtain code desc where p: "p = (code, desc)" by (cases p)
  let ?p = "\<lparr>Permission_id = draws w (draw_no w), Permission_code = code, Permission_description = Some desc\<rparr>"
  let ?v = "w\<lparr>draw_no := Suc (draw_no w), db := permissions_update (\<lambda>rs. rs @ [?p]) (db w)\<rparr>"
  have "permission_ids_ok ?v"
    using Cons.prems(1) fresh_not_drawn [of w]
    by (auto simp: permission_ids_ok_def drawn_def fresh_ids_def lessThan_Suc)
  moreover have "\<forall>c \<in> fst ` set ps. c \<notin> Permission_code ` set (permissions (db ?v))"
    using Cons.prems(2,3) p by auto
  ultimately obtain added w' where rest: "mapS ps add_permission ?v = (Inr added, w')"
      "permission_ids_ok w'"
    using Cons.IH [of ?v] Cons.prems(2) by auto
  have "add_permission p w = (Inr ?p, ?v)"
    using Cons.prems(3) p by (auto simp: add_permission_def svc_simps Let_def permission_clash_def)
  then show ?case
    using rest by (auto simp: bindS_step ret_apply)
qed

lemma ensure_template_returns:
  assumes "distinct perms" and "distinct (map Permission_id cat)"
    and "\<forall>code \<in> set perms. \<exists>i. catalog_id cat code = Inr i"
  shows "\<exists>w'. ensure_template cat pid ex (name, perms) w = (Inr (), w')"
proof -
  have adds: "\<exists>w'. forS perms (\<lambda>code. bindS (liftE (catalog_id cat code)) (\<lambda>i.
       if i \<notin> set (map RolePermission_permission_id (filter (\<lambda>rp. RolePermission_role_id rp = r) (role_permissions (db v))))
       then add_role_permission r i else ret ())) v = (Inr (), w')" for r v
    using assms by (intro add_permissions_returns catalog_id_inj) (simp_all, force simp: has_permission_def)
  show ?thesis
  proof (cases "List.find (\<lambda>r. Role_name r = name) (rev ex)")
    case None
    have "\<exists>i v. bindS fresh (\<lambda>i. bindS (insert_row roles roles_update role_clash
      \<lparr>Role_id = i, Role_product_id = pid, Role_tenant_id = None, Role_name = name,
       Role_description = Some (''System role: '' @ name), Role_is_system = True\<rparr>) (\<lambda>_. ret i)) w = (Inr i, v)"
      by (auto simp: svc_simps role_clash_def)
    then show ?thesis
      using None adds by (auto simp: ensure_template_def bindS_step bindS_reads Let_def simp del: set_map set_filter)
  next
    case (Some r)
    then show ?thesis
      using adds by (simp add: ensure_template_def bindS_step [OF ret_apply] bindS_reads Let_def del: set_map set_filter)
  qed
qed

lemma forS_returns:
  "(\<And>x w. x \<in> set xs \<Longrightarrow> \<exists>w'. f x w = (Inr (), w')) \<Longrightarrow> \<exists>w'. forS xs f w = (Inr (), w')"
proof (induction xs arbitrary: w)
  case Nil
  then show ?case by (simp add: svc_simps)
next
  case (Cons x xs)
  obtain v where "f x w = (Inr (), v)" using Cons.prems by fastforce
  then show ?case using Cons by (simp add: bindS_step)
qed

lemma ensure_system_roles_returns:
  assumes "permission_ids_ok w"
  shows "\<exists>w'. ensure_system_roles_for_product pid w = (Inr (), w')"
proof -
  have "distinct (map fst (filter (\<lambda>(code, _). code \<notin> Permission_code ` set (permissions (db w))) SYSTEM_PERMISSIONS))"
    by (rule distinct_map_filter) (simp add: SYSTEM_PERMISSIONS_def)
  then obtain cat v where v: "ensure_permission_catalog w = (Inr cat, v)" and ok: "permission_ids_ok v"
    using add_catalog_returns [OF assms, of "filter (\<lambda>(code, _). code \<notin> Permission_code ` set (permissions (db w))) SYSTEM_PERMISSIONS"]
    by (fastforce simp: ensure_permission_catalog_def bindS_reads bindS_step ret_apply)
  have cat: "cat = permissions (db v)" "catalog_complete v"
    using ensure_permission_catalog_done [OF v] by simp_all
  have "\<exists>w'. ensure_template cat pid ex t u = (Inr (), w')" if t: "t \<in> set (role_templates slug)" for t slug ex u
  proof -
    obtain name perms where [simp]: "t = (name, perms)" by (cases t)
    show ?thesis
    proof (simp, rule ensure_template_returns)
      show "distinct perms" using t role_template_perms_distinct [of name perms slug] by simp
      show "distinct (map Permission_id cat)" using ok cat(1) by (simp add: permission_ids_ok_def)
      show "\<forall>code \<in> set perms. \<exists>i. catalog_id cat code = Inr i"
        using catalog_id_found [OF cat(2) template_codes_known] t cat(1) by auto
    qed
  qed
  then have "\<exists>w'. forS (role_templates slug) (ensure_template cat pid ex) v = (Inr (), w')" for slug ex
    by (rule forS_returns)
  then show ?thesis
    by (simp add: ensure_system_roles_for_product_def bindS_step [where m = ensure_permission_catalog, OF v] bindS_reads)
qed

text \<open>C8: the product bootstrap settles. When permission identifiers come from random draws
  without repetition, the seeding always returns; one run leaves the whole permission
  catalogue, every role template of the product's slug as a system role, and for each of them
  every permission of the template; from there, running it again (as every start of the
  service does) returns and changes nothing at all.\<close>

theorem ensure_system_roles_settles:
  assumes "permission_ids_ok w"
  shows "\<exists>w'. ensure_system_roles_for_product pid w = (Inr (), w') \<and> seeded pid w' \<and>
     ensure_system_roles_for_product pid w' = (Inr (), w')"
proof -
  obtain w' where w': "ensure_system_roles_for_product pid w = (Inr (), w')"
    using ensure_system_roles_returns [OF assms] by blast
  show ?thesis
    using w' ensure_system_roles_seeds [OF w'] ensure_system_roles_noop [OF ensure_system_roles_seeds [OF w']]
    by blast
qed

theorem ensure_system_roles_settles_witness:
  "\<exists>w'. ensure_system_roles_for_product 5 sample_world = (Inr (), w') \<and> seeded 5 w' \<and>
     ensure_system_roles_for_product 5 w' = (Inr (), w')"
  by (rule ensure_system_roles_settles) (simp add: permission_ids_ok_def sample_world_def empty_db_def fresh_ids_def NIL_def)

end
