(* ===== verification/Products.thy ===== *)
theory Products
  imports Rbac PlanCatalog
begin

text \<open>
  Products: \<^verbatim>\<open>app/services/product.py\<close> with its slug cache in Redis, and the
  platform-admin routes of \<^verbatim>\<open>app/api/v1/admin.py\<close>. A failing Redis call is logged
  and passed over, so Redis is up or down for a whole operation. An entry of the cache may
  expire between operations (after 300 seconds): a step of the environment that drops it.
\<close>

section \<open>Lookup and creation\<close>

definition product_clash :: "Product \<Rightarrow> Product \<Rightarrow> bool" where
  "product_clash x y \<longleftrightarrow> Product_slug x = Product_slug y"

definition list_products :: "Product list service" where
  "list_products = scalars products (\<lambda>p. Product_deleted_at p = None)"

definition get_by_slug :: "string \<Rightarrow> Product option service" where
  "get_by_slug slug = scalar products (\<lambda>p. Product_slug p = slug \<and> Product_deleted_at p = None)"

definition product_get_or_404 :: "uuid \<Rightarrow> Product service" where
  "product_get_or_404 product_id =
     bindS (scalar products (\<lambda>p. Product_id p = product_id)) (\<lambda>p.
     case p of
       None \<Rightarrow> raise (NotFound ''product not found'')
     | Some p \<Rightarrow> if Product_deleted_at p \<noteq> None then raise (NotFound ''product not found'') else ret p)"

definition create_product :: "string \<Rightarrow> string \<Rightarrow> string option \<Rightarrow> dict \<Rightarrow> Product service" where
  "create_product name slug description setts =
     bindS (get_by_slug slug) (\<lambda>old.
     if old \<noteq> None then raise (Conflict ''product slug already exists'')
     else
     bindS fresh (\<lambda>i.
     let product = \<lparr>Product_id = i, Product_name = name, Product_slug = slug,
           Product_description = description, Product_status = ProductActive, Product_is_active = True,
           Product_settings = setts, Product_deleted_at = None\<rparr>
     in bindS (insert_row products products_update product_clash product) (\<lambda>_. ret product)))"


section \<open>The slug cache\<close>

definition resolve_slug_to_id :: "string \<Rightarrow> (uuid \<times> ProductStatus) option service" where
  "resolve_slug_to_id slug =
     bindS (gets (\<lambda>w. if redis_up w then map_of (slug_cache w) slug else None)) (\<lambda>cached.
     case cached of
       Some entry \<Rightarrow> ret (Some entry)
     | None \<Rightarrow>
     bindS (get_by_slug slug) (\<lambda>product.
     case product of
       None \<Rightarrow> ret None
     | Some p \<Rightarrow>
     let entry = (Product_id p, Product_status p)
     in bindS (modify (\<lambda>w. if redis_up w then w\<lparr>slug_cache := (slug, entry) # slug_cache w\<rparr> else w)) (\<lambda>_.
        ret (Some entry))))"

definition invalidate_slug_cache :: "string \<Rightarrow> unit service" where
  "invalidate_slug_cache slug =
     modify (\<lambda>w. if redis_up w then w\<lparr>slug_cache := filter (\<lambda>(s, _). s \<noteq> slug) (slug_cache w)\<rparr> else w)"


section \<open>Platform-admin routes\<close>

text \<open>\<^verbatim>\<open>d[k] = v\<close>: in place, or at the end.\<close>

fun dict_set :: "dict \<Rightarrow> string \<Rightarrow> json \<Rightarrow> dict" where
  "dict_set [] k v = [(k, v)]"
| "dict_set ((k', v') # d) k v = (if k' = k then (k, v) # d else (k', v') # dict_set d k v)"

definition dict_union :: "dict \<Rightarrow> dict \<Rightarrow> dict" where
  "dict_union d e = foldl (\<lambda>out (k, v). dict_set out k v) d e"

definition merge_key :: "dict \<Rightarrow> string \<Rightarrow> json \<Rightarrow> json" where
  "merge_key out k v =
     (case (v, map_of out k) of (JObj new, Some (JObj old)) \<Rightarrow> JObj (dict_union old new) | _ \<Rightarrow> v)"

definition deep_merge :: "dict \<Rightarrow> dict \<Rightarrow> dict" where
  "deep_merge base patch = foldl (\<lambda>out (k, v). dict_set out k (merge_key out k v)) base patch"

definition admin_create_product ::
    "string \<Rightarrow> string \<Rightarrow> string option \<Rightarrow> dict \<Rightarrow> bool \<Rightarrow> TenantType \<Rightarrow> Product service" where
  "admin_create_product name slug description setts seed_plans tenant_type =
     bindS (create_product name slug description setts) (\<lambda>product.
     bindS (ensure_system_roles_for_product (Product_id product)) (\<lambda>_.
     bindS (if seed_plans then bindS (seed_standard_plans (Product_id product) tenant_type) (\<lambda>_. ret ())
            else ret ()) (\<lambda>_.
     bindS (invalidate_slug_cache (Product_slug product)) (\<lambda>_.
     ret product))))"

record ProductUpdate =
  prod_name :: "string patch"
  prod_description :: "string patch"
  prod_status :: "ProductStatus patch"
  prod_is_active :: "bool patch"
  prod_settings :: "dict patch"

definition product_changes :: "ProductUpdate \<Rightarrow> Product \<Rightarrow> Product" where
  "product_changes payload p = p\<lparr>Product_name := patch_value (prod_name payload) (Product_name p),
     Product_description := patch_option (prod_description payload) (Product_description p),
     Product_status := patch_value (prod_status payload) (Product_status p),
     Product_is_active := patch_value (prod_is_active payload) (Product_is_active p),
     Product_settings := (case prod_settings payload of
        Given s \<Rightarrow> deep_merge (Product_settings p) s | _ \<Rightarrow> Product_settings p)\<rparr>"

definition product_null_violation :: "ProductUpdate \<Rightarrow> bool" where
  "product_null_violation payload \<longleftrightarrow>
     prod_name payload = Null \<or> prod_status payload = Null \<or> prod_is_active payload = Null"

text \<open>A null for the JSON column \<open>settings\<close> is written; the response, which must be an object,
  then fails, after the cache was invalidated.\<close>

definition update_product :: "string \<Rightarrow> ProductUpdate \<Rightarrow> Product service" where
  "update_product slug payload =
     bindS (get_by_slug slug) (\<lambda>product.
     case product of
       None \<Rightarrow> raise (NotFound ''product not found'')
     | Some p \<Rightarrow>
     if prod_name payload = Unset \<and> prod_description payload = Unset \<and> prod_status payload = Unset \<and>
        prod_is_active payload = Unset \<and> prod_settings payload = Unset
     then raise (ValidationFailed ''no fields to update'')
     else if product_null_violation payload then raise IntegrityError
     else
     bindS (update_rows products_update (\<lambda>r. Product_id r = Product_id p) (product_changes payload)) (\<lambda>_.
     bindS (invalidate_slug_cache (Product_slug p)) (\<lambda>_.
     if prod_settings payload = Null then raise (ValueError ''response validation'')
     else ret (product_changes payload p))))"


section \<open>Merging settings\<close>

lemma map_of_dict_set [simp]: "map_of (dict_set d k v) = (map_of d)(k \<mapsto> v)"
  by (induction d k v rule: dict_set.induct) (auto simp: fun_upd_twist)

lemma dict_union_Cons [simp]: "dict_union d ((k, v) # e) = dict_union (dict_set d k v) e"
  by (simp add: dict_union_def)

lemma dict_union_Nil [simp]: "dict_union d [] = d"
  by (simp add: dict_union_def)

lemma map_of_dict_union:
  "distinct (map fst e) \<Longrightarrow> map_of (dict_union d e) k = (case map_of e k of None \<Rightarrow> map_of d k | Some v \<Rightarrow> Some v)"
proof (induction e arbitrary: d)
  case Nil
  then show ?case by simp
next
  case (Cons p e)
  obtain j v where p: "p = (j, v)" by (cases p)
  have "k = j \<Longrightarrow> map_of e k = None" using Cons.prems p by (simp add: map_of_eq_None_iff)
  then show ?case using Cons p by (simp split: option.splits)
qed

lemma deep_merge_Cons [simp]: "deep_merge d ((k, v) # e) = deep_merge (dict_set d k (merge_key d k v)) e"
  by (simp add: deep_merge_def)

lemma deep_merge_Nil [simp]: "deep_merge d [] = d"
  by (simp add: deep_merge_def)

lemma merge_key_cong: "map_of d k = map_of d' k \<Longrightarrow> merge_key d k v = merge_key d' k v"
  by (simp add: merge_key_def)

lemma map_of_deep_merge:
  "distinct (map fst e) \<Longrightarrow> map_of (deep_merge d e) k =
     (case map_of e k of None \<Rightarrow> map_of d k | Some v \<Rightarrow> Some (merge_key d k v))"
proof (induction e arbitrary: d)
  case Nil
  then show ?case by simp
next
  case (Cons p e)
  obtain j v where p: "p = (j, v)" by (cases p)
  show ?case
  proof (cases "k = j")
    case True
    then have "map_of e k = None" using Cons.prems p by (simp add: map_of_eq_None_iff)
    then show ?thesis using Cons p True by simp
  next
    case False
    then have "merge_key (dict_set d j (merge_key d j v)) k u = merge_key d k u" for u
      by (intro merge_key_cong) simp
    then show ?thesis using Cons p False by (simp split: option.splits)
  qed
qed

text \<open>The value of a setting: a top-level key, or a key of a section.\<close>

fun setting :: "dict \<Rightarrow> string list \<Rightarrow> json option" where
  "setting d [k] = map_of d k"
| "setting d [k, j] = (case map_of d k of Some (JObj s) \<Rightarrow> map_of s j | _ \<Rightarrow> None)"
| "setting d _ = None"

definition section_keys_ok :: "dict \<Rightarrow> bool" where
  "section_keys_ok d \<longleftrightarrow> distinct (map fst d) \<and> (\<forall>k s. map_of d k = Some (JObj s) \<longrightarrow> distinct (map fst s))"

lemma setting_merge:
  assumes "section_keys_ok patch" and "map_of patch k = Some (JObj new)"
    and "map_of base k \<in> insert None (range (\<lambda>s. Some (JObj s)))"
  shows "setting (deep_merge base patch) [k, j] =
    (case map_of new j of None \<Rightarrow> setting base [k, j] | Some v \<Rightarrow> Some v)"
proof -
  have d: "distinct (map fst patch)" "distinct (map fst new)"
    using assms(1,2) by (auto simp: section_keys_ok_def)
  show ?thesis
  proof (cases "map_of base k")
    case None
    then show ?thesis
      using assms(2) by (simp add: map_of_deep_merge [OF d(1)] merge_key_def split: option.splits)
  next
    case (Some v)
    then obtain s where "map_of base k = Some (JObj s)"
      using assms(3) by auto
    then show ?thesis
      using assms(2) by (simp add: map_of_deep_merge [OF d(1)] merge_key_def map_of_dict_union [OF d(2)] split: option.splits)
  qed
qed

text \<open>A PATCH of a product merges its settings. When the patch of an existing product goes
  through, the settings of the stored row are: under a section the patch names, the values of the
  patch where it has them and the old values elsewhere; under a key the patch does not name, the
  old value. Every other product is left as it was, and so is the slug.\<close>

lemma update_product_merges:
  assumes run: "update_product slug payload w = (Inr p', w')"
    and patch: "prod_settings payload = Given patch" "section_keys_ok patch"
    and p: "List.find (\<lambda>p. Product_slug p = slug \<and> Product_deleted_at p = None) (products (db w)) = Some p"
    and sect: "map_of patch k = Some (JObj new)" "map_of (Product_settings p) k \<in> insert None (range (\<lambda>s. Some (JObj s)))"
    and other: "map_of patch k' = None"
  shows "setting (Product_settings p') [k, j] =
         (case map_of new j of None \<Rightarrow> setting (Product_settings p) [k, j] | Some v \<Rightarrow> Some v) \<and>
     setting (Product_settings p') [k'] = setting (Product_settings p) [k'] \<and>
     Product_slug p' = slug \<and>
     products (db w') = map_rows (\<lambda>r. Product_id r = Product_id p) (product_changes payload) (products (db w)) \<and>
     p' \<in> set (products (db w'))"
proof -
  have mem: "p \<in> set (products (db w))" "Product_slug p = slug"
    using find_SomeD [OF p] by auto
  have res: "p' = product_changes payload p"
      "products (db w') = map_rows (\<lambda>r. Product_id r = Product_id p) (product_changes payload) (products (db w))"
    using run p patch(1)
    by (auto simp: update_product_def get_by_slug_def invalidate_slug_cache_def svc_simps split: if_splits)
  have sets: "Product_settings p' = deep_merge (Product_settings p) patch"
    using res(1) patch(1) by (simp add: product_changes_def)
  have "setting (Product_settings p') [k'] = setting (Product_settings p) [k']"
    using patch(2) other by (simp add: sets map_of_deep_merge section_keys_ok_def)
  moreover have "Product_slug p' = slug"
    using res(1) mem(2) by (simp add: product_changes_def)
  moreover have "p' \<in> set (products (db w'))"
    using res mem(1) by (force simp: set_map_rows)
  ultimately show ?thesis
    using setting_merge [OF patch(2) sect] res(2) by (simp add: sets)
qed

definition sample_product :: Product where
  "sample_product = \<lparr>Product_id = 5, Product_name = ''Shop'', Product_slug = ''shop'', Product_description = None,
     Product_status = ProductActive, Product_is_active = True,
     Product_settings = [(''auth'', JObj [(''refresh_ttl_days'', JInt 30), (''x'', JInt 1)]), (''theme'', JStr ''dark'')],
     Product_deleted_at = None\<rparr>"

definition sample_patch :: ProductUpdate where
  "sample_patch = \<lparr>prod_name = Unset, prod_description = Unset, prod_status = Given ProductDisabled,
     prod_is_active = Unset, prod_settings = Given [(''auth'', JObj [(''refresh_ttl_days'', JInt 7)])]\<rparr>"

definition sample_products :: world where
  "sample_products = sample_world\<lparr>db := empty_db\<lparr>products := [sample_product]\<rparr>\<rparr>"

lemma update_product_merges_witness:
  "\<exists>p' w'. update_product ''shop'' sample_patch sample_products = (Inr p', w') \<and>
     setting (Product_settings p') [''auth'', ''refresh_ttl_days''] = Some (JInt 7) \<and>
     setting (Product_settings p') [''theme''] = Some (JStr ''dark'')"
proof -
  obtain p' w' where run: "update_product ''shop'' sample_patch sample_products = (Inr p', w')"
    by (simp add: update_product_def get_by_slug_def invalidate_slug_cache_def svc_simps sample_products_def
        sample_product_def sample_patch_def product_null_violation_def empty_db_def sample_world_def)
  have "setting (Product_settings p') [''auth'', ''refresh_ttl_days''] = Some (JInt 7) \<and>
     setting (Product_settings p') [''theme''] = Some (JStr ''dark'')"
    using update_product_merges [OF run, of "[(''auth'', JObj [(''refresh_ttl_days'', JInt 7)])]" sample_product
        "''auth''" "[(''refresh_ttl_days'', JInt 7)]" "''theme''" "''refresh_ttl_days''"]
    by (simp add: sample_products_def sample_patch_def sample_product_def section_keys_ok_def empty_db_def split: if_splits)
  with run show ?thesis by blast
qed


section \<open>The cache and the transaction\<close>

lemma update_product_result:
  assumes "update_product slug payload w = (Inr p', w')" and "redis_up w"
  obtains p where "List.find (\<lambda>p. Product_slug p = slug \<and> Product_deleted_at p = None) (products (db w)) = Some p"
    and "p' = product_changes payload p" and "redis_up w' = redis_up w"
    and "products (db w') = map_rows (\<lambda>r. Product_id r = Product_id p) (product_changes payload) (products (db w))"
    and "map_of (slug_cache w') slug = None"
proof -
  obtain p where p: "List.find (\<lambda>p. Product_slug p = slug \<and> Product_deleted_at p = None) (products (db w)) = Some p"
    using assms by (auto simp: update_product_def get_by_slug_def svc_simps split: option.splits)
  then have "Product_slug p = slug" using find_SomeD by fastforce
  moreover have "map_of (filter (\<lambda>(s, _). s \<noteq> slug) c) slug = None" for c :: "(string \<times> (uuid \<times> ProductStatus)) list"
    by (auto simp: map_of_eq_None_iff)
  ultimately show ?thesis
    using assms p
    by (intro that [of p]) (auto simp: update_product_def get_by_slug_def invalidate_slug_cache_def svc_simps split: if_splits)
qed

lemma find_product_changes:
  "List.find (\<lambda>p. Product_slug p = slug \<and> Product_deleted_at p = None)
      (map_rows P (product_changes payload) rs) =
   map_option (\<lambda>r. if P r then product_changes payload r else r)
      (List.find (\<lambda>p. Product_slug p = slug \<and> Product_deleted_at p = None) rs)"
  by (rule find_map_rows_keep) (simp add: product_changes_def)

text \<open>The slug cache around a change of a product's status. After a PATCH alone, the resolver
  answers with the new status. The cache is dropped before the transaction commits, though: when
  another request resolves the slug between the two, it reads the old row, caches it, and after
  the commit every request is answered with the old status, so a disabled product stays in
  service until the entry expires.\<close>

lemma slug_cache_race:
  assumes run: "update_product slug payload w = (Inr p', w1)" and up: "redis_up w"
    and old: "List.find (\<lambda>p. Product_slug p = slug \<and> Product_deleted_at p = None) (products (db w)) = Some p"
    and between: "resolve_slug_to_id slug (w1\<lparr>db := db w\<rparr>) = (r, w2)"
  shows "fst (resolve_slug_to_id slug w1) = Inr (Some (Product_id p', Product_status p')) \<and>
    fst (resolve_slug_to_id slug (w2\<lparr>db := db w1\<rparr>)) = Inr (Some (Product_id p, Product_status p))"
proof -
  obtain q where q: "List.find (\<lambda>p. Product_slug p = slug \<and> Product_deleted_at p = None) (products (db w)) = Some q"
      "p' = product_changes payload q" "redis_up w1 = redis_up w"
      "products (db w1) = map_rows (\<lambda>r. Product_id r = Product_id q) (product_changes payload) (products (db w))"
      and dropped: "map_of (slug_cache w1) slug = None"
    by (rule update_product_result [OF run up])
  have "fst (resolve_slug_to_id slug w1) = Inr (Some (Product_id p', Product_status p'))"
    using q up dropped by (simp add: resolve_slug_to_id_def get_by_slug_def svc_simps find_product_changes Let_def)
  moreover have "fst (resolve_slug_to_id slug (w2\<lparr>db := db w1\<rparr>)) = Inr (Some (Product_id p, Product_status p))"
    using between q(3) dropped up old by (auto simp: resolve_slug_to_id_def get_by_slug_def svc_simps Let_def)
  ultimately show ?thesis by simp
qed

lemma slug_cache_race_witness:
  "\<exists>p' w1 r w2. update_product ''shop'' sample_patch sample_products = (Inr p', w1) \<and>
     fst (resolve_slug_to_id ''shop'' w1) = Inr (Some (5, ProductDisabled)) \<and>
     resolve_slug_to_id ''shop'' (w1\<lparr>db := db sample_products\<rparr>) = (r, w2) \<and>
     fst (resolve_slug_to_id ''shop'' (w2\<lparr>db := db w1\<rparr>)) = Inr (Some (5, ProductActive))"
proof -
  have p': "\<exists>w1. update_product ''shop'' sample_patch sample_products = (Inr (product_changes sample_patch sample_product), w1)"
    by (simp add: update_product_def get_by_slug_def invalidate_slug_cache_def svc_simps sample_products_def
        sample_product_def sample_patch_def product_null_violation_def empty_db_def sample_world_def)
  then obtain w1 where run: "update_product ''shop'' sample_patch sample_products = (Inr (product_changes sample_patch sample_product), w1)"
    by blast
  obtain r w2 where res: "resolve_slug_to_id ''shop'' (w1\<lparr>db := db sample_products\<rparr>) = (r, w2)"
    by (cases "resolve_slug_to_id ''shop'' (w1\<lparr>db := db sample_products\<rparr>)")
  have "redis_up sample_products" "List.find (\<lambda>p. Product_slug p = ''shop'' \<and> Product_deleted_at p = None)
      (products (db sample_products)) = Some sample_product"
    by (simp_all add: sample_products_def sample_world_def empty_db_def sample_product_def)
  note facts = slug_cache_race [OF run this res]
  have "fst (resolve_slug_to_id ''shop'' w1) = Inr (Some (5, ProductDisabled))"
      "fst (resolve_slug_to_id ''shop'' (w2\<lparr>db := db w1\<rparr>)) = Inr (Some (5, ProductActive))"
    using facts by (simp_all add: product_changes_def sample_patch_def sample_product_def)
  then show ?thesis using run res by (intro exI conjI)
qed

end
