(* ===== verification/Tenancy.thy ===== *)
theory Tenancy
  imports Products
begin

text \<open>
  Tenants: \<^verbatim>\<open>app/services/tenant.py\<close> and the tenant rules of
  \<^verbatim>\<open>app/core/dependencies.py\<close>: which tenant a request may act as, and the expiry of a
  tenant and its ancestors. The hierarchy has one level.
\<close>

section \<open>The tenant service\<close>

text \<open>The partial unique index of the slugs of live tenants.\<close>

definition tenant_clash :: "Tenant \<Rightarrow> Tenant \<Rightarrow> bool" where
  "tenant_clash x y \<longleftrightarrow> Tenant_product_id x = Tenant_product_id y \<and> Tenant_slug x = Tenant_slug y \<and>
     Tenant_deleted_at x = None \<and> Tenant_deleted_at y = None"

definition create_tenant ::
    "uuid \<Rightarrow> string \<Rightarrow> string \<Rightarrow> uuid option \<Rightarrow> dict \<Rightarrow> uuid option \<Rightarrow> TenantType \<Rightarrow> Tenant service" where
  "create_tenant product_id name slug parent_id setts actor_user_id typ =
     bindS (scalar tenants (\<lambda>t. Tenant_product_id t = product_id \<and> Tenant_slug t = slug \<and>
              Tenant_deleted_at t = None)) (\<lambda>existing.
     if existing \<noteq> None then raise (Conflict ''slug already taken in this product'')
     else
     bindS (case parent_id of
              None \<Rightarrow> ret ()
            | Some pid \<Rightarrow>
                bindS (scalar tenants (\<lambda>t. Tenant_id t = pid)) (\<lambda>parent.
                case parent of
                  None \<Rightarrow> raise (NotFound ''parent tenant not found in product'')
                | Some p \<Rightarrow>
                    if Tenant_product_id p \<noteq> product_id
                    then raise (NotFound ''parent tenant not found in product'')
                    else if \<not> Tenant_is_root p
                    then raise (ValidationFailed ''only root tenants can have children (single-level hierarchy)'')
                    else ret ())) (\<lambda>_.
     bindS fresh (\<lambda>i.
     bindS (gets now) (\<lambda>created_at.
     let tenant = \<lparr>Tenant_id = i, Tenant_product_id = product_id, Tenant_name = name, Tenant_slug = slug,
           Tenant_status = TenantActive, Tenant_type = typ, Tenant_parent_id = parent_id,
           Tenant_is_root = (parent_id = None), Tenant_settings = setts, Tenant_expires_at = None,
           Tenant_deleted_at = None, Tenant_created_at = created_at\<rparr>
     in
     bindS (insert_row tenants tenants_update tenant_clash tenant) (\<lambda>_.
     bindS (record_audit ((act ''tenant.create'')\<lparr>a_actor_user_id := actor_user_id,
              a_resource_type := Some ''tenant'', a_resource_id := Some i, a_tenant_id := Some i,
              a_product_id := Some product_id,
              a_diff := [(''name'', JStr name), (''slug'', JStr slug), (''type'', JStr (tenant_type_value typ)),
                         (''parent_id'', jopt JUuid parent_id)]\<rparr>)) (\<lambda>_.
     ret tenant))))))"

definition set_status :: "uuid \<Rightarrow> TenantStatus \<Rightarrow> uuid option \<Rightarrow> Tenant service" where
  "set_status tenant_id status actor_user_id =
     bindS (scalar tenants (\<lambda>t. Tenant_id t = tenant_id)) (\<lambda>tenant.
     case tenant of
       None \<Rightarrow> raise (NotFound ''tenant not found'')
     | Some t \<Rightarrow>
     bindS (update_rows tenants_update (\<lambda>r. Tenant_id r = tenant_id) (\<lambda>r. r\<lparr>Tenant_status := status\<rparr>)) (\<lambda>_.
     bindS (record_audit ((act (''tenant.'' @ tenant_status_value status))\<lparr>a_actor_user_id := actor_user_id,
              a_resource_type := Some ''tenant'', a_resource_id := Some tenant_id, a_tenant_id := Some tenant_id,
              a_product_id := Some (Tenant_product_id t),
              a_diff := [(''from'', JStr (tenant_status_value (Tenant_status t))),
                         (''to'', JStr (tenant_status_value status))]\<rparr>)) (\<lambda>_.
     ret (t\<lparr>Tenant_status := status\<rparr>))))"


text \<open>The PATCH route of \<^verbatim>\<open>app/api/v1/tenants.py\<close>: it looks at the product of the row
  only. A null settings column is written, and the response, which must be an object, then
  fails.\<close>

record TenantUpdate =
  tu_name :: "string patch"
  tu_slug :: "string patch"
  tu_settings :: "dict patch"
  tu_expires_at :: "time patch"

definition tenant_changes :: "TenantUpdate \<Rightarrow> Tenant \<Rightarrow> Tenant" where
  "tenant_changes payload t = t\<lparr>Tenant_name := patch_value (tu_name payload) (Tenant_name t),
     Tenant_slug := patch_value (tu_slug payload) (Tenant_slug t),
     Tenant_settings := patch_value (tu_settings payload) (Tenant_settings t),
     Tenant_expires_at := patch_option (tu_expires_at payload) (Tenant_expires_at t)\<rparr>"

definition patch_field :: "string \<Rightarrow> json patch \<Rightarrow> dict" where
  "patch_field k p = (case p of Unset \<Rightarrow> [] | Null \<Rightarrow> [(k, JNull)] | Given v \<Rightarrow> [(k, v)])"

definition tenant_diff :: "TenantUpdate \<Rightarrow> dict" where
  "tenant_diff payload =
     patch_field ''name'' (map_patch JStr (tu_name payload)) @
     patch_field ''slug'' (map_patch JStr (tu_slug payload)) @
     patch_field ''settings'' (map_patch JObj (tu_settings payload)) @
     patch_field ''expires_at'' (map_patch JTime (tu_expires_at payload))"

definition update_tenant :: "User \<Rightarrow> uuid \<Rightarrow> TenantUpdate \<Rightarrow> Tenant service" where
  "update_tenant user tenant_id payload =
     bindS (scalar tenants (\<lambda>t. Tenant_id t = tenant_id)) (\<lambda>tenant.
     case tenant of
       None \<Rightarrow> raise (NotFound ''tenant not found'')
     | Some t \<Rightarrow>
     if Tenant_product_id t \<noteq> User_product_id user then raise (NotFound ''tenant not found'')
     else if tu_name payload = Null \<or> tu_slug payload = Null then raise IntegrityError
     else
     bindS (scalar tenants (\<lambda>r. Tenant_id r \<noteq> tenant_id \<and> tenant_clash r (tenant_changes payload t))) (\<lambda>other.
     if other \<noteq> None then raise IntegrityError
     else
     bindS (update_rows tenants_update (\<lambda>r. Tenant_id r = tenant_id) (tenant_changes payload)) (\<lambda>_.
     let changes = tenant_diff payload in
     bindS (if changes \<noteq> [] then record_audit ((act ''tenant.update'')\<lparr>a_actor_user_id := actor_id user,
              a_resource_type := Some ''tenant'', a_resource_id := Some tenant_id, a_tenant_id := Some tenant_id,
              a_product_id := Some (Tenant_product_id t), a_diff := [(''changes'', JObj changes)]\<rparr>)
            else ret ()) (\<lambda>_.
     if tu_settings payload = Null then raise (ValueError ''response validation'')
     else ret (tenant_changes payload t)))))"


section \<open>Acting as a child tenant\<close>

definition ACT_AS_PERMISSION :: string where
  "ACT_AS_PERMISSION = ''tenants:act_as_child''"

definition product_allows_act_as :: "Product \<Rightarrow> app_error + bool" where
  "product_allows_act_as product =
     (case json_get (dict_get (Product_settings product) ''features'' (JObj [])) ''allow_parent_child_access'' (JBool True) of
        Inl e \<Rightarrow> Inl e | Inr v \<Rightarrow> Inr (json_bool v))"

definition tenant_allows_child_access :: "Tenant \<Rightarrow> bool" where
  "tenant_allows_child_access tenant = json_bool (dict_get (Tenant_settings tenant) ''allow_child_access'' (JBool True))"

text \<open>\<^verbatim>\<open>product is None or not _product_allows_act_as(product)\<close>\<close>

definition product_blocks :: "Product option \<Rightarrow> app_error + bool" where
  "product_blocks product =
     (case product of None \<Rightarrow> Inr True | Some p \<Rightarrow>
     (case product_allows_act_as p of Inl e \<Rightarrow> Inl e | Inr b \<Rightarrow> Inr (\<not> b)))"

definition home_blocks :: "Tenant option \<Rightarrow> bool" where
  "home_blocks home_tenant = (case home_tenant of None \<Rightarrow> False | Some t \<Rightarrow> \<not> tenant_allows_child_access t)"

definition resolve_act_as :: "User \<Rightarrow> string \<Rightarrow> Tenant service" where
  "resolve_act_as user target_slug =
     bindS (scalar tenants (\<lambda>t. Tenant_product_id t = User_product_id user \<and> Tenant_slug t = target_slug \<and>
              Tenant_deleted_at t = None)) (\<lambda>target.
     case target of
       None \<Rightarrow> raise (NotFound ''tenant not found in this product'')
     | Some target \<Rightarrow>
     if Tenant_id target = User_tenant_id user then ret target
     else if Tenant_parent_id target \<noteq> Some (User_tenant_id user)
     then raise (Forbidden ''can only act as a direct child of your home tenant'')
     else
     bindS (scalar products (\<lambda>p. Product_id p = User_product_id user)) (\<lambda>product.
     bindS (liftE (product_blocks product)) (\<lambda>blocked.
     if blocked then raise (Forbidden ''parent -> child access is disabled for this product'')
     else
     bindS (scalar tenants (\<lambda>t. Tenant_id t = User_tenant_id user)) (\<lambda>home_tenant.
     if home_blocks home_tenant then raise (Forbidden ''parent -> child access is disabled for your tenant'')
     else
     bindS (user_has_permission user ACT_AS_PERMISSION (Some (User_tenant_id user))) (\<lambda>has_global.
     if has_global then ret target
     else
     bindS (scalar user_roles (\<lambda>b. UserRole_user_id b = User_id user \<and>
              UserRole_scope_tenant_id b = Some (Tenant_id target))) (\<lambda>binding.
     if binding = None then raise (Forbidden ''need tenants:act_as_child permission or a role binding'')
     else ret target))))))"

record AccessibleChild =
  child_id :: uuid
  child_slug :: string
  child_name :: string
  child_status :: TenantStatus
  child_can_act_as :: bool
  child_reason :: "string option"

definition accessible_child :: "Tenant \<Rightarrow> bool \<Rightarrow> string option \<Rightarrow> AccessibleChild" where
  "accessible_child c can_act_as reason =
     \<lparr>child_id = Tenant_id c, child_slug = Tenant_slug c, child_name = Tenant_name c,
      child_status = Tenant_status c, child_can_act_as = can_act_as, child_reason = reason\<rparr>"

definition list_accessible_children :: "User \<Rightarrow> AccessibleChild list service" where
  "list_accessible_children user =
     bindS (scalar products (\<lambda>p. Product_id p = User_product_id user)) (\<lambda>product.
     bindS (scalar tenants (\<lambda>t. Tenant_id t = User_tenant_id user)) (\<lambda>home_tenant.
     bindS (scalars tenants (\<lambda>t. Tenant_product_id t = User_product_id user \<and>
              Tenant_parent_id t = Some (User_tenant_id user) \<and> Tenant_deleted_at t = None)) (\<lambda>children.
     bindS (liftE (product_blocks product)) (\<lambda>blocked.
     let global_block = (if blocked then Some ''product disabled parent -> child access''
                         else if home_blocks home_tenant then Some ''parent tenant disabled child access''
                         else None)
     in
     bindS (if global_block = None
            then user_has_permission user ACT_AS_PERMISSION (Some (User_tenant_id user)) else ret False) (\<lambda>has_global_perm.
     bindS (if global_block = None \<and> \<not> has_global_perm
            then scalars user_roles (\<lambda>b. UserRole_user_id b = User_id user \<and> UserRole_scope_tenant_id b \<noteq> None)
            else ret []) (\<lambda>rows.
     let target_scoped_ids = map (\<lambda>b. the (UserRole_scope_tenant_id b)) rows
     in
     ret (map (\<lambda>c.
       case global_block of
         Some reason \<Rightarrow> accessible_child c False (Some reason)
       | None \<Rightarrow>
           if has_global_perm \<or> Tenant_id c \<in> set target_scoped_ids then accessible_child c True None
           else accessible_child c False (Some (''need '' @ ACT_AS_PERMISSION @ '' permission or a scoped binding'')))
       (order_by Tenant_slug children))))))))"


section \<open>Expiry\<close>

text \<open>The loop of \<^verbatim>\<open>_enforce_tenant_expiry\<close> over the parent chain.\<close>

function expiry_walk :: "Tenant list \<Rightarrow> time \<Rightarrow> uuid option \<Rightarrow> uuid set \<Rightarrow> app_error + unit" where
  "expiry_walk ts t None seen = Inr ()"
| "expiry_walk ts t (Some cursor) seen =
     (if cursor \<in> seen then Inr ()
      else case List.find (\<lambda>r. Tenant_id r = cursor) ts of
             None \<Rightarrow> Inr ()
           | Some row \<Rightarrow>
               if (case Tenant_expires_at row of None \<Rightarrow> False | Some e \<Rightarrow> e \<le> t)
               then Inl (Forbidden ''tenant expired'')
               else expiry_walk ts t (Tenant_parent_id row) (insert cursor seen))"
  by pat_completeness auto

text \<open>Every turn marks one more row of the table as seen.\<close>

termination
proof (relation "measure (\<lambda>(ts, t, c, seen). length (filter (\<lambda>r. Tenant_id r \<notin> seen) ts))")
  fix ts :: "Tenant list" and t :: time and cursor :: uuid and seen row
  assume c: "cursor \<notin> seen" and row: "List.find (\<lambda>r. Tenant_id r = cursor) ts = Some row"
  have le: "length (filter (\<lambda>r. Tenant_id r \<notin> insert cursor seen) us) \<le> length (filter (\<lambda>r. Tenant_id r \<notin> seen) us)" for us
    by (induction us) auto
  have "length (filter (\<lambda>r. Tenant_id r \<notin> insert cursor seen) ts) < length (filter (\<lambda>r. Tenant_id r \<notin> seen) ts)"
    using row
  proof (induction ts)
    case Nil
    then show ?case by simp
  next
    case (Cons r ts)
    then show ?case using le [of ts] c by (auto split: if_splits)
  qed
  then show "((ts, t, Tenant_parent_id row, insert cursor seen), ts, t, Some cursor, seen)
      \<in> measure (\<lambda>(ts, t, c, seen). length (filter (\<lambda>r. Tenant_id r \<notin> seen) ts))"
    by simp
qed simp

definition enforce_tenant_expiry :: "uuid \<Rightarrow> unit service" where
  "enforce_tenant_expiry tenant_id =
     bindS (gets (\<lambda>w. expiry_walk (tenants (db w)) (now w) (Some tenant_id) {})) liftE"


section \<open>The expiry walk\<close>

definition parent_of :: "Tenant list \<Rightarrow> uuid \<Rightarrow> uuid \<Rightarrow> bool" where
  "parent_of ts c d \<longleftrightarrow> (\<exists>row. List.find (\<lambda>r. Tenant_id r = c) ts = Some row \<and> Tenant_parent_id row = Some d)"

definition expired :: "Tenant list \<Rightarrow> time \<Rightarrow> uuid \<Rightarrow> bool" where
  "expired ts t c \<longleftrightarrow> (\<exists>row e. List.find (\<lambda>r. Tenant_id r = c) ts = Some row \<and> Tenant_expires_at row = Some e \<and> e \<le> t)"

lemma reach_split:
  "(\<exists>a. (parent_of ts)\<^sup>*\<^sup>* c a \<and> expired ts t a) \<longleftrightarrow>
     expired ts t c \<or> (\<exists>d. parent_of ts c d \<and> (\<exists>a. (parent_of ts)\<^sup>*\<^sup>* d a \<and> expired ts t a))"
  by (metis converse_rtranclpE converse_rtranclp_into_rtranclp rtranclp.rtrancl_refl)

text \<open>What was seen is not expired and leads to what was seen or to the cursor.\<close>

lemma expiry_walk_iff:
  assumes "\<forall>s \<in> seen. \<not> expired ts t s" and "\<forall>s \<in> seen. \<forall>d. parent_of ts s d \<longrightarrow> d \<in> seen \<or> c = Some d"
  shows "expiry_walk ts t c seen =
    (if \<exists>s. c = Some s \<and> (\<exists>a. (parent_of ts)\<^sup>*\<^sup>* s a \<and> expired ts t a)
     then Inl (Forbidden ''tenant expired'') else Inr ())"
  using assms
proof (induction ts t c seen rule: expiry_walk.induct)
  case (1 ts t seen)
  then show ?case by simp
next
  case (2 ts t cursor seen)
  show ?case
  proof (cases "cursor \<in> seen")
    case True
    have "a \<in> seen" if "(parent_of ts)\<^sup>*\<^sup>* cursor a" for a
      using that by (induction rule: rtranclp_induct) (use True 2(3) in auto)
    then show ?thesis using True 2(2) by auto
  next
    case False
    show ?thesis
    proof (cases "List.find (\<lambda>r. Tenant_id r = cursor) ts")
      case None
      then have "\<not> expired ts t cursor" "\<And>d. \<not> parent_of ts cursor d"
        by (simp_all add: expired_def parent_of_def)
      then show ?thesis using False None reach_split [of ts cursor t] by simp
    next
      case (Some row)
      have exp: "expired ts t cursor \<longleftrightarrow> (case Tenant_expires_at row of None \<Rightarrow> False | Some e \<Rightarrow> e \<le> t)"
        using Some by (auto simp: expired_def split: option.splits)
      have up: "parent_of ts cursor d \<longleftrightarrow> Tenant_parent_id row = Some d" for d
        using Some by (auto simp: parent_of_def)
      show ?thesis
      proof (cases "expired ts t cursor")
        case True
        then show ?thesis using False Some exp reach_split [of ts cursor t] by simp
      next
        case fresh: False
        have "expiry_walk ts t (Some cursor) seen = expiry_walk ts t (Tenant_parent_id row) (insert cursor seen)"
          using False Some exp fresh by simp
        also have "\<dots> = (if \<exists>s. Tenant_parent_id row = Some s \<and> (\<exists>a. (parent_of ts)\<^sup>*\<^sup>* s a \<and> expired ts t a)
            then Inl (Forbidden ''tenant expired'') else Inr ())"
        proof (rule 2(1) [OF False Some])
          show "\<not> (case Tenant_expires_at row of None \<Rightarrow> False | Some e \<Rightarrow> e \<le> t)"
            using exp fresh by simp
          show "\<forall>s \<in> insert cursor seen. \<not> expired ts t s" using fresh 2(2) by simp
          show "\<forall>s \<in> insert cursor seen. \<forall>d. parent_of ts s d \<longrightarrow> d \<in> insert cursor seen \<or> Tenant_parent_id row = Some d"
            using 2(3) up by auto
        qed
        finally show ?thesis
          using reach_split [of ts cursor t] fresh up by simp
      qed
    qed
  qed
qed

text \<open>C11: the expiry check always ends, also on a parent chain that runs in a circle, and refuses
  exactly when the effective tenant or one of its ancestors is past its expiry.\<close>

theorem enforce_tenant_expiry_iff:
  "enforce_tenant_expiry tenant_id w =
    (if \<exists>a. (parent_of (tenants (db w)))\<^sup>*\<^sup>* tenant_id a \<and> expired (tenants (db w)) (now w) a
     then Inl (Forbidden ''tenant expired'') else Inr (), w)"
  by (simp add: enforce_tenant_expiry_def svc_simps expiry_walk_iff del: expiry_walk.simps)


section \<open>Acting as a child\<close>

text \<open>The rows of live tenants have different slugs in a product, identifiers are unique, and no
  tenant is its own parent.\<close>

definition tenants_ok :: "Tenant list \<Rightarrow> bool" where
  "tenants_ok ts \<longleftrightarrow> distinct (map Tenant_id ts) \<and>
     (\<forall>x \<in> set ts. \<forall>y \<in> set ts. tenant_clash x y \<longrightarrow> x = y) \<and>
     (\<forall>x \<in> set ts. Tenant_parent_id x \<noteq> Some (Tenant_id x))"

lemma resolve_act_as_target:
  assumes "resolve_act_as user slug w = (Inr target, w')"
  shows "w' = w \<and> target \<in> set (tenants (db w)) \<and> Tenant_product_id target = User_product_id user \<and>
    Tenant_slug target = slug \<and> Tenant_deleted_at target = None \<and>
    (Tenant_id target = User_tenant_id user \<or> Tenant_parent_id target = Some (User_tenant_id user))"
proof -
  have "wp (resolve_act_as user slug) (\<lambda>target w'. w' = w \<and> target \<in> set (tenants (db w)) \<and>
      Tenant_product_id target = User_product_id user \<and> Tenant_slug target = slug \<and> Tenant_deleted_at target = None \<and>
      (Tenant_id target = User_tenant_id user \<or> Tenant_parent_id target = Some (User_tenant_id user))) (\<lambda>_ _. True) w"
    unfolding resolve_act_as_def user_has_permission_def list_user_permission_codes_def
    by (auto simp: wp_simps dest!: find_SomeD split: option.splits sum.splits)
  then show ?thesis using assms wp_InrD by fastforce
qed

lemma resolve_act_as_child:
  assumes ok: "tenants_ok (tenants (db w))" and c: "c \<in> set (tenants (db w))"
    and child: "Tenant_product_id c = User_product_id user" "Tenant_parent_id c = Some (User_tenant_id user)"
      "Tenant_deleted_at c = None"
  shows "List.find (\<lambda>t. Tenant_product_id t = User_product_id user \<and> Tenant_slug t = Tenant_slug c \<and>
           Tenant_deleted_at t = None) (tenants (db w)) = Some c"
  using assms by (intro find_unique) (auto simp: tenants_ok_def tenant_clash_def)


text \<open>The verdict on a child, as one condition on the state.\<close>

definition may_act_as :: "world \<Rightarrow> User \<Rightarrow> Tenant \<Rightarrow> bool" where
  "may_act_as w user c \<longleftrightarrow>
     product_blocks (List.find (\<lambda>p. Product_id p = User_product_id user) (products (db w))) = Inr False \<and>
     \<not> home_blocks (List.find (\<lambda>t. Tenant_id t = User_tenant_id user) (tenants (db w))) \<and>
     (fst (user_has_permission user ACT_AS_PERMISSION (Some (User_tenant_id user)) w) = Inr True \<or>
      fst (user_has_permission user ACT_AS_PERMISSION (Some (User_tenant_id user)) w) = Inr False \<and>
      (\<exists>b \<in> set (user_roles (db w)). UserRole_user_id b = User_id user \<and> UserRole_scope_tenant_id b = Some (Tenant_id c)))"

lemma user_has_permission_reads: "snd (user_has_permission user required t w) = w"
  by (simp add: user_has_permission_def list_user_permission_codes_def svc_simps split: sum.splits)

lemma user_has_permission_outcome:
  obtains (err) e where "user_has_permission user required t w = (Inl e, w)"
    | (ok) b where "user_has_permission user required t w = (Inr b, w)"
  using user_has_permission_reads [of user required t w]
  by (cases "user_has_permission user required t w"; cases "fst (user_has_permission user required t w)") auto

lemma resolve_act_as_iff:
  assumes "tenants_ok (tenants (db w))" and "c \<in> set (tenants (db w))"
    and "Tenant_product_id c = User_product_id user" "Tenant_parent_id c = Some (User_tenant_id user)"
      "Tenant_deleted_at c = None"
  shows "(\<exists>target. resolve_act_as user (Tenant_slug c) w = (Inr target, w)) \<longleftrightarrow> may_act_as w user c"
proof -
  have "Tenant_id c \<noteq> User_tenant_id user"
    using assms(1,2,4) by (auto simp: tenants_ok_def)
  note facts = this resolve_act_as_child [OF assms] assms(4)
  let ?p = "List.find (\<lambda>p. Product_id p = User_product_id user) (products (db w))"
  show ?thesis
  proof (cases "product_blocks ?p")
    case (Inl e)
    then show ?thesis using facts by (simp add: resolve_act_as_def may_act_as_def svc_simps)
  next
    case pb: (Inr blocked)
    show ?thesis
    proof (cases rule: user_has_permission_outcome [of user ACT_AS_PERMISSION "Some (User_tenant_id user)" w])
      case (err e)
      then show ?thesis using facts pb by (simp add: resolve_act_as_def may_act_as_def svc_simps)
    next
      case (ok b)
      then show ?thesis
        using facts pb find_not_None [of "\<lambda>b. UserRole_user_id b = User_id user \<and> UserRole_scope_tenant_id b = Some (Tenant_id c)" "user_roles (db w)"]
        by (cases b) (auto simp: resolve_act_as_def may_act_as_def svc_simps)
    qed
  qed
qed

lemma accessible_child_simps [simp]:
  "child_id (accessible_child c b r) = Tenant_id c" "child_slug (accessible_child c b r) = Tenant_slug c"
  "child_can_act_as (accessible_child c b r) = b" "child_reason (accessible_child c b r) = r"
  by (simp_all add: accessible_child_def)

definition home_children :: "User \<Rightarrow> Tenant list \<Rightarrow> Tenant list" where
  "home_children user ts = filter (\<lambda>t. Tenant_product_id t = User_product_id user \<and>
     Tenant_parent_id t = Some (User_tenant_id user) \<and> Tenant_deleted_at t = None) ts"

lemma list_accessible_children_verdicts:
  assumes "list_accessible_children user w = (Inr cs, w')"
  shows "w' = w \<and> (\<exists>f. cs = map f (order_by Tenant_slug (home_children user (tenants (db w)))) \<and>
    (\<forall>c. child_id (f c) = Tenant_id c \<and> child_slug (f c) = Tenant_slug c \<and>
       (child_can_act_as (f c) \<longleftrightarrow> may_act_as w user c)))"
proof -
  let ?p = "List.find (\<lambda>p. Product_id p = User_product_id user) (products (db w))"
  let ?h = "List.find (\<lambda>t. Tenant_id t = User_tenant_id user) (tenants (db w))"
  obtain blocked where pb: "product_blocks ?p = Inr blocked"
    using assms by (cases "product_blocks ?p") (auto simp: list_accessible_children_def svc_simps)
  show ?thesis
  proof (cases "blocked \<or> home_blocks ?h")
    case True
    let ?reason = "if blocked then ''product disabled parent -> child access'' else ''parent tenant disabled child access''"
    have "cs = map (\<lambda>c. accessible_child c False (Some ?reason)) (order_by Tenant_slug (home_children user (tenants (db w))))"
        "w' = w"
      using assms pb True
      by (cases blocked; simp add: list_accessible_children_def home_children_def svc_simps Let_def)+
    then show ?thesis
      using True pb by (intro conjI exI [of _ "\<lambda>c. accessible_child c False (Some ?reason)"]) (auto simp: may_act_as_def)
  next
    case allowed: False
    show ?thesis
    proof (cases rule: user_has_permission_outcome [of user ACT_AS_PERMISSION "Some (User_tenant_id user)" w])
      case (err e)
      then show ?thesis using assms pb allowed
        by (simp add: list_accessible_children_def svc_simps Let_def)
    next
      case (ok b)
      let ?ids = "map (\<lambda>b. the (UserRole_scope_tenant_id b))
         (filter (\<lambda>b. UserRole_user_id b = User_id user \<and> UserRole_scope_tenant_id b \<noteq> None) (user_roles (db w)))"
      let ?f = "\<lambda>c. if b \<or> Tenant_id c \<in> set ?ids then accessible_child c True None
           else accessible_child c False (Some (''need '' @ ACT_AS_PERMISSION @ '' permission or a scoped binding''))"
      have "cs = map ?f (order_by Tenant_slug (home_children user (tenants (db w))))" "w' = w"
        using assms pb allowed ok
        by (cases b; simp add: list_accessible_children_def home_children_def svc_simps Let_def)+
      moreover have "may_act_as w user c \<longleftrightarrow> b \<or> Tenant_id c \<in> set ?ids" for c
        using pb allowed ok by (cases b) (auto simp: may_act_as_def image_iff)
      ultimately show ?thesis by (intro conjI exI [of _ ?f]) auto
    qed
  qed
qed


text \<open>The tenant picker tells the truth. When the children of the user's home tenant are
  listed, every live child is listed once, and a child is shown as switchable exactly when the
  switch with its slug would be allowed.\<close>

lemma accessible_children_mirror:
  assumes ok: "tenants_ok (tenants (db w))"
    and run: "list_accessible_children user w = (Inr cs, w')"
  shows "w' = w \<and> distinct (map child_id cs) \<and>
    child_id ` set cs = Tenant_id ` {t \<in> set (tenants (db w)). Tenant_product_id t = User_product_id user \<and>
       Tenant_parent_id t = Some (User_tenant_id user) \<and> Tenant_deleted_at t = None} \<and>
    (\<forall>e \<in> set cs. child_can_act_as e \<longleftrightarrow> (\<exists>target. resolve_act_as user (child_slug e) w = (Inr target, w)))"
proof -
  let ?kids = "home_children user (tenants (db w))"
  obtain f where f: "cs = map f (order_by Tenant_slug ?kids)" "w' = w"
      "\<And>c. child_id (f c) = Tenant_id c \<and> child_slug (f c) = Tenant_slug c \<and> (child_can_act_as (f c) \<longleftrightarrow> may_act_as w user c)"
    using list_accessible_children_verdicts [OF run] by blast
  have "map child_id cs = map Tenant_id (order_by Tenant_slug ?kids)"
    using f by simp
  moreover have "distinct (map Tenant_id ?kids)"
    using ok by (simp add: tenants_ok_def home_children_def distinct_map_filter)
  ultimately have "distinct (map child_id cs)"
    by (simp add: distinct_order_by)
  moreover have "child_id ` set cs = Tenant_id ` set ?kids"
    using f by (simp add: image_image)
  moreover have "\<forall>e \<in> set cs. child_can_act_as e \<longleftrightarrow> (\<exists>target. resolve_act_as user (child_slug e) w = (Inr target, w))"
    using f resolve_act_as_iff [OF ok] by (auto simp: home_children_def)
  ultimately show ?thesis using f(2) by (simp add: home_children_def)
qed

definition sample_child :: "uuid \<Rightarrow> string \<Rightarrow> uuid option \<Rightarrow> Tenant" where
  "sample_child i slug parent = \<lparr>Tenant_id = i, Tenant_product_id = 5, Tenant_name = slug, Tenant_slug = slug,
     Tenant_status = TenantActive, Tenant_type = Company, Tenant_parent_id = parent, Tenant_is_root = (parent = None),
     Tenant_settings = [], Tenant_expires_at = None, Tenant_deleted_at = None, Tenant_created_at = 0\<rparr>"

text \<open>User 120 of tenant 107 has a binding inside the child 108, and none inside 109.\<close>

definition sample_family :: world where
  "sample_family = sample_world\<lparr>db := empty_db\<lparr>products := [sample_product],
     tenants := [sample_child 107 ''hq'' None, sample_child 109 ''b'' (Some 107), sample_child 108 ''a'' (Some 107)],
     user_roles := [\<lparr>UserRole_id = 143, UserRole_product_id = 5, UserRole_user_id = 120,
       UserRole_role_id = 140, UserRole_scope_tenant_id = Some 108\<rparr>]\<rparr>\<rparr>"

lemma sample_family_ok: "tenants_ok (tenants (db sample_family))"
  by (simp add: sample_family_def tenants_ok_def tenant_clash_def sample_child_def)

lemma accessible_children_mirror_witness:
  "\<exists>cs. list_accessible_children (sample_user 120 107) sample_family = (Inr cs, sample_family) \<and>
     map child_slug cs = [''a'', ''b''] \<and> map child_can_act_as cs = [True, False] \<and>
     (\<exists>target. resolve_act_as (sample_user 120 107) ''a'' sample_family = (Inr target, sample_family))"
proof -
  have run: "\<exists>cs. list_accessible_children (sample_user 120 107) sample_family = (Inr cs, sample_family) \<and>
     map child_slug cs = [''a'', ''b''] \<and> map child_can_act_as cs = [True, False]"
    by (simp add: list_accessible_children_def svc_simps sample_family_def sample_user_def sample_child_def
        sample_product_def empty_db_def product_blocks_def product_allows_act_as_def dict_get_def home_blocks_def
        tenant_allows_child_access_def user_has_permission_def list_user_permission_codes_def permission_codes_def
        order_by_def Let_def accessible_child_def del: set_map set_filter)
  then obtain cs where cs: "list_accessible_children (sample_user 120 107) sample_family = (Inr cs, sample_family)"
      "map child_slug cs = [''a'', ''b'']" "map child_can_act_as cs = [True, False]"
    by (elim exE conjE) (rule that)
  have "\<exists>e \<in> set cs. child_slug e = ''a'' \<and> child_can_act_as e"
    using cs(2,3) by (cases cs) auto
  then show ?thesis
    using accessible_children_mirror [OF sample_family_ok cs(1)] cs by auto
qed


section \<open>The hierarchy is kept\<close>

text \<open>Identifiers are those of random draws, live slugs are unique in a product, a tenant is a root
  exactly when it has no parent, and every stored parent is a root of the same product.\<close>

definition tenant_inv :: "world \<Rightarrow> bool" where
  "tenant_inv w \<longleftrightarrow> fresh_ids w \<and> tenants_ok (tenants (db w)) \<and> Tenant_id ` set (tenants (db w)) \<subseteq> drawn w \<and>
     (\<forall>x \<in> set (tenants (db w)). Tenant_is_root x \<longleftrightarrow> Tenant_parent_id x = None) \<and>
     (\<forall>x \<in> set (tenants (db w)). \<forall>p. Tenant_parent_id x = Some p \<longrightarrow>
        (\<exists>y \<in> set (tenants (db w)). Tenant_id y = p \<and> Tenant_is_root y \<and> Tenant_product_id y = Tenant_product_id x))"

lemma tenant_inv_cong:
  assumes "tenants (db w') = tenants (db w)" and "draws w' = draws w" and "draw_no w \<le> draw_no w'" and "tenant_inv w"
  shows "tenant_inv w'"
proof -
  have "drawn w \<subseteq> drawn w'"
    using assms(2,3) by (auto simp: drawn_def)
  then show ?thesis
    using assms by (auto simp: tenant_inv_def fresh_ids_def)
qed

text \<open>A change of a row that keeps its identity, its place in the hierarchy and its product.\<close>

lemma tenant_inv_change:
  assumes inv: "tenant_inv w"
    and same: "\<And>t. Tenant_id (f t) = Tenant_id t \<and> Tenant_product_id (f t) = Tenant_product_id t \<and>
       Tenant_parent_id (f t) = Tenant_parent_id t \<and> Tenant_is_root (f t) = Tenant_is_root t"
    and t: "t \<in> set (tenants (db w))" "Tenant_id t = i"
    and clash: "\<And>r. r \<in> set (tenants (db w)) \<Longrightarrow> Tenant_id r \<noteq> i \<Longrightarrow> \<not> tenant_clash r (f t)"
  shows "tenant_inv (w\<lparr>db := tenants_update (map_rows (\<lambda>r. Tenant_id r = i) f) (db w)\<rparr>)"
proof -
  let ?g = "\<lambda>r. if Tenant_id r = i then f r else r"
  have g: "Tenant_id (?g r) = Tenant_id r" "Tenant_product_id (?g r) = Tenant_product_id r"
      "Tenant_parent_id (?g r) = Tenant_parent_id r" "Tenant_is_root (?g r) = Tenant_is_root r" for r
    using same by auto
  have uniq: "x = t" if "x \<in> set (tenants (db w))" "Tenant_id x = i" for x
    using inv that t distinct_map_eq by (fastforce simp: tenant_inv_def tenants_ok_def)
  have one: "x = y" if "x \<in> set (tenants (db w))" "y \<in> set (tenants (db w))" "tenant_clash (?g x) (?g y)" for x y
  proof (cases "Tenant_id x = i"; cases "Tenant_id y = i")
    show ?thesis if "Tenant_id x = i" "Tenant_id y = i" using uniq that \<open>x \<in> _\<close> \<open>y \<in> _\<close> by blast
    show ?thesis if "Tenant_id x = i" "Tenant_id y \<noteq> i"
      using clash [OF \<open>y \<in> _\<close>] uniq [OF \<open>x \<in> _\<close>] that \<open>tenant_clash _ _\<close> by (auto simp: tenant_clash_def)
    show ?thesis if "Tenant_id x \<noteq> i" "Tenant_id y = i"
      using clash [OF \<open>x \<in> _\<close>] uniq [OF \<open>y \<in> _\<close>] that \<open>tenant_clash _ _\<close> by auto
    show ?thesis if "Tenant_id x \<noteq> i" "Tenant_id y \<noteq> i"
      using inv that \<open>x \<in> _\<close> \<open>y \<in> _\<close> \<open>tenant_clash _ _\<close> by (auto simp: tenant_inv_def tenants_ok_def)
  qed
  have "tenants_ok (map_rows (\<lambda>r. Tenant_id r = i) f (tenants (db w)))"
    unfolding tenants_ok_def
  proof (intro conjI ballI impI)
    show "distinct (map Tenant_id (map_rows (\<lambda>r. Tenant_id r = i) f (tenants (db w))))"
      using inv same by (simp add: tenant_inv_def tenants_ok_def)
    show "x = y" if xy: "x \<in> set (map_rows (\<lambda>r. Tenant_id r = i) f (tenants (db w)))"
        "y \<in> set (map_rows (\<lambda>r. Tenant_id r = i) f (tenants (db w)))" "tenant_clash x y" for x y
    proof -
      obtain x0 y0 where "x = ?g x0" "x0 \<in> set (tenants (db w))" "y = ?g y0" "y0 \<in> set (tenants (db w))"
        using xy(1,2) unfolding set_map_rows by blast
      then show ?thesis using one [of x0 y0] xy(3) by simp
    qed
    show "Tenant_parent_id x \<noteq> Some (Tenant_id x)" if x: "x \<in> set (map_rows (\<lambda>r. Tenant_id r = i) f (tenants (db w)))" for x
    proof -
      obtain x0 where "x = ?g x0" "x0 \<in> set (tenants (db w))"
        using x unfolding set_map_rows by blast
      then show ?thesis using inv g by (simp only: tenant_inv_def tenants_ok_def) simp
    qed
  qed
  moreover have "Tenant_id ` set (map_rows (\<lambda>r. Tenant_id r = i) f (tenants (db w))) = Tenant_id ` set (tenants (db w))"
    using same by (intro image_map_rows) simp
  moreover have "\<exists>y \<in> set (map_rows (\<lambda>r. Tenant_id r = i) f (tenants (db w))).
      Tenant_id y = p \<and> Tenant_is_root y \<and> Tenant_product_id y = Tenant_product_id x"
    if x: "x \<in> set (tenants (db w))" "Tenant_parent_id x = Some p" for x p
  proof -
    obtain y where "y \<in> set (tenants (db w))" "Tenant_id y = p" "Tenant_is_root y" "Tenant_product_id y = Tenant_product_id x"
      using inv x unfolding tenant_inv_def by blast
    then show ?thesis using same by (intro bexI [of _ "?g y"]) (auto simp: set_map_rows)
  qed
  then have "\<forall>x \<in> set (map_rows (\<lambda>r. Tenant_id r = i) f (tenants (db w))). \<forall>p. Tenant_parent_id x = Some p \<longrightarrow>
      (\<exists>y \<in> set (map_rows (\<lambda>r. Tenant_id r = i) f (tenants (db w))).
         Tenant_id y = p \<and> Tenant_is_root y \<and> Tenant_product_id y = Tenant_product_id x)"
    by (subst ball_map_rows) (simp add: g)
  moreover have "\<forall>x \<in> set (map_rows (\<lambda>r. Tenant_id r = i) f (tenants (db w))). Tenant_is_root x \<longleftrightarrow> Tenant_parent_id x = None"
    using inv unfolding ball_map_rows g tenant_inv_def by blast
  ultimately show ?thesis
    using inv by (simp add: tenant_inv_def fresh_ids_def drawn_def)
qed

lemma tenant_inv_insert:
  assumes inv: "tenant_inv w" and new: "Tenant_id t = draws w (draw_no w)"
    and root: "Tenant_is_root t \<longleftrightarrow> Tenant_parent_id t = None"
    and parent: "\<And>p. Tenant_parent_id t = Some p \<Longrightarrow>
        \<exists>y \<in> set (tenants (db w)). Tenant_id y = p \<and> Tenant_is_root y \<and> Tenant_product_id y = Tenant_product_id t"
    and clash: "\<forall>x \<in> set (tenants (db w)). \<not> tenant_clash x t"
  shows "tenant_inv (w\<lparr>draw_no := Suc (draw_no w), db := tenants_update (\<lambda>rs. rs @ [t]) (db w)\<rparr>)"
proof -
  have "Tenant_id t \<notin> drawn w"
    using inv fresh_not_drawn [of w] new by (simp add: tenant_inv_def)
  then have new_id: "Tenant_id t \<notin> Tenant_id ` set (tenants (db w))"
    using inv by (auto simp: tenant_inv_def)
  have own: "Tenant_parent_id t \<noteq> Some (Tenant_id t)"
  proof
    assume "Tenant_parent_id t = Some (Tenant_id t)"
    from parent [OF this] obtain y where "y \<in> set (tenants (db w))" "Tenant_id y = Tenant_id t" by blast
    then show False using new_id by (metis imageI)
  qed
  have "\<not> tenant_clash t x" if "x \<in> set (tenants (db w))" for x
    using clash that by (auto simp: tenant_clash_def)
  then have "tenants_ok (tenants (db w) @ [t])"
    using inv own clash new_id by (auto simp: tenant_inv_def tenants_ok_def)
  moreover have "Tenant_id ` set (tenants (db w) @ [t]) \<subseteq> draws w ` {..<Suc (draw_no w)}"
    using inv new by (auto simp: tenant_inv_def drawn_def)
  moreover have "\<forall>x \<in> set (tenants (db w) @ [t]). \<forall>p. Tenant_parent_id x = Some p \<longrightarrow>
      (\<exists>y \<in> set (tenants (db w) @ [t]). Tenant_id y = p \<and> Tenant_is_root y \<and> Tenant_product_id y = Tenant_product_id x)"
    using inv parent unfolding tenant_inv_def set_append list.set by blast
  moreover have "\<forall>x \<in> set (tenants (db w) @ [t]). Tenant_is_root x \<longleftrightarrow> Tenant_parent_id x = None"
    using inv root by (simp add: tenant_inv_def)
  ultimately show ?thesis
    using inv by (simp add: tenant_inv_def fresh_ids_def drawn_def)
qed


lemma tenant_inv_audited [simp]: "tenant_inv w \<Longrightarrow> tenant_inv (audited a w)"
  by (rule tenant_inv_cong [of "audited a w" w]) (simp, simp, rule audited_draws(1), assumption)

lemma create_tenant_keeps: "keeps tenant_inv (create_tenant product_id name slug parent_id setts actor typ)"
  unfolding keeps_wp
proof (intro allI impI)
  fix w assume inv: "tenant_inv w"
  have insert: "tenant_inv (w\<lparr>draw_no := Suc (draw_no w), db := tenants_update (\<lambda>rs. rs @ [t]) (db w)\<rparr>)"
    if "t = \<lparr>Tenant_id = draws w (draw_no w), Tenant_product_id = product_id, Tenant_name = name, Tenant_slug = slug,
           Tenant_status = TenantActive, Tenant_type = typ, Tenant_parent_id = parent_id,
           Tenant_is_root = (parent_id = None), Tenant_settings = setts, Tenant_expires_at = None,
           Tenant_deleted_at = None, Tenant_created_at = now w\<rparr>"
      and "\<forall>x \<in> set (tenants (db w)). \<not> tenant_clash x t"
      and "\<And>p. parent_id = Some p \<Longrightarrow> \<exists>y \<in> set (tenants (db w)). Tenant_id y = p \<and> Tenant_is_root y \<and> Tenant_product_id y = product_id"
    for t
    using that by (intro tenant_inv_insert [OF inv]) auto
  have drop: "tenant_inv (w\<lparr>draw_no := Suc (draw_no w)\<rparr>)"
    by (rule tenant_inv_cong [OF _ _ _ inv]) simp_all
  show "wp (create_tenant product_id name slug parent_id setts actor typ) (\<lambda>_. tenant_inv) (\<lambda>_. tenant_inv) w"
  proof (cases parent_id)
    case None
    then show ?thesis
      using inv insert drop by (auto simp: create_tenant_def wp_simps Let_def)
  next
    case (Some p)
    then show ?thesis
      using inv insert drop
      by (auto simp: create_tenant_def wp_simps Let_def dest!: find_SomeD split: option.splits)
        (intro tenant_inv_audited, blast)
  qed
qed

lemma set_status_keeps: "keeps tenant_inv (set_status tenant_id status actor)"
  unfolding keeps_wp
proof (intro allI impI)
  fix w assume inv: "tenant_inv w"
  have "tenant_inv (w\<lparr>db := tenants_update (map_rows (\<lambda>r. Tenant_id r = tenant_id) (\<lambda>r. r\<lparr>Tenant_status := status\<rparr>)) (db w)\<rparr>)"
    if "t \<in> set (tenants (db w))" "Tenant_id t = tenant_id" for t
  proof (rule tenant_inv_change [OF inv _ that])
    fix r assume r: "r \<in> set (tenants (db w))" "Tenant_id r \<noteq> tenant_id"
    then have "\<not> tenant_clash r t"
      using inv that by (auto simp: tenant_inv_def tenants_ok_def)
    then show "\<not> tenant_clash r (t\<lparr>Tenant_status := status\<rparr>)" by (simp add: tenant_clash_def)
  qed simp
  then show "wp (set_status tenant_id status actor) (\<lambda>_. tenant_inv) (\<lambda>_. tenant_inv) w"
    using inv by (auto simp: set_status_def wp_simps dest!: find_SomeD split: option.splits)
qed

lemma update_tenant_keeps: "keeps tenant_inv (update_tenant user tenant_id payload)"
  unfolding keeps_wp
proof (intro allI impI)
  fix w assume inv: "tenant_inv w"
  have "tenant_inv (w\<lparr>db := tenants_update (map_rows (\<lambda>r. Tenant_id r = tenant_id) (tenant_changes payload)) (db w)\<rparr>)"
    if "t \<in> set (tenants (db w))" "Tenant_id t = tenant_id"
      "\<forall>r \<in> set (tenants (db w)). Tenant_id r = tenant_id \<or> \<not> tenant_clash r (tenant_changes payload t)" for t
    using that by (intro tenant_inv_change [OF inv _ that(1,2)]) (auto simp: tenant_changes_def)
  then show "wp (update_tenant user tenant_id payload) (\<lambda>_. tenant_inv) (\<lambda>_. tenant_inv) w"
    using inv by (auto simp: update_tenant_def wp_simps Let_def find_None_iff_all dest!: find_SomeD split: option.splits)
qed

text \<open>The steps of the tenant table: the three writing operations, returning or raising, and any
  step of another component, which leaves the table alone and only uses up random draws.\<close>

inductive tenant_step :: "world \<Rightarrow> world \<Rightarrow> bool" where
  creates: "create_tenant product_id name slug parent_id setts actor typ w = (r, w') \<Longrightarrow> tenant_step w w'"
| sets_status: "set_status tenant_id status actor w = (r, w') \<Longrightarrow> tenant_step w w'"
| updates: "update_tenant user tenant_id payload w = (r, w') \<Longrightarrow> tenant_step w w'"
| elsewhere: "tenants (db w') = tenants (db w) \<Longrightarrow> draws w' = draws w \<Longrightarrow> draw_no w \<le> draw_no w' \<Longrightarrow> tenant_step w w'"

lemma tenant_step_inv: "tenant_step w w' \<Longrightarrow> tenant_inv w \<Longrightarrow> tenant_inv w'"
proof (induction rule: tenant_step.induct)
  case (elsewhere w' w)
  then show ?case by (rule tenant_inv_cong)
qed (blast intro: keepsD create_tenant_keeps set_status_keeps update_tenant_keeps)+

text \<open>C9: the tenants of a product stay a forest of depth one. Along every run of the writing
  operations, in any interleaving with the other components, live slugs stay unique in their
  product, a tenant is a root exactly when it has no parent, and the parent of every child is a
  stored root of the same product.\<close>

theorem tenant_hierarchy_invariant:
  assumes "tenant_step\<^sup>*\<^sup>* w w'" and "tenant_inv w"
  shows "tenant_inv w'"
  using assms by (induction rule: rtranclp_induct) (blast intro: tenant_step_inv)+


definition sample_hq :: world where
  "sample_hq = sample_family\<lparr>draw_no := 200\<rparr>"

lemma sample_hq_inv: "tenant_inv sample_hq"
proof -
  have "fresh_ids sample_hq" by (auto simp: sample_hq_def sample_family_def fresh_ids_def sample_world_def NIL_def)
  moreover have "Tenant_id ` set (tenants (db sample_hq)) \<subseteq> drawn sample_hq"
  proof -
    have "Suc (n - 1) \<in> drawn sample_hq" if "0 < n" "n \<le> 200" for n
      using that by (simp add: drawn_def sample_hq_def sample_family_def sample_world_def image_Suc_lessThan)
    from this [of 107] this [of 108] this [of 109] show ?thesis
      by (simp add: sample_hq_def sample_family_def sample_child_def)
  qed
  moreover have "tenants_ok (tenants (db sample_hq))"
    using sample_family_ok by (simp add: sample_hq_def)
  ultimately show ?thesis
    by (simp add: tenant_inv_def) (simp add: sample_hq_def sample_family_def sample_child_def)
qed

theorem tenant_hierarchy_invariant_witness:
  "\<exists>w'. tenant_step\<^sup>*\<^sup>* sample_hq w' \<and> tenant_inv w' \<and> length (tenants (db w')) = 4"
proof -
  obtain r w' where run: "create_tenant 5 ''C'' ''c'' (Some 107) [] None Company sample_hq = (r, w')"
      "length (tenants (db w')) = 4"
    by (cases "create_tenant 5 ''C'' ''c'' (Some 107) [] None Company sample_hq")
      (auto simp: create_tenant_def svc_simps Let_def sample_hq_def sample_family_def sample_child_def tenant_clash_def)
  then have "tenant_step\<^sup>*\<^sup>* sample_hq w'"
    by (blast intro: creates)
  then show ?thesis
    using tenant_hierarchy_invariant [OF _ sample_hq_inv] run(2) by blast
qed

end
