(* ===== verification/Auth.thy ===== *)
theory Auth
  imports Security Tenancy Lifecycle
begin

text \<open>
  The account flows of \<^verbatim>\<open>app/services/auth.py\<close>: registration, login, refresh-token
  rotation, logout, password change and reset. An assignment on a loaded row is an update of the
  row; it is visible at once, as it is through the session's identity map, and written by the
  flush that follows.
\<close>

section \<open>Refresh tokens\<close>

definition user_clash :: "User \<Rightarrow> User \<Rightarrow> bool" where
  "user_clash x y \<longleftrightarrow> User_tenant_id x = User_tenant_id y \<and> User_email x = User_email y \<and>
     User_deleted_at x = None \<and> User_deleted_at y = None"

definition refresh_token_clash :: "RefreshToken \<Rightarrow> RefreshToken \<Rightarrow> bool" where
  "refresh_token_clash x y \<longleftrightarrow> RefreshToken_jti x = RefreshToken_jti y"

definition reset_token_clash :: "PasswordResetToken \<Rightarrow> PasswordResetToken \<Rightarrow> bool" where
  "reset_token_clash x y \<longleftrightarrow> PasswordResetToken_token_hash x = PasswordResetToken_token_hash y"

text \<open>\<^verbatim>\<open>isinstance(days, int) and 1 <= days <= 365\<close>: a boolean is an integer in
  Python.\<close>

fun ttl_days :: "json \<Rightarrow> int option" where
  "ttl_days (JInt n) = (if 1 \<le> n \<and> n \<le> 365 then Some n else None)"
| "ttl_days (JBool b) = (if b then Some 1 else None)"
| "ttl_days _ = None"

definition refresh_ttl_seconds :: "uuid \<Rightarrow> int service" where
  "refresh_ttl_seconds product_id =
     bindS (scalar products (\<lambda>p. Product_id p = product_id)) (\<lambda>product.
     bindS (gets settings) (\<lambda>st.
     case product of
       None \<Rightarrow> ret (jwt_refresh_ttl_seconds st)
     | Some p \<Rightarrow>
     bindS (liftE (json_get (dict_get (Product_settings p) ''auth'' (JObj [])) ''refresh_ttl_days'' JNull)) (\<lambda>n.
     case ttl_days n of
       Some d \<Rightarrow> ret (d * 86400)
     | None \<Rightarrow> ret (jwt_refresh_ttl_seconds st))))"

text \<open>\<^verbatim>\<open>_audit_in_new_tx\<close>: the entry is committed by itself.\<close>

definition audit_in_new_tx :: "audit_args \<Rightarrow> unit service" where
  "audit_in_new_tx a =
     modify (\<lambda>w. w\<lparr>draw_no := draw_no (audited a w),
       audit_new_tx := audit_new_tx w @ drop (length (audit_log (db w))) (audit_log (db (audited a w)))\<rparr>)"

text \<open>The pair of tokens every login ends with, and the server-side record of the refresh token.\<close>

definition add_refresh_token ::
    "User \<Rightarrow> uuid \<Rightarrow> time \<Rightarrow> string option \<Rightarrow> string option \<Rightarrow> unit service" where
  "add_refresh_token user jti expires_at user_agent ip_address =
     bindS fresh (\<lambda>i.
     insert_row refresh_tokens refresh_tokens_update refresh_token_clash
       \<lparr>RefreshToken_id = i, RefreshToken_product_id = User_product_id user,
        RefreshToken_user_id = User_id user, RefreshToken_jti = jti, RefreshToken_expires_at = expires_at,
        RefreshToken_revoked_at = None, RefreshToken_user_agent = user_agent,
        RefreshToken_ip_address = ip_address\<rparr>)"

definition issue_pair :: "User \<Rightarrow> string option \<Rightarrow> string option \<Rightarrow> (string \<times> string \<times> time) service" where
  "issue_pair user user_agent ip_address =
     bindS (issue_token (User_id user) (Some (User_tenant_id user)) (Some (User_product_id user)) Access None)
       (\<lambda>(access_token, _, access_exp).
     bindS (refresh_ttl_seconds (User_product_id user)) (\<lambda>n.
     bindS (issue_token (User_id user) (Some (User_tenant_id user)) (Some (User_product_id user)) Refresh (Some n))
       (\<lambda>(refresh_token, jti, refresh_exp).
     bindS (add_refresh_token user jti refresh_exp user_agent ip_address) (\<lambda>_.
     ret (access_token, refresh_token, access_exp)))))"

definition set_user :: "uuid \<Rightarrow> (User \<Rightarrow> User) \<Rightarrow> unit service" where
  "set_user user_id f = update_rows users_update (\<lambda>u. User_id u = user_id) f"

text \<open>\<^verbatim>\<open>update(RefreshToken).where(user_id, revoked_at IS NULL).values(revoked_at=now)\<close>\<close>

definition revoke_all :: "uuid \<Rightarrow> unit service" where
  "revoke_all user_id =
     bindS (gets now) (\<lambda>t.
     update_rows refresh_tokens_update
       (\<lambda>r. RefreshToken_user_id r = user_id \<and> RefreshToken_revoked_at r = None)
       (\<lambda>r. r\<lparr>RefreshToken_revoked_at := Some t\<rparr>))"


section \<open>Registration\<close>

definition register ::
    "uuid \<Rightarrow> string \<Rightarrow> string \<Rightarrow> string \<Rightarrow> string \<Rightarrow> string option \<Rightarrow> TenantType \<Rightarrow> (User \<times> Tenant) service" where
  "register product_id tenant_name tenant_slug email password full_name tenant_type =
     bindS (create_tenant product_id tenant_name tenant_slug None [] None tenant_type) (\<lambda>tenant.
     bindS (set_current_product (Some product_id)) (\<lambda>_.
     bindS (set_current_tenant (Some (Tenant_id tenant))) (\<lambda>_.
     bindS (hash_password password) (\<lambda>h.
     bindS fresh (\<lambda>i.
     let user = \<lparr>User_id = i, User_product_id = product_id, User_tenant_id = Tenant_id tenant,
           User_email = str_lower email, User_password_hash = h, User_full_name = full_name,
           User_is_active = True, User_is_verified = False, User_last_login_at = None,
           User_deleted_at = None, User_is_platform_admin = False\<rparr>
     in
     bindS (insert_row users users_update user_clash user) (\<lambda>_.
     bindS (ensure_system_roles_for_product product_id) (\<lambda>_.
     bindS (assign_role_by_name user ''owner'') (\<lambda>_.
     bindS (start_trial (Tenant_id tenant) product_id None) (\<lambda>_.
     bindS (record_audit ((act ''user.register'')\<lparr>a_actor_user_id := Some i, a_resource_type := Some ''user'',
              a_resource_id := Some i,
              a_diff := [(''email'', JStr email), (''tenant_type'', JStr (tenant_type_value tenant_type))]\<rparr>)) (\<lambda>_.
     ret (user, tenant)))))))))))"

definition derive_individual_slug :: "string service" where
  "derive_individual_slug = bindS fresh (\<lambda>u. ret (''usr-'' @ take 8 (hex_w 32 u)))"

definition name_of_email :: "string \<Rightarrow> string" where
  "name_of_email email =
     (let local_part = takeWhile (\<lambda>c. c \<noteq> CHR ''@'') email;
          s = str_title False (str_replace (CHR ''-'') (CHR '' '') (str_replace (CHR ''_'') (CHR '' '')
                (str_replace (CHR ''.'') (CHR '' '') local_part)))
      in if s \<noteq> [] then s else ''User'')"

definition derive_individual_name :: "string \<Rightarrow> string option \<Rightarrow> string" where
  "derive_individual_name email full_name =
     (case full_name of
        Some n \<Rightarrow> if n \<noteq> [] \<and> str_strip n \<noteq> [] then str_strip n else name_of_email email
      | None \<Rightarrow> name_of_email email)"

text \<open>Three rounds; a \<open>Conflict\<close> starts the next one, any other exception passes through.\<close>

fun individual_attempts ::
    "nat \<Rightarrow> uuid \<Rightarrow> string \<Rightarrow> string \<Rightarrow> string option \<Rightarrow> (User \<times> Tenant) service" where
  "individual_attempts 0 product_id email password full_name =
     raise (Conflict ''could not derive a unique slug after retries (extreme bad luck)'')"
| "individual_attempts (Suc n) product_id email password full_name =
     bindS derive_individual_slug (\<lambda>slug.
     tryS (register product_id (derive_individual_name email full_name) slug email password full_name Individual)
       (\<lambda>e. case e of Conflict _ \<Rightarrow> individual_attempts n product_id email password full_name | _ \<Rightarrow> raise e))"

definition register_individual :: "uuid \<Rightarrow> string \<Rightarrow> string \<Rightarrow> string option \<Rightarrow> (User \<times> Tenant) service" where
  "register_individual = individual_attempts 3"


section \<open>Login, refresh, logout\<close>

definition login_failed :: "User \<Rightarrow> string option \<Rightarrow> string \<Rightarrow> audit_args" where
  "login_failed user ip_address reason = (act ''user.login_failed'')\<lparr>a_actor_user_id := Some (User_id user),
     a_actor_ip := ip_address, a_resource_type := Some ''user'', a_resource_id := Some (User_id user),
     a_tenant_id := Some (User_tenant_id user), a_product_id := Some (User_product_id user),
     a_diff := [(''reason'', JStr reason)]\<rparr>"

text \<open>The query of the login: a live user of the product with the email, whose tenant exists (and
  has the slug, when one is given).\<close>

definition login_user :: "uuid \<Rightarrow> string \<Rightarrow> string option \<Rightarrow> User option service" where
  "login_user product_id email tenant_slug =
     bindS (gets (\<lambda>w. tenants (db w))) (\<lambda>ts.
     scalar users (\<lambda>u. (\<exists>t \<in> set ts. Tenant_id t = User_tenant_id u \<and>
           (truthy tenant_slug \<longrightarrow> Some (Tenant_slug t) = tenant_slug)) \<and>
         User_email u = str_lower email \<and> User_product_id u = product_id \<and> User_deleted_at u = None))"

definition login ::
    "uuid \<Rightarrow> string \<Rightarrow> string \<Rightarrow> string option \<Rightarrow> string option \<Rightarrow> string option \<Rightarrow> (User \<times> string \<times> string \<times> time) service" where
  "login product_id email password tenant_slug user_agent ip_address =
     bindS (login_user product_id email tenant_slug) (\<lambda>user.
     case user of
       None \<Rightarrow> raise (Unauthorized ''invalid credentials'')
     | Some user \<Rightarrow>
     if \<not> User_is_active user
     then bindS (audit_in_new_tx (login_failed user ip_address ''inactive_user'')) (\<lambda>_.
          raise (Unauthorized ''invalid credentials''))
     else
     bindS (verify_password password (User_password_hash user)) (\<lambda>ok.
     if \<not> ok
     then bindS (audit_in_new_tx (login_failed user ip_address ''bad_password'')) (\<lambda>_.
          raise (Unauthorized ''invalid credentials''))
     else
     bindS (needs_rehash (User_password_hash user)) (\<lambda>stale.
     bindS (if stale
            then bindS (hash_password password) (\<lambda>h. set_user (User_id user) (\<lambda>u. u\<lparr>User_password_hash := h\<rparr>))
            else ret ()) (\<lambda>_.
     bindS (set_current_product (Some (User_product_id user))) (\<lambda>_.
     bindS (set_current_tenant (Some (User_tenant_id user))) (\<lambda>_.
     bindS (issue_pair user user_agent ip_address) (\<lambda>(access_token, refresh_token, access_exp).
     bindS (gets now) (\<lambda>t.
     bindS (set_user (User_id user) (\<lambda>u. u\<lparr>User_last_login_at := Some t\<rparr>)) (\<lambda>_.
     bindS (record_audit ((act ''user.login'')\<lparr>a_actor_user_id := Some (User_id user),
              a_resource_type := Some ''user'', a_resource_id := Some (User_id user), a_actor_ip := ip_address\<rparr>)) (\<lambda>_.
     ret (user, access_token, refresh_token, access_exp)))))))))))"

definition refresh :: "string \<Rightarrow> (User \<times> string \<times> string \<times> time) service" where
  "refresh refresh_token =
     bindS (decode_token refresh_token (Some Refresh)) (\<lambda>payload.
     case payload of
       None \<Rightarrow> raise (Unauthorized ''invalid refresh token'')
     | Some payload \<Rightarrow>
     bindS (scalar refresh_tokens (\<lambda>r. RefreshToken_jti r = claim_jti payload)) (\<lambda>record.
     bindS (gets now) (\<lambda>t.
     case record of
       None \<Rightarrow> raise (Unauthorized ''refresh token revoked or expired'')
     | Some record \<Rightarrow>
     if RefreshToken_revoked_at record \<noteq> None \<or> RefreshToken_expires_at record \<le> t
     then raise (Unauthorized ''refresh token revoked or expired'')
     else
     bindS (scalar users (\<lambda>u. User_id u = claim_sub payload)) (\<lambda>user.
     case user of
       None \<Rightarrow> raise (Unauthorized ''user inactive'')
     | Some user \<Rightarrow>
     if \<not> User_is_active user then raise (Unauthorized ''user inactive'')
     else
     bindS (update_rows refresh_tokens_update (\<lambda>r. RefreshToken_id r = RefreshToken_id record)
              (\<lambda>r. r\<lparr>RefreshToken_revoked_at := Some t\<rparr>)) (\<lambda>_.
     bindS (set_current_product (Some (User_product_id user))) (\<lambda>_.
     bindS (set_current_tenant (Some (User_tenant_id user))) (\<lambda>_.
     bindS (issue_pair user None None) (\<lambda>(access_token, new_refresh, access_exp).
     ret (user, access_token, new_refresh, access_exp)))))))))"

definition logout :: "User \<Rightarrow> string option \<Rightarrow> bool \<Rightarrow> unit service" where
  "logout user refresh_token all_sessions =
     (let done = record_audit ((act ''user.logout'')\<lparr>a_actor_user_id := Some (User_id user),
            a_resource_type := Some ''user'', a_resource_id := Some (User_id user),
            a_diff := [(''all_sessions'', JBool all_sessions)]\<rparr>)
      in
      if all_sessions then bindS (revoke_all (User_id user)) (\<lambda>_. done)
      else if truthy refresh_token
      then bindS (decode_token (the refresh_token) (Some Refresh)) (\<lambda>payload.
           case payload of
             None \<Rightarrow> ret ()
           | Some payload \<Rightarrow>
           bindS (gets now) (\<lambda>t.
           bindS (update_rows refresh_tokens_update
                    (\<lambda>r. RefreshToken_jti r = claim_jti payload \<and> RefreshToken_user_id r = User_id user)
                    (\<lambda>r. r\<lparr>RefreshToken_revoked_at := Some t\<rparr>)) (\<lambda>_. done)))
      else done)"


section \<open>Password change and reset\<close>

definition change_password :: "User \<Rightarrow> string \<Rightarrow> string \<Rightarrow> unit service" where
  "change_password user current_password new_password =
     bindS (verify_password current_password (User_password_hash user)) (\<lambda>ok.
     if \<not> ok then raise (Unauthorized ''current password incorrect'')
     else if current_password = new_password then raise (Conflict ''new password must differ from current'')
     else
     bindS (hash_password new_password) (\<lambda>h.
     bindS (set_user (User_id user) (\<lambda>u. u\<lparr>User_password_hash := h\<rparr>)) (\<lambda>_.
     bindS (revoke_all (User_id user)) (\<lambda>_.
     record_audit ((act ''user.password_change'')\<lparr>a_actor_user_id := Some (User_id user),
       a_resource_type := Some ''user'', a_resource_id := Some (User_id user)\<rparr>)))))"

definition PASSWORD_RESET_TTL_HOURS :: int where
  "PASSWORD_RESET_TTL_HOURS = 1"

definition hash_token :: "string \<Rightarrow> string service" where
  "hash_token raw = gets (\<lambda>w. sha256_hex (lib w) raw)"

definition request_password_reset ::
    "uuid \<Rightarrow> string \<Rightarrow> string option \<Rightarrow> (string \<times> time) option service" where
  "request_password_reset product_id email ip_address =
     bindS (scalar users (\<lambda>u. User_product_id u = product_id \<and> User_email u = str_lower email \<and>
              User_deleted_at u = None \<and> User_is_active u)) (\<lambda>user.
     case user of
       None \<Rightarrow> ret None
     | Some user \<Rightarrow>
     bindS fresh (\<lambda>d.
     bindS (gets now) (\<lambda>t.
     let raw_token = token_urlsafe 32 d;
         expires_at = t + seconds (PASSWORD_RESET_TTL_HOURS * 3600)
     in
     bindS (hash_token raw_token) (\<lambda>h.
     bindS fresh (\<lambda>i.
     bindS (insert_row password_reset_tokens password_reset_tokens_update reset_token_clash
              \<lparr>PasswordResetToken_id = i, PasswordResetToken_product_id = product_id,
               PasswordResetToken_user_id = User_id user, PasswordResetToken_token_hash = h,
               PasswordResetToken_expires_at = expires_at, PasswordResetToken_used_at = None,
               PasswordResetToken_requested_ip = ip_address\<rparr>) (\<lambda>_.
     bindS (record_audit ((act ''user.password_reset_requested'')\<lparr>a_actor_user_id := Some (User_id user),
              a_resource_type := Some ''user'', a_resource_id := Some (User_id user),
              a_tenant_id := Some (User_tenant_id user), a_product_id := Some product_id,
              a_diff := [(''ip'', jopt JStr ip_address)]\<rparr>)) (\<lambda>_.
     ret (Some (raw_token, expires_at)))))))))"

definition confirm_password_reset :: "string \<Rightarrow> string \<Rightarrow> User service" where
  "confirm_password_reset token new_password =
     bindS (hash_token token) (\<lambda>token_hash.
     bindS (gets now) (\<lambda>t.
     bindS (scalar password_reset_tokens (\<lambda>r. PasswordResetToken_token_hash r = token_hash)) (\<lambda>record.
     case record of
       None \<Rightarrow> raise (NotFound ''reset token not found'')
     | Some record \<Rightarrow>
     if PasswordResetToken_used_at record \<noteq> None then raise (Unauthorized ''reset token already used'')
     else if PasswordResetToken_expires_at record \<le> t then raise (Unauthorized ''reset token expired'')
     else
     bindS (scalar users (\<lambda>u. User_id u = PasswordResetToken_user_id record)) (\<lambda>user.
     case user of
       None \<Rightarrow> raise (Unauthorized ''user inactive or missing'')
     | Some user \<Rightarrow>
     if \<not> User_is_active user \<or> User_deleted_at user \<noteq> None
     then raise (Unauthorized ''user inactive or missing'')
     else
     bindS (hash_password new_password) (\<lambda>h.
     bindS (set_user (User_id user) (\<lambda>u. u\<lparr>User_password_hash := h\<rparr>)) (\<lambda>_.
     bindS (update_rows password_reset_tokens_update (\<lambda>r. PasswordResetToken_id r = PasswordResetToken_id record)
              (\<lambda>r. r\<lparr>PasswordResetToken_used_at := Some t\<rparr>)) (\<lambda>_.
     bindS (revoke_all (User_id user)) (\<lambda>_.
     bindS (record_audit ((act ''user.password_reset'')\<lparr>a_actor_user_id := Some (User_id user),
              a_resource_type := Some ''user'', a_resource_id := Some (User_id user),
              a_tenant_id := Some (User_tenant_id user), a_product_id := Some (User_product_id user)\<rparr>)) (\<lambda>_.
     ret (user\<lparr>User_password_hash := h\<rparr>))))))))))"


section \<open>Tokens that were spent\<close>

definition jti_dead :: "uuid \<Rightarrow> world \<Rightarrow> bool" where
  "jti_dead j w \<longleftrightarrow> (\<exists>r. List.find (\<lambda>r. RefreshToken_jti r = j) (refresh_tokens (db w)) = Some r \<and>
     RefreshToken_revoked_at r \<noteq> None)"

definition hash_dead :: "string \<Rightarrow> world \<Rightarrow> bool" where
  "hash_dead h w \<longleftrightarrow> (\<exists>r. List.find (\<lambda>r. PasswordResetToken_token_hash r = h) (password_reset_tokens (db w)) = Some r \<and>
     PasswordResetToken_used_at r \<noteq> None)"

definition token_tables :: "world \<Rightarrow> RefreshToken list \<times> PasswordResetToken list \<times> libs" where
  "token_tables w = (refresh_tokens (db w), password_reset_tokens (db w), lib w)"

lemma token_tables_simps [simp]:
  "token_tables (w\<lparr>draw_no := n\<rparr>) = token_tables w" "token_tables (w\<lparr>cur_product := p\<rparr>) = token_tables w"
  "token_tables (w\<lparr>cur_tenant := t\<rparr>) = token_tables w" "token_tables (audited a w) = token_tables w"
  "token_tables (w\<lparr>db := users_update f (db w)\<rparr>) = token_tables w"
  "token_tables (w\<lparr>audit_new_tx := x\<rparr>) = token_tables w"
  "token_tables (w\<lparr>draw_no := n, audit_new_tx := x\<rparr>) = token_tables w"
  by (simp_all add: token_tables_def)

lemma tables_create_tenant: "frames token_tables (create_tenant product_id name slug parent_id setts actor typ)"
  unfolding create_tenant_def Let_def
  by (intro frames_intros) (simp_all add: token_tables_def)

lemma tables_ensure_template: "frames token_tables (ensure_template cat pid ex t)"
  unfolding ensure_template_def add_role_permission_def Let_def
  by (intro frames_intros) (simp_all add: token_tables_def)

lemma tables_ensure_roles: "frames token_tables (ensure_system_roles_for_product product_id)"
  unfolding ensure_system_roles_for_product_def ensure_permission_catalog_def add_permission_def Let_def
  by (intro frames_intros tables_ensure_template) (simp_all add: token_tables_def)

lemma tables_assign_role: "frames token_tables (assign_role_by_name user name)"
  unfolding assign_role_by_name_def assign_role_def Let_def
  by (intro frames_intros) (simp_all add: token_tables_def)

lemma tables_grant_plan: "frames token_tables (grant_plan_credits t p plan reference)"
  by (rule keeps_frames, rule keeps_credit_grant) (simp_all add: token_tables_def)

lemma tables_start_trial: "frames token_tables (start_trial tenant_id product_id plan_code)"
  unfolding start_trial_def trial_plan_def plan_by_code_def list_plans_def Let_def
  by (intro frames_intros tables_grant_plan) (simp_all add: token_tables_def)

lemma tables_elsewhere:
  "frames token_tables (set_user i f)" "frames token_tables (hash_password p)"
  "frames token_tables (audit_in_new_tx a)" "frames token_tables (set_current_product x)"
  "frames token_tables (set_current_tenant y)" "frames token_tables fresh" "frames token_tables (record_audit a)"
  by (simp_all add: frames_def svc_simps set_user_def audit_in_new_tx_def context_defs)

lemma tables_add_user: "frames token_tables (insert_row users users_update clash u)"
  by (rule frames_insert_row) simp

lemmas tables_frames = tables_create_tenant tables_ensure_roles tables_assign_role tables_start_trial
  tables_elsewhere tables_add_user

lemma register_token_tables:
  "frames token_tables (register product_id tenant_name tenant_slug email password full_name tenant_type)"
  unfolding register_def Let_def by (intro frames_bindS frames_ret tables_frames)

text \<open>Both kinds of death survive the writes of this component.\<close>

lemma dead_cong:
  "token_tables w' = token_tables w \<Longrightarrow> jti_dead j w' = jti_dead j w"
  "token_tables w' = token_tables w \<Longrightarrow> hash_dead h w' = hash_dead h w"
  by (simp_all add: token_tables_def jti_dead_def hash_dead_def)

lemma find_map_rows_dead:
  assumes "\<exists>r. List.find Q rs = Some r \<and> D r" and "\<And>r. Q (f r) = Q r" and "\<And>r. D r \<Longrightarrow> D (f r)"
  shows "\<exists>r. List.find Q (map_rows P f rs) = Some r \<and> D r"
proof -
  obtain r where r: "List.find Q rs = Some r" "D r" using assms(1) by blast
  have "List.find Q (map_rows P f rs) = Some (if P r then f r else r)"
    using find_map_rows_keep [of Q f P rs] assms(2) r(1) by simp
  then show ?thesis using assms(3) r(2) by auto
qed

lemma jti_dead_update:
  assumes "\<And>r. RefreshToken_jti (f r) = RefreshToken_jti r"
    and "\<And>r. RefreshToken_revoked_at r \<noteq> None \<Longrightarrow> RefreshToken_revoked_at (f r) \<noteq> None"
  shows "jti_dead j w \<Longrightarrow> jti_dead j (w\<lparr>db := refresh_tokens_update (map_rows P f) (db w)\<rparr>)"
  unfolding jti_dead_def using assms by (simp add: find_map_rows_dead)

lemma jti_dead_insert:
  "jti_dead j w \<Longrightarrow> jti_dead j (w\<lparr>db := refresh_tokens_update (\<lambda>rs. rs @ [r]) (db w)\<rparr>)"
  by (auto simp: jti_dead_def find_append)

lemma hash_dead_update:
  "hash_dead h w \<Longrightarrow> hash_dead h (w\<lparr>db := password_reset_tokens_update (map_rows P (\<lambda>r. r\<lparr>PasswordResetToken_used_at := Some t\<rparr>)) (db w)\<rparr>)"
  unfolding hash_dead_def by (simp add: find_map_rows_dead)

lemma hash_dead_insert:
  "hash_dead h w \<Longrightarrow> hash_dead h (w\<lparr>db := password_reset_tokens_update (\<lambda>rs. rs @ [r]) (db w)\<rparr>)"
  by (auto simp: hash_dead_def find_append)

definition spent_kept :: "uuid option \<Rightarrow> string option \<Rightarrow> libs \<Rightarrow> world \<Rightarrow> bool" where
  "spent_kept j h l w \<longleftrightarrow> lib w = l \<and> (\<forall>x. j = Some x \<longrightarrow> jti_dead x w) \<and> (\<forall>x. h = Some x \<longrightarrow> hash_dead x w)"

lemma spent_kept_cong: "token_tables w' = token_tables w \<Longrightarrow> spent_kept j h l w \<Longrightarrow> spent_kept j h l w'"
  using dead_cong [of w' w] by (simp add: spent_kept_def) (simp add: token_tables_def)

lemma frames_spent: "frames token_tables m \<Longrightarrow> keeps (spent_kept j h l) m"
  unfolding frames_def keeps_def by (blast intro: spent_kept_cong)

lemma spent_kept_refresh_update:
  assumes "\<And>r. RefreshToken_jti (f r) = RefreshToken_jti r"
    and "\<And>r. RefreshToken_revoked_at r \<noteq> None \<Longrightarrow> RefreshToken_revoked_at (f r) \<noteq> None"
  shows "keeps (spent_kept j h l) (update_rows refresh_tokens_update P f)"
  by (rule keeps_update_rows) (auto simp: spent_kept_def hash_dead_def jti_dead_update [OF assms])

lemma keeps_spent_refresh_insert:
  "keeps (spent_kept j h l) (insert_row refresh_tokens refresh_tokens_update clash r)"
  by (rule keeps_insert_row) (auto simp: spent_kept_def hash_dead_def jti_dead_insert)

lemma keeps_spent_reset_insert:
  "keeps (spent_kept j h l) (insert_row password_reset_tokens password_reset_tokens_update clash r)"
  by (rule keeps_insert_row) (auto simp: spent_kept_def jti_dead_def hash_dead_insert)

lemma keeps_spent_reset_update:
  "keeps (spent_kept j h l) (update_rows password_reset_tokens_update P (\<lambda>r. r\<lparr>PasswordResetToken_used_at := Some t\<rparr>))"
  by (rule keeps_update_rows) (auto simp: spent_kept_def jti_dead_def hash_dead_update)

lemmas keeps_spent = keeps_spent_refresh_insert keeps_spent_reset_insert keeps_spent_reset_update
  tables_elsewhere [THEN frames_spent]


section \<open>The steps of the account flows\<close>

lemma keeps_spent_issue: "keeps (spent_kept j h l) (issue_pair user ua ip)"
  unfolding issue_pair_def issue_token_def refresh_ttl_seconds_def add_refresh_token_def
  by (intro keeps_intros keeps_spent)

lemma keeps_spent_revoke_all: "keeps (spent_kept j h l) (revoke_all u)"
  unfolding revoke_all_def by (intro keeps_intros spent_kept_refresh_update) simp_all

lemma keeps_spent_login: "keeps (spent_kept j h l) (login p e pw slug ua ip)"
  unfolding login_def login_user_def verify_password_def needs_rehash_def Let_def
  by (intro keeps_intros keeps_spent keeps_spent_issue)

lemma keeps_spent_refresh: "keeps (spent_kept j h l) (refresh tok)"
  unfolding refresh_def decode_token_def
  by (intro keeps_intros keeps_spent keeps_spent_issue spent_kept_refresh_update) simp_all

lemma keeps_spent_logout: "keeps (spent_kept j h l) (logout user tok all)"
  unfolding logout_def decode_token_def Let_def
  by (intro keeps_intros keeps_spent keeps_spent_revoke_all spent_kept_refresh_update) simp_all

lemma keeps_spent_change: "keeps (spent_kept j h l) (change_password user old new)"
  unfolding change_password_def verify_password_def
  by (intro keeps_intros keeps_spent keeps_spent_revoke_all)

lemma keeps_spent_request: "keeps (spent_kept j h l) (request_password_reset p e ip)"
  unfolding request_password_reset_def hash_token_def Let_def
  by (intro keeps_intros keeps_spent)

lemma keeps_spent_confirm: "keeps (spent_kept j h l) (confirm_password_reset tok new)"
  unfolding confirm_password_reset_def hash_token_def
  by (intro keeps_intros keeps_spent keeps_spent_revoke_all)

text \<open>One rule per operation, whether it returns or raises; the last rule is any step of another
  component, which leaves both token tables alone and may let the clock advance.\<close>

inductive auth_step :: "world \<Rightarrow> world \<Rightarrow> bool" where
  registers: "register p name slug email pw full typ w = (r, w') \<Longrightarrow> auth_step w w'"
| logs_in: "login p email pw slug' ua ip w = (r, w') \<Longrightarrow> auth_step w w'"
| refreshes: "refresh tok w = (r, w') \<Longrightarrow> auth_step w w'"
| logs_out: "logout user tok' all w = (r, w') \<Longrightarrow> auth_step w w'"
| changes: "change_password user old new w = (r, w') \<Longrightarrow> auth_step w w'"
| requests: "request_password_reset p email ip w = (r, w') \<Longrightarrow> auth_step w w'"
| confirms: "confirm_password_reset tok new w = (r, w') \<Longrightarrow> auth_step w w'"
| elsewhere: "token_tables w' = token_tables w \<Longrightarrow> auth_step w w'"

lemma auth_step_spent: "auth_step w w' \<Longrightarrow> spent_kept j h l w \<Longrightarrow> spent_kept j h l w'"
  by (induction rule: auth_step.induct)
    (auto intro: keepsD [OF keeps_spent_login] keepsD [OF keeps_spent_refresh] keepsD [OF keeps_spent_logout]
       keepsD [OF keeps_spent_change] keepsD [OF keeps_spent_request] keepsD [OF keeps_spent_confirm]
       keepsD [OF frames_spent [OF register_token_tables]] spent_kept_cong)

lemma auth_step_dead:
  "auth_step w w' \<Longrightarrow> lib w' = lib w"
  "auth_step w w' \<Longrightarrow> jti_dead j w \<Longrightarrow> jti_dead j w'"
  "auth_step w w' \<Longrightarrow> hash_dead h w \<Longrightarrow> hash_dead h w'"
  using auth_step_spent [of w w' None None "lib w"] auth_step_spent [of w w' "Some j" None "lib w"]
    auth_step_spent [of w w' None "Some h" "lib w"]
  by (simp_all add: spent_kept_def)

text \<open>A refresh token is dead when the claims it carries, if it decodes at all, name a revoked row;
  a reset token when the row of its digest was used.\<close>

definition refresh_dead :: "string \<Rightarrow> world \<Rightarrow> bool" where
  "refresh_dead tok w \<longleftrightarrow> (\<forall>t c. jwt_decode (lib w) t tok = Some c \<longrightarrow> jti_dead (claim_jti c) w)"

definition reset_dead :: "string \<Rightarrow> world \<Rightarrow> bool" where
  "reset_dead tok w \<longleftrightarrow> hash_dead (sha256_hex (lib w) tok) w"

definition libs_ok :: "world \<Rightarrow> bool" where
  "libs_ok w \<longleftrightarrow> auth_libs_ok (lib w)"

lemma refresh_returnsD:
  assumes "refresh tok w = (Inr a, w')"
  obtains c r u where "jwt_decode (lib w) (now w) tok = Some c" "claim_typ c = Refresh"
    "List.find (\<lambda>r. RefreshToken_jti r = claim_jti c) (refresh_tokens (db w)) = Some r"
    "RefreshToken_revoked_at r = None" "now w < RefreshToken_expires_at r"
    "List.find (\<lambda>u. User_id u = claim_sub c) (users (db w)) = Some u" "User_is_active u"
    "bindS (set_current_product (Some (User_product_id u))) (\<lambda>_.
     bindS (set_current_tenant (Some (User_tenant_id u))) (\<lambda>_.
     bindS (issue_pair u None None) (\<lambda>(access_token, new_refresh, access_exp).
     ret (u, access_token, new_refresh, access_exp))))
       (w\<lparr>db := refresh_tokens_update (map_rows (\<lambda>x. RefreshToken_id x = RefreshToken_id r)
          (\<lambda>x. x\<lparr>RefreshToken_revoked_at := Some (now w)\<rparr>)) (db w)\<rparr>) = (Inr a, w')"
  using assms unfolding refresh_def bindS_Inr_iff
  by (auto simp: decode_token_def gets_apply scalar_apply update_rows_apply bindS_Inr_iff raise_apply
      split: option.splits if_splits)


lemma decode_same:
  assumes "auth_libs_ok l" and "jwt_decode l t s = Some c" and "jwt_decode l t' s = Some c'"
  shows "c' = c"
proof -
  have "\<forall>t t' s c c'. jwt_decode l t s = Some c \<longrightarrow> jwt_decode l t' s = Some c' \<longrightarrow> c = c'"
    using assms(1) unfolding auth_libs_ok_def by (elim conjE)
  then show ?thesis using assms(2,3) by blast
qed

text \<open>What a redemption does to its own row, and what comes after keeps it so.\<close>

lemma jti_dead_revoked:
  assumes "List.find (\<lambda>r. RefreshToken_jti r = j) (refresh_tokens (db w)) = Some r"
  shows "jti_dead j (w\<lparr>db := refresh_tokens_update (map_rows (\<lambda>x. RefreshToken_id x = RefreshToken_id r)
          (\<lambda>x. x\<lparr>RefreshToken_revoked_at := Some t\<rparr>)) (db w)\<rparr>)"
  using assms by (simp add: jti_dead_def find_map_rows_keep [of "\<lambda>r. RefreshToken_jti r = j" "\<lambda>x. x\<lparr>RefreshToken_revoked_at := Some t\<rparr>"])

lemma keeps_spent_tail:
  "keeps (spent_kept j h l) (bindS (set_current_product x) (\<lambda>_. bindS (set_current_tenant y) (\<lambda>_.
     bindS (issue_pair u ua ip) (\<lambda>(access_token, new_refresh, access_exp). ret (u, access_token, new_refresh, access_exp)))))"
  by (intro keeps_intros keeps_spent keeps_spent_issue)

lemma refresh_kills:
  assumes "libs_ok w" and "refresh tok w = (Inr a, w')"
  shows "refresh_dead tok w'"
proof -
  obtain c r u where r: "jwt_decode (lib w) (now w) tok = Some c"
      "List.find (\<lambda>r. RefreshToken_jti r = claim_jti c) (refresh_tokens (db w)) = Some r"
      and tail: "bindS (set_current_product (Some (User_product_id u))) (\<lambda>_.
     bindS (set_current_tenant (Some (User_tenant_id u))) (\<lambda>_.
     bindS (issue_pair u None None) (\<lambda>(access_token, new_refresh, access_exp).
     ret (u, access_token, new_refresh, access_exp))))
       (w\<lparr>db := refresh_tokens_update (map_rows (\<lambda>x. RefreshToken_id x = RefreshToken_id r)
          (\<lambda>x. x\<lparr>RefreshToken_revoked_at := Some (now w)\<rparr>)) (db w)\<rparr>) = (Inr a, w')"
    by (rule refresh_returnsD [OF assms(2)])
  have "spent_kept (Some (claim_jti c)) None (lib w) w'"
    by (rule keepsD [OF keeps_spent_tail _ tail]) (simp add: spent_kept_def jti_dead_revoked [OF r(2)])
  moreover have "c' = c" if "jwt_decode (lib w) t tok = Some c'" for t c'
    using decode_same [of "lib w", OF _ r(1) that] assms(1) by (simp add: libs_ok_def)
  ultimately show ?thesis by (auto simp: refresh_dead_def spent_kept_def)
qed

lemma refresh_refused: "refresh_dead tok w \<Longrightarrow> \<exists>e. fst (refresh tok w) = Inl e"
proof (cases "refresh tok w")
  case (Pair r w')
  assume dead: "refresh_dead tok w"
  show ?thesis
  proof (cases r)
    case (Inr a)
    then obtain c r' where "jwt_decode (lib w) (now w) tok = Some c"
        "List.find (\<lambda>r. RefreshToken_jti r = claim_jti c) (refresh_tokens (db w)) = Some r'" "RefreshToken_revoked_at r' = None"
      using Pair refresh_returnsD [of tok w a w'] by metis
    moreover from this have "jti_dead (claim_jti c) w" using dead unfolding refresh_dead_def by blast
    ultimately show ?thesis by (simp add: jti_dead_def)
  qed (use Pair in simp)
qed

lemma confirm_returnsD:
  assumes "confirm_password_reset tok new w = (Inr a, w')"
  obtains r u where "List.find (\<lambda>r. PasswordResetToken_token_hash r = sha256_hex (lib w) tok) (password_reset_tokens (db w)) = Some r"
    "PasswordResetToken_used_at r = None" "now w < PasswordResetToken_expires_at r"
    "List.find (\<lambda>u. User_id u = PasswordResetToken_user_id r) (users (db w)) = Some u" "User_is_active u" "User_deleted_at u = None"
    "a = u\<lparr>User_password_hash := pw_hash (lib w) (draws w (draw_no w)) new\<rparr>"
    "users (db w') = map_rows (\<lambda>x. User_id x = User_id u) (\<lambda>x. x\<lparr>User_password_hash := pw_hash (lib w) (draws w (draw_no w)) new\<rparr>) (users (db w))"
    "password_reset_tokens (db w') = map_rows (\<lambda>x. PasswordResetToken_id x = PasswordResetToken_id r)
       (\<lambda>x. x\<lparr>PasswordResetToken_used_at := Some (now w)\<rparr>) (password_reset_tokens (db w))"
    "refresh_tokens (db w') = map_rows (\<lambda>x. RefreshToken_user_id x = User_id u \<and> RefreshToken_revoked_at x = None)
       (\<lambda>x. x\<lparr>RefreshToken_revoked_at := Some (now w)\<rparr>) (refresh_tokens (db w))"
    "lib w' = lib w" "now w' = now w" "tenants (db w') = tenants (db w)"
  using assms unfolding confirm_password_reset_def revoke_all_def set_user_def hash_token_def
  by (auto simp: bindS_Inr_iff svc_simps split: option.splits if_splits)

lemma confirm_kills:
  assumes "confirm_password_reset tok new w = (Inr a, w')"
  shows "reset_dead tok w'"
  by (rule confirm_returnsD [OF assms])
    (simp add: reset_dead_def hash_dead_def
      find_map_rows_keep [of "\<lambda>r. PasswordResetToken_token_hash r = sha256_hex (lib w) tok" "\<lambda>x. x\<lparr>PasswordResetToken_used_at := Some (now w)\<rparr>"])

lemma confirm_refused: "reset_dead tok w \<Longrightarrow> \<exists>e. fst (confirm_password_reset tok new w) = Inl e"
proof (cases "confirm_password_reset tok new w")
  case (Pair r w')
  assume dead: "reset_dead tok w"
  show ?thesis
  proof (cases r)
    case (Inr a)
    then show ?thesis
      using Pair dead by (auto simp: reset_dead_def hash_dead_def elim!: confirm_returnsD)
  qed (use Pair in simp)
qed

lemma libs_ok_step: "auth_step w w' \<Longrightarrow> libs_ok w \<Longrightarrow> libs_ok w'"
  using auth_step_dead(1) by (simp add: libs_ok_def)

interpretation refresh_tok: single_use refresh "\<lambda>tok. tok" refresh_dead libs_ok auth_step
proof unfold_locales
  show "auth_step w w' \<Longrightarrow> libs_ok w \<Longrightarrow> refresh_dead k w \<Longrightarrow> refresh_dead k w'" for w w' k
    using auth_step_dead by (simp add: refresh_dead_def)
qed (auto intro: refresh_kills refreshes libs_ok_step refresh_refused)

interpretation reset_tok: single_use "\<lambda>(tok, new). confirm_password_reset tok new" fst reset_dead libs_ok auth_step
proof unfold_locales
  show "auth_step w w' \<Longrightarrow> libs_ok w \<Longrightarrow> reset_dead k w \<Longrightarrow> reset_dead k w'" for w w' k
    using auth_step_dead by (simp add: reset_dead_def)
qed (auto intro: confirm_kills confirms libs_ok_step confirm_refused split: prod.splits)


section \<open>The lifetime of a session\<close>

definition product_ttl :: "world \<Rightarrow> uuid \<Rightarrow> app_error + int" where
  "product_ttl w p = fst (refresh_ttl_seconds p w)"

lemma refresh_ttl_apply [svc_simps]: "refresh_ttl_seconds p w = (product_ttl w p, w)"
  by (auto simp: product_ttl_def refresh_ttl_seconds_def svc_simps split: option.splits sum.splits)

lemma product_ttl_cong:
  "products (db w') = products (db w) \<Longrightarrow> settings w' = settings w \<Longrightarrow> product_ttl w' p = product_ttl w p"
  by (simp add: product_ttl_def refresh_ttl_seconds_def svc_simps split: option.splits sum.splits)

lemma product_ttl_simps [simp]:
  "product_ttl (w\<lparr>draw_no := i\<rparr>) p = product_ttl w p" "product_ttl (w\<lparr>cur_product := x\<rparr>) p = product_ttl w p"
  "product_ttl (w\<lparr>cur_tenant := y\<rparr>) p = product_ttl w p"
  "product_ttl (w\<lparr>db := refresh_tokens_update f (db w)\<rparr>) p = product_ttl w p"
  by (rule product_ttl_cong; simp)+

lemma issue_pair_ttl: "issue_pair u ua ip w = (Inr a, w') \<Longrightarrow> \<exists>n. product_ttl w (User_product_id u) = Inr n"
  unfolding issue_pair_def issue_token_def by (auto simp: bindS_Inr_iff fresh_apply gets_apply refresh_ttl_apply Let_def)

lemma ttl_days_bounds: "ttl_days v = Some d \<Longrightarrow> 1 \<le> d \<and> d \<le> 365"
  by (cases v) (auto split: if_splits)

lemma product_ttl_range:
  "product_ttl w p = Inr n \<Longrightarrow> n = jwt_refresh_ttl_seconds (settings w) \<or> (\<exists>d. 1 \<le> d \<and> d \<le> 365 \<and> n = d * 86400)"
  by (auto simp: product_ttl_def refresh_ttl_seconds_def svc_simps dest: ttl_days_bounds split: option.splits sum.splits)

text \<open>Whatever the settings of a product hold, its refresh tokens live for the platform's
  default or for 1 to 365 whole days; a section \<open>auth\<close> that is not an object is an error, and
  the only one.\<close>

lemma refresh_ttl_bounds:
  "case refresh_ttl_seconds p w of
     (Inr n, w') \<Rightarrow> w' = w \<and> (n = jwt_refresh_ttl_seconds (settings w) \<or> (\<exists>d. 1 \<le> d \<and> d \<le> 365 \<and> n = d * 86400))
   | (Inl e, w') \<Rightarrow> w' = w \<and> e = AttributeError ''get'' \<and>
       (\<exists>q v. List.find (\<lambda>q. Product_id q = p) (products (db w)) = Some q \<and>
          map_of (Product_settings q) ''auth'' = Some v \<and> (\<forall>d. v \<noteq> JObj d))"
proof -
  have err: "e = AttributeError ''get'' \<and> (\<forall>d. v \<noteq> JObj d)" if "json_get v k dflt = Inl e" for v k dflt e
    using that by (cases v) auto
  have get: "map_of s ''auth'' = Some v"
    if "dict_get s ''auth'' (JObj []) = v" "\<forall>d. v \<noteq> JObj d" for s v
    using that by (auto simp: dict_get_def split: option.splits)
  show ?thesis
    by (auto simp: refresh_ttl_seconds_def gets_apply scalar_apply bindS_apply ret_apply liftE_apply
        dest: err get ttl_days_bounds split: option.splits sum.splits) (use err get in blast)+
qed


section \<open>Rotation\<close>

text \<open>Token identifiers come from the random draws.\<close>

definition sessions_ok :: "world \<Rightarrow> bool" where
  "sessions_ok w \<longleftrightarrow> fresh_ids w \<and> RefreshToken_jti ` set (refresh_tokens (db w)) \<subseteq> drawn w"

definition session_claims :: "world \<Rightarrow> User \<Rightarrow> TokenType \<Rightarrow> int \<Rightarrow> uuid \<Rightarrow> Claims" where
  "session_claims w u typ n jti = \<lparr>claim_sub = User_id u, claim_tid = Some (User_tenant_id u),
     claim_pid = Some (User_product_id u), claim_typ = typ, claim_iat = timestamp (now w),
     claim_exp = timestamp (now w + seconds n), claim_jti = jti\<rparr>"

definition session_row :: "world \<Rightarrow> User \<Rightarrow> int \<Rightarrow> string option \<Rightarrow> string option \<Rightarrow> RefreshToken" where
  "session_row w u n ua ip = \<lparr>RefreshToken_id = draws w (draw_no w + 2), RefreshToken_product_id = User_product_id u,
     RefreshToken_user_id = User_id u, RefreshToken_jti = draws w (draw_no w + 1),
     RefreshToken_expires_at = now w + seconds n, RefreshToken_revoked_at = None,
     RefreshToken_user_agent = ua, RefreshToken_ip_address = ip\<rparr>"

lemma not_drawn_later:
  "fresh_ids w \<Longrightarrow> draw_no w \<le> m \<Longrightarrow> draws w m \<notin> drawn w"
  by (auto simp: fresh_ids_def drawn_def inj_eq)

lemma issue_pair_result:
  assumes "product_ttl w (User_product_id u) = Inr n"
    and "draws w (draw_no w + 1) \<notin> RefreshToken_jti ` set (refresh_tokens (db w))"
  shows "issue_pair u ua ip w =
    (Inr (jwt_encode (lib w) (session_claims w u Access (jwt_access_ttl_seconds (settings w)) (draws w (draw_no w))),
          jwt_encode (lib w) (session_claims w u Refresh n (draws w (draw_no w + 1))),
          now w + seconds (jwt_access_ttl_seconds (settings w))),
     w\<lparr>draw_no := draw_no w + 3, db := refresh_tokens_update (\<lambda>rs. rs @ [session_row w u n ua ip]) (db w)\<rparr>)"
proof -
  have "product_ttl (w\<lparr>draw_no := Suc (draw_no w)\<rparr>) (User_product_id u) = Inr n"
    using assms(1) by (subst product_ttl_cong [of _ w]) simp_all
  moreover have "\<not> refresh_token_clash x (session_row w u n ua ip)" if "x \<in> set (refresh_tokens (db w))" for x
    using assms(2) that by (auto simp: refresh_token_clash_def session_row_def image_iff)
  ultimately show ?thesis
    by (auto simp: issue_pair_def issue_token_def add_refresh_token_def svc_simps Let_def session_claims_def
        session_row_def eval_nat_numeral)
qed

lemma timestamp_live: "0 < n \<Longrightarrow> t < seconds (timestamp (t + seconds n))"
proof -
  assume "0 < n"
  then have "t div 1000000 + 1 \<le> (t + n * 1000000) div 1000000" by simp
  then show ?thesis by (simp add: seconds_def timestamp_def)
qed


lemma refresh_result:
  assumes c: "jwt_decode (lib w) (now w) tok = Some c" "claim_typ c = Refresh"
    and r: "List.find (\<lambda>r. RefreshToken_jti r = claim_jti c) (refresh_tokens (db w)) = Some r"
      "RefreshToken_revoked_at r = None" "now w < RefreshToken_expires_at r"
    and u: "List.find (\<lambda>u. User_id u = claim_sub c) (users (db w)) = Some u" "User_is_active u"
    and n: "product_ttl w (User_product_id u) = Inr n"
    and ok: "sessions_ok w"
  shows "refresh tok w =
    (Inr (u, jwt_encode (lib w) (session_claims w u Access (jwt_access_ttl_seconds (settings w)) (draws w (draw_no w))),
          jwt_encode (lib w) (session_claims w u Refresh n (draws w (draw_no w + 1))),
          now w + seconds (jwt_access_ttl_seconds (settings w))),
     w\<lparr>cur_product := Some (User_product_id u), cur_tenant := Some (User_tenant_id u), draw_no := draw_no w + 3,
       db := refresh_tokens_update (\<lambda>rs. map_rows (\<lambda>x. RefreshToken_id x = RefreshToken_id r)
          (\<lambda>x. x\<lparr>RefreshToken_revoked_at := Some (now w)\<rparr>) rs @ [session_row w u n None None]) (db w)\<rparr>)"
proof -
  let ?v = "w\<lparr>db := refresh_tokens_update (map_rows (\<lambda>x. RefreshToken_id x = RefreshToken_id r)
          (\<lambda>x. x\<lparr>RefreshToken_revoked_at := Some (now w)\<rparr>)) (db w),
       cur_product := Some (User_product_id u), cur_tenant := Some (User_tenant_id u)\<rparr>"
  have ttl: "product_ttl ?v (User_product_id u) = Inr n"
    using n by (subst product_ttl_cong [of _ w]) simp_all
  have "draws w (draw_no w + 1) \<notin> RefreshToken_jti ` set (refresh_tokens (db w))"
    using ok not_drawn_later [of w "draw_no w + 1"] by (auto simp: sessions_ok_def)
  then have new: "draws ?v (draw_no ?v + 1) \<notin> RefreshToken_jti ` set (refresh_tokens (db ?v))"
    by (simp add: image_map_rows)
  show ?thesis
    using c r u issue_pair_result [OF ttl new, of None None]
    by (simp add: refresh_def decode_token_def svc_simps context_defs session_claims_def session_row_def comp_def)
qed

lemma sessions_ok_rotate:
  assumes "sessions_ok w"
  shows "sessions_ok (w\<lparr>cur_product := p, cur_tenant := t, draw_no := draw_no w + 3,
    db := refresh_tokens_update (\<lambda>rs. map_rows P (\<lambda>x. x\<lparr>RefreshToken_revoked_at := y\<rparr>) rs @ [session_row w u n ua ip]) (db w)\<rparr>)"
proof -
  have "RefreshToken_jti ` set (map_rows P (\<lambda>x. x\<lparr>RefreshToken_revoked_at := y\<rparr>) (refresh_tokens (db w))) \<subseteq> draws w ` {..<draw_no w + 3}"
    using assms by (subst image_map_rows) (auto simp: sessions_ok_def drawn_def)
  then show ?thesis
    using assms by (auto simp: sessions_ok_def fresh_ids_def drawn_def session_row_def)
qed

lemma refreshD:
  assumes "sessions_ok w" and "refresh tok w = (Inr (u, access, new, exp), w1)"
  obtains c r n where "jwt_decode (lib w) (now w) tok = Some c" "claim_typ c = Refresh"
    "List.find (\<lambda>r. RefreshToken_jti r = claim_jti c) (refresh_tokens (db w)) = Some r"
    "RefreshToken_revoked_at r = None" "now w < RefreshToken_expires_at r"
    "List.find (\<lambda>u. User_id u = claim_sub c) (users (db w)) = Some u" "User_is_active u"
    "product_ttl w (User_product_id u) = Inr n"
    "access = jwt_encode (lib w) (session_claims w u Access (jwt_access_ttl_seconds (settings w)) (draws w (draw_no w)))"
    "new = jwt_encode (lib w) (session_claims w u Refresh n (draws w (draw_no w + 1)))"
    "w1 = w\<lparr>cur_product := Some (User_product_id u), cur_tenant := Some (User_tenant_id u), draw_no := draw_no w + 3,
       db := refresh_tokens_update (\<lambda>rs. map_rows (\<lambda>x. RefreshToken_id x = RefreshToken_id r)
          (\<lambda>x. x\<lparr>RefreshToken_revoked_at := Some (now w)\<rparr>) rs @ [session_row w u n None None]) (db w)\<rparr>"
proof -
  obtain c r u' where old: "jwt_decode (lib w) (now w) tok = Some c" "claim_typ c = Refresh"
    "List.find (\<lambda>r. RefreshToken_jti r = claim_jti c) (refresh_tokens (db w)) = Some r"
    "RefreshToken_revoked_at r = None" "now w < RefreshToken_expires_at r"
    "List.find (\<lambda>u. User_id u = claim_sub c) (users (db w)) = Some u'" "User_is_active u'"
    and tail: "bindS (set_current_product (Some (User_product_id u'))) (\<lambda>_.
     bindS (set_current_tenant (Some (User_tenant_id u'))) (\<lambda>_.
     bindS (issue_pair u' None None) (\<lambda>(access_token, new_refresh, access_exp).
     ret (u', access_token, new_refresh, access_exp))))
       (w\<lparr>db := refresh_tokens_update (map_rows (\<lambda>x. RefreshToken_id x = RefreshToken_id r)
          (\<lambda>x. x\<lparr>RefreshToken_revoked_at := Some (now w)\<rparr>)) (db w)\<rparr>) = (Inr (u, access, new, exp), w1)"
    by (rule refresh_returnsD [OF assms(2)])
  obtain n where n: "product_ttl w (User_product_id u') = Inr n"
    using tail unfolding bindS_Inr_iff context_defs by (auto simp: modify_apply dest!: issue_pair_ttl)
  have u: "u' = u" and rest: "access = jwt_encode (lib w) (session_claims w u Access (jwt_access_ttl_seconds (settings w)) (draws w (draw_no w)))"
      "new = jwt_encode (lib w) (session_claims w u Refresh n (draws w (draw_no w + 1)))"
      "w1 = w\<lparr>cur_product := Some (User_product_id u), cur_tenant := Some (User_tenant_id u), draw_no := draw_no w + 3,
       db := refresh_tokens_update (\<lambda>rs. map_rows (\<lambda>x. RefreshToken_id x = RefreshToken_id r)
          (\<lambda>x. x\<lparr>RefreshToken_revoked_at := Some (now w)\<rparr>) rs @ [session_row w u n None None]) (db w)\<rparr>"
    using assms(2) refresh_result [OF old n assms(1)] by auto
  show ?thesis by (rule that [OF old(1-5) old(6,7) [unfolded u] n [unfolded u] rest])
qed

text \<open>A live token is one that a refresh accepts, for this user; what a refresh hands out is live.\<close>

definition live_token :: "string \<Rightarrow> User \<Rightarrow> world \<Rightarrow> bool" where
  "live_token tok u w \<longleftrightarrow> sessions_ok w \<and> (\<exists>c r n. jwt_decode (lib w) (now w) tok = Some c \<and> claim_typ c = Refresh \<and>
     List.find (\<lambda>r. RefreshToken_jti r = claim_jti c) (refresh_tokens (db w)) = Some r \<and>
     RefreshToken_revoked_at r = None \<and> now w < RefreshToken_expires_at r \<and>
     List.find (\<lambda>u. User_id u = claim_sub c) (users (db w)) = Some u \<and> User_is_active u \<and>
     product_ttl w (User_product_id u) = Inr n)"

lemma live_tokenI:
  assumes "sessions_ok w" and "refresh tok w = (Inr (u, access, new, exp), w1)"
  shows "live_token tok u w"
  by (cases rule: refreshD [OF assms]) (use assms(1) in \<open>simp add: live_token_def\<close>)

lemma live_token_refreshes:
  "live_token tok u w \<Longrightarrow> \<exists>access new exp w1. refresh tok w = (Inr (u, access, new, exp), w1)"
  by (auto simp: live_token_def dest!: refresh_result)

lemma sessions_ok_later:
  "sessions_ok w \<Longrightarrow> db v = db w \<Longrightarrow> draws v = draws w \<Longrightarrow> draw_no w \<le> draw_no v \<Longrightarrow> sessions_ok v"
  by (fastforce simp: sessions_ok_def fresh_ids_def drawn_def)

lemma live_token_later:
  "live_token tok u w \<Longrightarrow> db v = db w \<Longrightarrow> lib v = lib w \<Longrightarrow> now v = now w \<Longrightarrow> settings v = settings w \<Longrightarrow>
     draws v = draws w \<Longrightarrow> draw_no w \<le> draw_no v \<Longrightarrow> live_token tok u v"
  using product_ttl_cong [of v w] sessions_ok_later [of w v] by (auto simp: live_token_def)

lemma refreshed_live:
  assumes "libs_ok w" and "sessions_ok w" and "0 < jwt_refresh_ttl_seconds (settings w)"
    and run: "refresh tok w = (Inr (u, access, new, exp), w1)"
  shows "live_token new u w1"
proof (cases rule: refreshD [OF assms(2) run])
  case (1 c r n)
  note old = 1(1-7) and n = 1(8) and new = 1(10) and w1 = 1(11)
  have "0 < n"
    using product_ttl_range [OF n] assms(3) by auto
  let ?c = "session_claims w u Refresh n (draws w (draw_no w + 1))"
  have "jwt_decode (lib w) (now w) new = Some ?c"
    using assms(1) timestamp_live [OF \<open>0 < n\<close>] new by (simp add: libs_ok_def auth_libs_ok_def session_claims_def)
  moreover have "draws w (draw_no w + 1) \<notin> RefreshToken_jti ` set (refresh_tokens (db w))"
    using assms(2) not_drawn_later [of w "draw_no w + 1"] by (auto simp: sessions_ok_def)
  then have "RefreshToken_jti ` set (map_rows P (\<lambda>x. x\<lparr>RefreshToken_revoked_at := y\<rparr>) (refresh_tokens (db w))) \<inter> {draws w (draw_no w + 1)} = {}" for P y
    by (subst image_map_rows) simp_all
  then have "List.find (\<lambda>x. RefreshToken_jti x = draws w (draw_no w + 1)) (map_rows P (\<lambda>x. x\<lparr>RefreshToken_revoked_at := y\<rparr>)
      (refresh_tokens (db w))) = None" for P y
    unfolding find_None_iff_all by blast
  then have "List.find (\<lambda>x. RefreshToken_jti x = draws w (draw_no w + 1)) (map_rows (\<lambda>x. RefreshToken_id x = RefreshToken_id r)
          (\<lambda>x. x\<lparr>RefreshToken_revoked_at := Some (now w)\<rparr>) (refresh_tokens (db w)) @ [session_row w u n None None]) = Some (session_row w u n None None)"
    by (simp add: find_append session_row_def)
  moreover have "claim_sub c = User_id u" using find_SomeD [OF old(6)] by simp
  moreover have "product_ttl w1 (User_product_id u) = Inr n" using n by (subst product_ttl_cong [of _ w]) (simp_all add: w1)
  moreover have "sessions_ok w1" unfolding w1 by (rule sessions_ok_rotate [OF assms(2)])
  ultimately show ?thesis
    using old(6,7) \<open>0 < n\<close> unfolding live_token_def
    by (intro conjI exI [of _ ?c] exI [of _ "session_row w u n None None"] exI [of _ n])
      (simp_all add: w1 session_claims_def session_row_def seconds_def)
qed

lemma refreshed_access:
  assumes "libs_ok w" and "sessions_ok w" and "0 < jwt_access_ttl_seconds (settings w)"
    and run: "refresh tok w = (Inr (u, access, new, exp), w1)"
  shows "jwt_decode (lib w) (now w) access = Some (session_claims w u Access (jwt_access_ttl_seconds (settings w)) (draws w (draw_no w)))"
  using assms(1,3) timestamp_live [OF assms(3)]
  by (cases rule: refreshD [OF assms(2) run]) (simp add: libs_ok_def auth_libs_ok_def session_claims_def)



definition sample_claims_of :: "uuid \<Rightarrow> Claims" where
  "sample_claims_of jti = \<lparr>claim_sub = 120, claim_tid = Some 107, claim_pid = Some 5, claim_typ = Refresh,
     claim_iat = 0, claim_exp = 5000, claim_jti = jti\<rparr>"

text \<open>User 120 is logged in with refresh token 150.\<close>

definition sample_session :: world where
  "sample_session = sample_world\<lparr>draw_no := 200, db := empty_db\<lparr>users := [sample_user 120 107],
     refresh_tokens := [\<lparr>RefreshToken_id = 151, RefreshToken_product_id = 5, RefreshToken_user_id = 120,
       RefreshToken_jti = 150, RefreshToken_expires_at = seconds 5000, RefreshToken_revoked_at = None,
       RefreshToken_user_agent = None, RefreshToken_ip_address = None\<rparr>]\<rparr>\<rparr>"

lemma sample_libs_ok: "auth_libs_ok sample_lib"
  unfolding auth_libs_ok_def
proof (intro conjI allI impI)
  show "jwt_decode sample_lib t (jwt_encode sample_lib c) = (if t < seconds (claim_exp c) then Some c else None)" for t c
    by (simp add: sample_lib_def sample_jwt)
  show "c = c'" if "jwt_decode sample_lib t s = Some c" "jwt_decode sample_lib t' s = Some c'" for t t' s c c'
    using that by (simp add: sample_lib_def sample_jwt_decode_def split: option.splits if_splits)
qed (auto simp: sample_lib_def)

lemma sample_session_ok: "libs_ok sample_session" "sessions_ok sample_session"
    "0 < jwt_refresh_ttl_seconds (settings sample_session)"
proof -
  show "libs_ok sample_session"
    using sample_libs_ok by (simp add: libs_ok_def sample_session_def sample_world_def)
  have "150 \<in> drawn sample_session"
    by (simp add: drawn_def sample_session_def sample_world_def image_Suc_lessThan)
  then show "sessions_ok sample_session"
    by (simp add: sessions_ok_def) (simp add: sample_session_def sample_world_def fresh_ids_def NIL_def)
qed (simp add: sample_session_def sample_world_def default_settings_def)



section \<open>Password reset\<close>

lemma request_returnsD:
  assumes "request_password_reset p email ip w = (Inr (Some (raw, exp)), w1)"
  obtains u rec where "List.find (\<lambda>u. User_product_id u = p \<and> User_email u = str_lower email \<and> User_deleted_at u = None \<and>
      User_is_active u) (users (db w)) = Some u" "exp = now w + seconds 3600"
    "List.find (\<lambda>r. PasswordResetToken_token_hash r = sha256_hex (lib w) raw) (password_reset_tokens (db w1)) = Some rec"
    "PasswordResetToken_user_id rec = User_id u" "PasswordResetToken_used_at rec = None"
    "PasswordResetToken_expires_at rec = exp" "users (db w1) = users (db w)" "lib w1 = lib w"
proof -
  obtain u d t i where "List.find (\<lambda>u. User_product_id u = p \<and> User_email u = str_lower email \<and> User_deleted_at u = None \<and>
      User_is_active u) (users (db w)) = Some u" "raw = token_urlsafe 32 d" "exp = now w + seconds 3600"
      "\<forall>r \<in> set (password_reset_tokens (db w)). PasswordResetToken_token_hash r \<noteq> sha256_hex (lib w) raw"
      "password_reset_tokens (db w1) = password_reset_tokens (db w) @
        [\<lparr>PasswordResetToken_id = i, PasswordResetToken_product_id = p,
          PasswordResetToken_user_id = User_id u, PasswordResetToken_token_hash = sha256_hex (lib w) raw,
          PasswordResetToken_expires_at = exp, PasswordResetToken_used_at = None, PasswordResetToken_requested_ip = ip\<rparr>]"
      "users (db w1) = users (db w)" "lib w1 = lib w"
    using assms unfolding request_password_reset_def hash_token_def Let_def PASSWORD_RESET_TTL_HOURS_def
    by (auto simp: bindS_Inr_iff svc_simps reset_token_clash_def split: option.splits if_splits)
  then show thesis
    by (intro that, simp_all add: find_append find_None_iff_all [THEN iffD2]) simp_all
qed

lemma confirm_returns:
  assumes "List.find (\<lambda>r. PasswordResetToken_token_hash r = sha256_hex (lib w) tok) (password_reset_tokens (db w)) = Some rec"
    and "PasswordResetToken_used_at rec = None" and "now w < PasswordResetToken_expires_at rec"
    and "List.find (\<lambda>u. User_id u = PasswordResetToken_user_id rec) (users (db w)) = Some u"
    and "User_is_active u" and "User_deleted_at u = None"
  shows "\<exists>a w'. confirm_password_reset tok new w = (Inr a, w')"
  using assms by (simp add: confirm_password_reset_def hash_token_def revoke_all_def set_user_def svc_simps)

lemma confirm_expired:
  assumes "List.find (\<lambda>r. PasswordResetToken_token_hash r = sha256_hex (lib w) tok) (password_reset_tokens (db w)) = Some rec"
    and "PasswordResetToken_used_at rec = None" and "PasswordResetToken_expires_at rec \<le> now w"
  shows "confirm_password_reset tok new w = (Inl (Unauthorized ''reset token expired''), w)"
  using assms by (simp add: confirm_password_reset_def hash_token_def svc_simps)

text \<open>C33: the password-reset loop. A reset token handed out for an email belongs to a live user of the
  product with that email. For one hour it resets the password: from then on the new one verifies,
  and no other, and every session of the user is revoked. It works once:
  whatever account operations follow, a second reset with it is refused. After the hour it is
  refused as expired.\<close>

theorem password_reset_roundtrip:
  assumes "libs_ok w" and "distinct (map User_id (users (db w)))"
    and "request_password_reset p email ip w = (Inr (Some (raw, exp)), w1)"
  shows "exp = now w + seconds 3600 \<and>
     (\<forall>t < exp. \<exists>u w2. confirm_password_reset raw new (w1\<lparr>now := t\<rparr>) = (Inr u, w2) \<and>
       User_product_id u = p \<and> User_email u = str_lower email \<and> u \<in> set (users (db w2)) \<and>
       (\<forall>q. pw_verify (lib w2) (User_password_hash u) q \<longleftrightarrow> q = new) \<and>
       (\<forall>r \<in> set (refresh_tokens (db w2)). RefreshToken_user_id r = User_id u \<longrightarrow> RefreshToken_revoked_at r \<noteq> None) \<and>
       (\<forall>w3 new'. auth_step\<^sup>*\<^sup>* w2 w3 \<longrightarrow> (\<exists>e. fst (confirm_password_reset raw new' w3) = Inl e))) \<and>
     (\<forall>t \<ge> exp. fst (confirm_password_reset raw new (w1\<lparr>now := t\<rparr>)) = Inl (Unauthorized ''reset token expired''))"
proof -
  obtain u rec where req: "List.find (\<lambda>u. User_product_id u = p \<and> User_email u = str_lower email \<and>
        User_deleted_at u = None \<and> User_is_active u) (users (db w)) = Some u" "exp = now w + seconds 3600"
      "List.find (\<lambda>r. PasswordResetToken_token_hash r = sha256_hex (lib w) raw) (password_reset_tokens (db w1)) = Some rec"
      "PasswordResetToken_user_id rec = User_id u" "PasswordResetToken_used_at rec = None"
      "PasswordResetToken_expires_at rec = exp" "users (db w1) = users (db w)" "lib w1 = lib w"
    by (rule request_returnsD [OF assms(3)])
  have u: "u \<in> set (users (db w))" "User_product_id u = p" "User_email u = str_lower email"
      "User_deleted_at u = None" "User_is_active u"
    using find_SomeD [OF req(1)] by simp_all
  have find_u: "List.find (\<lambda>x. User_id x = User_id u) (users (db w)) = Some u"
    using distinct_map_eq [OF assms(2)] u(1) by (intro find_unique) auto
  show ?thesis
  proof (intro conjI allI impI)
    fix t assume t: "t < exp"
    let ?w = "w1\<lparr>now := t\<rparr>"
    have finds: "List.find (\<lambda>r. PasswordResetToken_token_hash r = sha256_hex (lib ?w) raw) (password_reset_tokens (db ?w)) = Some rec"
        "now ?w < PasswordResetToken_expires_at rec"
        "List.find (\<lambda>x. User_id x = PasswordResetToken_user_id rec) (users (db ?w)) = Some u"
      using req t find_u by simp_all
    obtain a w2 where run: "confirm_password_reset raw new ?w = (Inr a, w2)"
      using confirm_returns [OF finds(1) req(5) finds(2,3) u(5,4)] by blast
    have hash: "\<And>salt q. pw_verify (lib w) (pw_hash (lib w) salt new) q \<longleftrightarrow> q = new"
      using assms(1) by (simp add: libs_ok_def auth_libs_ok_def)
    have "libs_ok ?w" using assms(1) req(8) by (simp add: libs_ok_def)
    then have once: "auth_step\<^sup>*\<^sup>* w2 w3 \<Longrightarrow> \<exists>e. fst (confirm_password_reset raw new' w3) = Inl e" for w3 new'
      using reset_tok.once [of ?w "(raw, new)" a w2 w3 "(raw, new')"] run by simp
    show "\<exists>u w2. confirm_password_reset raw new ?w = (Inr u, w2) \<and>
       User_product_id u = p \<and> User_email u = str_lower email \<and> u \<in> set (users (db w2)) \<and>
       (\<forall>q. pw_verify (lib w2) (User_password_hash u) q \<longleftrightarrow> q = new) \<and>
       (\<forall>r \<in> set (refresh_tokens (db w2)). RefreshToken_user_id r = User_id u \<longrightarrow> RefreshToken_revoked_at r \<noteq> None) \<and>
       (\<forall>w3 new'. auth_step\<^sup>*\<^sup>* w2 w3 \<longrightarrow> (\<exists>e. fst (confirm_password_reset raw new' w3) = Inl e))"
    proof (rule confirm_returnsD [OF run])
      fix r v
      assume v: "List.find (\<lambda>r. PasswordResetToken_token_hash r = sha256_hex (lib ?w) raw) (password_reset_tokens (db ?w)) = Some r"
          "List.find (\<lambda>x. User_id x = PasswordResetToken_user_id r) (users (db ?w)) = Some v"
        and a: "a = v\<lparr>User_password_hash := pw_hash (lib ?w) (draws ?w (draw_no ?w)) new\<rparr>"
        and rows: "users (db w2) = map_rows (\<lambda>x. User_id x = User_id v)
            (\<lambda>x. x\<lparr>User_password_hash := pw_hash (lib ?w) (draws ?w (draw_no ?w)) new\<rparr>) (users (db ?w))"
          "refresh_tokens (db w2) = map_rows (\<lambda>x. RefreshToken_user_id x = User_id v \<and> RefreshToken_revoked_at x = None)
            (\<lambda>x. x\<lparr>RefreshToken_revoked_at := Some (now ?w)\<rparr>) (refresh_tokens (db ?w))"
          "lib w2 = lib ?w"
      have "v = u" using v finds(1,3) by simp
      moreover have "a \<in> set (users (db w2))"
        unfolding rows(1) set_map_rows using a \<open>v = u\<close> u(1) req(7) by (intro image_eqI [where x = u]) simp_all
      moreover have "\<forall>r \<in> set (refresh_tokens (db w2)). RefreshToken_user_id r = User_id v \<longrightarrow> RefreshToken_revoked_at r \<noteq> None"
        unfolding rows(2) ball_map_rows by auto
      ultimately show ?thesis
        using run a once u rows(3) req(8) hash by (intro exI [of _ a] exI [of _ w2]) simp
    qed
  next
    fix t assume "exp \<le> t"
    then show "fst (confirm_password_reset raw new (w1\<lparr>now := t\<rparr>)) = Inl (Unauthorized ''reset token expired'')"
      using confirm_expired [of "w1\<lparr>now := t\<rparr>" raw rec] req by simp
  qed (rule req(2))
qed

theorem password_reset_roundtrip_witness:
  "\<exists>raw exp w1 u w2. request_password_reset 5 (User_email (sample_user 120 107)) None sample_session = (Inr (Some (raw, exp)), w1) \<and>
     confirm_password_reset raw ''new password'' w1 = (Inr u, w2) \<and> pw_verify (lib w2) (User_password_hash u) ''new password'' \<and>
     (\<exists>e. fst (confirm_password_reset raw ''again'' w2) = Inl e)"
proof -
  have users: "users (db sample_session) = [sample_user 120 107]" by (simp add: sample_session_def)
  have lower: "str_lower (User_email (sample_user 120 107)) = User_email (sample_user 120 107)"
    by (simp add: sample_user_def) (simp add: str_lower_def lower_char_def is_upper_def)
  obtain raw exp w1 where req: "request_password_reset 5 (User_email (sample_user 120 107)) None sample_session = (Inr (Some (raw, exp)), w1)"
      and now: "now w1 = now sample_session"
  proof (cases "request_password_reset 5 (User_email (sample_user 120 107)) None sample_session")
    case (Pair r w1)
    have "List.find (\<lambda>u. User_product_id u = 5 \<and> User_email u = str_lower (User_email (sample_user 120 107)) \<and>
        User_deleted_at u = None \<and> User_is_active u) (users (db sample_session)) = Some (sample_user 120 107)"
      unfolding lower users by (simp add: sample_user_def)
    moreover have "password_reset_tokens (db sample_session) = []" by (simp add: sample_session_def empty_db_def)
    ultimately show ?thesis
      using Pair by (intro that [of "token_urlsafe 32 (draws sample_session (draw_no sample_session))" "now sample_session + seconds (PASSWORD_RESET_TTL_HOURS * 3600)" w1])
          (auto simp: request_password_reset_def hash_token_def Let_def svc_simps)
  qed
  note rt = password_reset_roundtrip [OF sample_session_ok(1) _ req, where new = "''new password''"]
  have d: "distinct (map User_id (users (db sample_session)))" by (simp add: users)
  have "now sample_session < exp"
    using rt [OF d] by (simp add: seconds_def)
  from rt [OF d, THEN conjunct2, THEN conjunct1, rule_format, OF this]
  obtain u w2 where run: "confirm_password_reset raw ''new password'' (w1\<lparr>now := now sample_session\<rparr>) = (Inr u, w2)"
      and pw: "\<forall>q. pw_verify (lib w2) (User_password_hash u) q \<longleftrightarrow> q = ''new password''"
      and once: "\<forall>w3 new'. auth_step\<^sup>*\<^sup>* w2 w3 \<longrightarrow> (\<exists>e. fst (confirm_password_reset raw new' w3) = Inl e)"
    by (elim exE conjE) (rule that)
  have "w1\<lparr>now := now sample_session\<rparr> = w1" by (simp add: now [symmetric])
  moreover obtain e where "fst (confirm_password_reset raw ''again'' w2) = Inl e"
    using once [rule_format, OF rtranclp.rtrancl_refl] by (rule exE)
  ultimately show ?thesis
    using req run pw [rule_format, of "''new password''"] by (intro exI conjI) simp_all
qed

end
