(* ===== verification/ServiceTokens.thy ===== *)
theory ServiceTokens
  imports Interfaces Samples
begin

text \<open>
  The service tokens of a product's backend: \<^verbatim>\<open>app/services/service_token.py\<close>. Only
  the digest of a token is stored; \<open>created_at\<close> is kept for the order of the listing. The tokens
  are an instance of the contract \<open>revocable\<close> of \<^verbatim>\<open>Interfaces\<close>.
\<close>

section \<open>Operations\<close>

definition ALLOWED_SCOPES :: "string list" where
  "ALLOWED_SCOPES = [''env:read'', ''google:exchange'', ''credits:consume'']"

definition TOKEN_PREFIX :: string where
  "TOKEN_PREFIX = ''pst_''"

definition TOKEN_BYTES :: nat where
  "TOKEN_BYTES = 16"

definition service_token_clash :: "ProductServiceToken \<Rightarrow> ProductServiceToken \<Rightarrow> bool" where
  "service_token_clash x y \<longleftrightarrow> ProductServiceToken_token_hash x = ProductServiceToken_token_hash y"

definition token_digest :: "string \<Rightarrow> string service" where
  "token_digest raw = gets (\<lambda>w. sha256_hex (lib w) raw)"

definition generate_token :: "string service" where
  "generate_token = bindS fresh (\<lambda>d. ret (TOKEN_PREFIX @ token_hex TOKEN_BYTES d))"

definition validate_scopes :: "string list \<Rightarrow> unit service" where
  "validate_scopes scopes =
     (if \<exists>s \<in> set scopes. s \<notin> set ALLOWED_SCOPES then raise (ValidationFailed ''unknown scopes'') else ret ())"

definition issue ::
    "uuid \<Rightarrow> string \<Rightarrow> string list \<Rightarrow> time option \<Rightarrow> uuid option \<Rightarrow> (ProductServiceToken \<times> string) service" where
  "issue product_id name scopes expires_at actor_user_id =
     bindS (validate_scopes scopes) (\<lambda>_.
     bindS generate_token (\<lambda>raw.
     bindS (token_digest raw) (\<lambda>h.
     bindS fresh (\<lambda>i.
     bindS (gets now) (\<lambda>t.
     let row = \<lparr>ProductServiceToken_id = i, ProductServiceToken_product_id = product_id,
           ProductServiceToken_name = name, ProductServiceToken_token_hash = h,
           ProductServiceToken_scopes = scopes, ProductServiceToken_expires_at = expires_at,
           ProductServiceToken_revoked_at = None, ProductServiceToken_last_used_at = None,
           ProductServiceToken_last_used_ip = None, ProductServiceToken_created_at = t\<rparr>
     in
     bindS (insert_row product_service_tokens product_service_tokens_update service_token_clash row) (\<lambda>_.
     bindS (record_audit ((act ''service_token.issued'')\<lparr>a_actor_user_id := actor_user_id,
              a_resource_type := Some ''service_token'', a_resource_id := Some i, a_product_id := Some product_id,
              a_diff := [(''name'', JStr name), (''scopes'', JList (map JStr scopes)),
                         (''expires_at'', jopt JTime expires_at)]\<rparr>)) (\<lambda>_.
     ret (row, raw))))))))"

definition service_tokens_of :: "uuid \<Rightarrow> ProductServiceToken list service" where
  "service_tokens_of product_id =
     bindS (scalars product_service_tokens (\<lambda>t. ProductServiceToken_product_id t = product_id)) (\<lambda>rows.
     ret (sort_key (\<lambda>t. - ProductServiceToken_created_at t) rows))"

definition revoke :: "uuid \<Rightarrow> uuid \<Rightarrow> uuid option \<Rightarrow> ProductServiceToken service" where
  "revoke product_id token_id actor_user_id =
     bindS (scalar product_service_tokens
              (\<lambda>t. ProductServiceToken_id t = token_id \<and> ProductServiceToken_product_id t = product_id)) (\<lambda>row.
     case row of
       None \<Rightarrow> raise (NotFound ''service token not found'')
     | Some row \<Rightarrow>
     if ProductServiceToken_revoked_at row = None
     then
       bindS (gets now) (\<lambda>t.
       bindS (update_rows product_service_tokens_update (\<lambda>r. ProductServiceToken_id r = ProductServiceToken_id row)
                (\<lambda>r. r\<lparr>ProductServiceToken_revoked_at := Some t\<rparr>)) (\<lambda>_.
       bindS (record_audit ((act ''service_token.revoked'')\<lparr>a_actor_user_id := actor_user_id,
                a_resource_type := Some ''service_token'', a_resource_id := Some (ProductServiceToken_id row),
                a_product_id := Some product_id, a_diff := [(''name'', JStr (ProductServiceToken_name row))]\<rparr>)) (\<lambda>_.
       ret (row\<lparr>ProductServiceToken_revoked_at := Some t\<rparr>))))
     else ret row)"

definition token_use :: "time \<Rightarrow> string option \<Rightarrow> ProductServiceToken \<Rightarrow> ProductServiceToken" where
  "token_use t client_ip r = r\<lparr>ProductServiceToken_last_used_at := Some t,
     ProductServiceToken_last_used_ip :=
       (if truthy client_ip then Some (take 64 (the client_ip)) else ProductServiceToken_last_used_ip r)\<rparr>"

definition authenticate :: "string \<Rightarrow> string \<Rightarrow> string option \<Rightarrow> ProductServiceToken service" where
  "authenticate raw required_scope client_ip =
     (if raw = [] \<or> take (length TOKEN_PREFIX) raw \<noteq> TOKEN_PREFIX
      then raise (Unauthorized ''missing or malformed service token'')
      else
      bindS (token_digest raw) (\<lambda>digest.
      bindS (scalar product_service_tokens (\<lambda>t. ProductServiceToken_token_hash t = digest)) (\<lambda>row.
      case row of
        None \<Rightarrow> raise (Unauthorized ''invalid service token'')
      | Some row \<Rightarrow>
      bindS (gets now) (\<lambda>t.
      if ProductServiceToken_revoked_at row \<noteq> None then raise (Unauthorized ''service token revoked'')
      else if (case ProductServiceToken_expires_at row of Some e \<Rightarrow> e \<le> t | None \<Rightarrow> False)
      then raise (Unauthorized ''service token expired'')
      else if required_scope \<notin> set (ProductServiceToken_scopes row)
      then raise (Forbidden ''service token missing required scope'')
      else
      bindS (update_rows product_service_tokens_update (\<lambda>r. ProductServiceToken_id r = ProductServiceToken_id row)
               (token_use t client_ip)) (\<lambda>_.
      ret (token_use t client_ip row))))))"


section \<open>Runs of the service\<close>

text \<open>One rule per operation, whether it returns or raises; any other step of the program leaves the
  token table alone and only draws more identifiers.\<close>

inductive service_token_step :: "world \<Rightarrow> world \<Rightarrow> bool" where
  issues: "issue p name scopes expires actor w = (r, w') \<Longrightarrow> service_token_step w w'"
| revokes: "revoke p i actor w = (r, w') \<Longrightarrow> service_token_step w w'"
| authenticates: "authenticate raw scope ip w = (r, w') \<Longrightarrow> service_token_step w w'"
| elsewhere: "product_service_tokens (db w') = product_service_tokens (db w) \<Longrightarrow> lib w' = lib w \<Longrightarrow>
    draws w' = draws w \<Longrightarrow> draw_no w \<le> draw_no w' \<Longrightarrow> service_token_step w w'"

text \<open>Identifiers and digests name one row each, and every identifier was drawn.\<close>

definition service_tokens_ok :: "world \<Rightarrow> bool" where
  "service_tokens_ok w \<longleftrightarrow> fresh_ids w \<and>
     distinct (map ProductServiceToken_id (product_service_tokens (db w))) \<and>
     distinct (map ProductServiceToken_token_hash (product_service_tokens (db w))) \<and>
     ProductServiceToken_id ` set (product_service_tokens (db w)) \<subseteq> drawn w"

text \<open>What a row keeps for good: its identity, product, digest, scopes and expiry, and its
  revocation once it has one.\<close>

definition same_token :: "ProductServiceToken \<Rightarrow> ProductServiceToken \<Rightarrow> bool" where
  "same_token r r' \<longleftrightarrow> ProductServiceToken_id r' = ProductServiceToken_id r \<and>
     ProductServiceToken_product_id r' = ProductServiceToken_product_id r \<and>
     ProductServiceToken_token_hash r' = ProductServiceToken_token_hash r \<and>
     ProductServiceToken_scopes r' = ProductServiceToken_scopes r \<and>
     ProductServiceToken_expires_at r' = ProductServiceToken_expires_at r \<and>
     (ProductServiceToken_revoked_at r \<noteq> None \<longrightarrow> ProductServiceToken_revoked_at r' \<noteq> None)"

text \<open>A transition as the rest of the program sees it: the rows live on in the same order, with at most
  one more at the end.\<close>

definition tokens_grow :: "world \<Rightarrow> world \<Rightarrow> bool" where
  "tokens_grow w w' \<longleftrightarrow> lib w' = lib w \<and> draws w' = draws w \<and> draw_no w \<le> draw_no w' \<and>
     (\<exists>rs new. product_service_tokens (db w') = rs @ new \<and>
        list_all2 same_token (product_service_tokens (db w)) rs \<and>
        (\<forall>r \<in> set new. ProductServiceToken_id r \<in> drawn w' - drawn w \<and>
           ProductServiceToken_token_hash r \<notin> ProductServiceToken_token_hash ` set (product_service_tokens (db w))) \<and>
        length new \<le> 1)"


lemma same_token_refl [simp]: "same_token r r"
  by (simp add: same_token_def)

lemma same_token_writes [simp]:
  "same_token r (token_use t ip r)" "same_token r (r\<lparr>ProductServiceToken_revoked_at := Some t\<rparr>)"
  by (simp_all add: same_token_def token_use_def)

lemma same_token_map_rows: "(\<And>r. same_token r (f r)) \<Longrightarrow> list_all2 same_token rs (map_rows P f rs)"
  by (induction rs) auto

lemma same_token_refl_list [simp]: "list_all2 same_token rs rs"
  by (simp add: list.rel_refl)

lemma drawn_new:
  assumes "fresh_ids w" and "draws w' = draws w" and "draw_no w \<le> k" and "k < draw_no w'"
  shows "draws w k \<in> drawn w' - drawn w"
proof -
  have "k = x" if "draws w k = draws w x" for x using assms(1) that by (auto simp: fresh_ids_def inj_def)
  then show ?thesis using assms(2-4) by (force simp: drawn_def)
qed

lemma tokens_grow_rows:
  assumes "lib w' = lib w" "draws w' = draws w" "draw_no w \<le> draw_no w'"
    and "list_all2 same_token (product_service_tokens (db w)) (product_service_tokens (db w'))"
  shows "tokens_grow w w'"
  unfolding tokens_grow_def using assms by (intro conjI exI [of _ "product_service_tokens (db w')"] exI [of _ "[]"]) simp_all

lemma issue_cases:
  assumes "issue p name scopes expires actor w = (r, w')"
  obtains e where "r = Inl e" "product_service_tokens (db w') = product_service_tokens (db w)" "lib w' = lib w"
      "draws w' = draws w" "draw_no w \<le> draw_no w'"
  | row raw where "r = Inr (row, raw)" "raw = TOKEN_PREFIX @ token_hex TOKEN_BYTES (draws w (draw_no w))"
      "ProductServiceToken_id row = draws w (Suc (draw_no w))" "Suc (draw_no w) < draw_no w'"
      "ProductServiceToken_token_hash row = sha256_hex (lib w) raw"
      "sha256_hex (lib w) raw \<notin> ProductServiceToken_token_hash ` set (product_service_tokens (db w))"
      "ProductServiceToken_product_id row = p" "ProductServiceToken_scopes row = scopes"
      "ProductServiceToken_expires_at row = expires" "ProductServiceToken_revoked_at row = None"
      "product_service_tokens (db w') = product_service_tokens (db w) @ [row]" "lib w' = lib w" "draws w' = draws w"
proof (cases r)
  case (Inl e)
  then show ?thesis
    using assms by (intro that(1) [of e])
      (auto simp: issue_def validate_scopes_def generate_token_def token_digest_def svc_simps Let_def split: if_splits)
next
  case (Inr a)
  obtain row raw where a: "a = (row, raw)" by (cases a)
  then show ?thesis
    using assms Inr a by (intro that(2) [of row raw])
      (auto simp: issue_def validate_scopes_def generate_token_def token_digest_def svc_simps Let_def
        service_token_clash_def split: if_splits)
qed

lemma service_token_step_grows:
  assumes "service_token_step w w'" and "service_tokens_ok w"
  shows "tokens_grow w w'"
  using assms
proof (cases rule: service_token_step.cases)
  case (issues p name scopes expires actor r)
  show ?thesis
  proof (rule issue_cases [OF issues])
    fix row raw
    assume "ProductServiceToken_id row = draws w (Suc (draw_no w))" "Suc (draw_no w) < draw_no w'" "draws w' = draws w"
      "lib w' = lib w" "product_service_tokens (db w') = product_service_tokens (db w) @ [row]"
      "ProductServiceToken_token_hash row = sha256_hex (lib w) raw"
      "sha256_hex (lib w) raw \<notin> ProductServiceToken_token_hash ` set (product_service_tokens (db w))"
    moreover from this have "ProductServiceToken_id row \<in> drawn w' - drawn w"
      using drawn_new [of w w' "Suc (draw_no w)"] assms(2) by (simp add: service_tokens_ok_def)
    ultimately show ?thesis
      unfolding tokens_grow_def by (intro conjI exI [of _ "product_service_tokens (db w)"] exI [of _ "[row]"]) simp_all
  qed (simp add: tokens_grow_rows)
next
  case (revokes p i actor r)
  then show ?thesis
    by (intro tokens_grow_rows) (auto simp: revoke_def svc_simps same_token_map_rows split: option.splits if_splits)
next
  case (authenticates raw scope ip r)
  then show ?thesis
    by (intro tokens_grow_rows)
      (auto simp: authenticate_def token_digest_def svc_simps same_token_map_rows split: option.splits if_splits)
next
  case elsewhere
  then show ?thesis by (simp add: tokens_grow_rows)
qed

lemma same_token_columns:
  assumes "list_all2 same_token xs ys"
  shows "map ProductServiceToken_id ys = map ProductServiceToken_id xs"
    and "map ProductServiceToken_token_hash ys = map ProductServiceToken_token_hash xs"
  using assms by (induction rule: list_all2_induct) (simp_all add: same_token_def)

lemma tokens_grow_ok:
  assumes "tokens_grow w w'" and "service_tokens_ok w"
  shows "service_tokens_ok w'"
proof -
  obtain rs new where g: "draws w' = draws w" "draw_no w \<le> draw_no w'"
      "product_service_tokens (db w') = rs @ new" "list_all2 same_token (product_service_tokens (db w)) rs"
      "\<And>r. r \<in> set new \<Longrightarrow> ProductServiceToken_id r \<in> drawn w' - drawn w \<and>
         ProductServiceToken_token_hash r \<notin> ProductServiceToken_token_hash ` set (product_service_tokens (db w))"
      "length new \<le> 1"
    using assms(1) unfolding tokens_grow_def by blast
  have sub: "drawn w \<subseteq> drawn w'"
    using g(1,2) by (auto simp: drawn_def)
  have cols: "map ProductServiceToken_id rs = map ProductServiceToken_id (product_service_tokens (db w))"
      "map ProductServiceToken_token_hash rs = map ProductServiceToken_token_hash (product_service_tokens (db w))"
    using same_token_columns [OF g(4)] by simp_all
  then have sets: "ProductServiceToken_id ` set rs = ProductServiceToken_id ` set (product_service_tokens (db w))"
      "ProductServiceToken_token_hash ` set rs = ProductServiceToken_token_hash ` set (product_service_tokens (db w))"
    by (metis set_map)+
  have old: "fresh_ids w" "distinct (map ProductServiceToken_id (product_service_tokens (db w)))"
      "distinct (map ProductServiceToken_token_hash (product_service_tokens (db w)))"
      "ProductServiceToken_id ` set (product_service_tokens (db w)) \<subseteq> drawn w"
    using assms(2) by (simp_all add: service_tokens_ok_def)
  consider "new = []" | r where "new = [r]"
    using g(6) by (cases new) auto
  then show ?thesis
  proof cases
    case 1
    then show ?thesis
      using old sub sets cols g(1,3) unfolding service_tokens_ok_def by (auto simp: fresh_ids_def)
  next
    case (2 r)
    then have "ProductServiceToken_id r \<in> drawn w' - drawn w"
        "ProductServiceToken_token_hash r \<notin> ProductServiceToken_token_hash ` set (product_service_tokens (db w))"
      using g(5) [of r] by simp_all
    then show ?thesis
      using old sub sets cols g(1,3) 2 unfolding service_tokens_ok_def by (auto simp: fresh_ids_def)
  qed
qed

text \<open>The row of a digest lives on.\<close>

lemma tokens_grow_row:
  assumes "tokens_grow w w'" and "r \<in> set (product_service_tokens (db w))"
  shows "\<exists>r' \<in> set (product_service_tokens (db w')). same_token r r'"
proof -
  obtain rs new where "product_service_tokens (db w') = rs @ new" "list_all2 same_token (product_service_tokens (db w)) rs"
    using assms(1) unfolding tokens_grow_def by blast
  then show ?thesis
    using assms(2) by (force simp: list_all2_conv_all_nth in_set_conv_nth)
qed

lemma same_token_trans: "same_token a b \<Longrightarrow> same_token b c \<Longrightarrow> same_token a c"
  by (simp add: same_token_def)


section \<open>A token from issue to revocation\<close>

definition token_revoked :: "string \<Rightarrow> world \<Rightarrow> bool" where
  "token_revoked raw w \<longleftrightarrow> (\<exists>r \<in> set (product_service_tokens (db w)).
     ProductServiceToken_token_hash r = sha256_hex (lib w) raw \<and> ProductServiceToken_revoked_at r \<noteq> None)"

lemma token_row_found:
  assumes "service_tokens_ok w" and "r \<in> set (product_service_tokens (db w))"
  shows "List.find (\<lambda>t. ProductServiceToken_token_hash t = ProductServiceToken_token_hash r) (product_service_tokens (db w)) = Some r"
    and "List.find (\<lambda>t. ProductServiceToken_id t = ProductServiceToken_id r \<and>
      ProductServiceToken_product_id t = ProductServiceToken_product_id r) (product_service_tokens (db w)) = Some r"
  using assms distinct_map_eq [of _ "product_service_tokens (db w)"]
  by (auto simp: service_tokens_ok_def intro!: find_unique)

lemma authenticate_outcome:
  assumes "service_tokens_ok w" and "r \<in> set (product_service_tokens (db w))"
    and "ProductServiceToken_token_hash r = sha256_hex (lib w) raw" and "raw = TOKEN_PREFIX @ x"
  shows "fst (authenticate raw scope ip w) =
    (if ProductServiceToken_revoked_at r \<noteq> None then Inl (Unauthorized ''service token revoked'')
     else if (case ProductServiceToken_expires_at r of Some e \<Rightarrow> e \<le> now w | None \<Rightarrow> False)
     then Inl (Unauthorized ''service token expired'')
     else if scope \<notin> set (ProductServiceToken_scopes r) then Inl (Forbidden ''service token missing required scope'')
     else Inr (token_use (now w) ip r))"
proof -
  have "raw \<noteq> [] \<and> take (length TOKEN_PREFIX) raw = TOKEN_PREFIX"
    using assms(4) by (simp add: TOKEN_PREFIX_def)
  then show ?thesis
    using token_row_found(1) [OF assms(1,2)] assms(3)
    by (simp add: authenticate_def token_digest_def svc_simps split: option.splits)
qed

lemma revoked_refused:
  assumes "service_tokens_ok w" and "token_revoked raw w"
  shows "\<exists>e. fst (authenticate raw scope ip w) = Inl e"
proof -
  obtain r where r: "r \<in> set (product_service_tokens (db w))" "ProductServiceToken_token_hash r = sha256_hex (lib w) raw"
      "ProductServiceToken_revoked_at r \<noteq> None"
    using assms(2) unfolding token_revoked_def by blast
  show ?thesis
    using token_row_found(1) [OF assms(1) r(1)] r(2,3) by (simp add: authenticate_def token_digest_def svc_simps)
qed

lemma revoked_grows:
  assumes "tokens_grow w w'" and "token_revoked raw w"
  shows "token_revoked raw w'"
proof -
  obtain r where r: "r \<in> set (product_service_tokens (db w))" "ProductServiceToken_token_hash r = sha256_hex (lib w) raw"
      "ProductServiceToken_revoked_at r \<noteq> None"
    using assms(2) unfolding token_revoked_def by blast
  then show ?thesis
    using tokens_grow_row [OF assms(1) r(1)] assms(1) unfolding token_revoked_def tokens_grow_def same_token_def by metis
qed

interpretation service_tokens: revocable "\<lambda>(raw, scope, ip). authenticate raw scope ip" fst token_revoked service_tokens_ok service_token_step
proof unfold_locales
  show "service_token_step w w' \<Longrightarrow> service_tokens_ok w \<Longrightarrow> service_tokens_ok w'" for w w'
    using tokens_grow_ok service_token_step_grows by blast
  show "service_token_step w w' \<Longrightarrow> service_tokens_ok w \<Longrightarrow> token_revoked k w \<Longrightarrow> token_revoked k w'" for w w' k
    using revoked_grows service_token_step_grows by blast
qed (auto intro: revoked_refused)

lemma token_row_lives:
  assumes "service_token_step\<^sup>*\<^sup>* w w'" and "service_tokens_ok w" and "r \<in> set (product_service_tokens (db w))"
  shows "\<exists>r' \<in> set (product_service_tokens (db w')). same_token r r'"
  using assms(1)
proof (induction rule: rtranclp_induct)
  case base
  then show ?case using assms(3) same_token_refl by blast
next
  case (step v u)
  have "tokens_grow v u"
    using service_token_step_grows [OF step(2)] service_tokens.ok_forever [OF step(1) assms(2)] by blast
  then show ?case
    using step.IH tokens_grow_row same_token_trans by blast
qed

lemma lib_steps: "service_token_step\<^sup>*\<^sup>* w w' \<Longrightarrow> service_tokens_ok w \<Longrightarrow> lib w' = lib w"
proof (induction rule: rtranclp_induct)
  case (step v u)
  then show ?case
    using service_token_step_grows [OF step(2)] service_tokens.ok_forever [OF step(1)] by (simp add: tokens_grow_def)
qed simp

text \<open>Revoking a stored token returns its row and leaves the digest revoked.\<close>

lemma revoke_kills:
  assumes "service_tokens_ok w" and "r \<in> set (product_service_tokens (db w))"
    and "ProductServiceToken_token_hash r = sha256_hex (lib w) raw"
  shows "\<exists>r' w'. revoke (ProductServiceToken_product_id r) (ProductServiceToken_id r) actor w = (Inr r', w') \<and> token_revoked raw w'"
proof -
  let ?f = "\<lambda>x. x\<lparr>ProductServiceToken_revoked_at := Some (now w)\<rparr>"
  have "?f r \<in> set (map_rows (\<lambda>x. ProductServiceToken_id x = ProductServiceToken_id r) ?f (product_service_tokens (db w)))"
    unfolding set_map_rows using assms(2) by (intro image_eqI [where x = r]) simp_all
  then have "token_revoked raw (w\<lparr>db := product_service_tokens_update
      (map_rows (\<lambda>x. ProductServiceToken_id x = ProductServiceToken_id r) ?f) (db w)\<rparr>)"
    unfolding token_revoked_def using assms(3) by (intro bexI [where x = "?f r"]) simp_all
  then show ?thesis
    using token_row_found(2) [OF assms(1,2)] assms(2,3)
    by (cases "ProductServiceToken_revoked_at r") (auto simp: revoke_def svc_simps token_revoked_def)
qed

text \<open>C29: the life of a service token, from its issue on and through any later run of the service. The
  text handed out has 36 characters and is what authenticates: it names the row issued, under the product
  it was issued for, and is refused for exactly the documented reasons, in their order, the scopes and
  the expiry being those given at the issue. Revoking it always works, at any moment, and from then on
  it is refused for every scope.\<close>

theorem service_token_lifecycle:
  assumes "service_tokens_ok w" and "issue p name scopes expires actor w = (Inr (row, raw), w1)"
    and "service_token_step\<^sup>*\<^sup>* w1 w2"
  shows "length raw = 36 \<and>
    (\<exists>r \<in> set (product_service_tokens (db w2)). ProductServiceToken_id r = ProductServiceToken_id row \<and>
       ProductServiceToken_product_id r = p \<and>
       (\<forall>scope ip. fst (authenticate raw scope ip w2) =
          (if ProductServiceToken_revoked_at r \<noteq> None then Inl (Unauthorized ''service token revoked'')
           else if (case expires of Some e \<Rightarrow> e \<le> now w2 | None \<Rightarrow> False) then Inl (Unauthorized ''service token expired'')
           else if scope \<notin> set scopes then Inl (Forbidden ''service token missing required scope'')
           else Inr (token_use (now w2) ip r)))) \<and>
    (\<forall>who. \<exists>r w3. revoke p (ProductServiceToken_id row) who w2 = (Inr r, w3) \<and>
       (\<forall>w4 scope ip. service_token_step\<^sup>*\<^sup>* w3 w4 \<longrightarrow> (\<exists>e. fst (authenticate raw scope ip w4) = Inl e)))"
proof -
  from assms(2) have raw: "raw = TOKEN_PREFIX @ token_hex TOKEN_BYTES (draws w (draw_no w))"
      and row: "ProductServiceToken_token_hash row = sha256_hex (lib w) raw" "ProductServiceToken_product_id row = p"
        "ProductServiceToken_scopes row = scopes" "ProductServiceToken_expires_at row = expires"
      and new: "row \<in> set (product_service_tokens (db w1))" "lib w1 = lib w"
    by (auto elim!: issue_cases)
  have ok1: "service_tokens_ok w1"
    using service_tokens.keeps_ok [OF issues [OF assms(2)] assms(1)] .
  have ok2: "service_tokens_ok w2" "lib w2 = lib w"
    using service_tokens.ok_forever [OF assms(3) ok1] lib_steps [OF assms(3) ok1] new(2) by simp_all
  obtain r where r: "r \<in> set (product_service_tokens (db w2))" "same_token row r"
    using token_row_lives [OF assms(3) ok1 new(1)] by blast
  then have cols: "ProductServiceToken_id r = ProductServiceToken_id row" "ProductServiceToken_product_id r = p"
      "ProductServiceToken_scopes r = scopes" "ProductServiceToken_expires_at r = expires"
      "ProductServiceToken_token_hash r = sha256_hex (lib w2) raw"
    using row ok2(2) by (simp_all add: same_token_def)
  have "length raw = 36"
    by (simp add: raw TOKEN_PREFIX_def TOKEN_BYTES_def)
  moreover have "fst (authenticate raw scope ip w2) =
          (if ProductServiceToken_revoked_at r \<noteq> None then Inl (Unauthorized ''service token revoked'')
           else if (case expires of Some e \<Rightarrow> e \<le> now w2 | None \<Rightarrow> False) then Inl (Unauthorized ''service token expired'')
           else if scope \<notin> set scopes then Inl (Forbidden ''service token missing required scope'')
           else Inr (token_use (now w2) ip r))" for scope ip
    using authenticate_outcome [OF ok2(1) r(1) cols(5) raw] cols by simp
  moreover have "\<exists>r' w3. revoke p (ProductServiceToken_id row) who w2 = (Inr r', w3) \<and>
       (\<forall>w4 scope ip. service_token_step\<^sup>*\<^sup>* w3 w4 \<longrightarrow> (\<exists>e. fst (authenticate raw scope ip w4) = Inl e))" for who
  proof -
    obtain r' w3 where run: "revoke p (ProductServiceToken_id row) who w2 = (Inr r', w3)" and dead: "token_revoked raw w3"
      using revoke_kills [OF ok2(1) r(1) cols(5), of who] cols(1,2) by auto
    have "service_tokens_ok w3"
      using service_tokens.keeps_ok [OF revokes [OF run] ok2(1)] .
    then show ?thesis
      using run dead service_tokens.refused_forever [of w3 _ "(raw, _, _)"] by fastforce
  qed
  ultimately show ?thesis
    using r(1) cols(1,2) by (intro conjI) blast+
qed

theorem service_token_lifecycle_witness:
  "\<exists>row raw w1 r. issue 5 ''backend'' [''env:read''] None None sample_world = (Inr (row, raw), w1) \<and>
     fst (authenticate raw ''env:read'' None w1) = Inr r \<and>
     fst (authenticate raw ''credits:consume'' None w1) = Inl (Forbidden ''service token missing required scope'')"
proof -
  have ok: "service_tokens_ok sample_world"
    by (simp add: service_tokens_ok_def) (simp add: sample_world_def empty_db_def)
  have empty: "product_service_tokens (db sample_world) = []"
    by (simp add: sample_world_def empty_db_def)
  have "\<exists>row raw w1. issue 5 ''backend'' [''env:read''] None None sample_world = (Inr (row, raw), w1)"
    by (simp add: issue_def validate_scopes_def ALLOWED_SCOPES_def generate_token_def token_digest_def svc_simps Let_def empty)
  then obtain row raw w1 where run: "issue 5 ''backend'' [''env:read''] None None sample_world = (Inr (row, raw), w1)"
    by (elim exE) (rule that)
  then have rows: "product_service_tokens (db w1) = [row]" "ProductServiceToken_revoked_at row = None"
    using empty by (auto elim!: issue_cases)
  show ?thesis
    using service_token_lifecycle [OF ok run rtranclp.rtrancl_refl] run rows by auto
qed

end
