(* ===== verification/Dependencies.thy ===== *)
theory Dependencies
  imports Auth Products ServiceTokens
begin

text \<open>
  The dependencies every route is guarded by (\<^verbatim>\<open>app/core/dependencies.py\<close>): the product
  of the request, its user (or the transient platform administrator), the effective tenant,
  permissions, the platform token and service tokens. A header is an optional text; the bearer token
  is what FastAPI's OAuth2 scheme extracts. The bindings of the log context are left out.
\<close>

section \<open>Product and platform administrator\<close>

definition resolve_product :: "string option \<Rightarrow> uuid option service" where
  "resolve_product x_product_slug =
     (if \<not> truthy x_product_slug then ret None
      else
      bindS (resolve_slug_to_id (the x_product_slug)) (\<lambda>resolved.
      case resolved of
        None \<Rightarrow> raise (ValidationFailed ''unknown product slug'')
      | Some (pid, pstatus) \<Rightarrow>
      if pstatus \<noteq> ProductActive then raise (Forbidden ''product is not active'')
      else bindS (set_current_product (Some pid)) (\<lambda>_. ret (Some pid))))"

definition require_product :: "uuid option \<Rightarrow> uuid service" where
  "require_product pid =
     (case pid of None \<Rightarrow> raise (ValidationFailed ''missing X-Product-Slug header'') | Some p \<Rightarrow> ret p)"

definition require_platform_admin :: "string option \<Rightarrow> unit service" where
  "require_platform_admin x_platform_admin_token =
     bindS (gets (\<lambda>w. platform_admin_token (settings w))) (\<lambda>secret.
     if secret = [] then raise (Forbidden ''platform admin is not configured'')
     else if \<not> truthy x_platform_admin_token \<or> x_platform_admin_token \<noteq> Some secret
     then raise (Unauthorized ''invalid X-Platform-Admin-Token'')
     else ret ())"

text \<open>The root tenant of a product: the oldest live tenant without parent.\<close>

definition root_tenant :: "uuid \<Rightarrow> Tenant option service" where
  "root_tenant pid =
     bindS (scalars tenants (\<lambda>t. Tenant_product_id t = pid \<and> Tenant_parent_id t = None \<and> Tenant_deleted_at t = None)) (\<lambda>ts.
     ret (case sort_key Tenant_created_at ts of [] \<Rightarrow> None | t # _ \<Rightarrow> Some t))"

definition platform_admin_user :: "uuid \<Rightarrow> uuid \<Rightarrow> User" where
  "platform_admin_user pid tid =
     \<lparr>User_id = NIL, User_product_id = pid, User_tenant_id = tid, User_email = ''platform-admin@local'',
      User_password_hash = [], User_full_name = Some ''Platform Admin'', User_is_active = True,
      User_is_verified = True, User_last_login_at = None, User_deleted_at = None, User_is_platform_admin = True\<rparr>"


section \<open>The current user\<close>

text \<open>Switching to a child: the target when it is another tenant than \<open>home\<close>.\<close>

definition act_as :: "User \<Rightarrow> uuid \<Rightarrow> string \<Rightarrow> uuid service" where
  "act_as user home slug =
     bindS (resolve_act_as user slug) (\<lambda>target.
     if Tenant_id target \<noteq> home
     then bindS (set_acting_from_tenant (Some home)) (\<lambda>_. ret (Tenant_id target))
     else ret home)"

definition platform_admin_session :: "uuid option \<Rightarrow> string option \<Rightarrow> User service" where
  "platform_admin_session header_pid x_acting_tenant_slug =
     (case header_pid of
        None \<Rightarrow> raise (ValidationFailed ''platform admin calls require X-Product-Slug header to scope the operation'')
      | Some pid \<Rightarrow>
     bindS (root_tenant pid) (\<lambda>root.
     let root_tenant_id = (case root of Some r \<Rightarrow> Tenant_id r | None \<Rightarrow> NIL);
         admin = platform_admin_user pid root_tenant_id
     in
     bindS (set_current_product (Some pid)) (\<lambda>_.
     bindS (if truthy x_acting_tenant_slug \<and> root \<noteq> None
            then act_as admin root_tenant_id (the x_acting_tenant_slug) else ret root_tenant_id) (\<lambda>effective.
     bindS (set_current_tenant (Some effective)) (\<lambda>_. ret admin)))))"

definition bearer_session :: "string option \<Rightarrow> uuid option \<Rightarrow> string option \<Rightarrow> User service" where
  "bearer_session token header_pid x_acting_tenant_slug =
     (if \<not> truthy token then raise (Unauthorized ''missing bearer token'')
      else
      bindS (decode_token (the token) (Some Access)) (\<lambda>payload.
      case payload of
        None \<Rightarrow> raise (Unauthorized ''invalid token'')
      | Some payload \<Rightarrow>
      (case claim_pid payload of
        None \<Rightarrow> raise (Unauthorized ''token missing product claim'')
      | Some token_pid \<Rightarrow>
      if header_pid \<noteq> None \<and> header_pid \<noteq> Some token_pid
      then raise (Forbidden ''product header does not match token'')
      else
      bindS (scalar users (\<lambda>u. User_id u = claim_sub payload)) (\<lambda>user.
      case user of
        None \<Rightarrow> raise (Unauthorized ''user inactive or missing'')
      | Some user \<Rightarrow>
      if \<not> User_is_active user then raise (Unauthorized ''user inactive or missing'')
      else if User_product_id user \<noteq> token_pid then raise (Forbidden ''token / user product mismatch'')
      else
      bindS (set_current_product (Some token_pid)) (\<lambda>_.
      bindS (if truthy x_acting_tenant_slug
             then act_as user (User_tenant_id user) (the x_acting_tenant_slug)
             else ret (User_tenant_id user)) (\<lambda>effective.
      bindS (set_current_tenant (Some effective)) (\<lambda>_.
      bindS (enforce_tenant_expiry effective) (\<lambda>_. ret user))))))))"

definition get_current_user ::
    "string option \<Rightarrow> uuid option \<Rightarrow> string option \<Rightarrow> string option \<Rightarrow> User service" where
  "get_current_user token header_pid x_acting_tenant_slug x_platform_admin_token =
     bindS (gets (\<lambda>w. platform_admin_token (settings w))) (\<lambda>secret.
     if truthy x_platform_admin_token \<and> secret \<noteq> [] \<and> x_platform_admin_token = Some secret
     then platform_admin_session header_pid x_acting_tenant_slug
     else bearer_session token header_pid x_acting_tenant_slug)"

text \<open>The headers of a request, and the dependency as FastAPI resolves it: the product first.\<close>

record headers =
  h_authorization :: "string option"
  h_product_slug :: "string option"
  h_acting_tenant_slug :: "string option"
  h_platform_admin_token :: "string option"

definition request_user :: "headers \<Rightarrow> User service" where
  "request_user h =
     bindS (resolve_product (h_product_slug h)) (\<lambda>header_pid.
     get_current_user (h_authorization h) header_pid (h_acting_tenant_slug h) (h_platform_admin_token h))"

definition get_current_tenant_id :: "User \<Rightarrow> uuid service" where
  "get_current_tenant_id user =
     bindS (gets current_tenant_id) (\<lambda>tid. ret (case tid of Some t \<Rightarrow> t | None \<Rightarrow> User_tenant_id user))"

definition require_permission :: "string \<Rightarrow> User \<Rightarrow> User service" where
  "require_permission permission user =
     bindS (user_has_permission user permission None) (\<lambda>ok.
     if \<not> ok then raise (Forbidden ''missing permission'') else ret user)"

definition get_idempotency_key :: "string option \<Rightarrow> string option service" where
  "get_idempotency_key idempotency_key =
     (if truthy idempotency_key \<and> 128 < length (the idempotency_key)
      then raise (HTTPException 400 ''Idempotency-Key too long'') else ret idempotency_key)"


section \<open>Service tokens\<close>

definition require_service_token ::
    "string \<Rightarrow> string option \<Rightarrow> string option \<Rightarrow> string option \<Rightarrow> ProductServiceToken service" where
  "require_service_token scope client_ip x_service_token x_product_slug =
     (if \<not> truthy x_service_token then raise (Unauthorized ''missing X-Service-Token header'')
      else
      bindS (authenticate (the x_service_token) scope client_ip) (\<lambda>token.
      bindS (if truthy x_product_slug
             then bindS (resolve_slug_to_id (the x_product_slug)) (\<lambda>resolved.
                  if (case resolved of None \<Rightarrow> True | Some (pid, _) \<Rightarrow> pid \<noteq> ProductServiceToken_product_id token)
                  then raise (Forbidden ''X-Product-Slug does not match the product of the service token'')
                  else ret ())
             else ret ()) (\<lambda>_.
      bindS (set_current_product (Some (ProductServiceToken_product_id token))) (\<lambda>_. ret token))))"

text \<open>\<^verbatim>\<open>_resolve_product_slug\<close> of the admin routes: the product of the path, with the
  audit context primed.\<close>

definition resolve_product_slug :: "string \<Rightarrow> uuid service" where
  "resolve_product_slug slug =
     bindS (get_by_slug slug) (\<lambda>product.
     case product of
       None \<Rightarrow> raise (NotFound ''product not found'')
     | Some p \<Rightarrow>
     bindS (set_current_product (Some (Product_id p))) (\<lambda>_.
     bindS (root_tenant (Product_id p)) (\<lambda>root.
     bindS (case root of None \<Rightarrow> ret () | Some r \<Rightarrow> set_current_tenant (Some (Tenant_id r))) (\<lambda>_.
     ret (Product_id p)))))"


section \<open>What an authenticated request may touch\<close>

lemma may_act_as_cong: "db v = db w \<Longrightarrow> may_act_as v u c = may_act_as w u c"
  by (simp add: may_act_as_def user_has_permission_def list_user_permission_codes_def svc_simps split: sum.splits)

lemma resolve_act_asD:
  assumes "resolve_act_as u slug w = (Inr t, w')"
  shows "w' = w \<and> t \<in> set (tenants (db w)) \<and> Tenant_product_id t = User_product_id u \<and> Tenant_deleted_at t = None \<and>
    (Tenant_id t = User_tenant_id u \<or> Tenant_parent_id t = Some (User_tenant_id u) \<and> may_act_as w u t)"
proof -
  let ?P = "\<lambda>t. Tenant_product_id t = User_product_id u \<and> Tenant_slug t = slug \<and> Tenant_deleted_at t = None"
  obtain c where c: "List.find ?P (tenants (db w)) = Some c" "t = c"
    using assms by (auto simp: resolve_act_as_def inr_simps split: option.splits if_splits)
  note found = find_SomeD [OF c(1)]
  show ?thesis
  proof (cases "Tenant_id c = User_tenant_id u")
    case True
    then show ?thesis using assms c found by (simp add: resolve_act_as_def svc_simps)
  next
    case False
    show ?thesis
    proof (cases rule: user_has_permission_outcome [of u ACT_AS_PERMISSION "Some (User_tenant_id u)" w])
      case (err e)
      then show ?thesis using assms c False
        by (auto simp: resolve_act_as_def svc_simps split: if_splits sum.splits)
    next
      case (ok b)
      have "may_act_as w u c \<and> Tenant_parent_id c = Some (User_tenant_id u) \<and> w' = w"
        using assms c False ok find_not_None [of "\<lambda>b. UserRole_user_id b = User_id u \<and> UserRole_scope_tenant_id b = Some (Tenant_id c)" "user_roles (db w)"]
        by (auto simp: resolve_act_as_def may_act_as_def svc_simps split: if_splits sum.splits)
      then show ?thesis using c found by simp
    qed
  qed
qed

lemma act_asD:
  assumes "act_as u (User_tenant_id u) slug w = (Inr t, w')"
  shows "(t = User_tenant_id u \<and> w' = w) \<or>
    (w' = w\<lparr>acting_from := Some (User_tenant_id u)\<rparr> \<and>
     (\<exists>c \<in> set (tenants (db w)). Tenant_id c = t \<and> Tenant_product_id c = User_product_id u \<and>
        Tenant_parent_id c = Some (User_tenant_id u) \<and> Tenant_deleted_at c = None \<and> may_act_as w u c))"
proof -
  obtain c v where c: "resolve_act_as u slug w = (Inr c, v)"
    using assms by (auto simp: act_as_def bindS_Inr_iff)
  show ?thesis
    using resolve_act_asD [OF c] assms c
    by (auto simp: act_as_def svc_simps set_acting_from_tenant_def split: if_splits)
qed

lemma resolve_productD:
  assumes "resolve_product slug w = (Inr pid, w')"
  obtains "pid = None" "\<not> truthy slug" "w' = w"
  | p s v where "pid = Some p" "slug = Some s" "s \<noteq> []" "resolve_slug_to_id s w = (Inr (Some (p, ProductActive)), v)"
      "w' = v\<lparr>cur_product := Some p\<rparr>"
proof (cases "truthy slug")
  case False
  then show ?thesis using assms that(1) by (simp add: resolve_product_def svc_simps)
next
  case True
  then obtain a where a: "slug = Some a" "a \<noteq> []" by (cases slug) simp_all
  obtain r v where r: "resolve_slug_to_id a w = (r, v)" by (cases "resolve_slug_to_id a w")
  have "\<exists>p. r = Inr (Some (p, ProductActive)) \<and> pid = Some p \<and> w' = v\<lparr>cur_product := Some p\<rparr>"
    using assms a r
    by (cases r; cases "case r of Inr (Some e) \<Rightarrow> e")
      (auto simp: resolve_product_def svc_simps set_current_product_def split: option.split_asm if_split_asm)
  then show ?thesis using that(2) a r by blast
qed

lemma resolve_slug_frames:
  assumes "resolve_slug_to_id slug w = (r, w')"
  shows "db w' = db w \<and> lib w' = lib w \<and> now w' = now w \<and> acting_from w' = acting_from w \<and> settings w' = settings w"
  using assms
  by (auto simp: resolve_slug_to_id_def get_by_slug_def svc_simps Let_def split: option.splits if_splits)

lemma enforce_expiryD:
  assumes "enforce_tenant_expiry t w = (Inr x, w')"
  shows "w' = w \<and> \<not> (\<exists>a. (parent_of (tenants (db w)))\<^sup>*\<^sup>* t a \<and> expired (tenants (db w)) (now w) a)"
  using assms by (auto simp: enforce_tenant_expiry_def svc_simps expiry_walk_iff split: if_splits simp del: expiry_walk.simps)

text \<open>The bearer of a token acts for itself, or as a child it may switch to.\<close>

lemma bearer_sessionD:
  assumes "bearer_session token pid slug w = (Inr u, w')"
  shows "\<exists>tok c v t. token = Some tok \<and> jwt_decode (lib w) (now w) tok = Some c \<and> claim_typ c = Access \<and>
     claim_pid c = Some (User_product_id u) \<and> (pid = None \<or> pid = Some (User_product_id u)) \<and>
     List.find (\<lambda>u. User_id u = claim_sub c) (users (db w)) = Some u \<and> User_is_active u \<and>
     (v = w\<lparr>cur_product := Some (User_product_id u)\<rparr> \<and> t = User_tenant_id u \<or>
      act_as u (User_tenant_id u) (the slug) (w\<lparr>cur_product := Some (User_product_id u)\<rparr>) = (Inr t, v)) \<and>
     enforce_tenant_expiry t (v\<lparr>cur_tenant := Some t\<rparr>) = (Inr (), w')"
proof (cases token)
  case None
  then show ?thesis using assms by (simp add: bearer_session_def svc_simps)
next
  case tok: (Some tok)
  show ?thesis
  proof (cases "jwt_decode (lib w) (now w) tok")
    case None
    then show ?thesis using assms tok by (simp add: bearer_session_def decode_token_def svc_simps split: if_splits)
  next
    case (Some c)
    then show ?thesis
      using assms tok
      by (auto simp: bearer_session_def inr_simps decode_token_def set_current_product_def set_current_tenant_def
          split: option.split_asm if_split_asm)
  qed
qed

text \<open>C16: what a request with a bearer token is let in as. The token is an unexpired access token of the
  platform for a stored, active user and for that user's product, which the product header, when it is
  sent, names too. The request runs in that product, in the user's own tenant or in a live direct child of it
  which the act-as rules let the user enter, recorded as acted from home; neither that tenant nor any
  ancestor of it is past its expiry; and letting the request in writes nothing.\<close>

theorem authenticated_scope:
  assumes "request_user h w = (Inr u, w')" and "acting_from w = None"
    and "h_platform_admin_token h \<noteq> Some (platform_admin_token (settings w))"
  shows "\<exists>tok c t. h_authorization h = Some tok \<and> jwt_decode (lib w) (now w) tok = Some c \<and> claim_typ c = Access \<and>
     claim_pid c = Some (User_product_id u) \<and> claim_sub c = User_id u \<and> u \<in> set (users (db w)) \<and> User_is_active u \<and>
     (\<forall>slug. h_product_slug h = Some slug \<and> slug \<noteq> [] \<longrightarrow>
        fst (resolve_slug_to_id slug w) = Inr (Some (User_product_id u, ProductActive))) \<and>
     db w' = db w \<and> cur_product w' = Some (User_product_id u) \<and> cur_tenant w' = Some t \<and>
     (t = User_tenant_id u \<and> acting_from w' = None \<or>
      acting_from w' = Some (User_tenant_id u) \<and>
      (\<exists>child \<in> set (tenants (db w)). Tenant_id child = t \<and> Tenant_product_id child = User_product_id u \<and>
         Tenant_parent_id child = Some (User_tenant_id u) \<and> Tenant_deleted_at child = None \<and> may_act_as w u child)) \<and>
     \<not> (\<exists>a. (parent_of (tenants (db w)))\<^sup>*\<^sup>* t a \<and> expired (tenants (db w)) (now w) a)"
proof -
  obtain pid v where rp: "resolve_product (h_product_slug h) w = (Inr pid, v)"
      and gu: "get_current_user (h_authorization h) pid (h_acting_tenant_slug h) (h_platform_admin_token h) v = (Inr u, w')"
    using assms(1) by (auto simp: request_user_def bindS_Inr_iff)
  have v: "db v = db w \<and> lib v = lib w \<and> now v = now w \<and> acting_from v = None \<and> settings v = settings w"
    using resolve_slug_frames assms(2) by (cases rule: resolve_productD [OF rp]) auto
  have bs: "bearer_session (h_authorization h) pid (h_acting_tenant_slug h) v = (Inr u, w')"
    using gu assms(3) v by (auto simp: get_current_user_def svc_simps split: if_splits)
  obtain tok c x t where s: "h_authorization h = Some tok" "jwt_decode (lib v) (now v) tok = Some c" "claim_typ c = Access"
      "claim_pid c = Some (User_product_id u)" "pid = None \<or> pid = Some (User_product_id u)"
      "List.find (\<lambda>u. User_id u = claim_sub c) (users (db v)) = Some u" "User_is_active u"
      "x = v\<lparr>cur_product := Some (User_product_id u)\<rparr> \<and> t = User_tenant_id u \<or>
        act_as u (User_tenant_id u) (the (h_acting_tenant_slug h)) (v\<lparr>cur_product := Some (User_product_id u)\<rparr>) = (Inr t, x)"
      "enforce_tenant_expiry t (x\<lparr>cur_tenant := Some t\<rparr>) = (Inr (), w')"
    using bearer_sessionD [OF bs] by blast
  note exp = enforce_expiryD [OF s(9)]
  have u: "u \<in> set (users (db w))" "claim_sub c = User_id u"
    using find_SomeD [OF s(6)] v by auto
  have slug: "fst (resolve_slug_to_id s' w) = Inr (Some (User_product_id u, ProductActive))"
    if "h_product_slug h = Some s' \<and> s' \<noteq> []" for s'
    using that s(5) by (cases rule: resolve_productD [OF rp]) auto
  have x: "db x = db w" "now x = now w" "cur_product x = Some (User_product_id u)"
      "t = User_tenant_id u \<and> acting_from x = None \<or> acting_from x = Some (User_tenant_id u) \<and>
      (\<exists>child \<in> set (tenants (db w)). Tenant_id child = t \<and> Tenant_product_id child = User_product_id u \<and>
         Tenant_parent_id child = Some (User_tenant_id u) \<and> Tenant_deleted_at child = None \<and> may_act_as w u child)"
    using s(8) v act_asD [of u "the (h_acting_tenant_slug h)" "v\<lparr>cur_product := Some (User_product_id u)\<rparr>" t x]
      may_act_as_cong [of "v\<lparr>cur_product := Some (User_product_id u)\<rparr>" w]
    by auto
  show ?thesis
    using s(1-4,7) v u slug x exp by (intro exI [of _ tok] exI [of _ c] exI [of _ t]) simp
qed


text \<open>User 120 of tenant 107 with an access token, entering the child 108.\<close>

definition sample_office :: world where
  "sample_office = sample_family\<lparr>db := users_update (\<lambda>_. [sample_user 120 107]) (db sample_family)\<rparr>"

definition sample_bearer :: string where
  "sample_bearer = sample_jwt_encode \<lparr>claim_sub = 120, claim_tid = Some 107, claim_pid = Some 5, claim_typ = Access,
     claim_iat = 0, claim_exp = 5000, claim_jti = 150\<rparr>"

definition sample_headers :: headers where
  "sample_headers = \<lparr>h_authorization = Some sample_bearer, h_product_slug = Some ''shop'',
     h_acting_tenant_slug = Some ''a'', h_platform_admin_token = None\<rparr>"

lemma sample_bearer_simps [simp]:
  "sample_jwt_decode (seconds 1000) sample_bearer = Some \<lparr>claim_sub = 120, claim_tid = Some 107, claim_pid = Some 5,
     claim_typ = Access, claim_iat = 0, claim_exp = 5000, claim_jti = 150\<rparr>"
  "sample_bearer \<noteq> []"
  by (simp add: sample_bearer_def sample_jwt seconds_def) (simp add: sample_bearer_def sample_jwt_encode_def)

theorem authenticated_scope_witness:
  "\<exists>u w'. request_user sample_headers sample_office = (Inr u, w') \<and> cur_tenant w' = Some 108 \<and>
     acting_from w' = Some 107 \<and> may_act_as sample_office u (sample_child 108 ''a'' (Some 107))"
proof -
  have run: "\<exists>u w'. request_user sample_headers sample_office = (Inr u, w') \<and> cur_tenant w' = Some 108 \<and> User_tenant_id u = 107"
    by (simp add: request_user_def resolve_product_def resolve_slug_to_id_def get_by_slug_def get_current_user_def bearer_session_def
        decode_token_def act_as_def resolve_act_as_def enforce_tenant_expiry_def set_current_product_def set_current_tenant_def
        set_acting_from_tenant_def sample_headers_def sample_office_def sample_family_def sample_world_def sample_lib_def
        default_settings_def empty_db_def sample_user_def sample_child_def sample_product_def svc_simps Let_def
        product_blocks_def product_allows_act_as_def dict_get_def home_blocks_def tenant_allows_child_access_def
        user_has_permission_def list_user_permission_codes_def permission_codes_def del: set_map set_filter)
  then obtain u w' where run: "request_user sample_headers sample_office = (Inr u, w')" "cur_tenant w' = Some 108" "User_tenant_id u = 107"
    by (elim exE conjE) (rule that)
  have "acting_from sample_office = None"
    "h_platform_admin_token sample_headers \<noteq> Some (platform_admin_token (settings sample_office))"
    by (simp_all add: sample_office_def sample_family_def sample_world_def sample_headers_def)
  note scope = authenticated_scope [OF run(1) this]
  have "acting_from w' = Some 107 \<and> (\<exists>child \<in> set (tenants (db sample_office)). Tenant_id child = 108 \<and> may_act_as sample_office u child)"
    using scope run(2,3) by auto
  moreover have "child = sample_child 108 ''a'' (Some 107)" if "child \<in> set (tenants (db sample_office))" "Tenant_id child = 108" for child
    using that by (auto simp: sample_office_def sample_family_def sample_child_def empty_db_def)
  ultimately show ?thesis using run by blast
qed


section \<open>A disabled product\<close>

text \<open>A request with a bearer token that leaves the product header out is let in, or refused, whatever
  has become of its product: no row of the product table is read, so disabling, archiving or deleting
  a product does not stop the sessions of its users.\<close>

lemma product_status_unchecked:
  assumes "h_product_slug h = None" and "h_acting_tenant_slug h = None" and "h_platform_admin_token h = None"
  shows "fst (request_user h (w\<lparr>db := products_update f (db w)\<rparr>)) = fst (request_user h w)"
proof -
  have "enforce_tenant_expiry t (v\<lparr>db := products_update f (db v)\<rparr>) =
      (fst (enforce_tenant_expiry t v), v\<lparr>db := products_update f (db v)\<rparr>)" for t v
    by (simp add: enforce_tenant_expiry_def svc_simps del: expiry_walk.simps)
  moreover have "snd (enforce_tenant_expiry t v) = v" for t v
    by (simp add: enforce_tenant_expiry_def svc_simps del: expiry_walk.simps)
  ultimately show ?thesis
    using assms
    by (simp add: request_user_def resolve_product_def get_current_user_def bearer_session_def decode_token_def svc_simps
        set_current_product_def set_current_tenant_def enforce_tenant_expiry_def del: expiry_walk.simps split: option.split sum.split)
qed

lemma product_status_unchecked_witness:
  "\<exists>u. fst (request_user (sample_headers\<lparr>h_product_slug := None, h_acting_tenant_slug := None\<rparr>)
     (sample_office\<lparr>db := products_update (\<lambda>_. [sample_product\<lparr>Product_status := ProductArchived\<rparr>]) (db sample_office)\<rparr>)) = Inr u"
proof -
  have "\<exists>u. fst (request_user (sample_headers\<lparr>h_product_slug := None, h_acting_tenant_slug := None\<rparr>) sample_office) = Inr u"
    by (simp add: request_user_def resolve_product_def get_current_user_def bearer_session_def
        decode_token_def enforce_tenant_expiry_def set_current_product_def set_current_tenant_def
        sample_headers_def sample_office_def sample_family_def sample_world_def sample_lib_def
        default_settings_def empty_db_def sample_user_def sample_child_def svc_simps Let_def)
  then show ?thesis
    by (subst product_status_unchecked) (simp_all add: sample_headers_def)
qed

end
