(* ===== verification/Users.thy ===== *)
theory Users
  imports Dependencies
begin

text \<open>
  The members of a tenant: \<^verbatim>\<open>app/services/user.py\<close> and the routes of
  \<^verbatim>\<open>app/api/v1/users.py\<close>, which act on the members of the effective tenant only.
\<close>

section \<open>The service\<close>

definition add_binding :: "uuid \<Rightarrow> uuid \<Rightarrow> uuid \<Rightarrow> unit service" where
  "add_binding product_id user_id role_id =
     bindS fresh (\<lambda>i.
     insert_row user_roles user_roles_update user_role_clash
       \<lparr>UserRole_id = i, UserRole_product_id = product_id, UserRole_user_id = user_id, UserRole_role_id = role_id,
        UserRole_scope_tenant_id = None\<rparr>)"

definition bind_role_code :: "uuid \<Rightarrow> uuid \<Rightarrow> uuid \<Rightarrow> string \<Rightarrow> unit service" where
  "bind_role_code product_id tenant_id user_id code =
     bindS (scalar roles (\<lambda>r. Role_name r = code \<and> Role_product_id r = product_id \<and>
              (Role_tenant_id r = Some tenant_id \<or> Role_tenant_id r = None))) (\<lambda>role.
     case role of
       None \<Rightarrow> raise (NotFound ''role not found in this product'')
     | Some role \<Rightarrow> add_binding product_id user_id (Role_id role))"

definition invite_user ::
    "uuid \<Rightarrow> uuid \<Rightarrow> string \<Rightarrow> string option \<Rightarrow> string list \<Rightarrow> uuid option \<Rightarrow> string option \<Rightarrow> (User \<times> string) service" where
  "invite_user product_id tenant_id email full_name role_codes actor_user_id initial_password =
     bindS (scalar users (\<lambda>u. User_tenant_id u = tenant_id \<and> User_email u = str_lower email \<and> User_deleted_at u = None)) (\<lambda>existing.
     if existing \<noteq> None then raise (Conflict ''user already exists in tenant'')
     else
     bindS (if truthy initial_password then ret (the initial_password) else bindS fresh (\<lambda>d. ret (token_urlsafe 12 d))) (\<lambda>raw_password.
     bindS (hash_password raw_password) (\<lambda>h.
     bindS fresh (\<lambda>i.
     let user = \<lparr>User_id = i, User_product_id = product_id, User_tenant_id = tenant_id, User_email = str_lower email,
           User_password_hash = h, User_full_name = full_name, User_is_active = True, User_is_verified = False,
           User_last_login_at = None, User_deleted_at = None, User_is_platform_admin = False\<rparr>
     in
     bindS (insert_row users users_update user_clash user) (\<lambda>_.
     bindS (forS (if role_codes \<noteq> [] then role_codes else [''member'']) (bind_role_code product_id tenant_id i)) (\<lambda>_.
     bindS (record_audit ((act ''user.invite'')\<lparr>a_actor_user_id := actor_user_id, a_resource_type := Some ''user'',
              a_resource_id := Some i,
              a_diff := [(''email'', JStr email), (''roles'', JList (map JStr role_codes)),
                         (''password_supplied'', JBool (initial_password \<noteq> None))]\<rparr>)) (\<lambda>_.
     ret (user, raw_password))))))))"

definition set_active :: "uuid \<Rightarrow> bool \<Rightarrow> uuid option \<Rightarrow> User service" where
  "set_active user_id active actor_user_id =
     bindS (scalar users (\<lambda>u. User_id u = user_id)) (\<lambda>user.
     case user of
       None \<Rightarrow> raise (NotFound ''user not found'')
     | Some user \<Rightarrow>
     bindS (set_user (User_id user) (\<lambda>u. u\<lparr>User_is_active := active\<rparr>)) (\<lambda>_.
     bindS (record_audit ((act (if active then ''user.activate'' else ''user.deactivate''))\<lparr>a_actor_user_id := actor_user_id,
              a_resource_type := Some ''user'', a_resource_id := Some (User_id user),
              a_tenant_id := Some (User_tenant_id user), a_product_id := Some (User_product_id user)\<rparr>)) (\<lambda>_.
     ret (user\<lparr>User_is_active := active\<rparr>))))"

definition soft_delete :: "uuid \<Rightarrow> uuid option \<Rightarrow> unit service" where
  "soft_delete user_id actor_user_id =
     bindS (scalar users (\<lambda>u. User_id u = user_id)) (\<lambda>user.
     case user of
       None \<Rightarrow> raise (NotFound ''user not found'')
     | Some user \<Rightarrow>
     bindS (gets now) (\<lambda>t.
     bindS (set_user (User_id user) (\<lambda>u. u\<lparr>User_deleted_at := Some t, User_is_active := False\<rparr>)) (\<lambda>_.
     record_audit ((act ''user.delete'')\<lparr>a_actor_user_id := actor_user_id,
       a_resource_type := Some ''user'', a_resource_id := Some (User_id user),
       a_tenant_id := Some (User_tenant_id user), a_product_id := Some (User_product_id user)\<rparr>))))"


section \<open>The routes\<close>

text \<open>The member a route works on: a user of the actor's product and effective tenant.\<close>

definition scoped_or_404 :: "User option \<Rightarrow> User \<Rightarrow> User service" where
  "scoped_or_404 target user =
     bindS (effective_tenant user) (\<lambda>tid.
     case target of
       None \<Rightarrow> raise (NotFound ''user not found'')
     | Some t \<Rightarrow>
     if User_product_id t \<noteq> User_product_id user \<or> User_tenant_id t \<noteq> tid
     then raise (NotFound ''user not found'') else ret t)"

definition scoped_user :: "uuid \<Rightarrow> User \<Rightarrow> User service" where
  "scoped_user user_id actor = bindS (scalar users (\<lambda>u. User_id u = user_id)) (\<lambda>target. scoped_or_404 target actor)"

definition list_users :: "User \<Rightarrow> User list service" where
  "list_users user =
     bindS (effective_tenant user) (\<lambda>tid.
     scalars users (\<lambda>u. User_product_id u = User_product_id user \<and> User_tenant_id u = tid \<and> User_deleted_at u = None))"

record UserInvite =
  inv_email :: string
  inv_full_name :: "string option"
  inv_role_codes :: "string list"
  inv_scope_tenant_id :: "uuid option"
  inv_initial_password :: "string option"

definition invite :: "UserInvite \<Rightarrow> User \<Rightarrow> (User \<times> string) service" where
  "invite payload user =
     bindS (effective_tenant user) (\<lambda>tid.
     invite_user (User_product_id user) tid (inv_email payload) (inv_full_name payload) (inv_role_codes payload)
       (actor_id user) (inv_initial_password payload))"

text \<open>An explicit null for \<open>is_active\<close> violates the NOT NULL of the column.\<close>

definition update_user :: "uuid \<Rightarrow> string patch \<Rightarrow> bool patch \<Rightarrow> User \<Rightarrow> User service" where
  "update_user user_id full_name is_active actor =
     bindS (scoped_user user_id actor) (\<lambda>target.
     if is_active = Null then raise IntegrityError
     else
     let f = (\<lambda>u. u\<lparr>User_full_name := patch_option full_name (User_full_name u),
                     User_is_active := patch_value is_active (User_is_active u)\<rparr>)
     in bindS (set_user (User_id target) f) (\<lambda>_. ret (f target)))"

definition activate :: "uuid \<Rightarrow> User \<Rightarrow> User service" where
  "activate user_id actor = bindS (scoped_user user_id actor) (\<lambda>_. set_active user_id True (actor_id actor))"

definition deactivate :: "uuid \<Rightarrow> User \<Rightarrow> User service" where
  "deactivate user_id actor = bindS (scoped_user user_id actor) (\<lambda>_. set_active user_id False (actor_id actor))"

definition delete_user :: "uuid \<Rightarrow> User \<Rightarrow> unit service" where
  "delete_user user_id actor = bindS (scoped_user user_id actor) (\<lambda>_. soft_delete user_id (actor_id actor))"


section \<open>The routes stay inside the effective tenant\<close>

datatype user_op =
    Invite UserInvite
  | UpdateUser uuid "string patch" "bool patch"
  | Activate uuid
  | Deactivate uuid
  | DeleteUser uuid

fun run_user_op :: "user_op \<Rightarrow> User \<Rightarrow> unit service" where
  "run_user_op (Invite payload) actor = bindS (invite payload actor) (\<lambda>_. ret ())"
| "run_user_op (UpdateUser i n a) actor = bindS (update_user i n a actor) (\<lambda>_. ret ())"
| "run_user_op (Activate i) actor = bindS (activate i actor) (\<lambda>_. ret ())"
| "run_user_op (Deactivate i) actor = bindS (deactivate i actor) (\<lambda>_. ret ())"
| "run_user_op (DeleteUser i) actor = delete_user i actor"

definition member :: "uuid \<Rightarrow> uuid \<Rightarrow> User \<Rightarrow> bool" where
  "member p t u \<longleftrightarrow> User_product_id u = p \<and> User_tenant_id u = t"

text \<open>What a route may change of a stored user: the name and the activity, and mark it deleted.\<close>

definition same_account :: "User \<Rightarrow> User \<Rightarrow> bool" where
  "same_account u u' \<longleftrightarrow> User_id u' = User_id u \<and> User_product_id u' = User_product_id u \<and>
     User_tenant_id u' = User_tenant_id u \<and> User_email u' = User_email u \<and>
     User_password_hash u' = User_password_hash u \<and> (User_deleted_at u \<noteq> None \<longrightarrow> User_deleted_at u' \<noteq> None)"

text \<open>The user table after a route: outside the tenant nothing, inside it the accounts in place,
  with at most new ones at the end.\<close>

definition members_only :: "uuid \<Rightarrow> uuid \<Rightarrow> User list \<Rightarrow> User list \<Rightarrow> bool" where
  "members_only p t = grows (\<lambda>u u'. same_account u u' \<and> (member p t u \<or> u' = u)) (member p t)"

lemma same_account_refl: "same_account u u"
  by (simp add: same_account_def)

lemma members_only_refl [simp]: "members_only p t us us"
  by (simp add: members_only_def grows_refl same_account_refl)

lemma members_only_append: "members_only p t us us' \<Longrightarrow> member p t u \<Longrightarrow> members_only p t us (us' @ [u])"
  by (simp add: members_only_def grows_append)

lemma members_only_update:
  assumes "\<And>u. u \<in> set us \<Longrightarrow> P u \<Longrightarrow> member p t u" and "\<And>u. same_account u (f u)"
  shows "members_only p t us (map_rows P f us)"
  unfolding members_only_def using assms by (intro grows_update) (simp_all add: same_account_refl)

lemma users_bind_code: "frames (\<lambda>w. users (db w)) (bind_role_code p t i code)"
  unfolding bind_role_code_def add_binding_def
  by (intro frames_intros) simp_all

lemma keeps_members_invite:
  "keeps (\<lambda>w. members_only p t us (users (db w))) (invite_user p t email full_name codes actor pw)"
  unfolding invite_user_def hash_password_def Let_def
  by (intro keeps_intros keeps_insert_row keeps_fresh keeps_record_audit frames_keeps [OF users_bind_code])
    (simp_all add: members_only_append member_def)

lemma scoped_userD:
  assumes "scoped_user i actor w = (r, w')"
  shows "w' = w" and "r = Inr u \<Longrightarrow> List.find (\<lambda>u. User_id u = i) (users (db w)) = Some u \<and>
    User_product_id u = User_product_id actor \<and> effective_tenant actor w = (Inr (User_tenant_id u), w)"
  using assms by (auto simp: scoped_user_def scoped_or_404_def effective_tenant_def svc_simps split: option.splits if_splits)

lemma same_account_updates [simp]:
  "same_account u (u\<lparr>User_is_active := b\<rparr>)" "same_account u (u\<lparr>User_full_name := n, User_is_active := b\<rparr>)"
  "same_account u (u\<lparr>User_deleted_at := Some x, User_is_active := b\<rparr>)"
  by (simp_all add: same_account_def)

lemma users_update_one:
  assumes "distinct (map User_id (users (db w)))" and "List.find (\<lambda>u. User_id u = i) (users (db w)) = Some u"
    and "member p t u" and "\<And>u. same_account u (f u)"
  shows "members_only p t (users (db w)) (map_rows (\<lambda>x. User_id x = User_id u) f (users (db w)))"
proof (rule members_only_update)
  fix x assume "x \<in> set (users (db w))" "User_id x = User_id u"
  then show "member p t x"
    using distinct_map_eq [OF assms(1), of x u] find_SomeD [OF assms(2)] assms(3) by simp
qed (rule assms(4))

text \<open>C10: whatever the request, a route of the user administration changes members of the actor's
  product and effective tenant only: every other row stays as it is, in its place; a member keeps its
  identity, email and password, and once deleted stays marked so; a row that is added is a member.\<close>

theorem user_routes_scoped:
  assumes "distinct (map User_id (users (db w)))" and "effective_tenant actor w = (Inr t, w)"
    and "run_user_op op actor w = (r, w')"
  shows "members_only (User_product_id actor) t (users (db w)) (users (db w'))"
proof -
  have scoped: "members_only (User_product_id actor) t (users (db w)) (map_rows (\<lambda>x. User_id x = User_id u) f (users (db w)))"
    if "scoped_user i actor w = (Inr u, v)" and "\<And>u. same_account u (f u)" for i u v f
  proof -
    have u: "List.find (\<lambda>u. User_id u = i) (users (db w)) = Some u" "member (User_product_id actor) t u"
      using scoped_userD(2) [OF that(1) refl] assms(2) by (simp_all add: member_def)
    show ?thesis by (rule users_update_one [OF assms(1) u that(2)])
  qed
  show ?thesis
  proof (cases op)
    case (Invite payload)
    then show ?thesis
      using assms(2,3) keepsD [OF keeps_members_invite members_only_refl]
      by (fastforce simp: invite_def effective_tenant_def svc_simps split: prod.split_asm sum.split_asm)
  next
    case (UpdateUser i n a)
    then show ?thesis
      using assms(3) scoped_userD(1) [of i actor w]
      by (auto simp: update_user_def set_user_def svc_simps Let_def intro!: scoped [of i]
          split: prod.split_asm sum.split_asm if_split_asm)
  next
    case (Activate i)
    then show ?thesis
      using assms(3) scoped_userD [of i actor w]
      by (auto simp: activate_def set_active_def set_user_def svc_simps intro!: scoped [of i]
          split: prod.split_asm sum.split_asm option.split_asm)
  next
    case (Deactivate i)
    then show ?thesis
      using assms(3) scoped_userD [of i actor w]
      by (auto simp: deactivate_def set_active_def set_user_def svc_simps intro!: scoped [of i]
          split: prod.split_asm sum.split_asm option.split_asm)
  next
    case (DeleteUser i)
    then show ?thesis
      using assms(3) scoped_userD [of i actor w]
      by (auto simp: delete_user_def soft_delete_def set_user_def svc_simps intro!: scoped [of i]
          split: prod.split_asm sum.split_asm option.split_asm)
  qed
qed


text \<open>An administrator of tenant 107 and a deleted member of it.\<close>

definition sample_members :: world where
  "sample_members = sample_world\<lparr>db := empty_db\<lparr>users := [sample_user 119 107,
     (sample_user 120 107)\<lparr>User_is_active := False, User_deleted_at := Some 0\<rparr>, sample_user 121 108],
     tenants := [sample_child 107 ''hq'' None]\<rparr>\<rparr>"

theorem user_routes_scoped_witness:
  "\<exists>r w'. run_user_op (DeleteUser 119) (sample_user 120 107) sample_members = (r, w') \<and> r = Inr () \<and>
     members_only 5 107 (users (db sample_members)) (users (db w'))"
proof -
  obtain w' where run: "run_user_op (DeleteUser 119) (sample_user 120 107) sample_members = (Inr (), w')"
    by (simp add: delete_user_def scoped_user_def scoped_or_404_def effective_tenant_def soft_delete_def set_user_def
        svc_simps sample_members_def sample_user_def sample_world_def context_defs)
  have "distinct (map User_id (users (db sample_members)))"
      "effective_tenant (sample_user 120 107) sample_members = (Inr 107, sample_members)"
    by (simp_all add: sample_members_def sample_user_def sample_world_def effective_tenant_def svc_simps context_defs)
  from user_routes_scoped [OF this run] show ?thesis
    using run by (simp add: sample_user_def)
qed


section \<open>A deleted user who comes back\<close>

text \<open>The activation of a deleted user succeeds and leaves it deleted; an access token of the user,
  issued at any earlier time and not expired, is accepted again from then on.\<close>

lemma deleted_user_returns:
  assumes "List.find (\<lambda>u. User_id u = i) (users (db w)) = Some u" and "User_deleted_at u \<noteq> None"
    and "User_product_id actor = User_product_id u" and "effective_tenant actor w = (Inr (User_tenant_id u), w)"
    and "jwt_decode (lib w) (now w) tok = Some c" and "claim_typ c = Access" and "claim_sub c = i"
    and "claim_pid c = Some (User_product_id u)" and "tok \<noteq> []"
    and "\<not> (\<exists>a. (parent_of (tenants (db w)))\<^sup>*\<^sup>* (User_tenant_id u) a \<and> expired (tenants (db w)) (now w) a)"
  shows "\<exists>u' w1. activate i actor w = (Inr u', w1) \<and> User_deleted_at u' \<noteq> None \<and>
     fst (bearer_session (Some tok) None None w1) = Inr u'"
proof -
  let ?u = "u\<lparr>User_is_active := True\<rparr>"
  let ?w1 = "snd (activate i actor w)"
  have u: "User_id u = i" using find_SomeD [OF assms(1)] by simp
  have act: "activate i actor w = (Inr ?u, ?w1)"
    using assms(1,3,4) by (simp add: activate_def scoped_user_def scoped_or_404_def set_active_def set_user_def svc_simps)
  have w1: "users (db ?w1) = map_rows (\<lambda>x. User_id x = i) (\<lambda>x. x\<lparr>User_is_active := True\<rparr>) (users (db w))"
      "tenants (db ?w1) = tenants (db w)" "lib ?w1 = lib w" "now ?w1 = now w"
    using assms(1,3,4) u by (simp_all add: activate_def scoped_user_def scoped_or_404_def set_active_def set_user_def svc_simps)
  have "List.find (\<lambda>x. User_id x = i) (users (db ?w1)) = Some ?u"
    using assms(1) u by (simp add: w1 find_map_rows_keep)
  moreover have "\<not> (\<exists>a. (parent_of (tenants (db ?w1)))\<^sup>*\<^sup>* (User_tenant_id u) a \<and> expired (tenants (db ?w1)) (now ?w1) a)"
    using assms(10) w1(2,4) by simp
  ultimately have "fst (bearer_session (Some tok) None None ?w1) = Inr ?u"
    using assms(5-9) w1(2-4)
    by (simp add: bearer_session_def decode_token_def svc_simps set_current_product_def set_current_tenant_def
        enforce_tenant_expiry_def expiry_walk_iff del: expiry_walk.simps)
  then show ?thesis using act assms(2) by (intro exI [of _ ?u] exI [of _ ?w1]) simp
qed

lemma deleted_user_returns_witness:
  "\<exists>u' w1. activate 120 (sample_user 119 107) sample_members = (Inr u', w1) \<and> User_deleted_at u' \<noteq> None \<and>
     fst (bearer_session (Some sample_bearer) None None w1) = Inr u'"
proof -
  have find: "List.find (\<lambda>u. User_id u = 120) (users (db sample_members)) =
      Some ((sample_user 120 107)\<lparr>User_is_active := False, User_deleted_at := Some 0\<rparr>)"
    by (simp add: sample_members_def sample_user_def)
  have dec: "jwt_decode (lib sample_members) (now sample_members) sample_bearer =
      Some \<lparr>claim_sub = 120, claim_tid = Some 107, claim_pid = Some 5, claim_typ = Access, claim_iat = 0, claim_exp = 5000, claim_jti = 150\<rparr>"
    by (simp add: sample_members_def sample_world_def sample_lib_def)
  have "\<not> expired (tenants (db sample_members)) (now sample_members) a" for a
    by (auto simp: expired_def sample_members_def sample_child_def split: if_splits)
  then have fresh: "\<not> (\<exists>a. (parent_of (tenants (db sample_members)))\<^sup>*\<^sup>* 107 a \<and> expired (tenants (db sample_members)) (now sample_members) a)"
    by blast
  have home: "effective_tenant (sample_user 119 107) sample_members = (Inr 107, sample_members)"
    by (simp add: sample_members_def sample_user_def sample_world_def effective_tenant_def svc_simps context_defs)
  have sel: "User_product_id (sample_user i t) = 5" "User_tenant_id (sample_user i t) = t" for i t
    by (simp_all add: sample_user_def)
  show ?thesis
    by (rule deleted_user_returns [OF find _ _ _ dec]) (simp_all add: sel home fresh)
qed

end
