(* ===== verification/Jobs.thy ===== *)
theory Jobs
  imports Interfaces Samples
begin

text \<open>
  Background jobs: \<^verbatim>\<open>app/services/job.py\<close> over the table of
  \<^verbatim>\<open>app/models/job.py\<close>. \<open>enqueue\<close> looks the idempotency key up before it inserts;
  another request may insert in between, so the second half is a definition of its own
  (\<open>enqueue_insert\<close>), whose insert can then violate the unique index.
\<close>

section \<open>The table\<close>

text \<open>The partial unique index: rows without a key never collide.\<close>

definition job_clash :: "Job \<Rightarrow> Job \<Rightarrow> bool" where
  "job_clash x y \<longleftrightarrow> Job_idempotency_key x \<noteq> None \<and> Job_idempotency_key x = Job_idempotency_key y \<and>
     Job_product_id x = Job_product_id y \<and> Job_tenant_id x = Job_tenant_id y \<and> Job_type x = Job_type y"

definition TERMINAL_STATUSES :: "JobStatus list" where
  "TERMINAL_STATUSES = [Done, Failed, JobCancelled]"

definition DEFAULT_TTL_SECONDS :: int where
  "DEFAULT_TTL_SECONDS = 60 * 60 * 24"

definition MAX_TTL_SECONDS :: int where
  "MAX_TTL_SECONDS = 60 * 60 * 24 * 7"

definition clamp_ttl :: "int option \<Rightarrow> int" where
  "clamp_ttl requested =
     (case requested of None \<Rightarrow> DEFAULT_TTL_SECONDS | Some n \<Rightarrow> max 1 (min n MAX_TTL_SECONDS))"


section \<open>Enqueue\<close>

record job_args =
  j_product_id :: uuid
  j_tenant_id :: uuid
  j_type :: string
  j_payload :: dict
  j_callback_url :: "string option"
  j_reference :: "string option"
  j_ttl_seconds :: "int option"
  j_idempotency_key :: "string option"
  j_actor_user_id :: "uuid option"
  j_acting_from_tenant_id :: "uuid option"

definition under_key :: "job_args \<Rightarrow> Job \<Rightarrow> bool" where
  "under_key a j \<longleftrightarrow> Job_product_id j = j_product_id a \<and> Job_tenant_id j = j_tenant_id a \<and> Job_type j = j_type a \<and>
     j_idempotency_key a \<noteq> None \<and> Job_idempotency_key j = j_idempotency_key a"

definition find_by_idempotency_key :: "job_args \<Rightarrow> Job option service" where
  "find_by_idempotency_key a = scalar jobs (under_key a)"

definition new_job :: "job_args \<Rightarrow> uuid \<Rightarrow> time \<Rightarrow> Job" where
  "new_job a i t = \<lparr>Job_id = i, Job_product_id = j_product_id a, Job_tenant_id = j_tenant_id a, Job_type = j_type a,
     Job_status = Queued, Job_payload = j_payload a, Job_result = None, Job_error = None, Job_progress = 0,
     Job_idempotency_key = j_idempotency_key a, Job_reference = j_reference a, Job_callback_url = j_callback_url a,
     Job_credits_charged = None, Job_queued_at = t, Job_started_at = None, Job_completed_at = None,
     Job_expires_at = t + seconds (clamp_ttl (j_ttl_seconds a)), Job_created_by_user_id = j_actor_user_id a,
     Job_acting_from_tenant_id = j_acting_from_tenant_id a\<rparr>"

definition job_audit :: "string \<Rightarrow> uuid option \<Rightarrow> Job \<Rightarrow> dict \<Rightarrow> audit_args" where
  "job_audit action actor_user_id job diff = (act action)\<lparr>a_actor_user_id := actor_user_id, a_resource_type := Some ''job'',
     a_resource_id := Some (Job_id job), a_product_id := Some (Job_product_id job), a_tenant_id := Some (Job_tenant_id job),
     a_diff := diff\<rparr>"

text \<open>The insert, with the rollback and the second lookup of a request that lost the race. Nothing was
  written before it, so the rollback leaves the database as it is.\<close>

definition enqueue_insert :: "job_args \<Rightarrow> Job service" where
  "enqueue_insert a =
     bindS (gets now) (\<lambda>t.
     bindS fresh (\<lambda>i.
     bindS (attempt (insert_row jobs jobs_update job_clash (new_job a i t))) (\<lambda>flushed.
     case flushed of
       Inl e \<Rightarrow>
         (if e \<noteq> IntegrityError \<or> j_idempotency_key a = None then raise e
          else
          bindS (find_by_idempotency_key a) (\<lambda>existing.
          case existing of None \<Rightarrow> raise e | Some j \<Rightarrow> ret j))
     | Inr _ \<Rightarrow>
     bindS (record_audit (job_audit ''job.create'' (j_actor_user_id a) (new_job a i t)
              [(''type'', JStr (j_type a)), (''reference'', jopt JStr (j_reference a))])) (\<lambda>_.
     ret (new_job a i t)))))"

definition enqueue :: "job_args \<Rightarrow> Job service" where
  "enqueue a =
     (if j_type a = [] then raise (ValidationFailed ''type is required'')
      else
      bindS (if j_idempotency_key a \<noteq> None then find_by_idempotency_key a else ret None) (\<lambda>existing.
      case existing of Some j \<Rightarrow> ret j | None \<Rightarrow> enqueue_insert a))"


section \<open>Reading and the state machine\<close>

definition get_job :: "uuid \<Rightarrow> uuid \<Rightarrow> uuid \<Rightarrow> Job service" where
  "get_job product_id tenant_id job_id =
     bindS (scalar jobs (\<lambda>j. Job_id j = job_id \<and> Job_product_id j = product_id \<and> Job_tenant_id j = tenant_id)) (\<lambda>job.
     case job of None \<Rightarrow> raise (NotFound ''job not found'') | Some j \<Rightarrow> ret j)"

definition list_jobs ::
    "uuid \<Rightarrow> uuid \<Rightarrow> JobStatus option \<Rightarrow> string option \<Rightarrow> string option \<Rightarrow> int \<Rightarrow> Job list service" where
  "list_jobs product_id tenant_id status typ reference limit =
     bindS (scalars jobs (\<lambda>j. Job_product_id j = product_id \<and> Job_tenant_id j = tenant_id \<and>
              (status \<noteq> None \<longrightarrow> Some (Job_status j) = status) \<and>
              (truthy typ \<longrightarrow> Some (Job_type j) = typ) \<and>
              (truthy reference \<longrightarrow> Job_reference j = reference))) (\<lambda>js.
     ret (take (nat (max 1 (min limit 200))) (sort_key (\<lambda>j. - Job_queued_at j) js)))"

definition set_job :: "uuid \<Rightarrow> (Job \<Rightarrow> Job) \<Rightarrow> unit service" where
  "set_job job_id f = update_rows jobs_update (\<lambda>j. Job_id j = job_id) f"

definition cancel_job :: "uuid \<Rightarrow> uuid \<Rightarrow> uuid \<Rightarrow> uuid option \<Rightarrow> Job service" where
  "cancel_job product_id tenant_id job_id actor_user_id =
     bindS (get_job product_id tenant_id job_id) (\<lambda>job.
     if Job_status job \<noteq> Queued then raise (Conflict ''cannot cancel job in this status'')
     else
     bindS (gets now) (\<lambda>t.
     let f = (\<lambda>j. j\<lparr>Job_status := JobCancelled, Job_completed_at := Some t\<rparr>) in
     bindS (set_job (Job_id job) f) (\<lambda>_.
     bindS (record_audit (job_audit ''job.cancel'' actor_user_id job [(''type'', JStr (Job_type job))])) (\<lambda>_.
     ret (f job)))))"

definition mark_running :: "uuid \<Rightarrow> uuid \<Rightarrow> uuid \<Rightarrow> Job service" where
  "mark_running product_id tenant_id job_id =
     bindS (get_job product_id tenant_id job_id) (\<lambda>job.
     if Job_status job = Running then ret job
     else if Job_status job \<noteq> Queued then raise (Conflict ''cannot start job in this status'')
     else
     bindS (gets now) (\<lambda>t.
     let f = (\<lambda>j. j\<lparr>Job_status := Running, Job_started_at := Some t\<rparr>) in
     bindS (set_job (Job_id job) f) (\<lambda>_. ret (f job))))"

definition mark_done :: "uuid \<Rightarrow> uuid \<Rightarrow> uuid \<Rightarrow> dict option \<Rightarrow> uuid option \<Rightarrow> Job service" where
  "mark_done product_id tenant_id job_id result actor_user_id =
     bindS (get_job product_id tenant_id job_id) (\<lambda>job.
     if Job_status job \<in> set TERMINAL_STATUSES then raise (Conflict ''job already terminal'')
     else
     bindS (gets now) (\<lambda>t.
     let f = (\<lambda>j. j\<lparr>Job_status := Done, Job_result := Some (case result of Some d \<Rightarrow> d | None \<Rightarrow> []),
                     Job_progress := 100, Job_completed_at := Some t\<rparr>) in
     bindS (set_job (Job_id job) f) (\<lambda>_.
     bindS (record_audit (job_audit ''job.complete'' actor_user_id job [(''type'', JStr (Job_type job))])) (\<lambda>_.
     ret (f job)))))"

definition mark_failed :: "uuid \<Rightarrow> uuid \<Rightarrow> uuid \<Rightarrow> string \<Rightarrow> string \<Rightarrow> uuid option \<Rightarrow> Job service" where
  "mark_failed product_id tenant_id job_id code error_message actor_user_id =
     bindS (get_job product_id tenant_id job_id) (\<lambda>job.
     if Job_status job \<in> set TERMINAL_STATUSES then raise (Conflict ''job already terminal'')
     else
     bindS (gets now) (\<lambda>t.
     let f = (\<lambda>j. j\<lparr>Job_status := Failed, Job_error := Some (code, error_message), Job_completed_at := Some t\<rparr>) in
     bindS (set_job (Job_id job) f) (\<lambda>_.
     bindS (record_audit (job_audit ''job.fail'' actor_user_id job
              [(''type'', JStr (Job_type job)), (''error_code'', JStr code)])) (\<lambda>_.
     ret (f job)))))"


section \<open>Runs\<close>

inductive job_step :: "world \<Rightarrow> world \<Rightarrow> bool" where
  enqueues: "enqueue a w = (r, w') \<Longrightarrow> job_step w w'"
| inserts: "enqueue_insert a w = (r, w') \<Longrightarrow> job_step w w'"
| cancels: "cancel_job p t i actor w = (r, w') \<Longrightarrow> job_step w w'"
| starts: "mark_running p t i w = (r, w') \<Longrightarrow> job_step w w'"
| completes: "mark_done p t i result actor w = (r, w') \<Longrightarrow> job_step w w'"
| fails: "mark_failed p t i code msg actor w = (r, w') \<Longrightarrow> job_step w w'"
| elsewhere: "jobs (db w') = jobs (db w) \<Longrightarrow> draws w' = draws w \<Longrightarrow> draw_no w \<le> draw_no w' \<Longrightarrow> job_step w w'"


section \<open>The life of a row\<close>

abbreviation terminal :: "Job \<Rightarrow> bool" where
  "terminal j \<equiv> Job_status j \<in> set TERMINAL_STATUSES"

text \<open>What every stored job satisfies.\<close>

definition job_ok :: "Job \<Rightarrow> bool" where
  "job_ok j \<longleftrightarrow>
     Job_queued_at j + seconds 1 \<le> Job_expires_at j \<and> Job_expires_at j \<le> Job_queued_at j + seconds MAX_TTL_SECONDS \<and>
     (Job_status j = Queued \<longrightarrow> Job_started_at j = None \<and> Job_progress j = 0) \<and>
     (Job_status j = Running \<longrightarrow> Job_started_at j \<noteq> None) \<and>
     (terminal j \<longleftrightarrow> Job_completed_at j \<noteq> None) \<and>
     (Job_status j = Done \<longrightarrow> Job_result j \<noteq> None \<and> Job_progress j = 100) \<and>
     (Job_status j = Failed \<longrightarrow> Job_error j \<noteq> None)"

text \<open>What a job may become: its request is kept for good; a terminal job is never touched again, and a
  running one is not queued or cancelled any more.\<close>

definition job_later :: "Job \<Rightarrow> Job \<Rightarrow> bool" where
  "job_later j j' \<longleftrightarrow>
     Job_id j' = Job_id j \<and> Job_product_id j' = Job_product_id j \<and> Job_tenant_id j' = Job_tenant_id j \<and>
     Job_type j' = Job_type j \<and> Job_payload j' = Job_payload j \<and> Job_idempotency_key j' = Job_idempotency_key j \<and>
     Job_queued_at j' = Job_queued_at j \<and> Job_expires_at j' = Job_expires_at j \<and>
     (terminal j \<longrightarrow> j' = j) \<and> (Job_status j = Running \<longrightarrow> Job_status j' \<notin> {Queued, JobCancelled})"

lemma job_later_refl: "job_later j j"
  by (simp add: job_later_def)

lemma job_later_trans: "job_later a b \<Longrightarrow> job_later b c \<Longrightarrow> job_later a c"
  by (cases "Job_status b") (auto simp: job_later_def TERMINAL_STATUSES_def)

definition jobs_ok :: "world \<Rightarrow> bool" where
  "jobs_ok w \<longleftrightarrow> fresh_ids w \<and> (\<forall>j \<in> set (jobs (db w)). job_ok j \<and> Job_id j \<in> drawn w) \<and>
     distinct (map Job_id (jobs (db w))) \<and>
     (\<forall>x \<in> set (jobs (db w)). \<forall>y \<in> set (jobs (db w)). job_clash x y \<longrightarrow> x = y)"

definition jobs_grow :: "world \<Rightarrow> world \<Rightarrow> bool" where
  "jobs_grow w w' \<longleftrightarrow> jobs_ok w' \<and> draws w' = draws w \<and> draw_no w \<le> draw_no w' \<and>
     grows job_later (\<lambda>j. Job_id j \<notin> drawn w) (jobs (db w)) (jobs (db w'))"

lemma drawn_subset: "draws w' = draws w \<Longrightarrow> draw_no w \<le> draw_no w' \<Longrightarrow> drawn w \<subseteq> drawn w'"
  by (auto simp: drawn_def)

lemma jobs_grow_trans:
  assumes "jobs_grow u v" and "jobs_grow v w"
  shows "jobs_grow u w"
proof -
  have "grows job_later (\<lambda>j. Job_id j \<notin> drawn u) (jobs (db v)) (jobs (db w))"
    using assms drawn_subset [of v u] by (auto simp: jobs_grow_def intro: grows_mono)
  then have "grows job_later (\<lambda>j. Job_id j \<notin> drawn u) (jobs (db u)) (jobs (db w))"
  proof (rule grows_trans [rotated])
    show "grows job_later (\<lambda>j. Job_id j \<notin> drawn u) (jobs (db u)) (jobs (db v))"
      using assms(1) by (simp add: jobs_grow_def)
    show "job_later a c" if "job_later a b" "job_later b c" for a b c
      by (rule job_later_trans [OF that])
    show "Job_id b \<notin> drawn u" if "Job_id a \<notin> drawn u" "job_later a b" for a b
      using that by (simp add: job_later_def)
  qed
  then show ?thesis using assms by (simp add: jobs_grow_def)
qed

lemma jobs_grow_same:
  assumes "jobs_ok w" "jobs (db w') = jobs (db w)" "draws w' = draws w" "draw_no w \<le> draw_no w'"
  shows "jobs_grow w w'"
  using assms drawn_subset [of w' w] by (auto simp: jobs_grow_def jobs_ok_def fresh_ids_def intro!: grows_refl job_later_refl)

lemma jobs_ok_id: "jobs_ok w \<Longrightarrow> x \<in> set (jobs (db w)) \<Longrightarrow> y \<in> set (jobs (db w)) \<Longrightarrow> Job_id x = Job_id y \<Longrightarrow> x = y"
  using distinct_map_eq [of Job_id "jobs (db w)"] by (simp add: jobs_ok_def)

text \<open>One row moves on.\<close>

lemma jobs_grow_set:
  assumes ok: "jobs_ok w" and j: "j \<in> set (jobs (db w))" and step: "job_later j (f j)" "job_ok (f j)"
    and w': "jobs (db w') = map_rows (\<lambda>x. Job_id x = Job_id j) f (jobs (db w))" "draws w' = draws w" "draw_no w \<le> draw_no w'"
  shows "jobs_grow w w'"
proof -
  define g where "g = (\<lambda>x. if Job_id x = Job_id j then f x else x)"
  have set: "set (jobs (db w')) = g ` set (jobs (db w))"
    by (simp only: w'(1) set_map_rows g_def)
  have g_eq: "g x = (if x = j then f j else x)" if "x \<in> set (jobs (db w))" for x
    using jobs_ok_id [OF ok that j] by (auto simp: g_def)
  have keys: "job_later x (g x)" if "x \<in> set (jobs (db w))" for x
    using g_eq [OF that] step(1) job_later_refl by simp
  have "job_ok (g x) \<and> Job_id (g x) \<in> drawn w'" if "x \<in> set (jobs (db w))" for x
    using keys [OF that] g_eq [OF that] step(2) ok that drawn_subset [OF w'(2,3)] by (auto simp: jobs_ok_def job_later_def)
  moreover have "map Job_id (jobs (db w')) = map Job_id (jobs (db w))"
    unfolding w'(1) map_rows_def g_def [symmetric] using keys by (auto simp: job_later_def)
  moreover have "g x = g y" if "x \<in> set (jobs (db w))" "y \<in> set (jobs (db w))" "job_clash (g x) (g y)" for x y
  proof -
    have "job_clash x' y' = job_clash x y" if "job_later x x'" "job_later y y'" for x' y'
      using that by (simp add: job_clash_def job_later_def)
    then have "job_clash x y" using that(3) keys [OF that(1)] keys [OF that(2)] by blast
    then show ?thesis using ok that(1,2) by (auto simp: jobs_ok_def)
  qed
  ultimately have "jobs_ok w'"
    using ok w'(2) set unfolding jobs_ok_def by (auto simp: fresh_ids_def)
  moreover have "grows job_later (\<lambda>j. Job_id j \<notin> drawn w) (jobs (db w)) (jobs (db w'))"
    unfolding w'(1)
  proof (rule grows_update)
    show "job_later r (f r)" if "r \<in> set (jobs (db w))" "Job_id r = Job_id j" for r
      using keys [OF that(1)] that(2) by (simp add: g_def)
  qed (rule job_later_refl)
  ultimately show ?thesis using w' by (simp add: jobs_grow_def)
qed

lemma job_ok_new: "job_ok (new_job a i t)"
  by (cases "j_ttl_seconds a")
    (auto simp: job_ok_def new_job_def clamp_ttl_def MAX_TTL_SECONDS_def DEFAULT_TTL_SECONDS_def TERMINAL_STATUSES_def seconds_def)

lemma new_job_simps [simp]:
  "Job_id (new_job a i t) = i" "under_key a (new_job a i t) \<longleftrightarrow> j_idempotency_key a \<noteq> None"
  "Job_idempotency_key (new_job a i t) = j_idempotency_key a" "Job_product_id (new_job a i t) = j_product_id a"
  "Job_tenant_id (new_job a i t) = j_tenant_id a" "Job_type (new_job a i t) = j_type a"
  by (simp_all add: new_job_def under_key_def)

text \<open>The insert adds the new job, or meets one under its key.\<close>

lemma enqueue_insert_cases:
  assumes "enqueue_insert a w = (r, w')"
  obtains (added) "r = Inr (new_job a (draws w (draw_no w)) (now w))"
      "\<forall>j \<in> set (jobs (db w)). \<not> job_clash j (new_job a (draws w (draw_no w)) (now w))"
      "jobs (db w') = jobs (db w) @ [new_job a (draws w (draw_no w)) (now w)]" "draws w' = draws w" "draw_no w < draw_no w'"
  | (found) j where "r = Inr j" "List.find (under_key a) (jobs (db w)) = Some j" "jobs (db w') = jobs (db w)"
      "draws w' = draws w" "draw_no w < draw_no w'"
proof (cases "\<exists>j \<in> set (jobs (db w)). job_clash j (new_job a (draws w (draw_no w)) (now w))")
  case False
  then show ?thesis
    using assms by (intro added) (auto simp: enqueue_insert_def svc_simps less_Suc_eq_le [symmetric] split: if_splits)
next
  case True
  then have "\<exists>j \<in> set (jobs (db w)). under_key a j" "j_idempotency_key a \<noteq> None"
    by (auto simp: job_clash_def under_key_def)
  moreover from this(1) obtain j where "List.find (under_key a) (jobs (db w)) = Some j"
    using find_not_None [of "under_key a" "jobs (db w)"] by blast
  ultimately show ?thesis
    using True assms by (intro found [of j]) (auto simp: enqueue_insert_def find_by_idempotency_key_def svc_simps split: if_splits)
qed

lemma jobs_grow_insert:
  assumes "jobs_ok w" and "enqueue_insert a w = (r, w')"
  shows "jobs_grow w w'"
proof (cases rule: enqueue_insert_cases [OF assms(2), case_names added found])
  case added
  let ?j = "new_job a (draws w (draw_no w)) (now w)"
  have new: "Job_id ?j \<notin> drawn w" "drawn w \<subseteq> drawn w'" "Job_id ?j \<in> drawn w'"
    using assms(1) added(4,5) fresh_not_drawn drawn_subset [of w' w] by (auto simp: jobs_ok_def drawn_def)
  have "jobs_ok w'"
    using assms(1) added new job_ok_new [of a] unfolding jobs_ok_def
    by (auto simp: fresh_ids_def job_clash_def)
  moreover have "grows job_later (\<lambda>j. Job_id j \<notin> drawn w) (jobs (db w)) (jobs (db w'))"
    unfolding added(3) using new(1) by (intro grows_append grows_refl job_later_refl) simp
  ultimately show ?thesis using added by (simp add: jobs_grow_def)
next
  case (found j)
  then show ?thesis using assms(1) by (intro jobs_grow_same) simp_all
qed

lemma enqueue_cases:
  assumes "enqueue a w = (r, w')"
  obtains (stored) j where "r = Inr j" "List.find (under_key a) (jobs (db w)) = Some j" "w' = w"
  | (insert) "enqueue_insert a w = (r, w')"
  | (invalid) "j_type a = []" "r = Inl (ValidationFailed ''type is required'')" "w' = w"
proof (cases "j_type a = []")
  case True
  then show ?thesis using assms by (intro invalid) (simp_all add: enqueue_def svc_simps)
next
  case typed: False
  show ?thesis
  proof (cases "List.find (under_key a) (jobs (db w))")
    case None
    then show ?thesis using assms typed by (intro insert) (simp add: enqueue_def find_by_idempotency_key_def svc_simps split: if_splits)
  next
    case (Some j)
    then have "j_idempotency_key a \<noteq> None" using find_SomeD [OF Some] by (simp add: under_key_def)
    then show ?thesis
      using assms typed Some by (intro stored [of j]) (simp_all add: enqueue_def find_by_idempotency_key_def svc_simps)
  qed
qed

lemma get_jobD:
  assumes "get_job p t i w = (r, w')"
  shows "w' = w" and "r = Inr j \<Longrightarrow> j \<in> set (jobs (db w)) \<and> Job_id j = i"
proof -
  let ?f = "List.find (\<lambda>j. Job_id j = i \<and> Job_product_id j = p \<and> Job_tenant_id j = t) (jobs (db w))"
  show "w' = w" using assms by (cases ?f) (simp_all add: get_job_def svc_simps)
  assume "r = Inr j"
  then have "?f = Some j" using assms by (cases ?f) (simp_all add: get_job_def svc_simps)
  then show "j \<in> set (jobs (db w)) \<and> Job_id j = i" using find_SomeD by fastforce
qed

text \<open>A transition: refused, or a move of the job it found.\<close>

lemma jobs_grow_get:
  assumes "jobs_ok w" and "bindS (get_job p t i) body w = (r, w')"
    and move: "\<And>j. job_ok j \<Longrightarrow> snd (body j w) = w \<or> (\<exists>f. job_later j (f j) \<and> job_ok (f j) \<and>
      jobs (db (snd (body j w))) = map_rows (\<lambda>x. Job_id x = Job_id j) f (jobs (db w)) \<and>
      draws (snd (body j w)) = draws w \<and> draw_no w \<le> draw_no (snd (body j w)))"
  shows "jobs_grow w w'"
proof (cases "get_job p t i w")
  case (Pair g v)
  note g = get_jobD(1) [OF Pair]
  show ?thesis
  proof (cases g)
    case (Inl e)
    then show ?thesis using assms(1,2) Pair g by (simp add: svc_simps jobs_grow_same)
  next
    case (Inr j)
    have j: "j \<in> set (jobs (db w))" using get_jobD(2) [OF Pair Inr] by simp
    then have "job_ok j" using assms(1) by (simp add: jobs_ok_def)
    moreover have "w' = snd (body j w)" using assms(2) Pair g Inr by (simp add: svc_simps)
    ultimately show ?thesis
      using move [of j] jobs_grow_set [OF assms(1) j] jobs_grow_same [OF assms(1), of w] by auto
  qed
qed

lemmas move_simps = svc_simps set_job_def Let_def job_later_def job_ok_def TERMINAL_STATUSES_def

lemma job_step_grows:
  assumes "job_step w w'" and "jobs_ok w"
  shows "jobs_grow w w'"
  using assms
proof (cases rule: job_step.cases)
  case (enqueues a r)
  show ?thesis
    using assms(2) by (cases rule: enqueue_cases [OF enqueues]) (auto intro: jobs_grow_same jobs_grow_insert)
next
  case (inserts a r)
  then show ?thesis using jobs_grow_insert assms(2) by blast
next
  case elsewhere
  then show ?thesis using assms(2) by (simp add: jobs_grow_same)
next
  case (cancels p t i actor r)
  show ?thesis
  proof (rule jobs_grow_get [OF assms(2) cancels [unfolded cancel_job_def]], goal_cases)
    case (1 j)
    show ?case
    proof (cases "Job_status j = Queued")
      case True
      with 1 show ?thesis by (intro disjI2 exI [of _ "\<lambda>j. j\<lparr>Job_status := JobCancelled, Job_completed_at := Some (now w)\<rparr>"]) (auto simp: move_simps)
    next
      case False
      with 1 show ?thesis by (simp add: move_simps)
    qed
  qed
next
  case (starts p t i r)
  show ?thesis
  proof (rule jobs_grow_get [OF assms(2) starts [unfolded mark_running_def]], goal_cases)
    case (1 j)
    show ?case
    proof (cases "Job_status j = Queued")
      case True
      with 1 show ?thesis by (intro disjI2 exI [of _ "\<lambda>j. j\<lparr>Job_status := Running, Job_started_at := Some (now w)\<rparr>"]) (auto simp: move_simps)
    next
      case False
      with 1 show ?thesis by (simp add: move_simps)
    qed
  qed
next
  case (completes p t i result actor r)
  show ?thesis
  proof (rule jobs_grow_get [OF assms(2) completes [unfolded mark_done_def]], goal_cases)
    case (1 j)
    show ?case
    proof (cases "terminal j")
      case False
      with 1 show ?thesis by (intro disjI2 exI [of _ "\<lambda>j. j\<lparr>Job_status := Done,
          Job_result := Some (case result of Some d \<Rightarrow> d | None \<Rightarrow> []), Job_progress := 100, Job_completed_at := Some (now w)\<rparr>"]) (auto simp: move_simps)
    next
      case True
      with 1 show ?thesis by (simp add: move_simps)
    qed
  qed
next
  case (fails p t i code msg actor r)
  show ?thesis
  proof (rule jobs_grow_get [OF assms(2) fails [unfolded mark_failed_def]], goal_cases)
    case (1 j)
    show ?case
    proof (cases "terminal j")
      case False
      with 1 show ?thesis by (intro disjI2 exI [of _ "\<lambda>j. j\<lparr>Job_status := Failed,
          Job_error := Some (code, msg), Job_completed_at := Some (now w)\<rparr>"]) (auto simp: move_simps)
    next
      case True
      with 1 show ?thesis by (simp add: move_simps)
    qed
  qed
qed


lemma enqueue_returns:
  assumes "j_type a \<noteq> []"
  shows "\<exists>j w'. enqueue a w = (Inr j, w')"
proof (cases "enqueue a w")
  case (Pair r w')
  then have "\<exists>j. r = Inr j"
    using assms by (elim enqueue_cases enqueue_insert_cases) simp_all
  then show ?thesis using Pair by blast
qed

lemma job_steps_grow:
  assumes "job_step\<^sup>*\<^sup>* w w'" and "jobs_ok w"
  shows "jobs_grow w w'"
  using assms(1)
proof (induction rule: rtranclp_induct)
  case base
  then show ?case using assms(2) by (simp add: jobs_grow_same)
next
  case (step v u)
  then show ?case
    using jobs_grow_trans job_step_grows [OF step(2)] by (simp add: jobs_grow_def)
qed

text \<open>C30: the state machine of the jobs. In every run, whatever the order of the calls and whether they
  return or raise, the stored jobs satisfy the invariant (timestamps, progress, result and error agree with the
  status, the lifetime is between one second and seven days, keys are unique in their scope), no
  job disappears or loses its request, a running job is never queued or cancelled again, and a job that is done,
  failed or cancelled never changes at all.\<close>

theorem job_lifecycle:
  assumes "jobs_ok w" and "job_step\<^sup>*\<^sup>* w w'"
  shows "jobs_ok w' \<and> (\<forall>j \<in> set (jobs (db w)). \<exists>j' \<in> set (jobs (db w')). job_later j j')"
proof -
  note g = job_steps_grow [OF assms(2,1), unfolded jobs_grow_def]
  then show ?thesis using grows_row by (elim conjE) (intro conjI ballI, assumption, erule (1) grows_row)
qed

definition sample_job_args :: job_args where
  "sample_job_args = \<lparr>j_product_id = 5, j_tenant_id = 107, j_type = ''import'', j_payload = [], j_callback_url = None,
     j_reference = None, j_ttl_seconds = Some (60 * 60 * 24 * 30), j_idempotency_key = Some ''k1'', j_actor_user_id = None,
     j_acting_from_tenant_id = None\<rparr>"

definition sample_done :: Job where
  "sample_done = \<lparr>Job_id = 160, Job_product_id = 5, Job_tenant_id = 107, Job_type = ''import'', Job_status = Done,
     Job_payload = [], Job_result = Some [], Job_error = None, Job_progress = 100, Job_idempotency_key = None,
     Job_reference = None, Job_callback_url = None, Job_credits_charged = None, Job_queued_at = 0,
     Job_started_at = Some 1, Job_completed_at = Some 2, Job_expires_at = seconds 60, Job_created_by_user_id = None,
     Job_acting_from_tenant_id = None\<rparr>"

definition sample_jobs :: world where
  "sample_jobs = sample_world\<lparr>draw_no := 200, db := empty_db\<lparr>jobs := [sample_done]\<rparr>\<rparr>"

lemma sample_jobs_ok: "jobs_ok sample_jobs"
proof -
  have "160 \<in> drawn sample_jobs"
    by (simp add: drawn_def sample_jobs_def sample_world_def image_Suc_lessThan)
  moreover have "fresh_ids sample_jobs"
    by (simp add: fresh_ids_def sample_jobs_def sample_world_def NIL_def)
  moreover have "jobs (db sample_jobs) = [sample_done]"
    by (simp add: sample_jobs_def)
  ultimately show ?thesis
    by (simp add: jobs_ok_def) (simp add: sample_done_def job_ok_def TERMINAL_STATUSES_def MAX_TTL_SECONDS_def seconds_def)
qed

theorem job_lifecycle_witness:
  "\<exists>j w1 r w2. enqueue sample_job_args sample_jobs = (Inr j, w1) \<and> mark_failed 5 107 (Job_id j) ''e'' ''boom'' None w1 = (Inr r, w2) \<and>
     jobs_ok w2 \<and> sample_done \<in> set (jobs (db w2))"
proof -
  obtain j w1 where e: "enqueue sample_job_args sample_jobs = (Inr j, w1)"
    using enqueue_returns [of sample_job_args sample_jobs] by (auto simp: sample_job_args_def)
  have "j \<in> set (jobs (db w1)) \<and> Job_product_id j = 5 \<and> Job_tenant_id j = 107 \<and> \<not> terminal j"
    using e by (elim enqueue_cases enqueue_insert_cases)
      (auto simp: new_job_def sample_job_args_def sample_jobs_def sample_done_def under_key_def TERMINAL_STATUSES_def split: if_splits)
  moreover have ok1: "jobs_ok w1"
    using job_step_grows [OF enqueues [OF e] sample_jobs_ok] by (simp add: jobs_grow_def)
  ultimately have "List.find (\<lambda>x. Job_id x = Job_id j \<and> Job_product_id x = 5 \<and> Job_tenant_id x = 107) (jobs (db w1)) = Some j"
      "\<not> terminal j"
    using jobs_ok_id by (auto intro!: find_unique)
  then obtain r w2 where f: "mark_failed 5 107 (Job_id j) ''e'' ''boom'' None w1 = (Inr r, w2)"
    by (simp add: mark_failed_def get_job_def set_job_def svc_simps Let_def)
  have "job_step\<^sup>*\<^sup>* sample_jobs w2"
    using enqueues [OF e] fails [OF f] by (meson r_into_rtranclp rtranclp.rtrancl_into_rtrancl)
  note run = job_lifecycle [OF sample_jobs_ok this]
  then obtain x where "x \<in> set (jobs (db w2))" "job_later sample_done x"
    by (auto simp: sample_jobs_def)
  moreover from this(2) have "x = sample_done"
    by (simp add: job_later_def) (simp add: sample_done_def TERMINAL_STATUSES_def)
  ultimately show ?thesis
    using e f run by blast
qed


section \<open>Idempotency keys\<close>

text \<open>A stored key is found again; the contract of \<^verbatim>\<open>Interfaces\<close>, for sequential calls.\<close>

lemma enqueued_row:
  assumes "enqueue a w = (Inr j, w') \<or> enqueue_insert a w = (Inr j, w')" and "j_idempotency_key a \<noteq> None"
  shows "j \<in> set (jobs (db w')) \<and> under_key a j"
  using assms(1)
proof
  assume "enqueue a w = (Inr j, w')"
  then show ?thesis using assms(2) by (elim enqueue_cases enqueue_insert_cases) (auto dest: find_SomeD)
next
  assume "enqueue_insert a w = (Inr j, w')"
  then show ?thesis using assms(2) by (elim enqueue_insert_cases) (auto dest: find_SomeD)
qed

definition job_seen :: "uuid \<times> uuid \<times> string \<Rightarrow> string \<Rightarrow> world \<Rightarrow> bool" where
  "job_seen i k w \<longleftrightarrow> (\<exists>j \<in> set (jobs (db w)). (Job_product_id j, Job_tenant_id j, Job_type j) = i \<and> Job_idempotency_key j = Some k)"

lemma job_seen_under_key:
  "job_seen (j_product_id a, j_tenant_id a, j_type a) k w \<longleftrightarrow> (\<exists>j \<in> set (jobs (db w)). under_key (a\<lparr>j_idempotency_key := Some k\<rparr>) j)"
  by (auto simp: job_seen_def under_key_def)

interpretation job_keys: idempotent_by_reference "\<lambda>a k. enqueue (a\<lparr>j_idempotency_key := k\<rparr>)"
  "\<lambda>a. (j_product_id a, j_tenant_id a, j_type a)" "\<lambda>a. j_type a \<noteq> []" job_seen
proof unfold_locales
  fix k :: job_args and r w a w'
  assume "enqueue (k\<lparr>j_idempotency_key := Some r\<rparr>) w = (Inr a, w')"
  then have "a \<in> set (jobs (db w')) \<and> under_key (k\<lparr>j_idempotency_key := Some r\<rparr>) a"
    by (intro enqueued_row disjI1) simp_all
  then show "job_seen (j_product_id k, j_tenant_id k, j_type k) r w'"
    by (auto simp: job_seen_under_key)
next
  fix k :: job_args and r w
  assume "job_seen (j_product_id k, j_tenant_id k, j_type k) r w" and "j_type k \<noteq> []"
  moreover from this(1) obtain j where "List.find (under_key (k\<lparr>j_idempotency_key := Some r\<rparr>)) (jobs (db w)) = Some j"
    using find_not_None [of "under_key (k\<lparr>j_idempotency_key := Some r\<rparr>)" "jobs (db w)"] by (auto simp: job_seen_under_key)
  ultimately show "\<exists>a. enqueue (k\<lparr>j_idempotency_key := Some r\<rparr>) w = (Inr a, w)"
    by (simp add: enqueue_def find_by_idempotency_key_def svc_simps)
qed

text \<open>C31: calls with one idempotency key converge. Once a call under a key of a product, tenant and type
  returned a job, whether it inserted it, found it, or lost the race between its lookup and its insert, then at
  any later moment of any run a call under the same key, with whatever payload, returns that job and
  stores nothing, and so does the insert of a call whose lookup came too early.\<close>

theorem enqueue_converges:
  assumes "jobs_ok w" and "enqueue a w = (Inr j, w1) \<or> enqueue_insert a w = (Inr j, w1)"
    and "job_step\<^sup>*\<^sup>* w1 w2" and "j_idempotency_key a \<noteq> None" and "j_idempotency_key b = j_idempotency_key a"
    and "j_product_id b = j_product_id a" "j_tenant_id b = j_tenant_id a" "j_type b = j_type a" "j_type a \<noteq> []"
  shows "\<exists>j'. job_later j j' \<and> enqueue b w2 = (Inr j', w2) \<and>
    (\<exists>w3. enqueue_insert b w2 = (Inr j', w3) \<and> jobs (db w3) = jobs (db w2))"
proof -
  have "jobs_ok w1"
    using assms(1,2) job_step_grows enqueues inserts unfolding jobs_grow_def by blast
  then have ok2: "jobs_ok w2" and grow: "grows job_later (\<lambda>j. Job_id j \<notin> drawn w1) (jobs (db w1)) (jobs (db w2))"
    using job_steps_grow [OF assms(3)] by (simp_all add: jobs_grow_def)
  have "j \<in> set (jobs (db w1)) \<and> under_key a j"
    by (rule enqueued_row [OF assms(2,4)])
  moreover from this obtain j' where j': "j' \<in> set (jobs (db w2))" "job_later j j'"
    using grows_row [OF grow] by blast
  ultimately have key: "under_key b j'"
    using assms(5-8) by (simp add: under_key_def job_later_def)
  have uniq: "x = j'" if "x \<in> set (jobs (db w2))" "under_key b x" for x
  proof -
    have "job_clash x j'" using that(2) key by (simp add: job_clash_def under_key_def)
    then show ?thesis using ok2 that(1) j'(1) by (simp add: jobs_ok_def)
  qed
  have find: "List.find (under_key b) (jobs (db w2)) = Some j'"
    by (rule find_unique [OF j'(1), where P = "under_key b", OF key uniq])
  have "enqueue b w2 = (Inr j', w2)"
    using find assms(4,5,8,9) by (simp add: enqueue_def find_by_idempotency_key_def svc_simps)
  moreover have "\<exists>w3. enqueue_insert b w2 = (Inr j', w3) \<and> jobs (db w3) = jobs (db w2)"
  proof -
    have "job_clash j' (new_job b (draws w2 (draw_no w2)) (now w2))"
      using key by (auto simp: job_clash_def under_key_def)
    then have clash: "\<exists>x \<in> set (jobs (db w2)). job_clash x (new_job b (draws w2 (draw_no w2)) (now w2))"
      using j'(1) by blast
    show ?thesis
      using clash find assms(4,5) by (simp add: enqueue_insert_def find_by_idempotency_key_def svc_simps)
  qed
  ultimately show ?thesis using j'(2) by blast
qed

theorem enqueue_converges_witness:
  "\<exists>j w1 w3. enqueue sample_job_args sample_jobs = (Inr j, w1) \<and> enqueue sample_job_args w1 = (Inr j, w1) \<and>
     enqueue_insert sample_job_args w1 = (Inr j, w3) \<and> jobs (db w3) = jobs (db w1)"
proof -
  obtain j w1 where e: "enqueue sample_job_args sample_jobs = (Inr j, w1)"
    using enqueue_returns [of sample_job_args sample_jobs] by (auto simp: sample_job_args_def)
  obtain j' w3 where r: "enqueue sample_job_args w1 = (Inr j', w1)" "enqueue_insert sample_job_args w1 = (Inr j', w3)"
      "jobs (db w3) = jobs (db w1)" "job_later j j'"
    using enqueue_converges [OF sample_jobs_ok disjI1 [OF e] rtranclp.rtrancl_refl, of sample_job_args]
    by (auto simp: sample_job_args_def)
  have "j' \<in> set (jobs (db w1))" "j \<in> set (jobs (db w1))" "Job_id j' = Job_id j"
    using enqueued_row [OF disjI1 [OF r(1)]] enqueued_row [OF disjI1 [OF e]] r(4)
    by (simp_all add: job_later_def) (simp_all add: sample_job_args_def)
  then have "j' = j"
    using jobs_ok_id [of w1 j' j] job_step_grows [OF enqueues [OF e] sample_jobs_ok] by (simp add: jobs_grow_def)
  then show ?thesis using e r by blast
qed

end
