(* ===== verification/Components.thy ===== *)
theory Components
  imports Dependencies
begin

text \<open>
  The component catalogue of a product and who may use a component:
  \<^verbatim>\<open>app/services/component.py\<close>, the admin routes of
  \<^verbatim>\<open>app/api/v1/components_admin.py\<close> and the tenant routes of
  \<^verbatim>\<open>app/api/v1/components.py\<close>. The foreign keys of the override tables delete an
  override with its component.
\<close>

section \<open>Tables\<close>

definition component_clash :: "ProductComponent \<Rightarrow> ProductComponent \<Rightarrow> bool" where
  "component_clash x y \<longleftrightarrow> ProductComponent_product_id x = ProductComponent_product_id y \<and>
     ProductComponent_code x = ProductComponent_code y"

definition user_override_clash :: "UserComponentOverride \<Rightarrow> UserComponentOverride \<Rightarrow> bool" where
  "user_override_clash x y \<longleftrightarrow> UserComponentOverride_user_id x = UserComponentOverride_user_id y \<and>
     UserComponentOverride_component_id x = UserComponentOverride_component_id y"

definition tenant_override_clash :: "TenantComponentOverride \<Rightarrow> TenantComponentOverride \<Rightarrow> bool" where
  "tenant_override_clash x y \<longleftrightarrow> TenantComponentOverride_tenant_id x = TenantComponentOverride_tenant_id y \<and>
     TenantComponentOverride_component_id x = TenantComponentOverride_component_id y"


section \<open>The catalogue\<close>

record ComponentCreate =
  cc_code :: string
  cc_name :: string
  cc_description :: "string option"
  cc_is_default_enabled :: bool
  cc_is_active :: bool
  cc_settings :: dict
  cc_required_plan_codes :: "string list option"

definition some_nonempty :: "'a list option \<Rightarrow> 'a list option" where
  "some_nonempty x = (if x = Some [] then None else x)"

definition component_audit :: "string \<Rightarrow> uuid option \<Rightarrow> uuid \<Rightarrow> uuid \<Rightarrow> dict \<Rightarrow> audit_args" where
  "component_audit action actor_user_id product_id i diff = (act action)\<lparr>a_actor_user_id := actor_user_id,
     a_resource_type := Some ''component'', a_resource_id := Some i, a_product_id := Some product_id, a_diff := diff\<rparr>"

definition create_component :: "uuid \<Rightarrow> ComponentCreate \<Rightarrow> uuid option \<Rightarrow> ProductComponent service" where
  "create_component product_id c actor_user_id =
     bindS (scalar product_components (\<lambda>x. ProductComponent_product_id x = product_id \<and> ProductComponent_code x = cc_code c)) (\<lambda>existing.
     if existing \<noteq> None then raise (Conflict ''component already exists in this product'')
     else
     bindS fresh (\<lambda>i.
     let row = \<lparr>ProductComponent_id = i, ProductComponent_product_id = product_id, ProductComponent_code = cc_code c,
           ProductComponent_name = cc_name c, ProductComponent_description = cc_description c,
           ProductComponent_is_default_enabled = cc_is_default_enabled c, ProductComponent_is_active = cc_is_active c,
           ProductComponent_settings = cc_settings c,
           ProductComponent_required_plan_codes = some_nonempty (cc_required_plan_codes c)\<rparr>
     in
     bindS (insert_row product_components product_components_update component_clash row) (\<lambda>_.
     bindS (record_audit (component_audit ''component.created'' actor_user_id product_id i
              [(''code'', JStr (cc_code c)), (''is_default_enabled'', JBool (cc_is_default_enabled c)),
               (''is_active'', JBool (cc_is_active c)),
               (''required_plan_codes'', jopt (\<lambda>cs. JList (map JStr cs)) (cc_required_plan_codes c))])) (\<lambda>_.
     ret row))))"

definition list_components :: "uuid \<Rightarrow> bool \<Rightarrow> ProductComponent list service" where
  "list_components product_id include_inactive =
     bindS (scalars product_components (\<lambda>c. ProductComponent_product_id c = product_id \<and>
              (include_inactive \<or> ProductComponent_is_active c))) (\<lambda>rows.
     ret (order_by ProductComponent_code rows))"

definition get_component :: "uuid \<Rightarrow> string \<Rightarrow> ProductComponent service" where
  "get_component product_id code =
     bindS (scalar product_components (\<lambda>c. ProductComponent_product_id c = product_id \<and> ProductComponent_code c = code)) (\<lambda>row.
     case row of None \<Rightarrow> raise (NotFound ''component not found in product'') | Some c \<Rightarrow> ret c)"

record ComponentUpdate =
  cu_name :: "string patch"
  cu_description :: "string patch"
  cu_is_default_enabled :: "bool patch"
  cu_is_active :: "bool patch"
  cu_settings :: "dict patch"
  cu_required_plan_codes :: "string list patch"

definition component_unset :: "ComponentUpdate \<Rightarrow> bool" where
  "component_unset u \<longleftrightarrow> cu_name u = Unset \<and> cu_description u = Unset \<and> cu_is_default_enabled u = Unset \<and>
     cu_is_active u = Unset \<and> cu_settings u = Unset \<and> cu_required_plan_codes u = Unset"

definition component_keys :: "ComponentUpdate \<Rightarrow> string list" where
  "component_keys u = (if cu_name u = Unset then [] else [''name'']) @
     (if cu_description u = Unset then [] else [''description'']) @
     (if cu_is_default_enabled u = Unset then [] else [''is_default_enabled'']) @
     (if cu_is_active u = Unset then [] else [''is_active'']) @
     (if cu_settings u = Unset then [] else [''settings'']) @
     (if cu_required_plan_codes u = Unset then [] else [''required_plan_codes''])"

definition component_changes :: "ComponentUpdate \<Rightarrow> ProductComponent \<Rightarrow> ProductComponent" where
  "component_changes u c = c\<lparr>
     ProductComponent_name := patch_value (cu_name u) (ProductComponent_name c),
     ProductComponent_description := patch_option (cu_description u) (ProductComponent_description c),
     ProductComponent_is_default_enabled := patch_value (cu_is_default_enabled u) (ProductComponent_is_default_enabled c),
     ProductComponent_is_active := patch_value (cu_is_active u) (ProductComponent_is_active c),
     ProductComponent_settings := patch_value (cu_settings u) (ProductComponent_settings c),
     ProductComponent_required_plan_codes := patch_option (cu_required_plan_codes u) (ProductComponent_required_plan_codes c)\<rparr>"

text \<open>A null for a NOT NULL column fails in the flush; the settings are a JSONB column, which takes a
  JSON null.\<close>

definition update_component :: "uuid \<Rightarrow> string \<Rightarrow> ComponentUpdate \<Rightarrow> uuid option \<Rightarrow> ProductComponent service" where
  "update_component product_id code u actor_user_id =
     bindS (get_component product_id code) (\<lambda>row.
     if component_unset u then ret row
     else if cu_name u = Null \<or> cu_is_default_enabled u = Null \<or> cu_is_active u = Null then raise IntegrityError
     else
     bindS (update_rows product_components_update (\<lambda>c. ProductComponent_id c = ProductComponent_id row) (component_changes u)) (\<lambda>_.
     bindS (record_audit (component_audit ''component.updated'' actor_user_id product_id (ProductComponent_id row)
              [(''code'', JStr code), (''changes'', JList (map JStr (component_keys u)))])) (\<lambda>_.
     ret (component_changes u row))))"

definition delete_component :: "uuid \<Rightarrow> string \<Rightarrow> uuid option \<Rightarrow> unit service" where
  "delete_component product_id code actor_user_id =
     bindS (get_component product_id code) (\<lambda>row.
     bindS (delete_rows product_components_update (\<lambda>c. ProductComponent_id c = ProductComponent_id row)) (\<lambda>_.
     bindS (delete_rows user_component_overrides_update (\<lambda>ov. UserComponentOverride_component_id ov = ProductComponent_id row)) (\<lambda>_.
     bindS (delete_rows tenant_component_overrides_update (\<lambda>ov. TenantComponentOverride_component_id ov = ProductComponent_id row)) (\<lambda>_.
     record_audit (component_audit ''component.deleted'' actor_user_id product_id (ProductComponent_id row) [(''code'', JStr code)])))))"


section \<open>Overrides\<close>

definition set_user_override ::
    "uuid \<Rightarrow> uuid \<Rightarrow> uuid \<Rightarrow> string \<Rightarrow> bool \<Rightarrow> string option \<Rightarrow> uuid option \<Rightarrow> UserComponentOverride service" where
  "set_user_override product_id user_id tenant_id code is_enabled reason actor_user_id =
     bindS (get_component product_id code) (\<lambda>component.
     bindS (gets now) (\<lambda>t.
     bindS (scalar user_component_overrides (\<lambda>ov. UserComponentOverride_user_id ov = user_id \<and>
              UserComponentOverride_component_id ov = ProductComponent_id component)) (\<lambda>existing.
     bindS (case existing of
              None \<Rightarrow>
                bindS fresh (\<lambda>i.
                let row = \<lparr>UserComponentOverride_id = i, UserComponentOverride_product_id = product_id,
                      UserComponentOverride_tenant_id = tenant_id, UserComponentOverride_user_id = user_id,
                      UserComponentOverride_component_id = ProductComponent_id component,
                      UserComponentOverride_is_enabled = is_enabled, UserComponentOverride_reason = reason,
                      UserComponentOverride_set_by_user_id = actor_user_id, UserComponentOverride_set_at = t\<rparr>
                in bindS (insert_row user_component_overrides user_component_overrides_update user_override_clash row) (\<lambda>_.
                   ret (row, ''component.override_created'')))
            | Some ov \<Rightarrow>
                let f = (\<lambda>ov. ov\<lparr>UserComponentOverride_is_enabled := is_enabled, UserComponentOverride_reason := reason,
                      UserComponentOverride_set_by_user_id := actor_user_id, UserComponentOverride_set_at := t\<rparr>)
                in bindS (update_rows user_component_overrides_update (\<lambda>x. UserComponentOverride_id x = UserComponentOverride_id ov) f) (\<lambda>_.
                   ret (f ov, ''component.override_updated''))) (\<lambda>(row, action).
     bindS (record_audit ((act action)\<lparr>a_actor_user_id := actor_user_id, a_resource_type := Some ''component_override'',
              a_resource_id := Some (UserComponentOverride_id row), a_product_id := Some product_id, a_tenant_id := Some tenant_id,
              a_diff := [(''code'', JStr code), (''user_id'', JUuid user_id), (''is_enabled'', JBool is_enabled), (''reason'', jopt JStr reason)]\<rparr>)) (\<lambda>_.
     ret row)))))"

definition clear_user_override :: "uuid \<Rightarrow> uuid \<Rightarrow> string \<Rightarrow> uuid option \<Rightarrow> unit service" where
  "clear_user_override product_id user_id code actor_user_id =
     bindS (get_component product_id code) (\<lambda>component.
     bindS (scalar user_component_overrides (\<lambda>ov. UserComponentOverride_user_id ov = user_id \<and>
              UserComponentOverride_component_id ov = ProductComponent_id component)) (\<lambda>existing.
     case existing of
       None \<Rightarrow> ret ()
     | Some ov \<Rightarrow>
     bindS (delete_rows user_component_overrides_update (\<lambda>x. UserComponentOverride_id x = UserComponentOverride_id ov)) (\<lambda>_.
     record_audit ((act ''component.override_cleared'')\<lparr>a_actor_user_id := actor_user_id,
       a_resource_type := Some ''component_override'', a_resource_id := Some (UserComponentOverride_id ov),
       a_product_id := Some product_id, a_tenant_id := Some (UserComponentOverride_tenant_id ov),
       a_diff := [(''code'', JStr code), (''user_id'', JUuid user_id)]\<rparr>))))"

definition set_tenant_override ::
    "uuid \<Rightarrow> uuid \<Rightarrow> string \<Rightarrow> bool \<Rightarrow> string option \<Rightarrow> uuid option \<Rightarrow> TenantComponentOverride service" where
  "set_tenant_override product_id tenant_id code is_enabled reason actor_user_id =
     bindS (get_component product_id code) (\<lambda>component.
     bindS (gets now) (\<lambda>t.
     bindS (scalar tenant_component_overrides (\<lambda>ov. TenantComponentOverride_tenant_id ov = tenant_id \<and>
              TenantComponentOverride_component_id ov = ProductComponent_id component)) (\<lambda>existing.
     bindS (case existing of
              None \<Rightarrow>
                bindS fresh (\<lambda>i.
                let row = \<lparr>TenantComponentOverride_id = i, TenantComponentOverride_product_id = product_id,
                      TenantComponentOverride_tenant_id = tenant_id,
                      TenantComponentOverride_component_id = ProductComponent_id component,
                      TenantComponentOverride_is_enabled = is_enabled, TenantComponentOverride_reason = reason,
                      TenantComponentOverride_set_by_user_id = actor_user_id, TenantComponentOverride_set_at = t\<rparr>
                in bindS (insert_row tenant_component_overrides tenant_component_overrides_update tenant_override_clash row) (\<lambda>_.
                   ret (row, ''component.tenant_override_created'')))
            | Some ov \<Rightarrow>
                let f = (\<lambda>ov. ov\<lparr>TenantComponentOverride_is_enabled := is_enabled, TenantComponentOverride_reason := reason,
                      TenantComponentOverride_set_by_user_id := actor_user_id, TenantComponentOverride_set_at := t\<rparr>)
                in bindS (update_rows tenant_component_overrides_update (\<lambda>x. TenantComponentOverride_id x = TenantComponentOverride_id ov) f) (\<lambda>_.
                   ret (f ov, ''component.tenant_override_updated''))) (\<lambda>(row, action).
     bindS (record_audit ((act action)\<lparr>a_actor_user_id := actor_user_id, a_resource_type := Some ''tenant_component_override'',
              a_resource_id := Some (TenantComponentOverride_id row), a_product_id := Some product_id, a_tenant_id := Some tenant_id,
              a_diff := [(''code'', JStr code), (''is_enabled'', JBool is_enabled), (''reason'', jopt JStr reason)]\<rparr>)) (\<lambda>_.
     ret row)))))"

definition clear_tenant_override :: "uuid \<Rightarrow> uuid \<Rightarrow> string \<Rightarrow> uuid option \<Rightarrow> unit service" where
  "clear_tenant_override product_id tenant_id code actor_user_id =
     bindS (get_component product_id code) (\<lambda>component.
     bindS (scalar tenant_component_overrides (\<lambda>ov. TenantComponentOverride_tenant_id ov = tenant_id \<and>
              TenantComponentOverride_component_id ov = ProductComponent_id component)) (\<lambda>existing.
     case existing of
       None \<Rightarrow> ret ()
     | Some ov \<Rightarrow>
     bindS (delete_rows tenant_component_overrides_update (\<lambda>x. TenantComponentOverride_id x = TenantComponentOverride_id ov)) (\<lambda>_.
     record_audit ((act ''component.tenant_override_cleared'')\<lparr>a_actor_user_id := actor_user_id,
       a_resource_type := Some ''tenant_component_override'', a_resource_id := Some (TenantComponentOverride_id ov),
       a_product_id := Some product_id, a_tenant_id := Some tenant_id, a_diff := [(''code'', JStr code)]\<rparr>))))"


section \<open>Effective access\<close>

text \<open>The join of the tenant's subscription with its plan, and the code of the plan of its first row when
  the subscription gives access.\<close>

definition subscription_join :: "database \<Rightarrow> uuid \<Rightarrow> uuid \<Rightarrow> (Subscription \<times> Plan) list" where
  "subscription_join d tenant_id product_id =
     [(s, p). s \<leftarrow> subscriptions d, Subscription_tenant_id s = tenant_id \<and> Subscription_product_id s = product_id,
      p \<leftarrow> plans d, Plan_id p = Subscription_plan_id s]"

definition tenant_active_plan_code :: "uuid \<Rightarrow> uuid \<Rightarrow> string option service" where
  "tenant_active_plan_code tenant_id product_id =
     gets (\<lambda>w. case subscription_join (db w) tenant_id product_id of
            [] \<Rightarrow> None
          | (s, p) # _ \<Rightarrow> if has_access s then Some (Plan_code p) else None)"

definition resolve_with_plan :: "ProductComponent \<Rightarrow> string option \<Rightarrow> bool \<times> string" where
  "resolve_with_plan component tenant_plan_code =
     (case ProductComponent_required_plan_codes component of
        None \<Rightarrow> (ProductComponent_is_default_enabled component, ''default'')
      | Some required \<Rightarrow>
          if required = [] then (ProductComponent_is_default_enabled component, ''default'')
          else if (case tenant_plan_code of Some code \<Rightarrow> code \<in> set required | None \<Rightarrow> False)
          then (ProductComponent_is_default_enabled component, ''default'')
          else (False, ''plan''))"

text \<open>A dictionary built by a comprehension keeps the last row of a key.\<close>

definition last_where :: "('r \<Rightarrow> bool) \<Rightarrow> 'r list \<Rightarrow> 'r option" where
  "last_where P rs = List.find P (rev rs)"

type_synonym decision = "ProductComponent \<times> bool \<times> string \<times> string option"

definition tenant_effective_components :: "uuid \<Rightarrow> uuid \<Rightarrow> decision list service" where
  "tenant_effective_components product_id tenant_id =
     bindS (list_components product_id False) (\<lambda>components.
     if components = [] then ret []
     else
     bindS (scalars tenant_component_overrides (\<lambda>ov. TenantComponentOverride_tenant_id ov = tenant_id \<and>
              TenantComponentOverride_component_id ov \<in> ProductComponent_id ` set components)) (\<lambda>tovs.
     bindS (tenant_active_plan_code tenant_id product_id) (\<lambda>plan_code.
     ret (map (\<lambda>c. case last_where (\<lambda>ov. TenantComponentOverride_component_id ov = ProductComponent_id c) tovs of
               Some ov \<Rightarrow> (c, TenantComponentOverride_is_enabled ov, ''tenant_override'', TenantComponentOverride_reason ov)
             | None \<Rightarrow> (c, fst (resolve_with_plan c plan_code), snd (resolve_with_plan c plan_code), None)) components))))"

definition user_effective_components :: "User \<Rightarrow> decision list service" where
  "user_effective_components user =
     bindS (list_components (User_product_id user) False) (\<lambda>components.
     if components = [] then ret []
     else
     bindS (scalars user_component_overrides (\<lambda>ov. UserComponentOverride_user_id ov = User_id user \<and>
              UserComponentOverride_component_id ov \<in> ProductComponent_id ` set components)) (\<lambda>uovs.
     bindS (scalars tenant_component_overrides (\<lambda>ov. TenantComponentOverride_tenant_id ov = User_tenant_id user \<and>
              TenantComponentOverride_component_id ov \<in> ProductComponent_id ` set components)) (\<lambda>tovs.
     bindS (tenant_active_plan_code (User_tenant_id user) (User_product_id user)) (\<lambda>plan_code.
     ret (map (\<lambda>c. case last_where (\<lambda>ov. UserComponentOverride_component_id ov = ProductComponent_id c) uovs of
               Some ov \<Rightarrow> (c, UserComponentOverride_is_enabled ov, ''override'', UserComponentOverride_reason ov)
             | None \<Rightarrow>
              (case last_where (\<lambda>ov. TenantComponentOverride_component_id ov = ProductComponent_id c) tovs of
                 Some ov \<Rightarrow> (c, TenantComponentOverride_is_enabled ov, ''tenant_override'', TenantComponentOverride_reason ov)
               | None \<Rightarrow> (c, fst (resolve_with_plan c plan_code), snd (resolve_with_plan c plan_code), None))) components)))))"

definition user_has_component_access :: "User \<Rightarrow> string \<Rightarrow> bool service" where
  "user_has_component_access user code =
     bindS (scalar product_components (\<lambda>c. ProductComponent_product_id c = User_product_id user \<and> ProductComponent_code c = code)) (\<lambda>component.
     case component of
       None \<Rightarrow> ret False
     | Some c \<Rightarrow>
     if \<not> ProductComponent_is_active c then ret False
     else
     bindS (scalar user_component_overrides (\<lambda>ov. UserComponentOverride_user_id ov = User_id user \<and>
              UserComponentOverride_component_id ov = ProductComponent_id c)) (\<lambda>uov.
     case uov of
       Some ov \<Rightarrow> ret (UserComponentOverride_is_enabled ov)
     | None \<Rightarrow>
     bindS (scalar tenant_component_overrides (\<lambda>ov. TenantComponentOverride_tenant_id ov = User_tenant_id user \<and>
              TenantComponentOverride_component_id ov = ProductComponent_id c)) (\<lambda>tov.
     case tov of
       Some ov \<Rightarrow> ret (TenantComponentOverride_is_enabled ov)
     | None \<Rightarrow>
     bindS (tenant_active_plan_code (User_tenant_id user) (User_product_id user)) (\<lambda>plan_code.
     ret (fst (resolve_with_plan c plan_code))))))"


section \<open>Routes\<close>

record ComponentStatus =
  cs_code :: string
  cs_name :: string
  cs_is_enabled :: bool
  cs_source :: string
  cs_description :: "string option"
  cs_reason :: "string option"
  cs_required_plan_codes :: "string list option"

definition to_status :: "decision \<Rightarrow> ComponentStatus" where
  "to_status d = (case d of (c, is_enabled, source, reason) \<Rightarrow>
     \<lparr>cs_code = ProductComponent_code c, cs_name = ProductComponent_name c, cs_is_enabled = is_enabled, cs_source = source,
      cs_description = ProductComponent_description c, cs_reason = reason,
      cs_required_plan_codes = (if source = ''plan'' then ProductComponent_required_plan_codes c else None)\<rparr>)"

definition list_my_components :: "User \<Rightarrow> ComponentStatus list service" where
  "list_my_components user = bindS (user_effective_components user) (\<lambda>rows. ret (map to_status rows))"

definition load_user_in_tenant :: "uuid \<Rightarrow> uuid \<Rightarrow> uuid \<Rightarrow> User service" where
  "load_user_in_tenant user_id product_id tenant_id =
     bindS (scalar users (\<lambda>u. User_id u = user_id)) (\<lambda>target.
     case target of
       None \<Rightarrow> raise (NotFound ''user not in current tenant'')
     | Some u \<Rightarrow>
     if User_deleted_at u \<noteq> None \<or> User_product_id u \<noteq> product_id \<or> User_tenant_id u \<noteq> tenant_id
     then raise (NotFound ''user not in current tenant'') else ret u)"

definition list_user_components :: "uuid \<Rightarrow> User \<Rightarrow> ComponentStatus list service" where
  "list_user_components user_id actor =
     bindS (load_user_in_tenant user_id (User_product_id actor) (User_tenant_id actor)) (\<lambda>target.
     bindS (user_effective_components target) (\<lambda>rows. ret (map to_status rows)))"

definition set_user_component_override :: "uuid \<Rightarrow> string \<Rightarrow> bool \<Rightarrow> string option \<Rightarrow> User \<Rightarrow> ComponentStatus service" where
  "set_user_component_override user_id code is_enabled reason actor =
     bindS (load_user_in_tenant user_id (User_product_id actor) (User_tenant_id actor)) (\<lambda>target.
     bindS (set_user_override (User_product_id actor) (User_id target) (User_tenant_id target) code is_enabled reason (Some (User_id actor))) (\<lambda>_.
     bindS (get_component (User_product_id actor) code) (\<lambda>c.
     ret (to_status (c, is_enabled, ''override'', reason)))))"

definition clear_user_component_override :: "uuid \<Rightarrow> string \<Rightarrow> User \<Rightarrow> unit service" where
  "clear_user_component_override user_id code actor =
     bindS (load_user_in_tenant user_id (User_product_id actor) (User_tenant_id actor)) (\<lambda>target.
     clear_user_override (User_product_id actor) (User_id target) code (Some (User_id actor)))"

definition resolve_tenant_in_product :: "uuid \<Rightarrow> uuid \<Rightarrow> Tenant service" where
  "resolve_tenant_in_product product_id tenant_id =
     bindS (scalar tenants (\<lambda>t. Tenant_id t = tenant_id)) (\<lambda>tenant.
     case tenant of
       None \<Rightarrow> raise (NotFound ''tenant not found in product'')
     | Some t \<Rightarrow>
     if Tenant_deleted_at t \<noteq> None \<or> Tenant_product_id t \<noteq> product_id
     then raise (NotFound ''tenant not found in product'') else ret t)"

definition list_components_admin :: "string \<Rightarrow> ProductComponent list service" where
  "list_components_admin slug = bindS (resolve_product_slug slug) (\<lambda>pid. list_components pid True)"

definition create_component_admin :: "string \<Rightarrow> ComponentCreate \<Rightarrow> ProductComponent service" where
  "create_component_admin slug payload = bindS (resolve_product_slug slug) (\<lambda>pid. create_component pid payload None)"

definition update_component_admin :: "string \<Rightarrow> string \<Rightarrow> ComponentUpdate \<Rightarrow> ProductComponent service" where
  "update_component_admin slug code payload =
     bindS (resolve_product_slug slug) (\<lambda>pid.
     if component_unset payload then raise (ValidationFailed ''no fields to patch'')
     else
     bindS (update_component pid code payload None) (\<lambda>row.
     if cu_settings payload = Null then raise (ValueError ''response validation'') else ret row))"

definition delete_component_admin :: "string \<Rightarrow> string \<Rightarrow> unit service" where
  "delete_component_admin slug code = bindS (resolve_product_slug slug) (\<lambda>pid. delete_component pid code None)"

definition list_tenant_components_admin :: "string \<Rightarrow> uuid \<Rightarrow> ComponentStatus list service" where
  "list_tenant_components_admin slug tenant_id =
     bindS (resolve_product_slug slug) (\<lambda>pid.
     bindS (resolve_tenant_in_product pid tenant_id) (\<lambda>_.
     bindS (tenant_effective_components pid tenant_id) (\<lambda>rows. ret (map to_status rows))))"

definition set_tenant_component_override_admin :: "string \<Rightarrow> uuid \<Rightarrow> string \<Rightarrow> bool \<Rightarrow> string option \<Rightarrow> ComponentStatus service" where
  "set_tenant_component_override_admin slug tenant_id code is_enabled reason =
     bindS (resolve_product_slug slug) (\<lambda>pid.
     bindS (resolve_tenant_in_product pid tenant_id) (\<lambda>_.
     bindS (set_tenant_override pid tenant_id code is_enabled reason None) (\<lambda>_.
     bindS (get_component pid code) (\<lambda>c.
     ret (to_status (c, is_enabled, ''tenant_override'', reason))))))"

definition clear_tenant_component_override_admin :: "string \<Rightarrow> uuid \<Rightarrow> string \<Rightarrow> unit service" where
  "clear_tenant_component_override_admin slug tenant_id code =
     bindS (resolve_product_slug slug) (\<lambda>pid.
     bindS (resolve_tenant_in_product pid tenant_id) (\<lambda>_.
     clear_tenant_override pid tenant_id code None))"


section \<open>The catalogue is kept\<close>

text \<open>Codes are unique in a product, a user and a tenant have one override at most per component, and every
  override is one of a stored component.\<close>

definition catalogue_ok :: "world \<Rightarrow> bool" where
  "catalogue_ok w \<longleftrightarrow> keyed component_clash (product_components (db w)) \<and>
     keyed user_override_clash (user_component_overrides (db w)) \<and>
     keyed tenant_override_clash (tenant_component_overrides (db w)) \<and>
     (\<forall>ov \<in> set (user_component_overrides (db w)). UserComponentOverride_component_id ov \<in> ProductComponent_id ` set (product_components (db w))) \<and>
     (\<forall>ov \<in> set (tenant_component_overrides (db w)). TenantComponentOverride_component_id ov \<in> ProductComponent_id ` set (product_components (db w)))"

lemma clash_sym:
  "component_clash x y \<Longrightarrow> component_clash y x" "user_override_clash u v \<Longrightarrow> user_override_clash v u"
  "tenant_override_clash s t \<Longrightarrow> tenant_override_clash t s"
  by (simp_all add: component_clash_def user_override_clash_def tenant_override_clash_def)

lemma catalogue_frame:
  assumes "catalogue_ok w" and "product_components (db w') = product_components (db w)"
    and "user_component_overrides (db w') = user_component_overrides (db w)"
    and "tenant_component_overrides (db w') = tenant_component_overrides (db w)"
  shows "catalogue_ok w'"
  using assms by (simp add: catalogue_ok_def)

lemma keyed_component_update:
  assumes "keyed component_clash cs"
  shows "keyed component_clash (map_rows P (component_changes u) cs)"
  using assms by (intro keyed_map_rows) (simp_all add: component_clash_def component_changes_def)

lemma ids_component_update: "ProductComponent_id ` set (map_rows P (component_changes u) cs) = ProductComponent_id ` set cs"
  by (rule image_map_rows) (simp add: component_changes_def)

lemma get_componentD:
  assumes "get_component p code w = (r, w')"
  shows "w' = w" and "r = Inr c \<Longrightarrow> c \<in> set (product_components (db w)) \<and> ProductComponent_product_id c = p \<and> ProductComponent_code c = code"
proof -
  let ?f = "List.find (\<lambda>c. ProductComponent_product_id c = p \<and> ProductComponent_code c = code) (product_components (db w))"
  show "w' = w" using assms by (cases ?f) (simp_all add: get_component_def svc_simps)
  assume "r = Inr c"
  then have "?f = Some c" using assms by (cases ?f) (simp_all add: get_component_def svc_simps)
  then show "c \<in> set (product_components (db w)) \<and> ProductComponent_product_id c = p \<and> ProductComponent_code c = code"
    using find_SomeD by fastforce
qed

text \<open>An operation that first loads its component.\<close>

lemma keeps_get_component:
  assumes "\<And>w c. catalogue_ok w \<Longrightarrow> c \<in> set (product_components (db w)) \<Longrightarrow> catalogue_ok (snd (body c w))"
  shows "keeps catalogue_ok (bindS (get_component p code) body)"
proof (rule keepsI)
  fix w assume ok: "catalogue_ok w"
  obtain r v where g: "get_component p code w = (r, v)" by (cases "get_component p code w")
  show "catalogue_ok (snd (bindS (get_component p code) body w))"
    using ok g get_componentD [OF g] assms [OF ok] by (cases r) (simp_all add: svc_simps)
qed

lemma catalogue_audited: "catalogue_ok w \<Longrightarrow> catalogue_ok (audited a w)"
  by (erule catalogue_frame) simp_all

lemma catalogue_create: "keeps catalogue_ok (create_component p c actor)"
  by (rule keepsI) (auto simp: create_component_def svc_simps Let_def catalogue_ok_def keyed_append clash_sym(1))

lemma catalogue_update: "keeps catalogue_ok (update_component p code u actor)"
  unfolding update_component_def
proof (rule keeps_get_component)
  fix w row assume "catalogue_ok w"
  then show "catalogue_ok (snd ((if component_unset u then ret row
     else if cu_name u = Null \<or> cu_is_default_enabled u = Null \<or> cu_is_active u = Null then raise IntegrityError
     else
     bindS (update_rows product_components_update (\<lambda>c. ProductComponent_id c = ProductComponent_id row) (component_changes u)) (\<lambda>_.
     bindS (record_audit (component_audit ''component.updated'' actor p (ProductComponent_id row)
              [(''code'', JStr code), (''changes'', JList (map JStr (component_keys u)))])) (\<lambda>_.
     ret (component_changes u row)))) w))"
    by (simp add: svc_simps) (simp add: catalogue_ok_def keyed_component_update ids_component_update)
qed

lemma catalogue_delete: "keeps catalogue_ok (delete_component p code actor)"
  unfolding delete_component_def
  by (rule keeps_get_component) (auto simp: svc_simps catalogue_ok_def keyed_filter)

lemma user_override_kept:
  "keyed user_override_clash xs \<Longrightarrow> keyed user_override_clash (map_rows P (\<lambda>ov. ov\<lparr>UserComponentOverride_is_enabled := b,
     UserComponentOverride_reason := r, UserComponentOverride_set_by_user_id := s, UserComponentOverride_set_at := t\<rparr>) xs)"
  by (rule keyed_map_rows) (simp_all add: user_override_clash_def)

lemma tenant_override_kept:
  "keyed tenant_override_clash xs \<Longrightarrow> keyed tenant_override_clash (map_rows P (\<lambda>ov. ov\<lparr>TenantComponentOverride_is_enabled := b,
     TenantComponentOverride_reason := r, TenantComponentOverride_set_by_user_id := s, TenantComponentOverride_set_at := t\<rparr>) xs)"
  by (rule keyed_map_rows) (simp_all add: tenant_override_clash_def)

lemma catalogue_set_user: "keeps catalogue_ok (set_user_override p i t code b r actor)"
  unfolding set_user_override_def
  by (rule keeps_get_component)
    (auto simp: svc_simps Let_def catalogue_ok_def user_override_kept keyed_append clash_sym(2) ball_map_rows
      split: option.splits)

lemma catalogue_set_tenant: "keeps catalogue_ok (set_tenant_override p t code b r actor)"
  unfolding set_tenant_override_def
  by (rule keeps_get_component)
    (auto simp: svc_simps Let_def catalogue_ok_def tenant_override_kept keyed_append clash_sym(3) ball_map_rows
      split: option.splits)

lemma catalogue_clear:
  "keeps catalogue_ok (clear_user_override p i code actor)" "keeps catalogue_ok (clear_tenant_override p t code actor)"
  unfolding clear_user_override_def clear_tenant_override_def
  by (rule keeps_get_component, auto simp: svc_simps catalogue_ok_def keyed_filter split: option.splits)+

inductive component_step :: "world \<Rightarrow> world \<Rightarrow> bool" where
  creates: "create_component p c actor w = (r, w') \<Longrightarrow> component_step w w'"
| updates: "update_component p code u actor w = (r, w') \<Longrightarrow> component_step w w'"
| deletes: "delete_component p code actor w = (r, w') \<Longrightarrow> component_step w w'"
| user_overrides: "set_user_override p i t code b reason actor w = (r, w') \<Longrightarrow> component_step w w'"
| user_clears: "clear_user_override p i code actor w = (r, w') \<Longrightarrow> component_step w w'"
| tenant_overrides: "set_tenant_override p t code b reason actor w = (r, w') \<Longrightarrow> component_step w w'"
| tenant_clears: "clear_tenant_override p t code actor w = (r, w') \<Longrightarrow> component_step w w'"
| elsewhere: "product_components (db w') = product_components (db w) \<Longrightarrow>
    user_component_overrides (db w') = user_component_overrides (db w) \<Longrightarrow>
    tenant_component_overrides (db w') = tenant_component_overrides (db w) \<Longrightarrow> component_step w w'"

lemma component_step_ok: "component_step w w' \<Longrightarrow> catalogue_ok w \<Longrightarrow> catalogue_ok w'"
  by (induction rule: component_step.induct)
    (blast intro: keepsD [OF catalogue_create] keepsD [OF catalogue_update] keepsD [OF catalogue_delete]
       keepsD [OF catalogue_set_user] keepsD [OF catalogue_set_tenant] keepsD [OF catalogue_clear(1)]
       keepsD [OF catalogue_clear(2)] catalogue_frame)+

lemma component_steps_ok: "component_step\<^sup>*\<^sup>* w w' \<Longrightarrow> catalogue_ok w \<Longrightarrow> catalogue_ok w'"
  by (induction rule: rtranclp_induct) (blast intro: component_step_ok)+


section \<open>The two ways to ask for access agree\<close>

text \<open>The rule, stated on its own: a user override decides, else a tenant override, else the plan gate,
  else the default of the component.\<close>

definition plan_qualifies :: "database \<Rightarrow> uuid \<Rightarrow> uuid \<Rightarrow> string list \<Rightarrow> bool" where
  "plan_qualifies d t p required \<longleftrightarrow> (\<exists>s \<in> set (subscriptions d). Subscription_tenant_id s = t \<and> Subscription_product_id s = p \<and>
     has_access s \<and> (\<exists>plan \<in> set (plans d). Plan_id plan = Subscription_plan_id s \<and> Plan_code plan \<in> set required))"

definition plan_gated :: "database \<Rightarrow> uuid \<Rightarrow> uuid \<Rightarrow> ProductComponent \<Rightarrow> bool" where
  "plan_gated d t p c \<longleftrightarrow>
     (case ProductComponent_required_plan_codes c of
        None \<Rightarrow> False | Some required \<Rightarrow> required \<noteq> [] \<and> \<not> plan_qualifies d t p required)"

definition access_rule :: "database \<Rightarrow> User \<Rightarrow> ProductComponent \<Rightarrow> bool \<times> string \<times> string option" where
  "access_rule d u c =
     (case List.find (\<lambda>ov. UserComponentOverride_user_id ov = User_id u \<and> UserComponentOverride_component_id ov = ProductComponent_id c) (user_component_overrides d) of
        Some ov \<Rightarrow> (UserComponentOverride_is_enabled ov, ''override'', UserComponentOverride_reason ov)
      | None \<Rightarrow>
     (case List.find (\<lambda>ov. TenantComponentOverride_tenant_id ov = User_tenant_id u \<and> TenantComponentOverride_component_id ov = ProductComponent_id c) (tenant_component_overrides d) of
        Some ov \<Rightarrow> (TenantComponentOverride_is_enabled ov, ''tenant_override'', TenantComponentOverride_reason ov)
      | None \<Rightarrow>
     if plan_gated d (User_tenant_id u) (User_product_id u) c then (False, ''plan'', None)
     else (ProductComponent_is_default_enabled c, ''default'', None)))"

lemma tenant_plan_code:
  assumes "keyed subscription_clash (subscriptions (db w))" and "distinct (map Plan_id (plans (db w)))"
  shows "\<exists>code. tenant_active_plan_code t p w = (Inr code, w) \<and>
    (\<forall>required. (case code of Some k \<Rightarrow> k \<in> set required | None \<Rightarrow> False) \<longleftrightarrow> plan_qualifies (db w) t p required)"
proof -
  let ?join = "subscription_join (db w) t p"
  let ?in = "\<lambda>s p'. s \<in> set (subscriptions (db w)) \<and> Subscription_tenant_id s = t \<and> Subscription_product_id s = p \<and>
      p' \<in> set (plans (db w)) \<and> Plan_id p' = Subscription_plan_id s"
  have join: "(s, p') \<in> set ?join \<longleftrightarrow> ?in s p'" for s p'
    by (auto simp: subscription_join_def)
  have qual: "plan_qualifies (db w) t p required \<longleftrightarrow> (\<exists>s p'. ?in s p' \<and> has_access s \<and> Plan_code p' \<in> set required)" for required
    by (auto simp: plan_qualifies_def)
  show ?thesis
  proof (cases ?join)
    case Nil
    have "\<not> ?in s p'" for s p' using join [of s p', unfolded Nil] by simp
    then have "\<not> plan_qualifies (db w) t p required" for required
      unfolding qual by blast
    then show ?thesis
      using Nil by (intro exI [of _ None]) (simp add: tenant_active_plan_code_def svc_simps)
  next
    case (Cons e rest)
    obtain s p' where e: "e = (s, p')" by (cases e)
    have sp: "?in s p'" using join [of s p', unfolded Cons e] by simp
    have uniq: "s' = s \<and> p'' = p'" if "?in s' p''" for s' p''
    proof -
      have "s' = s" using assms(1) that sp unfolding keyed_def subscription_clash_def by blast
      then show ?thesis using that sp distinct_map_eq [OF assms(2)] by simp
    qed
    have "plan_qualifies (db w) t p required \<longleftrightarrow> has_access s \<and> Plan_code p' \<in> set required" for required
      unfolding qual using sp uniq by blast
    then show ?thesis
      using Cons e by (intro exI [of _ "if has_access s then Some (Plan_code p') else None"])
        (simp add: tenant_active_plan_code_def svc_simps)
  qed
qed

lemma resolve_with_plan_gate:
  assumes "\<forall>required. (case code of Some k \<Rightarrow> k \<in> set required | None \<Rightarrow> False) \<longleftrightarrow> plan_qualifies d t p required"
  shows "resolve_with_plan c code = (if plan_gated d t p c then (False, ''plan'') else (ProductComponent_is_default_enabled c, ''default''))"
  using assms by (simp add: resolve_with_plan_def plan_gated_def split: option.splits)

text \<open>The dictionary of the listing and the query of the gate find the same row.\<close>

lemma last_where_filter:
  assumes "keyed clash rs" and "\<And>x y. R x \<Longrightarrow> R y \<Longrightarrow> clash x y" and "\<And>x. Q x \<and> P x \<longleftrightarrow> R x"
  shows "last_where P (filter Q rs) = List.find R rs"
proof -
  have "List.find P (filter Q zs) = List.find R zs" for zs
    using assms(3) by (induction zs) auto
  then have "last_where P (filter Q rs) = List.find R (rev rs)"
    by (simp add: last_where_def rev_filter)
  also have "\<dots> = List.find R rs"
  proof (cases "\<exists>x \<in> set rs. R x")
    case True
    then obtain x where "x \<in> set rs" "R x" by blast
    then show ?thesis using keyed_find [OF assms(1), of R x] assms(2) by simp
  next
    case False
    then have "List.find R (rev rs) = None" "List.find R rs = None"
      by (simp_all add: find_None_iff_all)
    then show ?thesis by simp
  qed
  finally show ?thesis .
qed

lemma find_component:
  assumes "catalogue_ok w"
  shows "List.find (\<lambda>c. ProductComponent_product_id c = p \<and> ProductComponent_code c = code) (product_components (db w)) = Some c \<longleftrightarrow>
    c \<in> set (product_components (db w)) \<and> ProductComponent_product_id c = p \<and> ProductComponent_code c = code"
  using find_SomeD keyed_find(1) [of component_clash "product_components (db w)" "\<lambda>c. ProductComponent_product_id c = p \<and> ProductComponent_code c = code" c]
    assms unfolding catalogue_ok_def component_clash_def by fastforce

text \<open>C32: who may use which component. For a user, the listing has every active component of the product,
  in the order of the codes, each with the verdict and the reason of the precedence rule: user override before
  tenant override before plan gate before default; and the single check of a code says yes exactly
  for the active components of the listing whose verdict is yes. This holds after any run of the catalogue
  operations, which keep codes and overrides unique and every override with a component.\<close>

theorem component_access_agrees:
  assumes "catalogue_ok w0" and "component_step\<^sup>*\<^sup>* w0 w"
    and "keyed subscription_clash (subscriptions (db w))" and "distinct (map Plan_id (plans (db w)))"
  shows "catalogue_ok w \<and>
    user_effective_components u w = (Inr (map (\<lambda>c. (c, access_rule (db w) u c)) (order_by ProductComponent_code
      (filter (\<lambda>c. ProductComponent_product_id c = User_product_id u \<and> ProductComponent_is_active c) (product_components (db w))))), w) \<and>
    (\<forall>code. user_has_component_access u code w = (Inr (\<exists>c \<in> set (product_components (db w)).
      ProductComponent_product_id c = User_product_id u \<and> ProductComponent_code c = code \<and> ProductComponent_is_active c \<and>
      fst (access_rule (db w) u c)), w))"
proof (intro conjI allI)
  show ok: "catalogue_ok w" by (rule component_steps_ok [OF assms(2,1)])
  obtain plan where plan: "tenant_active_plan_code (User_tenant_id u) (User_product_id u) w = (Inr plan, w)"
      and gate: "\<And>c. resolve_with_plan c plan = (if plan_gated (db w) (User_tenant_id u) (User_product_id u) c then (False, ''plan'')
        else (ProductComponent_is_default_enabled c, ''default''))"
    using tenant_plan_code [OF assms(3,4), of "User_tenant_id u" "User_product_id u"] resolve_with_plan_gate by blast
  let ?cs = "order_by ProductComponent_code
      (filter (\<lambda>c. ProductComponent_product_id c = User_product_id u \<and> ProductComponent_is_active c) (product_components (db w)))"
  have user: "last_where (\<lambda>ov. UserComponentOverride_component_id ov = ProductComponent_id c)
      (filter (\<lambda>ov. UserComponentOverride_user_id ov = User_id u \<and> UserComponentOverride_component_id ov \<in> ProductComponent_id ` set ?cs) (user_component_overrides (db w))) =
      List.find (\<lambda>ov. UserComponentOverride_user_id ov = User_id u \<and> UserComponentOverride_component_id ov = ProductComponent_id c) (user_component_overrides (db w))"
    if "c \<in> set ?cs" for c
    using ok that by (intro last_where_filter [of user_override_clash]) (auto simp: catalogue_ok_def user_override_clash_def)
  have tenant: "last_where (\<lambda>ov. TenantComponentOverride_component_id ov = ProductComponent_id c)
      (filter (\<lambda>ov. TenantComponentOverride_tenant_id ov = User_tenant_id u \<and> TenantComponentOverride_component_id ov \<in> ProductComponent_id ` set ?cs) (tenant_component_overrides (db w))) =
      List.find (\<lambda>ov. TenantComponentOverride_tenant_id ov = User_tenant_id u \<and> TenantComponentOverride_component_id ov = ProductComponent_id c) (tenant_component_overrides (db w))"
    if "c \<in> set ?cs" for c
    using ok that by (intro last_where_filter [of tenant_override_clash]) (auto simp: catalogue_ok_def tenant_override_clash_def)
  show "user_effective_components u w = (Inr (map (\<lambda>c. (c, access_rule (db w) u c)) ?cs), w)"
  proof (cases "?cs = []")
    case True
    then show ?thesis by (simp add: user_effective_components_def list_components_def svc_simps)
  next
    case False
    then show ?thesis
      using user tenant plan
      by (auto simp: user_effective_components_def list_components_def svc_simps plan gate access_rule_def
          simp del: set_order_by intro!: map_cong split: option.splits)
  qed
  show "user_has_component_access u code w = (Inr (\<exists>c \<in> set (product_components (db w)).
      ProductComponent_product_id c = User_product_id u \<and> ProductComponent_code c = code \<and> ProductComponent_is_active c \<and>
      fst (access_rule (db w) u c)), w)" for code
  proof (cases "List.find (\<lambda>c. ProductComponent_product_id c = User_product_id u \<and> ProductComponent_code c = code) (product_components (db w))")
    case None
    then have "\<not> (\<exists>c \<in> set (product_components (db w)). ProductComponent_product_id c = User_product_id u \<and>
        ProductComponent_code c = code \<and> ProductComponent_is_active c \<and> fst (access_rule (db w) u c))"
      unfolding find_None_iff_all by blast
    then show ?thesis
      using None by (simp add: user_has_component_access_def svc_simps)
  next
    case (Some c)
    have "(\<exists>c \<in> set (product_components (db w)). ProductComponent_product_id c = User_product_id u \<and>
        ProductComponent_code c = code \<and> ProductComponent_is_active c \<and> fst (access_rule (db w) u c)) \<longleftrightarrow>
        ProductComponent_is_active c \<and> fst (access_rule (db w) u c)"
      using Some find_component [OF ok, of "User_product_id u" code] by (metis option.inject)
    then show ?thesis
      using Some plan by (simp add: user_has_component_access_def svc_simps gate access_rule_def split: option.splits)
  qed
qed


text \<open>Two active components, one of them behind a plan the tenant does not have, and a tenant override that
  turns the other one off.\<close>

definition sample_component :: "uuid \<Rightarrow> string \<Rightarrow> string list option \<Rightarrow> ProductComponent" where
  "sample_component i code required = \<lparr>ProductComponent_id = i, ProductComponent_product_id = 5, ProductComponent_code = code,
     ProductComponent_name = code, ProductComponent_description = None, ProductComponent_is_default_enabled = True,
     ProductComponent_is_active = True, ProductComponent_settings = [], ProductComponent_required_plan_codes = required\<rparr>"

definition sample_catalogue :: world where
  "sample_catalogue = sample_world\<lparr>db := empty_db\<lparr>
     product_components := [sample_component 171 ''mail'' (Some [''pro'']), sample_component 170 ''chat'' None],
     tenant_component_overrides := [\<lparr>TenantComponentOverride_id = 172, TenantComponentOverride_product_id = 5,
       TenantComponentOverride_tenant_id = 107, TenantComponentOverride_component_id = 170,
       TenantComponentOverride_is_enabled = False, TenantComponentOverride_reason = None,
       TenantComponentOverride_set_by_user_id = None, TenantComponentOverride_set_at = 0\<rparr>]\<rparr>\<rparr>"

theorem component_access_agrees_witness:
  "\<exists>ov w. set_user_override 5 120 107 ''mail'' True None None sample_catalogue = (Inr ov, w) \<and>
     user_has_component_access (sample_user 120 107) ''mail'' w = (Inr True, w) \<and>
     user_has_component_access (sample_user 120 107) ''chat'' w = (Inr False, w) \<and>
     user_has_component_access (sample_user 119 107) ''mail'' w = (Inr False, w)"
proof -
  have ok: "catalogue_ok sample_catalogue"
    by (simp add: catalogue_ok_def keyed_def sample_catalogue_def sample_component_def empty_db_def component_clash_def)
  have "\<exists>ov w. set_user_override 5 120 107 ''mail'' True None None sample_catalogue = (Inr ov, w) \<and>
      product_components (db w) = product_components (db sample_catalogue) \<and>
      tenant_component_overrides (db w) = tenant_component_overrides (db sample_catalogue) \<and>
      subscriptions (db w) = [] \<and> plans (db w) = [] \<and>
      (\<exists>x. user_component_overrides (db w) = [x] \<and> UserComponentOverride_user_id x = 120 \<and>
         UserComponentOverride_component_id x = 171 \<and> UserComponentOverride_is_enabled x)"
    by (simp add: set_user_override_def get_component_def svc_simps Let_def sample_catalogue_def sample_component_def empty_db_def)
  then obtain ov w x where run: "set_user_override 5 120 107 ''mail'' True None None sample_catalogue = (Inr ov, w)"
      and rows: "product_components (db w) = product_components (db sample_catalogue)"
        "tenant_component_overrides (db w) = tenant_component_overrides (db sample_catalogue)" "subscriptions (db w) = []" "plans (db w) = []"
        "user_component_overrides (db w) = [x]" "UserComponentOverride_user_id x = 120" "UserComponentOverride_component_id x = 171"
        "UserComponentOverride_is_enabled x"
    by (elim exE conjE) (rule that)
  have steps: "component_step\<^sup>*\<^sup>* sample_catalogue w"
    using user_overrides [OF run] by (rule r_into_rtranclp)
  note access = component_access_agrees [OF ok steps, THEN conjunct2, THEN conjunct2, rule_format]
  have "user_has_component_access (sample_user 120 107) ''mail'' w = (Inr True, w)"
    by (subst access, simp_all add: rows access_rule_def) (simp add: sample_catalogue_def sample_component_def sample_user_def rows)
  moreover have "user_has_component_access (sample_user 120 107) ''chat'' w = (Inr False, w)"
    by (subst access, simp_all add: rows access_rule_def) (simp add: sample_catalogue_def sample_component_def sample_user_def rows)
  moreover have "user_has_component_access (sample_user 119 107) ''mail'' w = (Inr False, w)"
    by (subst access, simp_all add: rows access_rule_def)
      (simp add: sample_catalogue_def sample_component_def sample_user_def rows plan_gated_def plan_qualifies_def)
  ultimately show ?thesis using run by (intro exI conjI)
qed

end
