(* ===== verification/Storage.thy ===== *)
theory Storage
  imports Interfaces Samples
begin

text \<open>
  The key/value store of a tenant: \<^verbatim>\<open>app/services/storage.py\<close>. A write reads the
  stored row and checks its version first and writes later; other requests may write in between, so
  \<open>put_document\<close> is composed of the two halves \<open>put_read\<close> and \<open>put_write\<close>.
\<close>

section \<open>Tables\<close>

definition collection_clash :: "StorageCollection \<Rightarrow> StorageCollection \<Rightarrow> bool" where
  "collection_clash x y \<longleftrightarrow> StorageCollection_product_id x = StorageCollection_product_id y \<and>
     StorageCollection_tenant_id x = StorageCollection_tenant_id y \<and> StorageCollection_name x = StorageCollection_name y"

definition document_clash :: "StorageDocument \<Rightarrow> StorageDocument \<Rightarrow> bool" where
  "document_clash x y \<longleftrightarrow> StorageDocument_product_id x = StorageDocument_product_id y \<and>
     StorageDocument_tenant_id x = StorageDocument_tenant_id y \<and>
     StorageDocument_collection_id x = StorageDocument_collection_id y \<and> StorageDocument_key x = StorageDocument_key y"

text \<open>The row a query names.\<close>

definition collection_at :: "uuid \<Rightarrow> uuid \<Rightarrow> string \<Rightarrow> StorageCollection \<Rightarrow> bool" where
  "collection_at product_id tenant_id name c \<longleftrightarrow> StorageCollection_product_id c = product_id \<and>
     StorageCollection_tenant_id c = tenant_id \<and> StorageCollection_name c = name"

definition document_at :: "uuid \<Rightarrow> uuid \<Rightarrow> uuid \<Rightarrow> string \<Rightarrow> StorageDocument \<Rightarrow> bool" where
  "document_at product_id tenant_id collection_id key d \<longleftrightarrow> StorageDocument_product_id d = product_id \<and>
     StorageDocument_tenant_id d = tenant_id \<and> StorageDocument_collection_id d = collection_id \<and> StorageDocument_key d = key"

definition MAX_VALUE_BYTES :: int where
  "MAX_VALUE_BYTES = 1 * 1024 * 1024"

definition measure_value :: "dict \<Rightarrow> int service" where
  "measure_value value = gets (\<lambda>w. json_size (lib w) value)"


section \<open>Collections\<close>

definition get_collection :: "uuid \<Rightarrow> uuid \<Rightarrow> string \<Rightarrow> StorageCollection service" where
  "get_collection product_id tenant_id name =
     bindS (scalar storage_collections (collection_at product_id tenant_id name)) (\<lambda>coll.
     case coll of None \<Rightarrow> raise (NotFound ''collection not found'') | Some c \<Rightarrow> ret c)"

definition create_collection ::
    "uuid \<Rightarrow> uuid \<Rightarrow> string \<Rightarrow> string option \<Rightarrow> int \<Rightarrow> uuid option \<Rightarrow> StorageCollection service" where
  "create_collection product_id tenant_id name description default_ttl_seconds actor_user_id =
     bindS (scalar storage_collections (collection_at product_id tenant_id name)) (\<lambda>existing.
     case existing of
       Some c \<Rightarrow> ret c
     | None \<Rightarrow>
     bindS fresh (\<lambda>i.
     let coll = \<lparr>StorageCollection_id = i, StorageCollection_product_id = product_id, StorageCollection_tenant_id = tenant_id,
           StorageCollection_name = name, StorageCollection_default_ttl_seconds = default_ttl_seconds,
           StorageCollection_description = description\<rparr>
     in
     bindS (attempt (insert_row storage_collections storage_collections_update collection_clash coll)) (\<lambda>flushed.
     case flushed of
       Inl e \<Rightarrow> if e = IntegrityError then get_collection product_id tenant_id name else raise e
     | Inr _ \<Rightarrow>
     bindS (record_audit ((act ''storage.collection_create'')\<lparr>a_actor_user_id := actor_user_id,
              a_resource_type := Some ''storage_collection'', a_resource_id := Some i, a_product_id := Some product_id,
              a_tenant_id := Some tenant_id,
              a_diff := [(''name'', JStr name), (''default_ttl_seconds'', JInt default_ttl_seconds)]\<rparr>)) (\<lambda>_.
     ret coll))))"


section \<open>Documents\<close>

definition document_expires_at :: "int option \<Rightarrow> int \<Rightarrow> time \<Rightarrow> time option" where
  "document_expires_at ttl_seconds collection_default t =
     (let effective = (case ttl_seconds of Some n \<Rightarrow> n | None \<Rightarrow> collection_default)
      in if effective \<le> 0 then None else Some (t + seconds effective))"

definition get_document_row :: "uuid \<Rightarrow> uuid \<Rightarrow> uuid \<Rightarrow> string \<Rightarrow> StorageDocument option service" where
  "get_document_row product_id tenant_id collection_id key =
     scalar storage_documents (document_at product_id tenant_id collection_id key)"

record put_args =
  p_product_id :: uuid
  p_tenant_id :: uuid
  p_collection :: string
  p_key :: string
  p_value :: dict
  p_ttl_seconds :: "int option"
  p_if_version :: "int option"
  p_actor_user_id :: "uuid option"

definition put_read :: "put_args \<Rightarrow> (StorageCollection \<times> StorageDocument option) service" where
  "put_read a =
     (if p_key a = [] then raise (ValidationFailed ''key is required'')
      else
      bindS (measure_value (p_value a)) (\<lambda>n.
      if n > MAX_VALUE_BYTES then raise (ValidationFailed ''value exceeds the maximum size'')
      else
      bindS (get_collection (p_product_id a) (p_tenant_id a) (p_collection a)) (\<lambda>coll.
      bindS (get_document_row (p_product_id a) (p_tenant_id a) (StorageCollection_id coll) (p_key a)) (\<lambda>doc.
      case doc of
        None \<Rightarrow> if p_if_version a \<noteq> None then raise (Conflict ''if_version supplied on first write'') else ret (coll, None)
      | Some d \<Rightarrow>
          if p_if_version a \<noteq> None \<and> p_if_version a \<noteq> Some (StorageDocument_version d)
          then raise (Conflict ''version mismatch'') else ret (coll, Some d)))))"

definition new_document :: "put_args \<Rightarrow> StorageCollection \<Rightarrow> uuid \<Rightarrow> time \<Rightarrow> StorageDocument" where
  "new_document a coll i t = \<lparr>StorageDocument_id = i, StorageDocument_product_id = p_product_id a,
     StorageDocument_tenant_id = p_tenant_id a, StorageDocument_collection_id = StorageCollection_id coll,
     StorageDocument_key = p_key a, StorageDocument_value = p_value a, StorageDocument_version = 1,
     StorageDocument_expires_at = document_expires_at (p_ttl_seconds a) (StorageCollection_default_ttl_seconds coll) t,
     StorageDocument_updated_at = t\<rparr>"

text \<open>The attributes an update assigns: the new version is computed from the row as it was read.\<close>

definition overwrite :: "put_args \<Rightarrow> StorageCollection \<Rightarrow> int \<Rightarrow> time \<Rightarrow> StorageDocument \<Rightarrow> StorageDocument" where
  "overwrite a coll version t d = d\<lparr>StorageDocument_value := p_value a, StorageDocument_version := version,
     StorageDocument_expires_at := document_expires_at (p_ttl_seconds a) (StorageCollection_default_ttl_seconds coll) t,
     StorageDocument_updated_at := t\<rparr>"

definition put_audit :: "string \<Rightarrow> put_args \<Rightarrow> StorageDocument \<Rightarrow> audit_args" where
  "put_audit action a d = (act action)\<lparr>a_actor_user_id := p_actor_user_id a, a_resource_type := Some ''storage_document'',
     a_resource_id := Some (StorageDocument_id d), a_product_id := Some (p_product_id a), a_tenant_id := Some (p_tenant_id a),
     a_diff := [(''collection'', JStr (p_collection a)), (''key'', JStr (p_key a)), (''version'', JInt (StorageDocument_version d))]\<rparr>"

definition put_write :: "put_args \<Rightarrow> StorageCollection \<times> StorageDocument option \<Rightarrow> StorageDocument service" where
  "put_write a r = (case r of (coll, doc) \<Rightarrow>
     bindS (gets now) (\<lambda>t.
     case doc of
       None \<Rightarrow>
         bindS fresh (\<lambda>i.
         bindS (insert_row storage_documents storage_documents_update document_clash (new_document a coll i t)) (\<lambda>_.
         bindS (record_audit (put_audit ''storage.put'' a (new_document a coll i t))) (\<lambda>_.
         ret (new_document a coll i t))))
     | Some d \<Rightarrow>
         let f = overwrite a coll (StorageDocument_version d + 1) t in
         bindS (update_rows storage_documents_update (\<lambda>x. StorageDocument_id x = StorageDocument_id d) f) (\<lambda>_.
         bindS (record_audit (put_audit ''storage.update'' a (f d))) (\<lambda>_.
         ret (f d)))))"

definition put_document :: "put_args \<Rightarrow> StorageDocument service" where
  "put_document a = bindS (put_read a) (put_write a)"

definition get_document :: "uuid \<Rightarrow> uuid \<Rightarrow> string \<Rightarrow> string \<Rightarrow> StorageDocument service" where
  "get_document product_id tenant_id collection_name key =
     bindS (get_collection product_id tenant_id collection_name) (\<lambda>coll.
     bindS (get_document_row product_id tenant_id (StorageCollection_id coll) key) (\<lambda>doc.
     bindS (gets now) (\<lambda>t.
     case doc of
       None \<Rightarrow> raise (NotFound ''key not found'')
     | Some d \<Rightarrow>
         if (case StorageDocument_expires_at d of Some e \<Rightarrow> e \<le> t | None \<Rightarrow> False)
         then raise (NotFound ''key expired'') else ret d)))"

text \<open>\<^verbatim>\<open>LIKE\<close>: \<open>_\<close> is any character, \<open>%\<close> any text, a backslash takes the next
  character literally.\<close>

fun like :: "string \<Rightarrow> string \<Rightarrow> bool" where
  "like [] s = (s = [])"
| "like (c # p) s =
     (if c = CHR ''%'' then (case s of [] \<Rightarrow> like p [] | _ # t \<Rightarrow> like p s \<or> like (c # p) t)
      else case s of [] \<Rightarrow> False
      | d # t \<Rightarrow>
          if c = CHR ''_'' then like p t
          else if c = CHR 92 then (case p of [] \<Rightarrow> False | e # q \<Rightarrow> e = d \<and> like q t)
          else c = d \<and> like p t)"

definition list_documents ::
    "uuid \<Rightarrow> uuid \<Rightarrow> string \<Rightarrow> time option \<Rightarrow> string option \<Rightarrow> int \<Rightarrow> StorageDocument list service" where
  "list_documents product_id tenant_id collection_name since prefix limit =
     bindS (get_collection product_id tenant_id collection_name) (\<lambda>coll.
     bindS (scalars storage_documents (\<lambda>d. StorageDocument_product_id d = product_id \<and> StorageDocument_tenant_id d = tenant_id \<and>
              StorageDocument_collection_id d = StorageCollection_id coll \<and>
              (case since of Some t \<Rightarrow> StorageDocument_updated_at d > t | None \<Rightarrow> True) \<and>
              (truthy prefix \<longrightarrow> like (the prefix @ ''%'') (StorageDocument_key d)))) (\<lambda>ds.
     ret (take (nat (max 1 (min limit 500))) (sort_key StorageDocument_updated_at ds))))"

definition delete_document :: "uuid \<Rightarrow> uuid \<Rightarrow> string \<Rightarrow> string \<Rightarrow> uuid option \<Rightarrow> unit service" where
  "delete_document product_id tenant_id collection_name key actor_user_id =
     bindS (get_collection product_id tenant_id collection_name) (\<lambda>coll.
     bindS (get_document_row product_id tenant_id (StorageCollection_id coll) key) (\<lambda>doc.
     case doc of
       None \<Rightarrow> ret ()
     | Some d \<Rightarrow>
     bindS (delete_rows storage_documents_update (\<lambda>x. StorageDocument_id x = StorageDocument_id d)) (\<lambda>_.
     record_audit ((act ''storage.delete'')\<lparr>a_actor_user_id := actor_user_id, a_resource_type := Some ''storage_document'',
       a_resource_id := Some (StorageDocument_id d), a_product_id := Some product_id, a_tenant_id := Some tenant_id,
       a_diff := [(''collection'', JStr collection_name), (''key'', JStr key)]\<rparr>))))"


section \<open>The store as a map\<close>

text \<open>
  What a tenant sees: a collection has a default lifetime and binds keys to a value with its version
  and the instant it expires.
\<close>

type_synonym store = "(uuid \<times> uuid \<times> string) \<rightharpoonup> (int \<times> (string \<rightharpoonup> (dict \<times> int \<times> time option)))"

definition entry_of :: "StorageDocument \<Rightarrow> dict \<times> int \<times> time option" where
  "entry_of d = (StorageDocument_value d, StorageDocument_version d, StorageDocument_expires_at d)"

definition collection_view ::
    "StorageDocument list \<Rightarrow> StorageCollection \<Rightarrow> int \<times> (string \<rightharpoonup> (dict \<times> int \<times> time option))" where
  "collection_view ds c = (StorageCollection_default_ttl_seconds c,
     \<lambda>k. map_option entry_of (List.find (document_at (StorageCollection_product_id c) (StorageCollection_tenant_id c)
       (StorageCollection_id c) k) ds))"

definition store_view :: "world \<Rightarrow> store" where
  "store_view w = (\<lambda>(p, t, n). map_option (collection_view (storage_documents (db w)))
     (List.find (collection_at p t n) (storage_collections (db w))))"

datatype store_op =
    Create uuid uuid string "string option" int "uuid option"
  | Put put_args
  | Remove uuid uuid string string "uuid option"

definition run_op :: "store_op \<Rightarrow> unit service" where
  "run_op op = (case op of
       Create p t n description ttl u \<Rightarrow> bindS (create_collection p t n description ttl u) (\<lambda>_. ret ())
     | Put a \<Rightarrow> bindS (put_document a) (\<lambda>_. ret ())
     | Remove p t n k u \<Rightarrow> delete_document p t n k u)"

text \<open>
  The same operations on the map; \<open>None\<close> is a refusal. A create leaves a collection that exists
  as it is. A put needs a key, a value within the limit and a collection, and, when the caller
  names a version, an entry of just that version. A delete needs the collection only.
\<close>

fun spec_op :: "(dict \<Rightarrow> int) \<Rightarrow> time \<Rightarrow> store_op \<Rightarrow> store \<Rightarrow> store option" where
  "spec_op bytes t (Create p q n _ ttl _) s =
     Some (if s (p, q, n) = None then s((p, q, n) \<mapsto> (ttl, Map.empty)) else s)"
| "spec_op bytes t (Put a) s =
     (case s (p_product_id a, p_tenant_id a, p_collection a) of
        None \<Rightarrow> None
      | Some (ttl, m) \<Rightarrow>
          let old = m (p_key a);
              version = (case old of None \<Rightarrow> 0 | Some (_, v, _) \<Rightarrow> v)
          in if p_key a = [] \<or> bytes (p_value a) > MAX_VALUE_BYTES
                \<or> (\<exists>v \<in> set_option (p_if_version a). old = None \<or> version \<noteq> v)
             then None
             else Some (s((p_product_id a, p_tenant_id a, p_collection a) \<mapsto>
               (ttl, m(p_key a \<mapsto> (p_value a, version + 1, document_expires_at (p_ttl_seconds a) ttl t))))))"
| "spec_op bytes t (Remove p q n k _) s =
     (case s (p, q, n) of None \<Rightarrow> None | Some (ttl, m) \<Rightarrow> Some (s((p, q, n) \<mapsto> (ttl, m(k := None)))))"

text \<open>Identifiers are drawn once, no two documents have one key, and a document belongs to a
  collection made before.\<close>

definition storage_ok :: "world \<Rightarrow> bool" where
  "storage_ok w \<longleftrightarrow> fresh_ids w \<and> distinct (map StorageCollection_id (storage_collections (db w))) \<and>
     distinct (map StorageDocument_id (storage_documents (db w))) \<and> keyed document_clash (storage_documents (db w)) \<and>
     (\<forall>c \<in> set (storage_collections (db w)). StorageCollection_id c \<in> drawn w) \<and>
     (\<forall>d \<in> set (storage_documents (db w)). StorageDocument_id d \<in> drawn w \<and> StorageDocument_collection_id d \<in> drawn w)"

text \<open>Steps that do not touch the two tables keep both.\<close>

lemma storage_ok_cong:
  assumes "storage_ok w" "storage_collections (db w') = storage_collections (db w)"
    "storage_documents (db w') = storage_documents (db w)" "draws w' = draws w" "draw_no w \<le> draw_no w'"
  shows "storage_ok w'"
  using assms by (auto simp: storage_ok_def fresh_ids_def drawn_def)

lemma storage_ok_audited: "storage_ok w \<Longrightarrow> storage_ok (audited b w)"
  by (erule storage_ok_cong) (simp_all add: audited_draws)

lemma store_view_audited [simp]: "store_view (audited b w) = store_view w"
  by (simp add: store_view_def)

lemma store_view_at: "store_view w (p, t, n) =
    map_option (collection_view (storage_documents (db w))) (List.find (collection_at p t n) (storage_collections (db w)))"
  by (simp add: store_view_def)

lemma get_collection_apply [svc_simps]:
  "get_collection p t n w = (case List.find (collection_at p t n) (storage_collections (db w)) of
     None \<Rightarrow> (Inl (NotFound ''collection not found''), w) | Some c \<Rightarrow> (Inr c, w))"
  by (simp add: get_collection_def svc_simps split: option.splits)

lemma get_document_row_apply [svc_simps]:
  "get_document_row p t c k w = (Inr (List.find (document_at p t c k) (storage_documents (db w))), w)"
  by (simp add: get_document_row_def svc_simps)

lemma find_collection:
  assumes "List.find (collection_at p t n) cs = Some c"
  shows "c \<in> set cs" "StorageCollection_product_id c = p" "StorageCollection_tenant_id c = t" "StorageCollection_name c = n"
  using find_SomeD [OF assms] by (simp_all add: collection_at_def)

text \<open>What changing one entry of one collection does to the view.\<close>

lemma store_view_entry:
  assumes ok: "storage_ok w" and c: "List.find (collection_at p t n) (storage_collections (db w)) = Some c"
    and w': "storage_collections (db w') = storage_collections (db w)"
    and here: "List.find (document_at p t (StorageCollection_id c) k) (storage_documents (db w')) = e"
    and others: "\<And>q u i l. (q, u, i, l) \<noteq> (p, t, StorageCollection_id c, k) \<Longrightarrow>
      List.find (document_at q u i l) (storage_documents (db w')) = List.find (document_at q u i l) (storage_documents (db w))"
  shows "store_view w' = (store_view w)((p, t, n) \<mapsto> (StorageCollection_default_ttl_seconds c,
           (snd (the (store_view w (p, t, n))))(k := map_option entry_of e)))"
proof
  fix a :: "uuid \<times> uuid \<times> string"
  obtain q u m where a: "a = (q, u, m)" by (cases a)
  note c' = find_collection [OF c]
  show "store_view w' a = ((store_view w)((p, t, n) \<mapsto> (StorageCollection_default_ttl_seconds c,
           (snd (the (store_view w (p, t, n))))(k := map_option entry_of e)))) a"
  proof (cases "(q, u, m) = (p, t, n)")
    case True
    have "List.find (document_at p t (StorageCollection_id c) l) (storage_documents (db w')) =
        (if l = k then e else List.find (document_at p t (StorageCollection_id c) l) (storage_documents (db w)))" for l
      using here others by simp
    then show ?thesis
      using c c' True by (auto simp: a store_view_at w' collection_view_def)
  next
    case False
    show ?thesis
    proof (cases "List.find (collection_at q u m) (storage_collections (db w))")
      case None
      then show ?thesis using False by (auto simp: a store_view_at w')
    next
      case (Some x)
      note x = find_collection [OF Some]
      have "StorageCollection_id x \<noteq> StorageCollection_id c"
        using distinct_map_eq [of StorageCollection_id, OF _ x(1) c'(1)] ok x c' False by (auto simp: storage_ok_def)
      then have "collection_view (storage_documents (db w')) x = collection_view (storage_documents (db w)) x"
        using others by (simp add: collection_view_def)
      then show ?thesis using False Some by (auto simp: a store_view_at w')
    qed
  qed
qed


interpretation documents: keyed_rows "\<lambda>(p, t, c, k). document_at p t c k" StorageDocument_id document_clash
  by unfold_locales (auto simp: document_at_def document_clash_def)

text \<open>The three ways a row changes, seen through the queries.\<close>

lemmas find_document_insert = documents.find_insert [of "(p, t, c, k)" r ds "(q, u, i, l)" for p t c k r ds q u i l, simplified split_conv]
lemmas find_document_update = documents.find_update [of "(p, t, c, k)" ds d f "(q, u, i, l)" for p t c k ds d f q u i l, simplified split_paired_all split_conv]
lemmas find_document_delete = documents.find_delete [of "(p, t, c, k)" ds d "(q, u, i, l)" for p t c k ds d q u i l, simplified split_conv]

lemma document_at_simps [simp]:
  "document_at q u i l (overwrite a c v t d) = document_at q u i l d"
  "document_at q u i l (new_document a c j t) \<longleftrightarrow> (q, u, i, l) = (p_product_id a, p_tenant_id a, StorageCollection_id c, p_key a)"
  by (auto simp: document_at_def overwrite_def new_document_def)

lemma document_clash_overwrite:
  "document_clash (overwrite a c v t x) y = document_clash x y" "document_clash x (overwrite a c v t y) = document_clash x y"
  by (simp_all add: document_clash_def overwrite_def)

lemma entry_of_new [simp]:
  "entry_of (new_document a c i t) = (p_value a, 1, document_expires_at (p_ttl_seconds a) (StorageCollection_default_ttl_seconds c) t)"
  by (simp add: new_document_def entry_of_def)

lemma case_entry: "(case entry_of d of (x, y, z) \<Rightarrow> g x y z) =
    g (StorageDocument_value d) (StorageDocument_version d) (StorageDocument_expires_at d)"
  by (simp add: entry_of_def)

lemma overwrite_ids [simp]:
  "StorageDocument_id (overwrite a c v t d) = StorageDocument_id d"
  "StorageDocument_collection_id (overwrite a c v t d) = StorageDocument_collection_id d"
  "entry_of (overwrite a c v t d) = (p_value a, v, document_expires_at (p_ttl_seconds a) (StorageCollection_default_ttl_seconds c) t)"
  by (simp_all add: overwrite_def entry_of_def)

lemma storage_ok_insert:
  assumes ok: "storage_ok w" and c: "StorageCollection_id c \<in> drawn w"
    and free: "\<forall>d \<in> set (storage_documents (db w)). \<not> document_clash d (new_document a c (draws w (draw_no w)) t)"
  shows "storage_ok (w\<lparr>draw_no := Suc (draw_no w),
     db := storage_documents_update (\<lambda>rs. rs @ [new_document a c (draws w (draw_no w)) t]) (db w)\<rparr>)" (is "storage_ok ?w")
proof -
  have d: "drawn ?w = insert (draws w (draw_no w)) (drawn w)"
    using drawn_step [of w] by (simp add: drawn_def)
  have "keyed document_clash (storage_documents (db w) @ [new_document a c (draws w (draw_no w)) t])"
    using ok free by (intro keyed_append) (auto simp: storage_ok_def document_clash_def)
  moreover have "draws w (draw_no w) \<notin> StorageDocument_id ` set (storage_documents (db w))"
    using ok fresh_not_drawn [of w] by (auto simp: storage_ok_def)
  ultimately show ?thesis
    using ok c unfolding storage_ok_def d by (auto simp: fresh_ids_def new_document_def)
qed

lemma storage_ok_overwrite:
  assumes ok: "storage_ok w"
  shows "storage_ok (w\<lparr>db := storage_documents_update (map_rows P (overwrite a c v t)) (db w)\<rparr>)" (is "storage_ok ?w")
proof -
  have d: "drawn ?w = drawn w" by (simp add: drawn_def)
  have "map StorageDocument_id (map_rows P (overwrite a c v t) ds) = map StorageDocument_id ds" for ds
    by (simp add: map_rows_def)
  moreover have "keyed document_clash (map_rows P (overwrite a c v t) (storage_documents (db w)))"
    using ok by (intro keyed_map_rows) (simp_all add: storage_ok_def document_clash_overwrite)
  ultimately show ?thesis
    using ok unfolding storage_ok_def d by (simp add: fresh_ids_def ball_map_rows)
qed

lemma storage_ok_delete:
  "storage_ok w \<Longrightarrow> storage_ok (w\<lparr>db := storage_documents_update (filter P) (db w)\<rparr>)"
  by (auto simp: storage_ok_def fresh_ids_def drawn_def keyed_filter distinct_map_filter)


text \<open>The first half of a put reads only; the second half writes the entry and nothing else.\<close>

lemma put_read_returns:
  assumes "put_read a w = (Inr (c, doc), w')"
  shows "w' = w" "p_key a \<noteq> []" "json_size (lib w) (p_value a) \<le> MAX_VALUE_BYTES"
    "List.find (collection_at (p_product_id a) (p_tenant_id a) (p_collection a)) (storage_collections (db w)) = Some c"
    "List.find (document_at (p_product_id a) (p_tenant_id a) (StorageCollection_id c) (p_key a)) (storage_documents (db w)) = doc"
    "p_if_version a = None \<or> (\<exists>d. doc = Some d \<and> p_if_version a = Some (StorageDocument_version d))"
  using assms by (cases doc; auto simp: put_read_def measure_value_def svc_simps split: if_splits option.splits sum.splits)+

lemma put_read_raises:
  assumes "put_read a w = (Inl e, w')"
  shows "w' = w \<and> spec_op (json_size (lib w)) t (Put a) (store_view w) = None"
proof -
  let ?c = "List.find (collection_at (p_product_id a) (p_tenant_id a) (p_collection a)) (storage_collections (db w))"
  show ?thesis
  proof (cases "p_key a = [] \<or> json_size (lib w) (p_value a) > MAX_VALUE_BYTES \<or> ?c = None")
    case True
    then show ?thesis
      using assms by (auto simp: put_read_def measure_value_def svc_simps store_view_at split: if_splits option.splits)
  next
    case False
    then obtain c where c: "?c = Some c" by auto
    show ?thesis
      using assms False c find_collection [OF c]
      by (simp add: put_read_def measure_value_def svc_simps store_view_at collection_view_def Let_def entry_of_def
          split: if_splits option.splits)
  qed
qed

lemma put_write_returns:
  assumes ok: "storage_ok w"
    and c: "List.find (collection_at (p_product_id a) (p_tenant_id a) (p_collection a)) (storage_collections (db w)) = Some c"
    and doc: "List.find (document_at (p_product_id a) (p_tenant_id a) (StorageCollection_id c) (p_key a)) (storage_documents (db w)) = doc"
  shows "\<exists>d w'. put_write a (c, doc) w = (Inr d, w') \<and> storage_ok w' \<and>
    entry_of d = (p_value a, (case doc of None \<Rightarrow> 1 | Some x \<Rightarrow> StorageDocument_version x + 1),
      document_expires_at (p_ttl_seconds a) (StorageCollection_default_ttl_seconds c) (now w)) \<and>
    storage_collections (db w') = storage_collections (db w) \<and> lib w' = lib w \<and> now w' = now w \<and>
    List.find (document_at (p_product_id a) (p_tenant_id a) (StorageCollection_id c) (p_key a)) (storage_documents (db w')) = Some d \<and>
    (\<forall>q u i l. (q, u, i, l) \<noteq> (p_product_id a, p_tenant_id a, StorageCollection_id c, p_key a) \<longrightarrow>
      List.find (document_at q u i l) (storage_documents (db w')) = List.find (document_at q u i l) (storage_documents (db w)))"
proof (cases doc)
  case None
  let ?d = "new_document a c (draws w (draw_no w)) (now w)"
  have at: "document_at (p_product_id a) (p_tenant_id a) (StorageCollection_id c) (p_key a) ?d" by simp
  have free: "\<forall>x \<in> set (storage_documents (db w)). \<not> document_clash x ?d"
    using find_NoneD [OF doc [unfolded None]] by (auto simp: document_clash_def document_at_def new_document_def)
  have "StorageCollection_id c \<in> drawn w"
    using ok find_collection [OF c] by (simp add: storage_ok_def)
  note ok' = storage_ok_audited [OF storage_ok_insert [OF ok this free]]
  have run: "put_write a (c, doc) w = (Inr ?d, audited (put_audit ''storage.put'' a ?d) (w\<lparr>draw_no := Suc (draw_no w),
      db := storage_documents_update (\<lambda>rs. rs @ [?d]) (db w)\<rparr>))"
    using free by (simp add: put_write_def None svc_simps)
  show ?thesis
    using ok' find_document_insert [OF at doc [unfolded None]]
    by (simp add: run [unfolded None] None)
next
  case (Some x)
  let ?f = "overwrite a c (StorageDocument_version x + 1) (now w)"
  let ?P = "\<lambda>y. StorageDocument_id y = StorageDocument_id x"
  have ids: "distinct (map StorageDocument_id (storage_documents (db w)))" using ok by (simp add: storage_ok_def)
  have run: "put_write a (c, doc) w = (Inr (?f x), audited (put_audit ''storage.update'' a (?f x)) (w\<lparr>
      db := storage_documents_update (map_rows ?P ?f) (db w)\<rparr>))"
    by (simp add: put_write_def Some svc_simps Let_def)
  note find = find_document_update [OF doc [unfolded Some] ids, where f = ?f, OF document_at_simps(1)]
  show ?thesis
    using storage_ok_audited [OF storage_ok_overwrite [OF ok]] find
    by (simp add: run [unfolded Some] Some)
qed

lemma put_refines:
  assumes ok: "storage_ok w" and run: "put_document a w = (r, w')"
  shows "storage_ok w' \<and> (case r of
      Inr d \<Rightarrow> spec_op (json_size (lib w)) (now w) (Put a) (store_view w) = Some (store_view w')
    | Inl _ \<Rightarrow> spec_op (json_size (lib w)) (now w) (Put a) (store_view w) = None \<and> store_view w' = store_view w)"
proof (cases "put_read a w")
  case res: (Pair x v)
  show ?thesis
  proof (cases x)
    case (Inl e)
    note read = res [unfolded Inl]
    have "r = Inl e" "w' = v"
      using run by (simp_all add: put_document_def bindS_apply read)
    then show ?thesis
      using ok put_read_raises [OF read, of "now w"] by (simp del: spec_op.simps)
  next
    case (Inr cd)
    obtain c doc where "put_read a w = (Inr (c, doc), v)"
      using res Inr by (cases cd) simp
    note read = this put_read_returns [OF this]
    obtain d u where "put_write a (c, doc) w = (Inr d, u)"
      using put_write_returns [OF ok read(5) read(6)] by blast
    then have run': "r = Inr d" "w' = u" "put_write a (c, doc) w = (Inr d, w')"
      using run unfolding put_document_def bindS_apply read(1) by (simp_all add: read(2))
    with put_write_returns [OF ok read(5) read(6)] obtain
      w': "storage_ok w'" "storage_collections (db w') = storage_collections (db w)"
        "List.find (document_at (p_product_id a) (p_tenant_id a) (StorageCollection_id c) (p_key a)) (storage_documents (db w')) = Some d"
      and d: "entry_of d = (p_value a, (case doc of None \<Rightarrow> 1 | Some x \<Rightarrow> StorageDocument_version x + 1),
        document_expires_at (p_ttl_seconds a) (StorageCollection_default_ttl_seconds c) (now w))"
      and others: "\<And>q u i l. (q, u, i, l) \<noteq> (p_product_id a, p_tenant_id a, StorageCollection_id c, p_key a) \<Longrightarrow>
        List.find (document_at q u i l) (storage_documents (db w')) = List.find (document_at q u i l) (storage_documents (db w))"
      by auto
    have view: "store_view w' = (store_view w)((p_product_id a, p_tenant_id a, p_collection a) \<mapsto>
        (StorageCollection_default_ttl_seconds c,
         (snd (the (store_view w (p_product_id a, p_tenant_id a, p_collection a))))(p_key a := map_option entry_of (Some d))))"
      by (rule store_view_entry [OF ok read(5) w'(2,3)]) (rule others)
    show ?thesis
      using w'(1) read(3,4,5,6,7) find_collection [OF read(5)] unfolding run'(1) view
      by (auto simp: store_view_at collection_view_def d case_entry Let_def split: option.splits)
  qed
qed


lemma delete_refines:
  assumes ok: "storage_ok w" and run: "delete_document p t n k u w = (r, w')"
  shows "storage_ok w' \<and> (case r of
      Inr _ \<Rightarrow> spec_op bytes T (Remove p t n k u) (store_view w) = Some (store_view w')
    | Inl _ \<Rightarrow> spec_op bytes T (Remove p t n k u) (store_view w) = None \<and> store_view w' = store_view w)"
proof (cases "List.find (collection_at p t n) (storage_collections (db w))")
  case None
  then show ?thesis
    using run ok by (auto simp: delete_document_def svc_simps store_view_at)
next
  case (Some c)
  note c = find_collection [OF Some]
  have view: "store_view w (p, t, n) = Some (collection_view (storage_documents (db w)) c)"
    by (simp add: store_view_at Some)
  show ?thesis
  proof (cases "List.find (document_at p t (StorageCollection_id c) k) (storage_documents (db w))")
    case None
    have "r = Inr ()" "w' = w"
      using run by (simp_all add: delete_document_def svc_simps Some None)
    moreover have "(store_view w)((p, t, n) \<mapsto> collection_view (storage_documents (db w)) c) = store_view w"
      using view by (simp add: fun_upd_idem)
    moreover have "(snd (collection_view (storage_documents (db w)) c))(k := None) = snd (collection_view (storage_documents (db w)) c)"
      using None c by (simp add: collection_view_def fun_upd_idem)
    ultimately show ?thesis
      using ok view by (simp add: collection_view_def)
  next
    case doc: (Some d)
    have ok': "distinct (map StorageDocument_id (storage_documents (db w)))" "keyed document_clash (storage_documents (db w))"
      using ok by (simp_all add: storage_ok_def)
    let ?v = "w\<lparr>db := storage_documents_update (filter (\<lambda>x. StorageDocument_id x \<noteq> StorageDocument_id d)) (db w)\<rparr>"
    obtain a where w': "r = Inr ()" "w' = audited a ?v"
      using run by (simp add: delete_document_def svc_simps Some doc) (elim conjE, rule that, (erule sym)+)
    have "store_view ?v = (store_view w)((p, t, n) \<mapsto> (StorageCollection_default_ttl_seconds c,
           (snd (the (store_view w (p, t, n))))(k := map_option entry_of None)))"
      by (rule store_view_entry [OF ok Some]) (auto simp: find_document_delete [OF doc ok'])
    moreover have "storage_ok w'"
      unfolding w'(2) by (rule storage_ok_audited [OF storage_ok_delete [OF ok]])
    ultimately show ?thesis
      using view by (simp add: w' collection_view_def)
  qed
qed

lemma storage_ok_new_collection:
  assumes "storage_ok w"
  shows "storage_ok (w\<lparr>draw_no := Suc (draw_no w), db := storage_collections_update
     (\<lambda>rs. rs @ [c\<lparr>StorageCollection_id := draws w (draw_no w)\<rparr>]) (db w)\<rparr>)" (is "storage_ok ?w")
proof -
  have d: "drawn ?w = insert (draws w (draw_no w)) (drawn w)"
    using drawn_step [of w] by (simp add: drawn_def)
  have "draws w (draw_no w) \<notin> StorageCollection_id ` set (storage_collections (db w))"
    using assms fresh_not_drawn [of w] by (auto simp: storage_ok_def)
  then show ?thesis
    using assms unfolding storage_ok_def d by (auto simp: fresh_ids_def)
qed

lemma create_refines:
  assumes ok: "storage_ok w" and run: "create_collection p t n x ttl u w = (r, w')"
  shows "storage_ok w' \<and> (case r of
      Inr _ \<Rightarrow> spec_op bytes T (Create p t n x ttl u) (store_view w) = Some (store_view w')
    | Inl _ \<Rightarrow> spec_op bytes T (Create p t n x ttl u) (store_view w) = None \<and> store_view w' = store_view w)"
proof (cases "List.find (collection_at p t n) (storage_collections (db w))")
  case (Some c)
  then have "r = Inr c" "w' = w"
    using run by (simp_all add: create_collection_def svc_simps)
  then show ?thesis using ok Some by (simp add: store_view_at)
next
  case None
  let ?c = "\<lparr>StorageCollection_id = draws w (draw_no w), StorageCollection_product_id = p, StorageCollection_tenant_id = t,
           StorageCollection_name = n, StorageCollection_default_ttl_seconds = ttl, StorageCollection_description = x\<rparr>"
  let ?v = "w\<lparr>draw_no := Suc (draw_no w), db := storage_collections_update (\<lambda>rs. rs @ [?c]) (db w)\<rparr>"
  have free: "\<forall>y \<in> set (storage_collections (db w)). \<not> collection_clash y ?c"
    using find_NoneD [OF None] by (auto simp: collection_clash_def collection_at_def)
  then obtain a where w': "r = Inr ?c" "w' = audited a ?v"
    using run by (simp add: create_collection_def attempt_apply svc_simps None Let_def) (elim conjE, rule that, (erule sym)+)
  have "storage_ok w'"
    unfolding w'(2) using storage_ok_audited [OF storage_ok_new_collection [OF ok, of ?c]] by simp
  moreover have "store_view ?v = (store_view w)((p, t, n) \<mapsto> (ttl, Map.empty))"
  proof
    fix a :: "uuid \<times> uuid \<times> string"
    obtain q s m where a: "a = (q, s, m)" by (cases a)
    have "document_at p t (draws w (draw_no w)) k d \<Longrightarrow> d \<notin> set (storage_documents (db w))" for k d
      using ok fresh_not_drawn [of w] by (auto simp: storage_ok_def document_at_def)
    then have "List.find (document_at p t (draws w (draw_no w)) k) (storage_documents (db w)) = None" for k
      by (auto simp: find_None_iff_all)
    then show "store_view ?v a = ((store_view w)((p, t, n) \<mapsto> (ttl, Map.empty))) a"
      using None by (auto simp: a store_view_at find_append collection_at_def collection_view_def split: option.splits)
  qed
  ultimately show ?thesis
    using None by (simp add: w' store_view_at)
qed

text \<open>C39: The document store is a map. Seen through its view (a collection's default lifetime, and
  for every key the value, its version and its expiry), each operation does exactly what it does to
  the map: a put refuses an empty key, a value over a megabyte, a missing collection and a version
  that is not the stored one, and otherwise binds the key with the next version and its expiry; a
  delete unbinds the key; a create adds an empty collection or leaves the one there. A refused operation
  changes nothing, no other tenant, collection or key is touched, and keys and identifiers stay unique.\<close>

theorem storage_refines_map:
  assumes "storage_ok w" and "run_op op w = (r, w')"
  shows "storage_ok w' \<and> (case r of
      Inr _ \<Rightarrow> spec_op (json_size (lib w)) (now w) op (store_view w) = Some (store_view w')
    | Inl _ \<Rightarrow> spec_op (json_size (lib w)) (now w) op (store_view w) = None \<and> store_view w' = store_view w)"
proof (cases op)
  case (Create p t n x ttl u)
  obtain s v where c: "create_collection p t n x ttl u w = (s, v)" by (cases "create_collection p t n x ttl u w")
  then have "w' = v" "isl r = isl s"
    using assms(2) by (auto simp: run_op_def Create svc_simps split: sum.splits)
  then show ?thesis
    using create_refines [OF assms(1) c] Create by (cases r; cases s) (auto simp del: spec_op.simps)
next
  case (Put a)
  obtain s v where c: "put_document a w = (s, v)" by (cases "put_document a w")
  then have "w' = v" "isl r = isl s"
    using assms(2) by (auto simp: run_op_def Put svc_simps split: sum.splits)
  then show ?thesis
    using put_refines [OF assms(1) c] Put by (cases r; cases s) (auto simp del: spec_op.simps)
next
  case (Remove p t n k u)
  then have "delete_document p t n k u w = (r, w')"
    using assms(2) by (simp add: run_op_def)
  then show ?thesis
    unfolding Remove by (rule delete_refines [OF assms(1)])
qed

definition sample_collection :: StorageCollection where
  "sample_collection = \<lparr>StorageCollection_id = 1, StorageCollection_product_id = 70, StorageCollection_tenant_id = 71,
     StorageCollection_name = ''notes'', StorageCollection_default_ttl_seconds = 0, StorageCollection_description = None\<rparr>"

definition sample_document :: StorageDocument where
  "sample_document = \<lparr>StorageDocument_id = 2, StorageDocument_product_id = 70, StorageDocument_tenant_id = 71,
     StorageDocument_collection_id = 1, StorageDocument_key = ''a'', StorageDocument_value = [(''x'', JInt 1)],
     StorageDocument_version = 4, StorageDocument_expires_at = None, StorageDocument_updated_at = 0\<rparr>"

definition sample_store :: world where
  "sample_store = sample_world\<lparr>draw_no := 2, db := empty_db\<lparr>storage_collections := [sample_collection],
     storage_documents := [sample_document]\<rparr>\<rparr>"

definition sample_put :: "int \<Rightarrow> put_args" where
  "sample_put x = \<lparr>p_product_id = 70, p_tenant_id = 71, p_collection = ''notes'', p_key = ''a'', p_value = [(''x'', JInt x)],
     p_ttl_seconds = Some 60, p_if_version = Some 4, p_actor_user_id = None\<rparr>"

lemma sample_store_ok: "storage_ok sample_store"
  by (simp add: storage_ok_def sample_store_def drawn_def sample_collection_def sample_document_def keyed_def
      fresh_ids_def sample_world_def NIL_def lessThan_Suc numeral_eq_Suc)

lemmas sample_store_simps = sample_store_def sample_collection_def sample_document_def sample_world_def empty_db_def

lemma sample_put_read: "put_read (sample_put i) sample_store = (Inr (sample_collection, Some sample_document), sample_store)"
  by (simp add: put_read_def measure_value_def MAX_VALUE_BYTES_def sample_put_def sample_store_simps sample_lib_def
      collection_at_def document_at_def svc_simps)

theorem storage_refines_map_witness:
  "\<exists>w'. run_op (Put (sample_put 9)) sample_store = (Inr (), w') \<and> storage_ok w' \<and>
     spec_op (json_size sample_lib) (seconds 1000) (Put (sample_put 9)) (store_view sample_store) = Some (store_view w')"
proof -
  obtain d w' where "put_write (sample_put 9) (sample_collection, Some sample_document) sample_store = (Inr d, w')"
    using put_write_returns [OF sample_store_ok put_read_returns(4,5) [OF sample_put_read]] by blast
  then have run: "run_op (Put (sample_put 9)) sample_store = (Inr (), w')"
    by (simp add: run_op_def put_document_def bindS_apply sample_put_read ret_apply)
  have "lib sample_store = sample_lib" "now sample_store = seconds 1000" by (simp_all add: sample_store_simps)
  then show ?thesis
    using storage_refines_map [OF sample_store_ok run] run by (simp del: spec_op.simps)
qed


section \<open>Reads, and what the version guards\<close>

text \<open>Reading a key is reading the row; an expired row is refused.\<close>

lemma get_document_apply:
  assumes "List.find (collection_at p t n) (storage_collections (db w)) = Some c"
    and "List.find (document_at p t (StorageCollection_id c) k) (storage_documents (db w)) = Some d"
  shows "get_document p t n k w =
    ((case StorageDocument_expires_at d of Some e \<Rightarrow> if e \<le> now w then Inl (NotFound ''key expired'') else Inr d | None \<Rightarrow> Inr d), w)"
  using assms by (simp add: get_document_def svc_simps split: option.splits)

lemma put_document_returns:
  assumes "storage_ok w" and "put_document a w = (Inr d, w')"
  obtains c doc where "put_read a w = (Inr (c, doc), w)" "put_write a (c, doc) w = (Inr d, w')"
proof -
  obtain x where read: "put_read a w = (Inr x, snd (put_read a w))" and wr: "put_write a x (snd (put_read a w)) = (Inr d, w')"
    using assms(2) by (auto simp: put_document_def bindS_Inr_iff)
  obtain c doc where x: "x = (c, doc)" by (cases x)
  have "snd (put_read a w) = w" by (rule put_read_returns(1)) (use read x in simp)
  then show ?thesis using that [of c doc] read wr x by simp
qed

text \<open>A stored value is read back. After a put that returned, the key reads as the document the
  put returned, with the value that was given, until the instant it expires; from that instant on it
  is not found. The lifetime is the one the call names, where it names one: that many seconds from the
  write, and no expiry at all for zero or less.\<close>

lemma put_get_roundtrip:
  assumes "storage_ok w" and "put_document a w = (Inr d, w')"
  shows "StorageDocument_value d = p_value a \<and>
    (\<forall>n \<in> set_option (p_ttl_seconds a).
       StorageDocument_expires_at d = (if n \<le> 0 then None else Some (now w + seconds n))) \<and>
    fst (get_document (p_product_id a) (p_tenant_id a) (p_collection a) (p_key a) (w'\<lparr>now := t\<rparr>)) =
      (case StorageDocument_expires_at d of
         Some e \<Rightarrow> if e \<le> t then Inl (NotFound ''key expired'') else Inr d
       | None \<Rightarrow> Inr d)"
proof -
  obtain c doc where read: "put_read a w = (Inr (c, doc), w)" and wr: "put_write a (c, doc) w = (Inr d, w')"
    by (rule put_document_returns [OF assms])
  note r = put_read_returns [OF read]
  obtain u x where u: "put_write a (c, doc) w = (Inr x, u)"
    "storage_collections (db u) = storage_collections (db w)"
    "entry_of x = (p_value a, (case doc of None \<Rightarrow> 1 | Some x \<Rightarrow> StorageDocument_version x + 1),
      document_expires_at (p_ttl_seconds a) (StorageCollection_default_ttl_seconds c) (now w))"
    "List.find (document_at (p_product_id a) (p_tenant_id a) (StorageCollection_id c) (p_key a)) (storage_documents (db u)) = Some x"
    using put_write_returns [OF assms(1) r(4,5)] by auto
  have x: "x = d" "u = w'" using wr u(1) by simp_all
  show ?thesis
    using u(2-4) [unfolded x] r(4) get_document_apply [of _ _ _ "w'\<lparr>now := t\<rparr>" c]
    by (auto simp: entry_of_def document_expires_at_def Let_def)
qed

lemma put_get_roundtrip_witness:
  "\<exists>d w'. put_document (sample_put 9) sample_store = (Inr d, w') \<and> StorageDocument_value d = [(''x'', JInt 9)] \<and>
     fst (get_document 70 71 ''notes'' ''a'' (w'\<lparr>now := seconds 1059\<rparr>)) = Inr d \<and>
     fst (get_document 70 71 ''notes'' ''a'' (w'\<lparr>now := seconds 1060\<rparr>)) = Inl (NotFound ''key expired'')"
proof -
  obtain d w' where "put_write (sample_put 9) (sample_collection, Some sample_document) sample_store = (Inr d, w')"
    using put_write_returns [OF sample_store_ok put_read_returns(4,5) [OF sample_put_read]] by blast
  then have run: "put_document (sample_put 9) sample_store = (Inr d, w')"
    by (simp add: put_document_def bindS_apply sample_put_read)
  have "now sample_store = seconds 1000" by (simp add: sample_store_simps)
  then show ?thesis
    using put_get_roundtrip [OF sample_store_ok run, of "seconds 1059"] put_get_roundtrip [OF sample_store_ok run, of "seconds 1060"] run
    by (simp add: sample_put_def seconds_def)
qed

text \<open>A write of an update touches the row by its identifier, whatever has become of it since it was read.\<close>

lemma stale_write:
  assumes ok: "storage_ok w"
    and c: "List.find (collection_at p t n) (storage_collections (db w)) = Some c"
    and d: "List.find (document_at p t (StorageCollection_id c) k) (storage_documents (db w)) = Some d"
    and x: "StorageDocument_id x = StorageDocument_id d"
  shows "\<exists>w'. put_write a (c, Some x) w = (Inr (overwrite a c (StorageDocument_version x + 1) (now w) x), w') \<and>
    storage_ok w' \<and> storage_collections (db w') = storage_collections (db w) \<and> lib w' = lib w \<and>
    List.find (document_at p t (StorageCollection_id c) k) (storage_documents (db w')) =
      Some (overwrite a c (StorageDocument_version x + 1) (now w) d) \<and>
    store_view w' = (store_view w)((p, t, n) \<mapsto> (StorageCollection_default_ttl_seconds c,
      (snd (the (store_view w (p, t, n))))(k \<mapsto> entry_of (overwrite a c (StorageDocument_version x + 1) (now w) x))))"
proof -
  let ?f = "overwrite a c (StorageDocument_version x + 1) (now w)"
  let ?v = "w\<lparr>db := storage_documents_update (map_rows (\<lambda>y. StorageDocument_id y = StorageDocument_id d) ?f) (db w)\<rparr>"
  have ids: "distinct (map StorageDocument_id (storage_documents (db w)))" using ok by (simp add: storage_ok_def)
  have run: "put_write a (c, Some x) w = (Inr (?f x), audited (put_audit ''storage.update'' a (?f x)) ?v)"
    by (simp add: put_write_def svc_simps Let_def x)
  note find = find_document_update [OF d ids, where f = ?f, OF document_at_simps(1)]
  have "store_view ?v = (store_view w)((p, t, n) \<mapsto> (StorageCollection_default_ttl_seconds c,
      (snd (the (store_view w (p, t, n))))(k := map_option entry_of (Some (?f d)))))"
    by (rule store_view_entry [OF ok c]) (auto simp: find)
  then show ?thesis
    using storage_ok_audited [OF storage_ok_overwrite [OF ok]] find by (simp add: run)
qed

text \<open>The version does not guard against writers that overlap. Two puts that name the current
  version and both read before either has written both succeed: both answer with the same next version,
  and what the key then reads is the second value, so the first caller's write is gone although it was
  acknowledged. Run one after the other, the second is refused with a conflict.\<close>

lemma storage_lost_update:
  assumes ok: "storage_ok w" and a: "put_read a w = (Inr (c, Some x), w)" and b: "put_read b w = (Inr (c, Some x), w)"
    and same: "p_product_id b = p_product_id a" "p_tenant_id b = p_tenant_id a" "p_collection b = p_collection a" "p_key b = p_key a"
    and versions: "p_if_version a = Some v" "p_if_version b = Some v"
  shows "\<exists>d w' d' w''. put_write a (c, Some x) w = (Inr d, w') \<and> put_write b (c, Some x) w' = (Inr d', w'') \<and>
    StorageDocument_version d = v + 1 \<and> StorageDocument_version d' = v + 1 \<and>
    store_view w'' = (store_view w)((p_product_id a, p_tenant_id a, p_collection a) \<mapsto> (StorageCollection_default_ttl_seconds c,
      (snd (the (store_view w (p_product_id a, p_tenant_id a, p_collection a))))(p_key a \<mapsto> entry_of d'))) \<and>
    StorageDocument_value d' = p_value b \<and> fst (put_document b w') = Inl (Conflict ''version mismatch'')"
proof -
  note ra = put_read_returns(4-6) [OF a] and rb = put_read_returns(6) [OF b]
  have v: "StorageDocument_version x = v" using ra(3) versions by simp
  let ?d = "overwrite a c (v + 1) (now w) x"
  obtain w' where w': "put_write a (c, Some x) w = (Inr ?d, w')" "storage_ok w'"
      "storage_collections (db w') = storage_collections (db w)" "lib w' = lib w"
      "List.find (document_at (p_product_id a) (p_tenant_id a) (StorageCollection_id c) (p_key a)) (storage_documents (db w')) = Some ?d"
      "store_view w' = (store_view w)((p_product_id a, p_tenant_id a, p_collection a) \<mapsto> (StorageCollection_default_ttl_seconds c,
        (snd (the (store_view w (p_product_id a, p_tenant_id a, p_collection a))))(p_key a \<mapsto> entry_of ?d)))"
    using stale_write [OF ok ra(1,2) refl] unfolding v by blast
  have c': "List.find (collection_at (p_product_id a) (p_tenant_id a) (p_collection a)) (storage_collections (db w')) = Some c"
    using ra(1) w'(3) by simp
  let ?d' = "overwrite b c (v + 1) (now w') x"
  obtain w'' where w'': "put_write b (c, Some x) w' = (Inr ?d', w'')"
      "store_view w'' = (store_view w')((p_product_id a, p_tenant_id a, p_collection a) \<mapsto> (StorageCollection_default_ttl_seconds c,
        (snd (the (store_view w' (p_product_id a, p_tenant_id a, p_collection a))))(p_key a \<mapsto> entry_of ?d')))"
    using stale_write [OF w'(2) c' w'(5), of x b] unfolding v by auto
  have "StorageDocument_version ?d = v + 1" "StorageDocument_version ?d' = v + 1" "StorageDocument_value ?d' = p_value b"
    by (simp_all add: overwrite_def)
  moreover have "put_read b w' = (Inl (Conflict ''version mismatch''), w')"
    using put_read_returns(2,3) [OF b] c' w'(5) same versions
    by (simp add: put_read_def measure_value_def svc_simps w'(4) overwrite_def)
  ultimately show ?thesis
    using w'(1) w''(1) w''(2) [unfolded w'(6)]
    by (intro exI [of _ ?d] exI [of _ w'] exI [of _ ?d'] exI [of _ w'']) (simp add: put_document_def bindS_apply)
qed

lemma storage_lost_update_witness:
  "\<exists>d w' d' w''. put_write (sample_put 9) (sample_collection, Some sample_document) sample_store = (Inr d, w') \<and>
     put_write (sample_put 8) (sample_collection, Some sample_document) w' = (Inr d', w'') \<and>
     StorageDocument_version d = 5 \<and> StorageDocument_version d' = 5 \<and> StorageDocument_value d' = [(''x'', JInt 8)]"
proof -
  have p: "p_product_id (sample_put i) = 70" "p_tenant_id (sample_put i) = 71" "p_collection (sample_put i) = ''notes''"
    "p_key (sample_put i) = ''a''" "p_if_version (sample_put i) = Some 4" "p_value (sample_put i) = [(''x'', JInt i)]" for i
    by (simp_all add: sample_put_def)
  have same: "p_product_id (sample_put 8) = p_product_id (sample_put 9)" "p_tenant_id (sample_put 8) = p_tenant_id (sample_put 9)"
      "p_collection (sample_put 8) = p_collection (sample_put 9)" "p_key (sample_put 8) = p_key (sample_put 9)"
    by (simp_all add: p)
  obtain d w' d' w'' where "put_write (sample_put 9) (sample_collection, Some sample_document) sample_store = (Inr d, w')"
      "put_write (sample_put 8) (sample_collection, Some sample_document) w' = (Inr d', w'')"
      "StorageDocument_version d = 4 + 1" "StorageDocument_version d' = 4 + 1" "StorageDocument_value d' = p_value (sample_put 8)"
    using storage_lost_update [OF sample_store_ok sample_put_read [of 9] sample_put_read [of 8] same p(5) p(5)]
    by (elim exE conjE) (rule that)
  then show ?thesis
    by (intro exI [of _ d] exI [of _ w'] exI [of _ d'] exI [of _ w'']) (simp add: p)
qed


text \<open>The prefix of a listing is a pattern: an underscore in it stands for any character, so a listing
  by the prefix \<^verbatim>\<open>a_\<close> also answers keys that do not start with it.\<close>

lemma like_prefix_unescaped: "like (''a_'' @ ''%'') ''abc''" "take 2 ''abc'' \<noteq> ''a_''"
  by simp_all

text \<open>A listing keeps rows that have expired, which a read of the same key refuses.\<close>

lemma list_documents_expired:
  "fst (list_documents 70 71 ''notes'' None None 100 (sample_store\<lparr>db := (db sample_store)\<lparr>storage_documents :=
     [sample_document\<lparr>StorageDocument_expires_at := Some 0\<rparr>]\<rparr>\<rparr>)) =
     Inr [sample_document\<lparr>StorageDocument_expires_at := Some 0\<rparr>]"
  by (simp add: list_documents_def svc_simps sample_store_simps collection_at_def)

end
