(* ===== verification/EnvVault.thy ===== *)
theory EnvVault
  imports Dependencies
begin

text \<open>
  The vault of a product's environment variables and the exchange that uses it on the product's
  behalf: \<^verbatim>\<open>app/core/crypto.py\<close>, \<^verbatim>\<open>app/services/env_var.py\<close>,
  \<^verbatim>\<open>app/services/google_oauth.py\<close> and their routes
  (\<^verbatim>\<open>app/api/v1/env.py\<close>, \<^verbatim>\<open>env_admin.py\<close>, \<^verbatim>\<open>integrations.py\<close>).
  Texts are the bytes of their UTF-8 encoding.
\<close>

section \<open>Encryption at rest\<close>

definition NONCE_LEN :: nat where
  "NONCE_LEN = 12"

text \<open>\<^verbatim>\<open>LocalKeyProvider.key\<close>; \<open>b64\<close> is \<^verbatim>\<open>base64.urlsafe_b64decode\<close>, \<open>None\<close> its
  \<^verbatim>\<open>ValueError\<close>.\<close>

definition local_key :: "(string \<Rightarrow> string option) \<Rightarrow> string \<Rightarrow> app_error + string" where
  "local_key b64 raw =
     (if raw = [] then Inl (CryptoConfigError ''ENV_ENCRYPTION_KEY not configured'')
      else case b64 (raw @ replicate ((4 - length raw mod 4) mod 4) (CHR ''='')) of
        None \<Rightarrow> Inl (CryptoConfigError ''ENV_ENCRYPTION_KEY is not valid base64'')
      | Some decoded \<Rightarrow>
          if length decoded \<noteq> 32 then Inl (CryptoConfigError ''ENV_ENCRYPTION_KEY must decode to 32 bytes'')
          else Inr decoded)"

text \<open>\<^verbatim>\<open>os.urandom(n)\<close> as a function of the random draw.\<close>

fun urandom :: "nat \<Rightarrow> nat \<Rightarrow> string" where
  "urandom 0 d = []"
| "urandom (Suc n) d = urandom n (d div 256) @ [char_of (d mod 256)]"

definition encrypt :: "string \<Rightarrow> string \<Rightarrow> string service" where
  "encrypt plaintext aad =
     bindS (gets (\<lambda>w. env_key (lib w))) (\<lambda>k.
     bindS (liftE k) (\<lambda>key.
     bindS fresh (\<lambda>d.
     let nonce = urandom NONCE_LEN d in
     gets (\<lambda>w. nonce @ aes_encrypt (lib w) key nonce plaintext aad))))"

definition decrypt :: "libs \<Rightarrow> string \<Rightarrow> string \<Rightarrow> app_error + string" where
  "decrypt L blob aad =
     (if length blob < NONCE_LEN + 16 then Inl (ValueError ''ciphertext too short'')
      else case env_key L of
        Inl e \<Rightarrow> Inl e
      | Inr key \<Rightarrow>
          (case aes_decrypt L key (take NONCE_LEN blob) (drop NONCE_LEN blob) aad of
             None \<Rightarrow> Inl (ValueError ''ciphertext authentication failed'')
           | Some p \<Rightarrow> Inr p))"

definition aad_for :: "uuid \<Rightarrow> string \<Rightarrow> string" where
  "aad_for product_id key = uuid_str product_id @ ''|'' @ key"

text \<open>The bullet and the ellipsis, in UTF-8.\<close>

definition BULLET :: string where
  "BULLET = map char_of [226, 128, 162 :: nat]"

definition ELLIPSIS :: string where
  "ELLIPSIS = map char_of [226, 128, 166 :: nat]"

definition mask_preview :: "string \<Rightarrow> string" where
  "mask_preview plaintext =
     (if length plaintext \<le> 8 then concat (replicate (min (length plaintext) 8) BULLET)
      else take 4 plaintext @ ELLIPSIS @ drop (length plaintext - 4) plaintext)"

text \<open>What the code relies on about AES-GCM: decryption inverts encryption under the same associated
  data and refuses any other, and a ciphertext is at least as long as its tag.\<close>

definition vault_libs_ok :: "libs \<Rightarrow> bool" where
  "vault_libs_ok L \<longleftrightarrow> (\<forall>k n p a b. length n = NONCE_LEN \<longrightarrow>
     aes_decrypt L k n (aes_encrypt L k n p a) b = (if a = b then Some p else None) \<and>
     16 \<le> length (aes_encrypt L k n p a))"


section \<open>The variables of a product\<close>

text \<open>A match of \<^verbatim>\<open>^GOOGLE_(.*_)?CLIENT_SECRET$\<close>: the middle part is empty or ends in an
  underscore and has no line break, and one line break may follow.\<close>

definition google_secret_body :: "string \<Rightarrow> bool" where
  "google_secret_body key \<longleftrightarrow> take 7 key = ''GOOGLE_'' \<and>
     (let rest = drop 7 key; mid = take (length rest - 13) rest
      in 13 \<le> length rest \<and> drop (length rest - 13) rest = ''CLIENT_SECRET'' \<and>
         CHR 10 \<notin> set mid \<and> (mid = [] \<or> last mid = CHR ''_''))"

definition is_server_only :: "string \<Rightarrow> bool" where
  "is_server_only key \<longleftrightarrow> google_secret_body key \<or>
     (key \<noteq> [] \<and> last key = CHR 10 \<and> google_secret_body (butlast key))"

definition env_var_clash :: "ProductEnvVar \<Rightarrow> ProductEnvVar \<Rightarrow> bool" where
  "env_var_clash x y \<longleftrightarrow> ProductEnvVar_product_id x = ProductEnvVar_product_id y \<and> ProductEnvVar_key x = ProductEnvVar_key y"

definition env_var_at :: "uuid \<Rightarrow> string \<Rightarrow> ProductEnvVar \<Rightarrow> bool" where
  "env_var_at product_id key r \<longleftrightarrow> ProductEnvVar_product_id r = product_id \<and> ProductEnvVar_key r = key"

definition stored_value :: "uuid \<Rightarrow> string \<Rightarrow> string \<Rightarrow> bool \<Rightarrow> string service" where
  "stored_value product_id key v is_secret = (if is_secret then encrypt v (aad_for product_id key) else ret v)"

definition env_var_audit :: "string \<Rightarrow> uuid \<Rightarrow> string \<Rightarrow> bool \<Rightarrow> uuid option \<Rightarrow> uuid \<Rightarrow> audit_args" where
  "env_var_audit action product_id key is_secret actor_user_id i = (act action)\<lparr>a_actor_user_id := actor_user_id,
     a_resource_type := Some ''env_var'', a_resource_id := Some i, a_product_id := Some product_id,
     a_diff := [(''key'', JStr key), (''is_secret'', JBool is_secret), (''value_present'', JBool True)]\<rparr>"

text \<open>The attributes a rotation assigns.\<close>

definition rotate :: "string \<Rightarrow> bool \<Rightarrow> string option \<Rightarrow> time \<Rightarrow> ProductEnvVar \<Rightarrow> ProductEnvVar" where
  "rotate stored is_secret description t r = r\<lparr>ProductEnvVar_value_encrypted := stored,
     ProductEnvVar_is_secret := is_secret,
     ProductEnvVar_description := or_else description (ProductEnvVar_description r),
     ProductEnvVar_last_rotated_at := t\<rparr>"

definition set_var :: "uuid \<Rightarrow> string \<Rightarrow> string \<Rightarrow> bool \<Rightarrow> string option \<Rightarrow> uuid option \<Rightarrow> ProductEnvVar service" where
  "set_var product_id key v is_secret description actor_user_id =
     bindS (stored_value product_id key v is_secret) (\<lambda>stored.
     bindS (gets now) (\<lambda>t.
     bindS (scalar product_env_vars (env_var_at product_id key)) (\<lambda>row.
     case row of
       None \<Rightarrow>
         bindS fresh (\<lambda>i.
         let r = \<lparr>ProductEnvVar_id = i, ProductEnvVar_product_id = product_id, ProductEnvVar_key = key,
               ProductEnvVar_value_encrypted = stored, ProductEnvVar_is_secret = is_secret,
               ProductEnvVar_description = description, ProductEnvVar_last_rotated_at = t\<rparr>
         in
         bindS (insert_row product_env_vars product_env_vars_update env_var_clash r) (\<lambda>_.
         bindS (record_audit (env_var_audit ''env.var_created'' product_id key is_secret actor_user_id i)) (\<lambda>_.
         ret r)))
     | Some r \<Rightarrow>
         bindS (update_rows product_env_vars_update (\<lambda>x. ProductEnvVar_id x = ProductEnvVar_id r)
           (rotate stored is_secret description t)) (\<lambda>_.
         bindS (record_audit (env_var_audit ''env.var_rotated'' product_id key is_secret actor_user_id (ProductEnvVar_id r))) (\<lambda>_.
         ret (rotate stored is_secret description t r))))))"

definition list_vars :: "uuid \<Rightarrow> ProductEnvVar list service" where
  "list_vars product_id =
     bindS (scalars product_env_vars (\<lambda>r. ProductEnvVar_product_id r = product_id)) (\<lambda>rs.
     ret (order_by ProductEnvVar_key rs))"

definition get_var :: "uuid \<Rightarrow> string \<Rightarrow> ProductEnvVar service" where
  "get_var product_id key =
     bindS (scalar product_env_vars (env_var_at product_id key)) (\<lambda>row.
     case row of None \<Rightarrow> raise (NotFound ''env var not found in product'') | Some r \<Rightarrow> ret r)"

definition reveal :: "libs \<Rightarrow> ProductEnvVar \<Rightarrow> app_error + string" where
  "reveal L row =
     (if \<not> ProductEnvVar_is_secret row then Inr (ProductEnvVar_value_encrypted row)
      else decrypt L (ProductEnvVar_value_encrypted row) (aad_for (ProductEnvVar_product_id row) (ProductEnvVar_key row)))"

definition preview :: "libs \<Rightarrow> ProductEnvVar \<Rightarrow> string option" where
  "preview L row =
     (if \<not> ProductEnvVar_is_secret row then None
      else case reveal L row of Inl _ \<Rightarrow> Some ''<decryption-failed>'' | Inr p \<Rightarrow> Some (mask_preview p))"

definition delete_var :: "uuid \<Rightarrow> string \<Rightarrow> uuid option \<Rightarrow> unit service" where
  "delete_var product_id key actor_user_id =
     bindS (get_var product_id key) (\<lambda>row.
     bindS (delete_rows product_env_vars_update (\<lambda>x. ProductEnvVar_id x = ProductEnvVar_id row)) (\<lambda>_.
     record_audit ((act ''env.var_deleted'')\<lparr>a_actor_user_id := actor_user_id, a_resource_type := Some ''env_var'',
       a_resource_id := Some (ProductEnvVar_id row), a_product_id := Some product_id, a_diff := [(''key'', JStr key)]\<rparr>)))"

definition record_reveal :: "uuid \<Rightarrow> string \<Rightarrow> uuid option \<Rightarrow> string \<Rightarrow> string option \<Rightarrow> unit service" where
  "record_reveal product_id key actor_user_id reason ip_address =
     record_audit ((act ''env.var_revealed'')\<lparr>a_actor_user_id := actor_user_id, a_actor_ip := ip_address,
       a_resource_type := Some ''env_var'', a_product_id := Some product_id,
       a_diff := [(''key'', JStr key), (''reason'', JStr reason)]\<rparr>)"

definition get_value_or_default :: "uuid \<Rightarrow> string \<Rightarrow> string \<Rightarrow> string service" where
  "get_value_or_default product_id key dflt =
     bindS (scalar product_env_vars (env_var_at product_id key)) (\<lambda>row.
     case row of None \<Rightarrow> ret dflt | Some r \<Rightarrow> bindS (gets (\<lambda>w. reveal (lib w) r)) liftE)"


section \<open>Routes\<close>

text \<open>\<^verbatim>\<open>GET /env\<close>: all values of the product of the token, less the server-only ones.\<close>

definition revealed :: "ProductEnvVar list \<Rightarrow> (string \<times> string) list service" where
  "revealed rs = mapS rs (\<lambda>r. bindS (gets (\<lambda>w. reveal (lib w) r)) (\<lambda>v. bindS (liftE v) (\<lambda>p. ret (ProductEnvVar_key r, p))))"

definition get_product_env :: "ProductServiceToken \<Rightarrow> (string \<times> string) list service" where
  "get_product_env token =
     bindS (list_vars (ProductServiceToken_product_id token)) (\<lambda>rows.
     revealed (filter (\<lambda>r. \<not> is_server_only (ProductEnvVar_key r)) rows))"

record EnvVarListItem =
  ev_key :: string
  ev_is_secret :: bool
  ev_description :: "string option"
  ev_last_rotated_at :: time
  ev_preview :: "string option"
  ev_value :: "string option"
  ev_is_server_only :: bool

definition env_var_item :: "ProductEnvVar \<Rightarrow> EnvVarListItem service" where
  "env_var_item r =
     bindS (gets (\<lambda>w. reveal (lib w) r)) (\<lambda>v.
     bindS (gets (\<lambda>w. preview (lib w) r)) (\<lambda>p.
     bindS (if ProductEnvVar_is_secret r then ret None else bindS (liftE v) (\<lambda>x. ret (Some x))) (\<lambda>shown.
     ret \<lparr>ev_key = ProductEnvVar_key r, ev_is_secret = ProductEnvVar_is_secret r,
          ev_description = ProductEnvVar_description r, ev_last_rotated_at = ProductEnvVar_last_rotated_at r,
          ev_preview = (if ProductEnvVar_is_secret r then p else None), ev_value = shown,
          ev_is_server_only = is_server_only (ProductEnvVar_key r)\<rparr>)))"

definition list_env_vars :: "string \<Rightarrow> EnvVarListItem list service" where
  "list_env_vars slug =
     bindS (resolve_product_slug slug) (\<lambda>pid.
     bindS (list_vars pid) (\<lambda>rows. mapS rows env_var_item))"

definition set_env_var :: "string \<Rightarrow> string \<Rightarrow> string \<Rightarrow> bool \<Rightarrow> string option \<Rightarrow> EnvVarListItem service" where
  "set_env_var slug key v is_secret description =
     bindS (resolve_product_slug slug) (\<lambda>pid.
     bindS (set_var pid key v is_secret description None) env_var_item)"

text \<open>A patch with an explicit null for \<^verbatim>\<open>is_secret\<close> violates the NOT NULL of the column
  once the value has been revealed.\<close>

definition patch_env_var :: "string \<Rightarrow> string \<Rightarrow> bool patch \<Rightarrow> string patch \<Rightarrow> EnvVarListItem service" where
  "patch_env_var slug key is_secret description =
     bindS (resolve_product_slug slug) (\<lambda>pid.
     bindS (get_var pid key) (\<lambda>row.
     if is_secret = Unset \<and> description = Unset then raise (ValidationFailed ''no fields to patch'')
     else
     bindS (case is_secret of
         Unset \<Rightarrow>
           bindS (update_rows product_env_vars_update (\<lambda>x. ProductEnvVar_id x = ProductEnvVar_id row)
             (\<lambda>x. x\<lparr>ProductEnvVar_description := patch_option description None\<rparr>)) (\<lambda>_.
           ret (row\<lparr>ProductEnvVar_description := patch_option description None\<rparr>))
       | Null \<Rightarrow> bindS (gets (\<lambda>w. reveal (lib w) row)) (\<lambda>v. bindS (liftE v) (\<lambda>_. raise IntegrityError))
       | Given s \<Rightarrow>
           bindS (gets (\<lambda>w. reveal (lib w) row)) (\<lambda>v.
           bindS (liftE v) (\<lambda>plaintext.
           set_var pid key plaintext s (patch_option description (ProductEnvVar_description row)) None))) env_var_item))"

definition reveal_env_var :: "string \<Rightarrow> string \<Rightarrow> bool \<Rightarrow> string option \<Rightarrow> string option \<Rightarrow> (ProductEnvVar \<times> string) service" where
  "reveal_env_var slug key reveal_flag reason client_ip =
     (if \<not> reveal_flag then raise (ValidationFailed ''pass ?reveal=true&reason=... to reveal the value'')
      else if \<not> truthy reason then raise (ValidationFailed ''reason is required when revealing'')
      else
      bindS (resolve_product_slug slug) (\<lambda>pid.
      bindS (get_var pid key) (\<lambda>row.
      bindS (gets (\<lambda>w. reveal (lib w) row)) (\<lambda>v.
      bindS (liftE v) (\<lambda>plaintext.
      bindS (record_reveal pid key None (the reason) client_ip) (\<lambda>_.
      ret (row, plaintext)))))))"

definition delete_env_var :: "string \<Rightarrow> string \<Rightarrow> unit service" where
  "delete_env_var slug key = bindS (resolve_product_slug slug) (\<lambda>pid. delete_var pid key None)"


text \<open>The service tokens of the product in the path.\<close>

definition issue_service_token :: "string \<Rightarrow> string \<Rightarrow> string list \<Rightarrow> time option \<Rightarrow> (ProductServiceToken \<times> string) service" where
  "issue_service_token slug name scopes expires_at =
     bindS (resolve_product_slug slug) (\<lambda>pid. issue pid name scopes expires_at None)"

definition list_service_tokens :: "string \<Rightarrow> ProductServiceToken list service" where
  "list_service_tokens slug = bindS (resolve_product_slug slug) service_tokens_of"

definition revoke_service_token :: "string \<Rightarrow> uuid \<Rightarrow> unit service" where
  "revoke_service_token slug token_id =
     bindS (resolve_product_slug slug) (\<lambda>pid. bindS (revoke pid token_id None) (\<lambda>_. ret ()))"


section \<open>The exchange with Google\<close>

definition is_client_id_key :: "string \<Rightarrow> bool" where
  "is_client_id_key key \<longleftrightarrow> take 7 key = ''GOOGLE_'' \<and> 10 \<le> length key \<and> drop (length key - 10) key = ''_CLIENT_ID''"

definition secret_key_of :: "string \<Rightarrow> string" where
  "secret_key_of key = take (length key - 10) key @ ''_CLIENT_SECRET''"

text \<open>One candidate: the secret when the stored client identifier is the one asked for; any exception
  on the way passes on to the next candidate.\<close>

definition candidate_secret :: "uuid \<Rightarrow> string \<Rightarrow> string \<Rightarrow> string option service" where
  "candidate_secret product_id client_id id_key =
     tryS
       (bindS (get_var product_id id_key) (\<lambda>id_row.
        bindS (gets (\<lambda>w. reveal (lib w) id_row)) (\<lambda>v.
        bindS (liftE v) (\<lambda>i.
        if i \<noteq> client_id then ret None
        else
        bindS (get_var product_id (secret_key_of id_key)) (\<lambda>secret_row.
        bindS (gets (\<lambda>w. reveal (lib w) secret_row)) (\<lambda>s.
        bindS (liftE s) (\<lambda>p. ret (Some p))))))))
       (\<lambda>_. ret None)"

fun first_secret :: "uuid \<Rightarrow> string \<Rightarrow> string list \<Rightarrow> string service" where
  "first_secret product_id client_id [] = raise (ValidationFailed ''unknown client_id for this product'')"
| "first_secret product_id client_id (k # ks) =
     bindS (candidate_secret product_id client_id k) (\<lambda>found.
     case found of Some s \<Rightarrow> ret s | None \<Rightarrow> first_secret product_id client_id ks)"

definition find_client_secret :: "uuid \<Rightarrow> string \<Rightarrow> string service" where
  "find_client_secret product_id client_id =
     bindS (list_vars product_id) (\<lambda>rows.
     first_secret product_id client_id (filter is_client_id_key (map ProductEnvVar_key rows)))"

text \<open>What the HTTP client brings back: no answer, or a status with a body that may not be JSON.\<close>

datatype google_reply = HTTPError | Reply int "json option"

definition google_error :: "json option \<Rightarrow> string" where
  "google_error body = (case body of
       Some (JObj d) \<Rightarrow> (let e = dict_get d ''error'' JNull in if json_bool e then json_str e else ''unknown'')
     | _ \<Rightarrow> ''unknown'')"

definition exchange_with_google ::
    "((string \<times> string) list \<Rightarrow> google_reply service) \<Rightarrow> (string \<times> string) list \<Rightarrow> dict service" where
  "exchange_with_google post form_body =
     bindS (post form_body) (\<lambda>reply.
     case reply of
       HTTPError \<Rightarrow> raise (GoogleUpstreamError ''google token endpoint unreachable'')
     | Reply status body \<Rightarrow>
         if status \<ge> 500 then raise (GoogleUpstreamError ''google token endpoint returned 5xx'')
         else if status \<ge> 400 then raise (Unauthorized (''google: '' @ google_error body))
         else case body of
           None \<Rightarrow> raise (GoogleUpstreamError ''google response was not JSON'')
         | Some (JObj d) \<Rightarrow>
             if map_of d ''access_token'' = None then raise (GoogleUpstreamError ''google response missing access_token'')
             else ret d
         | Some _ \<Rightarrow> raise (GoogleUpstreamError ''google response missing access_token''))"

datatype google_request =
    CodeRequest string string string string
  | RefreshRequest string string

fun request_client_id :: "google_request \<Rightarrow> string" where
  "request_client_id (CodeRequest client_id _ _ _) = client_id"
| "request_client_id (RefreshRequest client_id _) = client_id"

fun exchange_form :: "google_request \<Rightarrow> string \<Rightarrow> (string \<times> string) list" where
  "exchange_form (CodeRequest client_id code code_verifier redirect_uri) client_secret =
     [(''grant_type'', ''authorization_code''), (''client_id'', client_id), (''client_secret'', client_secret),
      (''code'', code), (''redirect_uri'', redirect_uri), (''code_verifier'', code_verifier)]"
| "exchange_form (RefreshRequest client_id refresh_token) client_secret =
     [(''grant_type'', ''refresh_token''), (''client_id'', client_id), (''client_secret'', client_secret),
      (''refresh_token'', refresh_token)]"

definition google_exchange ::
    "((string \<times> string) list \<Rightarrow> google_reply service) \<Rightarrow> google_request \<Rightarrow> ProductServiceToken \<Rightarrow> dict service" where
  "google_exchange post payload token =
     bindS (find_client_secret (ProductServiceToken_product_id token) (request_client_id payload)) (\<lambda>client_secret.
     exchange_with_google post (exchange_form payload client_secret))"


section \<open>Values survive the vault\<close>

lemma length_urandom [simp]: "length (urandom n d) = n"
  by (induction n arbitrary: d) auto

lemma reveal_sealed:
  assumes "vault_libs_ok L" and "env_key L = Inr key" and "length nonce = NONCE_LEN"
  shows "decrypt L (nonce @ aes_encrypt L key nonce p a) b =
    (if a = b then Inr p else Inl (ValueError ''ciphertext authentication failed''))"
proof -
  have "aes_decrypt L key nonce (aes_encrypt L key nonce p a) b = (if a = b then Some p else None)"
    "16 \<le> length (aes_encrypt L key nonce p a)"
    using assms unfolding vault_libs_ok_def by blast+
  then show ?thesis using assms(2,3) by (simp add: decrypt_def)
qed

definition env_ok :: "world \<Rightarrow> bool" where
  "env_ok w \<longleftrightarrow> fresh_ids w \<and> distinct (map ProductEnvVar_id (product_env_vars (db w))) \<and>
     keyed env_var_clash (product_env_vars (db w)) \<and> (\<forall>r \<in> set (product_env_vars (db w)). ProductEnvVar_id r \<in> drawn w)"

lemma env_ok_cong:
  assumes "env_ok w" "product_env_vars (db w') = product_env_vars (db w)" "draws w' = draws w" "draw_no w \<le> draw_no w'"
  shows "env_ok w'"
  using assms by (auto simp: env_ok_def fresh_ids_def drawn_def)

interpretation env_vars: keyed_rows "\<lambda>(p, k). env_var_at p k" ProductEnvVar_id env_var_clash
  by unfold_locales (auto simp: env_var_at_def env_var_clash_def)

lemmas env_var_insert = env_vars.find_insert [of "(p, k)" r rs "(q, l)" for p k r rs q l, simplified split_conv]
lemmas env_var_update = env_vars.find_update [of "(p, k)" rs r f "(q, l)" for p k rs r f q l, simplified split_paired_all split_conv]

lemma env_var_at_rotate [simp]: "env_var_at p k (rotate v s d t r) = env_var_at p k r"
  by (simp add: env_var_at_def rotate_def)

lemma env_ok_insert:
  assumes ok: "env_ok w" and i: "ProductEnvVar_id r = draws w (draw_no w)"
    and free: "\<forall>x \<in> set (product_env_vars (db w)). \<not> env_var_clash x r"
  shows "env_ok (w\<lparr>draw_no := Suc (draw_no w), db := product_env_vars_update (\<lambda>rs. rs @ [r]) (db w)\<rparr>)" (is "env_ok ?w")
proof -
  have d: "drawn ?w = insert (draws w (draw_no w)) (drawn w)"
    using drawn_step [of w] by (simp add: drawn_def)
  have "keyed env_var_clash (product_env_vars (db w) @ [r])"
    using ok free by (intro keyed_append) (auto simp: env_ok_def env_var_clash_def)
  moreover have "draws w (draw_no w) \<notin> ProductEnvVar_id ` set (product_env_vars (db w))"
    using ok fresh_not_drawn [of w] by (auto simp: env_ok_def)
  ultimately show ?thesis
    using ok i unfolding env_ok_def d by (auto simp: fresh_ids_def)
qed

lemma env_ok_rotate:
  assumes ok: "env_ok w"
  shows "env_ok (w\<lparr>db := product_env_vars_update (map_rows P (rotate v s d t)) (db w)\<rparr>)" (is "env_ok ?w")
proof -
  have "drawn ?w = drawn w" by (simp add: drawn_def)
  moreover have "keyed env_var_clash (map_rows P (rotate v s d t) (product_env_vars (db w)))"
    using ok by (intro keyed_map_rows) (simp_all add: env_ok_def env_var_clash_def rotate_def)
  moreover have "map ProductEnvVar_id (map_rows P (rotate v s d t) rs) = map ProductEnvVar_id rs" for rs
    by (simp add: map_rows_def rotate_def)
  ultimately show ?thesis
    using ok by (simp add: env_ok_def fresh_ids_def ball_map_rows) (simp add: rotate_def)
qed

lemma env_ok_audited: "env_ok w \<Longrightarrow> env_ok (audited b w)"
  by (erule env_ok_cong) (simp_all add: audited_draws)

lemma get_var_apply [svc_simps]:
  "get_var p k w = (case List.find (env_var_at p k) (product_env_vars (db w)) of
     None \<Rightarrow> (Inl (NotFound ''env var not found in product''), w) | Some r \<Rightarrow> (Inr r, w))"
  by (simp add: get_var_def svc_simps split: option.splits)

text \<open>What is stored reads back, and storing it draws a nonce at most.\<close>

lemma stored_value_cases:
  assumes libs: "vault_libs_ok (lib w)" and run: "stored_value p k v s w = (r, w')"
  obtains (stored) x n where "r = Inr x" "w' = w\<lparr>draw_no := n\<rparr>" "draw_no w \<le> n"
      "\<And>row. ProductEnvVar_value_encrypted row = x \<Longrightarrow> ProductEnvVar_is_secret row = s \<Longrightarrow>
        ProductEnvVar_product_id row = p \<Longrightarrow> ProductEnvVar_key row = k \<Longrightarrow> reveal (lib w) row = Inr v"
  | (no_key) e where "s" "env_key (lib w) = Inl e" "r = Inl e" "w' = w"
proof (cases s)
  case False
  then show ?thesis
    using run by (intro stored [of v "draw_no w"]) (simp_all add: stored_value_def svc_simps reveal_def)
next
  case True
  show ?thesis
  proof (cases "env_key (lib w)")
    case (Inl e)
    then show ?thesis using run True by (intro no_key [of e]) (auto simp: stored_value_def encrypt_def svc_simps)
  next
    case (Inr key)
    let ?nonce = "urandom NONCE_LEN (draws w (draw_no w))"
    show ?thesis
      using run True Inr reveal_sealed [OF libs Inr, of ?nonce]
      by (intro stored [of "?nonce @ aes_encrypt (lib w) key ?nonce v (aad_for p k)" "Suc (draw_no w)"])
        (simp_all add: stored_value_def encrypt_def svc_simps Let_def reveal_def)
  qed
qed

lemma set_var_cases:
  assumes libs: "vault_libs_ok (lib w)" and ok: "env_ok w" and run: "set_var p k v s d u w = (r, w')"
  obtains (stored) row where "r = Inr row" "env_ok w'" "lib w' = lib w" "reveal (lib w) row = Inr v"
      "\<And>q l. List.find (env_var_at q l) (product_env_vars (db w')) =
        (if (q, l) = (p, k) then Some row else List.find (env_var_at q l) (product_env_vars (db w)))"
  | (no_key) e where "s" "env_key (lib w) = Inl e" "r = Inl e" "w' = w"
proof -
  obtain x w1 where sv: "stored_value p k v s w = (x, w1)" by (cases "stored_value p k v s w")
  show ?thesis
  proof (cases rule: stored_value_cases [OF libs sv, case_names stored no_key])
    case (no_key e)
    then show ?thesis using run sv that(2) [of e] by (simp add: set_var_def svc_simps)
  next
    case (stored y n)
    have ok1: "env_ok w1" by (rule env_ok_cong [OF ok]) (simp_all add: stored(2,3))
    show ?thesis
    proof (cases "List.find (env_var_at p k) (product_env_vars (db w))")
      case None
      let ?r = "\<lparr>ProductEnvVar_id = draws w n, ProductEnvVar_product_id = p, ProductEnvVar_key = k,
               ProductEnvVar_value_encrypted = y, ProductEnvVar_is_secret = s,
               ProductEnvVar_description = d, ProductEnvVar_last_rotated_at = now w\<rparr>"
      have free: "\<forall>z \<in> set (product_env_vars (db w1)). \<not> env_var_clash z ?r"
        using find_NoneD [OF None] by (auto simp: stored(2) env_var_clash_def env_var_at_def)
      let ?v = "w\<lparr>draw_no := Suc n, db := product_env_vars_update (\<lambda>rs. rs @ [?r]) (db w)\<rparr>"
      obtain a where w': "r = Inr ?r" "w' = audited a ?v"
        using run free None by (simp add: set_var_def bindS_apply sv stored(1,2) svc_simps Let_def)
          (elim conjE, rule that, (erule sym)+)
      have at: "env_var_at p k ?r" by (simp add: env_var_at_def)
      have "env_ok ?v"
        using env_ok_insert [OF ok1, of ?r] free by (simp add: stored(2))
      note ok' = env_ok_audited [OF this]
      show ?thesis
        by (rule that(1) [OF w'(1)])
          (use ok' stored(4) env_var_insert [OF at None] in
            \<open>auto simp: w'(2)\<close>)
    next
      case (Some z)
      let ?f = "rotate y s d (now w)"
      let ?v = "w\<lparr>draw_no := n, db := product_env_vars_update (map_rows (\<lambda>x. ProductEnvVar_id x = ProductEnvVar_id z) ?f) (db w)\<rparr>"
      obtain a where w': "r = Inr (?f z)" "w' = audited a ?v"
        using run Some by (simp add: set_var_def bindS_apply sv stored(1,2) svc_simps Let_def)
          (elim conjE, rule that, (erule sym)+)
      have ids: "distinct (map ProductEnvVar_id (product_env_vars (db w)))" using ok by (simp add: env_ok_def)
      have "reveal (lib w) (?f z) = Inr v"
        using find_SomeD [OF Some] by (intro stored(4)) (simp_all add: rotate_def env_var_at_def)
      moreover have "env_ok ?v"
        using env_ok_rotate [OF ok1] by (simp add: stored(2))
      note ok' = env_ok_audited [OF this]
      ultimately show ?thesis
        by (intro that(1) [OF w'(1)])
          (use ok' env_var_update [OF Some ids, where f = ?f] in
            \<open>auto simp: w'(2)\<close>)
    qed
  qed
qed


text \<open>The answer of \<^verbatim>\<open>GET /env\<close>: the revealed values of the product's keys that are not
  server-only.\<close>

lemma get_product_env_entries:
  assumes "get_product_env token w = (Inr es, w')"
  shows "w' = w" "set es = {(ProductEnvVar_key r, p) | r p. r \<in> set (product_env_vars (db w)) \<and>
    ProductEnvVar_product_id r = ProductServiceToken_product_id token \<and> \<not> is_server_only (ProductEnvVar_key r) \<and>
    reveal (lib w) r = Inr p}"
proof -
  let ?rs = "filter (\<lambda>r. \<not> is_server_only (ProductEnvVar_key r)) (order_by ProductEnvVar_key
    (filter (\<lambda>r. ProductEnvVar_product_id r = ProductServiceToken_product_id token) (product_env_vars (db w))))"
  have run: "revealed ?rs w = (Inr es, w')"
    using assms by (simp add: get_product_env_def list_vars_def svc_simps)
  have row: "bindS (gets (\<lambda>w. reveal (lib w) r)) (\<lambda>v. bindS (liftE v) (\<lambda>p. ret (ProductEnvVar_key r, p))) w =
      (map_sum id (Pair (ProductEnvVar_key r)) (reveal (lib w) r), w)" for r
    by (cases "reveal (lib w) r") (simp_all add: svc_simps)
  note m = mapS_reads [OF run [unfolded revealed_def] row]
  then show "w' = w" by simp
  have eq: "map_sum id (Pair (ProductEnvVar_key r)) x = Inr e \<longleftrightarrow> (\<exists>p. x = Inr p \<and> e = (ProductEnvVar_key r, p))"
    for x :: "app_error + string" and r e
    by (cases x) auto
  have "list_all2 (\<lambda>r e. \<exists>p. reveal (lib w) r = Inr p \<and> e = (ProductEnvVar_key r, p)) ?rs es"
    using m(2) unfolding eq .
  then have "set es = {(ProductEnvVar_key r, p) | r p. r \<in> set ?rs \<and> reveal (lib w) r = Inr p}"
    by (induction rule: list_all2_induct) auto
  then show "set es = {(ProductEnvVar_key r, p) | r p. r \<in> set (product_env_vars (db w)) \<and>
    ProductEnvVar_product_id r = ProductServiceToken_product_id token \<and> \<not> is_server_only (ProductEnvVar_key r) \<and>
    reveal (lib w) r = Inr p}"
    by auto
qed

text \<open>C37: A value put into the vault comes back, and only to those meant to see it. After a variable has
  been created or rotated, reading it and revealing it gives the value, every other variable of any
  product is as it was, and a product backend that fetches its environment gets the value under that
  key exactly when the key is not server-only. The keys stay unique per product.\<close>

theorem env_var_roundtrip:
  assumes "vault_libs_ok (lib w)" and "env_ok w" and "set_var p k v s d u w = (Inr row, w')"
  shows "env_ok w' \<and> lib w' = lib w \<and> get_var p k w' = (Inr row, w') \<and> reveal (lib w') row = Inr v \<and>
    (\<forall>q l. (q, l) \<noteq> (p, k) \<longrightarrow> fst (get_var q l w') = fst (get_var q l w)) \<and>
    (\<forall>token es w''. ProductServiceToken_product_id token = p \<longrightarrow> get_product_env token w' = (Inr es, w'') \<longrightarrow>
      ((k, v) \<in> set es \<longleftrightarrow> \<not> is_server_only k) \<and> (\<forall>x. (k, x) \<in> set es \<longrightarrow> x = v))"
proof (cases rule: set_var_cases [OF assms, case_names stored no_key])
  case (stored r)
  then have r: "r = row" by simp
  have at: "List.find (env_var_at p k) (product_env_vars (db w')) = Some row"
    using stored(5) [of p k] r by simp
  then have row: "row \<in> set (product_env_vars (db w'))" "ProductEnvVar_product_id row = p" "ProductEnvVar_key row = k"
    using find_SomeD [OF at] by (simp_all add: env_var_at_def)
  have only: "x = row" if "x \<in> set (product_env_vars (db w'))" "ProductEnvVar_product_id x = p" "ProductEnvVar_key x = k" for x
    using stored(2) that row unfolding env_ok_def keyed_def env_var_clash_def by simp
  have rev: "reveal (lib w') row = Inr v" using stored(3,4) r by simp
  have entry: "(k, x) \<in> set es \<longleftrightarrow> \<not> is_server_only k \<and> x = v"
    if tok: "ProductServiceToken_product_id token = p" and run: "get_product_env token w' = (Inr es, w'')" for token es w'' x
  proof
    assume "(k, x) \<in> set es"
    then obtain z where "z \<in> set (product_env_vars (db w'))" "ProductEnvVar_product_id z = p" "k = ProductEnvVar_key z"
      "\<not> is_server_only (ProductEnvVar_key z)" "reveal (lib w') z = Inr x"
      unfolding get_product_env_entries(2) [OF run] tok by blast
    then show "\<not> is_server_only k \<and> x = v" using only [of z] rev by simp
  next
    assume "\<not> is_server_only k \<and> x = v"
    then show "(k, x) \<in> set es"
      unfolding get_product_env_entries(2) [OF run] tok using row rev by blast
  qed
  have env: "((k, v) \<in> set es \<longleftrightarrow> \<not> is_server_only k) \<and> (\<forall>x. (k, x) \<in> set es \<longrightarrow> x = v)"
    if "ProductServiceToken_product_id token = p" "get_product_env token w' = (Inr es, w'')" for token es w''
    using entry [OF that] by blast
  have get: "get_var p k w' = (Inr row, w')" using at by (simp add: svc_simps)
  have "fst (get_var q l w') = fst (get_var q l w)" if "(q, l) \<noteq> (p, k)" for q l
    using stored(5) [of q l] that by (auto simp: svc_simps split: option.splits)
  then show ?thesis using stored(2,3) get rev env by blast
qed simp


section \<open>A ciphertext belongs to its row\<close>

lemma hex_w_inject:
  assumes "hex_w k n = hex_w k m" and "n < 16 ^ k" and "m < 16 ^ k"
  shows "n = m"
  using assms
proof (induction k arbitrary: n m)
  case (Suc k)
  have dig: "hex_char x = hex_char y \<longleftrightarrow> x mod 16 = y mod 16" for x y
  proof -
    have "distinct ''0123456789abcdef''" by simp
    moreover have "length ''0123456789abcdef'' = 16" by simp
    ultimately show ?thesis unfolding hex_char_def by (subst nth_eq_iff_index_eq) simp_all
  qed
  have lt: "x div 16 < 16 ^ k" if "x < 16 ^ Suc k" for x :: nat
    using that by (intro less_mult_imp_div_less) (simp add: mult.commute)
  have *: "hex_w k (n div 16) = hex_w k (m div 16)" "n mod 16 = m mod 16"
    using Suc.prems(1) by (simp_all add: dig)
  have d: "n div 16 = m div 16"
    by (rule Suc.IH [OF *(1) lt [OF Suc.prems(2)] lt [OF Suc.prems(3)]])
  have "n = n div 16 * 16 + n mod 16" by simp
  also have "\<dots> = m div 16 * 16 + m mod 16" by (simp only: d *(2))
  also have "\<dots> = m" by simp
  finally show ?case .
qed simp

lemma uuid_str_inject:
  assumes "uuid_str u = uuid_str v" and "u < 2 ^ 128" and "v < 2 ^ 128"
  shows "u = v"
proof -
  let ?h = "hex_w 32 u" and ?g = "hex_w 32 v"
  have "take 8 ?h = take 8 ?g" "take 4 (drop 8 ?h) = take 4 (drop 8 ?g)" "take 4 (drop 12 ?h) = take 4 (drop 12 ?g)"
    "take 4 (drop 16 ?h) = take 4 (drop 16 ?g)" "drop 20 ?h = drop 20 ?g"
    using assms(1) by (simp_all add: uuid_str_def Let_def append_eq_append_conv)
  moreover have "l = take 8 l @ take 4 (drop 8 l) @ take 4 (drop 12 l) @ take 4 (drop 16 l) @ drop 20 l" for l :: string
    using take_add [of 8 4 l] take_add [of 12 4 l] take_add [of 16 4 l] append_take_drop_id [of 20 l] by simp
  ultimately have "?h = ?g" by metis
  then show ?thesis using hex_w_inject [of 32 u v] assms(2,3) by simp
qed


lemma aad_for_inject:
  assumes "aad_for p k = aad_for q l" and "p < 2 ^ 128" and "q < 2 ^ 128"
  shows "p = q \<and> k = l"
proof -
  have "length (uuid_str u) = 36" for u by (simp add: uuid_str_def Let_def)
  then have "uuid_str p = uuid_str q" "k = l"
    using assms(1) by (simp_all add: aad_for_def append_eq_append_conv)
  then show ?thesis using uuid_str_inject assms(2,3) by blast
qed

text \<open>C38: A ciphertext cannot be moved between rows. The bytes stored for a secret variable reveal its value in
  its own row; copied into the row of any other key or any other product they fail the authentication,
  so that the error is raised and no plaintext comes out, and the listing shows the failure marker.\<close>

theorem env_ciphertext_bound:
  assumes libs: "vault_libs_ok (lib w)" and run: "encrypt v (aad_for p k) w = (Inr blob, w')"
    and row: "ProductEnvVar_value_encrypted r = blob" "ProductEnvVar_is_secret r"
    and ids: "p < 2 ^ 128" "ProductEnvVar_product_id r < 2 ^ 128"
  shows "reveal (lib w) r =
      (if ProductEnvVar_product_id r = p \<and> ProductEnvVar_key r = k then Inr v
       else Inl (ValueError ''ciphertext authentication failed'')) \<and>
    preview (lib w) r =
      Some (if ProductEnvVar_product_id r = p \<and> ProductEnvVar_key r = k then mask_preview v else ''<decryption-failed>'')"
proof -
  obtain key where key: "env_key (lib w) = Inr key"
    "blob = urandom NONCE_LEN (draws w (draw_no w)) @ aes_encrypt (lib w) key (urandom NONCE_LEN (draws w (draw_no w))) v (aad_for p k)"
    using run by (cases "env_key (lib w)") (simp_all add: encrypt_def svc_simps Let_def)
  have "aad_for p k = aad_for (ProductEnvVar_product_id r) (ProductEnvVar_key r) \<longleftrightarrow>
      ProductEnvVar_product_id r = p \<and> ProductEnvVar_key r = k"
    using aad_for_inject [OF _ ids] by auto
  then show ?thesis
    using row reveal_sealed [OF libs key(1), of "urandom NONCE_LEN (draws w (draw_no w))" v "aad_for p k"] key(2)
    by (simp add: reveal_def preview_def)
qed

lemma sample_vault_libs: "vault_libs_ok sample_lib"
  unfolding vault_libs_ok_def
proof (intro allI impI)
  fix k n p a b :: string assume n: "length n = NONCE_LEN"
  have "bind_text k (bind_text n a) = bind_text k (bind_text n b) \<longleftrightarrow> a = b"
  proof
    assume "bind_text k (bind_text n a) = bind_text k (bind_text n b)"
    then have "unbind_text n (the (unbind_text k (bind_text k (bind_text n a)))) = unbind_text n (the (unbind_text k (bind_text k (bind_text n b))))"
      by simp
    then show "a = b" by simp
  qed simp
  moreover have "length (bind_text n a) \<ge> 16" using n by (simp add: bind_text_def NONCE_LEN_def)
  then have "16 \<le> length (bind_text (bind_text k (bind_text n a)) p)" by (simp add: bind_text_def)
  ultimately show "aes_decrypt sample_lib k n (aes_encrypt sample_lib k n p a) b = (if a = b then Some p else None) \<and>
     16 \<le> length (aes_encrypt sample_lib k n p a)"
    by (auto simp: sample_lib_def)
qed

definition sample_secret :: "uuid \<Rightarrow> string \<Rightarrow> string \<Rightarrow> ProductEnvVar" where
  "sample_secret p k blob = \<lparr>ProductEnvVar_id = 5, ProductEnvVar_product_id = p, ProductEnvVar_key = k,
     ProductEnvVar_value_encrypted = blob, ProductEnvVar_is_secret = True, ProductEnvVar_description = None,
     ProductEnvVar_last_rotated_at = 0\<rparr>"

theorem env_ciphertext_bound_witness:
  "\<exists>blob w'. encrypt ''sk_live'' (aad_for 70 ''STRIPE_KEY'') sample_world = (Inr blob, w') \<and>
     reveal sample_lib (sample_secret 70 ''STRIPE_KEY'' blob) = Inr ''sk_live'' \<and>
     reveal sample_lib (sample_secret 70 ''OTHER_KEY'' blob) = Inl (ValueError ''ciphertext authentication failed'') \<and>
     reveal sample_lib (sample_secret 72 ''STRIPE_KEY'' blob) = Inl (ValueError ''ciphertext authentication failed'')"
proof -
  have lib: "lib sample_world = sample_lib" by (simp add: sample_world_def)
  obtain blob w' where run: "encrypt ''sk_live'' (aad_for 70 ''STRIPE_KEY'') sample_world = (Inr blob, w')"
    by (simp add: encrypt_def svc_simps Let_def lib sample_lib_def)
  have libs: "vault_libs_ok (lib sample_world)" using sample_vault_libs lib by simp
  have r: "reveal sample_lib (sample_secret q l blob) = (if q = 70 \<and> l = ''STRIPE_KEY'' then Inr ''sk_live''
      else Inl (ValueError ''ciphertext authentication failed''))" if "q < 2 ^ 128" for q l
    using env_ciphertext_bound [OF libs run, of "sample_secret q l blob"] that by (simp add: sample_secret_def lib)
  show ?thesis
    using run r [of 70 "''STRIPE_KEY''"] r [of 70 "''OTHER_KEY''"] r [of 72 "''STRIPE_KEY''"] by simp
qed

definition sample_vault :: world where
  "sample_vault = sample_world\<lparr>draw_no := 8, db := empty_db\<lparr>product_env_vars := [sample_secret 70 ''STRIPE_KEY'' ''old'']\<rparr>\<rparr>"

theorem env_var_roundtrip_witness:
  "\<exists>row w'. set_var 70 ''STRIPE_KEY'' ''sk_live'' True None None sample_vault = (Inr row, w') \<and>
     reveal (lib w') row = Inr ''sk_live'' \<and> get_var 70 ''STRIPE_KEY'' w' = (Inr row, w')"
proof -
  have lib: "lib sample_vault = sample_lib" by (simp add: sample_vault_def sample_world_def)
  have libs: "vault_libs_ok (lib sample_vault)" using sample_vault_libs lib by simp
  have ok: "env_ok sample_vault"
    by (simp add: env_ok_def sample_vault_def sample_secret_def keyed_def drawn_def fresh_ids_def sample_world_def NIL_def
        image_Suc_lessThan)
  obtain r w' where run: "set_var 70 ''STRIPE_KEY'' ''sk_live'' True None None sample_vault = (r, w')"
    by (cases "set_var 70 ''STRIPE_KEY'' ''sk_live'' True None None sample_vault")
  obtain row where "r = Inr row"
    using set_var_cases [OF libs ok run] lib by (auto simp: sample_lib_def)
  then have run': "set_var 70 ''STRIPE_KEY'' ''sk_live'' True None None sample_vault = (Inr row, w')" using run by simp
  note rt = env_var_roundtrip [OF libs ok run']
  show ?thesis
    by (intro exI conjI, rule run', rule rt [THEN conjunct2, THEN conjunct2, THEN conjunct2, THEN conjunct1],
        rule rt [THEN conjunct2, THEN conjunct2, THEN conjunct1])
qed


section \<open>Reveals and the audit log\<close>

text \<open>A reveal is audited only in a product with a live root tenant. An admin who reveals a variable gets
  its value, and nothing but the audit log changes. Where the product has a live root tenant exactly one
  entry is appended: a reveal of that key under the product and that tenant, with the reason given. Where
  it has none, a request that has no tenant of its own hands out the plaintext and leaves no entry.\<close>

lemma env_reveal_audit:
  assumes "reveal_env_var slug key flag reason ip w = (Inr (row, x), w')"
  shows "flag \<and> truthy reason \<and> ProductEnvVar_key row = key \<and> reveal (lib w) row = Inr x \<and>
    product_env_vars (db w') = product_env_vars (db w) \<and>
    (\<exists>root. fst (root_tenant (ProductEnvVar_product_id row) w) = Inr root \<and>
      (case root of
         Some t \<Rightarrow> Tenant_id t \<noteq> NIL \<longrightarrow> (\<exists>e. audit_log (db w') = audit_log (db w) @ [e] \<and>
             AuditLog_action e = ''env.var_revealed'' \<and> AuditLog_tenant_id e = Tenant_id t \<and>
             AuditLog_product_id e = ProductEnvVar_product_id row \<and>
             AuditLog_diff e = [(''key'', JStr key), (''reason'', JStr (the reason))])
       | None \<Rightarrow> cur_tenant w = None \<longrightarrow> audit_log (db w') = audit_log (db w)))"
proof -
  have flags: "flag" "truthy reason" using assms by (auto simp: reveal_env_var_def inr_simps split: if_splits)
  obtain pid w1 where pid: "resolve_product_slug slug w = (Inr pid, w1)"
    and rest: "get_var pid key w1 = (Inr row, w1)" "reveal (lib w1) row = Inr x"
      "w' = snd (record_reveal pid key None (the reason) ip w1)"
    using assms flags by (auto simp: reveal_env_var_def inr_simps get_var_apply split: option.splits)
  obtain root where root: "root_tenant pid w = (Inr root, w)"
    by (simp add: root_tenant_def svc_simps)
  have row: "ProductEnvVar_product_id row = pid" "ProductEnvVar_key row = key"
    using rest(1) find_SomeD [of "env_var_at pid key"] by (auto simp: svc_simps env_var_at_def split: option.splits)
  have w1: "w1 = w\<lparr>cur_product := Some pid, cur_tenant := (case root of Some t \<Rightarrow> Some (Tenant_id t) | None \<Rightarrow> cur_tenant w)\<rparr>"
    using pid root
    by (auto simp: resolve_product_slug_def get_by_slug_def root_tenant_def context_defs svc_simps split: option.splits list.splits)
  have "\<exists>e. audit_log (db w') = audit_log (db w) @ [e] \<and>
             AuditLog_action e = ''env.var_revealed'' \<and> AuditLog_tenant_id e = Tenant_id t \<and>
             AuditLog_product_id e = pid \<and>
             AuditLog_diff e = [(''key'', JStr key), (''reason'', JStr (the reason))]"
    if "root = Some t" "Tenant_id t \<noteq> NIL" for t
    using that by (simp add: rest(3) record_reveal_def record_audit_apply audited_def w1 audit_tid_def audit_pid_def Let_def
        context_defs act_def)
  moreover have "audit_log (db w') = audit_log (db w)" if "root = None" "cur_tenant w = None"
    using that by (simp add: rest(3) record_reveal_def record_audit_apply audited_def w1 audit_tid_def audit_pid_def Let_def
        context_defs act_def)
  moreover have "product_env_vars (db w') = product_env_vars (db w)"
    by (simp add: rest(3) record_reveal_def record_audit_apply w1)
  ultimately show ?thesis
    using flags rest(2) root by (simp add: row w1 split: option.splits)
qed

section \<open>Client secrets stay on the platform\<close>

lemma secret_key_server_only:
  assumes "is_client_id_key k" and "CHR 10 \<notin> set k"
  shows "is_server_only (secret_key_of k)"
proof -
  obtain r where r: "k = ''GOOGLE_'' @ r"
    using assms(1) append_take_drop_id [of 7 k] unfolding is_client_id_key_def by metis
  obtain q where q: "k = q @ ''_CLIENT_ID''"
    using assms(1) append_take_drop_id [of "length k - 10" k] unfolding is_client_id_key_def by metis
  have sk: "secret_key_of k = q @ ''_CLIENT_SECRET''" by (simp add: secret_key_of_def q)
  have "''GOOGLE_'' @ r = q @ ''_CLIENT_ID''" by (rule trans [OF r [symmetric] q])
  then obtain us where "''GOOGLE_'' = q @ us \<and> us @ r = ''_CLIENT_ID'' \<or> ''GOOGLE_'' @ us = q \<and> r = us @ ''_CLIENT_ID''"
    unfolding append_eq_append_conv2 ..
  then show ?thesis
  proof (elim disjE conjE)
    assume "''GOOGLE_'' = q @ us" "us @ r = ''_CLIENT_ID''"
    then have "q = ''GOOGLE_'' \<or> q = ''GOOGLE''"
      by (auto simp: Cons_eq_append_conv append_eq_Cons_conv)
    then show ?thesis
      unfolding sk is_server_only_def by (auto simp: google_secret_body_def)
  next
    assume q': "''GOOGLE_'' @ us = q"
    have "CHR 10 \<notin> set us" using assms(2) unfolding q q' [symmetric] by simp
    then show ?thesis
      unfolding sk q' [symmetric] is_server_only_def by (simp add: google_secret_body_def Let_def)
  qed
qed

lemma candidate_secret_apply:
  "candidate_secret p c k w = (Inr (case List.find (env_var_at p k) (product_env_vars (db w)) of
      None \<Rightarrow> None
    | Some i \<Rightarrow> if reveal (lib w) i \<noteq> Inr c then None
      else case List.find (env_var_at p (secret_key_of k)) (product_env_vars (db w)) of
        None \<Rightarrow> None
      | Some s \<Rightarrow> (case reveal (lib w) s of Inl _ \<Rightarrow> None | Inr x \<Rightarrow> Some x)), w)"
  by (simp add: candidate_secret_def tryS_apply svc_simps split: option.splits sum.splits)

lemma first_secret_found:
  assumes "first_secret p c ks w = (Inr s, w')"
  shows "w' = w \<and> (\<exists>k \<in> set ks. \<exists>i r. List.find (env_var_at p k) (product_env_vars (db w)) = Some i \<and> reveal (lib w) i = Inr c \<and>
    List.find (env_var_at p (secret_key_of k)) (product_env_vars (db w)) = Some r \<and> reveal (lib w) r = Inr s)"
  using assms
proof (induction ks)
  case (Cons k ks)
  show ?case
  proof (cases "fst (candidate_secret p c k w)")
    case (Inr x)
    then show ?thesis
      using Cons by (cases x) (auto simp: candidate_secret_apply bindS_apply ret_apply split: option.splits if_splits sum.splits)
  qed (simp add: candidate_secret_apply)
qed (simp add: svc_simps)

text \<open>Client secrets never leave the platform through the vault. A secret that the exchange sends to
  Google is the value of a stored server-only variable of the product: the partner of a stored client
  identifier with the value the caller gave. No backend of any product is handed a variable of that name,
  and the lookup itself changes nothing. (Stored names have no line break, as the route demands.)\<close>

lemma client_secrets_stay:
  assumes keys: "\<forall>r \<in> set (product_env_vars (db w)). CHR 10 \<notin> set (ProductEnvVar_key r)"
    and run: "find_client_secret p c w = (Inr s, w')"
  shows "w' = w \<and> (\<exists>i \<in> set (product_env_vars (db w)). \<exists>r \<in> set (product_env_vars (db w)).
    ProductEnvVar_product_id i = p \<and> is_client_id_key (ProductEnvVar_key i) \<and> reveal (lib w) i = Inr c \<and>
    ProductEnvVar_product_id r = p \<and> ProductEnvVar_key r = secret_key_of (ProductEnvVar_key i) \<and> reveal (lib w) r = Inr s \<and>
    is_server_only (ProductEnvVar_key r) \<and>
    (\<forall>token es v. get_product_env token w = (Inr es, v) \<longrightarrow> ProductEnvVar_key r \<notin> fst ` set es))"
proof -
  let ?ks = "filter is_client_id_key (map ProductEnvVar_key (order_by ProductEnvVar_key
    (filter (\<lambda>r. ProductEnvVar_product_id r = p) (product_env_vars (db w)))))"
  have "first_secret p c ?ks w = (Inr s, w')"
    using run by (simp add: find_client_secret_def list_vars_def svc_simps)
  from first_secret_found [OF this] obtain k i r where "w' = w" "k \<in> set ?ks"
    "List.find (env_var_at p k) (product_env_vars (db w)) = Some i" "reveal (lib w) i = Inr c"
    "List.find (env_var_at p (secret_key_of k)) (product_env_vars (db w)) = Some r" "reveal (lib w) r = Inr s" by blast
  note f = this
  have i: "i \<in> set (product_env_vars (db w))" "ProductEnvVar_product_id i = p" "ProductEnvVar_key i = k"
    and r: "r \<in> set (product_env_vars (db w))" "ProductEnvVar_product_id r = p" "ProductEnvVar_key r = secret_key_of k"
    using find_SomeD [OF f(3)] find_SomeD [OF f(5)] by (simp_all add: env_var_at_def)
  have k: "is_client_id_key k" using f(2) by simp
  then have so: "is_server_only (secret_key_of k)"
    using secret_key_server_only [of k] keys i(1,3) by blast
  have "secret_key_of k \<notin> fst ` set es" if "get_product_env token w = (Inr es, v)" for token es v
    unfolding get_product_env_entries(2) [OF that] using so by auto
  then show ?thesis
    using f i r k so by (intro conjI bexI [of _ i] bexI [of _ r]) simp_all
qed


definition sample_plain :: "uuid \<Rightarrow> string \<Rightarrow> string \<Rightarrow> ProductEnvVar" where
  "sample_plain i k v = \<lparr>ProductEnvVar_id = i, ProductEnvVar_product_id = Product_id sample_product, ProductEnvVar_key = k,
     ProductEnvVar_value_encrypted = v, ProductEnvVar_is_secret = False, ProductEnvVar_description = None,
     ProductEnvVar_last_rotated_at = 0\<rparr>"

definition sample_rootless :: world where
  "sample_rootless = sample_world\<lparr>db := empty_db\<lparr>products := [sample_product],
     product_env_vars := [sample_plain 5 ''GOOGLE_CLIENT_ID'' ''id'', sample_plain 6 ''GOOGLE_CLIENT_SECRET'' ''shh'']\<rparr>\<rparr>"

lemma env_reveal_audit_witness:
  "\<exists>row w'. reveal_env_var (Product_slug sample_product) ''GOOGLE_CLIENT_SECRET'' True (Some ''because'') None sample_rootless = (Inr (row, ''shh''), w') \<and>
     audit_log (db w') = []"
proof -
  have root: "root_tenant (Product_id sample_product) sample_rootless = (Inr None, sample_rootless)"
    by (simp add: root_tenant_def svc_simps sample_rootless_def empty_db_def)
  let ?row = "sample_plain 6 ''GOOGLE_CLIENT_SECRET'' ''shh''"
  have "fst (reveal_env_var (Product_slug sample_product) ''GOOGLE_CLIENT_SECRET'' True (Some ''because'') None sample_rootless) =
      Inr (?row, ''shh'')"
    by (simp add: reveal_env_var_def resolve_product_slug_def get_by_slug_def root_tenant_def context_defs svc_simps sample_rootless_def
        env_var_at_def sample_plain_def reveal_def record_reveal_def empty_db_def sample_product_def)
  then obtain w' where run: "reveal_env_var (Product_slug sample_product) ''GOOGLE_CLIENT_SECRET'' True (Some ''because'') None sample_rootless =
      (Inr (?row, ''shh''), w')"
    by (rule fst_eq_obtain)
  have "ProductEnvVar_product_id ?row = Product_id sample_product" by (simp add: sample_plain_def)
  then have "audit_log (db w') = audit_log (db sample_rootless)"
    using env_reveal_audit [OF run] by (simp add: root) (simp add: sample_rootless_def sample_world_def)
  then show ?thesis
    using run by (intro exI [of _ ?row] exI [of _ w'] conjI) (simp_all add: sample_rootless_def empty_db_def)
qed

lemma client_secrets_stay_witness:
  "find_client_secret (Product_id sample_product) ''id'' sample_rootless = (Inr ''shh'', sample_rootless) \<and>
   (\<exists>r \<in> set (product_env_vars (db sample_rootless)). is_server_only (ProductEnvVar_key r) \<and>
      reveal (lib sample_rootless) r = Inr ''shh'')"
proof -
  have run: "find_client_secret (Product_id sample_product) ''id'' sample_rootless = (Inr ''shh'', sample_rootless)"
    by (simp add: find_client_secret_def list_vars_def svc_simps sample_rootless_def sample_plain_def order_by_def
        is_client_id_key_def candidate_secret_apply env_var_at_def reveal_def secret_key_of_def)
  have keys: "\<forall>r \<in> set (product_env_vars (db sample_rootless)). CHR 10 \<notin> set (ProductEnvVar_key r)"
    by (simp add: sample_rootless_def sample_plain_def)
  obtain i r where "r \<in> set (product_env_vars (db sample_rootless))" "is_server_only (ProductEnvVar_key r)"
      "reveal (lib sample_rootless) r = Inr ''shh''"
    using client_secrets_stay [OF keys run] by (elim conjE bexE) (rule that)
  then show ?thesis using run by (intro conjI bexI [of _ r])
qed

end
