(* ===== verification/WebhookOut.thy ===== *)
theory WebhookOut
  imports Dependencies
begin

text \<open>
  The outbound webhooks of a product: \<^verbatim>\<open>app/services/webhook_endpoint.py\<close>, its schemas and
  the admin routes of \<^verbatim>\<open>app/api/v1/webhooks_admin.py\<close>. A response body is a list of code
  points, because its length is taken both in characters and in UTF-8 bytes.
\<close>

section \<open>Secrets and signatures\<close>

definition generate_secret :: "string service" where
  "generate_secret = bindS fresh (\<lambda>d. ret (take 64 (token_urlsafe 32 d)))"

definition sign_payload :: "string \<Rightarrow> string \<Rightarrow> int option \<Rightarrow> string service" where
  "sign_payload secret body timestamp_arg =
     gets (\<lambda>w. let t = int_str (case timestamp_arg of None \<Rightarrow> now w div 1000000 | Some n \<Rightarrow> n)
       in ''t='' @ t @ '',v1='' @ hmac_sha256_hex (lib w) secret (t @ ''.'' @ body))"


section \<open>Event filters\<close>

definition event_matches :: "string \<Rightarrow> string \<Rightarrow> bool" where
  "event_matches filter_pattern event \<longleftrightarrow>
     (if filter_pattern = ''*'' \<or> filter_pattern = event then True
      else if 2 \<le> length filter_pattern \<and> drop (length filter_pattern - 2) filter_pattern = ''.*''
      then (let prefix = take (length filter_pattern - 2) filter_pattern
            in event = prefix \<or> take (length prefix + 1) event = prefix @ ''.'')
      else False)"

definition endpoint_accepts :: "WebhookEndpoint \<Rightarrow> string \<Rightarrow> bool" where
  "endpoint_accepts endpoint event \<longleftrightarrow>
     WebhookEndpoint_events endpoint = [] \<or> (\<exists>f \<in> set (WebhookEndpoint_events endpoint). event_matches f event)"


section \<open>Validation of the request bodies\<close>

definition MAX_EVENTS_PER_ENDPOINT :: nat where
  "MAX_EVENTS_PER_ENDPOINT = 64"

definition EVENT_TYPE_MAX_LEN :: nat where
  "EVENT_TYPE_MAX_LEN = 64"

definition validate_url :: "string \<Rightarrow> app_error + string" where
  "validate_url v =
     (if v = [] then Inl (ValidationFailed ''url is required'')
      else if length v > 2048 then Inl (ValidationFailed ''url is too long'')
      else if take 8 (str_lower v) \<noteq> ''https://'' then Inl (ValidationFailed ''webhook url must use https://'')
      else Inr v)"

fun clean_events :: "string list \<Rightarrow> app_error + string list" where
  "clean_events [] = Inr []"
| "clean_events (e # es) =
     (let ev = str_strip e in
      if ev = [] then Inl (ValidationFailed ''event types may not be empty'')
      else if length ev > EVENT_TYPE_MAX_LEN then Inl (ValidationFailed ''event type too long'')
      else map_sum id ((#) ev) (clean_events es))"

definition validate_events :: "string list \<Rightarrow> app_error + string list" where
  "validate_events v =
     (if length v > MAX_EVENTS_PER_ENDPOINT then Inl (ValidationFailed ''too many event filters'')
      else clean_events v)"


section \<open>Endpoints\<close>

definition create :: "uuid \<Rightarrow> string \<Rightarrow> string option \<Rightarrow> string list \<Rightarrow> (WebhookEndpoint \<times> string) service" where
  "create product_id url description events =
     bindS generate_secret (\<lambda>secret.
     bindS fresh (\<lambda>i.
     bindS (gets now) (\<lambda>t.
     let endpoint = \<lparr>WebhookEndpoint_id = i, WebhookEndpoint_product_id = product_id, WebhookEndpoint_url = url,
           WebhookEndpoint_description = description, WebhookEndpoint_secret = secret, WebhookEndpoint_events = events,
           WebhookEndpoint_is_active = True, WebhookEndpoint_created_at = t\<rparr>
     in
     bindS (insert_row webhook_endpoints webhook_endpoints_update no_clash endpoint) (\<lambda>_.
     ret (endpoint, secret)))))"

definition endpoints_of :: "uuid \<Rightarrow> WebhookEndpoint list service" where
  "endpoints_of product_id =
     bindS (scalars webhook_endpoints (\<lambda>e. WebhookEndpoint_product_id e = product_id)) (\<lambda>rows.
     ret (sort_key (\<lambda>e. - WebhookEndpoint_created_at e) rows))"

definition endpoint_or_404 :: "uuid \<Rightarrow> uuid \<Rightarrow> WebhookEndpoint service" where
  "endpoint_or_404 product_id endpoint_id =
     bindS (scalar webhook_endpoints (\<lambda>e. WebhookEndpoint_id e = endpoint_id)) (\<lambda>endpoint.
     case endpoint of
       None \<Rightarrow> raise (NotFound ''webhook endpoint not found'')
     | Some e \<Rightarrow>
         if WebhookEndpoint_product_id e \<noteq> product_id then raise (NotFound ''webhook endpoint not found'') else ret e)"

record endpoint_patch =
  ep_url :: "string patch"
  ep_description :: "string patch"
  ep_events :: "string list patch"
  ep_is_active :: "bool patch"

text \<open>An explicit null leaves the attribute as it is, like a field left out.\<close>

definition patch_endpoint :: "endpoint_patch \<Rightarrow> WebhookEndpoint \<Rightarrow> WebhookEndpoint" where
  "patch_endpoint p e = e\<lparr>WebhookEndpoint_url := patch_value (ep_url p) (WebhookEndpoint_url e),
     WebhookEndpoint_description := or_else (patch_given (ep_description p)) (WebhookEndpoint_description e),
     WebhookEndpoint_events := patch_value (ep_events p) (WebhookEndpoint_events e),
     WebhookEndpoint_is_active := patch_value (ep_is_active p) (WebhookEndpoint_is_active e)\<rparr>"

definition set_endpoint :: "WebhookEndpoint \<Rightarrow> (WebhookEndpoint \<Rightarrow> WebhookEndpoint) \<Rightarrow> WebhookEndpoint service" where
  "set_endpoint e f =
     bindS (update_rows webhook_endpoints_update (\<lambda>x. WebhookEndpoint_id x = WebhookEndpoint_id e) f) (\<lambda>_. ret (f e))"

definition update_endpoint :: "uuid \<Rightarrow> uuid \<Rightarrow> endpoint_patch \<Rightarrow> WebhookEndpoint service" where
  "update_endpoint product_id endpoint_id changes =
     bindS (endpoint_or_404 product_id endpoint_id) (\<lambda>e. set_endpoint e (patch_endpoint changes))"

definition set_endpoint_active :: "uuid \<Rightarrow> uuid \<Rightarrow> bool \<Rightarrow> WebhookEndpoint service" where
  "set_endpoint_active product_id endpoint_id is_active =
     bindS (endpoint_or_404 product_id endpoint_id) (\<lambda>e.
     set_endpoint e (\<lambda>x. x\<lparr>WebhookEndpoint_is_active := is_active\<rparr>))"

definition delete_endpoint :: "uuid \<Rightarrow> uuid \<Rightarrow> WebhookEndpoint service" where
  "delete_endpoint product_id endpoint_id = set_endpoint_active product_id endpoint_id False"

definition recent_deliveries :: "uuid \<Rightarrow> uuid \<Rightarrow> int \<Rightarrow> WebhookDelivery list service" where
  "recent_deliveries product_id endpoint_id limit =
     bindS (endpoint_or_404 product_id endpoint_id) (\<lambda>_.
     bindS (scalars webhook_deliveries (\<lambda>d. WebhookDelivery_endpoint_id d = endpoint_id)) (\<lambda>rows.
     ret (take (nat (max 1 (min limit 500))) (sort_key (\<lambda>d. - WebhookDelivery_created_at d) rows))))"


section \<open>Fan-out\<close>

definition new_delivery :: "uuid \<Rightarrow> string \<Rightarrow> dict \<Rightarrow> string option \<Rightarrow> uuid \<Rightarrow> uuid \<Rightarrow> time \<Rightarrow> WebhookDelivery" where
  "new_delivery product_id event payload rid endpoint_id i t =
     \<lparr>WebhookDelivery_id = i, WebhookDelivery_endpoint_id = endpoint_id, WebhookDelivery_product_id = product_id,
      WebhookDelivery_event_type = event, WebhookDelivery_payload = payload, WebhookDelivery_request_id = rid,
      WebhookDelivery_attempt = 0, WebhookDelivery_status = ''pending'', WebhookDelivery_response_status = None,
      WebhookDelivery_response_body = None, WebhookDelivery_delivered_at = None, WebhookDelivery_next_retry_at = None,
      WebhookDelivery_created_at = t\<rparr>"

definition queue_delivery :: "uuid \<Rightarrow> string \<Rightarrow> dict \<Rightarrow> string option \<Rightarrow> WebhookEndpoint \<Rightarrow> WebhookDelivery service" where
  "queue_delivery product_id event payload rid ep =
     bindS fresh (\<lambda>i.
     bindS (gets now) (\<lambda>t.
     let delivery = new_delivery product_id event payload rid (WebhookEndpoint_id ep) i t in
     bindS (insert_row webhook_deliveries webhook_deliveries_update no_clash delivery) (\<lambda>_. ret delivery)))"

definition dispatch :: "uuid \<Rightarrow> string \<Rightarrow> dict \<Rightarrow> string option \<Rightarrow> WebhookDelivery list service" where
  "dispatch product_id event payload rid =
     bindS (endpoints_of product_id) (\<lambda>endpoints.
     mapS (filter (\<lambda>ep. WebhookEndpoint_is_active ep \<and> endpoint_accepts ep event) endpoints)
       (queue_delivery product_id event payload rid))"


section \<open>Response bodies\<close>

definition MAX_RESPONSE_BODY_BYTES :: nat where
  "MAX_RESPONSE_BODY_BYTES = 4 * 1024"

text \<open>The length of \<^verbatim>\<open>s.encode("utf-8")\<close>.\<close>

definition char_bytes :: "nat \<Rightarrow> nat" where
  "char_bytes c = (if c < 128 then 1 else if c < 2048 then 2 else if c < 65536 then 3 else 4)"

definition utf8_length :: "nat list \<Rightarrow> nat" where
  "utf8_length s = sum_list (map char_bytes s)"

function shrink :: "nat list \<Rightarrow> nat list" where
  "shrink s = (if utf8_length s > MAX_RESPONSE_BODY_BYTES then shrink (butlast s) else s)"
  by pat_completeness auto
termination
proof (relation "measure length")
  show "(butlast s, s) \<in> measure length" if "utf8_length s > MAX_RESPONSE_BODY_BYTES" for s
    using that by (cases s) (auto simp: utf8_length_def)
qed simp

declare shrink.simps [simp del]

definition TRUNCATED :: "nat list" where
  "TRUNCATED = map of_char ''...[truncated]''"

definition truncate_response_body :: "nat list option \<Rightarrow> nat list option" where
  "truncate_response_body body = (case body of
       None \<Rightarrow> None
     | Some b \<Rightarrow>
         if utf8_length b \<le> MAX_RESPONSE_BODY_BYTES then Some b
         else Some (shrink (take MAX_RESPONSE_BODY_BYTES b) @ TRUNCATED))"


section \<open>Admin routes\<close>

definition endpoint_audit :: "string \<Rightarrow> uuid \<Rightarrow> WebhookEndpoint \<Rightarrow> dict \<Rightarrow> audit_args" where
  "endpoint_audit action product_id e diff = (act action)\<lparr>a_resource_type := Some ''webhook_endpoint'',
     a_resource_id := Some (WebhookEndpoint_id e), a_product_id := Some product_id, a_diff := diff\<rparr>"

definition create_webhook :: "string \<Rightarrow> string \<Rightarrow> string option \<Rightarrow> string list \<Rightarrow> (WebhookEndpoint \<times> string) service" where
  "create_webhook slug url description events =
     bindS (liftE (validate_url url)) (\<lambda>url.
     bindS (liftE (validate_events events)) (\<lambda>events.
     bindS (resolve_product_slug slug) (\<lambda>product_id.
     bindS (create product_id url description events) (\<lambda>(endpoint, secret).
     bindS (record_audit (endpoint_audit ''webhook.create'' product_id endpoint
              [(''url'', JStr url), (''events'', JList (map JStr events)), (''description'', jopt JStr description)])) (\<lambda>_.
     ret (endpoint, secret))))))"

definition list_webhooks :: "string \<Rightarrow> WebhookEndpoint list service" where
  "list_webhooks slug = bindS (resolve_product_slug slug) endpoints_of"

definition get_webhook :: "string \<Rightarrow> uuid \<Rightarrow> WebhookEndpoint service" where
  "get_webhook slug endpoint_id = bindS (resolve_product_slug slug) (\<lambda>product_id. endpoint_or_404 product_id endpoint_id)"

fun patch_entry :: "string \<Rightarrow> ('a \<Rightarrow> json) \<Rightarrow> 'a patch \<Rightarrow> dict" where
  "patch_entry k f Unset = []"
| "patch_entry k f Null = [(k, JNull)]"
| "patch_entry k f (Given a) = [(k, f a)]"

fun valid_patch :: "('a \<Rightarrow> app_error + 'a) \<Rightarrow> 'a patch \<Rightarrow> app_error + 'a patch" where
  "valid_patch v (Given a) = map_sum id Given (v a)"
| "valid_patch v p = Inr p"

definition update_webhook :: "string \<Rightarrow> uuid \<Rightarrow> endpoint_patch \<Rightarrow> WebhookEndpoint service" where
  "update_webhook slug endpoint_id payload =
     bindS (liftE (valid_patch validate_url (ep_url payload))) (\<lambda>url.
     bindS (liftE (valid_patch validate_events (ep_events payload))) (\<lambda>events.
     let changes = payload\<lparr>ep_url := url, ep_events := events\<rparr> in
     bindS (resolve_product_slug slug) (\<lambda>product_id.
     bindS (update_endpoint product_id endpoint_id changes) (\<lambda>endpoint.
     bindS (record_audit (endpoint_audit ''webhook.update'' product_id endpoint
              (patch_entry ''url'' JStr (ep_url changes) @ patch_entry ''description'' JStr (ep_description changes) @
               patch_entry ''events'' (\<lambda>es. JList (map JStr es)) (ep_events changes) @
               patch_entry ''is_active'' JBool (ep_is_active changes)))) (\<lambda>_.
     ret endpoint)))))"

definition delete_webhook :: "string \<Rightarrow> uuid \<Rightarrow> WebhookEndpoint service" where
  "delete_webhook slug endpoint_id =
     bindS (resolve_product_slug slug) (\<lambda>product_id.
     bindS (delete_endpoint product_id endpoint_id) (\<lambda>endpoint.
     bindS (record_audit (endpoint_audit ''webhook.delete'' product_id endpoint [(''is_active'', JBool False)])) (\<lambda>_.
     ret endpoint)))"

definition list_deliveries :: "string \<Rightarrow> uuid \<Rightarrow> int \<Rightarrow> WebhookDelivery list service" where
  "list_deliveries slug endpoint_id limit =
     bindS (resolve_product_slug slug) (\<lambda>product_id. recent_deliveries product_id endpoint_id limit)"

definition test_webhook :: "string \<Rightarrow> uuid \<Rightarrow> WebhookDelivery service" where
  "test_webhook slug endpoint_id =
     bindS (resolve_product_slug slug) (\<lambda>product_id.
     bindS (endpoint_or_404 product_id endpoint_id) (\<lambda>endpoint.
     let payload = [(''event'', JStr ''webhook.test''), (''endpoint_id'', JStr (uuid_str (WebhookEndpoint_id endpoint))),
           (''message'', JStr ''If you can read this, your endpoint is wired up.'')] in
     bindS (queue_delivery product_id ''webhook.test'' payload None endpoint) (\<lambda>delivery.
     bindS (record_audit (endpoint_audit ''webhook.test_dispatched'' product_id endpoint
              [(''delivery_id'', JStr (uuid_str (WebhookDelivery_id delivery)))])) (\<lambda>_.
     ret delivery))))"


section \<open>What the filters and the fan-out do\<close>

text \<open>The filter rules as the subscriber reads them.\<close>

definition subscribed :: "string list \<Rightarrow> string \<Rightarrow> bool" where
  "subscribed events e \<longleftrightarrow> events = [] \<or>
     (\<exists>f \<in> set events. f = ''*'' \<or> f = e \<or> (\<exists>q. f = q @ ''.*'' \<and> (e = q \<or> (\<exists>r. e = q @ ''.'' @ r))))"

lemma ends_with_iff: "length s \<le> length t \<and> drop (length t - length s) t = s \<longleftrightarrow> (\<exists>q. t = q @ s)"
  by (metis append_take_drop_id append_eq_conv_conj diff_diff_cancel length_append length_drop le_add2 add_diff_cancel_right')

lemma starts_with_iff: "take (length s) t = s \<longleftrightarrow> (\<exists>r. t = s @ r)"
  by (metis append_eq_conv_conj append_take_drop_id)

lemma event_matches_iff:
  "event_matches f e \<longleftrightarrow> f = ''*'' \<or> f = e \<or> (\<exists>q. f = q @ ''.*'' \<and> (e = q \<or> (\<exists>r. e = q @ ''.'' @ r)))"
proof (cases "\<exists>q. f = q @ ''.*''")
  case True
  then obtain q where q: "f = q @ ''.*''" by blast
  have "take (length q + 1) e = q @ ''.'' \<longleftrightarrow> (\<exists>r. e = q @ ''.'' @ r)"
    using starts_with_iff [of "q @ ''.''" e] by simp
  then show ?thesis by (auto simp: event_matches_def q)
next
  case False
  have "\<not> (2 \<le> length f \<and> drop (length f - 2) f = ''.*'')"
    using False ends_with_iff [of "''.*''" f] by (simp add: numeral_2_eq_2)
  then show ?thesis using False unfolding event_matches_def by (simp only: if_False) simp
qed

lemma endpoint_accepts_iff: "endpoint_accepts ep e \<longleftrightarrow> subscribed (WebhookEndpoint_events ep) e"
  by (simp add: endpoint_accepts_def subscribed_def event_matches_iff)

lemma queue_delivery_apply:
  "queue_delivery p e payload rid ep w = (Inr (new_delivery p e payload rid (WebhookEndpoint_id ep) (draws w (draw_no w)) (now w)),
     w\<lparr>draw_no := Suc (draw_no w), db := webhook_deliveries_update
       (\<lambda>ds. ds @ [new_delivery p e payload rid (WebhookEndpoint_id ep) (draws w (draw_no w)) (now w)]) (db w)\<rparr>)"
  by (simp add: queue_delivery_def svc_simps Let_def)

text \<open>The rows a fan-out over \<open>eps\<close> appends, when \<open>k\<close> values have been drawn.\<close>

fun queued :: "(uuid \<Rightarrow> uuid \<Rightarrow> WebhookDelivery) \<Rightarrow> (nat \<Rightarrow> nat) \<Rightarrow> nat \<Rightarrow> WebhookEndpoint list \<Rightarrow> WebhookDelivery list" where
  "queued mk f k [] = []"
| "queued mk f k (ep # eps) = mk (WebhookEndpoint_id ep) (f k) # queued mk f (Suc k) eps"

lemma queue_deliveries:
  "mapS eps (queue_delivery p e payload rid) w =
    (let ds = queued (\<lambda>i d. new_delivery p e payload rid i d (now w)) (draws w) (draw_no w) eps
     in (Inr ds, w\<lparr>draw_no := draw_no w + length eps, db := webhook_deliveries_update (\<lambda>rs. rs @ ds) (db w)\<rparr>))"
  by (induction eps arbitrary: w) (simp_all add: svc_simps queue_delivery_apply Let_def)

lemma queued_endpoints: "map WebhookDelivery_endpoint_id (queued (\<lambda>i d. new_delivery p e payload rid i d t) f k eps) = map WebhookEndpoint_id eps"
  by (induction eps arbitrary: k) (simp_all add: new_delivery_def)

lemma queued_fields:
  "d \<in> set (queued (\<lambda>i d. new_delivery p e payload rid i d t) f k eps) \<Longrightarrow> WebhookDelivery_product_id d = p \<and>
     WebhookDelivery_event_type d = e \<and> WebhookDelivery_payload d = payload \<and> WebhookDelivery_status d = ''pending'' \<and>
     WebhookDelivery_attempt d = 0 \<and> WebhookDelivery_created_at d = t"
  by (induction eps arbitrary: k) (auto simp: new_delivery_def)

text \<open>A fan-out reaches exactly the subscribers. \<open>dispatch\<close> always returns; it queues one pending delivery of the
  event and payload for every active endpoint of the product that is subscribed to the event, newest endpoint
  first, and for no other endpoint, and writes nothing else to the database. An endpoint without filters is
  subscribed to everything; a filter is the event itself, \<^verbatim>\<open>*\<close>, or a prefix with
  \<^verbatim>\<open>.*\<close>, which covers the prefix itself and every event below it, however deep.\<close>

lemma dispatch_exact:
  "\<exists>ds w'. dispatch p e payload rid w = (Inr ds, w') \<and>
     db w' = webhook_deliveries_update (\<lambda>rs. rs @ ds) (db w) \<and>
     map WebhookDelivery_endpoint_id ds =
       map WebhookEndpoint_id (filter (\<lambda>ep. WebhookEndpoint_is_active ep \<and> subscribed (WebhookEndpoint_events ep) e)
         (sort_key (\<lambda>ep. - WebhookEndpoint_created_at ep)
           (filter (\<lambda>ep. WebhookEndpoint_product_id ep = p) (webhook_endpoints (db w))))) \<and>
     list_all (\<lambda>d. WebhookDelivery_product_id d = p \<and> WebhookDelivery_event_type d = e \<and>
        WebhookDelivery_payload d = payload \<and> WebhookDelivery_status d = ''pending'' \<and>
        WebhookDelivery_attempt d = 0 \<and> WebhookDelivery_created_at d = now w) ds"
proof -
  let ?eps = "filter (\<lambda>ep. WebhookEndpoint_is_active ep \<and> subscribed (WebhookEndpoint_events ep) e)
     (sort_key (\<lambda>ep. - WebhookEndpoint_created_at ep) (filter (\<lambda>ep. WebhookEndpoint_product_id ep = p) (webhook_endpoints (db w))))"
  let ?ds = "queued (\<lambda>i d. new_delivery p e payload rid i d (now w)) (draws w) (draw_no w) ?eps"
  have "dispatch p e payload rid w = (Inr ?ds, w\<lparr>draw_no := draw_no w + length ?eps, db := webhook_deliveries_update (\<lambda>rs. rs @ ?ds) (db w)\<rparr>)"
    unfolding dispatch_def endpoint_accepts_iff by (simp add: endpoints_of_def svc_simps queue_deliveries Let_def)
  then show ?thesis
    by (intro exI [of _ ?ds] exI conjI, assumption) (simp_all add: list_all_iff queued_endpoints queued_fields)
qed


section \<open>How long a stored body gets\<close>

lemma utf8_length_append [simp]: "utf8_length (s @ t) = utf8_length s + utf8_length t"
  by (simp add: utf8_length_def)

lemma utf8_length_take: "utf8_length (take m s) \<le> utf8_length s"
  using utf8_length_append [of "take m s" "drop m s"] by simp

lemma utf8_length_ge: "length s \<le> utf8_length s"
  by (induction s) (simp_all add: utf8_length_def char_bytes_def)

lemma utf8_length_take_mono: "m \<le> n \<Longrightarrow> utf8_length (take m s) \<le> utf8_length (take n s)"
  using utf8_length_take [of m "take n s"] by (simp add: min_absorb1)

lemma shrink_longest:
  "\<exists>n \<le> length s. shrink s = take n s \<and> utf8_length (take n s) \<le> MAX_RESPONSE_BODY_BYTES \<and>
     (\<forall>m \<le> length s. utf8_length (take m s) \<le> MAX_RESPONSE_BODY_BYTES \<longrightarrow> m \<le> n)"
proof (induction s rule: shrink.induct)
  case (1 s)
  show ?case
  proof (cases "utf8_length s > MAX_RESPONSE_BODY_BYTES")
    case True
    then obtain n where n: "n \<le> length s - 1" "shrink (butlast s) = take n (butlast s)"
      "utf8_length (take n (butlast s)) \<le> MAX_RESPONSE_BODY_BYTES"
      "\<forall>m \<le> length s - 1. utf8_length (take m (butlast s)) \<le> MAX_RESPONSE_BODY_BYTES \<longrightarrow> m \<le> n"
      using "1.IH" by auto
    have eq: "take m (butlast s) = take m s" if "m \<le> length s - 1" for m
      using that by (simp add: butlast_conv_take)
    have "m \<le> n" if "m \<le> length s" "utf8_length (take m s) \<le> MAX_RESPONSE_BODY_BYTES" for m
    proof (cases "m = length s")
      case False
      then show ?thesis using that n(4) eq [of m] by auto
    qed (use that True in simp)
    moreover have "shrink s = shrink (butlast s)" using True by (subst shrink.simps) simp
    ultimately show ?thesis
      using n eq [OF n(1)] by (intro exI [of _ n]) auto
  next
    case False
    then show ?thesis by (intro exI [of _ "length s"]) (simp add: shrink.simps)
  qed
qed

text \<open>What is stored of a response. A body of at most 4 KB is stored as it is. Of a longer one the longest
  prefix that fits into 4 KB of UTF-8 is stored, cut between characters, followed by the marker; the stored text
  has at most 4110 bytes, and with the marker it does go beyond the 4096 of the limit.\<close>

lemma truncate_response_body_bounds:
  "truncate_response_body None = None \<and>
   truncate_response_body (Some b) = Some (if utf8_length b \<le> MAX_RESPONSE_BODY_BYTES then b
     else take (Max {m. m \<le> length b \<and> utf8_length (take m b) \<le> MAX_RESPONSE_BODY_BYTES}) b @ TRUNCATED) \<and>
   utf8_length (the (truncate_response_body (Some b))) \<le> MAX_RESPONSE_BODY_BYTES + 14 \<and>
   utf8_length (the (truncate_response_body (Some (replicate 5000 97)))) = MAX_RESPONSE_BODY_BYTES + 14"
proof -
  have marker: "utf8_length TRUNCATED = 14"
    by (simp add: TRUNCATED_def utf8_length_def char_bytes_def)
  have cut: "shrink (take MAX_RESPONSE_BODY_BYTES b) = take (Max {m. m \<le> length b \<and> utf8_length (take m b) \<le> MAX_RESPONSE_BODY_BYTES}) b"
    and len: "utf8_length (shrink (take MAX_RESPONSE_BODY_BYTES b)) \<le> MAX_RESPONSE_BODY_BYTES" for b
  proof -
    let ?t = "take MAX_RESPONSE_BODY_BYTES b" and ?M = "{m. m \<le> length b \<and> utf8_length (take m b) \<le> MAX_RESPONSE_BODY_BYTES}"
    obtain n where n: "n \<le> length ?t" "shrink ?t = take n ?t" "utf8_length (take n ?t) \<le> MAX_RESPONSE_BODY_BYTES"
      "\<forall>m \<le> length ?t. utf8_length (take m ?t) \<le> MAX_RESPONSE_BODY_BYTES \<longrightarrow> m \<le> n"
      using shrink_longest [of ?t] by blast
    have sub: "m \<le> length ?t \<and> take m ?t = take m b" if "m \<in> ?M" for m
      using that utf8_length_ge [of "take m b"] by (simp add: min_absorb1 min_absorb2)
    have nt: "take n ?t = take n b" using n(1) by (simp add: min_absorb1)
    have "Max ?M = n"
    proof (rule Max_eqI)
      show "finite ?M" by simp
      show "m \<le> n" if "m \<in> ?M" for m
        using sub [OF that] that n(4) by simp
      show "n \<in> ?M" using n(1,3) nt by simp
    qed
    then show "shrink ?t = take (Max ?M) b" using n(2) nt by simp
    show "utf8_length (shrink ?t) \<le> MAX_RESPONSE_BODY_BYTES" using n(2,3) by simp
  qed
  have "utf8_length (the (truncate_response_body (Some b))) \<le> MAX_RESPONSE_BODY_BYTES + 14"
    using len [of b] by (simp add: truncate_response_body_def marker)
  moreover have "utf8_length (replicate n 97) = n" for n
    by (simp add: utf8_length_def char_bytes_def sum_list_replicate)
  moreover from this have "shrink (replicate 4096 97) = replicate 4096 97"
    by (subst shrink.simps) (simp add: MAX_RESPONSE_BODY_BYTES_def)
  ultimately show ?thesis
    by (simp add: truncate_response_body_def cut) (simp add: cut [symmetric] MAX_RESPONSE_BODY_BYTES_def marker)
qed

end
