(* ===== verification/RateLimit.thy ===== *)
theory RateLimit
  imports Security
begin

text \<open>
  The rate limit of \<^verbatim>\<open>app/middleware/rate_limit.py\<close>: a sorted set per client and path in
  Redis. The state is what Redis holds, instants are milliseconds. A call of the middleware takes the
  request and the instant, and whether Redis answers.
\<close>

section \<open>The sorted sets\<close>

definition WINDOW_SECONDS :: int where
  "WINDOW_SECONDS = 60"

record http_request =
  rq_path :: string
  rq_forwarded_for :: "string option"
  rq_client_host :: "string option"
  rq_object_id :: nat

definition client_key :: "http_request \<Rightarrow> string" where
  "client_key r =
     (let ip = (if truthy (rq_forwarded_for r) then str_strip (takeWhile (\<lambda>c. c \<noteq> CHR '','') (the (rq_forwarded_for r)))
                else case rq_client_host r of Some h \<Rightarrow> h | None \<Rightarrow> ''anon'')
      in ''rl:'' @ ip @ '':'' @ rq_path r)"

text \<open>Members with their scores under each key, and the instant the key expires.\<close>

record zsets =
  members :: "string \<Rightarrow> (string \<times> int) list"
  deadline :: "string \<Rightarrow> int"

definition no_zsets :: zsets where
  "no_zsets = \<lparr>members = (\<lambda>_. []), deadline = (\<lambda>_. 0)\<rparr>"

definition zset :: "zsets \<Rightarrow> string \<Rightarrow> int \<Rightarrow> (string \<times> int) list" where
  "zset z k t = (if deadline z k \<le> t then [] else members z k)"

definition zadd :: "string \<Rightarrow> int \<Rightarrow> (string \<times> int) list \<Rightarrow> (string \<times> int) list" where
  "zadd m s xs = filter (\<lambda>(m', _). m' \<noteq> m) xs @ [(m, s)]"

definition zremrangebyscore :: "int \<Rightarrow> int \<Rightarrow> (string \<times> int) list \<Rightarrow> (string \<times> int) list" where
  "zremrangebyscore lo hi xs = filter (\<lambda>(_, s). \<not> (lo \<le> s \<and> s \<le> hi)) xs"

definition member_of :: "http_request \<Rightarrow> int \<Rightarrow> string" where
  "member_of r now_ms = int_str now_ms @ '':'' @ int_str (int (rq_object_id r))"


section \<open>The middleware\<close>

text \<open>What becomes of a request: it goes on to the application, with the limit and what remains of it
  in the headers, or without when it was not counted; or it is answered 429.\<close>

datatype verdict = Uncounted | Within int int | Exceeded

definition exempt :: "http_request \<Rightarrow> bool" where
  "exempt r \<longleftrightarrow> rq_path r = ''/health'' \<or> rq_path r = ''/ready''"

definition rate_limit :: "int \<Rightarrow> bool \<Rightarrow> http_request \<Rightarrow> int \<Rightarrow> zsets \<Rightarrow> verdict \<times> zsets" where
  "rate_limit limit available r now_ms z =
     (if exempt r \<or> \<not> available then (Uncounted, z)
      else
      let key = client_key r;
          cutoff = now_ms - WINDOW_SECONDS * 1000;
          window = zadd (member_of r now_ms) now_ms (zremrangebyscore 0 cutoff (zset z key now_ms));
          count = int (length window);
          z' = \<lparr>members = (members z)(key := window), deadline = (deadline z)(key := now_ms + (WINDOW_SECONDS + 5) * 1000)\<rparr>
      in if count > limit then (Exceeded, z') else (Within limit (max 0 (limit - count)), z'))"

fun serve :: "int \<Rightarrow> (http_request \<times> int) list \<Rightarrow> zsets \<Rightarrow> verdict list \<times> zsets" where
  "serve limit [] z = ([], z)"
| "serve limit ((r, t) # rs) z =
     (let (v, z') = rate_limit limit True r t z; (vs, z'') = serve limit rs z' in (v # vs, z''))"


section \<open>The sliding window\<close>

text \<open>The requests counted under a key, as members with scores.\<close>

definition counted :: "(http_request \<times> int) list \<Rightarrow> string \<Rightarrow> (string \<times> int) list" where
  "counted xs k = map (\<lambda>(r, t). (member_of r t, t)) (filter (\<lambda>(r, _). \<not> exempt r \<and> client_key r = k) xs)"

definition window :: "int \<Rightarrow> (string \<times> int) list \<Rightarrow> (string \<times> int) list" where
  "window t ms = filter (\<lambda>(_, s). t - WINDOW_SECONDS * 1000 < s) ms"

text \<open>A clock that does not run backwards, and member names that do not repeat.\<close>

definition clocked :: "(http_request \<times> int) list \<Rightarrow> bool" where
  "clocked xs \<longleftrightarrow> sorted (map snd xs) \<and> (\<forall>(_, t) \<in> set xs. 0 \<le> t) \<and> distinct (map (\<lambda>(r, t). member_of r t) xs)"

text \<open>What Redis holds after the requests \<open>xs\<close>: within the window of any later instant, exactly the
  requests counted.\<close>

definition zsets_ok :: "(http_request \<times> int) list \<Rightarrow> zsets \<Rightarrow> bool" where
  "zsets_ok xs z \<longleftrightarrow> (\<forall>k t. (\<forall>(_, s) \<in> set xs. s \<le> t) \<longrightarrow>
     window t (zset z k t) = window t (counted xs k)) \<and> (\<forall>k. \<forall>(_, s) \<in> set (members z k). 0 \<le> s)"

lemma window_append [simp]: "window t (xs @ ys) = window t xs @ window t ys"
  by (simp add: window_def)

lemma counted_snoc: "counted (xs @ [(r, t)]) k =
    counted xs k @ (if \<not> exempt r \<and> client_key r = k then [(member_of r t, t)] else [])"
  by (simp add: counted_def)

lemma zrem_window: "(\<forall>(_, s) \<in> set ms. 0 \<le> s) \<Longrightarrow> zremrangebyscore 0 (t - WINDOW_SECONDS * 1000) ms = window t ms"
  by (induction ms) (auto simp: zremrangebyscore_def window_def)

lemma zadd_fresh: "m \<notin> fst ` set ms \<Longrightarrow> zadd m s ms = ms @ [(m, s)]"
  by (force simp: zadd_def intro: filter_True)

text \<open>The set a counted request leaves under its key.\<close>

lemma rate_limit_step:
  assumes ok: "zsets_ok xs z" and clock: "clocked (xs @ [(r, t)])" and r: "\<not> exempt r"
  shows "zadd (member_of r t) t (zremrangebyscore 0 (t - WINDOW_SECONDS * 1000) (zset z (client_key r) t)) =
    window t (counted (xs @ [(r, t)]) (client_key r))"
proof -
  have late: "\<forall>(_, s) \<in> set xs. s \<le> t" using clock by (auto simp: clocked_def sorted_append)
  have "\<forall>(_, s) \<in> set (zset z (client_key r) t). 0 \<le> s" using ok by (auto simp: zsets_ok_def zset_def)
  then have rem: "zremrangebyscore 0 (t - WINDOW_SECONDS * 1000) (zset z (client_key r) t) = window t (counted xs (client_key r))"
    using zrem_window ok late by (simp add: zsets_ok_def)
  have "member_of r t \<notin> (\<lambda>(r, t). member_of r t) ` set xs" using clock by (simp add: clocked_def)
  then have "member_of r t \<notin> fst ` set (window t (counted xs (client_key r)))"
    by (auto simp: window_def counted_def)
  then show ?thesis
    using r by (simp add: rem zadd_fresh counted_snoc) (simp add: window_def WINDOW_SECONDS_def)
qed

lemma window_later: "t \<le> u \<Longrightarrow> window u (window t ms) = window u ms"
  by (auto simp: window_def intro!: filter_cong)

lemma zsets_ok_step:
  assumes ok: "zsets_ok xs z" and clock: "clocked (xs @ [(r, t)])"
  shows "zsets_ok (xs @ [(r, t)]) (snd (rate_limit limit True r t z))"
proof (cases "exempt r")
  case True
  then show ?thesis
    using ok by (simp add: rate_limit_def zsets_ok_def counted_snoc)
next
  case False
  let ?k = "client_key r" and ?W = "window t (counted (xs @ [(r, t)]) (client_key r))"
  let ?z = "\<lparr>members = (members z)(?k := ?W), deadline = (deadline z)(?k := t + (WINDOW_SECONDS + 5) * 1000)\<rparr>"
  have z: "snd (rate_limit limit True r t z) = ?z"
    using False rate_limit_step [OF ok clock False] by (simp add: rate_limit_def Let_def)
  have late: "s \<le> t" if "(q, s) \<in> set (xs @ [(r, t)])" for q s
    using clock that by (auto simp: clocked_def sorted_append)
  have "window u (zset ?z k u) = window u (counted (xs @ [(r, t)]) k)" if u: "\<forall>(_, s) \<in> set (xs @ [(r, t)]). s \<le> u" for k u
  proof (cases "k = ?k")
    case True
    show ?thesis
    proof (cases "t + (WINDOW_SECONDS + 5) * 1000 \<le> u")
      case expired: True
      have "window u (counted (xs @ [(r, t)]) k) = []"
        using late expired by (fastforce simp: window_def counted_def filter_empty_conv WINDOW_SECONDS_def)
      then show ?thesis using True expired by (simp add: zset_def) (simp add: window_def)
    next
      case False
      have "t \<le> u" using u by simp
      then show ?thesis using True False by (simp add: zset_def window_later)
    qed
  next
    case False
    have "zset ?z k u = zset z k u" "counted (xs @ [(r, t)]) k = counted xs k"
      using False by (simp_all add: zset_def counted_snoc)
    then show ?thesis using ok u by (simp add: zsets_ok_def)
  qed
  moreover have "\<forall>(_, s) \<in> set (members ?z k). 0 \<le> s" for k
  proof (cases "k = ?k")
    case True
    have "0 \<le> s" if "(m, s) \<in> set (counted (xs @ [(r, t)]) ?k)" for m s
    proof -
      have "\<exists>q. (q, s) \<in> set (xs @ [(r, t)])" using that by (auto simp: counted_def split: if_splits)
      then show ?thesis using clock unfolding clocked_def by blast
    qed
    then show ?thesis using True by (auto simp: window_def)
  qed (use ok in \<open>simp add: zsets_ok_def\<close>)
  ultimately show ?thesis unfolding z zsets_ok_def by blast
qed


lemma serve_snoc: "serve limit (xs @ [(r, t)]) z =
    (fst (serve limit xs z) @ [fst (rate_limit limit True r t (snd (serve limit xs z)))],
     snd (rate_limit limit True r t (snd (serve limit xs z))))"
  by (induction xs arbitrary: z) (auto simp: split_beta Let_def)

lemma clocked_butlast: "clocked (xs @ [x]) \<Longrightarrow> clocked xs"
  by (auto simp: clocked_def sorted_append)

lemma zsets_ok_empty: "zsets_ok [] no_zsets"
  by (simp add: zsets_ok_def no_zsets_def zset_def counted_def window_def)

lemma serve_ok: "clocked xs \<Longrightarrow> zsets_ok xs (snd (serve limit xs no_zsets))"
proof (induction xs rule: rev_induct)
  case (snoc x xs)
  obtain r t where x: "x = (r, t)" by (cases x)
  have "zsets_ok (xs @ [(r, t)]) (snd (rate_limit limit True r t (snd (serve limit xs no_zsets))))"
    using zsets_ok_step snoc clocked_butlast unfolding x by blast
  then show ?case by (simp add: x serve_snoc)
qed (simp add: zsets_ok_empty)

lemma serve_length: "length (fst (serve limit xs z)) = length xs"
  by (induction xs arbitrary: z) (auto simp: split_beta Let_def)

text \<open>The number of requests of the client on the path in the minute up to and including the last one.\<close>

definition minute_count :: "(http_request \<times> int) list \<Rightarrow> int" where
  "minute_count xs = (case last xs of (r, t) \<Rightarrow> int (length (window t (counted xs (client_key r)))))"

definition verdict_of :: "int \<Rightarrow> (http_request \<times> int) list \<Rightarrow> verdict" where
  "verdict_of limit xs = (if exempt (fst (last xs)) then Uncounted
     else if minute_count xs > limit then Exceeded else Within limit (max 0 (limit - minute_count xs)))"

lemma serve_last:
  assumes "clocked (xs @ [(r, t)])"
  shows "fst (rate_limit limit True r t (snd (serve limit xs no_zsets))) = verdict_of limit (xs @ [(r, t)])"
proof (cases "exempt r")
  case False
  show ?thesis
    using False rate_limit_step [OF serve_ok [OF clocked_butlast [OF assms]] assms False]
    by (simp add: rate_limit_def Let_def verdict_of_def minute_count_def)
qed (simp add: rate_limit_def verdict_of_def)

lemma serve_verdicts:
  "clocked xs \<Longrightarrow> fst (serve limit xs no_zsets) = map (\<lambda>i. verdict_of limit (take (Suc i) xs)) [0..<length xs]"
proof (induction xs rule: rev_induct)
  case (snoc x xs)
  obtain r t where x: "x = (r, t)" by (cases x)
  obtain vs z where s: "serve limit xs no_zsets = (vs, z)" by (cases "serve limit xs no_zsets")
  have "fst (serve limit (xs @ [x]) no_zsets) = vs @ [verdict_of limit (xs @ [x])]"
    using serve_last [of xs r t limit] snoc.prems by (simp add: x serve_snoc s)
  moreover have "vs = map (\<lambda>i. verdict_of limit (take (Suc i) xs)) [0..<length xs]"
    using snoc.IH [OF clocked_butlast [OF snoc.prems]] s by simp
  ultimately show ?case by (simp cong: map_cong)
qed simp

definition admitted :: "string \<Rightarrow> int \<Rightarrow> (http_request \<times> int) \<times> verdict \<Rightarrow> bool" where
  "admitted k u x = (case x of ((r, t), v) \<Rightarrow> (\<exists>a b. v = Within a b) \<and> client_key r = k \<and> u - WINDOW_SECONDS * 1000 < t \<and> t \<le> u)"

lemma admitted_counted:
  assumes "clocked xs" and "t \<le> u"
  shows "length (filter (admitted k u) (zip xs (fst (serve limit xs no_zsets)))) \<le> length (window t (counted xs k))"
  using assms(1)
proof (induction xs rule: rev_induct)
  case (snoc x xs)
  obtain r s where x: "x = (r, s)" by (cases x)
  obtain vs z where sv: "serve limit xs no_zsets = (vs, z)" by (cases "serve limit xs no_zsets")
  have len: "length vs = length xs" using serve_length [of limit xs no_zsets] sv by simp
  have v: "fst (serve limit (xs @ [(r, s)]) no_zsets) = vs @ [verdict_of limit (xs @ [(r, s)])]"
    using serve_last [of xs r s limit] snoc.prems by (simp add: x serve_snoc sv)
  have "length (filter (admitted k u) (zip xs vs)) \<le> length (window t (counted xs k))"
    using snoc.IH [OF clocked_butlast [OF snoc.prems]] sv by simp
  moreover have "window t (counted (xs @ [(r, s)]) k) = window t (counted xs k) @ [(member_of r s, s)]"
    if "admitted k u ((r, s), verdict_of limit (xs @ [(r, s)]))"
  proof -
    have "\<not> exempt r" "client_key r = k" "t - WINDOW_SECONDS * 1000 < s"
      using that assms(2) by (auto simp: admitted_def verdict_of_def)
    then show ?thesis by (simp add: counted_snoc) (simp add: window_def)
  qed
  moreover have "length (window t (counted xs k)) \<le> length (window t (counted (xs @ [(r, s)]) k))"
    by (simp add: counted_snoc)
  ultimately show ?case
    using len by (simp add: x v)
qed (simp add: counted_def)


definition sample_hit :: "nat \<Rightarrow> http_request" where
  "sample_hit n = \<lparr>rq_path = ''/x'', rq_forwarded_for = None, rq_client_host = Some ''h'', rq_object_id = n\<rparr>"


end
