(* ===== verification/Reminders.thy ===== *)
theory Reminders
  imports Interfaces Samples
begin

text \<open>
  The payment reminders of the worker: \<^verbatim>\<open>app/tasks/payment_reminders.py\<close>, over the
  reminder keys in Redis and the mails handed to the notification provider.
\<close>

section \<open>Sending reminders\<close>

definition REMINDER_OFFSETS_DAYS :: "int list" where
  "REMINDER_OFFSETS_DAYS = [-3, 0, 3, 7]"

text \<open>\<^verbatim>\<open>SET key 1 NX EX\<close> on the key of invoice and offset: true when the key was there.\<close>

definition reminder_key_at :: "uuid \<Rightarrow> int \<Rightarrow> world \<Rightarrow> bool" where
  "reminder_key_at invoice_id offset w \<longleftrightarrow> (\<exists>(k, e) \<in> set (reminder_keys w). k = (invoice_id, offset) \<and> now w < e)"

definition already_sent :: "uuid \<Rightarrow> int \<Rightarrow> bool service" where
  "already_sent invoice_id offset =
     bindS (gets redis_up) (\<lambda>up.
     if \<not> up then raise (RuntimeError ''redis unavailable'')
     else
     bindS (gets (reminder_key_at invoice_id offset)) (\<lambda>seen.
     if seen then ret True
     else
     bindS (modify (\<lambda>w. w\<lparr>reminder_keys := ((invoice_id, offset), now w + seconds (60 * 60 * 24 * 30)) # reminder_keys w\<rparr>)) (\<lambda>_.
     ret False)))"

definition days_to_due :: "Invoice \<Rightarrow> time \<Rightarrow> int" where
  "days_to_due iv t = date_of (Invoice_due_at iv) - date_of t"

definition reminder_mail :: "Invoice \<Rightarrow> Tenant \<Rightarrow> User \<Rightarrow> int \<Rightarrow> string \<times> dict" where
  "reminder_mail iv tenant owner d = (User_email owner,
     [(''tenant'', JStr (Tenant_name tenant)), (''amount_cents'', JInt (Invoice_amount_cents iv)),
      (''currency'', JStr (Invoice_currency iv)), (''due_at'', JTime (Invoice_due_at iv)),
      (''days_to_due'', JInt d), (''hosted_url'', jopt JStr (Invoice_hosted_invoice_url iv))])"

definition send_email :: "string \<times> dict \<Rightarrow> unit service" where
  "send_email m = modify (\<lambda>w. w\<lparr>sent_mail := sent_mail w @ [m]\<rparr>)"

text \<open>One round of the loop; the result counts a mail.\<close>

definition remind :: "time \<Rightarrow> Invoice \<Rightarrow> int service" where
  "remind t iv =
     (if days_to_due iv t \<notin> set REMINDER_OFFSETS_DAYS then ret 0
      else
      bindS (already_sent (Invoice_id iv) (days_to_due iv t)) (\<lambda>sent.
      if sent then ret 0
      else
      bindS (scalar tenants (\<lambda>x. Tenant_id x = Invoice_tenant_id iv)) (\<lambda>tenant.
      bindS (scalar users (\<lambda>u. User_tenant_id u = Invoice_tenant_id iv \<and> User_is_active u)) (\<lambda>owner.
      case (tenant, owner) of
        (Some x, Some u) \<Rightarrow> bindS (send_email (reminder_mail iv x u (days_to_due iv t))) (\<lambda>_. ret 1)
      | _ \<Rightarrow> ret 0))))"

definition dispatch_due_reminders :: "time \<Rightarrow> int service" where
  "dispatch_due_reminders t =
     bindS (scalars invoices (\<lambda>i. Invoice_status i \<in> {InvOpen, InvDraft})) (\<lambda>invs.
     bindS (mapS invs (remind t)) (\<lambda>ns. ret (sum_list ns)))"

fun first_target :: "time \<Rightarrow> time \<Rightarrow> int list \<Rightarrow> time option" where
  "first_target due_at today [] = None"
| "first_target due_at today (offset # offsets) =
     (if date_of (due_at + days offset) \<ge> date_of today then Some (due_at + days offset)
      else first_target due_at today offsets)"

definition next_reminder_at :: "time \<Rightarrow> time \<Rightarrow> time option" where
  "next_reminder_at due_at today = first_target due_at today REMINDER_OFFSETS_DAYS"

definition task_send_payment_reminders :: "int service" where
  "task_send_payment_reminders = session_scope (bindS (gets now) dispatch_due_reminders)"


section \<open>Which reminders go out\<close>

text \<open>The mail an invoice is due on a day: when the day is at an offset, and tenant and owner are there.\<close>

definition owed_mail :: "database \<Rightarrow> time \<Rightarrow> Invoice \<Rightarrow> (string \<times> dict) option" where
  "owed_mail d t iv =
     (if days_to_due iv t \<notin> set REMINDER_OFFSETS_DAYS then None
      else case (List.find (\<lambda>x. Tenant_id x = Invoice_tenant_id iv) (tenants d),
                 List.find (\<lambda>u. User_tenant_id u = Invoice_tenant_id iv \<and> User_is_active u) (users d)) of
        (Some x, Some u) \<Rightarrow> Some (reminder_mail iv x u (days_to_due iv t))
      | _ \<Rightarrow> None)"

lemma remind_keyed:
  "redis_up w \<Longrightarrow> reminder_key_at (Invoice_id iv) (days_to_due iv t) w \<Longrightarrow> remind t iv w = (Inr 0, w)"
  by (simp add: remind_def already_sent_def svc_simps)

text \<open>One round: a fresh key at an offset is taken and the mail goes out when it is owed.\<close>

lemma remind_cases:
  assumes "redis_up w"
  obtains (skip) "days_to_due iv t \<notin> set REMINDER_OFFSETS_DAYS \<or> reminder_key_at (Invoice_id iv) (days_to_due iv t) w"
      "remind t iv w = (Inr 0, w)"
  | (taken) "days_to_due iv t \<in> set REMINDER_OFFSETS_DAYS" "\<not> reminder_key_at (Invoice_id iv) (days_to_due iv t) w"
      "remind t iv w = (Inr (if owed_mail (db w) t iv = None then 0 else 1),
         w\<lparr>reminder_keys := ((Invoice_id iv, days_to_due iv t), now w + seconds (60 * 60 * 24 * 30)) # reminder_keys w,
           sent_mail := sent_mail w @ (case owed_mail (db w) t iv of None \<Rightarrow> [] | Some m \<Rightarrow> [m])\<rparr>)"
proof (cases "days_to_due iv t \<in> set REMINDER_OFFSETS_DAYS \<and> \<not> reminder_key_at (Invoice_id iv) (days_to_due iv t) w")
  case True
  then show ?thesis
    using assms by (intro taken)
      (auto simp: remind_def already_sent_def owed_mail_def send_email_def svc_simps split: option.splits)
next
  case False
  then show ?thesis
    using assms remind_keyed [OF assms, of iv t] by (intro skip) (auto simp: remind_def svc_simps)
qed

text \<open>The mails of one run: of the open invoices whose key is still free, those owed a mail today.\<close>

definition run_mails :: "world \<Rightarrow> time \<Rightarrow> Invoice list \<Rightarrow> (string \<times> dict) list" where
  "run_mails w t ivs = List.map_filter (\<lambda>iv. if reminder_key_at (Invoice_id iv) (days_to_due iv t) w then None else owed_mail (db w) t iv) ivs"

lemma map_filter_cong_set: "(\<And>x. x \<in> set xs \<Longrightarrow> f x = g x) \<Longrightarrow> List.map_filter f xs = List.map_filter g xs"
  by (induction xs) (auto simp: map_filter_simps split: option.splits)

lemma reminder_key_at_taken:
  "reminder_key_at i d (w\<lparr>reminder_keys := ((j, e), now w + seconds 2592000) # reminder_keys w\<rparr>) \<longleftrightarrow>
     i = j \<and> d = e \<or> reminder_key_at i d w"
  "reminder_key_at i d (w\<lparr>reminder_keys := ((j, e), now w + seconds 2592000) # reminder_keys w, sent_mail := ms\<rparr>) \<longleftrightarrow>
     i = j \<and> d = e \<or> reminder_key_at i d w"
  by (auto simp: reminder_key_at_def seconds_def)

lemma remind_all:
  assumes "distinct (map Invoice_id ivs)" and "redis_up w"
  shows "\<exists>ns w'. mapS ivs (remind t) w = (Inr ns, w') \<and> db w' = db w \<and> now w' = now w \<and> redis_up w' \<and>
    sent_mail w' = sent_mail w @ run_mails w t ivs \<and> sum_list ns = int (length (run_mails w t ivs)) \<and>
    (\<forall>i d. reminder_key_at i d w' \<longleftrightarrow> reminder_key_at i d w \<or>
       (\<exists>iv \<in> set ivs. i = Invoice_id iv \<and> d = days_to_due iv t \<and> d \<in> set REMINDER_OFFSETS_DAYS)) \<and>
    set (reminder_keys w') \<subseteq> set (reminder_keys w) \<union> {(k, e). e = now w + seconds (60 * 60 * 24 * 30)}"
  using assms
proof (induction ivs arbitrary: w)
  case Nil
  then show ?case by (simp add: svc_simps run_mails_def map_filter_simps)
next
  case (Cons iv ivs)
  obtain n v where r: "remind t iv w = (Inr n, v)" "db v = db w" "now v = now w" "redis_up v"
      "sent_mail v = sent_mail w @ run_mails w t [iv]" "n = int (length (run_mails w t [iv]))"
      "\<And>i d. reminder_key_at i d v \<longleftrightarrow> reminder_key_at i d w \<or>
        i = Invoice_id iv \<and> d = days_to_due iv t \<and> d \<in> set REMINDER_OFFSETS_DAYS"
      "set (reminder_keys v) \<subseteq> set (reminder_keys w) \<union> {(k, e). e = now w + seconds (60 * 60 * 24 * 30)}"
  proof (cases rule: remind_cases [OF Cons.prems(2), of iv t, case_names skip taken])
    case skip
    then show ?thesis
      using Cons.prems(2) by (intro that [of 0 w]) (auto simp: run_mails_def map_filter_simps owed_mail_def)
  next
    case taken
    show ?thesis
      by (rule that [OF taken(3)])
        (use taken(1,2) Cons.prems(2) in \<open>auto simp: run_mails_def map_filter_simps reminder_key_at_taken split: option.splits\<close>)
  qed
  have "Invoice_id x \<noteq> Invoice_id iv" if "x \<in> set ivs" for x
    using Cons.prems(1) that by (auto simp: image_iff)
  then have rest: "run_mails v t ivs = run_mails w t ivs"
    unfolding run_mails_def using r(2,7) by (intro map_filter_cong_set) auto
  obtain ns w' where IH: "mapS ivs (remind t) v = (Inr ns, w')" "db w' = db v" "now w' = now v" "redis_up w'"
      "sent_mail w' = sent_mail v @ run_mails v t ivs" "sum_list ns = int (length (run_mails v t ivs))"
      "\<forall>i d. reminder_key_at i d w' \<longleftrightarrow> reminder_key_at i d v \<or>
       (\<exists>iv \<in> set ivs. i = Invoice_id iv \<and> d = days_to_due iv t \<and> d \<in> set REMINDER_OFFSETS_DAYS)"
      "set (reminder_keys w') \<subseteq> set (reminder_keys v) \<union> {(k, e). e = now v + seconds (60 * 60 * 24 * 30)}"
    using Cons.IH [of v] Cons.prems r(4) by auto
  have "run_mails w t (iv # ivs) = run_mails w t [iv] @ run_mails w t ivs"
    by (simp add: run_mails_def map_filter_simps split: option.splits)
  then show ?case
    using IH r rest by (intro exI [of _ "n # ns"] exI [of _ w']) (auto simp: svc_simps)
qed

text \<open>Reminders go out once, on the days of the offsets. A run sends exactly one mail for every open or draft
  invoice whose tenant and an active user exist, whose number of days left is one of the offsets and whose key for
  that offset is free; it returns their number and leaves the database alone. A further run of the same day sends
  nothing, whenever it comes within thirty days and before a key that was there has expired.\<close>

lemma reminders_exact:
  assumes ids: "distinct (map Invoice_id (invoices (db w)))" and up: "redis_up w" and day: "date_of t' = date_of t"
    and u: "now w \<le> u" "u < now w + days 30" "\<forall>(k, e) \<in> set (reminder_keys w). e \<le> now w \<or> u < e"
  shows "\<exists>w' w''. let mails = run_mails w t (filter (\<lambda>i. Invoice_status i \<in> {InvOpen, InvDraft}) (invoices (db w))) in
    dispatch_due_reminders t w = (Inr (int (length mails)), w') \<and> sent_mail w' = sent_mail w @ mails \<and> db w' = db w \<and>
    dispatch_due_reminders t' (w'\<lparr>now := u\<rparr>) = (Inr 0, w'') \<and> sent_mail w'' = sent_mail w'"
proof -
  let ?ivs = "filter (\<lambda>i. Invoice_status i \<in> {InvOpen, InvDraft}) (invoices (db w))"
  have dist: "distinct (map Invoice_id ?ivs)" using ids by (rule distinct_map_filter)
  obtain ns w' where one: "mapS ?ivs (remind t) w = (Inr ns, w')" "db w' = db w" "now w' = now w" "redis_up w'"
    "sent_mail w' = sent_mail w @ run_mails w t ?ivs" "sum_list ns = int (length (run_mails w t ?ivs))"
    "\<forall>i d. reminder_key_at i d w' \<longleftrightarrow> reminder_key_at i d w \<or>
       (\<exists>iv \<in> set ?ivs. i = Invoice_id iv \<and> d = days_to_due iv t \<and> d \<in> set REMINDER_OFFSETS_DAYS)"
    "set (reminder_keys w') \<subseteq> set (reminder_keys w) \<union> {(k, e). e = now w + seconds (60 * 60 * 24 * 30)}"
    using remind_all [OF dist up, of t] by blast
  let ?v = "w'\<lparr>now := u\<rparr>"
  have still: "reminder_key_at i d ?v" if "reminder_key_at i d w'" for i d
    using that one(3,8) u by (fastforce simp: reminder_key_at_def seconds_def days_def)
  have none: "run_mails ?v t' ?ivs = []"
  proof -
    have "(if reminder_key_at (Invoice_id iv) (days_to_due iv t') ?v then None else owed_mail (db ?v) t' iv) = None" if "iv \<in> set ?ivs" for iv
    proof (cases "days_to_due iv t \<in> set REMINDER_OFFSETS_DAYS")
      case True
      then have "reminder_key_at (Invoice_id iv) (days_to_due iv t) w'" using one(7) that by blast
      then show ?thesis using still day by (simp add: days_to_due_def)
    next
      case False
      then show ?thesis using day by (simp add: owed_mail_def days_to_due_def)
    qed
    then show ?thesis unfolding run_mails_def by (subst map_filter_cong_set [where g = "\<lambda>_. None"]) (simp_all add: map_filter_def)
  qed
  obtain ms w'' where two: "mapS ?ivs (remind t') ?v = (Inr ms, w'')" "sent_mail w'' = sent_mail ?v" "sum_list ms = 0"
    using remind_all [OF dist, of ?v t'] one(4) none by auto
  have "dispatch_due_reminders t w = (Inr (int (length (run_mails w t ?ivs))), w')"
    using one(1,6) by (simp add: dispatch_due_reminders_def svc_simps)
  moreover have "dispatch_due_reminders t' ?v = (Inr 0, w'')"
    using two(1,3) one(2) by (simp add: dispatch_due_reminders_def svc_simps)
  ultimately show ?thesis
    using one(2,5) two(2) by (intro exI [of _ w'] exI [of _ w'']) (simp add: Let_def)
qed

text \<open>The days left count down to the due date, so the offsets three and seven lie before it and only the third
  day after it is reminded: an invoice seven days overdue is owed no mail on the day its next reminder is
  announced for.\<close>

lemma overdue_week_unreminded:
  assumes "date_of t = date_of (Invoice_due_at iv) + 7"
  shows "owed_mail d t iv = None" "next_reminder_at (Invoice_due_at iv) t = Some (Invoice_due_at iv + days 7)"
  using assms by (auto simp: owed_mail_def days_to_due_def REMINDER_OFFSETS_DAYS_def next_reminder_at_def date_of_def days_def)

text \<open>The key is taken before tenant and owner are looked up, so a mail that could not be sent is not made up for
  within the thirty days.\<close>

lemma reminder_key_burnt:
  assumes "redis_up w" and "days_to_due iv t \<in> set REMINDER_OFFSETS_DAYS"
    and "\<not> reminder_key_at (Invoice_id iv) (days_to_due iv t) w" and "owed_mail (db w) t iv = None"
  shows "\<exists>w'. remind t iv w = (Inr 0, w') \<and> sent_mail w' = sent_mail w \<and> reminder_key_at (Invoice_id iv) (days_to_due iv t) w'"
proof (cases rule: remind_cases [OF assms(1), of iv t, case_names skip taken])
  case skip
  then show ?thesis using assms by simp
next
  case taken
  then show ?thesis using assms(4) by (simp add: reminder_key_at_taken)
qed

definition sample_invoice :: "uuid \<Rightarrow> time \<Rightarrow> Invoice" where
  "sample_invoice i t = \<lparr>Invoice_id = i, Invoice_product_id = 70, Invoice_tenant_id = 71, Invoice_subscription_id = None,
     Invoice_status = InvOpen, Invoice_amount_cents = 500, Invoice_currency = ''usd'', Invoice_issued_at = 0,
     Invoice_due_at = t, Invoice_paid_at = None, Invoice_attempt_count = 0, Invoice_last_attempt_at = None,
     Invoice_next_attempt_at = None, Invoice_provider = ''mock'', Invoice_provider_invoice_id = None,
     Invoice_hosted_invoice_url = None\<rparr>"

definition sample_debtor :: world where
  "sample_debtor = sample_world\<lparr>db := empty_db\<lparr>invoices := [sample_invoice 1 (days 3), sample_invoice 2 (days 5)],
     tenants := [\<lparr>Tenant_id = 71, Tenant_product_id = 70, Tenant_name = ''T'', Tenant_slug = ''t'', Tenant_status = TenantActive,
        Tenant_type = Company, Tenant_parent_id = None, Tenant_is_root = True, Tenant_settings = [], Tenant_expires_at = None,
        Tenant_deleted_at = None, Tenant_created_at = 0\<rparr>],
     users := [\<lparr>User_id = 72, User_product_id = 70, User_tenant_id = 71, User_email = ''o@t'', User_password_hash = [],
        User_full_name = None, User_is_active = True, User_is_verified = True, User_last_login_at = None,
        User_deleted_at = None, User_is_platform_admin = False\<rparr>]\<rparr>\<rparr>"

lemma reminders_exact_witness:
  "\<exists>w' w''. dispatch_due_reminders (seconds 1000) sample_debtor = (Inr 1, w') \<and> length (sent_mail w') = 1 \<and>
     dispatch_due_reminders (seconds 2000) (w'\<lparr>now := seconds 2000\<rparr>) = (Inr 0, w'') \<and> length (sent_mail w'') = 1"
proof -
  have w: "now sample_debtor = seconds 1000" "redis_up sample_debtor" "sent_mail sample_debtor = []" "reminder_keys sample_debtor = []"
    "distinct (map Invoice_id (invoices (db sample_debtor)))"
    by (simp_all add: sample_debtor_def sample_world_def sample_invoice_def)
  let ?m = "run_mails sample_debtor (seconds 1000) (filter (\<lambda>i. Invoice_status i \<in> {InvOpen, InvDraft}) (invoices (db sample_debtor)))"
  have mails: "length ?m = 1"
    by (simp add: run_mails_def map_filter_simps reminder_key_at_def w(4) owed_mail_def days_to_due_def REMINDER_OFFSETS_DAYS_def)
      (simp add: sample_debtor_def sample_invoice_def map_filter_simps date_of_def days_def seconds_def)
  have "date_of (seconds 2000) = date_of (seconds 1000)" "seconds 2000 < now sample_debtor + days 30"
    "now sample_debtor \<le> seconds 2000" "\<forall>(k, e) \<in> set (reminder_keys sample_debtor). e \<le> now sample_debtor \<or> seconds 2000 < e"
    by (simp_all add: w date_of_def seconds_def days_def)
  from reminders_exact [OF w(5,2) this(1,3,2,4)] obtain w' w'' where
    "dispatch_due_reminders (seconds 1000) sample_debtor = (Inr (int (length ?m)), w')" "sent_mail w' = sent_mail sample_debtor @ ?m"
    "dispatch_due_reminders (seconds 2000) (w'\<lparr>now := seconds 2000\<rparr>) = (Inr 0, w'')" "sent_mail w'' = sent_mail w'"
    unfolding Let_def by (elim exE conjE) (rule that)
  then show ?thesis
    by (intro exI [of _ w'] exI [of _ w'']) (simp only: mails w(3) append_Nil of_nat_1 simp_thms)
qed

end
