(* ===== verification/GoogleLogin.thy ===== *)
theory GoogleLogin
  imports EnvVault
begin

text \<open>
  The login with a Google account: \<^verbatim>\<open>login_with_google\<close> of \<^verbatim>\<open>app/services/auth.py\<close>. Google's
  two endpoints are parameters, functions from what is sent to the status and body that come back.
\<close>

section \<open>The login\<close>

text \<open>No answer at all, or a status with a body that may not be JSON.\<close>

record google_http =
  token_endpoint :: "(string \<times> string) list \<Rightarrow> google_reply"
  userinfo_endpoint :: "json \<Rightarrow> google_reply"

definition http_call :: "google_reply \<Rightarrow> (int \<times> json option) service" where
  "http_call r = (case r of HTTPError \<Rightarrow> raise (RuntimeError ''httpx.HTTPError'') | Reply s b \<Rightarrow> ret (s, b))"

definition body_json :: "json option \<Rightarrow> json service" where
  "body_json b = (case b of None \<Rightarrow> raise (ValueError ''JSONDecodeError'') | Some j \<Rightarrow> ret j)"

definition code_form :: "string \<Rightarrow> string \<Rightarrow> string \<Rightarrow> string \<Rightarrow> (string \<times> string) list" where
  "code_form code client_id client_secret redirect_uri =
     [(''code'', code), (''client_id'', client_id), (''client_secret'', client_secret), (''redirect_uri'', redirect_uri),
      (''grant_type'', ''authorization_code'')]"

text \<open>The exchange of the code for an access token, and the account behind it.\<close>

definition google_access :: "google_http \<Rightarrow> (string \<times> string) list \<Rightarrow> json service" where
  "google_access http form =
     bindS (http_call (token_endpoint http form)) (\<lambda>(status, body).
     if status \<noteq> 200 then raise (Unauthorized ''google code exchange failed'')
     else
     bindS (body_json body) (\<lambda>b.
     bindS (liftE (json_get b ''access_token'' JNull)) (\<lambda>access.
     if \<not> json_bool access then raise (Unauthorized ''google response missing access_token'') else ret access)))"

definition google_userinfo :: "google_http \<Rightarrow> json \<Rightarrow> json service" where
  "google_userinfo http access =
     bindS (http_call (userinfo_endpoint http access)) (\<lambda>(status, body).
     if status \<noteq> 200 then raise (Unauthorized ''google userinfo failed'') else body_json body)"

text \<open>\<^verbatim>\<open>(info.get("email") or "").lower()\<close>\<close>

fun email_text :: "json \<Rightarrow> app_error + string" where
  "email_text (JStr s) = Inr (str_lower s)"
| "email_text j = (if json_bool j then Inl (AttributeError ''lower'') else Inr [])"

definition verified_email :: "json \<Rightarrow> string service" where
  "verified_email info =
     bindS (liftE (json_get info ''email'' JNull)) (\<lambda>e.
     bindS (liftE (email_text e)) (\<lambda>email.
     bindS (liftE (json_get info ''email_verified'' (JBool False))) (\<lambda>v.
     if email = [] \<or> \<not> json_bool v then raise (Unauthorized ''google account has no verified email'') else ret email)))"

text \<open>A name that is no text reaches the text column, whose driver refuses it.\<close>

fun name_text :: "json \<Rightarrow> app_error + string option" where
  "name_text JNull = Inr None"
| "name_text (JStr s) = Inr (Some s)"
| "name_text _ = Inl (ValueError ''full_name'')"

definition auto_provision :: "uuid \<Rightarrow> json service" where
  "auto_provision product_id =
     bindS (scalar products (\<lambda>p. Product_id p = product_id)) (\<lambda>product.
     let features = (case product of Some p \<Rightarrow> dict_get (Product_settings p) ''features'' (JObj []) | None \<Rightarrow> JObj [])
     in liftE (json_get features ''google_auto_provision'' (JBool False)))"

definition google_account :: "uuid \<Rightarrow> string \<Rightarrow> User \<Rightarrow> bool" where
  "google_account product_id email u \<longleftrightarrow> User_product_id u = product_id \<and> User_email u = email \<and> User_deleted_at u = None"

text \<open>The user with that email, or a new one where the product opts in.\<close>

definition find_or_provision :: "uuid \<Rightarrow> string \<Rightarrow> json \<Rightarrow> User service" where
  "find_or_provision product_id email full_name =
     bindS (scalar users (google_account product_id email)) (\<lambda>user.
     case user of
       Some u \<Rightarrow> ret u
     | None \<Rightarrow>
     bindS (auto_provision product_id) (\<lambda>opt_in.
     if \<not> json_bool opt_in then raise (Unauthorized ''no account for this email; ask an admin to invite you'')
     else
     bindS fresh (\<lambda>d.
     bindS (liftE (name_text full_name)) (\<lambda>name.
     bindS (register_individual product_id email (token_urlsafe 32 d) name) (\<lambda>(u, _). ret u)))))"

definition google_credentials :: "uuid \<Rightarrow> (string \<times> string) service" where
  "google_credentials product_id =
     bindS (gets settings) (\<lambda>st.
     bindS (get_value_or_default product_id ''GOOGLE_CLIENT_ID'' (google_client_id st)) (\<lambda>client_id.
     bindS (get_value_or_default product_id ''GOOGLE_CLIENT_SECRET'' (google_client_secret st)) (\<lambda>client_secret.
     if client_id = [] \<or> client_secret = [] then raise (Unauthorized ''Google login is not configured on this platform'')
     else ret (client_id, client_secret))))"

definition login_with_google ::
    "google_http \<Rightarrow> uuid \<Rightarrow> string \<Rightarrow> string \<Rightarrow> string option \<Rightarrow> string option \<Rightarrow> (User \<times> string \<times> string \<times> time) service" where
  "login_with_google http product_id code redirect_uri user_agent ip_address =
     bindS (google_credentials product_id) (\<lambda>(client_id, client_secret).
     bindS (google_access http (code_form code client_id client_secret redirect_uri)) (\<lambda>access.
     bindS (google_userinfo http access) (\<lambda>info.
     bindS (verified_email info) (\<lambda>email.
     bindS (liftE (json_get info ''name'' JNull)) (\<lambda>full_name.
     bindS (find_or_provision product_id email full_name) (\<lambda>user.
     if \<not> User_is_active user then raise (Unauthorized ''user inactive'')
     else
     bindS (set_current_product (Some (User_product_id user))) (\<lambda>_.
     bindS (set_current_tenant (Some (User_tenant_id user))) (\<lambda>_.
     bindS (gets now) (\<lambda>t.
     bindS (set_user (User_id user) (\<lambda>u. u\<lparr>User_last_login_at := Some t\<rparr>)) (\<lambda>_.
     bindS (issue_pair user user_agent ip_address) (\<lambda>(access_token, refresh_token, access_exp).
     bindS (liftE (json_get info ''sub'' JNull)) (\<lambda>sub.
     bindS (record_audit ((act ''user.login_google'')\<lparr>a_actor_user_id := Some (User_id user), a_actor_ip := ip_address,
              a_resource_type := Some ''user'', a_resource_id := Some (User_id user), a_tenant_id := Some (User_tenant_id user),
              a_product_id := Some (User_product_id user), a_diff := [(''google_sub'', sub)]\<rparr>)) (\<lambda>_.
     ret (user, access_token, refresh_token, access_exp))))))))))))))"


section \<open>Who gets in\<close>

lemma str_lower_idem [simp]: "str_lower (str_lower s) = str_lower s"
proof -
  have "lower_char (lower_char c) = lower_char c" for c
  proof (cases "is_upper c")
    case True
    then have "of_char c + 32 < (256 :: nat)" "of_char c \<ge> (65 :: nat)" by (simp_all add: is_upper_def)
    then have "of_char (char_of (of_char c + 32 :: nat) :: char) = (of_char c + 32 :: nat)" by simp
    then show ?thesis using True \<open>of_char c \<ge> (65 :: nat)\<close> by (simp add: lower_char_def is_upper_def)
  qed (simp add: lower_char_def)
  then show ?thesis by (simp add: str_lower_def)
qed

lemma register_user:
  assumes "register p name slug email pw full_name ty w = (Inr (u, t), w')"
  shows "User_product_id u = p" "User_email u = str_lower email" "User_is_active u" "User_deleted_at u = None"
  using assms by (auto simp: register_def bindS_Inr_iff Let_def ret_apply)

lemma individual_user:
  "individual_attempts n p email pw full_name w = (Inr (u, t), w') \<Longrightarrow>
     User_product_id u = p \<and> User_email u = str_lower email \<and> User_is_active u \<and> User_deleted_at u = None"
proof (induction n arbitrary: w)
  case (Suc n)
  obtain slug w1 where slug: "derive_individual_slug w = (Inr slug, w1)"
    by (simp add: derive_individual_slug_def svc_simps)
  obtain r w2 where reg: "register p (derive_individual_name email full_name) slug email pw full_name Individual w1 = (r, w2)"
    by (cases "register p (derive_individual_name email full_name) slug email pw full_name Individual w1")
  show ?case
  proof (cases r)
    case (Inl e)
    then show ?thesis
      using Suc slug reg by (cases e) (auto simp: bindS_apply tryS_apply raise_apply)
  next
    case (Inr x)
    then show ?thesis
      using Suc.prems slug reg register_user by (fastforce simp: bindS_apply tryS_apply)
  qed
qed (simp add: raise_apply)

text \<open>The steps of a login that returned.\<close>

lemma google_credentials_returns: "google_credentials p w = (Inr x, w') \<Longrightarrow> w' = w"
  by (auto simp: google_credentials_def get_value_or_default_def inr_simps split: option.splits if_splits)

lemma json_get_returns: "json_get j k dflt = Inr x \<Longrightarrow> \<exists>d. j = JObj d \<and> x = dict_get d k dflt"
  by (cases j) auto

lemma google_access_returns:
  assumes "google_access http form w = (Inr a, w')"
  shows "w' = w \<and> (\<exists>token. token_endpoint http form = Reply 200 (Some (JObj token)) \<and> a = dict_get token ''access_token'' JNull \<and> json_bool a)"
proof (cases "token_endpoint http form")
  case HTTPError
  then show ?thesis using assms by (simp add: google_access_def http_call_def inr_simps)
next
  case (Reply s b)
  show ?thesis
  proof (cases b)
    case (Some j)
    then have "w' = w" "s = 200" "json_get j ''access_token'' JNull = Inr a" "json_bool a"
      using assms Reply by (auto simp: google_access_def http_call_def body_json_def inr_simps split: if_splits)
    then show ?thesis using json_get_returns Reply Some by fastforce
  qed (use assms Reply in \<open>simp add: google_access_def http_call_def body_json_def inr_simps split: if_splits\<close>)
qed

lemma google_userinfo_returns:
  "google_userinfo http a w = (Inr i, w') \<Longrightarrow> w' = w \<and> userinfo_endpoint http a = Reply 200 (Some i)"
  by (cases "userinfo_endpoint http a")
    (auto simp: google_userinfo_def http_call_def body_json_def inr_simps split: if_splits option.splits)

lemma email_text_returns: "email_text e = Inr s \<Longrightarrow> s \<noteq> [] \<Longrightarrow> \<exists>t. e = JStr t \<and> s = str_lower t"
  by (cases e) (auto split: if_splits)

lemma verified_email_returns:
  assumes "verified_email i w = (Inr e, w')"
  shows "w' = w \<and> (\<exists>info s. i = JObj info \<and> dict_get info ''email'' JNull = JStr s \<and> e = str_lower s \<and>
    json_bool (dict_get info ''email_verified'' (JBool False)))"
proof -
  obtain j v where "w' = w" "json_get i ''email'' JNull = Inr j" "email_text j = Inr e"
    "json_get i ''email_verified'' (JBool False) = Inr v" "e \<noteq> []" "json_bool v"
    using assms by (auto simp: verified_email_def inr_simps split: if_splits)
  moreover from this(2) obtain info where "i = JObj info" "j = dict_get info ''email'' JNull"
    using json_get_returns by blast
  moreover from calculation(3,5) obtain s where "j = JStr s" "e = str_lower s"
    using email_text_returns by blast
  ultimately show ?thesis by (intro conjI exI [of _ info] exI [of _ s]) simp_all
qed

lemma find_or_provision_returns:
  assumes "find_or_provision p email name w = (Inr u, w')"
  shows "User_product_id u = p \<and> User_deleted_at u = None \<and>
    (if \<exists>u \<in> set (users (db w)). google_account p email u then User_email u = email \<and> u \<in> set (users (db w))
     else User_email u = str_lower email \<and> (\<exists>opt_in. fst (auto_provision p w) = Inr opt_in \<and> json_bool opt_in))"
proof (cases "List.find (google_account p email) (users (db w))")
  case (Some x)
  then have "u = x" using assms by (simp add: find_or_provision_def svc_simps)
  then show ?thesis using find_SomeD [OF Some] by (auto simp: google_account_def)
next
  case None
  obtain opt_in w1 where o: "auto_provision p w = (Inr opt_in, w1)" "json_bool opt_in"
    using assms None by (auto simp: find_or_provision_def bindS_Inr_iff scalar_apply raise_apply split: if_splits)
  obtain d name' t w2 w3 where "register_individual p email (token_urlsafe 32 d) name' w2 = (Inr (u, t), w3)"
    using assms None o by (auto simp: find_or_provision_def bindS_Inr_iff scalar_apply ret_apply split: if_splits)
  then have "User_product_id u = p \<and> User_email u = str_lower email \<and> User_deleted_at u = None"
    using individual_user unfolding register_individual_def by blast
  then show ?thesis using None o by (auto simp: find_None_iff_all)
qed

text \<open>C36: Only the holder of a verified address gets in with Google. A login that succeeds was backed by an
  account whose address Google calls verified; the user it logs in is an active live user of the product with
  exactly that address in lower case, stored before, or made by this login where no live user had the
  address and the product has opted in to automatic accounts.\<close>

theorem google_login_verified:
  assumes "login_with_google http p code uri ua ip w = (Inr (user, atok, rtok, until), w')"
  shows "\<exists>token info form. token_endpoint http form = Reply 200 (Some (JObj token)) \<and>
    map_of form ''code'' = Some code \<and> json_bool (dict_get token ''access_token'' JNull) \<and>
    userinfo_endpoint http (dict_get token ''access_token'' JNull) = Reply 200 (Some (JObj info)) \<and>
    (\<exists>e. dict_get info ''email'' JNull = JStr e \<and> User_email user = str_lower e) \<and>
    json_bool (dict_get info ''email_verified'' (JBool False)) \<and>
    User_product_id user = p \<and> User_is_active user \<and> User_deleted_at user = None \<and>
    (if \<exists>u \<in> set (users (db w)). google_account p (User_email user) u then user \<in> set (users (db w))
     else \<exists>opt_in. fst (auto_provision p w) = Inr opt_in \<and> json_bool opt_in)"
proof -
  obtain c cs w1 token w2 i w3 email w4 name w5 w6 where
    run: "google_credentials p w = (Inr (c, cs), w1)" "google_access http (code_form code c cs uri) w1 = (Inr token, w2)"
      "google_userinfo http token w2 = (Inr i, w3)" "verified_email i w3 = (Inr email, w4)"
      "json_get i ''name'' JNull = Inr name" "find_or_provision p email name w4 = (Inr user, w6)" "User_is_active user"
    using assms by (auto simp: login_with_google_def bindS_Inr_iff liftE_apply raise_apply ret_apply split: if_splits)
  have w: "w1 = w" "w2 = w" "w3 = w" "w4 = w"
    using google_credentials_returns [OF run(1)] google_access_returns [OF run(2)] google_userinfo_returns [OF run(3)]
      verified_email_returns [OF run(4)] by auto
  obtain tok where tok: "token_endpoint http (code_form code c cs uri) = Reply 200 (Some (JObj tok))"
    "token = dict_get tok ''access_token'' JNull" "json_bool token"
    using google_access_returns [OF run(2)] by blast
  obtain info s where info: "i = JObj info" "dict_get info ''email'' JNull = JStr s" "email = str_lower s"
    "json_bool (dict_get info ''email_verified'' (JBool False))"
    using verified_email_returns [OF run(4)] by blast
  note user = find_or_provision_returns [OF run(6) [unfolded w]]
  have mail: "User_email user = str_lower s" using user info(3) by (auto split: if_splits)
  show ?thesis
  proof (rule exI [of _ tok], rule exI [of _ info], rule exI [of _ "code_form code c cs uri"], intro conjI)
    show "map_of (code_form code c cs uri) ''code'' = Some code" by (simp add: code_form_def)
    show "userinfo_endpoint http (dict_get tok ''access_token'' JNull) = Reply 200 (Some (JObj info))"
      using google_userinfo_returns [OF run(3)] tok(2) info(1) by simp
    show "\<exists>e. dict_get info ''email'' JNull = JStr e \<and> User_email user = str_lower e"
      using info(2) mail by blast
  qed (use tok info user mail run(7) in \<open>auto split: if_splits\<close>)
qed


definition sample_google :: google_http where
  "sample_google = \<lparr>token_endpoint = (\<lambda>_. Reply 200 (Some (JObj [(''access_token'', JStr ''at'')]))),
     userinfo_endpoint = (\<lambda>_. Reply 200 (Some (JObj [(''email'', JStr ''O@T''), (''email_verified'', JBool True)])))\<rparr>"

definition sample_member :: User where
  "sample_member = \<lparr>User_id = 72, User_product_id = 70, User_tenant_id = 71, User_email = ''o@t'', User_password_hash = [],
     User_full_name = None, User_is_active = True, User_is_verified = True, User_last_login_at = None,
     User_deleted_at = None, User_is_platform_admin = False\<rparr>"

definition sample_google_world :: world where
  "sample_google_world = sample_world\<lparr>settings := default_settings\<lparr>google_client_id := ''id'', google_client_secret := ''shh''\<rparr>,
     db := empty_db\<lparr>users := [sample_member]\<rparr>\<rparr>"

theorem google_login_verified_witness:
  "\<exists>atok rtok until w'. login_with_google sample_google 70 ''code'' ''uri'' None None sample_google_world = (Inr (sample_member, atok, rtok, until), w') \<and>
     (\<exists>token form. token_endpoint sample_google form = Reply 200 (Some (JObj token)) \<and> map_of form ''code'' = Some ''code'')"
proof -
  have creds: "google_credentials 70 sample_google_world = (Inr (''id'', ''shh''), sample_google_world)"
    by (simp add: google_credentials_def get_value_or_default_def svc_simps sample_google_world_def empty_db_def)
  have access: "google_access sample_google f w = (Inr (JStr ''at''), w)" for f w
    by (simp add: google_access_def http_call_def body_json_def svc_simps sample_google_def dict_get_def)
  have user: "find_or_provision 70 ''o@t'' JNull sample_google_world = (Inr sample_member, sample_google_world)"
    by (simp add: find_or_provision_def svc_simps sample_google_world_def google_account_def sample_member_def)
  have low: "str_lower ''O@T'' = ''o@t''" by code_simp
  have info: "google_userinfo sample_google a w = (Inr (JObj [(''email'', JStr ''O@T''), (''email_verified'', JBool True)]), w)" for a w
    by (simp add: google_userinfo_def http_call_def body_json_def svc_simps sample_google_def)
  have mail: "verified_email (JObj [(''email'', JStr ''O@T''), (''email_verified'', JBool True)]) w = (Inr ''o@t'', w)" for w
    by (simp add: verified_email_def svc_simps dict_get_def low)
  obtain atok rtok until w' where run: "login_with_google sample_google 70 ''code'' ''uri'' None None sample_google_world =
      (Inr (sample_member, atok, rtok, until), w')"
    by (simp add: login_with_google_def bindS_apply creds access info mail user liftE_apply dict_get_def)
      (simp add: sample_member_def sample_google_world_def issue_pair_def issue_token_def refresh_ttl_seconds_def add_refresh_token_def
        set_user_def context_defs svc_simps empty_db_def Let_def)
  obtain token form where f: "token_endpoint sample_google form = Reply 200 (Some (JObj token))" "map_of form ''code'' = Some ''code''"
    using google_login_verified [OF run] by (elim exE conjE) (rule that)
  show ?thesis
    by (intro exI conjI, rule run, rule f(1), rule f(2))
qed

end
