(* ===== verification/Http.thy ===== *)
theory Http
  imports Dependencies
begin

text \<open>
  The life of one request around its route: the fresh context variables and the request id of
  \<^verbatim>\<open>app/middleware/request_context.py\<close>, the transaction of
  \<^verbatim>\<open>app/core/database.py\<close>, and the envelopes of
  \<^verbatim>\<open>app/core/error_handlers.py\<close>. The body and the headers of a request are values that
  are already parsed; what a schema demands beyond its types is a condition that
  \<open>validated\<close> checks after the dependencies, as FastAPI does. Database outages have no
  counterpart in the model, so their two handlers are left out.
\<close>

section \<open>Error envelopes\<close>

datatype severity = Info | Warning | Error

record envelope =
  env_code :: string
  env_message :: string
  env_details :: dict

definition error_envelope :: "string \<Rightarrow> string \<Rightarrow> dict \<Rightarrow> envelope" where
  "error_envelope code msg details = \<lparr>env_code = code, env_message = msg, env_details = details\<rparr>"

text \<open>The answer to an exception and the severity it is logged with. A message is the constant text
  of the exception, or its code when that is empty; of the details only those of a failed debit are
  kept.\<close>

definition message_or_code :: "app_error \<Rightarrow> string \<Rightarrow> string" where
  "message_or_code e m = (if m \<noteq> [] then m else error_code e)"

fun app_error_text :: "app_error \<Rightarrow> string \<times> dict" where
  "app_error_text (NotFound m) = (m, [])"
| "app_error_text (Conflict m) = (m, [])"
| "app_error_text (Unauthorized m) = (m, [])"
| "app_error_text (Forbidden m) = (m, [])"
| "app_error_text (ValidationFailed m) = (m, [])"
| "app_error_text (RateLimited m) = (m, [])"
| "app_error_text (PaymentRequired m) = (m, [])"
| "app_error_text (InsufficientCredits k needed balance) =
     (''need credits'', [(''feature_key'', JStr k), (''needed'', JDec needed), (''balance'', JDec balance)])"
| "app_error_text (CryptoConfigError m) = (m, [])"
| "app_error_text (GoogleUpstreamError m) = (m, [])"
| "app_error_text _ = ([], [])"

definition app_error_response :: "app_error \<Rightarrow> (nat \<times> envelope) \<times> severity" where
  "app_error_response e = (case app_error_text e of (m, details) \<Rightarrow>
     ((status_code e, error_envelope (error_code e) (message_or_code e m) details),
      if status_code e < 500 then Warning else Error))"

definition http_error_response :: "nat \<Rightarrow> string \<Rightarrow> (nat \<times> envelope) \<times> severity" where
  "http_error_response status detail =
     ((status, error_envelope (str_replace (CHR '' '') (CHR ''_'') (str_lower detail))
        (if detail \<noteq> [] then detail else ''Error'') []),
      if status < 500 then Info else Error)"

definition integrity_error_response :: "(nat \<times> envelope) \<times> severity" where
  "integrity_error_response =
     ((409, error_envelope ''conflict'' ''Resource already exists or violates a constraint'' []), Warning)"

definition unhandled_response :: "(nat \<times> envelope) \<times> severity" where
  "unhandled_response = ((500, error_envelope ''internal_error'' ''Internal server error'' []), Error)"

fun error_response :: "app_error \<Rightarrow> (nat \<times> envelope) \<times> severity" where
  "error_response (HTTPException status detail) = http_error_response status detail"
| "error_response IntegrityError = integrity_error_response"
| "error_response (ValueError _) = unhandled_response"
| "error_response (RuntimeError _) = unhandled_response"
| "error_response (KeyError _) = unhandled_response"
| "error_response (AttributeError _) = unhandled_response"
| "error_response e = app_error_response e"

text \<open>The handlers agree with the status and the code of the exception.\<close>

lemma error_response_status [simp]: "fst (fst (error_response e)) = status_code e"
  by (cases e) (simp_all add: app_error_response_def http_error_response_def integrity_error_response_def
      unhandled_response_def)

lemma error_response_code [simp]: "env_code (snd (fst (error_response e))) = error_code e"
  by (cases e) (simp_all add: app_error_response_def http_error_response_def integrity_error_response_def
      unhandled_response_def error_envelope_def)


section \<open>A request\<close>

text \<open>Every request runs in a context of its own: the variables of \<^verbatim>\<open>app/core/tenant.py\<close>
  start at their defaults.\<close>

definition fresh_context :: "world \<Rightarrow> world" where
  "fresh_context w = w\<lparr>cur_product := None, cur_tenant := None, acting_from := None,
     product_bypass := False, tenant_bypass := False\<rparr>"

definition bind_request_id :: "string option \<Rightarrow> string service" where
  "bind_request_id x_request_id =
     bindS (if truthy x_request_id then ret (the x_request_id) else bindS fresh (\<lambda>i. ret (uuid_str i))) (\<lambda>rid.
     bindS (modify (\<lambda>w. w\<lparr>request_id := Some rid\<rparr>)) (\<lambda>_. ret rid))"

datatype 'a response = Success 'a | Failure nat envelope

definition answer :: "'a service \<Rightarrow> 'a response service" where
  "answer m = bindS (attempt (session_scope m)) (\<lambda>r.
     case r of Inr a \<Rightarrow> ret (Success a)
     | Inl e \<Rightarrow> ret (case error_response e of ((status, body), _) \<Rightarrow> Failure status body))"

text \<open>The answer and the \<^verbatim>\<open>X-Request-ID\<close> it carries.\<close>

definition handle_request :: "string option \<Rightarrow> 'a service \<Rightarrow> ('a response \<times> string) service" where
  "handle_request x_request_id m =
     bindS (modify fresh_context) (\<lambda>_.
     bindS (bind_request_id x_request_id) (\<lambda>rid.
     bindS (answer m) (\<lambda>response. ret (response, rid))))"


section \<open>Routes with a permission\<close>

definition validated :: "bool \<Rightarrow> unit service" where
  "validated ok = (if ok then ret () else raise (ValidationFailed ''Request payload failed validation''))"

text \<open>A route whose decorator names a permission: the user, the permission, then the schema, then
  the body of the route.\<close>

definition gated :: "string \<Rightarrow> bool \<Rightarrow> headers \<Rightarrow> (User \<Rightarrow> 'a service) \<Rightarrow> 'a service" where
  "gated permission valid h route =
     bindS (request_user h) (\<lambda>user.
     bindS (require_permission permission user) (\<lambda>_.
     bindS (validated valid) (\<lambda>_.
     route user)))"


section \<open>What an answer tells\<close>

lemma answerD:
  assumes "answer m w = (r, w')"
  obtains (success) a where "r = Inr (Success a)" "m w = (Inr a, w')"
    | (failure) e v where "r = Inr (Failure (status_code e) (snd (fst (error_response e))))" "m w = (Inl e, v)"
      "w' = v\<lparr>db := db w\<rparr>"
proof (cases "m w")
  case (Pair x v)
  show ?thesis
  proof (cases x)
    case (Inl e)
    obtain n b s where "error_response e = ((n, b), s)" by (metis surj_pair)
    then show ?thesis
      using assms Pair Inl error_response_status [of e]
      by (intro failure [of e v]) (auto simp: answer_def svc_simps session_scope_def)
  next
    case (Inr a)
    then show ?thesis
      using assms Pair by (intro success [of a]) (auto simp: answer_def svc_simps session_scope_def)
  qed
qed

definition started :: "string option \<Rightarrow> world \<Rightarrow> world" where
  "started x_request_id w = snd (bind_request_id x_request_id (fresh_context w))"

lemma started_simps [simp]:
  "db (started x w) = db w" "lib (started x w) = lib w" "now (started x w) = now w" "settings (started x w) = settings w"
  "cur_product (started x w) = None" "cur_tenant (started x w) = None" "acting_from (started x w) = None"
  "draws (started x w) = draws w" "product_bypass (started x w) = False" "tenant_bypass (started x w) = False"
  by (simp_all add: started_def bind_request_id_def fresh_context_def svc_simps)

lemma bind_request_id_returns:
  "\<exists>rid. bind_request_id x v = (Inr rid, snd (bind_request_id x v)) \<and> request_id (snd (bind_request_id x v)) = Some rid"
  by (cases "truthy x") (simp_all add: bind_request_id_def svc_simps)

lemma started_draws: "draw_no w \<le> draw_no (started x w)"
  by (simp add: started_def bind_request_id_def fresh_context_def svc_simps)

lemma handle_requestD:
  assumes "handle_request x m w = (r, w')"
  obtains (success) a rid where "r = Inr (Success a, rid)" "request_id (started x w) = Some rid" "m (started x w) = (Inr a, w')"
    | (failure) e v rid where "r = Inr (Failure (status_code e) (snd (fst (error_response e))), rid)"
      "request_id (started x w) = Some rid" "m (started x w) = (Inl e, v)" "w' = v\<lparr>db := db w\<rparr>"
proof -
  obtain rid where b: "bind_request_id x (fresh_context w) = (Inr rid, started x w)" "request_id (started x w) = Some rid"
    using bind_request_id_returns unfolding started_def by blast
  obtain r0 where a: "answer m (started x w) = (r0, w')"
      "r = (case r0 of Inl e \<Rightarrow> Inl e | Inr y \<Rightarrow> Inr (y, rid))"
    using assms b
    by (auto simp: handle_request_def bindS_apply [of "modify fresh_context"] bindS_apply [of "bind_request_id x"] modify_apply
        bindS_apply [of "answer m"] ret_apply split: prod.splits sum.splits)
  show ?thesis
  proof (cases rule: answerD [OF a(1)])
    case (1 y)
    then show ?thesis using success a(2) b(2) by simp
  next
    case (2 e v)
    then show ?thesis using failure [of e rid v] a(2) b(2) by simp
  qed
qed


text \<open>Letting a user in touches the context and the slug cache only.\<close>

abbreviation stored :: "world \<Rightarrow> database \<times> (nat \<Rightarrow> uuid) \<times> nat" where
  "stored w \<equiv> (db w, draws w, draw_no w)"

lemma resolve_product_frames [frames_intros]: "frames stored (resolve_product slug)"
  unfolding resolve_product_def resolve_slug_to_id_def get_by_slug_def context_defs Let_def
  by (intro frames_intros) simp_all

lemma request_user_frames [frames_intros]: "frames stored (request_user h)"
  unfolding request_user_def get_current_user_def platform_admin_session_def bearer_session_def act_as_def
    resolve_act_as_def root_tenant_def decode_token_def user_has_permission_def list_user_permission_codes_def
    enforce_tenant_expiry_def context_defs Let_def
  by (intro frames_intros) (simp_all add: svc_simps)

lemma require_permissionD:
  assumes "require_permission p u w = (r, w')"
  shows "w' = w" "r = Inr u' \<Longrightarrow> u' = u \<and> fst (user_has_permission u p None w) = Inr True"
  using assms
  by (cases rule: user_has_permission_outcome [of u p None w];
      auto simp: require_permission_def svc_simps split: if_splits)+

text \<open>A gated route that returned: its body ran as a user who has the permission, on a payload of the
  schema, and letting the user in wrote nothing.\<close>

lemma gatedD:
  assumes "gated p valid h route w = (Inr a, w')"
  obtains u v where "request_user h w = (Inr u, v)" "fst (user_has_permission u p None v) = Inr True"
    "valid" "route u v = (Inr a, w')" "db v = db w" "draws v = draws w" "draw_no v = draw_no w"
proof -
  obtain u v where u: "request_user h w = (Inr u, v)"
      "bindS (require_permission p u) (\<lambda>_. bindS (validated valid) (\<lambda>_. route u)) v = (Inr a, w')"
    using assms by (auto simp: gated_def bindS_Inr_iff)
  obtain u' v' where p: "require_permission p u v = (Inr u', v')" "bindS (validated valid) (\<lambda>_. route u) v' = (Inr a, w')"
    using u(2) by (auto simp: bindS_Inr_iff)
  note perm = require_permissionD [OF p(1)]
  have "valid" "route u v = (Inr a, w')"
    using p(2) perm(1) by (auto simp: validated_def svc_simps split: if_splits)
  then show ?thesis
    using that u(1) framesD [OF request_user_frames u(1)] perm(2) [OF refl] by simp
qed

end
