(* ===== verification/TenantRoutes.thy ===== *)
theory TenantRoutes
  imports Http Credit Jobs Storage "HOL-Library.Multiset"
begin

text \<open>
  The routes of a tenant's own data: \<^verbatim>\<open>app/api/v1/credits.py\<close>,
  \<^verbatim>\<open>app/api/v1/jobs.py\<close>, \<^verbatim>\<open>app/api/v1/storage.py\<close> and
  \<^verbatim>\<open>app/api/v1/audit.py\<close>, with the bounds of their schemas. A route acts in the product
  of its user and in the effective tenant of the request. The rows of a reply are the stored rows; their
  JSON shape is left out.
\<close>

section \<open>Credits\<close>

record CreditRequest =
  cr_feature_key :: string
  cr_amount :: int
  cr_reason :: "string option"
  cr_reference :: "string option"

definition short :: "nat \<Rightarrow> string option \<Rightarrow> bool" where
  "short n s \<longleftrightarrow> (case s of None \<Rightarrow> True | Some x \<Rightarrow> length x \<le> n)"

definition within :: "int \<Rightarrow> int \<Rightarrow> int option \<Rightarrow> bool" where
  "within lo hi n \<longleftrightarrow> (case n of None \<Rightarrow> True | Some i \<Rightarrow> lo \<le> i \<and> i \<le> hi)"

definition valid_consume :: "CreditRequest \<Rightarrow> bool" where
  "valid_consume r \<longleftrightarrow> 1 \<le> length (cr_feature_key r) \<and> length (cr_feature_key r) \<le> 64 \<and> cr_amount r > 0 \<and>
     short 255 (cr_reason r) \<and> short 128 (cr_reference r)"

definition valid_grant :: "CreditRequest \<Rightarrow> bool" where
  "valid_grant r \<longleftrightarrow> cr_amount r > 0"

definition list_wallets :: "User \<Rightarrow> CreditWallet list service" where
  "list_wallets user =
     bindS (effective_tenant user) (\<lambda>tid.
     scalars credit_wallets (\<lambda>x. CreditWallet_product_id x = User_product_id user \<and> CreditWallet_tenant_id x = tid))"

text \<open>The database refuses a negative limit; the route does not bound it.\<close>

definition list_ledger :: "int \<Rightarrow> User \<Rightarrow> CreditLedger list service" where
  "list_ledger limit user =
     bindS (effective_tenant user) (\<lambda>tid.
     if limit < 0 then raise (RuntimeError ''LIMIT must not be negative'')
     else
     bindS (scalars credit_ledger (\<lambda>e. CreditLedger_product_id e = User_product_id user \<and> CreditLedger_tenant_id e = tid)) (\<lambda>es.
     ret (take (nat limit) (sort_key (\<lambda>e. - CreditLedger_created_at e) es))))"

definition consume_route :: "CreditRequest \<Rightarrow> User \<Rightarrow> CreditWallet service" where
  "consume_route payload user =
     bindS (effective_tenant user) (\<lambda>tid.
     consume tid (User_product_id user) (cr_feature_key payload) (cr_amount payload) (cr_reason payload) (cr_reference payload))"

definition grant_route :: "CreditRequest \<Rightarrow> User \<Rightarrow> CreditWallet service" where
  "grant_route payload user =
     bindS (effective_tenant user) (\<lambda>tid.
     grant tid (User_product_id user) (cr_feature_key payload) (cr_amount payload) (cr_reason payload) (cr_reference payload) Grant)"

text \<open>\<^verbatim>\<open>UUID(x_tenant_id)\<close> raises on a text that is no UUID.\<close>

definition service_consume ::
    "CreditRequest \<Rightarrow> string option \<Rightarrow> uuid option \<Rightarrow> string option \<Rightarrow> string option \<Rightarrow> CreditWallet service" where
  "service_consume payload client_ip x_tenant_id x_service_token x_product_slug =
     bindS (require_service_token ''credits:consume'' client_ip x_service_token x_product_slug) (\<lambda>token.
     bindS (validated (valid_consume payload)) (\<lambda>_.
     case x_tenant_id of
       None \<Rightarrow> raise (ValueError ''badly formed hexadecimal UUID string'')
     | Some tid \<Rightarrow>
         consume tid (ProductServiceToken_product_id token) (cr_feature_key payload) (cr_amount payload)
           (cr_reason payload) (cr_reference payload)))"


section \<open>Jobs\<close>

record JobCreateRequest =
  jc_type :: string
  jc_payload :: dict
  jc_callback_url :: "string option"
  jc_reference :: "string option"
  jc_ttl_seconds :: "int option"

definition valid_job :: "JobCreateRequest \<Rightarrow> bool" where
  "valid_job r \<longleftrightarrow> 1 \<le> length (jc_type r) \<and> length (jc_type r) \<le> 64 \<and> short 128 (jc_reference r) \<and>
     within 1 (60 * 60 * 24 * 30) (jc_ttl_seconds r)"

definition create_job :: "JobCreateRequest \<Rightarrow> string option \<Rightarrow> User \<Rightarrow> (Job \<times> string) service" where
  "create_job payload idempotency_key user =
     bindS (get_idempotency_key idempotency_key) (\<lambda>key.
     bindS (effective_tenant user) (\<lambda>tid.
     bindS (gets acting_from) (\<lambda>home.
     bindS (enqueue \<lparr>j_product_id = User_product_id user, j_tenant_id = tid, j_type = jc_type payload,
              j_payload = jc_payload payload, j_callback_url = jc_callback_url payload,
              j_reference = jc_reference payload, j_ttl_seconds = jc_ttl_seconds payload,
              j_idempotency_key = key, j_actor_user_id = actor_id user, j_acting_from_tenant_id = home\<rparr>) (\<lambda>job.
     ret (job, ''/api/v1/jobs/'' @ uuid_str (Job_id job))))))"

record job_query =
  jq_status :: "JobStatus option"
  jq_type :: "string option"
  jq_reference :: "string option"
  jq_limit :: int

definition valid_job_query :: "job_query \<Rightarrow> bool" where
  "valid_job_query q \<longleftrightarrow> short 64 (jq_type q) \<and> short 128 (jq_reference q) \<and> 1 \<le> jq_limit q \<and> jq_limit q \<le> 200"

definition list_jobs_route :: "job_query \<Rightarrow> User \<Rightarrow> Job list service" where
  "list_jobs_route q user =
     bindS (effective_tenant user) (\<lambda>tid.
     list_jobs (User_product_id user) tid (jq_status q) (jq_type q) (jq_reference q) (jq_limit q))"

definition get_job_route :: "uuid \<Rightarrow> User \<Rightarrow> Job service" where
  "get_job_route job_id user = bindS (effective_tenant user) (\<lambda>tid. get_job (User_product_id user) tid job_id)"

definition cancel_job_route :: "uuid \<Rightarrow> User \<Rightarrow> Job service" where
  "cancel_job_route job_id user =
     bindS (effective_tenant user) (\<lambda>tid. cancel_job (User_product_id user) tid job_id (actor_id user))"


section \<open>Documents\<close>

text \<open>The characters of a collection name and of a document key.\<close>

definition is_digit :: "char \<Rightarrow> bool" where
  "is_digit c \<longleftrightarrow> of_char c \<ge> (48 :: nat) \<and> of_char c \<le> (57 :: nat)"

definition name_char :: "char \<Rightarrow> bool" where
  "name_char c \<longleftrightarrow> is_lower c \<or> is_upper c \<or> is_digit c \<or> c \<in> {CHR ''_'', CHR ''-'', CHR ''.''}"

definition CollectionPath :: "string \<Rightarrow> bool" where
  "CollectionPath s \<longleftrightarrow> 1 \<le> length s \<and> length s \<le> 64 \<and> list_all name_char s"

definition KeyPath :: "string \<Rightarrow> bool" where
  "KeyPath s \<longleftrightarrow> 1 \<le> length s \<and> length s \<le> 255 \<and> list_all (\<lambda>c. name_char c \<or> c = CHR '':'') s"

definition YEAR_SECONDS :: int where
  "YEAR_SECONDS = 60 * 60 * 24 * 365"

record CollectionCreate =
  cc_name :: string
  cc_description :: "string option"
  cc_default_ttl_seconds :: int

definition valid_collection :: "CollectionCreate \<Rightarrow> bool" where
  "valid_collection r \<longleftrightarrow> CollectionPath (cc_name r) \<and> short 255 (cc_description r) \<and>
     within 0 YEAR_SECONDS (Some (cc_default_ttl_seconds r))"

definition create_collection_route :: "CollectionCreate \<Rightarrow> User \<Rightarrow> StorageCollection service" where
  "create_collection_route payload user =
     bindS (effective_tenant user) (\<lambda>tid.
     create_collection (User_product_id user) tid (cc_name payload) (cc_description payload)
       (cc_default_ttl_seconds payload) (actor_id user))"

record StoragePut =
  sp_value :: dict
  sp_ttl_seconds :: "int option"
  sp_if_version :: "int option"

definition valid_put :: "StoragePut \<Rightarrow> bool" where
  "valid_put r \<longleftrightarrow> within 0 YEAR_SECONDS (sp_ttl_seconds r) \<and>
     (case sp_if_version r of None \<Rightarrow> True | Some v \<Rightarrow> 1 \<le> v)"

definition put_document_route :: "string \<Rightarrow> string \<Rightarrow> StoragePut \<Rightarrow> User \<Rightarrow> StorageDocument service" where
  "put_document_route collection key payload user =
     bindS (effective_tenant user) (\<lambda>tid.
     put_document \<lparr>p_product_id = User_product_id user, p_tenant_id = tid, p_collection = collection, p_key = key,
       p_value = sp_value payload, p_ttl_seconds = sp_ttl_seconds payload, p_if_version = sp_if_version payload,
       p_actor_user_id = actor_id user\<rparr>)"

definition get_document_route :: "string \<Rightarrow> string \<Rightarrow> User \<Rightarrow> StorageDocument service" where
  "get_document_route collection key user =
     bindS (effective_tenant user) (\<lambda>tid. get_document (User_product_id user) tid collection key)"

record document_query =
  dq_since :: "time option"
  dq_prefix :: "string option"
  dq_limit :: int

definition valid_document_query :: "document_query \<Rightarrow> bool" where
  "valid_document_query q \<longleftrightarrow> short 255 (dq_prefix q) \<and> 1 \<le> dq_limit q \<and> dq_limit q \<le> 500"

definition list_documents_route :: "string \<Rightarrow> document_query \<Rightarrow> User \<Rightarrow> StorageDocument list service" where
  "list_documents_route collection q user =
     bindS (effective_tenant user) (\<lambda>tid.
     list_documents (User_product_id user) tid collection (dq_since q) (dq_prefix q) (dq_limit q))"

definition delete_document_route :: "string \<Rightarrow> string \<Rightarrow> User \<Rightarrow> unit service" where
  "delete_document_route collection key user =
     bindS (effective_tenant user) (\<lambda>tid. delete_document (User_product_id user) tid collection key (actor_id user))"


section \<open>The audit log\<close>

record audit_query =
  aq_action :: "string option"
  aq_resource_type :: "string option"
  aq_page :: int
  aq_page_size :: int

definition valid_audit_query :: "audit_query \<Rightarrow> bool" where
  "valid_audit_query q \<longleftrightarrow> 1 \<le> aq_page q \<and> 1 \<le> aq_page_size q \<and> aq_page_size q \<le> 200"

definition audit_filter :: "audit_query \<Rightarrow> uuid \<Rightarrow> uuid \<Rightarrow> AuditLog \<Rightarrow> bool" where
  "audit_filter q pid tid e \<longleftrightarrow> AuditLog_product_id e = pid \<and> AuditLog_tenant_id e = tid \<and>
     (case aq_action q of None \<Rightarrow> True | Some a \<Rightarrow> AuditLog_action e = a) \<and>
     (case aq_resource_type q of None \<Rightarrow> True | Some r \<Rightarrow> AuditLog_resource_type e = Some r)"

text \<open>The rows of the page, and how many there are on all pages.\<close>

definition list_audit_log :: "audit_query \<Rightarrow> User \<Rightarrow> (AuditLog list \<times> nat) service" where
  "list_audit_log q user =
     bindS (effective_tenant user) (\<lambda>tid.
     bindS (scalars audit_log (audit_filter q (User_product_id user) tid)) (\<lambda>rows.
     ret (take (nat (aq_page_size q)) (drop (nat ((aq_page q - 1) * aq_page_size q))
            (sort_key (\<lambda>e. - AuditLog_created_at e) rows)), length rows)))"


section \<open>The router\<close>

datatype api_call =
    ListWallets
  | ListLedger int
  | Consume CreditRequest
  | GrantCredits CreditRequest
  | CreateJob JobCreateRequest "string option"
  | ListJobs job_query
  | GetJob uuid
  | CancelJob uuid
  | CreateCollection CollectionCreate
  | PutDocument string string StoragePut
  | GetDocument string string
  | ListDocuments string document_query
  | DeleteDocument string string
  | ListAudit audit_query

datatype api_reply =
    Wallets "CreditWallet list"
  | Ledger "CreditLedger list"
  | JobAccepted Job string
  | Jobs "Job list"
  | Collection StorageCollection
  | Documents "StorageDocument list"
  | AuditPage "AuditLog list" nat
  | NoContent

fun permission_of :: "api_call \<Rightarrow> string" where
  "permission_of ListWallets = ''credits:read''"
| "permission_of (ListLedger _) = ''credits:read''"
| "permission_of (ListAudit _) = ''audit:read''"
| "permission_of (Consume _) = ''credits:consume''"
| "permission_of (GrantCredits _) = ''credits:grant''"
| "permission_of (CreateJob _ _) = ''jobs:write''"
| "permission_of (ListJobs _) = ''jobs:read''"
| "permission_of (GetJob _) = ''jobs:read''"
| "permission_of (CancelJob _) = ''jobs:cancel''"
| "permission_of (CreateCollection _) = ''storage:write''"
| "permission_of (PutDocument _ _ _) = ''storage:write''"
| "permission_of (GetDocument _ _) = ''storage:read''"
| "permission_of (ListDocuments _ _) = ''storage:read''"
| "permission_of (DeleteDocument _ _) = ''storage:delete''"

fun valid_call :: "api_call \<Rightarrow> bool" where
  "valid_call (Consume r) = valid_consume r"
| "valid_call (GrantCredits r) = valid_grant r"
| "valid_call (CreateJob r _) = valid_job r"
| "valid_call (ListJobs q) = valid_job_query q"
| "valid_call (CreateCollection r) = valid_collection r"
| "valid_call (PutDocument c k r) = (CollectionPath c \<and> KeyPath k \<and> valid_put r)"
| "valid_call (GetDocument c k) = (CollectionPath c \<and> KeyPath k)"
| "valid_call (ListDocuments c q) = (CollectionPath c \<and> valid_document_query q)"
| "valid_call (DeleteDocument c k) = (CollectionPath c \<and> KeyPath k)"
| "valid_call (ListAudit q) = valid_audit_query q"
| "valid_call _ = True"

fun route_of :: "api_call \<Rightarrow> User \<Rightarrow> api_reply service" where
  "route_of ListWallets u = bindS (list_wallets u) (\<lambda>xs. ret (Wallets xs))"
| "route_of (ListLedger n) u = bindS (list_ledger n u) (\<lambda>es. ret (Ledger es))"
| "route_of (ListAudit q) u = bindS (list_audit_log q u) (\<lambda>(es, n). ret (AuditPage es n))"
| "route_of (Consume r) u = bindS (consume_route r u) (\<lambda>x. ret (Wallets [x]))"
| "route_of (GrantCredits r) u = bindS (grant_route r u) (\<lambda>x. ret (Wallets [x]))"
| "route_of (CreateJob r key) u = bindS (create_job r key u) (\<lambda>(j, url). ret (JobAccepted j url))"
| "route_of (ListJobs q) u = bindS (list_jobs_route q u) (\<lambda>js. ret (Jobs js))"
| "route_of (GetJob i) u = bindS (get_job_route i u) (\<lambda>j. ret (Jobs [j]))"
| "route_of (CancelJob i) u = bindS (cancel_job_route i u) (\<lambda>j. ret (Jobs [j]))"
| "route_of (CreateCollection r) u = bindS (create_collection_route r u) (\<lambda>c. ret (Collection c))"
| "route_of (PutDocument c k r) u = bindS (put_document_route c k r u) (\<lambda>d. ret (Documents [d]))"
| "route_of (GetDocument c k) u = bindS (get_document_route c k u) (\<lambda>d. ret (Documents [d]))"
| "route_of (ListDocuments c q) u = bindS (list_documents_route c q u) (\<lambda>ds. ret (Documents ds))"
| "route_of (DeleteDocument c k) u = bindS (delete_document_route c k u) (\<lambda>_. ret NoContent)"

definition serve_call :: "string option \<Rightarrow> headers \<Rightarrow> api_call \<Rightarrow> (api_reply response \<times> string) service" where
  "serve_call x_request_id h c =
     handle_request x_request_id (gated (permission_of c) (valid_call c) h (route_of c))"


section \<open>The data of the other tenants\<close>

text \<open>The database without what belongs to tenant \<open>t\<close> of product \<open>p\<close>: its jobs,
  collections, documents, wallets, ledger and audit entries.\<close>

definition foreign_data :: "uuid \<Rightarrow> uuid \<Rightarrow> database \<Rightarrow> database" where
  "foreign_data p t d = d\<lparr>
     credit_wallets := filter (\<lambda>x. CreditWallet_tenant_id x \<noteq> t) (credit_wallets d),
     credit_ledger := filter (\<lambda>e. CreditLedger_tenant_id e \<noteq> t) (credit_ledger d),
     jobs := filter (\<lambda>j. \<not> (Job_product_id j = p \<and> Job_tenant_id j = t)) (jobs d),
     storage_collections := filter (\<lambda>c. \<not> (StorageCollection_product_id c = p \<and> StorageCollection_tenant_id c = t))
       (storage_collections d),
     storage_documents := filter (\<lambda>x. \<not> (StorageDocument_product_id x = p \<and> StorageDocument_tenant_id x = t))
       (storage_documents d),
     audit_log := filter (\<lambda>e. AuditLog_tenant_id e \<noteq> t) (audit_log d)\<rparr>"

text \<open>What a reply may carry.\<close>

fun reply_of :: "uuid \<Rightarrow> uuid \<Rightarrow> api_reply \<Rightarrow> bool" where
  "reply_of p t (Wallets xs) = list_all (\<lambda>x. CreditWallet_tenant_id x = t) xs"
| "reply_of p t (JobAccepted j _) = (Job_product_id j = p \<and> Job_tenant_id j = t)"
| "reply_of p t (Jobs js) = list_all (\<lambda>j. Job_product_id j = p \<and> Job_tenant_id j = t) js"
| "reply_of p t (Collection c) = (StorageCollection_product_id c = p \<and> StorageCollection_tenant_id c = t)"
| "reply_of p t (Documents ds) = list_all (\<lambda>d. StorageDocument_product_id d = p \<and> StorageDocument_tenant_id d = t) ds"
| "reply_of p t (Ledger es) = list_all (\<lambda>e. CreditLedger_product_id e = p \<and> CreditLedger_tenant_id e = t) es"
| "reply_of p t (AuditPage es _) = list_all (\<lambda>e. AuditLog_product_id e = p \<and> AuditLog_tenant_id e = t) es"
| "reply_of p t NoContent = True"

text \<open>Primary keys are unique, and those of the wallets were drawn.\<close>

definition data_keys :: "world \<Rightarrow> bool" where
  "data_keys w \<longleftrightarrow> fresh_ids w \<and> distinct (map CreditWallet_id (credit_wallets (db w))) \<and>
     CreditWallet_id ` set (credit_wallets (db w)) \<subseteq> drawn w \<and> distinct (map Job_id (jobs (db w))) \<and>
     distinct (map StorageDocument_id (storage_documents (db w)))"

lemma filter_map_rows:
  assumes "\<And>r. r \<in> set rs \<Longrightarrow> P r \<Longrightarrow> \<not> Q r" and "\<And>r. r \<in> set rs \<Longrightarrow> P r \<Longrightarrow> \<not> Q (f r)"
  shows "filter Q (map_rows P f rs) = filter Q rs"
  using assms by (induction rs) auto

lemma filter_delete:
  assumes "\<And>r. r \<in> set rs \<Longrightarrow> P r \<Longrightarrow> \<not> Q r"
  shows "filter (\<lambda>r. Q r \<and> \<not> P r) rs = filter Q rs"
  using assms by (induction rs) auto

lemma foreign_audited:
  assumes "a_tenant_id a = Some t"
  shows "foreign_data p t (db (audited a w)) = foreign_data p t (db w)"
  using assms by (cases "t = NIL") (auto simp: foreign_data_def audited_def audit_tid_def split: option.splits)

text \<open>A row that is read back by its key is the only one with its primary key.\<close>

lemma only_row:
  assumes "distinct (map key rs)" and "List.find P rs = Some r" and "x \<in> set rs" and "key x = key r"
  shows "x = r"
  using distinct_map_eq [OF assms(1,3) _ assms(4)] find_SomeD [OF assms(2)] by simp

definition own_write :: "uuid \<Rightarrow> uuid \<Rightarrow> ('a \<Rightarrow> bool) \<Rightarrow> 'a service \<Rightarrow> world \<Rightarrow> bool" where
  "own_write p t Q m w \<longleftrightarrow> wp m (\<lambda>a w'. foreign_data p t (db w') = foreign_data p t (db w) \<and> Q a) (\<lambda>_ _. True) w"

lemma own_enqueue_insert:
  "own_write (j_product_id a) (j_tenant_id a) (\<lambda>j. Job_product_id j = j_product_id a \<and> Job_tenant_id j = j_tenant_id a) (enqueue_insert a) w"
  unfolding own_write_def enqueue_insert_def find_by_idempotency_key_def
  by (auto simp: wp_simps foreign_audited job_audit_def new_job_def under_key_def dest!: find_SomeD split: option.splits)
    (simp_all add: foreign_data_def)

lemma own_enqueue:
  "own_write (j_product_id a) (j_tenant_id a) (\<lambda>j. Job_product_id j = j_product_id a \<and> Job_tenant_id j = j_tenant_id a) (enqueue a) w"
  using own_enqueue_insert [of a w]
  unfolding own_write_def enqueue_def find_by_idempotency_key_def
  by (auto simp: wp_simps under_key_def dest!: find_SomeD split: option.splits)

lemma foreign_set_job:
  assumes "data_keys w" and "List.find P (jobs (db w)) = Some j" and "Job_product_id j = p" and "Job_tenant_id j = t"
    and "\<And>x. Job_product_id (f x) = Job_product_id x" and "\<And>x. Job_tenant_id (f x) = Job_tenant_id x"
  shows "foreign_data p t (jobs_update (map_rows (\<lambda>x. Job_id x = Job_id j) f) (db w)) = foreign_data p t (db w)"
proof -
  have own: "Job_product_id x = p \<and> Job_tenant_id x = t" if "x \<in> set (jobs (db w))" "Job_id x = Job_id j" for x
    using only_row [OF _ assms(2) that] assms(1,3,4) by (simp add: data_keys_def)
  show ?thesis
    by (simp add: foreign_data_def filter_map_rows own assms(5,6))
qed

lemma own_cancel_job:
  assumes "data_keys w"
  shows "own_write p t (\<lambda>j. Job_product_id j = p \<and> Job_tenant_id j = t) (cancel_job p t i actor) w"
proof (cases "List.find (\<lambda>j. Job_id j = i \<and> Job_product_id j = p \<and> Job_tenant_id j = t) (jobs (db w))")
  case None
  then show ?thesis by (simp add: own_write_def cancel_job_def get_job_def wp_simps)
next
  case (Some j)
  have j: "Job_product_id j = p" "Job_tenant_id j = t" using find_SomeD [OF Some] by simp_all
  show ?thesis
    using Some j foreign_set_job [OF assms Some j]
    by (simp add: own_write_def cancel_job_def get_job_def set_job_def wp_simps Let_def foreign_audited job_audit_def)
qed

lemma own_reads:
  "own_write p t (\<lambda>j. Job_product_id j = p \<and> Job_tenant_id j = t) (get_job p t i) w"
  "own_write p t (list_all (\<lambda>j. Job_product_id j = p \<and> Job_tenant_id j = t)) (list_jobs p t st ty rf n) w"
  "own_write p t (\<lambda>d. StorageDocument_product_id d = p \<and> StorageDocument_tenant_id d = t) (get_document p t c k) w"
  "own_write p t (list_all (\<lambda>d. StorageDocument_product_id d = p \<and> StorageDocument_tenant_id d = t)) (list_documents p t c since pre n) w"
  by (auto simp: own_write_def get_job_def list_jobs_def get_document_def list_documents_def get_collection_def
      get_document_row_def document_at_def wp_simps list_all_iff dest!: find_SomeD in_set_takeD split: option.splits)

lemma own_create_collection:
  "own_write p t (\<lambda>c. StorageCollection_product_id c = p \<and> StorageCollection_tenant_id c = t)
     (create_collection p t name desc n actor) w"
  unfolding own_write_def create_collection_def get_collection_def
  by (auto simp: wp_simps foreign_audited Let_def collection_at_def dest!: find_SomeD split: option.splits)
    (simp_all add: foreign_data_def)

lemma own_put_document:
  assumes "data_keys w"
  shows "own_write (p_product_id a) (p_tenant_id a)
     (\<lambda>d. StorageDocument_product_id d = p_product_id a \<and> StorageDocument_tenant_id d = p_tenant_id a) (put_document a) w"
proof -
  have update: "foreign_data (p_product_id a) (p_tenant_id a) (storage_documents_update (map_rows
      (\<lambda>x. StorageDocument_id x = StorageDocument_id d) (overwrite a c v t)) (db w)) = foreign_data (p_product_id a) (p_tenant_id a) (db w)"
    if d: "List.find (document_at (p_product_id a) (p_tenant_id a) i k) (storage_documents (db w)) = Some d" for d c i k v t
  proof -
    have own: "StorageDocument_product_id x = p_product_id a \<and> StorageDocument_tenant_id x = p_tenant_id a"
      if "x \<in> set (storage_documents (db w))" "StorageDocument_id x = StorageDocument_id d" for x
      using only_row [OF _ d that] assms find_SomeD [OF d] by (simp add: data_keys_def document_at_def)
    show ?thesis
      by (simp add: foreign_data_def filter_map_rows own overwrite_def)
  qed
  show ?thesis
    unfolding own_write_def put_document_def put_read_def put_write_def measure_value_def get_collection_def get_document_row_def
    by (auto simp: wp_simps foreign_audited put_audit_def Let_def update split: option.splits)
      (auto simp: foreign_data_def new_document_def overwrite_def document_at_def dest!: find_SomeD)
qed

lemma own_delete_document:
  assumes "data_keys w"
  shows "own_write p t (\<lambda>_. True) (delete_document p t c k actor) w"
proof -
  have delete: "foreign_data p t (storage_documents_update (filter (\<lambda>x. StorageDocument_id x \<noteq> StorageDocument_id d)) (db w)) =
      foreign_data p t (db w)"
    if d: "List.find (document_at p t i k) (storage_documents (db w)) = Some d" for d i
  proof -
    have own: "StorageDocument_product_id x = p \<and> StorageDocument_tenant_id x = t"
      if "x \<in> set (storage_documents (db w))" "StorageDocument_id x = StorageDocument_id d" for x
      using only_row [OF _ d that] assms find_SomeD [OF d] by (simp add: data_keys_def document_at_def)
    have "filter (\<lambda>x. StorageDocument_id x \<noteq> StorageDocument_id d \<and>
        (StorageDocument_product_id x = p \<longrightarrow> StorageDocument_tenant_id x \<noteq> t)) (storage_documents (db w)) =
      filter (\<lambda>x. StorageDocument_product_id x = p \<longrightarrow> StorageDocument_tenant_id x \<noteq> t) (storage_documents (db w))"
      using own by (intro filter_cong) auto
    then show ?thesis by (simp add: foreign_data_def)
  qed
  show ?thesis
    unfolding own_write_def delete_document_def get_collection_def get_document_row_def
    by (auto simp: wp_simps foreign_audited delete split: option.splits)
qed

text \<open>A booking changes the balance of the wallet and adds an entry of the tenant.\<close>

lemma own_book:
  assumes "distinct (map CreditWallet_id (credit_wallets (db w)))" and "x \<in> set (credit_wallets (db w))"
    and "CreditWallet_tenant_id x = t"
  shows "own_write p t (\<lambda>y. CreditWallet_tenant_id y = t) (book x p' t et n b reason ref) w"
proof -
  have own: "CreditWallet_tenant_id y = t" if "y \<in> set (credit_wallets (db w))" "CreditWallet_id y = CreditWallet_id x" for y
    using distinct_map_eq [OF assms(1) that(1) assms(2) that(2)] assms(3) by simp
  show ?thesis
    by (simp add: own_write_def book_def wp_simps foreign_data_def filter_map_rows own assms(3))
qed

lemma own_consume:
  assumes "data_keys w"
  shows "own_write p t (\<lambda>x. CreditWallet_tenant_id x = t) (consume t p f n reason ref) w"
proof -
  have wallet: "x \<in> set (credit_wallets (db w)) \<and> CreditWallet_tenant_id x = t"
    if "List.find (wallet_key t f) (credit_wallets (db w)) = Some x" for x
    using find_SomeD [OF that] by (simp add: wallet_key_def)
  show ?thesis
    using own_book [where w = w and t = t and p = p] assms wallet
    by (auto simp: own_write_def consume_def lock_wallet_def already_booked_def was_referenced_def wp_simps data_keys_def
        split: option.splits)
qed

lemma own_grant:
  assumes "data_keys w"
  shows "own_write p t (\<lambda>x. CreditWallet_tenant_id x = t) (grant t p f n reason ref et) w"
proof (cases "List.find (wallet_key t f) (credit_wallets (db w))")
  case (Some x)
  have x: "x \<in> set (credit_wallets (db w))" "CreditWallet_tenant_id x = t"
    using find_SomeD [OF Some] by (simp_all add: wallet_key_def)
  show ?thesis
    using own_book [OF _ x, where p = p] assms Some x
    by (auto simp: own_write_def grant_def grant_read_def grant_write_def get_or_create_wallet_def already_booked_def
        was_referenced_def wp_simps data_keys_def split: option.splits)
next
  case None
  let ?x = "\<lparr>CreditWallet_id = draws w (draw_no w), CreditWallet_product_id = p, CreditWallet_tenant_id = t,
     CreditWallet_feature_key = f, CreditWallet_balance = 0, CreditWallet_period_start = None, CreditWallet_period_end = None\<rparr>"
  let ?v = "w\<lparr>draw_no := Suc (draw_no w), db := credit_wallets_update (\<lambda>rs. rs @ [?x]) (db w)\<rparr>"
  have "draws w (draw_no w) \<notin> CreditWallet_id ` set (credit_wallets (db w))"
    using assms fresh_not_drawn [of w] by (auto simp: data_keys_def)
  then have "own_write p t (\<lambda>y. CreditWallet_tenant_id y = t) (book ?x p t et n' b reason ref) ?v" for n' b
    using assms by (intro own_book) (simp_all add: data_keys_def)
  moreover have "foreign_data p t (db ?v) = foreign_data p t (db w)"
    by (simp add: foreign_data_def)
  ultimately show ?thesis
    using None
    by (auto simp: own_write_def grant_def grant_read_def grant_write_def get_or_create_wallet_def already_booked_def
        was_referenced_def wp_simps Let_def split: option.splits)
qed


section \<open>Isolation of the API\<close>

lemma own_write_mono: "own_write p t Q m w \<Longrightarrow> (\<And>a. Q a \<Longrightarrow> Q' a) \<Longrightarrow> own_write p t Q' m w"
  unfolding own_write_def by (erule wp_mono) auto

lemma own_write_reply:
  "own_write p t Q m w \<Longrightarrow> (\<And>a. Q a \<Longrightarrow> Q' (f a)) \<Longrightarrow> own_write p t Q' (bindS m (\<lambda>a. ret (f a))) w"
  unfolding own_write_def wp_bindS wp_ret by (erule wp_mono) auto

lemma own_route:
  assumes "data_keys v" and "effective_tenant u v = (Inr t, v)"
  shows "own_write (User_product_id u) t (reply_of (User_product_id u) t) (route_of c u) v"
proof -
  let ?p = "User_product_id u"
  have tenant: "own_write ?p t Q (bindS (effective_tenant u) f) v = own_write ?p t Q (f t) v" for Q :: "'a \<Rightarrow> bool" and f
    by (simp add: own_write_def wp_def svc_simps assms(2))
  have t: "(case current_tenant_id v of None \<Rightarrow> User_tenant_id u | Some x \<Rightarrow> x) = t"
    using assms(2) by (simp add: effective_tenant_def svc_simps)
  show ?thesis
  proof (cases c)
    case ListWallets
    show ?thesis
      unfolding ListWallets route_of.simps list_wallets_def
      by (rule own_write_reply, subst tenant) (auto simp: own_write_def wp_simps list_all_iff)
  next
    case (ListLedger n)
    show ?thesis
      by (auto simp: ListLedger own_write_def list_ledger_def effective_tenant_def t wp_simps list_all_iff dest!: in_set_takeD)
  next
    case (ListAudit q)
    show ?thesis
      by (auto simp: ListAudit own_write_def list_audit_log_def audit_filter_def effective_tenant_def t wp_simps list_all_iff
          dest!: in_set_takeD in_set_dropD)
  next
    case (Consume r)
    show ?thesis
      unfolding Consume route_of.simps consume_route_def
      by (rule own_write_reply, subst tenant, rule own_consume [OF assms(1)]) simp
  next
    case (GrantCredits r)
    show ?thesis
      unfolding GrantCredits route_of.simps grant_route_def
      by (rule own_write_reply, subst tenant, rule own_grant [OF assms(1)]) simp
  next
    case (CreateJob r key)
    have e: "own_write ?p t (\<lambda>j. Job_product_id j = ?p \<and> Job_tenant_id j = t) (enqueue a) v"
      if "j_product_id a = ?p" "j_tenant_id a = t" for a
      using own_enqueue [of a v] that by simp
    note run = wp_mono [OF e [unfolded own_write_def]]
    show ?thesis
      unfolding CreateJob route_of.simps create_job_def
      by (cases "truthy key \<and> 128 < length (the key)")
        (auto simp: own_write_def wp_simps get_idempotency_key_def effective_tenant_def t intro!: run)
  next
    case (ListJobs q)
    show ?thesis
      unfolding ListJobs route_of.simps list_jobs_route_def
      by (rule own_write_reply, subst tenant, rule own_reads) simp
  next
    case (GetJob i)
    show ?thesis
      unfolding GetJob route_of.simps get_job_route_def
      by (rule own_write_reply, subst tenant, rule own_reads) simp
  next
    case (CancelJob i)
    show ?thesis
      unfolding CancelJob route_of.simps cancel_job_route_def
      by (rule own_write_reply, subst tenant, rule own_cancel_job [OF assms(1)]) simp
  next
    case (CreateCollection r)
    show ?thesis
      unfolding CreateCollection route_of.simps create_collection_route_def
      by (rule own_write_reply, subst tenant, rule own_create_collection) simp
  next
    case (PutDocument cn k r)
    show ?thesis
      using own_put_document [OF assms(1), of "\<lparr>p_product_id = ?p, p_tenant_id = t, p_collection = cn, p_key = k,
        p_value = sp_value r, p_ttl_seconds = sp_ttl_seconds r, p_if_version = sp_if_version r, p_actor_user_id = actor_id u\<rparr>"]
      unfolding PutDocument route_of.simps put_document_route_def
      by (intro own_write_reply) (simp_all add: tenant)
  next
    case (GetDocument cn k)
    show ?thesis
      unfolding GetDocument route_of.simps get_document_route_def
      by (rule own_write_reply, subst tenant, rule own_reads) simp
  next
    case (ListDocuments cn q)
    show ?thesis
      unfolding ListDocuments route_of.simps list_documents_route_def
      by (rule own_write_reply, subst tenant, rule own_reads) simp
  next
    case (DeleteDocument cn k)
    show ?thesis
      unfolding DeleteDocument route_of.simps delete_document_route_def
      by (rule own_write_reply, subst tenant, rule own_delete_document [OF assms(1)]) simp
  qed
qed

lemma data_keys_later:
  assumes "data_keys w" and "db v = db w" and "draws v = draws w" and "draw_no w \<le> draw_no v"
  shows "data_keys v"
  using assms drawn_subset [OF assms(3,4)] by (auto simp: data_keys_def fresh_ids_def)

text \<open>C13: the tenant isolation of the API. Whatever the call, its headers and its payload: a call that is
  answered with an error writes nothing to the database. A call that succeeds was made by a user who was
  let in, has the permission of the route in its effective tenant and sent a payload within the schema; all of
  the database that is not the data of that tenant (its wallets, ledger, jobs, collections, documents and
  audit entries) is exactly what it was, and the reply carries rows of that tenant only.\<close>

theorem api_tenant_isolation:
  assumes "data_keys w" and "serve_call rid h c w = (r, w')"
  shows "(\<exists>n e i. r = Inr (Failure n e, i) \<and> db w' = db w) \<or>
    (\<exists>reply i u v t. r = Inr (Success reply, i) \<and> request_user h (started rid w) = (Inr u, v) \<and>
       effective_tenant u v = (Inr t, v) \<and> fst (user_has_permission u (permission_of c) None v) = Inr True \<and> valid_call c \<and>
       foreign_data (User_product_id u) t (db w') = foreign_data (User_product_id u) t (db w) \<and>
       reply_of (User_product_id u) t reply)"
proof (cases rule: handle_requestD [OF assms(2) [unfolded serve_call_def]])
  case (1 reply i)
  obtain u v where g: "request_user h (started rid w) = (Inr u, v)" "fst (user_has_permission u (permission_of c) None v) = Inr True"
      "valid_call c" "route_of c u v = (Inr reply, w')" "db v = db w" "draws v = draws w" "draw_no v = draw_no (started rid w)"
    using gatedD [OF 1(3)] by (metis started_simps(1,8))
  obtain t where t: "effective_tenant u v = (Inr t, v)"
    by (simp add: effective_tenant_def svc_simps)
  have "data_keys v"
    using data_keys_later [OF assms(1) g(5,6)] g(7) started_draws by simp
  from wp_InrD [OF own_route [OF this t, of c, unfolded own_write_def] g(4)] show ?thesis
    using 1(1) g t by metis
next
  case (2 e v i)
  then show ?thesis by simp
qed


text \<open>A clerk of tenant 107 who may cancel jobs, one queued job of the tenant and one of its child.\<close>

definition sample_queued :: "uuid \<Rightarrow> uuid \<Rightarrow> Job" where
  "sample_queued i t = new_job \<lparr>j_product_id = 5, j_tenant_id = t, j_type = ''import'', j_payload = [], j_callback_url = None,
     j_reference = None, j_ttl_seconds = None, j_idempotency_key = None, j_actor_user_id = None,
     j_acting_from_tenant_id = None\<rparr> i 0"

definition sample_desk :: world where
  "sample_desk = sample_office\<lparr>draw_no := 300, db := (db sample_office)\<lparr>
     permissions := [\<lparr>Permission_id = 141, Permission_code = ''jobs:cancel'', Permission_description = None\<rparr>],
     roles := [sample_role],
     role_permissions := [\<lparr>RolePermission_id = 142, RolePermission_role_id = 140, RolePermission_permission_id = 141\<rparr>],
     user_roles := [\<lparr>UserRole_id = 143, UserRole_product_id = 5, UserRole_user_id = 120,
       UserRole_role_id = 140, UserRole_scope_tenant_id = None\<rparr>],
     jobs := [sample_queued 161 107, sample_queued 162 108]\<rparr>\<rparr>"

definition sample_home :: headers where
  "sample_home = sample_headers\<lparr>h_product_slug := None, h_acting_tenant_slug := None\<rparr>"

lemma sample_desk_keys: "data_keys sample_desk"
  by (simp add: data_keys_def sample_desk_def sample_office_def sample_family_def sample_queued_def new_job_def empty_db_def
      fresh_ids_def sample_world_def NIL_def)

lemma sample_cancel:
  "\<exists>reply w'. serve_call (Some ''r1'') sample_home (CancelJob 161) sample_desk = (Inr (Success reply, ''r1''), w') \<and>
     map Job_status (jobs (db w')) = [JobCancelled, Queued]"
  by (simp add: serve_call_def handle_request_def fresh_context_def bind_request_id_def answer_def session_scope_def gated_def
      request_user_def resolve_product_def get_current_user_def bearer_session_def validated_def require_permission_def
      decode_token_def enforce_tenant_expiry_def set_current_product_def set_current_tenant_def
      sample_home_def sample_headers_def sample_desk_def sample_office_def sample_family_def sample_world_def sample_lib_def
      default_settings_def empty_db_def sample_user_def sample_child_def svc_simps Let_def current_tenant_id_def
      user_has_permission_def list_user_permission_codes_def permission_codes_def binding_applies_def sample_role_def
      perm_matches_def split_code_def effective_tenant_def cancel_job_route_def cancel_job_def get_job_def set_job_def
      sample_queued_def new_job_def del: set_map set_filter)

theorem api_tenant_isolation_witness:
  "\<exists>p t reply w'. serve_call (Some ''r1'') sample_home (CancelJob 161) sample_desk = (Inr (Success reply, ''r1''), w') \<and>
     map Job_status (jobs (db w')) = [JobCancelled, Queued] \<and>
     foreign_data p t (db w') = foreign_data p t (db sample_desk) \<and> reply_of p t reply"
proof -
  obtain reply w' where run: "serve_call (Some ''r1'') sample_home (CancelJob 161) sample_desk = (Inr (Success reply, ''r1''), w')"
      "map Job_status (jobs (db w')) = [JobCancelled, Queued]"
    using sample_cancel by (elim exE conjE) (rule that)
  show ?thesis
    using api_tenant_isolation [OF sample_desk_keys run(1)] run by auto
qed



section \<open>Pages\<close>

lemma pages_of_list:
  assumes "0 < m"
  shows "concat (map (\<lambda>i. take m (drop (i * m) xs)) [0..<k]) = take (k * m) xs"
proof (induction k)
  case (Suc k)
  have "take (Suc k * m) xs = take (k * m) xs @ take m (drop (k * m) xs)"
    by (metis add.commute mult_Suc take_add)
  then show ?case using Suc by simp
qed simp



end
