(* ===== verification/AccountRoutes.thy ===== *)
theory AccountRoutes
  imports TenantRoutes Components GoogleLogin Lifecycle PlanCatalog "HOL-Library.AList" "HOL-Library.List_Lexorder" "HOL-Library.Char_ord"
begin

text \<open>
  The routes of accounts, tenants, plans and subscriptions: \<^verbatim>\<open>app/api/v1/auth.py\<close>,
  \<^verbatim>\<open>app/api/v1/tenants.py\<close>, \<^verbatim>\<open>app/api/v1/plans.py\<close> and
  \<^verbatim>\<open>app/api/v1/subscriptions.py\<close>, with the bounds of their schemas. The syntax of an
  email address is left to the validator of pydantic, which is not modelled: a payload holds an
  address that passed it.
\<close>

section \<open>Registration and login\<close>

text \<open>What a route reads of its client: the user agent and the host.\<close>

record client =
  cl_user_agent :: "string option"
  cl_host :: "string option"

record TokenPair =
  tp_access_token :: string
  tp_refresh_token :: string
  tp_token_type :: string
  tp_expires_at :: time

fun token_pair :: "User \<times> string \<times> string \<times> time \<Rightarrow> TokenPair" where
  "token_pair (_, access, refresh_tok, exp) =
     \<lparr>tp_access_token = access, tp_refresh_token = refresh_tok, tp_token_type = ''bearer'', tp_expires_at = exp\<rparr>"

definition RequireProduct :: "string option \<Rightarrow> uuid service" where
  "RequireProduct x_product_slug = bindS (resolve_product x_product_slug) require_product"

definition PASSWORD_MIN_LENGTH :: nat where
  "PASSWORD_MIN_LENGTH = 12"

definition valid_password :: "string \<Rightarrow> bool" where
  "valid_password s \<longleftrightarrow> PASSWORD_MIN_LENGTH \<le> length s \<and> length s \<le> 128"

definition slug_char :: "char \<Rightarrow> bool" where
  "slug_char c \<longleftrightarrow> is_lower c \<or> is_digit c \<or> c = CHR ''-''"

definition valid_slug :: "string \<Rightarrow> bool" where
  "valid_slug s \<longleftrightarrow> 2 \<le> length s \<and> length s \<le> 64 \<and> list_all slug_char s"

record RegisterRequest =
  rg_tenant_name :: string
  rg_tenant_slug :: string
  rg_email :: string
  rg_password :: string
  rg_full_name :: "string option"

definition valid_register :: "RegisterRequest \<Rightarrow> bool" where
  "valid_register r \<longleftrightarrow> 1 \<le> length (rg_tenant_name r) \<and> length (rg_tenant_name r) \<le> 255 \<and>
     valid_slug (rg_tenant_slug r) \<and> valid_password (rg_password r) \<and> short 255 (rg_full_name r)"

definition register_route :: "client \<Rightarrow> string option \<Rightarrow> RegisterRequest \<Rightarrow> TokenPair service" where
  "register_route c x_product_slug payload =
     bindS (RequireProduct x_product_slug) (\<lambda>product_id.
     bindS (validated (valid_register payload)) (\<lambda>_.
     bindS (register product_id (rg_tenant_name payload) (rg_tenant_slug payload) (rg_email payload)
              (rg_password payload) (rg_full_name payload) Company) (\<lambda>_.
     bindS (login product_id (rg_email payload) (rg_password payload) (Some (rg_tenant_slug payload))
              (cl_user_agent c) (cl_host c)) (\<lambda>r.
     ret (token_pair r)))))"

record RegisterIndividualRequest =
  ri_email :: string
  ri_password :: string
  ri_full_name :: "string option"

definition register_individual_route ::
    "client \<Rightarrow> string option \<Rightarrow> RegisterIndividualRequest \<Rightarrow> TokenPair service" where
  "register_individual_route c x_product_slug payload =
     bindS (RequireProduct x_product_slug) (\<lambda>product_id.
     bindS (validated (valid_password (ri_password payload) \<and> short 255 (ri_full_name payload))) (\<lambda>_.
     bindS (register_individual product_id (ri_email payload) (ri_password payload) (ri_full_name payload)) (\<lambda>_.
     bindS (login product_id (ri_email payload) (ri_password payload) None (cl_user_agent c) (cl_host c)) (\<lambda>r.
     ret (token_pair r)))))"

record LoginRequest =
  lg_email :: string
  lg_password :: string
  lg_tenant_slug :: "string option"

definition login_route :: "client \<Rightarrow> string option \<Rightarrow> LoginRequest \<Rightarrow> TokenPair service" where
  "login_route c x_product_slug payload =
     bindS (RequireProduct x_product_slug) (\<lambda>product_id.
     bindS (login product_id (lg_email payload) (lg_password payload) (lg_tenant_slug payload)
              (cl_user_agent c) (cl_host c)) (\<lambda>r.
     ret (token_pair r)))"

definition refresh_tokens_route :: "string \<Rightarrow> TokenPair service" where
  "refresh_tokens_route refresh_token = bindS (refresh refresh_token) (\<lambda>r. ret (token_pair r))"

definition login_google_route ::
    "google_http \<Rightarrow> client \<Rightarrow> string option \<Rightarrow> string \<Rightarrow> string \<Rightarrow> TokenPair service" where
  "login_google_route http c x_product_slug code redirect_uri =
     bindS (RequireProduct x_product_slug) (\<lambda>product_id.
     bindS (validated (10 \<le> length code \<and> length code \<le> 2048 \<and> 10 \<le> length redirect_uri \<and> length redirect_uri \<le> 512)) (\<lambda>_.
     bindS (login_with_google http product_id code redirect_uri (cl_user_agent c) (cl_host c)) (\<lambda>r.
     ret (token_pair r))))"


section \<open>The session of a user\<close>

definition logout_route :: "headers \<Rightarrow> string option \<Rightarrow> bool \<Rightarrow> unit service" where
  "logout_route h refresh_token all_sessions =
     bindS (request_user h) (\<lambda>user. logout user refresh_token all_sessions)"

definition change_password_route :: "headers \<Rightarrow> string \<Rightarrow> string \<Rightarrow> unit service" where
  "change_password_route h current_password new_password =
     bindS (request_user h) (\<lambda>user.
     bindS (validated (valid_password new_password)) (\<lambda>_.
     change_password user current_password new_password))"

record ForgotPasswordResponse =
  fp_ok :: bool
  fp_reset_token :: "string option"
  fp_expires_at :: "time option"

definition is_production :: "Settings \<Rightarrow> bool" where
  "is_production s \<longleftrightarrow> app_env s = ''production''"

definition forgot_password :: "client \<Rightarrow> string option \<Rightarrow> string \<Rightarrow> ForgotPasswordResponse service" where
  "forgot_password c x_product_slug email =
     bindS (RequireProduct x_product_slug) (\<lambda>product_id.
     bindS (request_password_reset product_id email (cl_host c)) (\<lambda>r.
     bindS (gets settings) (\<lambda>st.
     ret (case r of
            Some (raw, expires) \<Rightarrow>
              if \<not> is_production st then \<lparr>fp_ok = True, fp_reset_token = Some raw, fp_expires_at = Some expires\<rparr>
              else \<lparr>fp_ok = True, fp_reset_token = None, fp_expires_at = None\<rparr>
          | None \<Rightarrow> \<lparr>fp_ok = True, fp_reset_token = None, fp_expires_at = None\<rparr>))))"

definition reset_password :: "string \<Rightarrow> string \<Rightarrow> unit service" where
  "reset_password token new_password =
     bindS (validated (16 \<le> length token \<and> length token \<le> 128 \<and> valid_password new_password)) (\<lambda>_.
     bindS (confirm_password_reset token new_password) (\<lambda>_. ret ()))"

record MeResponse =
  me_id :: uuid
  me_product_id :: uuid
  me_tenant_id :: uuid
  me_email :: string
  me_full_name :: "string option"
  me_is_active :: bool
  me_is_verified :: bool
  me_permissions :: "string list"
  me_components :: "(string \<times> bool) list"

text \<open>The codes are a set, sorted for the answer; of two components with one code the later entry
  wins.\<close>

definition me :: "headers \<Rightarrow> MeResponse service" where
  "me h =
     bindS (request_user h) (\<lambda>user.
     bindS (list_user_permission_codes user None) (\<lambda>perms.
     bindS (user_effective_components user) (\<lambda>rows.
     ret \<lparr>me_id = User_id user, me_product_id = User_product_id user, me_tenant_id = User_tenant_id user,
       me_email = User_email user, me_full_name = User_full_name user, me_is_active = User_is_active user,
       me_is_verified = User_is_verified user, me_permissions = sort (remdups perms),
       me_components = fold (\<lambda>(c, is_enabled, _, _) d. AList.update (ProductComponent_code c) is_enabled d) rows []\<rparr>)))"


section \<open>Plans\<close>

definition list_plans_route :: "string option \<Rightarrow> Plan list service" where
  "list_plans_route x_product_slug =
     bindS (RequireProduct x_product_slug) (\<lambda>product_id. list_plans product_id True)"

definition create_plan_route :: "PlanCreate \<Rightarrow> User \<Rightarrow> Plan service" where
  "create_plan_route payload user = create_plan payload (User_product_id user) (actor_id user)"

definition update_plan_route :: "string \<Rightarrow> PlanUpdate \<Rightarrow> User \<Rightarrow> Plan service" where
  "update_plan_route code payload user = update_plan code payload (User_product_id user) (actor_id user)"


section \<open>Subscriptions\<close>

record SubscriptionResponse =
  sr_id :: uuid
  sr_tenant_id :: uuid
  sr_plan_id :: uuid
  sr_plan_code :: string
  sr_status :: SubscriptionStatus
  sr_current_period_start :: time
  sr_current_period_end :: time
  sr_trial_end :: "time option"
  sr_grace_ends_at :: "time option"
  sr_cancel_at_period_end :: bool
  sr_cancelled_at :: "time option"
  sr_has_access :: bool

definition serialise :: "Subscription \<Rightarrow> SubscriptionResponse service" where
  "serialise sub =
     bindS (scalar plans (\<lambda>p. Plan_id p = Subscription_plan_id sub)) (\<lambda>plan.
     ret \<lparr>sr_id = Subscription_id sub, sr_tenant_id = Subscription_tenant_id sub, sr_plan_id = Subscription_plan_id sub,
       sr_plan_code = (case plan of Some p \<Rightarrow> Plan_code p | None \<Rightarrow> []), sr_status = Subscription_status sub,
       sr_current_period_start = Subscription_current_period_start sub,
       sr_current_period_end = Subscription_current_period_end sub, sr_trial_end = Subscription_trial_end sub,
       sr_grace_ends_at = Subscription_grace_ends_at sub, sr_cancel_at_period_end = Subscription_cancel_at_period_end sub,
       sr_cancelled_at = Subscription_cancelled_at sub, sr_has_access = has_access sub\<rparr>)"

definition get_subscription :: "User \<Rightarrow> SubscriptionResponse service" where
  "get_subscription user = bindS (effective_tenant user) (\<lambda>tid. bindS (get_or_raise tid) serialise)"

definition purchase_route ::
    "provider \<Rightarrow> string \<Rightarrow> string option \<Rightarrow> string option \<Rightarrow> User \<Rightarrow> SubscriptionResponse service" where
  "purchase_route provider plan_code payment_method_token idempotency_key user =
     bindS (get_idempotency_key idempotency_key) (\<lambda>key.
     bindS (effective_tenant user) (\<lambda>tid.
     bindS (purchase provider tid plan_code payment_method_token (actor_id user) key) serialise))"

definition change_route ::
    "provider \<Rightarrow> string \<Rightarrow> bool \<Rightarrow> string option \<Rightarrow> User \<Rightarrow> SubscriptionResponse service" where
  "change_route provider plan_code proration idempotency_key user =
     bindS (get_idempotency_key idempotency_key) (\<lambda>key.
     bindS (effective_tenant user) (\<lambda>tid.
     bindS (change_plan provider tid plan_code proration (actor_id user) key) serialise))"

definition cancel_route :: "provider \<Rightarrow> bool \<Rightarrow> string option \<Rightarrow> User \<Rightarrow> SubscriptionResponse service" where
  "cancel_route provider at_period_end reason user =
     bindS (validated (short 255 reason)) (\<lambda>_.
     bindS (effective_tenant user) (\<lambda>tid.
     bindS (cancel provider tid at_period_end reason (actor_id user)) serialise))"


section \<open>Tenants\<close>

definition list_tenants :: "User \<Rightarrow> Tenant list service" where
  "list_tenants user =
     bindS (effective_tenant user) (\<lambda>tid.
     scalars tenants (\<lambda>t. Tenant_product_id t = User_product_id user \<and> (Tenant_id t = tid \<or> Tenant_parent_id t = Some tid)))"

record TenantOwner =
  ow_email :: string
  ow_password :: string
  ow_full_name :: "string option"

record TenantCreate =
  tc_name :: string
  tc_slug :: string
  tc_parent_id :: "uuid option"
  tc_type :: TenantType
  tc_settings :: dict
  tc_expires_at :: "time option"
  tc_owner :: "TenantOwner option"
  tc_plan_code :: "string option"

definition valid_tenant :: "TenantCreate \<Rightarrow> bool" where
  "valid_tenant r \<longleftrightarrow> 1 \<le> length (tc_name r) \<and> length (tc_name r) \<le> 255 \<and> valid_slug (tc_slug r) \<and>
     (case tc_owner r of None \<Rightarrow> True | Some x \<Rightarrow> 8 \<le> length (ow_password x) \<and> length (ow_password x) \<le> 128 \<and>
        short 255 (ow_full_name x))"

text \<open>The owner of a tenant that the platform administrator creates.\<close>

definition bootstrap_owner :: "User \<Rightarrow> Tenant \<Rightarrow> TenantOwner \<Rightarrow> unit service" where
  "bootstrap_owner user tenant x =
     bindS (set_current_tenant (Some (Tenant_id tenant))) (\<lambda>_.
     bindS (hash_password (ow_password x)) (\<lambda>h.
     bindS fresh (\<lambda>i.
     let ow = \<lparr>User_id = i, User_product_id = User_product_id user, User_tenant_id = Tenant_id tenant,
           User_email = str_lower (ow_email x), User_password_hash = h, User_full_name = ow_full_name x,
           User_is_active = True, User_is_verified = True, User_last_login_at = None, User_deleted_at = None,
           User_is_platform_admin = False\<rparr>
     in
     bindS (insert_row users users_update user_clash ow) (\<lambda>_.
     bindS (ensure_system_roles_for_product (User_product_id user)) (\<lambda>_.
     bindS (assign_role_by_name ow ''owner'') (\<lambda>_.
     record_audit ((act ''user.bootstrap_owner'')\<lparr>a_resource_type := Some ''user'', a_resource_id := Some i,
       a_tenant_id := Some (Tenant_id tenant), a_product_id := Some (User_product_id user),
       a_diff := [(''email'', JStr (User_email ow)), (''by'', JStr ''platform_admin'')]\<rparr>)))))))"

definition set_expiry :: "Tenant \<Rightarrow> time option \<Rightarrow> Tenant service" where
  "set_expiry tenant expires_at =
     (if expires_at = None then ret tenant
      else
      bindS (update_rows tenants_update (\<lambda>t. Tenant_id t = Tenant_id tenant) (\<lambda>t. t\<lparr>Tenant_expires_at := expires_at\<rparr>)) (\<lambda>_.
      ret (tenant\<lparr>Tenant_expires_at := expires_at\<rparr>)))"

definition new_parent :: "User \<Rightarrow> uuid \<Rightarrow> uuid option \<Rightarrow> app_error + uuid option" where
  "new_parent user tid parent_id =
     (if User_is_platform_admin user \<and> tid = NIL \<and> parent_id = None then Inr None
      else if (case parent_id of Some p \<Rightarrow> p | None \<Rightarrow> tid) \<noteq> tid
      then Inl (Forbidden ''can only create child tenants under your own (effective) tenant'')
      else Inr (Some tid))"

definition create_child_tenant :: "TenantCreate \<Rightarrow> User \<Rightarrow> Tenant service" where
  "create_child_tenant payload user =
     bindS (effective_tenant user) (\<lambda>tid.
     bindS (liftE (new_parent user tid (tc_parent_id payload))) (\<lambda>parent_id.
     if (tc_owner payload \<noteq> None \<or> truthy (tc_plan_code payload)) \<and> \<not> User_is_platform_admin user
     then raise (Forbidden ''only platform admin can bootstrap a tenant with an owner / plan'')
     else
     bindS (create_tenant (User_product_id user) (tc_name payload) (tc_slug payload) parent_id (tc_settings payload)
              (actor_id user) (tc_type payload)) (\<lambda>created.
     bindS (set_expiry created (tc_expires_at payload)) (\<lambda>tenant.
     bindS (case tc_owner payload of None \<Rightarrow> ret () | Some x \<Rightarrow> bootstrap_owner user tenant x) (\<lambda>_.
     bindS (if tc_plan_code payload \<noteq> None \<or> tc_owner payload \<noteq> None
            then bindS (start_trial (Tenant_id tenant) (User_product_id user) (tc_plan_code payload)) (\<lambda>_. ret ())
            else ret ()) (\<lambda>_.
     ret tenant))))))"

definition list_children :: "User \<Rightarrow> AccessibleChild list service" where
  "list_children user = list_accessible_children user"

text \<open>The routes that change the status look at the product of the row only.\<close>

definition product_tenant :: "uuid \<Rightarrow> User \<Rightarrow> Tenant service" where
  "product_tenant tenant_id user =
     bindS (scalar tenants (\<lambda>t. Tenant_id t = tenant_id)) (\<lambda>tenant.
     case tenant of
       None \<Rightarrow> raise (NotFound ''tenant not found'')
     | Some t \<Rightarrow> if Tenant_product_id t \<noteq> User_product_id user then raise (NotFound ''tenant not found'') else ret t)"

definition deactivate_tenant :: "uuid \<Rightarrow> User \<Rightarrow> Tenant service" where
  "deactivate_tenant tenant_id user =
     bindS (product_tenant tenant_id user) (\<lambda>_. set_status tenant_id TenantDeactivated (actor_id user))"

definition activate_tenant :: "uuid \<Rightarrow> User \<Rightarrow> Tenant service" where
  "activate_tenant tenant_id user =
     bindS (product_tenant tenant_id user) (\<lambda>_. set_status tenant_id TenantActive (actor_id user))"


section \<open>What the setup of a tenant leaves alone\<close>

lemma frames_part:
  "frames g m \<Longrightarrow> (\<And>w w'. g w' = g w \<Longrightarrow> h w' = h w) \<Longrightarrow> frames h m"
  unfolding frames_def by blast

text \<open>The tenants, the members and what is fixed during a request.\<close>

abbreviation people :: "world \<Rightarrow> Tenant list \<times> User list \<times> libs \<times> time \<times> Settings" where
  "people w \<equiv> (tenants (db w), users (db w), lib w, now w, settings w)"

abbreviation stored_tenants :: "world \<Rightarrow> Tenant list" where
  "stored_tenants w \<equiv> tenants (db w)"

lemma people_ensure_template: "frames people (ensure_template cat pid ex t)"
  unfolding ensure_template_def add_role_permission_def Let_def
  by (intro frames_intros) simp_all

lemma people_ensure_roles: "frames people (ensure_system_roles_for_product p)"
  unfolding ensure_system_roles_for_product_def ensure_permission_catalog_def add_permission_def Let_def
  by (intro frames_intros people_ensure_template) simp_all

lemma people_assign_role: "frames people (assign_role_by_name u name)"
  unfolding assign_role_by_name_def assign_role_def Let_def
  by (intro frames_intros) simp_all

text \<open>A trial touches the subscriptions, the credits and the audit log.\<close>

abbreviation members :: "world \<Rightarrow> (Tenant list \<times> User list \<times> libs \<times> time \<times> Settings) \<times> UserRole list" where
  "members w \<equiv> (people w, user_roles (db w))"

lemma members_start_trial: "frames members (start_trial t p c)"
proof -
  have "frames members (grant_plan_credits t p plan reference)" for plan reference
    by (rule keeps_frames, rule keeps_credit_grant) simp_all
  then show ?thesis
    unfolding start_trial_def trial_plan_def plan_by_code_def list_plans_def Let_def
    by (intro frames_intros) simp_all
qed

lemmas people_start_trial = frames_part [OF members_start_trial, where h = people, simplified]

lemma tenants_bootstrap_owner: "frames stored_tenants (bootstrap_owner u t x)"
proof -
  have "frames stored_tenants (ensure_system_roles_for_product p)" "frames stored_tenants (assign_role_by_name v n)" for p v n
    by (rule frames_part [OF people_ensure_roles], simp) (rule frames_part [OF people_assign_role], simp)
  then show ?thesis
    unfolding bootstrap_owner_def hash_password_def context_defs Let_def
    by (intro frames_intros) simp_all
qed

lemma create_tenantD:
  assumes "create_tenant p name slug parent setts actor ty w = (Inr t, w')"
  shows "Tenant_id t = draws w (draw_no w) \<and> Tenant_product_id t = p \<and> Tenant_slug t = slug \<and> Tenant_parent_id t = parent \<and>
     Tenant_is_root t = (parent = None) \<and> Tenant_expires_at t = None \<and> Tenant_deleted_at t = None \<and>
     tenants (db w') = tenants (db w) @ [t] \<and> users (db w') = users (db w) \<and> subscriptions (db w') = subscriptions (db w) \<and>
     user_roles (db w') = user_roles (db w) \<and> draws w' = draws w \<and> draw_no w < draw_no w' \<and> lib w' = lib w \<and>
     now w' = now w \<and> settings w' = settings w \<and>
     (\<forall>x \<in> set (tenants (db w)). \<not> (Tenant_product_id x = p \<and> Tenant_slug x = slug \<and> Tenant_deleted_at x = None)) \<and>
     (\<forall>q. parent = Some q \<longrightarrow> (\<exists>r \<in> set (tenants (db w)). Tenant_id r = q \<and> Tenant_product_id r = p \<and> Tenant_is_root r))"
  using assms
  by (auto simp: create_tenant_def inr_simps Let_def find_None_iff_all dest!: find_SomeD split: option.splits if_splits)


section \<open>What a tenant may create below itself\<close>

lemma set_expiryD:
  assumes "set_expiry t e w = (r, w')" and "tenants (db w) = old @ [t]" and "\<forall>x \<in> set old. Tenant_id x \<noteq> Tenant_id t"
  shows "\<exists>t'. r = Inr t' \<and> t' = t\<lparr>Tenant_expires_at := if e = None then Tenant_expires_at t else e\<rparr> \<and>
    tenants (db w') = old @ [t'] \<and> users (db w') = users (db w) \<and> subscriptions (db w') = subscriptions (db w) \<and>
    user_roles (db w') = user_roles (db w)"
  using assms by (auto simp: set_expiry_def svc_simps map_rows_none split: if_splits)

text \<open>C15: what the creation of a tenant may do. When it succeeds, exactly one tenant is added, the one
  returned, in the product of the user and with the id drawn for it. It is a child of the user's effective
  tenant, which is a root tenant of that product; only the platform administrator of a product without a root
  tenant gets a root. A user who is no platform administrator adds nothing but the tenant: no member, no role
  binding and, unless the plan code is the empty text, no subscription.\<close>

theorem child_tenant_scoped:
  assumes "create_child_tenant payload u w = (Inr t, w')" and "effective_tenant u w = (Inr tid, w)"
    and "fresh_ids w" and "Tenant_id ` set (tenants (db w)) \<subseteq> drawn w"
  shows "tenants (db w') = tenants (db w) @ [t] \<and> Tenant_product_id t = User_product_id u \<and>
    Tenant_id t = draws w (draw_no w) \<and>
    (Tenant_parent_id t = Some tid \<and> \<not> Tenant_is_root t \<and>
       (\<exists>r \<in> set (tenants (db w)). Tenant_id r = tid \<and> Tenant_product_id r = User_product_id u \<and> Tenant_is_root r) \<or>
     User_is_platform_admin u \<and> tid = NIL \<and> Tenant_parent_id t = None \<and> Tenant_is_root t) \<and>
    (User_is_platform_admin u \<or> users (db w') = users (db w) \<and> user_roles (db w') = user_roles (db w) \<and>
       (tc_plan_code payload = Some [] \<or> subscriptions (db w') = subscriptions (db w)))"
proof -
  let ?owner = "case tc_owner payload of None \<Rightarrow> ret () | Some x \<Rightarrow> bootstrap_owner u t x"
  let ?trial = "if tc_plan_code payload \<noteq> None \<or> tc_owner payload \<noteq> None
    then bindS (start_trial (Tenant_id t) (User_product_id u) (tc_plan_code payload)) (\<lambda>_. ret ()) else ret ()"
  obtain parent c w1 w2 w3 where run: "new_parent u tid (tc_parent_id payload) = Inr parent"
      "User_is_platform_admin u \<or> tc_owner payload = None \<and> \<not> truthy (tc_plan_code payload)"
      "create_tenant (User_product_id u) (tc_name payload) (tc_slug payload) parent (tc_settings payload) (actor_id u) (tc_type payload) w = (Inr c, w1)"
      "set_expiry c (tc_expires_at payload) w1 = (Inr t, w2)" "?owner w2 = (Inr (), w3)" "?trial w3 = (Inr (), w')"
    using assms(1,2) by (auto simp: create_child_tenant_def bindS_Inr_iff liftE_apply ret_apply if_apply raise_apply split: if_splits)
  note created = create_tenantD [OF run(3)]
  have "\<forall>x \<in> set (tenants (db w)). Tenant_id x \<noteq> Tenant_id c"
    using created assms(3,4) fresh_not_drawn [of w] by auto
  from set_expiryD [OF run(4) _ this] created have expiry: "t = c\<lparr>Tenant_expires_at := Tenant_expires_at t\<rparr>"
      "tenants (db w2) = tenants (db w) @ [t]" "users (db w2) = users (db w)" "subscriptions (db w2) = subscriptions (db w)"
      "user_roles (db w2) = user_roles (db w)"
    by (auto split: if_splits)
  have w3: "tenants (db w3) = tenants (db w2)"
    using run(5) framesD [OF tenants_bootstrap_owner] by (auto simp: ret_apply split: option.splits)
  have "frames stored_tenants ?trial"
    by (intro frames_intros frames_part [OF members_start_trial]) simp
  from framesD [OF this run(6)] have "tenants (db w') = tenants (db w3)" .
  moreover note w3
  moreover have "parent = Some tid \<or> User_is_platform_admin u \<and> tid = NIL \<and> parent = None"
    using run(1) by (auto simp: new_parent_def split: if_splits)
  moreover have same: "Tenant_id t = Tenant_id c" "Tenant_product_id t = Tenant_product_id c" "Tenant_parent_id t = Tenant_parent_id c"
      "Tenant_is_root t = Tenant_is_root c"
    by (subst expiry(1), simp)+
  moreover have "users (db w') = users (db w) \<and> user_roles (db w') = user_roles (db w) \<and> subscriptions (db w') = subscriptions (db w)"
    if "\<not> User_is_platform_admin u" "tc_plan_code payload \<noteq> Some []"
    using run(2,5,6) that expiry by (cases "tc_plan_code payload") (auto simp: ret_apply)
  moreover have "users (db w') = users (db w) \<and> user_roles (db w') = user_roles (db w)" if "\<not> User_is_platform_admin u"
  proof -
    have "frames members ?trial"
      by (intro frames_intros members_start_trial)
    from framesD [OF this run(6)] show ?thesis using run(2,5) that expiry by (auto simp: ret_apply)
  qed
  ultimately show ?thesis using created expiry(2) by auto
qed

text \<open>A branch under the root tenant 107.\<close>

definition sample_branch :: TenantCreate where
  "sample_branch = \<lparr>tc_name = ''C'', tc_slug = ''c'', tc_parent_id = None, tc_type = Company, tc_settings = [],
     tc_expires_at = Some 9, tc_owner = None, tc_plan_code = None\<rparr>"

lemma sample_child_created:
  "\<exists>t w'. create_child_tenant sample_branch (sample_user 120 107) (sample_office\<lparr>draw_no := 200\<rparr>) = (Inr t, w') \<and> Tenant_slug t = ''c'' \<and>
     Tenant_expires_at t = Some 9"
  by (simp add: create_child_tenant_def new_parent_def create_tenant_def set_expiry_def effective_tenant_def current_tenant_id_def svc_simps
     Let_def sample_branch_def sample_office_def sample_family_def sample_world_def sample_user_def sample_child_def empty_db_def actor_id_def tenant_clash_def)

theorem child_tenant_scoped_witness:
  "\<exists>t w'. create_child_tenant sample_branch (sample_user 120 107) (sample_office\<lparr>draw_no := 200\<rparr>) = (Inr t, w') \<and> Tenant_slug t = ''c'' \<and>
     tenants (db w') = tenants (db sample_office) @ [t] \<and> Tenant_parent_id t = Some 107 \<and> subscriptions (db w') = []"
proof -
  let ?w = "sample_office\<lparr>draw_no := 200\<rparr>"
  obtain w' and t :: Tenant where run: "create_child_tenant sample_branch (sample_user 120 107) ?w = (Inr t, w')" "Tenant_slug t = ''c''"
    using sample_child_created by (elim exE conjE) (rule that)
  have tid: "effective_tenant (sample_user 120 107) ?w = (Inr 107, ?w)"
    by (simp add: effective_tenant_def current_tenant_id_def svc_simps sample_office_def sample_family_def sample_world_def sample_user_def)
  have keys: "fresh_ids ?w" "Tenant_id ` set (tenants (db ?w)) \<subseteq> drawn ?w"
    by (auto simp: fresh_ids_def NIL_def drawn_def sample_office_def sample_family_def sample_world_def sample_child_def empty_db_def image_Suc_lessThan)
  show ?thesis
    using child_tenant_scoped [OF run(1) tid keys] run
    by (auto simp: sample_user_def sample_branch_def sample_office_def sample_family_def sample_world_def empty_db_def)
qed


section \<open>A registration ends in a session\<close>

lemma registerD:
  assumes "register p name slug email pw full_name ty w = (Inr (u, t), w')"
  shows "users (db w') = users (db w) @ [u] \<and> tenants (db w') = tenants (db w) @ [t] \<and> Tenant_id t = draws w (draw_no w) \<and>
    Tenant_product_id t = p \<and> Tenant_slug t = slug \<and> Tenant_parent_id t = None \<and> Tenant_expires_at t = None \<and>
    User_tenant_id u = Tenant_id t \<and> User_product_id u = p \<and> User_email u = str_lower email \<and> User_is_active u \<and>
    User_deleted_at u = None \<and> (\<exists>k \<ge> draw_no w. User_id u = draws w k) \<and>
    (\<forall>x \<in> set (tenants (db w)). \<not> (Tenant_product_id x = p \<and> Tenant_slug x = slug \<and> Tenant_deleted_at x = None)) \<and>
    lib w' = lib w \<and> now w' = now w \<and> settings w' = settings w"
proof -
  obtain w1 v0 where c: "create_tenant p name slug None [] None ty w = (Inr t, w1)"
    and u: "u = \<lparr>User_id = draws w1 (Suc (draw_no w1)), User_product_id = p, User_tenant_id = Tenant_id t,
           User_email = str_lower email, User_password_hash = v0, User_full_name = full_name,
           User_is_active = True, User_is_verified = False, User_last_login_at = None,
           User_deleted_at = None, User_is_platform_admin = False\<rparr>"
    and rest: "bindS (ensure_system_roles_for_product p) (\<lambda>_. bindS (assign_role_by_name u ''owner'') (\<lambda>_.
       bindS (start_trial (Tenant_id t) p None) (\<lambda>_. record_audit ((act ''user.register'')\<lparr>a_actor_user_id := Some (User_id u),
          a_resource_type := Some ''user'', a_resource_id := Some (User_id u),
          a_diff := [(''email'', JStr email), (''tenant_type'', JStr (tenant_type_value ty))]\<rparr>))))
       (w1\<lparr>cur_product := Some p, cur_tenant := Some (Tenant_id t), draw_no := Suc (Suc (draw_no w1)),
          db := users_update (\<lambda>us. us @ [u]) (db w1)\<rparr>) = (Inr (), w')"
    using assms
    by (auto simp: register_def bindS_Inr_iff Let_def hash_password_apply fresh_apply insert_row_apply context_defs modify_apply ret_apply
        record_audit_apply split: if_splits)
  have "frames people (bindS (ensure_system_roles_for_product p) (\<lambda>_. bindS (assign_role_by_name u ''owner'') (\<lambda>_.
       bindS (start_trial (Tenant_id t) p None) (\<lambda>_. record_audit a))))" for a
    by (intro frames_intros people_ensure_roles people_assign_role people_start_trial) simp_all
  from framesD [OF this rest] create_tenantD [OF c] show ?thesis
    unfolding u by (auto intro!: exI [of _ "Suc (draw_no w1)"])
qed


lemma issue_pairD:
  assumes "issue_pair u ua ip w = (Inr (a, r, e), w')"
  shows "(\<exists>jti. a = jwt_encode (lib w) (session_claims w u Access (jwt_access_ttl_seconds (settings w)) jti)) \<and>
    users (db w') = users (db w) \<and> tenants (db w') = tenants (db w) \<and> lib w' = lib w \<and> now w' = now w"
  using assms unfolding issue_pair_def issue_token_def add_refresh_token_def
  by (auto simp: inr_simps refresh_ttl_apply Let_def session_claims_def split: if_splits)

text \<open>What a login changes of an account: the password hash and the time of the last login.\<close>

definition login_kept :: "User \<Rightarrow> User \<Rightarrow> bool" where
  "login_kept u u' \<longleftrightarrow> User_id u' = User_id u \<and> User_product_id u' = User_product_id u \<and> User_tenant_id u' = User_tenant_id u \<and>
     User_email u' = User_email u \<and> User_is_active u' = User_is_active u \<and> User_deleted_at u' = User_deleted_at u"

lemma login_keptI [simp]:
  "login_kept u (u\<lparr>User_last_login_at := x\<rparr>)" "login_kept u (u\<lparr>User_password_hash := h, User_last_login_at := x\<rparr>)"
  by (simp_all add: login_kept_def)

lemma map_rows_id: "map_rows P id rs = rs"
  by (induction rs) auto

lemma map_rows_twice:
  "(\<And>r. P (g r) = P r) \<Longrightarrow> map_rows P f (map_rows P g rs) = map_rows P (\<lambda>r. f (g r)) rs"
  by (induction rs) auto

lemma loginD:
  assumes "login p email pw slug ua ip w = (Inr (u, a, r, e), w')"
  shows "login_user p email slug w = (Inr (Some u), w) \<and> User_is_active u \<and> pw_verify (lib w) (User_password_hash u) pw \<and>
    (\<exists>f. (\<forall>x. login_kept x (f x)) \<and> users (db w') = map_rows (\<lambda>x. User_id x = User_id u) f (users (db w))) \<and>
    tenants (db w') = tenants (db w) \<and> lib w' = lib w \<and> now w' = now w \<and>
    (\<exists>jti. a = jwt_encode (lib w) (session_claims w u Access (jwt_access_ttl_seconds (settings w)) jti))"
proof -
  let ?P = "\<lambda>x. User_id x = User_id u"
  let ?rest = "bindS (issue_pair u ua ip) (\<lambda>(access_token, refresh_token, access_exp).
      bindS (gets now) (\<lambda>t.
      bindS (set_user (User_id u) (\<lambda>u. u\<lparr>User_last_login_at := Some t\<rparr>)) (\<lambda>_.
      bindS (record_audit ((act ''user.login'')\<lparr>a_actor_user_id := Some (User_id u),
               a_resource_type := Some ''user'', a_resource_id := Some (User_id u), a_actor_ip := ip\<rparr>)) (\<lambda>_.
      ret (u, access_token, refresh_token, access_exp)))))"
  let ?ctx = "\<lambda>w. w\<lparr>cur_product := Some (User_product_id u), cur_tenant := Some (User_tenant_id u)\<rparr>"
  obtain x where x: "login_user p email slug w = (Inr x, w)"
    by (simp add: login_user_def svc_simps)
  have u: "x = Some u" "User_is_active u" "pw_verify (lib w) (User_password_hash u) pw"
    using assms x
    by (auto simp: login_def bindS_Inr_iff verify_password_apply needs_rehash_apply raise_apply ret_apply split: option.splits if_splits)
  have step: "bindS (if pw_needs_rehash (lib w) (User_password_hash u)
            then bindS (hash_password pw) (\<lambda>h. set_user (User_id u) (\<lambda>u. u\<lparr>User_password_hash := h\<rparr>)) else ret ())
       (\<lambda>_. bindS (set_current_product (Some (User_product_id u))) (\<lambda>_. bindS (set_current_tenant (Some (User_tenant_id u))) (\<lambda>_. ?rest)))
       w = (Inr (u, a, r, e), w')"
    using assms x u by (simp add: login_def bindS_apply [of "login_user p email slug"] bindS_apply [of "verify_password a b" for a b]
        bindS_apply [of "needs_rehash h" for h] verify_password_apply needs_rehash_apply)
  obtain w1 f where w1: "users (db w1) = map_rows ?P f (users (db w))" "f = id \<or> (\<exists>h. f = (\<lambda>x. x\<lparr>User_password_hash := h\<rparr>))"
      "tenants (db w1) = tenants (db w)" "lib w1 = lib w" "now w1 = now w" "settings w1 = settings w"
    and rest: "?rest w1 = (Inr (u, a, r, e), w')"
  proof (cases "pw_needs_rehash (lib w) (User_password_hash u)")
    case True
    let ?h = "pw_hash (lib w) (draws w (draw_no w)) pw"
    have "?rest (?ctx (w\<lparr>draw_no := Suc (draw_no w), db := users_update (map_rows ?P (\<lambda>x. x\<lparr>User_password_hash := ?h\<rparr>)) (db w)\<rparr>)) =
        (Inr (u, a, r, e), w')"
      using step True by (simp add: bindS_apply [of "bindS m g" for m g] bindS_apply [of "hash_password p" for p] set_user_def
          hash_password_apply update_rows_apply context_defs bindS_apply [of "modify m" for m] modify_apply)
    then show ?thesis by (intro that [of _ "\<lambda>x. x\<lparr>User_password_hash := ?h\<rparr>"]) auto
  next
    case False
    have "?rest (?ctx w) = (Inr (u, a, r, e), w')"
      using step False by (simp add: context_defs bindS_apply [of "modify m" for m] modify_apply)
    then show ?thesis by (intro that [of _ id]) (auto simp: map_rows_id)
  qed
  obtain a' r' e' w2 where pair: "issue_pair u ua ip w1 = (Inr (a', r', e'), w2)"
    and w': "a' = a" "users (db w') = map_rows ?P (\<lambda>u. u\<lparr>User_last_login_at := Some (now w2)\<rparr>) (users (db w2))"
      "tenants (db w') = tenants (db w2)" "lib w' = lib w2" "now w' = now w2"
    using rest by (auto simp: inr_simps set_user_def)
  note issued = issue_pairD [OF pair]
  have kept: "\<forall>x. login_kept x ((f x)\<lparr>User_last_login_at := Some (now w2)\<rparr>)"
    using w1(2) by auto
  have same_id: "?P (f x) = ?P x" for x
    using w1(2) by auto
  have "users (db w') = map_rows ?P (\<lambda>x. (f x)\<lparr>User_last_login_at := Some (now w2)\<rparr>) (users (db w))"
    using w'(2) issued w1(1) map_rows_twice [of ?P f, OF same_id] by simp
  then show ?thesis
    using x u kept issued w1(3-) w' by (auto simp: session_claims_def)
qed


lemma require_productD:
  assumes "RequireProduct slug w = (Inr p, w')"
  shows "db w' = db w \<and> draws w' = draws w \<and> draw_no w' = draw_no w \<and> lib w' = lib w \<and> now w' = now w \<and> settings w' = settings w"
proof -
  have "frames (\<lambda>w. (stored w, lib w, now w, settings w)) (RequireProduct slug)"
    unfolding RequireProduct_def resolve_product_def resolve_slug_to_id_def get_by_slug_def require_product_def context_defs Let_def
    by (intro frames_intros) simp_all
  from framesD [OF this assms] show ?thesis by simp
qed

lemma find_new_key: "f y \<notin> f ` set xs \<Longrightarrow> List.find (\<lambda>x. f x = f y) (xs @ [y]) = Some y"
  by (induction xs) auto

text \<open>A product with a free plan and no account, and its bootstrap.\<close>

definition sample_open :: world where
  "sample_open = sample_world\<lparr>db := empty_db\<lparr>
     products := [sample_product],
     plans := [\<lparr>Plan_id = 71, Plan_product_id = 5, Plan_code = ''free'', Plan_name = ''Free'', Plan_description = None,
      Plan_price_cents = 0, Plan_currency = ''USD'', Plan_interval = Month,
      Plan_trial_days = 0, Plan_is_public = True, Plan_is_active = True, Plan_provider_refs = []\<rparr>]\<rparr>\<rparr>"

definition unseeded :: "world \<Rightarrow> world" where
  "unseeded w = w\<lparr>draw_no := 0, db := (db w)\<lparr>permissions := [], roles := [], role_permissions := []\<rparr>\<rparr>"

lemma unseeded_ensure: "frames unseeded (ensure_system_roles_for_product p)"
  unfolding ensure_system_roles_for_product_def ensure_permission_catalog_def ensure_template_def
    add_permission_def add_role_permission_def Let_def
  by (auto simp: unseeded_def intro!: frames_intros)

definition sample_sign_up :: RegisterRequest where
  "sample_sign_up = \<lparr>rg_tenant_name = ''T'', rg_tenant_slug = ''tt'', rg_email = ''a'',
     rg_password = ''aaaaaaaaaaaa'', rg_full_name = None\<rparr>"

definition sample_client :: client where "sample_client = \<lparr>cl_user_agent = None, cl_host = None\<rparr>"

lemma sample_ready:
  obtains w where "seeded 5 w" "unseeded w = unseeded sample_open"
proof -
  have "permission_ids_ok sample_open"
    by (simp add: permission_ids_ok_def sample_open_def empty_db_def fresh_ids_def sample_world_def NIL_def)
  from ensure_system_roles_returns [OF this] obtain w where w: "ensure_system_roles_for_product 5 sample_open = (Inr (), w)" by blast
  show ?thesis by (rule that [OF ensure_system_roles_seeds [OF w]]) (rule framesD [OF unseeded_ensure w])
qed
lemma seeded_again:
  assumes "seeded p w" and "permissions (db w') = permissions (db w)" and "roles (db w') = roles (db w)"
    and "role_permissions (db w') = role_permissions (db w)" and "products (db w') = products (db w)"
  shows "ensure_system_roles_for_product p w' = (Inr (), w')"
  by (rule ensure_system_roles_noop)
    (use assms in \<open>simp add: seeded_def template_done_def system_role_def has_permission_def catalog_complete_def\<close>)

lemma seeded_owner:
  assumes "seeded p w"
  shows "\<exists>r. List.find (\<lambda>r. Role_name r = ''owner'' \<and> Role_tenant_id r = None \<and> Role_product_id r = p) (roles (db w)) = Some r"
proof -
  have "\<exists>perms. (''owner'', perms) \<in> set (role_templates x)" for x
    by (cases x) (auto simp: role_templates_def SYSTEM_ROLES_def Let_def)
  then obtain r where "system_role w p ''owner'' = Some r"
    using assms unfolding seeded_def template_done_def by fastforce
  then show ?thesis
    unfolding find_not_None by (auto simp: system_role_def dest!: find_SomeD)
qed

lemma sample_token: "sample_jwt_encode c \<noteq> []"
  by (simp add: sample_jwt_encode_def)

lemma sample_signs_up:
  "\<exists>pair w w'. register_route sample_client (Some ''shop'') sample_sign_up w = (Inr pair, w') \<and> tp_access_token pair \<noteq> [] \<and>
     lib w = sample_lib \<and> settings w = default_settings \<and> draws w = Suc \<and> users (db w) = [] \<and> tenants (db w) = []"
proof -
  obtain w where seed: "seeded 5 w" and w: "unseeded w = unseeded sample_open" by (rule sample_ready)
  have "w = (unseeded w)\<lparr>draw_no := draw_no w, db := (db (unseeded w))\<lparr>permissions := permissions (db w), roles := roles (db w),
      role_permissions := role_permissions (db w)\<rparr>\<rparr>" by (simp add: unseeded_def)
  then obtain P R RP n where w_eq: "w = sample_open\<lparr>draw_no := n, db := (db sample_open)\<lparr>permissions := P, roles := R, role_permissions := RP\<rparr>\<rparr>"
    unfolding w by (simp add: unseeded_def)
  note again = seeded_again [OF seed, unfolded w_eq, simplified]
  obtain r where r: "List.find (\<lambda>r. Role_name r = ''owner'' \<and> Role_tenant_id r = None \<and> Role_product_id r = 5) R = Some r"
    using seeded_owner [OF seed] unfolding w_eq by auto
  have "\<exists>pair w'. register_route sample_client (Some ''shop'') sample_sign_up w = (Inr pair, w') \<and> tp_access_token pair \<noteq> []"
    unfolding w_eq
    by (simp add: register_route_def RequireProduct_def resolve_product_def resolve_slug_to_id_def get_by_slug_def require_product_def
       svc_simps Let_def context_defs sample_open_def sample_world_def empty_db_def sample_product_def sample_sign_up_def sample_client_def
       validated_def valid_register_def valid_slug_def valid_password_def PASSWORD_MIN_LENGTH_def slug_char_def is_lower_def is_digit_def short_def)
      (simp add: register_def create_tenant_def svc_simps Let_def context_defs again r hash_password_def assign_role_by_name_def
       assign_role_def start_trial_def trial_plan_def list_plans_def grant_plan_credits_def login_def login_user_def
       verify_password_def needs_rehash_def set_user_def issue_pair_def issue_token_def add_refresh_token_def
       product_ttl_def refresh_ttl_seconds_def sample_lib_def sample_token dict_get_def default_settings_def sample_open_def sample_world_def empty_db_def sample_product_def)
  moreover have "lib w = sample_lib" "settings w = default_settings" "draws w = Suc" "users (db w) = []" "tenants (db w) = []"
    by (simp_all add: w_eq sample_open_def sample_world_def empty_db_def)
  ultimately show ?thesis by blast
qed

text \<open>C14: a registration ends in a session of the new account. When the route returns a token pair, its
  access token lets its bearer in at once, and as the account the request asked for: a user that did not
  exist before, with the email of the request, in the product of the request, and in a new tenant with the
  slug of the request.\<close>

theorem registered_session:
  assumes "register_route c slug payload w = (Inr pair, w')" and "auth_libs_ok (lib w)" and "fresh_ids w"
    and "User_id ` set (users (db w)) \<subseteq> drawn w" and "Tenant_id ` set (tenants (db w)) \<subseteq> drawn w"
    and "\<forall>u \<in> set (users (db w)). \<forall>t \<in> set (tenants (db w)). Tenant_id t = User_tenant_id u \<longrightarrow>
      Tenant_product_id t = User_product_id u \<and> Tenant_deleted_at t = None"
    and "\<forall>u \<in> set (users (db w)). User_tenant_id u \<in> Tenant_id ` set (tenants (db w))"
    and "0 < jwt_access_ttl_seconds (settings w)" and "tp_access_token pair \<noteq> []"
  shows "\<exists>u t v. bearer_session (Some (tp_access_token pair)) None None w' = (Inr u, v) \<and> cur_tenant v = Some (Tenant_id t) \<and>
     fst (RequireProduct slug w) = Inr (User_product_id u) \<and> User_email u = str_lower (rg_email payload) \<and>
     User_id u \<notin> User_id ` set (users (db w)) \<and>
     t \<in> set (tenants (db w')) \<and> t \<notin> set (tenants (db w)) \<and> Tenant_id t = User_tenant_id u \<and> Tenant_slug t = rg_tenant_slug payload"
proof -
  let ?slug = "rg_tenant_slug payload"
  obtain p w1 u t w2 u1 a r e where run: "RequireProduct slug w = (Inr p, w1)"
      "register p (rg_tenant_name payload) ?slug (rg_email payload) (rg_password payload) (rg_full_name payload) Company w1 = (Inr (u, t), w2)"
      "login p (rg_email payload) (rg_password payload) (Some ?slug) (cl_user_agent c) (cl_host c) w2 = (Inr (u1, a, r, e), w')"
      "tp_access_token pair = a" "2 \<le> length ?slug"
    using assms(1)
    by (auto simp: register_route_def bindS_Inr_iff validated_def if_apply ret_apply raise_apply valid_register_def valid_slug_def
        split: if_splits)
  have given: "?slug \<noteq> []" using run(5) by auto
  note w1 = require_productD [OF run(1)]
  note reg = registerD [OF run(2), unfolded w1]
  note log = loginD [OF run(3)]
  have new_tenant: "Tenant_id t \<notin> Tenant_id ` set (tenants (db w))"
    using reg assms(3,5) fresh_not_drawn [of w] w1 by auto
  have new_user: "User_id u \<notin> User_id ` set (users (db w))"
    using reg assms(3,4) not_drawn_later [of w] w1 by auto
  let ?found = "\<lambda>x. (\<exists>t \<in> set (tenants (db w2)). Tenant_id t = User_tenant_id x \<and> Some (Tenant_slug t) = Some ?slug) \<and>
    User_email x = str_lower (rg_email payload) \<and> User_product_id x = p \<and> User_deleted_at x = None"
  have "\<not> ?found x" if x: "x \<in> set (users (db w))" for x
  proof
    assume found: "?found x"
    have "set (tenants (db w2)) = set (tenants (db w)) \<union> {t}" using reg w1 by simp
    with found obtain y where y: "y \<in> set (tenants (db w)) \<union> {t}" "Tenant_id y = User_tenant_id x" "Tenant_slug y = ?slug"
      by (metis option.inject)
    have "y \<in> set (tenants (db w))" using y assms(7) x new_tenant by auto
    then show False using y found assms(6) x reg w1 by auto
  qed
  moreover have "?found u" using reg by auto
  ultimately have "List.find ?found (users (db w2)) = Some u"
    using reg w1 by (simp add: find_append find_None_iff_all [THEN iffD2])
  then have u1: "u1 = u"
    using log given by (simp add: login_user_def svc_simps)
  obtain f where f: "\<forall>x. login_kept x (f x)" "users (db w') = map_rows (\<lambda>x. User_id x = User_id u) f (users (db w2))"
    using log u1 by blast
  have "List.find (\<lambda>x. User_id x = User_id u) (users (db w2)) = Some u"
    using reg w1 find_new_key [of User_id u, OF new_user] by simp
  then have find: "List.find (\<lambda>x. User_id x = User_id u) (users (db w')) = Some (f u)"
    using f find_map_rows_keep [of "\<lambda>x. User_id x = User_id u" f "\<lambda>x. User_id x = User_id u" "users (db w2)"]
    by (simp add: login_kept_def)
  have kept: "login_kept u (f u)" using f(1) by blast
  have tens: "tenants (db w') = tenants (db w) @ [t]" using log reg w1 by simp
  have row: "List.find (\<lambda>x. Tenant_id x = Tenant_id t) (tenants (db w')) = Some t"
    unfolding tens by (rule find_new_key [OF new_tenant])
  have expiry: "\<not> (\<exists>b. (parent_of (tenants (db w')))\<^sup>*\<^sup>* (Tenant_id t) b \<and> expired (tenants (db w')) (now w') b)"
    unfolding reach_split [of "tenants (db w')" "Tenant_id t"] using row reg by (simp add: expired_def parent_of_def)
  obtain jti where a: "a = jwt_encode (lib w) (session_claims w2 u Access (jwt_access_ttl_seconds (settings w)) jti)"
    using log reg w1 u1 by auto
  have dec: "jwt_decode (lib w') (now w') a = Some (session_claims w2 u Access (jwt_access_ttl_seconds (settings w)) jti)"
    using assms(2,8) log reg w1 timestamp_live [of "jwt_access_ttl_seconds (settings w)"]
    by (simp add: a auth_libs_ok_def session_claims_def)
  have "\<exists>v. bearer_session (Some a) None None w' = (Inr (f u), v) \<and> cur_tenant v = Some (Tenant_id t)"
    using assms(9) run(4) dec find kept reg expiry
    by (simp add: bearer_session_def decode_token_def svc_simps session_claims_def login_kept_def context_defs
        enforce_tenant_expiry_def expiry_walk_iff del: expiry_walk.simps)
  then obtain v where v: "bearer_session (Some a) None None w' = (Inr (f u), v)" "cur_tenant v = Some (Tenant_id t)" by blast
  have "t \<notin> set (tenants (db w))" using new_tenant by auto
  then show ?thesis
    using v kept reg tens new_user run(1,4)
    by (intro exI [of _ "f u"] exI [of _ t] exI [of _ v]) (simp add: login_kept_def)
qed

theorem registered_session_witness:
  "\<exists>pair w w'. register_route sample_client (Some ''shop'') sample_sign_up w = (Inr pair, w') \<and>
     (\<exists>u (t :: Tenant) v. bearer_session (Some (tp_access_token pair)) None None w' = (Inr u, v) \<and> cur_tenant v = Some (Tenant_id t) \<and>
       fst (RequireProduct (Some ''shop'') w) = Inr (User_product_id u) \<and> User_email u = str_lower ''a'' \<and>
       Tenant_id t = User_tenant_id u \<and> Tenant_slug t = ''tt'')"
proof -
  obtain pair w w' where run: "register_route sample_client (Some ''shop'') sample_sign_up w = (Inr pair, w')"
      "tp_access_token pair \<noteq> []" and base: "lib w = sample_lib" "settings w = default_settings" "draws w = Suc"
      "users (db w) = []" "tenants (db w) = []"
    using sample_signs_up by (elim exE conjE) (rule that)
  have libs: "auth_libs_ok (lib w)" "fresh_ids w" "0 < jwt_access_ttl_seconds (settings w)"
    using base sample_libs_ok by (simp_all add: fresh_ids_def NIL_def default_settings_def)
  have payload: "rg_email sample_sign_up = ''a''" "rg_tenant_slug sample_sign_up = ''tt''"
    by (simp_all add: sample_sign_up_def)
  have rows: "User_id ` set (users (db w)) \<subseteq> drawn w" "Tenant_id ` set (tenants (db w)) \<subseteq> drawn w"
      "\<forall>u \<in> set (users (db w)). \<forall>t \<in> set (tenants (db w)). Tenant_id t = User_tenant_id u \<longrightarrow>
         Tenant_product_id t = User_product_id u \<and> Tenant_deleted_at t = None"
      "\<forall>u \<in> set (users (db w)). User_tenant_id u \<in> Tenant_id ` set (tenants (db w))"
    using base(4,5) by simp_all
  from registered_session [OF run(1) libs(1,2) rows libs(3) run(2), unfolded payload]
  obtain u v and t :: Tenant where "bearer_session (Some (tp_access_token pair)) None None w' = (Inr u, v)" "cur_tenant v = Some (Tenant_id t)"
      "fst (RequireProduct (Some ''shop'') w) = Inr (User_product_id u)" "User_email u = str_lower ''a''"
      "Tenant_id t = User_tenant_id u" "Tenant_slug t = ''tt''"
    by (elim exE conjE) (rule that)
  with run(1) show ?thesis by (intro exI conjI)
qed

end
