(* ===== verification/SdkClient.thy ===== *)
theory SdkClient
  imports Values
begin

text \<open>
  The Python client of the platform, \<^verbatim>\<open>sdks/python/plynth_sdk\<close>: the headers of a
  request, the reading of an answer, the two token stores, and \<^verbatim>\<open>PlynthClient\<close>,
  which repeats a request once after a refresh of its tokens. The HTTP library is a parameter, a
  state transformer of whatever it talks to; so are the random keys of \<^verbatim>\<open>uuid4\<close>
  and the text of JSON values that are not strings. What a token store holds is whatever the server
  sent, so the keys that the client looks up in it may be missing.
\<close>

section \<open>Errors\<close>

datatype sdk_error =
    PlynthApiError nat string string dict
  | PlynthNetworkError string
  | MissingKey string
  | NotSubscriptable

text \<open>\<^verbatim>\<open>j[k]\<close> of a JSON value, and \<^verbatim>\<open>body.get(k)\<close>.\<close>

fun json_item :: "json \<Rightarrow> string \<Rightarrow> sdk_error + json" where
  "json_item (JObj d) k = (case map_of d k of None \<Rightarrow> Inl (MissingKey k) | Some v \<Rightarrow> Inr v)"
| "json_item _ _ = Inl NotSubscriptable"

fun py_str :: "(json \<Rightarrow> string) \<Rightarrow> json \<Rightarrow> string" where
  "py_str render (JStr s) = s"
| "py_str render j = render j"

definition json_or :: "json \<Rightarrow> json \<Rightarrow> json" where
  "json_or a b = (if json_bool a then a else b)"


section \<open>Messages\<close>

record wire_request =
  rq_method :: string
  rq_path :: string
  rq_headers :: "(string \<times> string) list"
  rq_json :: "json option"
  rq_params :: "(string \<times> json) list option"

text \<open>The body of an answer: \<open>rs_json\<close> is \<open>None\<close> when it is not valid JSON.\<close>

record wire_response =
  rs_status_code :: nat
  rs_empty :: bool
  rs_json :: "json option"
  rs_reason_phrase :: string

definition is_success :: "wire_response \<Rightarrow> bool" where
  "is_success r \<longleftrightarrow> 200 \<le> rs_status_code r \<and> rs_status_code r \<le> 299"

fun json_fields :: "json option \<Rightarrow> dict option" where
  "json_fields (Some (JObj d)) = Some d"
| "json_fields _ = None"

text \<open>The error of a body that is a dictionary, shared by the two functions that build it.\<close>

definition envelope_error :: "(json \<Rightarrow> string) \<Rightarrow> wire_response \<Rightarrow> dict \<Rightarrow> sdk_error" where
  "envelope_error render r d =
     PlynthApiError (rs_status_code r)
       (py_str render (json_or (dict_get d ''code'' JNull) (JStr ''http_error'')))
       (py_str render (json_or (dict_get d ''message'' JNull) (JStr (rs_reason_phrase r))))
       (case dict_get d ''details'' JNull of JObj x \<Rightarrow> x | _ \<Rightarrow> [])"

definition parse_error_response :: "(json \<Rightarrow> string) \<Rightarrow> wire_response \<Rightarrow> sdk_error" where
  "parse_error_response render r =
     envelope_error render r (case json_fields (rs_json r) of Some d \<Rightarrow> d | None \<Rightarrow> [])"

text \<open>Python's \<^verbatim>\<open>None\<close> is \<open>JNull\<close>.\<close>

definition parse_response :: "(json \<Rightarrow> string) \<Rightarrow> wire_response \<Rightarrow> sdk_error + json" where
  "parse_response render r =
     (if rs_status_code r = 204 \<or> rs_empty r
      then if is_success r then Inr JNull else Inl (parse_error_response render r)
      else if \<not> is_success r
      then case json_fields (rs_json r) of
             Some d \<Rightarrow> Inl (envelope_error render r d)
           | None \<Rightarrow> Inl (PlynthApiError (rs_status_code r) ''http_error'' (rs_reason_phrase r) [])
      else Inr (case rs_json r of None \<Rightarrow> JNull | Some b \<Rightarrow> b))"


section \<open>Token stores\<close>

text \<open>\<^verbatim>\<open>TokenStore\<close> is a protocol of three methods. \<^verbatim>\<open>MemoryStore\<close> keeps the
  value; \<^verbatim>\<open>FileStore\<close> keeps the text of a file, with \<^verbatim>\<open>json.dump\<close> and
  \<^verbatim>\<open>json.load\<close> as parameters, and answers nothing when the text is no dictionary. Errors
  of the file system other than a missing file are left out.\<close>

record 's TokenStore =
  ts_get :: "'s \<Rightarrow> json option"
  ts_set :: "json \<Rightarrow> 's \<Rightarrow> 's"
  ts_clear :: "'s \<Rightarrow> 's"

definition MemoryStore :: "json option TokenStore" where
  "MemoryStore = \<lparr>ts_get = (\<lambda>tokens. tokens), ts_set = (\<lambda>tokens _. Some tokens), ts_clear = (\<lambda>_. None)\<rparr>"

definition file_get :: "(string \<Rightarrow> json option) \<Rightarrow> string option \<Rightarrow> json option" where
  "file_get load file =
     (case file of
        None \<Rightarrow> None
      | Some text \<Rightarrow> (case load text of Some (JObj d) \<Rightarrow> Some (JObj d) | _ \<Rightarrow> None))"

definition FileStore :: "(json \<Rightarrow> string) \<Rightarrow> (string \<Rightarrow> json option) \<Rightarrow> string option TokenStore" where
  "FileStore dump load = \<lparr>ts_get = file_get load, ts_set = (\<lambda>tokens _. Some (dump tokens)), ts_clear = (\<lambda>_. None)\<rparr>"


section \<open>Requests\<close>

record HttpConfig =
  base_url :: string
  product_slug :: "string option"
  admin_token :: "string option"
  service_token :: "string option"
  acting_tenant_slug :: "string option"

record RequestSpec =
  sp_method :: string
  sp_path :: string
  sp_json_body :: "json option"
  sp_params :: "(string \<times> json) list option"
  sp_product_slug :: "string option"
  sp_acting_tenant_slug :: "string option"
  sp_as_platform_admin :: bool
  sp_as_service_token :: bool
  sp_skip_auth :: bool
  sp_idempotent :: bool
  sp_idempotency_key :: "string option"

definition request_spec :: "string \<Rightarrow> string \<Rightarrow> RequestSpec" where
  "request_spec method path = \<lparr>sp_method = method, sp_path = path, sp_json_body = None, sp_params = None,
     sp_product_slug = None, sp_acting_tenant_slug = None, sp_as_platform_admin = False,
     sp_as_service_token = False, sp_skip_auth = False, sp_idempotent = False, sp_idempotency_key = None\<rparr>"

text \<open>A client: its configuration, its token store, the transport, the random keys and the text of
  JSON values. A session: what the store holds, what the transport talks to, and how many keys were
  drawn.\<close>

record ('s, 'r) PlynthClient =
  cfg :: HttpConfig
  token_store :: "'s TokenStore"
  transport :: "wire_request \<Rightarrow> 'r \<Rightarrow> (string + wire_response) \<times> 'r"
  uuid4 :: "nat \<Rightarrow> string"
  json_text :: "json \<Rightarrow> string"

record ('s, 'r) session =
  stored_tokens :: 's
  remote :: 'r
  keys_drawn :: nat

definition API_PREFIX :: string where
  "API_PREFIX = ''/api/v1''"

definition is_admin_path :: "string \<Rightarrow> bool" where
  "is_admin_path path \<longleftrightarrow> take (length (API_PREFIX @ ''/admin/'')) path = API_PREFIX @ ''/admin/''"

definition want_admin :: "RequestSpec \<Rightarrow> bool" where
  "want_admin spec \<longleftrightarrow> sp_as_platform_admin spec \<or> is_admin_path (sp_path spec)"

definition tokens_of :: "('s, 'r) PlynthClient \<Rightarrow> ('s, 'r) session \<Rightarrow> json option" where
  "tokens_of c s =
     (case ts_get (token_store c) (stored_tokens s) of
        None \<Rightarrow> None | Some tokens \<Rightarrow> if json_bool tokens then Some tokens else None)"

text \<open>The credential of a request: at most one header.\<close>

definition credential :: "('s, 'r) PlynthClient \<Rightarrow> RequestSpec \<Rightarrow> ('s, 'r) session \<Rightarrow> sdk_error + (string \<times> string) list" where
  "credential c spec s =
     (if sp_as_service_token spec
      then if \<not> truthy (service_token (cfg c))
           then Inl (PlynthApiError 401 ''no_service_token'' ''Service token not configured on client.'' [])
           else Inr [(''X-Service-Token'', the (service_token (cfg c)))]
      else if want_admin spec
      then if \<not> truthy (admin_token (cfg c))
           then Inl (PlynthApiError 401 ''no_platform_admin_token'' ''Platform admin token not configured on client.'' [])
           else Inr [(''X-Platform-Admin-Token'', the (admin_token (cfg c)))]
      else if \<not> sp_skip_auth spec
      then case tokens_of c s of
             Some tokens \<Rightarrow>
               (case json_item tokens ''access_token'' of
                  Inl e \<Rightarrow> Inl e
                | Inr t \<Rightarrow> Inr [(''Authorization'', ''Bearer '' @ py_str (json_text c) t)])
           | None \<Rightarrow>
               if truthy (admin_token (cfg c)) \<and> truthy (product_slug (cfg c))
               then Inr [(''X-Platform-Admin-Token'', the (admin_token (cfg c)))]
               else Inr []
      else Inr [])"

definition either :: "string option \<Rightarrow> string option \<Rightarrow> string option" where
  "either a b = (if truthy a then a else b)"

definition header :: "string \<Rightarrow> string option \<Rightarrow> (string \<times> string) list" where
  "header name v = (if truthy v then [(name, the v)] else [])"

definition build_headers ::
    "('s, 'r) PlynthClient \<Rightarrow> RequestSpec \<Rightarrow> ('s, 'r) session \<Rightarrow> (sdk_error + (string \<times> string) list) \<times> ('s, 'r) session" where
  "build_headers c spec s =
     (case credential c spec s of
        Inl e \<Rightarrow> (Inl e, s)
      | Inr cred \<Rightarrow>
        let content = (if sp_json_body spec \<noteq> None then [(''Content-Type'', ''application/json'')] else []);
            slug = header ''X-Product-Slug'' (either (sp_product_slug spec) (product_slug (cfg c)));
            acting = (if want_admin spec then []
                      else header ''X-Acting-Tenant-Slug'' (either (sp_acting_tenant_slug spec) (acting_tenant_slug (cfg c))));
            common = [(''Accept'', ''application/json'')] @ content @ cred @ slug @ acting
        in if truthy (sp_idempotency_key spec)
           then (Inr (common @ [(''Idempotency-Key'', the (sp_idempotency_key spec))]), s)
           else if sp_idempotent spec
           then (Inr (common @ [(''Idempotency-Key'', uuid4 c (keys_drawn s))]), s\<lparr>keys_drawn := Suc (keys_drawn s)\<rparr>)
           else (Inr common, s))"


section \<open>The client\<close>

definition exchange ::
    "('s, 'r) PlynthClient \<Rightarrow> wire_request \<Rightarrow> ('s, 'r) session \<Rightarrow> (string + wire_response) \<times> ('s, 'r) session" where
  "exchange c rq s = (case transport c rq (remote s) of (a, r) \<Rightarrow> (a, s\<lparr>remote := r\<rparr>))"

definition set_tokens :: "('s, 'r) PlynthClient \<Rightarrow> json \<Rightarrow> ('s, 'r) session \<Rightarrow> ('s, 'r) session" where
  "set_tokens c tokens s = s\<lparr>stored_tokens := ts_set (token_store c) tokens (stored_tokens s)\<rparr>"

definition clear_tokens :: "('s, 'r) PlynthClient \<Rightarrow> ('s, 'r) session \<Rightarrow> ('s, 'r) session" where
  "clear_tokens c s = s\<lparr>stored_tokens := ts_clear (token_store c) (stored_tokens s)\<rparr>"

definition refresh_request :: "json \<Rightarrow> wire_request" where
  "refresh_request t = \<lparr>rq_method = ''POST'', rq_path = API_PREFIX @ ''/auth/refresh'', rq_headers = [],
     rq_json = Some (JObj [(''refresh_token'', t)]), rq_params = None\<rparr>"

definition refresh_session :: "('s, 'r) PlynthClient \<Rightarrow> ('s, 'r) session \<Rightarrow> (sdk_error + bool) \<times> ('s, 'r) session" where
  "refresh_session c s =
     (case tokens_of c s of
        None \<Rightarrow> (Inr False, s)
      | Some current \<Rightarrow>
        (case json_item current ''refresh_token'' of
           Inl e \<Rightarrow> (Inl e, s)
         | Inr t \<Rightarrow>
           (case exchange c (refresh_request t) s of
              (Inl _, s) \<Rightarrow> (Inr False, clear_tokens c s)
            | (Inr r, s) \<Rightarrow>
                if rs_status_code r \<noteq> 200 then (Inr False, clear_tokens c s)
                else (case rs_json r of
                        None \<Rightarrow> (Inr False, clear_tokens c s)
                      | Some next_tokens \<Rightarrow> (Inr True, set_tokens c next_tokens s)))))"

definition is_user_call :: "RequestSpec \<Rightarrow> bool" where
  "is_user_call spec \<longleftrightarrow> \<not> sp_skip_auth spec \<and> \<not> sp_as_platform_admin spec \<and> \<not> is_admin_path (sp_path spec)"

definition request_of :: "RequestSpec \<Rightarrow> (string \<times> string) list \<Rightarrow> wire_request" where
  "request_of spec h = \<lparr>rq_method = sp_method spec, rq_path = sp_path spec, rq_headers = h, rq_json = sp_json_body spec,
     rq_params = sp_params spec\<rparr>"

function send ::
    "('s, 'r) PlynthClient \<Rightarrow> RequestSpec \<Rightarrow> bool \<Rightarrow> ('s, 'r) session \<Rightarrow> (sdk_error + json) \<times> ('s, 'r) session" where
  "send c spec retried s =
     (case build_headers c spec s of
        (Inl e, s) \<Rightarrow> (Inl e, s)
      | (Inr h, s) \<Rightarrow>
        (case exchange c (request_of spec h) s of
           (Inl msg, s) \<Rightarrow> (Inl (PlynthNetworkError msg), s)
         | (Inr r, s) \<Rightarrow>
             if rs_status_code r = 401 \<and> is_user_call spec \<and> \<not> retried
             then (case refresh_session c s of
                     (Inl e, s) \<Rightarrow> (Inl e, s)
                   | (Inr ok, s) \<Rightarrow> if ok then send c spec True s else (parse_response (json_text c) r, s))
             else (parse_response (json_text c) r, s)))"
  by pat_completeness auto
termination
  by (relation "measure (\<lambda>(_, _, retried, _). if retried then 0 else 1)") auto

declare send.simps [simp del]

definition request :: "('s, 'r) PlynthClient \<Rightarrow> RequestSpec \<Rightarrow> ('s, 'r) session \<Rightarrow> (sdk_error + json) \<times> ('s, 'r) session" where
  "request c spec s = send c spec False s"

section \<open>What a client may expect of its token store\<close>

text \<open>The values in \<open>keeps\<close> read back as they were set, and nothing is left after a clear.\<close>

locale token_store_laws =
  fixes S :: "'s TokenStore" and keeps_token :: "json \<Rightarrow> bool"
  assumes get_set: "keeps_token t \<Longrightarrow> ts_get S (ts_set S t s) = Some t"
    and get_clear: "ts_get S (ts_clear S s) = None"
begin

lemma stored:
  "token_store c = S \<Longrightarrow> keeps_token t \<Longrightarrow> json_bool t \<Longrightarrow> tokens_of c (set_tokens c t s) = Some t"
  by (simp add: tokens_of_def set_tokens_def get_set)

lemma cleared: "token_store c = S \<Longrightarrow> tokens_of c (clear_tokens c s) = None"
  by (simp add: tokens_of_def clear_tokens_def get_clear)

text \<open>After a sign-in the requests of a user carry the token that was stored; after a clear none.\<close>

lemma bearer:
  assumes "token_store c = S" and "keeps_token (JObj d)" and "map_of d ''access_token'' = Some (JStr a)"
    and "is_user_call spec" and "\<not> sp_as_service_token spec"
  shows "credential c spec (set_tokens c (JObj d) s) = Inr [(''Authorization'', ''Bearer '' @ a)]"
proof -
  have "d \<noteq> []" using assms(3) by auto
  then show ?thesis using assms by (simp add: credential_def stored is_user_call_def want_admin_def)
qed

lemma signed_out:
  assumes "token_store c = S" and "is_user_call spec" and "\<not> sp_as_service_token spec"
    and "credential c spec (clear_tokens c s) = Inr h"
  shows "map_of h ''Authorization'' = None"
  using assms by (auto simp: credential_def cleared is_user_call_def want_admin_def split: if_splits)

end

interpretation memory: token_store_laws MemoryStore "\<lambda>_. True"
  by unfold_locales (simp_all add: MemoryStore_def)

text \<open>A file keeps every dictionary that its codec keeps.\<close>

lemma FileStore_laws:
  assumes "\<And>d. load (dump (JObj d)) = Some (JObj d)"
  shows "token_store_laws (FileStore dump load) (\<lambda>t. \<exists>d. t = JObj d)"
  by unfold_locales (auto simp: FileStore_def file_get_def assms)

section \<open>What the parts change\<close>

lemma exchange_fields:
  "exchange c rq s = (a, s') \<Longrightarrow> stored_tokens s' = stored_tokens s \<and> keys_drawn s' = keys_drawn s \<and>
     transport c rq (remote s) = (a, remote s')"
  by (auto simp: exchange_def split: prod.splits)

lemma build_headers_fields:
  "build_headers c spec s = (x, s') \<Longrightarrow> stored_tokens s' = stored_tokens s \<and> remote s' = remote s"
  by (auto simp: build_headers_def Let_def split: sum.splits if_splits)

lemma token_fields [simp]:
  "remote (set_tokens c t s) = remote s" "keys_drawn (set_tokens c t s) = keys_drawn s"
  "stored_tokens (set_tokens c t s) = ts_set (token_store c) t (stored_tokens s)"
  "remote (clear_tokens c s) = remote s" "keys_drawn (clear_tokens c s) = keys_drawn s"
  "stored_tokens (clear_tokens c s) = ts_clear (token_store c) (stored_tokens s)"
  by (simp_all add: set_tokens_def clear_tokens_def)

text \<open>A refresh sends nothing, or one request whose answer decides about the store.\<close>

definition renewal :: "(string + wire_response) \<Rightarrow> json option" where
  "renewal a = (case a of Inl _ \<Rightarrow> None | Inr r \<Rightarrow> if rs_status_code r = 200 then rs_json r else None)"

lemma refresh_sessionE:
  assumes "refresh_session c s = (r, s')"
  obtains (idle) "s' = s" "r = Inr False \<or> (\<exists>e. r = Inl e)"
  | (asked) current t a where "tokens_of c s = Some current" "json_item current ''refresh_token'' = Inr t"
      "transport c (refresh_request t) (remote s) = (a, remote s')" "keys_drawn s' = keys_drawn s"
      "r = Inr (renewal a \<noteq> None)"
      "stored_tokens s' = (case renewal a of None \<Rightarrow> ts_clear (token_store c) (stored_tokens s)
         | Some next_tokens \<Rightarrow> ts_set (token_store c) next_tokens (stored_tokens s))"
proof (cases "tokens_of c s")
  case None
  then show ?thesis using assms idle by (simp add: refresh_session_def)
next
  case (Some current)
  show ?thesis
  proof (cases "json_item current ''refresh_token''")
    case (Inl e)
    then show ?thesis using assms Some by (intro idle) (auto simp: refresh_session_def)
  next
    case (Inr t)
    obtain a v where v: "exchange c (refresh_request t) s = (a, v)" by fastforce
    note f = exchange_fields [OF v]
    show ?thesis
      using assms Some Inr v f
      by (intro asked [of current t a]) (auto simp: refresh_session_def renewal_def split: sum.splits option.splits if_splits)
  qed
qed

section \<open>What a request sends\<close>

lemma send_retried_sends:
  assumes "send c spec True s = (a, s')"
    and "\<forall>rq r. hist (snd (transport c rq r)) = hist r @ [rq]"
  shows "stored_tokens s' = stored_tokens s \<and> (hist (remote s') = hist (remote s) \<and> (\<exists>e. a = Inl e) \<or>
    (\<exists>h. hist (remote s') = hist (remote s) @ [request_of spec h]))"
proof -
  have sent: "hist r' = hist r @ [rq]" if "transport c rq r = (x, r')" for rq x r r'
    using assms(2) that by (metis snd_conv)
  show ?thesis
  proof (cases "build_headers c spec s")
  case (Pair x s1)
  show ?thesis
  proof (cases x)
    case (Inl e)
    then show ?thesis
      using assms(1) Pair build_headers_fields [OF Pair] by (auto simp: send.simps [of c spec True])
  next
    case (Inr h)
    obtain y s2 where y: "exchange c (request_of spec h) s1 = (y, s2)" by fastforce
    show ?thesis
      using assms(1) Pair Inr y build_headers_fields [OF Pair] exchange_fields [OF y] sent
      by (cases y) (auto simp: send.simps [of c spec True])
  qed
qed
qed

text \<open>A request of the client ends after at most three exchanges, whatever the server answers: the
  request itself; when a user's request is answered 401, one refresh; and after a refresh that the server granted,
  the same request once more. A request that sends nothing fails. The token store changes through that refresh
  only: it takes what a granted refresh answered and is cleared by any other answer; requests without a user's
  session, and those that are not answered 401, leave it alone.\<close>

lemma request_bounded:
  assumes "request c spec s = (a, s')"
    and "\<forall>rq r. hist (snd (transport c rq r)) = hist r @ [rq]"
  shows "\<exists>sent. hist (remote s') = hist (remote s) @ sent \<and>
    (sent = [] \<and> (\<exists>e. a = Inl e) \<and> stored_tokens s' = stored_tokens s \<or>
     (\<exists>h. sent = [request_of spec h]) \<and> stored_tokens s' = stored_tokens s \<or>
     is_user_call spec \<and> (\<exists>h t. sent = [request_of spec h, refresh_request t]) \<and>
       (stored_tokens s' = ts_clear (token_store c) (stored_tokens s) \<or>
        (\<exists>e. a = Inl e) \<and> (\<exists>n. stored_tokens s' = ts_set (token_store c) n (stored_tokens s))) \<or>
     is_user_call spec \<and> (\<exists>h t h'. sent = [request_of spec h, refresh_request t, request_of spec h']) \<and>
       (\<exists>n. stored_tokens s' = ts_set (token_store c) n (stored_tokens s)))"
proof -
  have sent: "hist r' = hist r @ [rq]" if "transport c rq r = (x, r')" for rq x r r'
    using assms(2) that by (metis snd_conv)
  obtain x s1 where headers: "build_headers c spec s = (x, s1)" by fastforce
  note f1 = build_headers_fields [OF headers]
  show ?thesis
  proof (cases x)
    case (Inl e)
    then show ?thesis using assms(1) headers f1 by (auto simp: request_def send.simps [of c spec False])
  next
    case (Inr h)
    obtain y s2 where first: "exchange c (request_of spec h) s1 = (y, s2)" by fastforce
    note f2 = exchange_fields [OF first]
    have log2: "hist (remote s2) = hist (remote s) @ [request_of spec h]"
      using f1 f2 sent by metis
    have tok2: "stored_tokens s2 = stored_tokens s" using f1 f2 by simp
    show ?thesis
    proof (cases "\<exists>r. y = Inr r \<and> rs_status_code r = 401 \<and> is_user_call spec")
      case False
      then have "s' = s2" using assms(1) headers Inr first
        by (cases y) (auto simp: request_def send.simps [of c spec False])
      then show ?thesis using log2 tok2 by auto
    next
      case True
      then obtain r where r: "y = Inr r" "rs_status_code r = 401" "is_user_call spec" by blast
      obtain z s3 where renew: "refresh_session c s2 = (z, s3)" by fastforce
      have rest: "(a, s') = (case z of Inl e \<Rightarrow> (Inl e, s3) | Inr ok \<Rightarrow> if ok then send c spec True s3
          else (parse_response (json_text c) r, s3))"
        using assms(1) headers Inr first r renew by (simp add: request_def send.simps [of c spec False] split: sum.splits)
      show ?thesis
      proof (cases rule: refresh_sessionE [OF renew])
        case 1
        then have "s' = s2" using rest by auto
        then show ?thesis using log2 tok2 by auto
      next
        case (2 current t b)
        have log3: "hist (remote s3) = hist (remote s) @ [request_of spec h, refresh_request t]"
          using sent [OF 2(3)] log2 by simp
        show ?thesis
        proof (cases "renewal b")
          case None
          then have "s' = s3" using rest 2(5) by simp
          then show ?thesis using log3 2(6) None r(3) tok2 by auto
        next
          case (Some n)
          then have "send c spec True s3 = (a, s')" using rest 2(5) by simp
          from send_retried_sends [where hist = hist, OF this assms(2)]
          have last: "stored_tokens s' = ts_set (token_store c) n (stored_tokens s)"
              "hist (remote s') = hist (remote s3) \<and> (\<exists>e. a = Inl e) \<or>
               (\<exists>h'. hist (remote s') = hist (remote s3) @ [request_of spec h'])"
            using 2(6) Some tok2 by auto
          from last(2) show ?thesis
            using log3 last(1) r(3) by (elim disjE) fastforce+
        qed
      qed
    qed
  qed
qed

text \<open>A server that knows one access token and grants every refresh, and keeps the requests it got; a client
  whose token has gone stale.\<close>

definition sample_wire :: "wire_request \<Rightarrow> wire_request list \<Rightarrow> (string + wire_response) \<times> wire_request list" where
  "sample_wire rq r =
     (Inr (if rq_path rq = ''/api/v1/auth/refresh''
           then \<lparr>rs_status_code = 200, rs_empty = False,
             rs_json = Some (JObj [(''access_token'', JStr ''new''), (''refresh_token'', JStr ''r2'')]), rs_reason_phrase = ''OK''\<rparr>
           else if (''Authorization'', ''Bearer new'') \<in> set (rq_headers rq)
           then \<lparr>rs_status_code = 200, rs_empty = False, rs_json = Some (JInt 1), rs_reason_phrase = ''OK''\<rparr>
           else \<lparr>rs_status_code = 401, rs_empty = False, rs_json = None, rs_reason_phrase = ''Unauthorized''\<rparr>), r @ [rq])"

definition sample_sdk :: "(json option, wire_request list) PlynthClient" where
  "sample_sdk = \<lparr>cfg = \<lparr>base_url = ''http://h'', product_slug = Some ''shop'', admin_token = None, service_token = None,
       acting_tenant_slug = None\<rparr>, token_store = MemoryStore, transport = sample_wire, uuid4 = (\<lambda>n. ''k''), json_text = (\<lambda>_. [])\<rparr>"

definition sample_stale :: "(json option, wire_request list) session" where
  "sample_stale = \<lparr>stored_tokens = Some (JObj [(''access_token'', JStr ''old''), (''refresh_token'', JStr ''r1'')]), remote = [],
     keys_drawn = 0\<rparr>"

lemma request_bounded_witness:
  "\<exists>s' h t h'. request sample_sdk (request_spec ''GET'' ''/x'') sample_stale = (Inr (JInt 1), s') \<and>
     remote s' = [request_of (request_spec ''GET'' ''/x'') h, refresh_request t, request_of (request_spec ''GET'' ''/x'') h']"
proof -
  let ?spec = "request_spec ''GET'' ''/x''"
  obtain a s' where run: "request sample_sdk ?spec sample_stale = (a, s')" by fastforce
  have "a = Inr (JInt 1) \<and> length (remote s') = 3"
    using run
    by (simp add: request_def send.simps build_headers_def credential_def tokens_of_def sample_sdk_def sample_stale_def MemoryStore_def
        request_spec_def want_admin_def is_admin_path_def API_PREFIX_def header_def either_def exchange_def request_of_def sample_wire_def
        is_user_call_def refresh_session_def refresh_request_def set_tokens_def parse_response_def is_success_def) auto
  moreover have "\<forall>rq r. snd (transport sample_sdk rq r) = r @ [rq]"
    by (simp add: sample_sdk_def sample_wire_def)
  note request_bounded [where hist = "\<lambda>r. r", OF run this]
  ultimately show ?thesis
    using run by (auto simp: sample_stale_def)
qed

end
