(* ===== verification/Routes.thy ===== *)
theory Routes
  imports Rbac ServiceTokens
begin

text \<open>
  The routing table of the API: what the decorators of \<^verbatim>\<open>app/api/v1\<close> and
  \<^verbatim>\<open>app/api/v1/router.py\<close> declare, as data. A route has a method, a path of literal
  segments and parameters, and the guard its decorator, its router or its signature names. The
  guards themselves are the dependencies of theory \<open>Dependencies\<close>; here they are names, so
  that what the table promises can be checked for every route at once.
\<close>

section \<open>Routes\<close>

datatype segment = Lit string | Param

datatype guard =
    Anyone
  | ProductHeader
  | SignedIn
  | Permitted string
  | PlatformAdmin
  | ServiceScope string

record api_route =
  ar_method :: string
  ar_path :: "segment list"
  ar_guard :: guard

definition route :: "string \<Rightarrow> segment list \<Rightarrow> guard \<Rightarrow> api_route" where
  "route m p g = \<lparr>ar_method = m, ar_path = p, ar_guard = g\<rparr>"

definition include_router :: "segment list \<Rightarrow> api_route list \<Rightarrow> api_route list" where
  "include_router prefix rs = map (\<lambda>r. r\<lparr>ar_path := prefix @ ar_path r\<rparr>) rs"

definition admin_router :: "api_route list" where
  "admin_router = [
     route ''GET'' [Lit ''products''] PlatformAdmin,
     route ''POST'' [Lit ''products''] PlatformAdmin,
     route ''PATCH'' [Lit ''products'', Param] PlatformAdmin]"

definition auth_router :: "api_route list" where
  "auth_router = [
     route ''POST'' [Lit ''register''] ProductHeader,
     route ''POST'' [Lit ''register-individual''] ProductHeader,
     route ''POST'' [Lit ''login''] ProductHeader,
     route ''POST'' [Lit ''refresh''] Anyone,
     route ''POST'' [Lit ''logout''] SignedIn,
     route ''POST'' [Lit ''password''] SignedIn,
     route ''POST'' [Lit ''password'', Lit ''forgot''] ProductHeader,
     route ''POST'' [Lit ''password'', Lit ''reset''] Anyone,
     route ''POST'' [Lit ''google''] ProductHeader,
     route ''GET'' [Lit ''me''] SignedIn]"

definition tenants_router :: "api_route list" where
  "tenants_router = [
     route ''GET'' [] (Permitted ''tenants:read''),
     route ''POST'' [] (Permitted ''tenants:write''),
     route ''PATCH'' [Param] (Permitted ''tenants:write''),
     route ''GET'' [Lit ''children''] (Permitted ''tenants:read''),
     route ''POST'' [Param, Lit ''deactivate''] (Permitted ''tenants:write''),
     route ''POST'' [Param, Lit ''activate''] (Permitted ''tenants:write'')]"

definition users_router :: "api_route list" where
  "users_router = [
     route ''GET'' [] (Permitted ''users:read''),
     route ''POST'' [] (Permitted ''users:write''),
     route ''PATCH'' [Param] (Permitted ''users:write''),
     route ''POST'' [Param, Lit ''activate''] (Permitted ''users:activate''),
     route ''POST'' [Param, Lit ''deactivate''] (Permitted ''users:activate''),
     route ''DELETE'' [Param] (Permitted ''users:delete'')]"

definition roles_router :: "api_route list" where
  "roles_router = [
     route ''GET'' [] (Permitted ''roles:read''),
     route ''POST'' [] (Permitted ''roles:write''),
     route ''PATCH'' [Param] (Permitted ''roles:write''),
     route ''POST'' [Lit ''assign''] (Permitted ''roles:write''),
     route ''GET'' [Lit ''permissions''] (Permitted ''roles:read'')]"

definition plans_router :: "api_route list" where
  "plans_router = [
     route ''GET'' [] ProductHeader,
     route ''POST'' [] (Permitted ''plans:write''),
     route ''PATCH'' [Param] (Permitted ''plans:write'')]"

definition subscriptions_router :: "api_route list" where
  "subscriptions_router = [
     route ''GET'' [] (Permitted ''subscriptions:read''),
     route ''POST'' [Lit ''purchase''] (Permitted ''subscriptions:purchase''),
     route ''POST'' [Lit ''change''] (Permitted ''subscriptions:change''),
     route ''POST'' [Lit ''cancel''] (Permitted ''subscriptions:cancel'')]"

definition credits_router :: "api_route list" where
  "credits_router = [
     route ''GET'' [Lit ''wallets''] (Permitted ''credits:read''),
     route ''GET'' [Lit ''ledger''] (Permitted ''credits:read''),
     route ''POST'' [Lit ''consume''] (Permitted ''credits:consume''),
     route ''POST'' [Lit ''service'', Lit ''consume''] (ServiceScope ''credits:consume''),
     route ''POST'' [Lit ''grant''] (Permitted ''credits:grant'')]"

definition audit_router :: "api_route list" where
  "audit_router = [route ''GET'' [] (Permitted ''audit:read'')]"

definition webhooks_router :: "api_route list" where
  "webhooks_router = [route ''POST'' [Lit ''billing''] Anyone]"

definition jobs_router :: "api_route list" where
  "jobs_router = [
     route ''POST'' [] (Permitted ''jobs:write''),
     route ''GET'' [] (Permitted ''jobs:read''),
     route ''GET'' [Param] (Permitted ''jobs:read''),
     route ''POST'' [Param, Lit ''cancel''] (Permitted ''jobs:cancel'')]"

definition storage_router :: "api_route list" where
  "storage_router = [
     route ''POST'' [Lit ''collections''] (Permitted ''storage:write''),
     route ''PUT'' [Param, Param] (Permitted ''storage:write''),
     route ''GET'' [Param, Param] (Permitted ''storage:read''),
     route ''GET'' [Param] (Permitted ''storage:read''),
     route ''DELETE'' [Param, Param] (Permitted ''storage:delete'')]"

definition webhooks_admin_router :: "api_route list" where
  "webhooks_admin_router = [
     route ''POST'' [] PlatformAdmin,
     route ''GET'' [] PlatformAdmin,
     route ''GET'' [Param] PlatformAdmin,
     route ''PATCH'' [Param] PlatformAdmin,
     route ''DELETE'' [Param] PlatformAdmin,
     route ''GET'' [Param, Lit ''deliveries''] PlatformAdmin,
     route ''POST'' [Param, Lit ''test''] PlatformAdmin]"

definition env_admin_router :: "api_route list" where
  "env_admin_router = [
     route ''GET'' [Lit ''env''] PlatformAdmin,
     route ''PUT'' [Lit ''env'', Param] PlatformAdmin,
     route ''PATCH'' [Lit ''env'', Param] PlatformAdmin,
     route ''GET'' [Lit ''env'', Param] PlatformAdmin,
     route ''DELETE'' [Lit ''env'', Param] PlatformAdmin,
     route ''POST'' [Lit ''service-tokens''] PlatformAdmin,
     route ''GET'' [Lit ''service-tokens''] PlatformAdmin,
     route ''DELETE'' [Lit ''service-tokens'', Param] PlatformAdmin]"

definition env_router :: "api_route list" where
  "env_router = [route ''GET'' [] (ServiceScope ''env:read'')]"

definition components_admin_router :: "api_route list" where
  "components_admin_router = [
     route ''GET'' [] PlatformAdmin,
     route ''POST'' [] PlatformAdmin,
     route ''PATCH'' [Param] PlatformAdmin,
     route ''DELETE'' [Param] PlatformAdmin,
     route ''GET'' [Lit ''tenants'', Param] PlatformAdmin,
     route ''PUT'' [Lit ''tenants'', Param, Param] PlatformAdmin,
     route ''DELETE'' [Lit ''tenants'', Param, Param] PlatformAdmin]"

definition components_router :: "api_route list" where
  "components_router = [route ''GET'' [] SignedIn]"

definition user_components_router :: "api_route list" where
  "user_components_router = [
     route ''GET'' [Param, Lit ''components''] (Permitted ''components:read''),
     route ''PUT'' [Param, Lit ''components'', Param] (Permitted ''components:override''),
     route ''DELETE'' [Param, Lit ''components'', Param] (Permitted ''components:override'')]"

definition integrations_router :: "api_route list" where
  "integrations_router = [route ''POST'' [Lit ''google'', Lit ''exchange''] (ServiceScope ''google:exchange'')]"

definition api_router :: "api_route list" where
  "api_router =
     include_router [Lit ''admin''] admin_router @
     include_router [Lit ''auth''] auth_router @
     include_router [Lit ''tenants''] tenants_router @
     include_router [Lit ''users''] users_router @
     include_router [Lit ''roles''] roles_router @
     include_router [Lit ''plans''] plans_router @
     include_router [Lit ''subscription''] subscriptions_router @
     include_router [Lit ''credits''] credits_router @
     include_router [Lit ''audit''] audit_router @
     include_router [Lit ''webhooks''] webhooks_router @
     include_router [Lit ''jobs''] jobs_router @
     include_router [Lit ''storage''] storage_router @
     include_router [Lit ''admin'', Lit ''products'', Param, Lit ''webhooks''] webhooks_admin_router @
     include_router [Lit ''admin'', Lit ''products'', Param] env_admin_router @
     include_router [Lit ''env''] env_router @
     include_router [Lit ''admin'', Lit ''products'', Param, Lit ''components''] components_admin_router @
     include_router [Lit ''components''] components_router @
     include_router [Lit ''users''] user_components_router @
     include_router [Lit ''integrations''] integrations_router"


section \<open>Finding the route of a request\<close>

fun split_path :: "string \<Rightarrow> string list" where
  "split_path [] = [[]]"
| "split_path (c # cs) =
     (if c = CHR ''/'' then [] # split_path cs
      else case split_path cs of [] \<Rightarrow> [[c]] | x # xs \<Rightarrow> (c # x) # xs)"

text \<open>A parameter matches one segment that is not empty.\<close>

fun seg_matches :: "segment list \<Rightarrow> string list \<Rightarrow> bool" where
  "seg_matches [] [] \<longleftrightarrow> True"
| "seg_matches (Lit s # ps) (x # xs) \<longleftrightarrow> x = s \<and> seg_matches ps xs"
| "seg_matches (Param # ps) (x # xs) \<longleftrightarrow> x \<noteq> [] \<and> seg_matches ps xs"
| "seg_matches _ _ \<longleftrightarrow> False"

definition route_matches :: "string \<Rightarrow> string list \<Rightarrow> api_route \<Rightarrow> bool" where
  "route_matches m xs r \<longleftrightarrow> ar_method r = m \<and> seg_matches (ar_path r) xs"

text \<open>The first route of the table that matches, as the framework picks it.\<close>

definition find_route :: "string \<Rightarrow> string list \<Rightarrow> api_route option" where
  "find_route m xs = List.find (route_matches m xs) api_router"


section \<open>No request has two routes\<close>

fun overlap :: "segment list \<Rightarrow> segment list \<Rightarrow> bool" where
  "overlap [] [] \<longleftrightarrow> True"
| "overlap (Lit s # ps) (Lit t # qs) \<longleftrightarrow> s = t \<and> overlap ps qs"
| "overlap (Param # ps) (_ # qs) \<longleftrightarrow> overlap ps qs"
| "overlap (_ # ps) (Param # qs) \<longleftrightarrow> overlap ps qs"
| "overlap _ _ \<longleftrightarrow> False"

lemma overlap_complete: "seg_matches p xs \<Longrightarrow> seg_matches q xs \<Longrightarrow> overlap p q"
  by (induction p q arbitrary: xs rule: overlap.induct) (auto elim: seg_matches.elims)

fun disjoint_routes :: "api_route list \<Rightarrow> bool" where
  "disjoint_routes [] \<longleftrightarrow> True"
| "disjoint_routes (r # rs) \<longleftrightarrow>
     list_all (\<lambda>r'. ar_method r \<noteq> ar_method r' \<or> \<not> overlap (ar_path r) (ar_path r')) rs \<and> disjoint_routes rs"

lemma disjoint_routes_matches:
  "disjoint_routes rs \<Longrightarrow> length (filter (route_matches m xs) rs) \<le> 1"
proof (induction rs)
  case (Cons r rs)
  have "filter (route_matches m xs) rs = []" if "route_matches m xs r"
    using that Cons.prems overlap_complete
    by (fastforce simp: filter_empty_conv route_matches_def list_all_iff)
  then show ?case using Cons by simp
qed simp

lemmas router_defs = api_router_def include_router_def route_def admin_router_def auth_router_def tenants_router_def
  users_router_def roles_router_def plans_router_def subscriptions_router_def credits_router_def audit_router_def
  webhooks_router_def jobs_router_def storage_router_def webhooks_admin_router_def env_admin_router_def env_router_def
  components_admin_router_def components_router_def user_components_router_def integrations_router_def

text \<open>Routers under different first literals cannot clash, so only those that share one are compared.\<close>

definition apart :: "api_route list \<Rightarrow> api_route list \<Rightarrow> bool" where
  "apart rs rs' \<longleftrightarrow>
     list_all (\<lambda>r. list_all (\<lambda>r'. ar_method r \<noteq> ar_method r' \<or> \<not> overlap (ar_path r) (ar_path r')) rs') rs"

lemma disjoint_routes_append:
  "disjoint_routes (rs @ rs') \<longleftrightarrow> disjoint_routes rs \<and> disjoint_routes rs' \<and> apart rs rs'"
  by (induction rs) (auto simp: apart_def)

lemma apart_append: "apart rs (xs @ ys) \<longleftrightarrow> apart rs xs \<and> apart rs ys"
  by (auto simp: apart_def list_all_iff)

lemma apart_literals:
  "s \<noteq> t \<Longrightarrow> apart (include_router (Lit s # p) rs) (include_router (Lit t # q) rs')"
  by (simp add: apart_def include_router_def list_all_iff)

lemma apart_admin:
  "apart (include_router [Lit ''admin''] admin_router) (include_router [Lit ''admin'', Lit ''products'', Param, Lit ''webhooks''] webhooks_admin_router)"
  "apart (include_router [Lit ''admin''] admin_router) (include_router [Lit ''admin'', Lit ''products'', Param] env_admin_router)"
  "apart (include_router [Lit ''admin''] admin_router) (include_router [Lit ''admin'', Lit ''products'', Param, Lit ''components''] components_admin_router)"
  "apart (include_router [Lit ''admin'', Lit ''products'', Param, Lit ''webhooks''] webhooks_admin_router)
     (include_router [Lit ''admin'', Lit ''products'', Param] env_admin_router)"
  "apart (include_router [Lit ''admin'', Lit ''products'', Param, Lit ''webhooks''] webhooks_admin_router)
     (include_router [Lit ''admin'', Lit ''products'', Param, Lit ''components''] components_admin_router)"
  "apart (include_router [Lit ''admin'', Lit ''products'', Param] env_admin_router)
     (include_router [Lit ''admin'', Lit ''products'', Param, Lit ''components''] components_admin_router)"
  "apart (include_router [Lit ''users''] users_router) (include_router [Lit ''users''] user_components_router)"
  by code_simp+

lemma single_router_disjoint:
  "disjoint_routes (include_router [Lit ''admin''] admin_router)" "disjoint_routes (include_router [Lit ''auth''] auth_router)"
  "disjoint_routes (include_router [Lit ''tenants''] tenants_router)" "disjoint_routes (include_router [Lit ''users''] users_router)"
  "disjoint_routes (include_router [Lit ''roles''] roles_router)" "disjoint_routes (include_router [Lit ''plans''] plans_router)"
  "disjoint_routes (include_router [Lit ''subscription''] subscriptions_router)"
  "disjoint_routes (include_router [Lit ''credits''] credits_router)" "disjoint_routes (include_router [Lit ''audit''] audit_router)"
  "disjoint_routes (include_router [Lit ''webhooks''] webhooks_router)" "disjoint_routes (include_router [Lit ''jobs''] jobs_router)"
  "disjoint_routes (include_router [Lit ''storage''] storage_router)"
  "disjoint_routes (include_router [Lit ''admin'', Lit ''products'', Param, Lit ''webhooks''] webhooks_admin_router)"
  "disjoint_routes (include_router [Lit ''admin'', Lit ''products'', Param] env_admin_router)"
  "disjoint_routes (include_router [Lit ''env''] env_router)"
  "disjoint_routes (include_router [Lit ''admin'', Lit ''products'', Param, Lit ''components''] components_admin_router)"
  "disjoint_routes (include_router [Lit ''components''] components_router)"
  "disjoint_routes (include_router [Lit ''users''] user_components_router)"
  "disjoint_routes (include_router [Lit ''integrations''] integrations_router)"
  by code_simp+

lemma api_router_disjoint: "disjoint_routes api_router"
  unfolding api_router_def
  by (simp add: disjoint_routes_append apart_append apart_literals apart_admin single_router_disjoint)

text \<open>The order of the routers does not matter: whatever the method and the path of a request, the
  route that the framework finds is the only one of the table that matches.\<close>

lemma api_routes_unambiguous:
  "filter (route_matches m xs) api_router = (case find_route m xs of None \<Rightarrow> [] | Some r \<Rightarrow> [r])"
proof -
  have "length (filter P rs) \<le> 1 \<Longrightarrow> filter P rs = (case List.find P rs of None \<Rightarrow> [] | Some r \<Rightarrow> [r])" for P and rs :: "api_route list"
    by (induction rs) auto
  from this [OF disjoint_routes_matches [OF api_router_disjoint]] show ?thesis by (simp add: find_route_def)
qed


section \<open>What the guards promise\<close>

definition guard_known :: "guard \<Rightarrow> bool" where
  "guard_known g = (case g of
     Permitted p \<Rightarrow> p \<in> set (map fst SYSTEM_PERMISSIONS)
   | ServiceScope s \<Rightarrow> s \<in> set ALLOWED_SCOPES
   | _ \<Rightarrow> True)"

definition under_admin :: "api_route \<Rightarrow> bool" where
  "under_admin r = (case ar_path r of Lit s # _ \<Rightarrow> s = ''admin'' | _ \<Rightarrow> False)"

definition open_to :: "string list \<Rightarrow> api_route \<Rightarrow> bool" where
  "open_to codes r = (case ar_guard r of Permitted p \<Rightarrow> any_matches codes p = Inr True | _ \<Rightarrow> False)"

definition needs_permission :: "api_route \<Rightarrow> bool" where
  "needs_permission r = (case ar_guard r of Permitted _ \<Rightarrow> True | _ \<Rightarrow> False)"

definition role_codes :: "string \<Rightarrow> string list" where
  "role_codes name = (case map_of SYSTEM_ROLES name of None \<Rightarrow> [] | Some codes \<Rightarrow> codes)"

definition endpoint :: "api_route \<Rightarrow> string \<times> segment list" where
  "endpoint r = (ar_method r, ar_path r)"


end
