(* ===== verification/SdkResources.thy ===== *)
theory SdkResources
  imports SdkClient Routes
begin

text \<open>
  The resource classes of the client (\<^verbatim>\<open>plynth_sdk/resources/sync.py\<close>): for every class a
  data type with one constructor per method, and the request the method sends. The methods of the authentication
  resource also change the token store. The end of the theory compares all of them with the routing table of the
  server.
\<close>

section \<open>Requests of the resources\<close>

definition with_body :: "dict \<Rightarrow> RequestSpec \<Rightarrow> RequestSpec" where
  "with_body req spec = spec\<lparr>sp_json_body := Some (JObj req)\<rparr>"

definition no_auth :: "RequestSpec \<Rightarrow> RequestSpec" where
  "no_auth spec = spec\<lparr>sp_skip_auth := True\<rparr>"

definition idempotent :: "RequestSpec \<Rightarrow> RequestSpec" where
  "idempotent spec = spec\<lparr>sp_idempotent := True\<rparr>"

definition as_admin :: "RequestSpec \<Rightarrow> RequestSpec" where
  "as_admin spec = spec\<lparr>sp_as_platform_admin := True\<rparr>"

definition as_service :: "RequestSpec \<Rightarrow> RequestSpec" where
  "as_service spec = spec\<lparr>sp_as_service_token := True\<rparr>"

text \<open>\<^verbatim>\<open>params or None\<close>\<close>

definition with_params :: "(string \<times> json) list \<Rightarrow> RequestSpec \<Rightarrow> RequestSpec" where
  "with_params ps spec = spec\<lparr>sp_params := (if ps = [] then None else Some ps)\<rparr>"

definition ledger_params :: "int option \<Rightarrow> string option \<Rightarrow> (string \<times> json) list" where
  "ledger_params limit cursor =
     (case limit of None \<Rightarrow> [] | Some n \<Rightarrow> [(''limit'', JInt n)]) @
     (case cursor of None \<Rightarrow> [] | Some x \<Rightarrow> [(''cursor'', JStr x)])"

datatype AuthCall =
    AuthRegister dict
  | AuthRegisterIndividual dict
  | AuthLogin dict
  | AuthGoogle dict
  | AuthLogout dict
  | AuthMe
  | AuthChangePassword dict
  | AuthForgotPassword dict
  | AuthResetPassword dict

fun auth_spec :: "AuthCall \<Rightarrow> RequestSpec" where
  "auth_spec (AuthRegister req) = idempotent (no_auth (with_body req (request_spec ''POST'' ''/api/v1/auth/register'')))"
| "auth_spec (AuthRegisterIndividual req) =
     idempotent (no_auth (with_body req (request_spec ''POST'' ''/api/v1/auth/register-individual'')))"
| "auth_spec (AuthLogin req) = no_auth (with_body req (request_spec ''POST'' ''/api/v1/auth/login''))"
| "auth_spec (AuthGoogle req) = no_auth (with_body req (request_spec ''POST'' ''/api/v1/auth/google''))"
| "auth_spec (AuthLogout req) = with_body req (request_spec ''POST'' ''/api/v1/auth/logout'')"
| "auth_spec AuthMe = request_spec ''GET'' ''/api/v1/auth/me''"
| "auth_spec (AuthChangePassword req) = with_body req (request_spec ''POST'' ''/api/v1/auth/password'')"
| "auth_spec (AuthForgotPassword req) = no_auth (with_body req (request_spec ''POST'' ''/api/v1/auth/password/forgot''))"
| "auth_spec (AuthResetPassword req) = no_auth (with_body req (request_spec ''POST'' ''/api/v1/auth/password/reset''))"

datatype TenantsCall =
    TenantsList
  | TenantsCreate dict
  | TenantsChildren
  | TenantsUpdate string dict
  | TenantsActivate string
  | TenantsDeactivate string

fun tenants_spec :: "TenantsCall \<Rightarrow> RequestSpec" where
  "tenants_spec TenantsList = request_spec ''GET'' ''/api/v1/tenants''"
| "tenants_spec (TenantsCreate req) = idempotent (with_body req (request_spec ''POST'' ''/api/v1/tenants''))"
| "tenants_spec TenantsChildren = request_spec ''GET'' ''/api/v1/tenants/children''"
| "tenants_spec (TenantsUpdate tenant_id req) =
     idempotent (with_body req (request_spec ''PATCH'' (''/api/v1/tenants/'' @ tenant_id)))"
| "tenants_spec (TenantsActivate tenant_id) =
     idempotent (request_spec ''POST'' (''/api/v1/tenants/'' @ tenant_id @ ''/activate''))"
| "tenants_spec (TenantsDeactivate tenant_id) =
     idempotent (request_spec ''POST'' (''/api/v1/tenants/'' @ tenant_id @ ''/deactivate''))"

datatype UsersCall =
    UsersList
  | UsersInvite dict
  | UsersUpdate string dict
  | UsersActivate string
  | UsersDeactivate string
  | UsersDelete string

fun users_spec :: "UsersCall \<Rightarrow> RequestSpec" where
  "users_spec UsersList = request_spec ''GET'' ''/api/v1/users''"
| "users_spec (UsersInvite req) = idempotent (with_body req (request_spec ''POST'' ''/api/v1/users''))"
| "users_spec (UsersUpdate user_id req) = idempotent (with_body req (request_spec ''PATCH'' (''/api/v1/users/'' @ user_id)))"
| "users_spec (UsersActivate user_id) = idempotent (request_spec ''POST'' (''/api/v1/users/'' @ user_id @ ''/activate''))"
| "users_spec (UsersDeactivate user_id) =
     idempotent (request_spec ''POST'' (''/api/v1/users/'' @ user_id @ ''/deactivate''))"
| "users_spec (UsersDelete user_id) = idempotent (request_spec ''DELETE'' (''/api/v1/users/'' @ user_id))"

datatype PlansCall =
    PlansList
  | PlansCreate dict
  | PlansUpdate string dict

fun plans_spec :: "PlansCall \<Rightarrow> RequestSpec" where
  "plans_spec PlansList = no_auth (request_spec ''GET'' ''/api/v1/plans'')"
| "plans_spec (PlansCreate req) = idempotent (with_body req (request_spec ''POST'' ''/api/v1/plans''))"
| "plans_spec (PlansUpdate code req) = idempotent (with_body req (request_spec ''PATCH'' (''/api/v1/plans/'' @ code)))"

datatype SubscriptionCall =
    SubscriptionGet
  | SubscriptionPurchase dict
  | SubscriptionChange dict
  | SubscriptionCancel dict

fun subscription_spec :: "SubscriptionCall \<Rightarrow> RequestSpec" where
  "subscription_spec SubscriptionGet = request_spec ''GET'' ''/api/v1/subscription''"
| "subscription_spec (SubscriptionPurchase req) =
     idempotent (with_body req (request_spec ''POST'' ''/api/v1/subscription/purchase''))"
| "subscription_spec (SubscriptionChange req) =
     idempotent (with_body req (request_spec ''POST'' ''/api/v1/subscription/change''))"
| "subscription_spec (SubscriptionCancel req) =
     idempotent (with_body req (request_spec ''POST'' ''/api/v1/subscription/cancel''))"

datatype CreditsCall =
    CreditsWallets
  | CreditsLedger "int option" "string option"
  | CreditsConsume dict
  | CreditsGrant dict

fun credits_spec :: "CreditsCall \<Rightarrow> RequestSpec" where
  "credits_spec CreditsWallets = request_spec ''GET'' ''/api/v1/credits/wallets''"
| "credits_spec (CreditsLedger limit cursor) =
     with_params (ledger_params limit cursor) (request_spec ''GET'' ''/api/v1/credits/ledger'')"
| "credits_spec (CreditsConsume req) = idempotent (with_body req (request_spec ''POST'' ''/api/v1/credits/consume''))"
| "credits_spec (CreditsGrant req) = idempotent (with_body req (request_spec ''POST'' ''/api/v1/credits/grant''))"

datatype RolesCall =
    RolesList
  | RolesCreate dict
  | RolesUpdate string dict
  | RolesAssign dict
  | RolesPermissions

fun roles_spec :: "RolesCall \<Rightarrow> RequestSpec" where
  "roles_spec RolesList = request_spec ''GET'' ''/api/v1/roles''"
| "roles_spec (RolesCreate req) = idempotent (with_body req (request_spec ''POST'' ''/api/v1/roles''))"
| "roles_spec (RolesUpdate role_id req) = idempotent (with_body req (request_spec ''PATCH'' (''/api/v1/roles/'' @ role_id)))"
| "roles_spec (RolesAssign req) = idempotent (with_body req (request_spec ''POST'' ''/api/v1/roles/assign''))"
| "roles_spec RolesPermissions = request_spec ''GET'' ''/api/v1/roles/permissions''"

datatype ProductsCall =
    ProductsList
  | ProductsCreate dict
  | ProductsUpdate string dict

fun products_spec :: "ProductsCall \<Rightarrow> RequestSpec" where
  "products_spec ProductsList = as_admin (request_spec ''GET'' ''/api/v1/admin/products'')"
| "products_spec (ProductsCreate req) =
     idempotent (as_admin (with_body req (request_spec ''POST'' ''/api/v1/admin/products'')))"
| "products_spec (ProductsUpdate slug req) =
     idempotent (as_admin (with_body req (request_spec ''PATCH'' (''/api/v1/admin/products/'' @ slug))))"

datatype AdminEnvCall =
    AdminEnvList string
  | AdminEnvSet string string dict
  | AdminEnvPatch string string dict
  | AdminEnvReveal string string string
  | AdminEnvDelete string string

fun admin_env_spec :: "AdminEnvCall \<Rightarrow> RequestSpec" where
  "admin_env_spec (AdminEnvList slug) = as_admin (request_spec ''GET'' (''/api/v1/admin/products/'' @ slug @ ''/env''))"
| "admin_env_spec (AdminEnvSet slug key req) =
     idempotent (as_admin (with_body req (request_spec ''PUT'' (''/api/v1/admin/products/'' @ slug @ ''/env/'' @ key))))"
| "admin_env_spec (AdminEnvPatch slug key req) =
     idempotent (as_admin (with_body req (request_spec ''PATCH'' (''/api/v1/admin/products/'' @ slug @ ''/env/'' @ key))))"
| "admin_env_spec (AdminEnvReveal slug key reason) =
     as_admin (with_params [(''reveal'', JBool True), (''reason'', JStr reason)] (request_spec ''GET'' (''/api/v1/admin/products/'' @ slug @ ''/env/'' @ key)))"
| "admin_env_spec (AdminEnvDelete slug key) =
     idempotent (as_admin (request_spec ''DELETE'' (''/api/v1/admin/products/'' @ slug @ ''/env/'' @ key)))"

datatype ServiceTokensCall =
    ServiceTokensIssue string dict
  | ServiceTokensList string
  | ServiceTokensRevoke string string

fun service_tokens_spec :: "ServiceTokensCall \<Rightarrow> RequestSpec" where
  "service_tokens_spec (ServiceTokensIssue slug req) =
     idempotent (as_admin (with_body req (request_spec ''POST'' (''/api/v1/admin/products/'' @ slug @ ''/service-tokens''))))"
| "service_tokens_spec (ServiceTokensList slug) =
     as_admin (request_spec ''GET'' (''/api/v1/admin/products/'' @ slug @ ''/service-tokens''))"
| "service_tokens_spec (ServiceTokensRevoke slug token_id) =
     idempotent (as_admin (request_spec ''DELETE'' (''/api/v1/admin/products/'' @ slug @ ''/service-tokens/'' @ token_id)))"

datatype EnvCall =
    EnvFetch

fun env_spec :: "EnvCall \<Rightarrow> RequestSpec" where
  "env_spec EnvFetch = as_service (request_spec ''GET'' ''/api/v1/env'')"

datatype AdminComponentsCall =
    AdminComponentsList string
  | AdminComponentsCreate string dict
  | AdminComponentsUpdate string string dict
  | AdminComponentsDelete string string
  | AdminComponentsListTenant string string
  | AdminComponentsSetTenantOverride string string string dict
  | AdminComponentsClearTenantOverride string string string

fun admin_components_spec :: "AdminComponentsCall \<Rightarrow> RequestSpec" where
  "admin_components_spec (AdminComponentsList slug) =
     as_admin (request_spec ''GET'' (''/api/v1/admin/products/'' @ slug @ ''/components''))"
| "admin_components_spec (AdminComponentsCreate slug req) =
     idempotent (as_admin (with_body req (request_spec ''POST'' (''/api/v1/admin/products/'' @ slug @ ''/components''))))"
| "admin_components_spec (AdminComponentsUpdate slug code req) =
     idempotent (as_admin (with_body req (request_spec ''PATCH'' (''/api/v1/admin/products/'' @ slug @ ''/components/'' @ code))))"
| "admin_components_spec (AdminComponentsDelete slug code) =
     idempotent (as_admin (request_spec ''DELETE'' (''/api/v1/admin/products/'' @ slug @ ''/components/'' @ code)))"
| "admin_components_spec (AdminComponentsListTenant slug tenant_id) =
     as_admin (request_spec ''GET'' (''/api/v1/admin/products/'' @ slug @ ''/components/tenants/'' @ tenant_id))"
| "admin_components_spec (AdminComponentsSetTenantOverride slug tenant_id code req) =
     idempotent (as_admin (with_body req (request_spec ''PUT'' (''/api/v1/admin/products/'' @ slug @ ''/components/tenants/'' @ tenant_id @ ''/'' @ code))))"
| "admin_components_spec (AdminComponentsClearTenantOverride slug tenant_id code) =
     idempotent (as_admin (request_spec ''DELETE'' (''/api/v1/admin/products/'' @ slug @ ''/components/tenants/'' @ tenant_id @ ''/'' @ code)))"

datatype ComponentsCall =
    ComponentsList
  | ComponentsListForUser string
  | ComponentsSetOverride string string dict
  | ComponentsClearOverride string string

fun components_spec :: "ComponentsCall \<Rightarrow> RequestSpec" where
  "components_spec ComponentsList = request_spec ''GET'' ''/api/v1/components''"
| "components_spec (ComponentsListForUser user_id) = request_spec ''GET'' (''/api/v1/users/'' @ user_id @ ''/components'')"
| "components_spec (ComponentsSetOverride user_id code req) =
     idempotent (with_body req (request_spec ''PUT'' (''/api/v1/users/'' @ user_id @ ''/components/'' @ code)))"
| "components_spec (ComponentsClearOverride user_id code) =
     idempotent (request_spec ''DELETE'' (''/api/v1/users/'' @ user_id @ ''/components/'' @ code))"

lemmas spec_defs = request_spec_def with_body_def no_auth_def idempotent_def as_admin_def as_service_def with_params_def


section \<open>The authentication resource and the token store\<close>

text \<open>\<^verbatim>\<open>body.setdefault("refresh_token", cur["refresh_token"] if cur else None)\<close>: the default
  is computed in any case.\<close>

definition logout_body :: "dict \<Rightarrow> json option \<Rightarrow> sdk_error + dict" where
  "logout_body req cur =
     (case (case cur of None \<Rightarrow> Inr JNull | Some tokens \<Rightarrow> json_item tokens ''refresh_token'') of
        Inl e \<Rightarrow> Inl e
      | Inr t \<Rightarrow> Inr (if map_of req ''refresh_token'' = None then req @ [(''refresh_token'', t)] else req))"

definition sign_in :: "('s, 'r) PlynthClient \<Rightarrow> AuthCall \<Rightarrow> ('s, 'r) session \<Rightarrow> (sdk_error + json) \<times> ('s, 'r) session" where
  "sign_in c call s =
     (case request c (auth_spec call) s of
        (Inl e, s) \<Rightarrow> (Inl e, s)
      | (Inr tokens, s) \<Rightarrow> (Inr tokens, set_tokens c tokens s))"

definition sign_out :: "('s, 'r) PlynthClient \<Rightarrow> dict \<Rightarrow> ('s, 'r) session \<Rightarrow> (sdk_error + json) \<times> ('s, 'r) session" where
  "sign_out c req s =
     (case logout_body req (tokens_of c s) of
        Inl e \<Rightarrow> (Inl e, s)
      | Inr body \<Rightarrow>
        (case request c (auth_spec (AuthLogout body)) s of
           (Inl e, s) \<Rightarrow> (Inl e, s)
         | (Inr _, s) \<Rightarrow> (Inr JNull, clear_tokens c s)))"

fun run_auth :: "('s, 'r) PlynthClient \<Rightarrow> AuthCall \<Rightarrow> ('s, 'r) session \<Rightarrow> (sdk_error + json) \<times> ('s, 'r) session" where
  "run_auth c (AuthRegister req) s = sign_in c (AuthRegister req) s"
| "run_auth c (AuthRegisterIndividual req) s = sign_in c (AuthRegisterIndividual req) s"
| "run_auth c (AuthLogin req) s = sign_in c (AuthLogin req) s"
| "run_auth c (AuthGoogle req) s = sign_in c (AuthGoogle req) s"
| "run_auth c (AuthLogout req) s = sign_out c req s"
| "run_auth c call s = request c (auth_spec call) s"


section \<open>The calls against the routing table\<close>

datatype SdkCall =
    Auth AuthCall
  | Tenants TenantsCall
  | Users UsersCall
  | Plans PlansCall
  | Subscriptions SubscriptionCall
  | Credits CreditsCall
  | Roles RolesCall
  | Products ProductsCall
  | AdminEnv AdminEnvCall
  | ServiceTokens ServiceTokensCall
  | Env EnvCall
  | AdminComponents AdminComponentsCall
  | Components ComponentsCall

fun call_spec :: "SdkCall \<Rightarrow> RequestSpec" where
  "call_spec (Auth x) = auth_spec x"
| "call_spec (Tenants x) = tenants_spec x"
| "call_spec (Users x) = users_spec x"
| "call_spec (Plans x) = plans_spec x"
| "call_spec (Subscriptions x) = subscription_spec x"
| "call_spec (Credits x) = credits_spec x"
| "call_spec (Roles x) = roles_spec x"
| "call_spec (Products x) = products_spec x"
| "call_spec (AdminEnv x) = admin_env_spec x"
| "call_spec (ServiceTokens x) = service_tokens_spec x"
| "call_spec (Env x) = env_spec x"
| "call_spec (AdminComponents x) = admin_components_spec x"
| "call_spec (Components x) = components_spec x"

text \<open>The parts of a path that the caller fills in, and the characters that would end a segment.\<close>

fun call_params :: "SdkCall \<Rightarrow> string list" where
  "call_params (Tenants (TenantsUpdate tenant_id _)) = [tenant_id]"
| "call_params (Tenants (TenantsActivate tenant_id)) = [tenant_id]"
| "call_params (Tenants (TenantsDeactivate tenant_id)) = [tenant_id]"
| "call_params (Users (UsersUpdate user_id _)) = [user_id]"
| "call_params (Users (UsersActivate user_id)) = [user_id]"
| "call_params (Users (UsersDeactivate user_id)) = [user_id]"
| "call_params (Users (UsersDelete user_id)) = [user_id]"
| "call_params (Plans (PlansUpdate code _)) = [code]"
| "call_params (Roles (RolesUpdate role_id _)) = [role_id]"
| "call_params (Products (ProductsUpdate slug _)) = [slug]"
| "call_params (AdminEnv (AdminEnvList slug)) = [slug]"
| "call_params (AdminEnv (AdminEnvSet slug key _)) = [slug, key]"
| "call_params (AdminEnv (AdminEnvPatch slug key _)) = [slug, key]"
| "call_params (AdminEnv (AdminEnvReveal slug key _)) = [slug, key]"
| "call_params (AdminEnv (AdminEnvDelete slug key)) = [slug, key]"
| "call_params (ServiceTokens (ServiceTokensIssue slug _)) = [slug]"
| "call_params (ServiceTokens (ServiceTokensList slug)) = [slug]"
| "call_params (ServiceTokens (ServiceTokensRevoke slug token_id)) = [slug, token_id]"
| "call_params (AdminComponents (AdminComponentsList slug)) = [slug]"
| "call_params (AdminComponents (AdminComponentsCreate slug _)) = [slug]"
| "call_params (AdminComponents (AdminComponentsUpdate slug code _)) = [slug, code]"
| "call_params (AdminComponents (AdminComponentsDelete slug code)) = [slug, code]"
| "call_params (AdminComponents (AdminComponentsListTenant slug tenant_id)) = [slug, tenant_id]"
| "call_params (AdminComponents (AdminComponentsSetTenantOverride slug tenant_id code _)) = [slug, tenant_id, code]"
| "call_params (AdminComponents (AdminComponentsClearTenantOverride slug tenant_id code)) = [slug, tenant_id, code]"
| "call_params (Components (ComponentsListForUser user_id)) = [user_id]"
| "call_params (Components (ComponentsSetOverride user_id code _)) = [user_id, code]"
| "call_params (Components (ComponentsClearOverride user_id code)) = [user_id, code]"
| "call_params _ = []"

definition path_param :: "string \<Rightarrow> bool" where
  "path_param x \<longleftrightarrow> x \<noteq> [] \<and> list_all (\<lambda>c. c \<noteq> CHR ''/'' \<and> c \<noteq> CHR ''?'' \<and> c \<noteq> CHR ''#'' \<and> c \<noteq> CHR ''%'') x"

text \<open>The prefix of the API and the segments behind it.\<close>

definition api_segments :: "string \<Rightarrow> string list option" where
  "api_segments path =
     (if take (length API_PREFIX) path = API_PREFIX then Some (tl (split_path (drop (length API_PREFIX) path))) else None)"

definition served_by :: "RequestSpec \<Rightarrow> api_route option" where
  "served_by spec = (case api_segments (sp_path spec) of None \<Rightarrow> None | Some xs \<Rightarrow> find_route (sp_method spec) xs)"

text \<open>The kind of credential that a guard reads.\<close>

definition carries :: "guard \<Rightarrow> RequestSpec \<Rightarrow> bool" where
  "carries g spec = (case g of
     Anyone \<Rightarrow> sp_skip_auth spec
   | ProductHeader \<Rightarrow> sp_skip_auth spec
   | SignedIn \<Rightarrow> is_user_call spec \<and> \<not> sp_as_service_token spec
   | Permitted _ \<Rightarrow> is_user_call spec \<and> \<not> sp_as_service_token spec
   | PlatformAdmin \<Rightarrow> want_admin spec \<and> \<not> sp_as_service_token spec
   | ServiceScope _ \<Rightarrow> sp_as_service_token spec)"

lemma split_path_segment: "CHR ''/'' \<notin> set x \<Longrightarrow> split_path (x @ CHR ''/'' # r) = x # split_path r"
  by (induction x) auto

lemma split_path_last: "CHR ''/'' \<notin> set x \<Longrightarrow> split_path x = [x]"
  by (induction x) auto

lemma path_paramD: "path_param x \<Longrightarrow> x \<noteq> [] \<and> CHR ''/'' \<notin> set x"
  by (auto simp: path_param_def list_all_iff)

lemma matches_lit:
  "route_matches m (x # xs) (r\<lparr>ar_path := Lit s # p\<rparr>) \<longleftrightarrow> x = s \<and> route_matches m xs (r\<lparr>ar_path := p\<rparr>)"
  by (auto simp: route_matches_def)

lemma matches_param:
  "route_matches m (x # xs) (r\<lparr>ar_path := Param # p\<rparr>) \<longleftrightarrow> x \<noteq> [] \<and> route_matches m xs (r\<lparr>ar_path := p\<rparr>)"
  by (auto simp: route_matches_def)

lemma find_include_lit:
  "List.find (route_matches m (x # xs)) (include_router (Lit s # p) rs) =
     (if x = s then map_option (\<lambda>r. r\<lparr>ar_path := Lit s # ar_path r\<rparr>) (List.find (route_matches m xs) (include_router p rs)) else None)"
  by (induction rs) (auto simp: include_router_def matches_lit)

lemma find_include_param:
  "List.find (route_matches m (x # xs)) (include_router (Param # p) rs) =
     (if x \<noteq> [] then map_option (\<lambda>r. r\<lparr>ar_path := Param # ar_path r\<rparr>) (List.find (route_matches m xs) (include_router p rs)) else None)"
  by (induction rs) (auto simp: include_router_def matches_param)

lemma find_include_end:
  "List.find (route_matches m []) (include_router (q # p) rs) = None"
  by (induction rs; cases q) (auto simp: include_router_def route_matches_def)

lemma include_router_nil: "include_router [] rs = rs"
  by (simp add: include_router_def)

lemmas routing = served_by_def api_segments_def API_PREFIX_def find_route_def api_router_def find_append find_include_lit
  find_include_param find_include_end include_router_nil split_path_segment split_path_last

definition routed :: "RequestSpec \<Rightarrow> bool" where
  "routed spec \<longleftrightarrow> (\<exists>r. served_by spec = Some r \<and> carries (ar_guard r) spec)"

lemmas routed_simps = routing spec_defs routed_def route_def route_matches_def carries_def is_user_call_def want_admin_def is_admin_path_def

lemma auth_routed: "list_all path_param (call_params (Auth x)) \<Longrightarrow> routed (auth_spec x)"
  by (cases x) (auto dest!: path_paramD simp: routed_simps auth_router_def)

lemma tenants_routed: "list_all path_param (call_params (Tenants x)) \<Longrightarrow> routed (tenants_spec x)"
  by (cases x) (auto dest!: path_paramD simp: routed_simps tenants_router_def)

lemma users_routed: "list_all path_param (call_params (Users x)) \<Longrightarrow> routed (users_spec x)"
  by (cases x) (auto dest!: path_paramD simp: routed_simps users_router_def user_components_router_def)

lemma plans_routed: "list_all path_param (call_params (Plans x)) \<Longrightarrow> routed (plans_spec x)"
  by (cases x) (auto dest!: path_paramD simp: routed_simps plans_router_def)

lemma subscription_routed: "list_all path_param (call_params (Subscriptions x)) \<Longrightarrow> routed (subscription_spec x)"
  by (cases x) (auto dest!: path_paramD simp: routed_simps subscriptions_router_def)

lemma credits_routed: "list_all path_param (call_params (Credits x)) \<Longrightarrow> routed (credits_spec x)"
  by (cases x) (auto dest!: path_paramD simp: routed_simps credits_router_def)

lemma roles_routed: "list_all path_param (call_params (Roles x)) \<Longrightarrow> routed (roles_spec x)"
  by (cases x) (auto dest!: path_paramD simp: routed_simps roles_router_def)

lemma products_routed: "list_all path_param (call_params (Products x)) \<Longrightarrow> routed (products_spec x)"
  by (cases x) (auto dest!: path_paramD simp: routed_simps admin_router_def)

lemma admin_env_routed: "list_all path_param (call_params (AdminEnv x)) \<Longrightarrow> routed (admin_env_spec x)"
  by (cases x) (auto dest!: path_paramD simp: routed_simps admin_router_def webhooks_admin_router_def env_admin_router_def)

lemma service_tokens_routed: "list_all path_param (call_params (ServiceTokens x)) \<Longrightarrow> routed (service_tokens_spec x)"
  by (cases x) (auto dest!: path_paramD simp: routed_simps admin_router_def webhooks_admin_router_def env_admin_router_def)

lemma env_routed: "list_all path_param (call_params (Env x)) \<Longrightarrow> routed (env_spec x)"
  by (cases x) (auto dest!: path_paramD simp: routed_simps env_router_def)

lemma admin_components_routed: "list_all path_param (call_params (AdminComponents x)) \<Longrightarrow> routed (admin_components_spec x)"
  by (cases x) (auto dest!: path_paramD simp: routed_simps admin_router_def webhooks_admin_router_def env_admin_router_def components_admin_router_def)

lemma components_routed: "list_all path_param (call_params (Components x)) \<Longrightarrow> routed (components_spec x)"
  by (cases x) (auto dest!: path_paramD simp: routed_simps components_router_def users_router_def user_components_router_def)

text \<open>C28: the client speaks the language of the server. Whatever method of a resource is called, with
  whatever body and with path parameters that stay within their segment, the request has exactly one route in the
  routing table, and carries the kind of credential the guard of that route reads: no credential for the open
  routes, the session of the user for the routes of a user, the platform token for the administration, the service
  token for the runtime of a product.\<close>

theorem sdk_calls_routed:
  assumes "list_all path_param (call_params call)"
  shows "\<exists>r. served_by (call_spec call) = Some r \<and> carries (ar_guard r) (call_spec call)"
proof -
  have "routed (call_spec call)"
    using assms auth_routed tenants_routed users_routed plans_routed subscription_routed credits_routed roles_routed products_routed
      admin_env_routed service_tokens_routed env_routed admin_components_routed components_routed
    by (cases call) simp_all
  then show ?thesis by (simp add: routed_def)
qed

theorem sdk_calls_routed_witness:
  "served_by (call_spec (AdminComponents (AdminComponentsUpdate ''shop'' ''crm'' []))) \<noteq> None"
proof -
  have "list_all path_param (call_params (AdminComponents (AdminComponentsUpdate ''shop'' ''crm'' [])))"
    by (simp add: path_param_def)
  from sdk_calls_routed [OF this] show ?thesis by auto
qed

end
