(* ===== verification/SdkServer.thy ===== *)
theory SdkServer
  imports SdkResources AccountRoutes
begin

text \<open>
  The client against the server: two routes of \<^verbatim>\<open>app/api/v1/auth.py\<close> as an HTTP service, from the
  headers and the body of a request to the status and the JSON of its answer, and the client of theory
  \<open>SdkClient\<close> talking to it. How the framework reads the scheme of an authorization header is a
  parameter.
\<close>

section \<open>The server on the wire\<close>

definition request_headers :: "(string \<Rightarrow> string option) \<Rightarrow> (string \<times> string) list \<Rightarrow> headers" where
  "request_headers scheme hs = \<lparr>h_authorization = Option.bind (map_of hs ''Authorization'') scheme,
     h_product_slug = map_of hs ''X-Product-Slug'', h_acting_tenant_slug = map_of hs ''X-Acting-Tenant-Slug'',
     h_platform_admin_token = map_of hs ''X-Platform-Admin-Token''\<rparr>"

definition envelope_json :: "envelope \<Rightarrow> json" where
  "envelope_json e = JObj [(''code'', JStr (env_code e)), (''message'', JStr (env_message e)), (''details'', JObj (env_details e))]"

definition token_pair_json :: "TokenPair \<Rightarrow> json" where
  "token_pair_json p = JObj [(''access_token'', JStr (tp_access_token p)), (''refresh_token'', JStr (tp_refresh_token p)),
     (''token_type'', JStr (tp_token_type p)), (''expires_at'', JTime (tp_expires_at p))]"

definition me_json :: "MeResponse \<Rightarrow> json" where
  "me_json m = JObj [(''id'', JUuid (me_id m)), (''product_id'', JUuid (me_product_id m)), (''tenant_id'', JUuid (me_tenant_id m)),
     (''email'', JStr (me_email m)), (''full_name'', jopt JStr (me_full_name m)), (''is_active'', JBool (me_is_active m)),
     (''is_verified'', JBool (me_is_verified m)), (''permissions'', JList (map JStr (me_permissions m))),
     (''components'', JObj (map (\<lambda>(k, b). (k, JBool b)) (me_components m)))]"

fun reply :: "('a \<Rightarrow> json) \<Rightarrow> 'a response \<Rightarrow> wire_response" where
  "reply f (Success a) = \<lparr>rs_status_code = 200, rs_empty = False, rs_json = Some (f a), rs_reason_phrase = ''OK''\<rparr>"
| "reply f (Failure status e) =
     \<lparr>rs_status_code = status, rs_empty = False, rs_json = Some (envelope_json e), rs_reason_phrase = []\<rparr>"

definition serve :: "('a \<Rightarrow> json) \<Rightarrow> wire_request \<Rightarrow> 'a service \<Rightarrow> world \<Rightarrow> (string + wire_response) \<times> world" where
  "serve f rq m w =
     (case handle_request (map_of (rq_headers rq) ''X-Request-ID'') m w of
        (Inr (resp, _), w) \<Rightarrow> (Inr (reply f resp), w)
      | (Inl _, w) \<Rightarrow> (Inl [], w))"

fun refresh_body :: "json option \<Rightarrow> string option" where
  "refresh_body (Some (JObj d)) = (case map_of d ''refresh_token'' of Some (JStr t) \<Rightarrow> Some t | _ \<Rightarrow> None)"
| "refresh_body _ = None"

definition auth_server :: "(string \<Rightarrow> string option) \<Rightarrow> wire_request \<Rightarrow> world \<Rightarrow> (string + wire_response) \<times> world" where
  "auth_server scheme rq =
     (if rq_method rq = ''POST'' \<and> rq_path rq = ''/api/v1/auth/refresh''
      then serve token_pair_json rq
             (case refresh_body (rq_json rq) of
                None \<Rightarrow> raise (ValidationFailed ''Request payload failed validation'')
              | Some t \<Rightarrow> refresh_tokens_route t)
      else if rq_method rq = ''GET'' \<and> rq_path rq = ''/api/v1/auth/me''
      then serve me_json rq (me (request_headers scheme (rq_headers rq)))
      else serve (\<lambda>_. JNull) rq (raise (HTTPException 404 ''Not Found'') :: unit service))"


section \<open>What the routes answer\<close>

lemma serve_cases:
  assumes "serve f rq m w = (a, w')"
  obtains (success) x where "a = Inr (reply f (Success x))" "m (started (map_of (rq_headers rq) ''X-Request-ID'') w) = (Inr x, w')"
  | (failure) e v where "a = Inr (reply f (Failure (status_code e) (snd (fst (error_response e)))))"
      "m (started (map_of (rq_headers rq) ''X-Request-ID'') w) = (Inl e, v)" "w' = v\<lparr>db := db w\<rparr>"
proof (cases "handle_request (map_of (rq_headers rq) ''X-Request-ID'') m w")
  case (Pair r v)
  show ?thesis
  proof (cases rule: handle_requestD [OF Pair])
    case (1 x rid)
    then show ?thesis using assms Pair by (intro success [of x]) (simp_all add: serve_def)
  next
    case (2 e u rid)
    then show ?thesis using assms Pair by (intro failure [of e u]) (simp_all add: serve_def)
  qed
qed

text \<open>The product header of the client names an active product that the resolver has cached, or there is none.\<close>

definition slug_fits :: "string option \<Rightarrow> uuid \<Rightarrow> world \<Rightarrow> bool" where
  "slug_fits slug p w \<longleftrightarrow> (truthy slug \<longrightarrow> redis_up w \<and> map_of (slug_cache w) (the slug) = Some (p, ProductActive))"

lemma resolve_fits:
  assumes "slug_fits slug p w"
  shows "resolve_product slug w = (if truthy slug then (Inr (Some p), w\<lparr>cur_product := Some p\<rparr>) else (Inr None, w))"
  using assms by (simp add: resolve_product_def resolve_slug_to_id_def slug_fits_def svc_simps context_defs)

lemma slug_fits_cong:
  "slug_fits slug p w \<Longrightarrow> redis_up v = redis_up w \<Longrightarrow> slug_cache v = slug_cache w \<Longrightarrow> slug_fits slug p v"
  by (simp add: slug_fits_def)

lemma me_stale:
  assumes "h_authorization h = Some t" and "jwt_decode (lib w) (now w) t = None" and "\<not> truthy (h_platform_admin_token h)"
    and "slug_fits (h_product_slug h) p w"
  shows "\<exists>e. me h w = (Inl e, w\<lparr>cur_product := if truthy (h_product_slug h) then Some p else cur_product w\<rparr>) \<and> status_code e = 401"
  using assms(1-3) resolve_fits [OF assms(4)]
  by (cases "truthy (h_product_slug h)")
    (auto simp: me_def request_user_def get_current_user_def bearer_session_def decode_token_def svc_simps)

lemma me_admits:
  assumes "h_authorization h = Some t" and "t \<noteq> []" and "jwt_decode (lib w) (now w) t = Some c" and "claim_typ c = Access"
    and "claim_sub c = User_id u" and "claim_pid c = Some (User_product_id u)" and "\<not> truthy (h_platform_admin_token h)"
    and "\<not> truthy (h_acting_tenant_slug h)" and "slug_fits (h_product_slug h) (User_product_id u) w"
    and "List.find (\<lambda>x. User_id x = User_id u) (users (db w)) = Some u" and "User_is_active u"
    and "\<not> (\<exists>b. (parent_of (tenants (db w)))\<^sup>*\<^sup>* (User_tenant_id u) b \<and> expired (tenants (db w)) (now w) b)"
  shows "\<exists>m. me h w = (Inr m, w\<lparr>cur_product := Some (User_product_id u), cur_tenant := Some (User_tenant_id u)\<rparr>) \<and>
    me_id m = User_id u \<and> me_tenant_id m = User_tenant_id u"
proof -
  have "request_user h w = (Inr u, w\<lparr>cur_product := Some (User_product_id u), cur_tenant := Some (User_tenant_id u)\<rparr>)"
    using assms(1-8,10-12) resolve_fits [OF assms(9)]
    by (cases "truthy (h_product_slug h)")
      (simp_all add: request_user_def get_current_user_def bearer_session_def decode_token_def svc_simps context_defs
        enforce_tenant_expiry_def expiry_walk_iff del: expiry_walk.simps)
  then show ?thesis
    by (simp add: me_def bindS_step [where m = "request_user h"] list_user_permission_codes_def user_effective_components_def
        list_components_def tenant_active_plan_code_def svc_simps)
qed

declare auth_spec.simps [simp del]

lemma find_by_key: "List.find (\<lambda>x. f x = k) xs = Some u \<Longrightarrow> List.find (\<lambda>x. f x = f u) xs = Some u"
  by (frule find_SomeD) simp

lemma started_rest [simp]:
  "redis_up (started x w) = redis_up w" "slug_cache (started x w) = slug_cache w"
  by (simp_all add: started_def bind_request_id_def fresh_context_def svc_simps)

lemma credential_me:
  assumes "tokens_of c s = Some (JObj d)" and "map_of d ''access_token'' = Some (JStr t)"
  shows "credential c (auth_spec AuthMe) s = Inr [(''Authorization'', ''Bearer '' @ t)]"
  using assms by (simp add: credential_def auth_spec.simps request_spec_def want_admin_def is_admin_path_def API_PREFIX_def)

definition me_headers :: "('s, 'r) PlynthClient \<Rightarrow> string \<Rightarrow> (string \<times> string) list" where
  "me_headers c t = [(''Accept'', ''application/json''), (''Authorization'', ''Bearer '' @ t)] @
     header ''X-Product-Slug'' (product_slug (cfg c))"

lemma build_me:
  assumes "tokens_of c s = Some (JObj d)" and "map_of d ''access_token'' = Some (JStr t)"
    and "\<not> truthy (acting_tenant_slug (cfg c))"
  shows "build_headers c (auth_spec AuthMe) s = (Inr (me_headers c t), s)"
  using credential_me [OF assms(1,2)] assms(3)
  by (simp add: build_headers_def me_headers_def auth_spec.simps request_spec_def either_def header_def want_admin_def)

lemma read_me_headers:
  assumes "scheme (''Bearer '' @ t) = Some t"
  shows "h_authorization (request_headers scheme (me_headers c t)) = Some t"
    "h_product_slug (request_headers scheme (me_headers c t)) = (if truthy (product_slug (cfg c)) then product_slug (cfg c) else None)"
    "h_acting_tenant_slug (request_headers scheme (me_headers c t)) = None"
    "h_platform_admin_token (request_headers scheme (me_headers c t)) = None"
  using assms by (cases "product_slug (cfg c)"; simp add: request_headers_def me_headers_def header_def)+

lemma exchange_me:
  assumes "transport c = auth_server scheme"
  shows "exchange c (request_of (auth_spec AuthMe) h) s =
    (let (a, w) = serve me_json (request_of (auth_spec AuthMe) h) (me (request_headers scheme h)) (remote s)
     in (a, s\<lparr>remote := w\<rparr>))"
  using assms by (simp add: exchange_def auth_server_def request_of_def auth_spec.simps request_spec_def Let_def split: prod.splits)

lemma exchange_refresh:
  assumes "transport c = auth_server scheme"
  shows "exchange c (refresh_request (JStr t)) s =
    (let (a, w) = serve token_pair_json (refresh_request (JStr t)) (refresh_tokens_route t) (remote s)
     in (a, s\<lparr>remote := w\<rparr>))"
  using assms by (simp add: exchange_def auth_server_def refresh_request_def API_PREFIX_def Let_def split: prod.splits)

text \<open>A request for the account with a token that no longer decodes is refused, and changes nothing that matters.\<close>

lemma served_stale:
  assumes "scheme (''Bearer '' @ t) = Some t" and "jwt_decode (lib w) (now w) t = None" and "slug_fits (product_slug (cfg c)) p w"
    and "serve me_json rq (me (request_headers scheme (me_headers c t))) w = (a, w')"
  obtains e where "a = Inr (reply me_json (Failure (status_code e) (snd (fst (error_response e)))))" "status_code e = 401"
    "db w' = db w" "lib w' = lib w" "now w' = now w" "settings w' = settings w" "draws w' = draws w" "draw_no w \<le> draw_no w'"
    "redis_up w' = redis_up w" "slug_cache w' = slug_cache w"
proof -
  let ?h = "request_headers scheme (me_headers c t)" and ?v = "started (map_of (rq_headers rq) ''X-Request-ID'') w"
  note headers = read_me_headers [where scheme = scheme and c = c, OF assms(1)]
  have "\<exists>e. me ?h ?v = (Inl e, ?v\<lparr>cur_product := if truthy (h_product_slug ?h) then Some p else cur_product ?v\<rparr>) \<and> status_code e = 401"
    using assms(2,3) by (intro me_stale [where t = t]) (auto simp: headers slug_fits_def)
  then show ?thesis
    by (cases rule: serve_cases [OF assms(4)]) (auto simp: started_draws intro: that)
qed

text \<open>C17: the client and the server together. A client whose access token has gone stale, but whose refresh
  token still works, asks for the account of its user: the caller gets the account, of the user the refresh token
  belongs to, as if the token had been good. On the way the server refused the first request, rotated the session
  and answered the second one; the store of the client now holds the new pair, the refresh token it held before is
  refused, and the new one works.\<close>

theorem session_renewed:
  fixes c :: "(json option, world) PlynthClient" and s :: "(json option, world) session"
  assumes client: "token_store c = MemoryStore" "transport c = auth_server scheme" "\<not> truthy (acting_tenant_slug (cfg c))"
      "\<forall>t. scheme (''Bearer '' @ t) = Some t"
    and tokens: "stored_tokens s = Some (JObj d)" "map_of d ''access_token'' = Some (JStr old)"
      "map_of d ''refresh_token'' = Some (JStr tok)"
    and libs: "libs_ok (remote s)" "sessions_ok (remote s)" "\<forall>x. jwt_encode (lib (remote s)) x \<noteq> []"
      "0 < jwt_access_ttl_seconds (settings (remote s))" "0 < jwt_refresh_ttl_seconds (settings (remote s))"
    and stale: "jwt_decode (lib (remote s)) (now (remote s)) old = None"
    and works: "fst (refresh tok (remote s)) = Inr (u, x)"
    and fits: "slug_fits (product_slug (cfg c)) (User_product_id u) (remote s)"
    and live: "\<not> (\<exists>b. (parent_of (tenants (db (remote s))))\<^sup>*\<^sup>* (User_tenant_id u) b \<and>
      expired (tenants (db (remote s))) (now (remote s)) b)"
  shows "\<exists>m s' p. request c (auth_spec AuthMe) s = (Inr (me_json m), s') \<and> me_id m = User_id u \<and> me_tenant_id m = User_tenant_id u \<and>
     stored_tokens s' = Some (token_pair_json p) \<and> (\<exists>e. fst (refresh tok (remote s')) = Inl e) \<and>
     (\<exists>y. fst (refresh (tp_refresh_token p) (remote s')) = Inr (u, y))"
proof -
  let ?w = "remote s" and ?slug = "product_slug (cfg c)"
  have held0: "tokens_of c s = Some (JObj d)"
    using client(1) tokens(1,2) by (auto simp: tokens_of_def MemoryStore_def)
  note scheme = client(4) [rule_format]
  have slugs: "slug_fits (if truthy ?slug then ?slug else None) (User_product_id u) v"
    if "redis_up v = redis_up ?w" "slug_cache v = slug_cache ?w" for v
    using fits that by (auto simp: slug_fits_def)
  text \<open>The first request is refused.\<close>
  obtain a0 w0 where first: "serve me_json (request_of (auth_spec AuthMe) (me_headers c old)) (me (request_headers scheme (me_headers c old))) ?w = (a0, w0)"
    by fastforce
  then obtain e where "a0 = Inr (reply me_json (Failure (status_code e) (snd (fst (error_response e)))))" "status_code e = 401"
      "db w0 = db ?w" "lib w0 = lib ?w" "now w0 = now ?w" "settings w0 = settings ?w" "draws w0 = draws ?w" "draw_no ?w \<le> draw_no w0"
      "redis_up w0 = redis_up ?w" "slug_cache w0 = slug_cache ?w"
    by (rule served_stale [where scheme = scheme, OF scheme stale fits])
  note w0 = this
  text \<open>The refresh is granted.\<close>
  have "live_token tok u ?w"
    using works live_tokenI [OF libs(2)] by (cases x; cases "refresh tok ?w") auto
  then have "live_token tok u (started None w0)"
    using w0(3-8) order_trans [OF w0(8) started_draws] by (auto intro: live_token_later)
  then obtain access new exp w1 where run: "refresh tok (started None w0) = (Inr (u, access, new, exp), w1)"
    using live_token_refreshes by blast
  let ?p = "token_pair (u, access, new, exp)"
  have granted: "serve token_pair_json (refresh_request (JStr tok)) (refresh_tokens_route tok) w0 = (Inr (reply token_pair_json (Success ?p)), w1)"
    using run serve_cases [of token_pair_json "refresh_request (JStr tok)" "refresh_tokens_route tok" w0]
    by (cases "serve token_pair_json (refresh_request (JStr tok)) (refresh_tokens_route tok) w0")
      (fastforce simp: refresh_tokens_route_def bindS_apply ret_apply refresh_request_def)
  have ok0: "libs_ok (started None w0)" "sessions_ok (started None w0)" "0 < jwt_access_ttl_seconds (settings (started None w0))"
      "0 < jwt_refresh_ttl_seconds (settings (started None w0))"
    using libs w0(3-8) order_trans [OF w0(8) started_draws] by (auto simp: libs_ok_def intro: sessions_ok_later)
  note decode = refreshed_access [OF ok0(1-3) run]
  have w1: "users (db w1) = users (db ?w)" "tenants (db w1) = tenants (db ?w)" "lib w1 = lib ?w" "now w1 = now ?w"
      "redis_up w1 = redis_up ?w" "slug_cache w1 = slug_cache ?w"
    and user: "User_is_active u" "List.find (\<lambda>x. User_id x = User_id u) (users (db ?w)) = Some u" and access: "access \<noteq> []"
  proof -
    show "users (db w1) = users (db ?w)" "tenants (db w1) = tenants (db ?w)" "lib w1 = lib ?w" "now w1 = now ?w"
        "redis_up w1 = redis_up ?w" "slug_cache w1 = slug_cache ?w" "User_is_active u" "access \<noteq> []"
      by (cases rule: refreshD [OF ok0(2) run], simp add: w0 libs(3))+
    show "List.find (\<lambda>x. User_id x = User_id u) (users (db ?w)) = Some u"
      by (cases rule: refreshD [OF ok0(2) run]) (simp add: w0 find_by_key)
  qed
  text \<open>The second request is answered.\<close>
  obtain a2 w2 where again: "serve me_json (request_of (auth_spec AuthMe) (me_headers c access))
      (me (request_headers scheme (me_headers c access))) w1 = (a2, w2)"
    by fastforce
  let ?v = "started (map_of (rq_headers (request_of (auth_spec AuthMe) (me_headers c access))) ''X-Request-ID'') w1"
  note new_headers = read_me_headers [where scheme = scheme and c = c, OF scheme, of access]
  have "\<exists>m. me (request_headers scheme (me_headers c access)) ?v =
      (Inr m, ?v\<lparr>cur_product := Some (User_product_id u), cur_tenant := Some (User_tenant_id u)\<rparr>) \<and>
      me_id m = User_id u \<and> me_tenant_id m = User_tenant_id u"
    by (rule me_admits [where t = access and c = "session_claims (started None w0) u Access
        (jwt_access_ttl_seconds (settings (started None w0))) (draws (started None w0) (draw_no (started None w0)))"])
      (use decode access user live in \<open>simp_all add: new_headers w0 w1 slugs session_claims_def\<close>)
  then obtain m where m: "me_id m = User_id u" "me_tenant_id m = User_tenant_id u" "a2 = Inr (reply me_json (Success m))"
      "w2 = ?v\<lparr>cur_product := Some (User_product_id u), cur_tenant := Some (User_tenant_id u)\<rparr>"
    by (cases rule: serve_cases [OF again]) auto
  text \<open>Both ends afterwards.\<close>
  have dead: "\<exists>e. fst (refresh tok w2) = Inl e"
    using refresh_kills [OF ok0(1) run] by (intro refresh_refused) (simp add: m(4) refresh_dead_def jti_dead_def)
  have "live_token new u w2"
    using refreshed_live [OF ok0(1,2,4) run] by (rule live_token_later) (simp_all add: m(4) started_draws)
  then have lives: "\<exists>y. fst (refresh new w2) = Inr (u, y)"
    by (auto dest!: live_token_refreshes)
  text \<open>The run of the client.\<close>
  let ?s0 = "s\<lparr>remote := w0\<rparr>" and ?s1 = "set_tokens c (token_pair_json ?p) (s\<lparr>remote := w1\<rparr>)"
  have "tokens_of c ?s0 = Some (JObj d)" using held0 by (simp add: tokens_of_def)
  then have renew: "refresh_session c ?s0 = (Inr True, ?s1)"
    using tokens(3) granted by (simp add: refresh_session_def exchange_refresh [OF client(2)] set_tokens_def)
  have held: "tokens_of c ?s1 = Some (token_pair_json ?p)"
    by (rule memory.stored [OF client(1)]) (simp_all add: token_pair_json_def)
  have headers: "build_headers c (auth_spec AuthMe) ?s1 = (Inr (me_headers c access), ?s1)"
  proof -
    obtain d' where d': "token_pair_json ?p = JObj d'" "map_of d' ''access_token'' = Some (JStr access)"
      by (simp add: token_pair_json_def)
    have "tokens_of c ?s1 = Some (JObj d')" using held by (simp only: d'(1))
    then show ?thesis by (rule build_me [OF _ d'(2) client(3)])
  qed
  have "exchange c (request_of (auth_spec AuthMe) (me_headers c access)) ?s1 = (a2, ?s1\<lparr>remote := w2\<rparr>)"
    using again by (simp add: exchange_me [OF client(2)])
  then have retry: "send c (auth_spec AuthMe) True ?s1 = (Inr (me_json m), ?s1\<lparr>remote := w2\<rparr>)"
    using headers m(3) by (simp add: send.simps [of c "auth_spec AuthMe" True] parse_response_def is_success_def)
  have "exchange c (request_of (auth_spec AuthMe) (me_headers c old)) s = (a0, ?s0)"
    using first by (simp add: exchange_me [OF client(2)])
  moreover have "is_user_call (auth_spec AuthMe)"
    by (simp add: is_user_call_def auth_spec.simps request_spec_def is_admin_path_def API_PREFIX_def)
  ultimately have run: "request c (auth_spec AuthMe) s = (Inr (me_json m), ?s1\<lparr>remote := w2\<rparr>)"
    using build_me [OF held0 tokens(2) client(3)] w0(1,2) renew retry
    by (simp add: request_def send.simps [of c "auth_spec AuthMe" False])
  have "stored_tokens (?s1\<lparr>remote := w2\<rparr>) = Some (token_pair_json ?p)" using client(1) by (simp add: MemoryStore_def)
  then show ?thesis
    using run m(1,2) dead lives by (intro exI [of _ m] exI [of _ "?s1\<lparr>remote := w2\<rparr>"] exI [of _ ?p]) simp
qed

text \<open>User 120 with a stale access token and the refresh token 150.\<close>

definition sample_client_tokens :: dict where
  "sample_client_tokens = [(''access_token'', JStr []), (''refresh_token'', JStr (sample_jwt_encode (sample_claims_of 150)))]"

definition sample_pair :: "(json option, world) PlynthClient" where
  "sample_pair = \<lparr>cfg = \<lparr>base_url = [], product_slug = None, admin_token = None, service_token = None, acting_tenant_slug = None\<rparr>,
     token_store = MemoryStore, transport = auth_server (\<lambda>s. Some (drop 7 s)), uuid4 = (\<lambda>_. []), json_text = (\<lambda>_. [])\<rparr>"

definition sample_holding :: "(json option, world) session" where
  "sample_holding = \<lparr>stored_tokens = Some (JObj sample_client_tokens), remote = sample_session, keys_drawn = 0\<rparr>"

lemma sample_pair_facts:
  "token_store sample_pair = MemoryStore" "transport sample_pair = auth_server (\<lambda>s. Some (drop 7 s))"
  "\<not> truthy (acting_tenant_slug (cfg sample_pair))" "\<not> truthy (admin_token (cfg sample_pair))"
  "\<forall>t. (\<lambda>s. Some (drop 7 s)) (''Bearer '' @ t) = Some t"
  by (simp_all add: sample_pair_def)

lemma sample_holding_facts:
  "stored_tokens sample_holding = Some (JObj sample_client_tokens)" "map_of sample_client_tokens ''access_token'' = Some (JStr [])"
  "map_of sample_client_tokens ''refresh_token'' = Some (JStr (sample_jwt_encode (sample_claims_of 150)))"
  "libs_ok (remote sample_holding)" "sessions_ok (remote sample_holding)"
  "\<forall>x. jwt_encode (lib (remote sample_holding)) x \<noteq> []" "0 < jwt_access_ttl_seconds (settings (remote sample_holding))"
  "0 < jwt_refresh_ttl_seconds (settings (remote sample_holding))"
  "jwt_decode (lib (remote sample_holding)) (now (remote sample_holding)) [] = None"
  "slug_fits (product_slug (cfg sample_pair)) (User_product_id (sample_user 120 107)) (remote sample_holding)"
  "\<not> (\<exists>b. (parent_of (tenants (db (remote sample_holding))))\<^sup>*\<^sup>* (User_tenant_id (sample_user 120 107)) b \<and>
     expired (tenants (db (remote sample_holding))) (now (remote sample_holding)) b)"
  using sample_session_ok
  by (simp_all add: sample_holding_def sample_client_tokens_def sample_session_def sample_world_def sample_lib_def sample_token
    default_settings_def sample_jwt_decode_def slug_fits_def sample_pair_def expired_def empty_db_def)

lemma sample_holding_works:
  "\<exists>x. fst (refresh (sample_jwt_encode (sample_claims_of 150)) (remote sample_holding)) = Inr (sample_user 120 107, x)"
proof -
  have dec: "jwt_decode (lib sample_session) (now sample_session) (sample_jwt_encode (sample_claims_of 150)) = Some (sample_claims_of 150)"
    by (simp add: sample_session_def sample_world_def sample_lib_def sample_jwt sample_claims_of_def seconds_def)
  have "product_ttl sample_session (User_product_id (sample_user 120 107)) = Inr (60 * 60 * 24 * 30)"
    by (simp add: product_ttl_def refresh_ttl_seconds_def svc_simps sample_session_def sample_world_def default_settings_def empty_db_def)
  from refresh_result [OF dec _ _ _ _ _ _ this sample_session_ok(2)] show ?thesis
    by (simp add: sample_claims_of_def sample_session_def sample_world_def sample_user_def seconds_def sample_holding_def)
qed

theorem session_renewed_witness:
  "\<exists>m s'. request sample_pair (auth_spec AuthMe) sample_holding = (Inr (me_json m), s') \<and> me_id m = 120 \<and>
     (\<exists>e. fst (refresh (sample_jwt_encode (sample_claims_of 150)) (remote s')) = Inl e)"
proof -
  obtain x where "fst (refresh (sample_jwt_encode (sample_claims_of 150)) (remote sample_holding)) = Inr (sample_user 120 107, x)"
    using sample_holding_works by blast
  from session_renewed [OF sample_pair_facts(1-3,5) sample_holding_facts(1-9) this sample_holding_facts(10,11)] show ?thesis
    by (auto simp: sample_user_def)
qed

end
