(* ===== verification/JsonTypes.thy ===== *)
theory JsonTypes
  imports Values
begin

text \<open>Types of JSON values, as the schemas of the server (pydantic models) and the types of the Python
  client (\<open>TypedDict\<close>s) state them: which keys an object has, which of them must be there, and what
  each holds. \<open>conforms\<close> says that a value has a type and \<open>subtype\<close> is the check that every value of
  one type has another, which \<open>subtype_sound\<close> justifies. On the wire an identifier, a time and a
  decimal number are strings, so one type \<open>StrT\<close> covers them; what a schema asks of the text of a string
  (its length, its pattern) is no part of these types.\<close>

section \<open>Types\<close>

datatype ty =
    StrT
  | BoolT
  | IntT
  | DictT
  | DictOf ty
  | OneOf "string list"
  | ListOf ty
  | Nullable ty
  | Shape shape_fields
and shape_fields =
    End
  | Field string bool ty shape_fields

fun fields_of :: "(string \<times> bool \<times> ty) list \<Rightarrow> shape_fields" where
  "fields_of [] = End"
| "fields_of ((k, r, t) # fs) = Field k r t (fields_of fs)"

definition total :: "(string \<times> ty) list \<Rightarrow> ty" where
  "total fs = Shape (fields_of (map (\<lambda>(k, t). (k, True, t)) fs))"

definition partial :: "(string \<times> ty) list \<Rightarrow> ty" where
  "partial fs = Shape (fields_of (map (\<lambda>(k, t). (k, False, t)) fs))"

fun textual :: "json \<Rightarrow> bool" where
  "textual (JStr _) = True"
| "textual (JUuid _) = True"
| "textual (JTime _) = True"
| "textual (JDec _) = True"
| "textual _ = False"

fun conforms :: "ty \<Rightarrow> json \<Rightarrow> bool" and has_fields :: "shape_fields \<Rightarrow> dict \<Rightarrow> bool" where
  "conforms StrT j \<longleftrightarrow> textual j"
| "conforms BoolT j \<longleftrightarrow> (case j of JBool _ \<Rightarrow> True | _ \<Rightarrow> False)"
| "conforms IntT j \<longleftrightarrow> (case j of JInt _ \<Rightarrow> True | _ \<Rightarrow> False)"
| "conforms DictT j \<longleftrightarrow> (case j of JObj _ \<Rightarrow> True | _ \<Rightarrow> False)"
| "conforms (DictOf t) j \<longleftrightarrow> (case j of JObj d \<Rightarrow> list_all (conforms t) (map snd d) | _ \<Rightarrow> False)"
| "conforms (OneOf ss) j \<longleftrightarrow> (case j of JStr s \<Rightarrow> s \<in> set ss | _ \<Rightarrow> False)"
| "conforms (ListOf t) j \<longleftrightarrow> (case j of JList js \<Rightarrow> list_all (conforms t) js | _ \<Rightarrow> False)"
| "conforms (Nullable t) j \<longleftrightarrow> j = JNull \<or> conforms t j"
| "conforms (Shape fs) j \<longleftrightarrow> (case j of JObj d \<Rightarrow> has_fields fs d | _ \<Rightarrow> False)"
| "has_fields End d \<longleftrightarrow> True"
| "has_fields (Field k r t fs) d \<longleftrightarrow>
     (case map_of d k of None \<Rightarrow> \<not> r | Some j \<Rightarrow> conforms t j) \<and> has_fields fs d"

section \<open>A check that one type is within another\<close>

fun lookup_field :: "shape_fields \<Rightarrow> string \<Rightarrow> (bool \<times> ty) option" where
  "lookup_field End k = None"
| "lookup_field (Field k' r t fs) k = (if k' = k then Some (r, t) else lookup_field fs k)"

fun subtype :: "ty \<Rightarrow> ty \<Rightarrow> bool" and sub_fields :: "shape_fields \<Rightarrow> shape_fields \<Rightarrow> bool" where
  "subtype s StrT \<longleftrightarrow> (case s of StrT \<Rightarrow> True | OneOf _ \<Rightarrow> True | _ \<Rightarrow> False)"
| "subtype s BoolT \<longleftrightarrow> s = BoolT"
| "subtype s IntT \<longleftrightarrow> s = IntT"
| "subtype s DictT \<longleftrightarrow> (case s of DictT \<Rightarrow> True | DictOf _ \<Rightarrow> True | Shape _ \<Rightarrow> True | _ \<Rightarrow> False)"
| "subtype s (DictOf t) \<longleftrightarrow> (case s of DictOf s' \<Rightarrow> subtype s' t | _ \<Rightarrow> False)"
| "subtype s (OneOf ts) \<longleftrightarrow> (case s of OneOf ss \<Rightarrow> list_all (\<lambda>x. x \<in> set ts) ss | _ \<Rightarrow> False)"
| "subtype s (ListOf t) \<longleftrightarrow> (case s of ListOf s' \<Rightarrow> subtype s' t | _ \<Rightarrow> False)"
| "subtype s (Nullable t) \<longleftrightarrow> (case s of Nullable s' \<Rightarrow> subtype s' t | _ \<Rightarrow> subtype s t)"
| "subtype s (Shape gs) \<longleftrightarrow> (case s of Shape fs \<Rightarrow> sub_fields fs gs | _ \<Rightarrow> False)"
| "sub_fields fs End \<longleftrightarrow> True"
| "sub_fields fs (Field k r t gs) \<longleftrightarrow>
     (case lookup_field fs k of None \<Rightarrow> False | Some (r', s) \<Rightarrow> (r \<longrightarrow> r') \<and> subtype s t) \<and> sub_fields fs gs"

lemma has_fields_lookup:
  "has_fields fs d \<Longrightarrow> lookup_field fs k = Some (r, t) \<Longrightarrow> (case map_of d k of None \<Rightarrow> \<not> r | Some j \<Rightarrow> conforms t j)"
  by (induction fs k rule: lookup_field.induct) (auto split: if_splits)

lemma subtype_sound:
  "subtype s t \<Longrightarrow> conforms s j \<Longrightarrow> conforms t j"
  "sub_fields fs gs \<Longrightarrow> has_fields fs d \<Longrightarrow> has_fields gs d"
proof (induction s t and fs gs arbitrary: j and d rule: subtype_sub_fields.induct)
  case (11 fs k r t gs)
  then show ?case
    using has_fields_lookup [OF 11(4), of k] by (fastforce split: option.splits prod.splits)
qed (auto simp: list_all_iff split: ty.splits json.splits)

section \<open>A sample of each type\<close>

fun sample :: "ty \<Rightarrow> json" and sample_fields :: "shape_fields \<Rightarrow> dict" where
  "sample StrT = JStr ''''"
| "sample BoolT = JBool False"
| "sample IntT = JInt 0"
| "sample DictT = JObj []"
| "sample (DictOf t) = JObj []"
| "sample (OneOf ss) = (case ss of [] \<Rightarrow> JNull | s # _ \<Rightarrow> JStr s)"
| "sample (ListOf t) = JList []"
| "sample (Nullable t) = JNull"
| "sample (Shape fs) = JObj (sample_fields fs)"
| "sample_fields End = []"
| "sample_fields (Field k r t fs) = (k, sample t) # sample_fields fs"

end
