(* ===== verification/ApiSchemas.thy ===== *)
theory ApiSchemas
  imports JsonTypes
begin

text \<open>The types of the bodies of the API: one definition for each request and response model of
  \<open>app/schemas\<close>, with the keys of the model, which of them the client must send and what each holds. A
  response carries every field of its model, so its type is \<open>total\<close>.\<close>

section \<open>Values of the enumerations\<close>

fun billing_interval_value :: "BillingInterval \<Rightarrow> string" where
  "billing_interval_value Month = ''month''"
| "billing_interval_value Year = ''year''"
| "billing_interval_value OneTime = ''one_time''"

fun product_status_value :: "ProductStatus \<Rightarrow> string" where
  "product_status_value ProductActive = ''active''"
| "product_status_value ProductDisabled = ''disabled''"
| "product_status_value ProductArchived = ''archived''"

fun credit_entry_type_value :: "CreditEntryType \<Rightarrow> string" where
  "credit_entry_type_value Grant = ''grant''"
| "credit_entry_type_value Debit = ''debit''"
| "credit_entry_type_value Refund = ''refund''"
| "credit_entry_type_value Expiry = ''expiry''"
| "credit_entry_type_value Adjustment = ''adjustment''"

definition tenant_statuses :: "string list" where
  "tenant_statuses = map tenant_status_value [TenantActive, TenantSuspended, TenantDeactivated, TenantDeleted]"

definition tenant_types :: "string list" where
  "tenant_types = map tenant_type_value [Company, Individual]"

definition subscription_statuses :: "string list" where
  "subscription_statuses = map subscription_status_value
     [Trial, Active, PastDue, Grace, Suspended, Cancelled, Expired]"

definition billing_intervals :: "string list" where
  "billing_intervals = map billing_interval_value [Month, Year, OneTime]"

definition product_statuses :: "string list" where
  "product_statuses = map product_status_value [ProductActive, ProductDisabled, ProductArchived]"

definition credit_entry_types :: "string list" where
  "credit_entry_types = map credit_entry_type_value [Grant, Debit, Refund, Expiry, Adjustment]"

section \<open>The models\<close>

definition TimestampedResponse_fields :: "(string \<times> ty) list" where
  "TimestampedResponse_fields = [(''id'', StrT), (''created_at'', StrT), (''updated_at'', StrT)]"

definition RegisterRequest_model :: ty where
  "RegisterRequest_model = Shape (fields_of [
     (''tenant_name'', True, StrT), (''tenant_slug'', True, StrT), (''email'', True, StrT),
     (''password'', True, StrT), (''full_name'', False, Nullable StrT)])"

definition RegisterIndividualRequest_model :: ty where
  "RegisterIndividualRequest_model = Shape (fields_of [
     (''email'', True, StrT), (''password'', True, StrT), (''full_name'', False, Nullable StrT)])"

definition LoginRequest_model :: ty where
  "LoginRequest_model = Shape (fields_of [
     (''email'', True, StrT), (''password'', True, StrT), (''tenant_slug'', False, Nullable StrT)])"

definition TokenPair_model :: ty where
  "TokenPair_model = total [
     (''access_token'', StrT), (''refresh_token'', StrT), (''token_type'', StrT), (''expires_at'', StrT)]"

definition RefreshRequest_model :: ty where
  "RefreshRequest_model = Shape (fields_of [(''refresh_token'', True, StrT)])"

definition LogoutRequest_model :: ty where
  "LogoutRequest_model = Shape (fields_of [
     (''refresh_token'', False, Nullable StrT), (''all_sessions'', False, BoolT)])"

definition PasswordChangeRequest_model :: ty where
  "PasswordChangeRequest_model = Shape (fields_of [
     (''current_password'', True, StrT), (''new_password'', True, StrT)])"

definition ForgotPasswordRequest_model :: ty where
  "ForgotPasswordRequest_model = Shape (fields_of [
     (''email'', True, StrT)])"

definition ForgotPasswordResponse_model :: ty where
  "ForgotPasswordResponse_model = total [
     (''ok'', BoolT), (''reset_token'', Nullable StrT), (''expires_at'', Nullable StrT)]"

definition ResetPasswordRequest_model :: ty where
  "ResetPasswordRequest_model = Shape (fields_of [
     (''token'', True, StrT), (''new_password'', True, StrT)])"

definition GoogleLoginRequest_model :: ty where
  "GoogleLoginRequest_model = Shape (fields_of [
     (''code'', True, StrT), (''redirect_uri'', True, StrT)])"

definition MeResponse_model :: ty where
  "MeResponse_model = total [
     (''id'', StrT), (''product_id'', StrT), (''tenant_id'', StrT), (''email'', StrT),
     (''full_name'', Nullable StrT), (''is_active'', BoolT), (''is_verified'', BoolT),
     (''permissions'', ListOf StrT), (''components'', DictOf BoolT)]"

definition TenantOwner_model :: ty where
  "TenantOwner_model = Shape (fields_of [
     (''email'', True, StrT), (''password'', True, StrT), (''full_name'', False, Nullable StrT)])"

definition TenantCreate_model :: ty where
  "TenantCreate_model = Shape (fields_of [
     (''name'', True, StrT), (''slug'', True, StrT), (''parent_id'', False, Nullable StrT),
     (''type'', False, OneOf tenant_types), (''settings'', False, DictT),
     (''expires_at'', False, Nullable StrT), (''owner'', False, Nullable TenantOwner_model),
     (''plan_code'', False, Nullable StrT)])"

definition TenantUpdate_model :: ty where
  "TenantUpdate_model = Shape (fields_of [
     (''name'', False, Nullable StrT), (''slug'', False, Nullable StrT), (''settings'', False, Nullable DictT),
     (''expires_at'', False, Nullable StrT)])"

definition TenantResponse_model :: ty where
  "TenantResponse_model = total (TimestampedResponse_fields @ [
     (''name'', StrT), (''slug'', StrT), (''status'', OneOf tenant_statuses),
     (''type'', OneOf tenant_types), (''parent_id'', Nullable StrT), (''is_root'', BoolT),
     (''settings'', DictT), (''expires_at'', Nullable StrT)])"

definition AccessibleChildResponse_model :: ty where
  "AccessibleChildResponse_model = total [
     (''id'', StrT), (''slug'', StrT), (''name'', StrT), (''status'', OneOf tenant_statuses),
     (''can_act_as'', BoolT), (''reason'', Nullable StrT)]"

definition UserInvite_model :: ty where
  "UserInvite_model = Shape (fields_of [
     (''email'', True, StrT), (''full_name'', False, Nullable StrT), (''role_codes'', False, ListOf StrT),
     (''scope_tenant_id'', False, Nullable StrT), (''initial_password'', False, Nullable StrT)])"

definition UserUpdate_model :: ty where
  "UserUpdate_model = Shape (fields_of [
     (''full_name'', False, Nullable StrT), (''is_active'', False, Nullable BoolT)])"

definition UserResponse_fields :: "(string \<times> ty) list" where
  "UserResponse_fields = (TimestampedResponse_fields @ [
     (''tenant_id'', StrT), (''email'', StrT), (''full_name'', Nullable StrT), (''is_active'', BoolT),
     (''is_verified'', BoolT)])"

definition UserResponse_model :: ty where
  "UserResponse_model = total UserResponse_fields"

definition InviteUserResponse_model :: ty where
  "InviteUserResponse_model = total (UserResponse_fields @ [
     (''initial_password'', StrT)])"

definition PlanFeatureIn_fields :: "(string \<times> ty) list" where
  "PlanFeatureIn_fields = [
     (''feature_key'', StrT), (''limit_value'', Nullable StrT), (''credit_amount'', Nullable StrT),
     (''is_hard_limit'', BoolT), (''meta'', DictT)]"

definition PlanFeatureIn_model :: ty where
  "PlanFeatureIn_model = Shape (fields_of [
     (''feature_key'', True, StrT), (''limit_value'', False, Nullable StrT), (''credit_amount'', False, Nullable StrT),
     (''is_hard_limit'', False, BoolT), (''meta'', False, DictT)])"

definition PlanCreate_model :: ty where
  "PlanCreate_model = Shape (fields_of [
     (''code'', True, StrT), (''name'', True, StrT), (''description'', False, Nullable StrT),
     (''price_cents'', True, IntT), (''currency'', False, StrT), (''interval'', False, OneOf billing_intervals),
     (''trial_days'', False, IntT), (''is_public'', False, BoolT), (''features'', False, ListOf PlanFeatureIn_model),
     (''provider_refs'', False, DictT)])"

definition PlanUpdate_model :: ty where
  "PlanUpdate_model = Shape (fields_of [
     (''name'', False, Nullable StrT), (''description'', False, Nullable StrT), (''price_cents'', False, Nullable IntT),
     (''currency'', False, Nullable StrT), (''interval'', False, Nullable (OneOf billing_intervals)),
     (''trial_days'', False, Nullable IntT), (''is_public'', False, Nullable BoolT), (''is_active'', False, Nullable BoolT),
     (''provider_refs'', False, Nullable DictT)])"

definition PlanFeatureOut_model :: ty where
  "PlanFeatureOut_model = total (PlanFeatureIn_fields @ [
     (''id'', StrT)])"

definition PlanResponse_model :: ty where
  "PlanResponse_model = total (TimestampedResponse_fields @ [
     (''code'', StrT), (''name'', StrT), (''description'', Nullable StrT), (''price_cents'', IntT),
     (''currency'', StrT), (''interval'', OneOf billing_intervals), (''trial_days'', IntT),
     (''is_public'', BoolT), (''is_active'', BoolT), (''features'', ListOf PlanFeatureOut_model)])"

definition PurchaseRequest_model :: ty where
  "PurchaseRequest_model = Shape (fields_of [
     (''plan_code'', True, StrT), (''payment_method_token'', False, Nullable StrT)])"

definition ChangePlanRequest_model :: ty where
  "ChangePlanRequest_model = Shape (fields_of [
     (''plan_code'', True, StrT), (''proration'', False, BoolT)])"

definition CancelRequest_model :: ty where
  "CancelRequest_model = Shape (fields_of [
     (''at_period_end'', False, BoolT), (''reason'', False, Nullable StrT)])"

definition SubscriptionResponse_model :: ty where
  "SubscriptionResponse_model = total (TimestampedResponse_fields @ [
     (''tenant_id'', StrT), (''plan_id'', StrT), (''plan_code'', StrT),
     (''status'', OneOf subscription_statuses), (''current_period_start'', StrT),
     (''current_period_end'', StrT), (''trial_end'', Nullable StrT), (''grace_ends_at'', Nullable StrT),
     (''cancel_at_period_end'', BoolT), (''cancelled_at'', Nullable StrT), (''has_access'', BoolT)])"

definition CreditWalletResponse_model :: ty where
  "CreditWalletResponse_model = total (TimestampedResponse_fields @ [
     (''tenant_id'', StrT), (''feature_key'', StrT), (''balance'', StrT)])"

definition CreditConsumeRequest_model :: ty where
  "CreditConsumeRequest_model = Shape (fields_of [
     (''feature_key'', True, StrT), (''amount'', True, StrT), (''reason'', False, Nullable StrT),
     (''reference'', False, Nullable StrT)])"

definition CreditGrantRequest_model :: ty where
  "CreditGrantRequest_model = Shape (fields_of [
     (''feature_key'', True, StrT), (''amount'', True, StrT), (''reason'', False, Nullable StrT),
     (''reference'', False, Nullable StrT)])"

definition CreditLedgerEntry_model :: ty where
  "CreditLedgerEntry_model = total (TimestampedResponse_fields @ [
     (''wallet_id'', StrT), (''entry_type'', OneOf credit_entry_types), (''amount'', StrT),
     (''balance_after'', StrT), (''reason'', Nullable StrT), (''reference'', Nullable StrT)])"

definition RoleCreate_model :: ty where
  "RoleCreate_model = Shape (fields_of [
     (''name'', True, StrT), (''description'', False, Nullable StrT),
     (''permission_codes'', False, ListOf StrT)])"

definition RoleUpdate_model :: ty where
  "RoleUpdate_model = Shape (fields_of [
     (''name'', False, Nullable StrT), (''description'', False, Nullable StrT),
     (''permission_codes'', False, Nullable (ListOf StrT))])"

definition RoleResponse_model :: ty where
  "RoleResponse_model = total (TimestampedResponse_fields @ [
     (''tenant_id'', Nullable StrT), (''name'', StrT), (''description'', Nullable StrT),
     (''is_system'', BoolT), (''permissions'', ListOf StrT)])"

definition AssignRoleRequest_model :: ty where
  "AssignRoleRequest_model = Shape (fields_of [
     (''user_id'', True, StrT), (''role_id'', True, StrT), (''scope_tenant_id'', False, Nullable StrT)])"

definition ProductCreate_model :: ty where
  "ProductCreate_model = Shape (fields_of [
     (''name'', True, StrT), (''slug'', True, StrT), (''description'', False, Nullable StrT),
     (''settings'', False, DictT), (''seed_plans'', False, BoolT),
     (''tenant_type'', False, OneOf tenant_types)])"

definition ProductUpdate_model :: ty where
  "ProductUpdate_model = Shape (fields_of [
     (''name'', False, Nullable StrT), (''description'', False, Nullable StrT),
     (''status'', False, Nullable (OneOf product_statuses)), (''is_active'', False, Nullable BoolT),
     (''settings'', False, Nullable DictT)])"

definition ProductResponse_model :: ty where
  "ProductResponse_model = total (TimestampedResponse_fields @ [
     (''name'', StrT), (''slug'', StrT), (''description'', Nullable StrT),
     (''status'', OneOf product_statuses), (''is_active'', BoolT), (''settings'', DictT)])"

definition EnvVarSet_model :: ty where
  "EnvVarSet_model = Shape (fields_of [
     (''value'', True, StrT), (''is_secret'', False, BoolT), (''description'', False, Nullable StrT)])"

definition EnvVarPatch_model :: ty where
  "EnvVarPatch_model = Shape (fields_of [
     (''is_secret'', False, Nullable BoolT), (''description'', False, Nullable StrT)])"

definition EnvVarListItem_model :: ty where
  "EnvVarListItem_model = total [
     (''key'', StrT), (''is_secret'', BoolT), (''description'', Nullable StrT), (''last_rotated_at'', StrT),
     (''preview'', Nullable StrT), (''value'', Nullable StrT), (''is_server_only'', BoolT)]"

definition EnvVarDetail_model :: ty where
  "EnvVarDetail_model = total [
     (''key'', StrT), (''value'', StrT), (''is_secret'', BoolT), (''description'', Nullable StrT),
     (''last_rotated_at'', StrT), (''created_at'', StrT), (''updated_at'', StrT)]"

definition ServiceTokenCreate_model :: ty where
  "ServiceTokenCreate_model = Shape (fields_of [
     (''name'', True, StrT), (''scopes'', False, ListOf StrT), (''expires_at'', False, Nullable StrT)])"

definition ServiceTokenResponse_columns :: "(string \<times> ty) list" where
  "ServiceTokenResponse_columns = [
     (''id'', StrT), (''name'', StrT), (''scopes'', ListOf StrT), (''expires_at'', Nullable StrT),
     (''revoked_at'', Nullable StrT), (''last_used_at'', Nullable StrT), (''last_used_ip'', Nullable StrT),
     (''created_at'', StrT), (''updated_at'', StrT)]"

definition ServiceTokenResponse_model :: ty where
  "ServiceTokenResponse_model = total ServiceTokenResponse_columns"

definition ServiceTokenIssued_model :: ty where
  "ServiceTokenIssued_model = total (ServiceTokenResponse_columns @ [
     (''token'', StrT)])"

definition ComponentCreate_model :: ty where
  "ComponentCreate_model = Shape (fields_of [
     (''code'', True, StrT), (''name'', True, StrT), (''description'', False, Nullable StrT),
     (''is_default_enabled'', False, BoolT), (''is_active'', False, BoolT), (''settings'', False, DictT),
     (''required_plan_codes'', False, Nullable (ListOf StrT))])"

definition ComponentUpdate_model :: ty where
  "ComponentUpdate_model = Shape (fields_of [
     (''name'', False, Nullable StrT), (''description'', False, Nullable StrT),
     (''is_default_enabled'', False, Nullable BoolT), (''is_active'', False, Nullable BoolT),
     (''settings'', False, Nullable DictT), (''required_plan_codes'', False, Nullable (ListOf StrT))])"

definition ComponentResponse_model :: ty where
  "ComponentResponse_model = total [
     (''id'', StrT), (''code'', StrT), (''name'', StrT), (''description'', Nullable StrT),
     (''is_default_enabled'', BoolT), (''is_active'', BoolT), (''settings'', DictT),
     (''required_plan_codes'', Nullable (ListOf StrT)), (''created_at'', StrT), (''updated_at'', StrT)]"

definition UserComponentOverrideSet_model :: ty where
  "UserComponentOverrideSet_model = Shape (fields_of [
     (''is_enabled'', True, BoolT), (''reason'', False, Nullable StrT)])"

definition UserComponentStatus_model :: ty where
  "UserComponentStatus_model = total [
     (''code'', StrT), (''name'', StrT), (''is_enabled'', BoolT), (''source'', StrT),
     (''description'', Nullable StrT), (''reason'', Nullable StrT),
     (''required_plan_codes'', Nullable (ListOf StrT))]"

definition TenantComponentOverrideSet_model :: ty where
  "TenantComponentOverrideSet_model = Shape (fields_of [
     (''is_enabled'', True, BoolT), (''reason'', False, Nullable StrT)])"

definition TenantComponentStatus_model :: ty where
  "TenantComponentStatus_model = total [
     (''code'', StrT), (''name'', StrT), (''is_enabled'', BoolT), (''source'', StrT),
     (''description'', Nullable StrT), (''reason'', Nullable StrT),
     (''required_plan_codes'', Nullable (ListOf StrT))]"

end
