(* ===== verification/SdkTypes.thy ===== *)
theory SdkTypes
  imports ApiSchemas
begin

text \<open>The types of the Python client, \<open>plynth_sdk/types.py\<close>: one definition for each \<open>TypedDict\<close>, in its
  order. \<open>response_pairs\<close> sets the type the client gives a response beside the model the server answers
  with, \<open>request_pairs\<close> the type of a body beside the model that reads it; the lemmas say where the two
  agree.\<close>

section \<open>Literals\<close>

definition tenant_status_values :: "string list" where
  "tenant_status_values = [''active'', ''suspended'', ''deactivated'', ''deleted'']"

definition tenant_type_values :: "string list" where
  "tenant_type_values = [''company'', ''individual'']"

definition plan_interval_values :: "string list" where
  "plan_interval_values = [''month'', ''year'', ''one_time'']"

definition subscription_status_values :: "string list" where
  "subscription_status_values = [''trial'', ''active'', ''past_due'', ''grace'', ''suspended'', ''cancelled'', ''expired'']"

section \<open>The types of the client\<close>

definition Tokens_type :: ty where
  "Tokens_type = total [
     (''access_token'', StrT), (''refresh_token'', StrT), (''token_type'', StrT), (''expires_at'', StrT)]"

definition RegisterRequest_type :: ty where
  "RegisterRequest_type = partial [
     (''tenant_name'', StrT), (''tenant_slug'', StrT), (''email'', StrT), (''password'', StrT),
     (''full_name'', Nullable StrT)]"

definition RegisterIndividualRequest_type :: ty where
  "RegisterIndividualRequest_type = partial [
     (''email'', StrT), (''password'', StrT), (''full_name'', Nullable StrT)]"

definition LoginRequest_type :: ty where
  "LoginRequest_type = partial [
     (''email'', StrT), (''password'', StrT), (''tenant_slug'', Nullable StrT)]"

definition GoogleLoginRequest_type :: ty where
  "GoogleLoginRequest_type = total [
     (''code'', StrT), (''redirect_uri'', StrT)]"

definition PasswordChangeRequest_type :: ty where
  "PasswordChangeRequest_type = total [
     (''current_password'', StrT), (''new_password'', StrT)]"

definition ForgotPasswordRequest_type :: ty where
  "ForgotPasswordRequest_type = total [
     (''email'', StrT)]"

definition ForgotPasswordResponse_type :: ty where
  "ForgotPasswordResponse_type = partial [
     (''ok'', BoolT), (''reset_token'', Nullable StrT), (''expires_at'', Nullable StrT)]"

definition ResetPasswordRequest_type :: ty where
  "ResetPasswordRequest_type = total [
     (''token'', StrT), (''new_password'', StrT)]"

definition LogoutRequest_type :: ty where
  "LogoutRequest_type = partial [
     (''refresh_token'', Nullable StrT), (''all_sessions'', BoolT)]"

definition MeResponse_type :: ty where
  "MeResponse_type = total [
     (''id'', StrT), (''product_id'', StrT), (''tenant_id'', StrT), (''email'', StrT),
     (''full_name'', Nullable StrT), (''is_active'', BoolT), (''is_verified'', BoolT),
     (''permissions'', ListOf StrT)]"

definition Tenant_type :: ty where
  "Tenant_type = total [
     (''id'', StrT), (''product_id'', StrT), (''name'', StrT), (''slug'', StrT),
     (''status'', OneOf tenant_status_values), (''type'', OneOf tenant_type_values),
     (''parent_id'', Nullable StrT), (''is_root'', BoolT), (''settings'', DictT),
     (''expires_at'', Nullable StrT), (''created_at'', StrT), (''updated_at'', StrT)]"

definition CreateTenantRequest_type :: ty where
  "CreateTenantRequest_type = partial [
     (''name'', StrT), (''slug'', StrT), (''type'', OneOf tenant_type_values), (''parent_id'', Nullable StrT),
     (''settings'', DictT)]"

definition UpdateTenantRequest_type :: ty where
  "UpdateTenantRequest_type = partial [
     (''name'', StrT), (''settings'', DictT), (''expires_at'', Nullable StrT)]"

definition AccessibleChild_type :: ty where
  "AccessibleChild_type = total [
     (''id'', StrT), (''name'', StrT), (''slug'', StrT), (''status'', OneOf tenant_status_values),
     (''can_act_as'', BoolT), (''reason'', Nullable StrT)]"

definition User_type :: ty where
  "User_type = total [
     (''id'', StrT), (''product_id'', StrT), (''tenant_id'', StrT), (''email'', StrT),
     (''full_name'', Nullable StrT), (''is_active'', BoolT), (''is_verified'', BoolT),
     (''last_login_at'', Nullable StrT), (''created_at'', StrT), (''updated_at'', StrT)]"

definition InviteUserRequest_type :: ty where
  "InviteUserRequest_type = partial [
     (''email'', StrT), (''full_name'', Nullable StrT), (''role_codes'', ListOf StrT)]"

definition UpdateUserRequest_type :: ty where
  "UpdateUserRequest_type = partial [
     (''full_name'', Nullable StrT), (''email'', StrT)]"

definition PlanFeature_type :: ty where
  "PlanFeature_type = total [
     (''key'', StrT), (''display_name'', StrT), (''monthly_credits'', Nullable StrT), (''metadata'', DictT)]"

definition Plan_type :: ty where
  "Plan_type = total [
     (''id'', StrT), (''product_id'', StrT), (''code'', StrT), (''name'', StrT),
     (''description'', Nullable StrT), (''price_amount'', StrT), (''price_currency'', StrT),
     (''interval'', OneOf plan_interval_values), (''trial_days'', IntT), (''is_public'', BoolT),
     (''is_active'', BoolT), (''features'', ListOf PlanFeature_type), (''metadata'', DictT)]"

definition Subscription_type :: ty where
  "Subscription_type = total [
     (''id'', StrT), (''product_id'', StrT), (''tenant_id'', StrT), (''plan_id'', StrT),
     (''status'', OneOf subscription_status_values), (''current_period_start'', StrT),
     (''current_period_end'', StrT), (''trial_ends_at'', Nullable StrT), (''grace_ends_at'', Nullable StrT),
     (''cancelled_at'', Nullable StrT), (''provider'', StrT), (''provider_subscription_id'', Nullable StrT)]"

definition PurchaseRequest_type :: ty where
  "PurchaseRequest_type = partial [
     (''plan_code'', StrT), (''payment_method_id'', StrT)]"

definition ChangeSubscriptionRequest_type :: ty where
  "ChangeSubscriptionRequest_type = partial [
     (''plan_code'', StrT), (''prorate'', BoolT)]"

definition CancelSubscriptionRequest_type :: ty where
  "CancelSubscriptionRequest_type = partial [
     (''at_period_end'', BoolT)]"

definition CreditWallet_type :: ty where
  "CreditWallet_type = total [
     (''id'', StrT), (''product_id'', StrT), (''tenant_id'', StrT), (''feature_key'', StrT),
     (''balance'', StrT), (''monthly_grant'', Nullable StrT), (''updated_at'', StrT)]"

definition CreditLedgerEntry_type :: ty where
  "CreditLedgerEntry_type = total [
     (''id'', StrT), (''product_id'', StrT), (''tenant_id'', StrT), (''wallet_id'', StrT),
     (''feature_key'', StrT), (''delta'', StrT), (''balance_after'', StrT), (''reason'', StrT),
     (''reference'', Nullable StrT), (''created_at'', StrT)]"

definition ConsumeCreditsRequest_type :: ty where
  "ConsumeCreditsRequest_type = partial [
     (''feature_key'', StrT), (''amount'', StrT), (''reason'', StrT), (''reference'', StrT)]"

definition GrantCreditsRequest_type :: ty where
  "GrantCreditsRequest_type = partial [
     (''tenant_id'', StrT), (''feature_key'', StrT), (''amount'', StrT), (''reason'', StrT),
     (''reference'', StrT)]"

definition Role_type :: ty where
  "Role_type = total [
     (''id'', StrT), (''product_id'', StrT), (''code'', StrT), (''name'', StrT),
     (''description'', Nullable StrT), (''is_system'', BoolT), (''permission_codes'', ListOf StrT)]"

definition Permission_type :: ty where
  "Permission_type = total [
     (''code'', StrT), (''description'', StrT)]"

definition CreateRoleRequest_type :: ty where
  "CreateRoleRequest_type = partial [
     (''code'', StrT), (''name'', StrT), (''description'', Nullable StrT), (''permission_codes'', ListOf StrT)]"

definition UpdateRoleRequest_type :: ty where
  "UpdateRoleRequest_type = partial [
     (''name'', StrT), (''description'', Nullable StrT), (''permission_codes'', ListOf StrT)]"

definition AssignRoleRequest_type :: ty where
  "AssignRoleRequest_type = partial [
     (''user_id'', StrT), (''role_code'', StrT), (''scope_tenant_id'', Nullable StrT)]"

definition Product_type :: ty where
  "Product_type = total [
     (''id'', StrT), (''slug'', StrT), (''name'', StrT), (''is_active'', BoolT), (''settings'', DictT),
     (''created_at'', StrT), (''updated_at'', StrT)]"

definition CreateProductRequest_type :: ty where
  "CreateProductRequest_type = partial [
     (''slug'', StrT), (''name'', StrT), (''settings'', DictT)]"

definition UpdateProductRequest_type :: ty where
  "UpdateProductRequest_type = partial [
     (''name'', StrT), (''is_active'', BoolT), (''settings'', DictT)]"

definition EnvVarSetRequest_type :: ty where
  "EnvVarSetRequest_type = partial [
     (''value'', StrT), (''is_secret'', BoolT), (''description'', Nullable StrT)]"

definition EnvVarPatchRequest_type :: ty where
  "EnvVarPatchRequest_type = partial [
     (''is_secret'', BoolT), (''description'', Nullable StrT)]"

definition EnvVarListItem_type :: ty where
  "EnvVarListItem_type = partial [
     (''key'', StrT), (''is_secret'', BoolT), (''description'', Nullable StrT), (''last_rotated_at'', StrT),
     (''preview'', Nullable StrT), (''value'', Nullable StrT), (''is_server_only'', BoolT)]"

definition EnvVarDetail_type :: ty where
  "EnvVarDetail_type = total [
     (''key'', StrT), (''value'', StrT), (''is_secret'', BoolT), (''description'', Nullable StrT),
     (''last_rotated_at'', StrT), (''created_at'', StrT), (''updated_at'', StrT)]"

definition ServiceTokenCreateRequest_type :: ty where
  "ServiceTokenCreateRequest_type = partial [
     (''name'', StrT), (''scopes'', ListOf StrT), (''expires_at'', Nullable StrT)]"

definition ServiceTokenResponse_fields :: "(string \<times> ty) list" where
  "ServiceTokenResponse_fields = [
     (''id'', StrT), (''name'', StrT), (''scopes'', ListOf StrT), (''expires_at'', Nullable StrT),
     (''revoked_at'', Nullable StrT), (''last_used_at'', Nullable StrT), (''last_used_ip'', Nullable StrT),
     (''created_at'', StrT), (''updated_at'', StrT)]"

definition ServiceTokenResponse_type :: ty where
  "ServiceTokenResponse_type = total ServiceTokenResponse_fields"

definition ServiceTokenIssued_type :: ty where
  "ServiceTokenIssued_type = total (ServiceTokenResponse_fields @ [
     (''token'', StrT)])"

definition ComponentCreateRequest_type :: ty where
  "ComponentCreateRequest_type = partial [
     (''code'', StrT), (''name'', StrT), (''description'', Nullable StrT), (''is_default_enabled'', BoolT),
     (''is_active'', BoolT), (''settings'', DictT), (''required_plan_codes'', Nullable (ListOf StrT))]"

definition ComponentUpdateRequest_type :: ty where
  "ComponentUpdateRequest_type = partial [
     (''name'', Nullable StrT), (''description'', Nullable StrT), (''is_default_enabled'', BoolT),
     (''is_active'', BoolT), (''settings'', DictT), (''required_plan_codes'', Nullable (ListOf StrT))]"

definition ComponentResponse_type :: ty where
  "ComponentResponse_type = total [
     (''id'', StrT), (''code'', StrT), (''name'', StrT), (''description'', Nullable StrT),
     (''is_default_enabled'', BoolT), (''is_active'', BoolT), (''settings'', DictT),
     (''required_plan_codes'', Nullable (ListOf StrT)), (''created_at'', StrT), (''updated_at'', StrT)]"

definition UserComponentOverrideRequest_type :: ty where
  "UserComponentOverrideRequest_type = partial [
     (''is_enabled'', BoolT), (''reason'', Nullable StrT)]"

definition UserComponentStatus_type :: ty where
  "UserComponentStatus_type = partial [
     (''code'', StrT), (''name'', StrT), (''is_enabled'', BoolT), (''source'', StrT),
     (''description'', Nullable StrT), (''reason'', Nullable StrT),
     (''required_plan_codes'', Nullable (ListOf StrT))]"

definition TenantComponentOverrideRequest_type :: ty where
  "TenantComponentOverrideRequest_type = partial [
     (''is_enabled'', BoolT), (''reason'', Nullable StrT)]"

definition TenantComponentStatus_type :: ty where
  "TenantComponentStatus_type = partial [
     (''code'', StrT), (''name'', StrT), (''is_enabled'', BoolT), (''source'', StrT),
     (''description'', Nullable StrT), (''reason'', Nullable StrT),
     (''required_plan_codes'', Nullable (ListOf StrT))]"

section \<open>Responses: the client's type against the model of the server\<close>

definition response_pairs :: "(string \<times> ty \<times> ty) list" where
  "response_pairs = [
     (''Tokens'', TokenPair_model, Tokens_type), (''ForgotPasswordResponse'', ForgotPasswordResponse_model, ForgotPasswordResponse_type),
     (''MeResponse'', MeResponse_model, MeResponse_type), (''Tenant'', TenantResponse_model, Tenant_type),
     (''AccessibleChild'', AccessibleChildResponse_model, AccessibleChild_type), (''User'', UserResponse_model, User_type),
     (''Plan'', PlanResponse_model, Plan_type), (''Subscription'', SubscriptionResponse_model, Subscription_type),
     (''CreditWallet'', CreditWalletResponse_model, CreditWallet_type), (''CreditLedgerEntry'', CreditLedgerEntry_model, CreditLedgerEntry_type),
     (''Role'', RoleResponse_model, Role_type), (''Permission'', StrT, Permission_type),
     (''Product'', ProductResponse_model, Product_type), (''EnvVarListItem'', EnvVarListItem_model, EnvVarListItem_type),
     (''EnvVarDetail'', EnvVarDetail_model, EnvVarDetail_type), (''ServiceTokenResponse'', ServiceTokenResponse_model, ServiceTokenResponse_type),
     (''ServiceTokenIssued'', ServiceTokenIssued_model, ServiceTokenIssued_type), (''ComponentResponse'', ComponentResponse_model, ComponentResponse_type),
     (''UserComponentStatus'', UserComponentStatus_model, UserComponentStatus_type), (''TenantComponentStatus'', TenantComponentStatus_model, TenantComponentStatus_type)]"

definition stale_responses :: "string list" where
  "stale_responses = [''Tenant'', ''User'', ''Plan'', ''Subscription'', ''CreditWallet'', ''CreditLedgerEntry'', ''Role'', ''Permission'']"

section \<open>Requests: the keys of the client against the keys the server reads\<close>

fun keys_of :: "shape_fields \<Rightarrow> string list" where
  "keys_of End = []"
| "keys_of (Field k r t fs) = k # keys_of fs"

fun required_keys :: "shape_fields \<Rightarrow> string list" where
  "required_keys End = []"
| "required_keys (Field k r t fs) = (if r then k # required_keys fs else required_keys fs)"

fun shape_of :: "ty \<Rightarrow> shape_fields" where
  "shape_of (Shape fs) = fs"
| "shape_of _ = End"

definition request_pairs :: "(string \<times> ty \<times> ty) list" where
  "request_pairs = [
     (''RegisterRequest'', RegisterRequest_type, RegisterRequest_model), (''RegisterIndividualRequest'', RegisterIndividualRequest_type, RegisterIndividualRequest_model),
     (''LoginRequest'', LoginRequest_type, LoginRequest_model), (''GoogleLoginRequest'', GoogleLoginRequest_type, GoogleLoginRequest_model),
     (''PasswordChangeRequest'', PasswordChangeRequest_type, PasswordChangeRequest_model), (''ForgotPasswordRequest'', ForgotPasswordRequest_type, ForgotPasswordRequest_model),
     (''ResetPasswordRequest'', ResetPasswordRequest_type, ResetPasswordRequest_model), (''LogoutRequest'', LogoutRequest_type, LogoutRequest_model),
     (''CreateTenantRequest'', CreateTenantRequest_type, TenantCreate_model), (''UpdateTenantRequest'', UpdateTenantRequest_type, TenantUpdate_model),
     (''InviteUserRequest'', InviteUserRequest_type, UserInvite_model), (''UpdateUserRequest'', UpdateUserRequest_type, UserUpdate_model),
     (''PurchaseRequest'', PurchaseRequest_type, PurchaseRequest_model), (''ChangeSubscriptionRequest'', ChangeSubscriptionRequest_type, ChangePlanRequest_model),
     (''CancelSubscriptionRequest'', CancelSubscriptionRequest_type, CancelRequest_model), (''ConsumeCreditsRequest'', ConsumeCreditsRequest_type, CreditConsumeRequest_model),
     (''GrantCreditsRequest'', GrantCreditsRequest_type, CreditGrantRequest_model), (''CreateRoleRequest'', CreateRoleRequest_type, RoleCreate_model),
     (''UpdateRoleRequest'', UpdateRoleRequest_type, RoleUpdate_model), (''AssignRoleRequest'', AssignRoleRequest_type, AssignRoleRequest_model),
     (''CreateProductRequest'', CreateProductRequest_type, ProductCreate_model), (''UpdateProductRequest'', UpdateProductRequest_type, ProductUpdate_model),
     (''EnvVarSetRequest'', EnvVarSetRequest_type, EnvVarSet_model), (''EnvVarPatchRequest'', EnvVarPatchRequest_type, EnvVarPatch_model),
     (''ServiceTokenCreateRequest'', ServiceTokenCreateRequest_type, ServiceTokenCreate_model), (''ComponentCreateRequest'', ComponentCreateRequest_type, ComponentCreate_model),
     (''ComponentUpdateRequest'', ComponentUpdateRequest_type, ComponentUpdate_model), (''UserComponentOverrideRequest'', UserComponentOverrideRequest_type, UserComponentOverrideSet_model),
     (''TenantComponentOverrideRequest'', TenantComponentOverrideRequest_type, TenantComponentOverrideSet_model)]"

definition unread_keys :: "ty \<Rightarrow> ty \<Rightarrow> string list" where
  "unread_keys t m = filter (\<lambda>k. k \<notin> set (keys_of (shape_of m))) (keys_of (shape_of t))"

definition missing_keys :: "ty \<Rightarrow> ty \<Rightarrow> string list" where
  "missing_keys t m = filter (\<lambda>k. k \<notin> set (keys_of (shape_of t))) (required_keys (shape_of m))"

end
