(* ===== verification/SdkTyped.thy ===== *)
theory SdkTyped
  imports SdkServer SdkTypes
begin

text \<open>The types of the client against the server. First the tables of theory \<open>SdkTypes\<close>: which responses
  of the API have the type the client gives them. Then the running system: the answers of the server have
  their types, errors are told from answers by their status, and the token store of the client only ever
  holds a pair of tokens.\<close>

section \<open>The tables\<close>

lemma response_check:
  "list_all (\<lambda>(n, m, t). if n \<in> set stale_responses then conforms m (sample m) \<and> \<not> conforms t (sample m) else subtype m t)
     response_pairs"
  by code_simp

text \<open>C19: The type the Python client gives a response of the API holds of every value of the server's model of
  that response, except for eight of the twenty: for tenants, users, plans, subscriptions, wallets, ledger
  entries, roles and permissions the server has values that lack a key the client's type promises.\<close>

theorem response_types:
  assumes "(n, m, t) \<in> set response_pairs"
  shows "(\<forall>j. conforms m j \<longrightarrow> conforms t j) \<longleftrightarrow> n \<notin> set stale_responses"
  using response_check assms subtype_sound(1) [of m t]
  by (auto simp: list_all_iff split: if_splits dest!: bspec)

theorem response_types_witness:
  "conforms EnvVarDetail_type (sample EnvVarDetail_model) \<and> (\<exists>j. conforms PlanResponse_model j \<and> \<not> conforms Plan_type j)"
proof -
  have "(''EnvVarDetail'', EnvVarDetail_model, EnvVarDetail_type) \<in> set response_pairs"
      "(''Plan'', PlanResponse_model, Plan_type) \<in> set response_pairs"
    by (simp_all add: response_pairs_def)
  note types = this [THEN response_types]
  have "conforms EnvVarDetail_model (sample EnvVarDetail_model)" by code_simp
  then show ?thesis using types by (simp add: stale_responses_def)
qed

text \<open>What the client's request bodies carry for nobody, and what the server asks for that they cannot carry.\<close>

lemma request_keys:
  "map (\<lambda>(n, t, m). (n, unread_keys t m, missing_keys t m))
     (filter (\<lambda>(n, t, m). unread_keys t m \<noteq> [] \<or> missing_keys t m \<noteq> []) request_pairs) =
   [(''UpdateUserRequest'', [''email''], []), (''PurchaseRequest'', [''payment_method_id''], []),
    (''ChangeSubscriptionRequest'', [''prorate''], []), (''GrantCreditsRequest'', [''tenant_id''], []),
    (''CreateRoleRequest'', [''code''], []), (''AssignRoleRequest'', [''role_code''], [''role_id''])]"
  by code_simp

section \<open>Errors are told from answers\<close>

text \<open>A program whose errors all have a status from 400 on.\<close>

definition refuses :: "('w, 'a) svc \<Rightarrow> bool" where
  "refuses m \<longleftrightarrow> (\<forall>w e w'. m w = (Inl e, w') \<longrightarrow> 400 \<le> status_code e)"

named_theorems refuses_intros "programs whose errors are no successes"

lemma refusesD: "refuses m \<Longrightarrow> m w = (Inl e, w') \<Longrightarrow> 400 \<le> status_code e"
  by (auto simp: refuses_def)

lemma refuses_pure [refuses_intros]: "refuses (ret a)" "refuses (gets f)" "refuses (modify g)" "refuses (attempt m)"
  by (simp_all add: refuses_def svc_simps)

lemma refuses_raise [refuses_intros]: "400 \<le> status_code e \<Longrightarrow> refuses (raise e)"
  by (simp add: refuses_def svc_simps)

lemma refuses_liftE [refuses_intros]: "(\<And>e. r = Inl e \<Longrightarrow> 400 \<le> status_code e) \<Longrightarrow> refuses (liftE r)"
  by (simp add: refuses_def svc_simps)

lemma refuses_bindS [refuses_intros]: "refuses m \<Longrightarrow> (\<And>a. refuses (f a)) \<Longrightarrow> refuses (bindS m f)"
  by (auto simp: refuses_def svc_simps split: prod.splits sum.splits)

lemma refuses_cases [refuses_intros]:
  "(b \<Longrightarrow> refuses m) \<Longrightarrow> (\<not> b \<Longrightarrow> refuses n) \<Longrightarrow> refuses (if b then m else n)"
  "refuses m \<Longrightarrow> (\<And>a. refuses (g a)) \<Longrightarrow> refuses (case x of None \<Rightarrow> m | Some a \<Rightarrow> g a)"
  "(\<And>a b. refuses (h a b)) \<Longrightarrow> refuses (case p of (a, b) \<Rightarrow> h a b)"
  by (simp_all split: option.splits prod.splits)

lemma refuses_rows [refuses_intros]:
  "refuses (scalar sel P)" "refuses (scalars sel P)" "refuses (update_rows upd P f)" "refuses (insert_row sel upd clash r)"
  "refuses fresh" "refuses (set_current_product p)" "refuses (set_current_tenant t)" "refuses (set_acting_from_tenant t)"
  by (auto simp: refuses_def insert_row_def fresh_def update_rows_def context_defs svc_simps split: if_splits)

lemma expiry_walk_refuses: "expiry_walk tt u x seen = Inl e \<Longrightarrow> status_code e = 403"
  by (induction tt u x seen rule: expiry_walk.induct) (auto split: if_splits option.splits)

lemma permission_refuses: "any_matches gs r = Inl e \<Longrightarrow> status_code e = 500"
  by (induction gs r rule: any_matches.induct)
    (auto simp: perm_matches_def split_code_def split: sum.splits bool.splits if_splits option.splits)

lemma json_get_refuses: "json_get j k x = Inl e \<Longrightarrow> status_code e = 500"
  by (cases j) auto

lemma product_blocks_refuses: "product_blocks p = Inl e \<Longrightarrow> status_code e = 500"
  by (auto simp: product_blocks_def product_allows_act_as_def split: option.splits sum.splits dest: json_get_refuses)

lemma act_as_refuses [refuses_intros]: "refuses (act_as user home slug)"
  unfolding act_as_def resolve_act_as_def user_has_permission_def list_user_permission_codes_def
  by (intro refuses_intros) (auto dest: permission_refuses product_blocks_refuses)

lemma expiry_refuses [refuses_intros]: "refuses (enforce_tenant_expiry t)"
  by (auto simp: refuses_def enforce_tenant_expiry_def svc_simps simp del: expiry_walk.simps dest!: expiry_walk_refuses)

lemma request_user_refuses [refuses_intros]: "refuses (request_user h)"
  unfolding request_user_def get_current_user_def platform_admin_session_def bearer_session_def resolve_product_def
    resolve_slug_to_id_def get_by_slug_def root_tenant_def decode_token_def Let_def
  by (intro refuses_intros) simp_all

lemma me_refuses: "refuses (me h)"
  unfolding me_def list_user_permission_codes_def user_effective_components_def list_components_def tenant_active_plan_code_def
  by (intro refuses_intros)

lemma refresh_refuses: "refuses (refresh_tokens_route t)"
  unfolding refresh_tokens_route_def refresh_def decode_token_def issue_pair_def issue_token_def add_refresh_token_def
    refresh_ttl_seconds_def
  by (intro refuses_intros) (auto dest: json_get_refuses)

section \<open>The server answers in its types\<close>

text \<open>What a successful answer holds; no other request of this server succeeds.\<close>

definition answer_type :: "string \<Rightarrow> string \<Rightarrow> ty" where
  "answer_type verb path =
     (if verb = ''POST'' \<and> path = ''/api/v1/auth/refresh'' then Tokens_type
      else if verb = ''GET'' \<and> path = ''/api/v1/auth/me'' then MeResponse_type
      else OneOf [])"

lemma served_type:
  assumes "serve f rq m w = (a, w')" and "refuses m" and "\<And>x. conforms t (f x)"
  shows "\<exists>r. a = Inr r \<and> \<not> rs_empty r \<and> rs_status_code r \<noteq> 204 \<and>
     (is_success r \<longrightarrow> (\<exists>j. rs_json r = Some j \<and> conforms t j))"
  using assms(1)
proof (cases rule: serve_cases)
  case (success x)
  then show ?thesis using assms(3) by simp
next
  case (failure e v)
  then show ?thesis using refusesD [OF assms(2) failure(2)] by (simp add: is_success_def)
qed

lemma pair_typed: "conforms Tokens_type (token_pair_json p)"
  by (simp add: token_pair_json_def Tokens_type_def total_def)

lemma me_typed: "conforms MeResponse_type (me_json m)"
  by (simp add: me_json_def MeResponse_type_def total_def jopt_def list_all_iff split: option.splits)

lemma auth_server_typed:
  assumes "auth_server scheme rq w = (a, w')"
  shows "\<exists>r. a = Inr r \<and> \<not> rs_empty r \<and> rs_status_code r \<noteq> 204 \<and>
     (is_success r \<longrightarrow> (\<exists>j. rs_json r = Some j \<and> conforms (answer_type (rq_method rq) (rq_path rq)) j))"
proof -
  have "refuses (case refresh_body (rq_json rq) of None \<Rightarrow> raise (ValidationFailed ''Request payload failed validation'')
      | Some t \<Rightarrow> refresh_tokens_route t)"
    by (intro refuses_intros refresh_refuses) simp
  moreover have "\<exists>r. a = Inr r \<and> \<not> rs_empty r \<and> rs_status_code r \<noteq> 204 \<and> \<not> is_success r"
    if "serve (\<lambda>_. JNull) rq (raise (HTTPException 404 ''Not Found'') :: unit service) w = (a, w')"
    using that by (cases rule: serve_cases) (auto simp: svc_simps is_success_def)
  ultimately show ?thesis
    using assms served_type [OF _ _ pair_typed] served_type [OF _ me_refuses me_typed]
    by (fastforce simp: auth_server_def answer_type_def split: if_splits)
qed

section \<open>The client keeps to its types\<close>

definition stores_tokens :: "(json option, world) session \<Rightarrow> bool" where
  "stores_tokens s \<longleftrightarrow> (\<forall>j. stored_tokens s = Some j \<longrightarrow> conforms Tokens_type j)"

lemma exchange_typed:
  fixes c :: "(json option, world) PlynthClient"
  assumes "transport c = auth_server scheme" and "exchange c rq s = (a, s')"
  obtains r where "a = Inr r" "stored_tokens s' = stored_tokens s" "\<not> rs_empty r" "rs_status_code r \<noteq> 204"
    "is_success r \<Longrightarrow> \<exists>j. rs_json r = Some j \<and> conforms (answer_type (rq_method rq) (rq_path rq)) j"
proof -
  note f = exchange_fields [OF assms(2)]
  then have "auth_server scheme rq (remote s) = (a, remote s')" using assms(1) by simp
  then show ?thesis using f auth_server_typed that by blast
qed

lemma parse_typed:
  assumes "parse_response render r = Inr j" and "\<not> rs_empty r" and "rs_status_code r \<noteq> 204"
    and "is_success r \<Longrightarrow> \<exists>j. rs_json r = Some j \<and> conforms t j"
  shows "conforms t j"
  using assms by (auto simp: parse_response_def split: if_splits option.splits)

lemma refresh_session_typed:
  fixes c :: "(json option, world) PlynthClient"
  assumes "token_store c = MemoryStore" and "transport c = auth_server scheme" and "stores_tokens s"
    and "refresh_session c s = (r, s')"
  shows "stores_tokens s'"
  using assms(4)
proof (cases rule: refresh_sessionE)
  case (asked current t a)
  then have "auth_server scheme (refresh_request t) (remote s) = (a, remote s')" using assms(2) by simp
  from auth_server_typed [OF this] have "renewal a = Some j \<Longrightarrow> conforms Tokens_type j" for j
    by (auto simp: renewal_def is_success_def answer_type_def refresh_request_def API_PREFIX_def split: if_splits)
  then show ?thesis using asked(6) assms(1) by (auto simp: stores_tokens_def MemoryStore_def split: option.splits)
qed (use assms(3) in simp)

lemma send_typed:
  fixes c :: "(json option, world) PlynthClient"
  shows "token_store c = MemoryStore \<Longrightarrow> transport c = auth_server scheme \<Longrightarrow>
    send c spec retried s = (a, s') \<Longrightarrow> stores_tokens s \<Longrightarrow>
    stores_tokens s' \<and> (\<forall>j. a = Inr j \<longrightarrow> conforms (answer_type (sp_method spec) (sp_path spec)) j)"
proof (induction c spec retried s arbitrary: a s' rule: send.induct)
  case (1 c spec retried s)
  obtain x s1 where x: "build_headers c spec s = (x, s1)" by fastforce
  show ?case
  proof (cases x)
    case (Inl e)
    then show ?thesis
      using 1 x build_headers_fields [OF x] by (simp add: send.simps [of c spec retried s] stores_tokens_def) blast
  next
    case (Inr h)
    obtain y s2 where y: "exchange c (request_of spec h) s1 = (y, s2)" by fastforce
    obtain r where r: "y = Inr r" "stored_tokens s2 = stored_tokens s1" "\<not> rs_empty r" "rs_status_code r \<noteq> 204"
      "is_success r \<Longrightarrow> \<exists>j. rs_json r = Some j \<and> conforms (answer_type (sp_method spec) (sp_path spec)) j"
      by (rule exchange_typed [OF 1(3) y]) (simp add: request_of_def)
    have held: "stores_tokens s2"
      using 1(5) r(2) build_headers_fields [OF x] by (simp add: stores_tokens_def)
    have parsed: "stores_tokens v \<Longrightarrow> (a, s') = (parse_response (json_text c) r, v) \<Longrightarrow> ?thesis" for v
      using parse_typed [OF _ r(3-5)] by auto
    show ?thesis
    proof (cases "rs_status_code r = 401 \<and> is_user_call spec \<and> \<not> retried")
      case False
      then have "(a, s') = (parse_response (json_text c) r, s2)"
        using 1(4) x Inr y r(1) by (auto simp: send.simps [of c spec retried s] split: if_splits)
      then show ?thesis by (rule parsed [OF held])
    next
      case True
      obtain z s3 where z: "refresh_session c s2 = (z, s3)" by fastforce
      have s3: "stores_tokens s3" by (rule refresh_session_typed [OF 1(2,3) held z])
      have run: "(a, s') = (case z of Inl e \<Rightarrow> (Inl e, s3)
          | Inr ok \<Rightarrow> if ok then send c spec True s3 else (parse_response (json_text c) r, s3))"
        using 1(4) [unfolded send.simps [of c spec retried s]] x Inr y r(1) True z by (simp split: sum.splits)
      show ?thesis
      proof (cases z)
        case (Inl e)
        then show ?thesis using run s3 by simp
      next
        case ok: (Inr ok)
        show ?thesis
        proof (cases ok)
          case True
          then have "send c spec True s3 = (a, s')" using run ok by simp
          from 1(1) [OF x [symmetric] Inr y [symmetric] r(1) \<open>rs_status_code r = 401 \<and> _\<close> z [symmetric] ok True 1(2,3) this s3]
          show ?thesis .
        next
          case False
          then show ?thesis using parsed [OF s3] run ok by simp
        qed
      qed
    qed
  qed
qed


text \<open>A client that holds the pair of user 120's session and asks for the account.\<close>

definition sample_holder :: "(json option, world) session" where
  "sample_holder = \<lparr>stored_tokens = Some (token_pair_json \<lparr>tp_access_token = [], tp_refresh_token =
       sample_jwt_encode (sample_claims_of 150), tp_token_type = ''bearer'', tp_expires_at = 0\<rparr>),
     remote = sample_session, keys_drawn = 0\<rparr>"


end
