(* ===== verification/ApiBodies.thy ===== *)
theory ApiBodies
  imports SdkResources SdkTypes
begin

text \<open>
  The bodies the routes read: for every router of \<^verbatim>\<open>app/api/v1\<close> the model that its handlers
  name for the body of a request, and what it means that a request fits the route it reaches: the credential is the
  one the guard reads, and the body has the type of the model and carries no key that the model does not have. So
  nothing the caller says is dropped, and the models that forbid further keys do not refuse it.
\<close>

section \<open>The models of the routers\<close>

type_synonym body_table = "((string \<times> segment list) \<times> ty) list"

definition auth_bodies :: body_table where
  "auth_bodies = [
     ((''POST'', [Lit ''register'']), RegisterRequest_model),
     ((''POST'', [Lit ''register-individual'']), RegisterIndividualRequest_model),
     ((''POST'', [Lit ''login'']), LoginRequest_model),
     ((''POST'', [Lit ''refresh'']), RefreshRequest_model),
     ((''POST'', [Lit ''logout'']), LogoutRequest_model),
     ((''POST'', [Lit ''password'']), PasswordChangeRequest_model),
     ((''POST'', [Lit ''password'', Lit ''forgot'']), ForgotPasswordRequest_model),
     ((''POST'', [Lit ''password'', Lit ''reset'']), ResetPasswordRequest_model),
     ((''POST'', [Lit ''google'']), GoogleLoginRequest_model)]"

definition tenants_bodies :: body_table where
  "tenants_bodies = [((''POST'', []), TenantCreate_model), ((''PATCH'', [Param]), TenantUpdate_model)]"

definition users_bodies :: body_table where
  "users_bodies = [((''POST'', []), UserInvite_model), ((''PATCH'', [Param]), UserUpdate_model)]"

definition roles_bodies :: body_table where
  "roles_bodies = [((''POST'', []), RoleCreate_model), ((''PATCH'', [Param]), RoleUpdate_model),
     ((''POST'', [Lit ''assign'']), AssignRoleRequest_model)]"

definition plans_bodies :: body_table where
  "plans_bodies = [((''POST'', []), PlanCreate_model), ((''PATCH'', [Param]), PlanUpdate_model)]"

definition subscriptions_bodies :: body_table where
  "subscriptions_bodies = [((''POST'', [Lit ''purchase'']), PurchaseRequest_model),
     ((''POST'', [Lit ''change'']), ChangePlanRequest_model), ((''POST'', [Lit ''cancel'']), CancelRequest_model)]"

definition credits_bodies :: body_table where
  "credits_bodies = [((''POST'', [Lit ''consume'']), CreditConsumeRequest_model),
     ((''POST'', [Lit ''service'', Lit ''consume'']), CreditConsumeRequest_model),
     ((''POST'', [Lit ''grant'']), CreditGrantRequest_model)]"

definition admin_bodies :: body_table where
  "admin_bodies = [((''POST'', [Lit ''products'']), ProductCreate_model),
     ((''PATCH'', [Lit ''products'', Param]), ProductUpdate_model)]"

definition env_admin_bodies :: body_table where
  "env_admin_bodies = [((''PUT'', [Lit ''env'', Param]), EnvVarSet_model), ((''PATCH'', [Lit ''env'', Param]), EnvVarPatch_model),
     ((''POST'', [Lit ''service-tokens'']), ServiceTokenCreate_model)]"

definition components_admin_bodies :: body_table where
  "components_admin_bodies = [((''POST'', []), ComponentCreate_model), ((''PATCH'', [Param]), ComponentUpdate_model),
     ((''PUT'', [Lit ''tenants'', Param, Param]), TenantComponentOverrideSet_model)]"

definition user_components_bodies :: body_table where
  "user_components_bodies = [((''PUT'', [Param, Lit ''components'', Param]), UserComponentOverrideSet_model)]"

definition mounted :: "segment list \<Rightarrow> body_table \<Rightarrow> body_table" where
  "mounted prefix = map (\<lambda>((m, p), t). ((m, prefix @ p), t))"

text \<open>The routers of jobs, storage, webhooks and integrations are left out.\<close>

definition request_bodies :: body_table where
  "request_bodies =
     mounted [Lit ''admin''] admin_bodies @ mounted [Lit ''auth''] auth_bodies @ mounted [Lit ''tenants''] tenants_bodies @
     mounted [Lit ''users''] users_bodies @ mounted [Lit ''roles''] roles_bodies @ mounted [Lit ''plans''] plans_bodies @
     mounted [Lit ''subscription''] subscriptions_bodies @ mounted [Lit ''credits''] credits_bodies @
     mounted [Lit ''admin'', Lit ''products'', Param] env_admin_bodies @
     mounted [Lit ''admin'', Lit ''products'', Param, Lit ''components''] components_admin_bodies @
     mounted [Lit ''users''] user_components_bodies"

definition route_body :: "api_route \<Rightarrow> ty option" where
  "route_body r = map_of request_bodies (ar_method r, ar_path r)"

lemma request_bodies_routed:
  "list_all (\<lambda>(k, _). k \<in> (\<lambda>r. (ar_method r, ar_path r)) ` set api_router) request_bodies" "distinct (map fst request_bodies)"
  by code_simp+

section \<open>Requests that fit their route\<close>

fun body_fits :: "ty option \<Rightarrow> json option \<Rightarrow> bool" where
  "body_fits None b \<longleftrightarrow> b = None"
| "body_fits (Some t) (Some (JObj d)) \<longleftrightarrow> conforms t (JObj d) \<and> list_all (\<lambda>(k, _). k \<in> set (keys_of (shape_of t))) d"
| "body_fits (Some t) _ \<longleftrightarrow> False"

definition fits :: "RequestSpec \<Rightarrow> bool" where
  "fits spec \<longleftrightarrow> (\<exists>r. served_by spec = Some r \<and> carries (ar_guard r) spec \<and> body_fits (route_body r) (sp_json_body spec))"

end
