(* ===== verification/CliClient.thy ===== *)
theory CliClient
  imports SdkTyped ApiBodies
begin

text \<open>
  The client of the command line, \<^verbatim>\<open>plynth_cli/config.py\<close>, \<^verbatim>\<open>plynth_cli/client.py\<close>
  and the output of \<^verbatim>\<open>plynth_cli/cli.py\<close>: the configuration file, the token store that keeps
  the session inside it, the client built from it on top of the Python client of theory \<open>SdkClient\<close>, and the
  tables it prints. The configuration file is kept as the dictionary it holds, \<open>None\<close> when it is missing or does not
  parse; its session is null or a dictionary, as this program writes it. The printing is the plain one, without the
  optional package for colours.
\<close>

section \<open>The configuration file\<close>

type_synonym config_file = "dict option"

definition DEFAULT_BASE_URL :: string where
  "DEFAULT_BASE_URL = ''http://localhost:8000''"

definition empty_config :: dict where
  "empty_config = [(''base_url'', JStr DEFAULT_BASE_URL), (''session'', JNull), (''admin_token'', JNull),
     (''admin_product_slug'', JNull), (''acting_tenant_slug'', JNull)]"

definition load_config :: "config_file \<Rightarrow> dict" where
  "load_config file =
     (case file of
        None \<Rightarrow> empty_config
      | Some data \<Rightarrow> dict_union empty_config (filter (\<lambda>(k, _). k \<in> fst ` set empty_config) data))"

definition save_config :: "dict \<Rightarrow> config_file" where
  "save_config config = Some config"

definition clear_session :: "config_file \<Rightarrow> config_file" where
  "clear_session file = save_config (dict_set (load_config file) ''session'' JNull)"

definition clear_admin_token :: "config_file \<Rightarrow> config_file" where
  "clear_admin_token file =
     save_config (dict_set (dict_set (load_config file) ''admin_token'' JNull) ''admin_product_slug'' JNull)"

text \<open>\<^verbatim>\<open>cfg.get("session") or {}\<close>\<close>

definition session_of :: "dict \<Rightarrow> dict" where
  "session_of config = (case dict_get config ''session'' JNull of JObj s \<Rightarrow> s | _ \<Rightarrow> [])"

fun text_of :: "json \<Rightarrow> string option" where
  "text_of (JStr s) = Some s"
| "text_of _ = None"

section \<open>The session as a token store\<close>

definition cli_get :: "config_file \<Rightarrow> json option" where
  "cli_get file =
     (let s = session_of (load_config file) in
      if s = [] \<or> \<not> json_bool (dict_get s ''access_token'' JNull) then None
      else Some (JObj [(''access_token'', dict_get s ''access_token'' JNull),
        (''refresh_token'', dict_get s ''refresh_token'' (JStr '''')), (''token_type'', JStr ''bearer''),
        (''expires_at'', json_or (dict_get s ''expires_at'' JNull) (JStr ''''))]))"

text \<open>Tokens without the two keys the code reads leave the file alone: the code raises.\<close>

definition cli_set :: "json \<Rightarrow> config_file \<Rightarrow> config_file" where
  "cli_set tokens file =
     (case (SdkClient.json_item tokens ''access_token'', SdkClient.json_item tokens ''refresh_token'', tokens) of
        (Inr a, Inr r, JObj t) \<Rightarrow>
          (let config = load_config file;
               s = dict_set (dict_set (dict_set (session_of config) ''access_token'' a) ''refresh_token'' r)
                     ''expires_at'' (dict_get t ''expires_at'' JNull)
           in save_config (dict_set config ''session'' (JObj s)))
      | _ \<Rightarrow> file)"

definition CliTokenStore :: "config_file TokenStore" where
  "CliTokenStore = \<lparr>ts_get = cli_get, ts_set = cli_set, ts_clear = clear_session\<rparr>"

section \<open>The client\<close>

text \<open>The global options of the program.\<close>

record cli_globals =
  g_base_url :: "string option"
  g_product_slug :: "string option"
  g_acting_tenant_slug :: "string option"

definition rstrip_slash :: "string \<Rightarrow> string" where
  "rstrip_slash s = rev (dropWhile (\<lambda>c. c = CHR ''/'') (rev s))"

definition api_config :: "cli_globals \<Rightarrow> dict \<Rightarrow> HttpConfig" where
  "api_config g config =
     \<lparr>base_url = rstrip_slash (the (either (either (g_base_url g) (text_of (dict_get config ''base_url'' JNull)))
        (Some DEFAULT_BASE_URL))),
      product_slug = either (either (g_product_slug g) (text_of (dict_get (session_of config) ''product_slug'' JNull)))
        (text_of (dict_get config ''admin_product_slug'' JNull)),
      admin_token = text_of (dict_get config ''admin_token'' JNull), service_token = None,
      acting_tenant_slug = either (g_acting_tenant_slug g) (text_of (dict_get config ''acting_tenant_slug'' JNull))\<rparr>"

text \<open>What the program runs in: the text of JSON values, the transport and the random keys.\<close>

record 'r machine =
  json_dump :: "json \<Rightarrow> string"
  wire :: "wire_request \<Rightarrow> 'r \<Rightarrow> (string + wire_response) \<times> 'r"
  random_key :: "nat \<Rightarrow> string"

type_synonym 'r cli_session = "(config_file, 'r) session"

definition api_client :: "'r machine \<Rightarrow> cli_globals \<Rightarrow> config_file \<Rightarrow> (config_file, 'r) PlynthClient" where
  "api_client m g file = \<lparr>cfg = api_config g (load_config file), token_store = CliTokenStore, transport = wire m,
     uuid4 = random_key m, json_text = json_dump m\<rparr>"

fun api_call_error :: "sdk_error \<Rightarrow> sdk_error" where
  "api_call_error (PlynthNetworkError msg) = PlynthApiError 0 ''network_error'' msg []"
| "api_call_error e = e"

definition api_request ::
    "(config_file, 'r) PlynthClient \<Rightarrow> RequestSpec \<Rightarrow> 'r cli_session \<Rightarrow> (sdk_error + json) \<times> 'r cli_session" where
  "api_request c spec s = (case request c spec s of (Inl e, s') \<Rightarrow> (Inl (api_call_error e), s') | (Inr j, s') \<Rightarrow> (Inr j, s'))"

section \<open>Output\<close>

definition coerce_rows :: "json \<Rightarrow> dict list" where
  "coerce_rows data =
     (case data of
        JNull \<Rightarrow> []
      | JList rs \<Rightarrow> map (\<lambda>r. case r of JObj d \<Rightarrow> d | _ \<Rightarrow> [(''value'', r)]) rs
      | JObj d \<Rightarrow> [d]
      | _ \<Rightarrow> [[(''value'', data)]])"

definition stringify :: "(json \<Rightarrow> string) \<Rightarrow> json \<Rightarrow> string" where
  "stringify render v =
     (case v of
        JNull \<Rightarrow> ''-''
      | JObj _ \<Rightarrow> render v
      | JList _ \<Rightarrow> render v
      | JBool b \<Rightarrow> if b then ''yes'' else ''no''
      | _ \<Rightarrow> py_str render v)"

fun joined :: "string \<Rightarrow> string list \<Rightarrow> string" where
  "joined sep [] = []"
| "joined sep [x] = x"
| "joined sep (x # y # xs) = x @ sep @ joined sep (y # xs)"

definition table_row :: "(json \<Rightarrow> string) \<Rightarrow> string list \<Rightarrow> dict \<Rightarrow> string list" where
  "table_row render columns r = map (\<lambda>c. stringify render (dict_get r c JNull)) columns"

definition print_output :: "(json \<Rightarrow> string) \<Rightarrow> bool \<Rightarrow> string list \<Rightarrow> json \<Rightarrow> string list" where
  "print_output render as_json columns data =
     (if as_json then [render data]
      else let rows = coerce_rows data in
      if rows = [] then [''(no results)'']
      else joined '' | '' columns # joined ''-+-'' (map (\<lambda>c. replicate (length c) CHR ''-'') columns) #
        map (\<lambda>r. joined '' | '' (table_row render columns r)) rows)"

section \<open>What the store keeps\<close>

definition config_keys :: "string list" where
  "config_keys = [''base_url'', ''session'', ''admin_token'', ''admin_product_slug'', ''acting_tenant_slug'']"

lemma dict_set_keys: "k \<in> set (map fst d) \<Longrightarrow> map fst (dict_set d k v) = map fst d"
  by (induction d k v rule: dict_set.induct) auto

lemma dict_union_keys: "fst ` set e \<subseteq> set (map fst d) \<Longrightarrow> map fst (dict_union d e) = map fst d"
proof (induction e arbitrary: d)
  case Nil
  show ?case by (simp add: dict_union_def)
next
  case (Cons x e)
  then show ?case by (cases x) (simp add: dict_set_keys del: set_map)
qed

lemma load_keys: "map fst (load_config file) = config_keys"
proof -
  have keys: "map fst empty_config = config_keys" by (simp add: empty_config_def config_keys_def)
  have "map fst (dict_union empty_config (filter (\<lambda>(k, _). k \<in> fst ` set empty_config) d)) = map fst empty_config" for d
    by (rule dict_union_keys) force
  then show ?thesis using keys by (simp add: load_config_def split: option.splits)
qed

lemma load_saved:
  assumes "map fst config = config_keys"
  shows "load_config (save_config config) = config"
proof -
  obtain a b c d e where "config = [(''base_url'', a), (''session'', b), (''admin_token'', c), (''admin_product_slug'', d),
      (''acting_tenant_slug'', e)]"
    using assms by (auto simp: config_keys_def map_eq_Cons_conv)
  then show ?thesis by (simp add: load_config_def save_config_def empty_config_def dict_union_def)
qed

lemma load_session_set:
  "load_config (save_config (dict_set (load_config file) ''session'' v)) = dict_set (load_config file) ''session'' v"
  by (rule load_saved, subst dict_set_keys) (simp_all add: load_keys config_keys_def del: set_map)

text \<open>A pair of tokens as the server sends it.\<close>

definition bearer_pair :: "json \<Rightarrow> bool" where
  "bearer_pair t \<longleftrightarrow> (\<exists>a r e. t = JObj [(''access_token'', a), (''refresh_token'', r), (''token_type'', JStr ''bearer''),
     (''expires_at'', e)] \<and> json_bool a \<and> json_bool e)"

lemma cli_set_pair:
  assumes "t = JObj [(''access_token'', a), (''refresh_token'', r), (''token_type'', JStr ''bearer''), (''expires_at'', e)]"
  shows "load_config (cli_set t file) = dict_set (load_config file) ''session'' (JObj (dict_set (dict_set (dict_set
     (session_of (load_config file)) ''access_token'' a) ''refresh_token'' r) ''expires_at'' e))"
  using load_session_set by (simp add: assms cli_set_def Let_def dict_get_def)

interpretation cli: token_store_laws CliTokenStore bearer_pair
proof
  fix t :: json and f :: config_file
  assume "bearer_pair t"
  then obtain a r e where t: "t = JObj [(''access_token'', a), (''refresh_token'', r), (''token_type'', JStr ''bearer''), (''expires_at'', e)]"
    and "json_bool a" "json_bool e"
    by (auto simp: bearer_pair_def)
  moreover have "session_of (load_config (cli_set t f)) = dict_set (dict_set (dict_set (session_of (load_config f))
      ''access_token'' a) ''refresh_token'' r) ''expires_at'' e"
    by (simp add: cli_set_pair [OF t] session_of_def dict_get_def)
  moreover have "dict_set d k v \<noteq> []" for d k and v :: json
    by (cases d) (auto split: if_splits)
  ultimately show "ts_get CliTokenStore (ts_set CliTokenStore t f) = Some t"
    by (simp add: CliTokenStore_def cli_get_def dict_get_def json_or_def)
next
  fix f :: config_file
  show "ts_get CliTokenStore (ts_clear CliTokenStore f) = None"
    using load_session_set [of f JNull]
    by (simp add: CliTokenStore_def cli_get_def clear_session_def session_of_def dict_get_def)
qed

text \<open>A refresh keeps what else the file says: the product and the address of the session, the server and the
  platform token.\<close>

lemma refresh_keeps_session:
  assumes "bearer_pair t" and "k \<notin> {''access_token'', ''refresh_token'', ''expires_at''}"
  shows "map_of (session_of (load_config (cli_set t file))) k = map_of (session_of (load_config file)) k"
  using assms by (auto simp: bearer_pair_def session_of_def dict_get_def cli_set_pair)

lemma refresh_keeps_config:
  assumes "bearer_pair t" and "k \<noteq> ''session''"
  shows "map_of (load_config (cli_set t file)) k = map_of (load_config file) k"
  using assms by (auto simp: bearer_pair_def cli_set_pair)

text \<open>So a refresh in the middle of a command does not move it to another product, server or tenant.\<close>

lemma refresh_keeps_client: "bearer_pair t \<Longrightarrow> api_config g (load_config (cli_set t file)) = api_config g (load_config file)"
  by (simp add: api_config_def dict_get_def refresh_keeps_config refresh_keeps_session)

end
