(* ===== verification/CliCommands.thy ===== *)
theory CliCommands
  imports CliClient
begin

text \<open>
  The commands of the command line, \<^verbatim>\<open>plynth_cli/commands\<close>: for every group a data type with one
  constructor per command and its options, the request the command sends or the reason it sends none, and the columns
  it prints. Signing in and out and the listing of the audit log, which do more than one request, are programs of their
  own. The parser of JSON and of decimal numbers, what the user types at a prompt and the time are the console.
\<close>

section \<open>The console\<close>

text \<open>\<open>decimal\<close> gives the sign of a number and its text.\<close>

record console =
  json_loads :: "string \<Rightarrow> json option"
  decimal :: "string \<Rightarrow> (bool \<times> string) option"
  answer :: "string \<Rightarrow> string"
  confirmed :: bool
  iso_now :: string

datatype cli_error = UsageError string | Aborted | Failed sdk_error

definition choice :: "string list \<Rightarrow> string \<Rightarrow> cli_error + string" where
  "choice cs s = (case List.find (\<lambda>c. str_lower c = str_lower s) cs of
     None \<Rightarrow> Inl (UsageError ''invalid choice'') | Some c \<Rightarrow> Inr (str_lower c))"

definition json_object :: "console \<Rightarrow> string \<Rightarrow> cli_error + dict" where
  "json_object c text = (case json_loads c text of
     None \<Rightarrow> Inl (UsageError ''--settings must be valid JSON'')
   | Some (JObj d) \<Rightarrow> Inr d
   | Some _ \<Rightarrow> Inl (UsageError ''--settings must be a JSON object''))"

definition json_array :: "console \<Rightarrow> string \<Rightarrow> cli_error + json list" where
  "json_array c text = (case json_loads c text of
     None \<Rightarrow> Inl (UsageError ''--features must be valid JSON'')
   | Some (JList xs) \<Rightarrow> Inr xs
   | Some _ \<Rightarrow> Inl (UsageError ''--features must be a JSON array''))"

definition validate_amount :: "console \<Rightarrow> string \<Rightarrow> cli_error + string" where
  "validate_amount c amount = (case decimal c amount of
     None \<Rightarrow> Inl (UsageError ''--amount must be a decimal number'')
   | Some (positive, text) \<Rightarrow> if \<not> positive then Inl (UsageError ''--amount must be > 0'') else Inr text)"

text \<open>A key of a body that is there when the option was given, or was given and is not empty.\<close>

definition given :: "string \<Rightarrow> ('a \<Rightarrow> json) \<Rightarrow> 'a option \<Rightarrow> dict" where
  "given k f x = (case x of None \<Rightarrow> [] | Some a \<Rightarrow> [(k, f a)])"

definition given_text :: "string \<Rightarrow> string option \<Rightarrow> dict" where
  "given_text k x = (if truthy x then [(k, JStr (the x))] else [])"

definition scoped :: "string option \<Rightarrow> string option \<Rightarrow> RequestSpec \<Rightarrow> RequestSpec" where
  "scoped product tenant spec = spec\<lparr>sp_product_slug := product, sp_acting_tenant_slug := tenant\<rparr>"

definition keyed :: "string option \<Rightarrow> RequestSpec \<Rightarrow> RequestSpec" where
  "keyed key spec = spec\<lparr>sp_idempotent := True, sp_idempotency_key := key\<rparr>"

section \<open>Products\<close>

datatype CliProducts =
    CliProductsList
  | CliProductsCreate string string "string option" string bool "string option"
  | CliProductsUpdate string "string option" "string option" "string option" "bool option" "string option"

fun cli_products :: "console \<Rightarrow> CliProducts \<Rightarrow> cli_error + RequestSpec" where
  "cli_products c CliProductsList = Inr (as_admin (request_spec ''GET'' ''/api/v1/admin/products''))"
| "cli_products c (CliProductsCreate slug name description tenant_type seed_plans settings_json) =
     (case choice [''company'', ''individual''] tenant_type of
        Inl e \<Rightarrow> Inl e
      | Inr typ \<Rightarrow>
        (case if truthy settings_json then json_object c (the settings_json) else Inr [] of
           Inl e \<Rightarrow> Inl e
         | Inr obj \<Rightarrow> Inr (as_admin (with_body ([(''slug'', JStr slug), (''name'', JStr name),
             (''seed_plans'', JBool seed_plans), (''tenant_type'', JStr typ), (''settings'', JObj obj)] @
             given ''description'' JStr description) (request_spec ''POST'' ''/api/v1/admin/products'')))))"
| "cli_products c (CliProductsUpdate slug name description status is_active settings_json) =
     (case (case status of None \<Rightarrow> Inr None | Some s \<Rightarrow> map_sum id Some (choice [''active'', ''disabled'', ''archived''] s)) of
        Inl e \<Rightarrow> Inl e
      | Inr st \<Rightarrow>
        (case (case settings_json of None \<Rightarrow> Inr None | Some s \<Rightarrow> map_sum id Some (json_object c s)) of
           Inl e \<Rightarrow> Inl e
         | Inr obj \<Rightarrow>
           (let body = given ''name'' JStr name @ given ''description'' JStr description @ given ''status'' JStr st @
              given ''is_active'' JBool is_active @ given ''settings'' JObj obj
            in if body = [] then Inl (UsageError ''nothing to update; pass at least one field'')
               else Inr (as_admin (with_body body (request_spec ''PATCH'' (''/api/v1/admin/products/'' @ slug)))))))"

section \<open>Tenants\<close>

record new_tenant =
  nt_slug :: string
  nt_name :: string
  nt_type :: string
  nt_parent_id :: "string option"
  nt_expires_at :: "string option"
  nt_settings_json :: "string option"
  nt_owner_email :: "string option"
  nt_owner_password :: "string option"
  nt_owner_name :: "string option"
  nt_plan_code :: "string option"

datatype CliTenants =
    CliTenantsList "string option" bool
  | CliTenantsCreate "string option" new_tenant
  | CliTenantsActivate "string option" string
  | CliTenantsDeactivate "string option" string
  | CliTenantsExpire "string option" string "string option"

definition owner_body :: "console \<Rightarrow> new_tenant \<Rightarrow> dict" where
  "owner_body c t =
     (if truthy (nt_owner_email t)
      then [(''owner'', JObj [(''email'', JStr (the (nt_owner_email t))),
        (''password'', JStr (if truthy (nt_owner_password t) then the (nt_owner_password t) else answer c ''owner password'')),
        (''full_name'', jopt JStr (nt_owner_name t))])]
      else [])"

definition tenant_body :: "console \<Rightarrow> new_tenant \<Rightarrow> cli_error + dict" where
  "tenant_body c t =
     (case choice [''company'', ''individual''] (nt_type t) of
        Inl e \<Rightarrow> Inl e
      | Inr typ \<Rightarrow>
        (case if truthy (nt_settings_json t) then json_object c (the (nt_settings_json t)) else Inr [] of
           Inl e \<Rightarrow> Inl e
         | Inr obj \<Rightarrow> Inr ([(''slug'', JStr (nt_slug t)), (''name'', JStr (nt_name t)), (''type'', JStr typ), (''settings'', JObj obj)] @
             given_text ''parent_id'' (nt_parent_id t) @ given_text ''expires_at'' (nt_expires_at t) @ owner_body c t @
             given_text ''plan_code'' (nt_plan_code t))))"

definition expiry_json :: "console \<Rightarrow> string option \<Rightarrow> json" where
  "expiry_json c at_time = (case at_time of None \<Rightarrow> JStr (iso_now c) | Some s \<Rightarrow> if s = ''null'' then JNull else JStr s)"

fun cli_tenants :: "console \<Rightarrow> CliTenants \<Rightarrow> cli_error + RequestSpec" where
  "cli_tenants c (CliTenantsList product children) =
     Inr (scoped product None (request_spec ''GET'' (if children then ''/api/v1/tenants/children'' else ''/api/v1/tenants'')))"
| "cli_tenants c (CliTenantsCreate product t) =
     (case tenant_body c t of
        Inl e \<Rightarrow> Inl e
      | Inr body \<Rightarrow> Inr (scoped product None (with_body body (request_spec ''POST'' ''/api/v1/tenants''))))"
| "cli_tenants c (CliTenantsActivate product tenant_id) =
     Inr (scoped product None (request_spec ''POST'' (''/api/v1/tenants/'' @ tenant_id @ ''/activate'')))"
| "cli_tenants c (CliTenantsDeactivate product tenant_id) =
     Inr (scoped product None (request_spec ''POST'' (''/api/v1/tenants/'' @ tenant_id @ ''/deactivate'')))"
| "cli_tenants c (CliTenantsExpire product tenant_id at_time) =
     Inr (scoped product None (with_body [(''expires_at'', expiry_json c at_time)]
       (request_spec ''PATCH'' (''/api/v1/tenants/'' @ tenant_id))))"

section \<open>Users\<close>

datatype CliUsers =
    CliUsersList "string option" "string option"
  | CliUsersInvite "string option" "string option" string "string option" "string list" "string option"
  | CliUsersActivate "string option" "string option" string
  | CliUsersDeactivate "string option" "string option" string
  | CliUsersDelete "string option" "string option" string bool

fun cli_users :: "console \<Rightarrow> CliUsers \<Rightarrow> cli_error + RequestSpec" where
  "cli_users c (CliUsersList product tenant) = Inr (scoped product tenant (request_spec ''GET'' ''/api/v1/users''))"
| "cli_users c (CliUsersInvite product tenant address full_name codes password) =
     Inr (scoped product tenant (with_body ([(''email'', JStr address), (''role_codes'', JList (map JStr codes))] @
       given ''full_name'' JStr full_name @ given_text ''initial_password'' password)
       (request_spec ''POST'' ''/api/v1/users'')))"
| "cli_users c (CliUsersActivate product tenant user_id) =
     Inr (scoped product tenant (request_spec ''POST'' (''/api/v1/users/'' @ user_id @ ''/activate'')))"
| "cli_users c (CliUsersDeactivate product tenant user_id) =
     Inr (scoped product tenant (request_spec ''POST'' (''/api/v1/users/'' @ user_id @ ''/deactivate'')))"
| "cli_users c (CliUsersDelete product tenant user_id yes) =
     (if \<not> yes \<and> \<not> confirmed c then Inl Aborted
      else Inr (scoped product tenant (request_spec ''DELETE'' (''/api/v1/users/'' @ user_id))))"

section \<open>Plans\<close>

record new_plan =
  np_code :: string
  np_name :: string
  np_description :: "string option"
  np_price_cents :: int
  np_currency :: string
  np_interval :: string
  np_trial_days :: int
  np_is_public :: bool
  np_features_json :: "string option"

datatype CliPlans =
    CliPlansList "string option"
  | CliPlansCreate "string option" new_plan
  | CliPlansUpdate "string option" string "string option" "string option" "int option" "bool option" "bool option"

definition plan_body :: "console \<Rightarrow> new_plan \<Rightarrow> cli_error + dict" where
  "plan_body c p =
     (case choice [''month'', ''year'', ''week'', ''day''] (np_interval p) of
        Inl e \<Rightarrow> Inl e
      | Inr interval \<Rightarrow>
        (case if truthy (np_features_json p) then json_array c (the (np_features_json p)) else Inr [] of
           Inl e \<Rightarrow> Inl e
         | Inr feats \<Rightarrow> Inr ([(''code'', JStr (np_code p)), (''name'', JStr (np_name p)), (''price_cents'', JInt (np_price_cents p)),
             (''currency'', JStr (map upper_char (np_currency p))), (''interval'', JStr interval),
             (''trial_days'', JInt (np_trial_days p)), (''is_public'', JBool (np_is_public p)), (''features'', JList feats)] @
             given ''description'' JStr (np_description p))))"

fun cli_plans :: "console \<Rightarrow> CliPlans \<Rightarrow> cli_error + RequestSpec" where
  "cli_plans c (CliPlansList product) = Inr (no_auth (scoped product None (request_spec ''GET'' ''/api/v1/plans'')))"
| "cli_plans c (CliPlansCreate product p) =
     (case plan_body c p of
        Inl e \<Rightarrow> Inl e
      | Inr body \<Rightarrow> Inr (scoped product None (with_body body (request_spec ''POST'' ''/api/v1/plans''))))"
| "cli_plans c (CliPlansUpdate product code name description price_cents is_public is_active) =
     (let body = given ''name'' JStr name @ given ''description'' JStr description @ given ''price_cents'' JInt price_cents @
        given ''is_public'' JBool is_public @ given ''is_active'' JBool is_active
      in if body = [] then Inl (UsageError ''nothing to update; pass at least one field'')
         else Inr (scoped product None (with_body body (request_spec ''PATCH'' (''/api/v1/plans/'' @ code)))))"

section \<open>Subscription and credits\<close>

datatype CliSubscription =
    CliSubscriptionShow "string option" "string option"
  | CliSubscriptionPurchase "string option" "string option" string "string option" "string option"
  | CliSubscriptionChange "string option" "string option" string bool "string option"
  | CliSubscriptionCancel "string option" "string option" bool "string option"

fun cli_subscription :: "CliSubscription \<Rightarrow> cli_error + RequestSpec" where
  "cli_subscription (CliSubscriptionShow product tenant) =
     Inr (scoped product tenant (request_spec ''GET'' ''/api/v1/subscription''))"
| "cli_subscription (CliSubscriptionPurchase product tenant plan_code payment_method_token idempotency_key) =
     Inr (keyed idempotency_key (scoped product tenant (with_body ((''plan_code'', JStr plan_code) #
       given_text ''payment_method_token'' payment_method_token) (request_spec ''POST'' ''/api/v1/subscription/purchase''))))"
| "cli_subscription (CliSubscriptionChange product tenant plan_code proration idempotency_key) =
     Inr (keyed idempotency_key (scoped product tenant (with_body [(''plan_code'', JStr plan_code), (''proration'', JBool proration)]
       (request_spec ''POST'' ''/api/v1/subscription/change''))))"
| "cli_subscription (CliSubscriptionCancel product tenant immediately reason) =
     Inr (scoped product tenant (with_body ((''at_period_end'', JBool (\<not> immediately)) # given_text ''reason'' reason)
       (request_spec ''POST'' ''/api/v1/subscription/cancel'')))"

datatype CliCredits =
    CliCreditsWallets "string option" "string option"
  | CliCreditsLedger "string option" "string option" int
  | CliCreditsGrant "string option" "string option" string string "string option" "string option"

fun cli_credits :: "console \<Rightarrow> CliCredits \<Rightarrow> cli_error + RequestSpec" where
  "cli_credits c (CliCreditsWallets product tenant) = Inr (scoped product tenant (request_spec ''GET'' ''/api/v1/credits/wallets''))"
| "cli_credits c (CliCreditsLedger product tenant limit) =
     Inr (scoped product tenant (with_params [(''limit'', JInt limit)] (request_spec ''GET'' ''/api/v1/credits/ledger'')))"
| "cli_credits c (CliCreditsGrant product tenant feature_key amount reason reference) =
     (case validate_amount c amount of
        Inl e \<Rightarrow> Inl e
      | Inr text \<Rightarrow> Inr (scoped product tenant (with_body ([(''feature_key'', JStr feature_key), (''amount'', JStr text)] @
          given ''reason'' JStr reason @ given ''reference'' JStr reference) (request_spec ''POST'' ''/api/v1/credits/grant''))))"

end
