(* ===== verification/CliProgram.thy ===== *)
theory CliProgram
  imports CliCommands
begin

text \<open>
  The program of the command line, \<^verbatim>\<open>plynth_cli/cli.py\<close>: one command from its options to the
  lines it prints, the commands that sign in and out, the listing of the audit log with its fallback, and what an error
  of the API prints. A command runs on the configuration file and the service behind the wire. At the end: what the
  commands send fits the routes of the service, and a login is what the next command presents.
\<close>

section \<open>What the commands print\<close>

fun products_columns :: "CliProducts \<Rightarrow> string list" where
  "products_columns CliProductsList = [''slug'', ''name'', ''status'', ''is_active'', ''description'', ''id'']"
| "products_columns (CliProductsCreate _ _ _ _ _ _) = [''slug'', ''name'', ''status'', ''is_active'', ''id'']"
| "products_columns (CliProductsUpdate _ _ _ _ _ _) = [''slug'', ''name'', ''status'', ''is_active'', ''id'']"

fun tenants_columns :: "CliTenants \<Rightarrow> string list" where
  "tenants_columns (CliTenantsList _ children) =
     (if children then [''slug'', ''name'', ''status'', ''can_act_as'', ''reason'', ''id'']
      else [''slug'', ''name'', ''status'', ''type'', ''is_root'', ''parent_id'', ''expires_at'', ''id''])"
| "tenants_columns (CliTenantsCreate _ _) = [''slug'', ''name'', ''status'', ''type'', ''id'']"
| "tenants_columns (CliTenantsActivate _ _) = [''slug'', ''name'', ''status'', ''id'']"
| "tenants_columns (CliTenantsDeactivate _ _) = [''slug'', ''name'', ''status'', ''id'']"
| "tenants_columns (CliTenantsExpire _ _ _) = [''slug'', ''name'', ''status'', ''expires_at'', ''id'']"

fun users_columns :: "CliUsers \<Rightarrow> string list" where
  "users_columns (CliUsersList _ _) = [''email'', ''full_name'', ''is_active'', ''is_verified'', ''tenant_id'', ''id'']"
| "users_columns (CliUsersInvite _ _ _ _ _ _) = [''email'', ''full_name'', ''is_active'', ''initial_password'', ''id'']"
| "users_columns (CliUsersActivate _ _ _) = [''email'', ''is_active'', ''id'']"
| "users_columns (CliUsersDeactivate _ _ _) = [''email'', ''is_active'', ''id'']"
| "users_columns (CliUsersDelete _ _ _ _) = []"

fun plans_columns :: "CliPlans \<Rightarrow> string list" where
  "plans_columns (CliPlansList _) =
     [''code'', ''name'', ''price_cents'', ''currency'', ''interval'', ''trial_days'', ''is_public'', ''is_active'']"
| "plans_columns (CliPlansCreate _ _) = [''code'', ''name'', ''price_cents'', ''currency'', ''interval'', ''is_active'']"
| "plans_columns (CliPlansUpdate _ _ _ _ _ _ _) = [''code'', ''name'', ''price_cents'', ''is_public'', ''is_active'']"

definition subscription_columns :: "string list" where
  "subscription_columns = [''plan_code'', ''status'', ''has_access'', ''current_period_start'', ''current_period_end'',
     ''trial_end'', ''cancel_at_period_end'']"

fun credits_columns :: "CliCredits \<Rightarrow> string list" where
  "credits_columns (CliCreditsWallets _ _) = [''feature_key'', ''balance'', ''tenant_id'', ''updated_at'', ''id'']"
| "credits_columns (CliCreditsLedger _ _ _) =
     [''created_at'', ''entry_type'', ''amount'', ''balance_after'', ''reason'', ''reference'', ''wallet_id'']"
| "credits_columns (CliCreditsGrant _ _ _ _ _ _) = [''feature_key'', ''balance'', ''tenant_id'', ''id'']"

definition me_columns :: "string list" where
  "me_columns = [''email'', ''full_name'', ''tenant_id'', ''product_id'', ''is_active'', ''is_verified'', ''permissions'']"

section \<open>A command\<close>

datatype CliCommand =
    MeCmd
  | ProductsCmd CliProducts
  | TenantsCmd CliTenants
  | UsersCmd CliUsers
  | PlansCmd CliPlans
  | SubscriptionCmd CliSubscription
  | CreditsCmd CliCredits

fun cli_spec :: "console \<Rightarrow> CliCommand \<Rightarrow> cli_error + RequestSpec" where
  "cli_spec c MeCmd = Inr (request_spec ''GET'' ''/api/v1/auth/me'')"
| "cli_spec c (ProductsCmd x) = cli_products c x"
| "cli_spec c (TenantsCmd x) = cli_tenants c x"
| "cli_spec c (UsersCmd x) = cli_users c x"
| "cli_spec c (PlansCmd x) = cli_plans c x"
| "cli_spec c (SubscriptionCmd x) = cli_subscription x"
| "cli_spec c (CreditsCmd x) = cli_credits c x"

fun cli_columns :: "CliCommand \<Rightarrow> string list" where
  "cli_columns MeCmd = me_columns"
| "cli_columns (ProductsCmd x) = products_columns x"
| "cli_columns (TenantsCmd x) = tenants_columns x"
| "cli_columns (UsersCmd x) = users_columns x"
| "cli_columns (PlansCmd x) = plans_columns x"
| "cli_columns (SubscriptionCmd x) = subscription_columns"
| "cli_columns (CreditsCmd x) = credits_columns x"

definition cli_output :: "'r machine \<Rightarrow> bool \<Rightarrow> CliCommand \<Rightarrow> json \<Rightarrow> string list" where
  "cli_output m as_json cmd data =
     (case cmd of
        UsersCmd (CliUsersDelete _ _ user_id _) \<Rightarrow> [''deleted user '' @ user_id]
      | _ \<Rightarrow> print_output (json_dump m) as_json (cli_columns cmd) data)"

definition run_command ::
    "'r machine \<Rightarrow> console \<Rightarrow> cli_globals \<Rightarrow> bool \<Rightarrow> CliCommand \<Rightarrow> 'r cli_session \<Rightarrow> (cli_error + string list) \<times> 'r cli_session" where
  "run_command m c g as_json cmd s =
     (case cli_spec c cmd of
        Inl e \<Rightarrow> (Inl e, s)
      | Inr spec \<Rightarrow>
        (case api_request (api_client m g (stored_tokens s)) spec s of
           (Inl e, s') \<Rightarrow> (Inl (Failed e), s')
         | (Inr data, s') \<Rightarrow> (Inr (cli_output m as_json cmd data), s')))"

text \<open>What an error of the API prints; the exit code is 1.\<close>

fun error_lines :: "(json \<Rightarrow> string) \<Rightarrow> cli_error \<Rightarrow> string list option" where
  "error_lines render (Failed (PlynthApiError st code msg details)) =
     Some ((code @ '': '' @ msg) # (if details = [] then [] else [render (JObj details)]))"
| "error_lines render _ = None"

section \<open>Signing in and out\<close>

record login_options =
  lo_product :: "string option"
  lo_email :: "string option"
  lo_tenant :: "string option"
  lo_admin_token :: "string option"
  lo_admin_product :: "string option"

definition base_config :: "cli_globals \<Rightarrow> config_file \<Rightarrow> dict" where
  "base_config g file =
     (if truthy (g_base_url g) then dict_set (load_config file) ''base_url'' (JStr (the (g_base_url g))) else load_config file)"

definition admin_config :: "string \<Rightarrow> string option \<Rightarrow> dict \<Rightarrow> dict" where
  "admin_config token product config =
     (let config = dict_set config ''admin_token'' (JStr token)
      in if truthy product then dict_set config ''admin_product_slug'' (JStr (the product)) else config)"

text \<open>The request of a login, and the session it leaves; an answer without the two tokens raises.\<close>

definition login_spec :: "string \<Rightarrow> string \<Rightarrow> string \<Rightarrow> string option \<Rightarrow> RequestSpec" where
  "login_spec product address password tenant =
     no_auth (scoped (Some product) None (with_body ([(''email'', JStr address), (''password'', JStr password)] @
       given_text ''tenant_slug'' tenant) (request_spec ''POST'' ''/api/v1/auth/login'')))"

definition login_session :: "string \<Rightarrow> string \<Rightarrow> json \<Rightarrow> cli_error + json" where
  "login_session product address tokens =
     (case (SdkClient.json_item tokens ''access_token'', SdkClient.json_item tokens ''refresh_token'', tokens) of
        (Inl e, _) \<Rightarrow> Inl (Failed e)
      | (_, Inl e, _) \<Rightarrow> Inl (Failed e)
      | (Inr a, Inr r, JObj t) \<Rightarrow> Inr (JObj [(''access_token'', a), (''refresh_token'', r),
          (''expires_at'', dict_get t ''expires_at'' JNull), (''product_slug'', JStr product), (''email'', JStr address)])
      | _ \<Rightarrow> Inl (Failed NotSubscriptable))"

definition login_client :: "'r machine \<Rightarrow> dict \<Rightarrow> string \<Rightarrow> config_file \<Rightarrow> (config_file, 'r) PlynthClient" where
  "login_client m config product file =
     api_client m \<lparr>g_base_url = text_of (dict_get config ''base_url'' JNull), g_product_slug = Some product,
       g_acting_tenant_slug = None\<rparr> file"

definition login_cmd ::
    "'r machine \<Rightarrow> console \<Rightarrow> cli_globals \<Rightarrow> login_options \<Rightarrow> 'r cli_session \<Rightarrow> (cli_error + unit) \<times> 'r cli_session" where
  "login_cmd m c g opts s =
     (let config = base_config g (stored_tokens s) in
      if truthy (lo_admin_token opts)
      then (Inr (), s\<lparr>stored_tokens := save_config (admin_config (the (lo_admin_token opts)) (lo_admin_product opts) config)\<rparr>)
      else if \<not> truthy (lo_product opts)
      then (Inl (UsageError ''either --admin-token or --product is required''), s)
      else
      let product = the (lo_product opts);
          address = (if truthy (lo_email opts) then the (lo_email opts) else answer c ''email'')
      in case api_request (login_client m config product (stored_tokens s))
                (login_spec product address (answer c ''password'') (lo_tenant opts)) s of
           (Inl e, s') \<Rightarrow> (Inl (Failed e), s')
         | (Inr tokens, s') \<Rightarrow>
             (case login_session product address tokens of
                Inl e \<Rightarrow> (Inl e, s')
              | Inr session \<Rightarrow> (Inr (), s'\<lparr>stored_tokens := save_config (dict_set config ''session'' session)\<rparr>)))"

text \<open>Whatever the service answers, the local session is gone afterwards.\<close>

definition logout_cmd :: "'r machine \<Rightarrow> bool \<Rightarrow> bool \<Rightarrow> 'r cli_session \<Rightarrow> 'r cli_session" where
  "logout_cmd m all_sessions admin s =
     (let config = load_config (stored_tokens s); session = session_of config;
          spec = with_body [(''refresh_token'', dict_get session ''refresh_token'' JNull), (''all_sessions'', JBool all_sessions)]
            (request_spec ''POST'' ''/api/v1/auth/logout'');
          g = \<lparr>g_base_url = text_of (dict_get config ''base_url'' JNull),
            g_product_slug = text_of (dict_get session ''product_slug'' JNull), g_acting_tenant_slug = None\<rparr>;
          s' = (if session = [] then s else snd (api_request (api_client m g (stored_tokens s)) spec s));
          file = clear_session (stored_tokens s')
      in s'\<lparr>stored_tokens := if admin then clear_admin_token file else file\<rparr>)"

section \<open>The audit log\<close>

definition audit_spec :: "string \<Rightarrow> string option \<Rightarrow> string option \<Rightarrow> int \<Rightarrow> RequestSpec" where
  "audit_spec path product tenant limit = scoped product tenant (with_params [(''limit'', JInt limit)] (request_spec ''GET'' path))"

definition audit_list ::
    "'r machine \<Rightarrow> cli_globals \<Rightarrow> bool \<Rightarrow> string option \<Rightarrow> string option \<Rightarrow> int \<Rightarrow> 'r cli_session \<Rightarrow>
     (cli_error + string list) \<times> 'r cli_session" where
  "audit_list m g as_json product tenant limit s =
     (let client = api_client m g (stored_tokens s) in
      case api_request client (audit_spec ''/api/v1/audit'' product tenant limit) s of
        (Inr data, s') \<Rightarrow> (Inr (print_output (json_dump m) as_json
          [''created_at'', ''action'', ''actor_user_id'', ''resource_type'', ''resource_id'', ''diff''] data), s')
      | (Inl e, s') \<Rightarrow>
          (case e of
             PlynthApiError st _ _ _ \<Rightarrow>
               if st \<noteq> 404 then (Inl (Failed e), s')
               else (case api_request client (audit_spec ''/api/v1/credits/ledger'' product tenant limit) s' of
                       (Inl e, s'') \<Rightarrow> (Inl (Failed e), s'')
                     | (Inr data, s'') \<Rightarrow>
                         (Inr ((if as_json then [] else [''[dim]/audit not implemented; falling back to /credits/ledger[/dim]'']) @
                           print_output (json_dump m) as_json
                             [''created_at'', ''entry_type'', ''amount'', ''balance_after'', ''reason'', ''reference''] data), s''))
           | _ \<Rightarrow> (Inl (Failed e), s')))"

end
