(* ===== verification/CliProperties.thy ===== *)
theory CliProperties
  imports CliProgram
begin

text \<open>
  What the commands of the command line send is what the service reads: theory \<open>CliProgram\<close> against the routing table
  of theory \<open>Routes\<close> and the models of theory \<open>ApiBodies\<close>.
\<close>

section \<open>Bodies\<close>

lemma map_of_given [simp]:
  "map_of (given k f x) j = (if j = k then map_option f x else None)"
  "map_of (given_text k y) j = (if j = k \<and> truthy y then Some (JStr (the y)) else None)"
  by (auto simp: given_def given_text_def split: option.splits)

lemma keys_given [simp]:
  "list_all (\<lambda>(k, _). Q k) (given k f x) \<longleftrightarrow> x = None \<or> Q k"
  "list_all (\<lambda>(k, _). Q k) (given_text k y) \<longleftrightarrow> \<not> truthy y \<or> Q k"
  by (auto simp: given_def given_text_def split: option.splits)

lemma texts_conform [simp]: "list_all (conforms StrT) (map JStr xs)"
  by (simp add: list_all_iff)

lemma choiceD: "choice cs s = Inr t \<Longrightarrow> \<exists>c \<in> set cs. t = str_lower c \<and> str_lower c = str_lower s"
  by (auto simp: choice_def dest!: find_SomeD split: option.splits)

lemmas lower_simps = str_lower_def lower_char_def is_upper_def

lemma choice_values:
  "choice [''company'', ''individual''] s = Inr t \<Longrightarrow> t \<in> {''company'', ''individual''}"
  "choice [''active'', ''disabled'', ''archived''] s = Inr t \<Longrightarrow> t \<in> {''active'', ''disabled'', ''archived''}"
  by (auto dest!: choiceD simp: lower_simps)

lemma choice_models:
  "choice [''company'', ''individual''] s = Inr t \<Longrightarrow> t \<in> set tenant_types"
  "choice [''active'', ''disabled'', ''archived''] s = Inr t \<Longrightarrow> t \<in> set product_statuses"
  by (auto dest!: choice_values simp: tenant_types_def product_statuses_def)

section \<open>Routes\<close>

definition serves :: "string \<Rightarrow> string \<Rightarrow> api_route option" where
  "serves verb path = (case api_segments path of None \<Rightarrow> None | Some xs \<Rightarrow> find_route verb xs)"

lemma fits_serves:
  "fits spec \<longleftrightarrow> (case serves (sp_method spec) (sp_path spec) of None \<Rightarrow> False
     | Some r \<Rightarrow> carries (ar_guard r) spec \<and> body_fits (route_body r) (sp_json_body spec))"
  by (simp add: fits_def served_by_def serves_def split: option.splits)

lemma guard_of_route: "ar_guard (route m p g) = g"
  by (simp add: route_def)

text \<open>Where the paths of the commands lead, and the model of the body there.\<close>

lemma cli_routes:
  "serves ''GET'' ''/api/v1/admin/products'' = Some (route ''GET'' [Lit ''admin'', Lit ''products''] PlatformAdmin)"
  "serves ''POST'' ''/api/v1/admin/products'' = Some (route ''POST'' [Lit ''admin'', Lit ''products''] PlatformAdmin)"
  "serves ''GET'' ''/api/v1/auth/me'' = Some (route ''GET'' [Lit ''auth'', Lit ''me''] SignedIn)"
  "serves ''POST'' ''/api/v1/auth/login'' = Some (route ''POST'' [Lit ''auth'', Lit ''login''] ProductHeader)"
  "serves ''POST'' ''/api/v1/auth/logout'' = Some (route ''POST'' [Lit ''auth'', Lit ''logout''] SignedIn)"
  "serves ''GET'' ''/api/v1/tenants'' = Some (route ''GET'' [Lit ''tenants''] (Permitted ''tenants:read''))"
  "serves ''POST'' ''/api/v1/tenants'' = Some (route ''POST'' [Lit ''tenants''] (Permitted ''tenants:write''))"
  "serves ''GET'' ''/api/v1/tenants/children'' = Some (route ''GET'' [Lit ''tenants'', Lit ''children''] (Permitted ''tenants:read''))"
  "serves ''GET'' ''/api/v1/users'' = Some (route ''GET'' [Lit ''users''] (Permitted ''users:read''))"
  "serves ''POST'' ''/api/v1/users'' = Some (route ''POST'' [Lit ''users''] (Permitted ''users:write''))"
  "serves ''GET'' ''/api/v1/plans'' = Some (route ''GET'' [Lit ''plans''] ProductHeader)"
  "serves ''POST'' ''/api/v1/plans'' = Some (route ''POST'' [Lit ''plans''] (Permitted ''plans:write''))"
  "serves ''GET'' ''/api/v1/subscription'' = Some (route ''GET'' [Lit ''subscription''] (Permitted ''subscriptions:read''))"
  "serves ''POST'' ''/api/v1/subscription/purchase'' = Some (route ''POST'' [Lit ''subscription'', Lit ''purchase''] (Permitted ''subscriptions:purchase''))"
  "serves ''POST'' ''/api/v1/subscription/change'' = Some (route ''POST'' [Lit ''subscription'', Lit ''change''] (Permitted ''subscriptions:change''))"
  "serves ''POST'' ''/api/v1/subscription/cancel'' = Some (route ''POST'' [Lit ''subscription'', Lit ''cancel''] (Permitted ''subscriptions:cancel''))"
  "serves ''GET'' ''/api/v1/credits/wallets'' = Some (route ''GET'' [Lit ''credits'', Lit ''wallets''] (Permitted ''credits:read''))"
  "serves ''GET'' ''/api/v1/credits/ledger'' = Some (route ''GET'' [Lit ''credits'', Lit ''ledger''] (Permitted ''credits:read''))"
  "serves ''POST'' ''/api/v1/credits/grant'' = Some (route ''POST'' [Lit ''credits'', Lit ''grant''] (Permitted ''credits:grant''))"
  "serves ''GET'' ''/api/v1/audit'' = Some (route ''GET'' [Lit ''audit''] (Permitted ''audit:read''))"
  by code_simp+

lemma cli_param_routes:
  "path_param x \<Longrightarrow> serves ''PATCH'' (''/api/v1/admin/products/'' @ x) = Some (route ''PATCH'' [Lit ''admin'', Lit ''products'', Param] PlatformAdmin)"
  "path_param x \<Longrightarrow> serves ''PATCH'' (''/api/v1/tenants/'' @ x) = Some (route ''PATCH'' [Lit ''tenants'', Param] (Permitted ''tenants:write''))"
  "path_param x \<Longrightarrow> serves ''POST'' (''/api/v1/tenants/'' @ x @ ''/activate'') = Some (route ''POST'' [Lit ''tenants'', Param, Lit ''activate''] (Permitted ''tenants:write''))"
  "path_param x \<Longrightarrow> serves ''POST'' (''/api/v1/tenants/'' @ x @ ''/deactivate'') = Some (route ''POST'' [Lit ''tenants'', Param, Lit ''deactivate''] (Permitted ''tenants:write''))"
  "path_param x \<Longrightarrow> serves ''POST'' (''/api/v1/users/'' @ x @ ''/activate'') = Some (route ''POST'' [Lit ''users'', Param, Lit ''activate''] (Permitted ''users:activate''))"
  "path_param x \<Longrightarrow> serves ''POST'' (''/api/v1/users/'' @ x @ ''/deactivate'') = Some (route ''POST'' [Lit ''users'', Param, Lit ''deactivate''] (Permitted ''users:activate''))"
  "path_param x \<Longrightarrow> serves ''DELETE'' (''/api/v1/users/'' @ x) = Some (route ''DELETE'' [Lit ''users'', Param] (Permitted ''users:delete''))"
  "path_param x \<Longrightarrow> serves ''PATCH'' (''/api/v1/plans/'' @ x) = Some (route ''PATCH'' [Lit ''plans'', Param] (Permitted ''plans:write''))"
  by (auto dest!: path_paramD simp: serves_def routing route_def route_matches_def admin_router_def tenants_router_def
    users_router_def plans_router_def)

lemma cli_bodies:
  "route_body (route ''GET'' [Lit ''admin'', Lit ''products''] PlatformAdmin) = None"
  "route_body (route ''POST'' [Lit ''admin'', Lit ''products''] PlatformAdmin) = Some ProductCreate_model"
  "route_body (route ''PATCH'' [Lit ''admin'', Lit ''products'', Param] PlatformAdmin) = Some ProductUpdate_model"
  "route_body (route ''GET'' [Lit ''auth'', Lit ''me''] SignedIn) = None"
  "route_body (route ''POST'' [Lit ''auth'', Lit ''login''] ProductHeader) = Some LoginRequest_model"
  "route_body (route ''POST'' [Lit ''auth'', Lit ''logout''] SignedIn) = Some LogoutRequest_model"
  "route_body (route ''GET'' [Lit ''tenants''] (Permitted ''tenants:read'')) = None"
  "route_body (route ''POST'' [Lit ''tenants''] (Permitted ''tenants:write'')) = Some TenantCreate_model"
  "route_body (route ''GET'' [Lit ''tenants'', Lit ''children''] (Permitted ''tenants:read'')) = None"
  "route_body (route ''PATCH'' [Lit ''tenants'', Param] (Permitted ''tenants:write'')) = Some TenantUpdate_model"
  "route_body (route ''POST'' [Lit ''tenants'', Param, Lit ''activate''] (Permitted ''tenants:write'')) = None"
  "route_body (route ''POST'' [Lit ''tenants'', Param, Lit ''deactivate''] (Permitted ''tenants:write'')) = None"
  "route_body (route ''GET'' [Lit ''users''] (Permitted ''users:read'')) = None"
  "route_body (route ''POST'' [Lit ''users''] (Permitted ''users:write'')) = Some UserInvite_model"
  "route_body (route ''POST'' [Lit ''users'', Param, Lit ''activate''] (Permitted ''users:activate'')) = None"
  "route_body (route ''POST'' [Lit ''users'', Param, Lit ''deactivate''] (Permitted ''users:activate'')) = None"
  "route_body (route ''DELETE'' [Lit ''users'', Param] (Permitted ''users:delete'')) = None"
  "route_body (route ''GET'' [Lit ''plans''] ProductHeader) = None"
  "route_body (route ''POST'' [Lit ''plans''] (Permitted ''plans:write'')) = Some PlanCreate_model"
  "route_body (route ''PATCH'' [Lit ''plans'', Param] (Permitted ''plans:write'')) = Some PlanUpdate_model"
  "route_body (route ''GET'' [Lit ''subscription''] (Permitted ''subscriptions:read'')) = None"
  "route_body (route ''POST'' [Lit ''subscription'', Lit ''purchase''] (Permitted ''subscriptions:purchase'')) = Some PurchaseRequest_model"
  "route_body (route ''POST'' [Lit ''subscription'', Lit ''change''] (Permitted ''subscriptions:change'')) = Some ChangePlanRequest_model"
  "route_body (route ''POST'' [Lit ''subscription'', Lit ''cancel''] (Permitted ''subscriptions:cancel'')) = Some CancelRequest_model"
  "route_body (route ''GET'' [Lit ''credits'', Lit ''wallets''] (Permitted ''credits:read'')) = None"
  "route_body (route ''GET'' [Lit ''credits'', Lit ''ledger''] (Permitted ''credits:read'')) = None"
  "route_body (route ''POST'' [Lit ''credits'', Lit ''grant''] (Permitted ''credits:grant'')) = Some CreditGrantRequest_model"
  "route_body (route ''GET'' [Lit ''audit''] (Permitted ''audit:read'')) = None"
  by code_simp+

text \<open>The parts of a path that the user types.\<close>

fun cli_params :: "CliCommand \<Rightarrow> string list" where
  "cli_params (ProductsCmd (CliProductsUpdate slug _ _ _ _ _)) = [slug]"
| "cli_params (TenantsCmd (CliTenantsActivate _ tenant_id)) = [tenant_id]"
| "cli_params (TenantsCmd (CliTenantsDeactivate _ tenant_id)) = [tenant_id]"
| "cli_params (TenantsCmd (CliTenantsExpire _ tenant_id _)) = [tenant_id]"
| "cli_params (UsersCmd (CliUsersActivate _ _ user_id)) = [user_id]"
| "cli_params (UsersCmd (CliUsersDeactivate _ _ user_id)) = [user_id]"
| "cli_params (UsersCmd (CliUsersDelete _ _ user_id _)) = [user_id]"
| "cli_params (PlansCmd (CliPlansUpdate _ code _ _ _ _ _)) = [code]"
| "cli_params _ = []"

text \<open>The options of a new plan that the service accepts.\<close>

fun cli_plan_ok :: "console \<Rightarrow> CliCommand \<Rightarrow> bool" where
  "cli_plan_ok c (PlansCmd (CliPlansCreate _ p)) \<longleftrightarrow> str_lower (np_interval p) \<in> {''month'', ''year''} \<and>
     (case json_loads c (the (np_features_json p)) of
        Some (JList xs) \<Rightarrow> list_all (conforms PlanFeatureIn_model) xs | _ \<Rightarrow> True)"
| "cli_plan_ok c _ \<longleftrightarrow> True"

lemmas fits_simps = fits_serves cli_routes cli_param_routes [unfolded append_Cons append_Nil] cli_bodies guard_of_route spec_defs scoped_def keyed_def carries_def
  is_user_call_def want_admin_def is_admin_path_def API_PREFIX_def map_add_def

section \<open>The groups\<close>

lemma products_fits:
  assumes "cli_products c x = Inr spec" and "list_all path_param (cli_params (ProductsCmd x))"
  shows "fits spec"
proof (cases x)
  case CliProductsList
  then show ?thesis using assms by (auto simp: fits_simps)
next
  case (CliProductsCreate slug name description tenant_type seed_plans settings_json)
  then obtain knd obj where t: "choice [''company'', ''individual''] tenant_type = Inr knd"
    and spec: "spec = as_admin (with_body ([(''slug'', JStr slug), (''name'', JStr name),
      (''seed_plans'', JBool seed_plans), (''tenant_type'', JStr knd), (''settings'', JObj obj)] @
      given ''description'' JStr description) (request_spec ''POST'' ''/api/v1/admin/products''))"
    using assms(1) by (auto split: sum.splits)
  show ?thesis
    using choice_models(1) [OF t] by (auto simp: spec fits_simps ProductCreate_model_def split: option.splits)
next
  case (CliProductsUpdate slug name description status is_active settings_json)
  then obtain st obj where t: "(case status of None \<Rightarrow> Inr None
      | Some s \<Rightarrow> map_sum id Some (choice [''active'', ''disabled'', ''archived''] s)) = Inr st"
    and spec: "spec = as_admin (with_body (given ''name'' JStr name @ given ''description'' JStr description @ given ''status'' JStr st @
      given ''is_active'' JBool is_active @ given ''settings'' JObj obj) (request_spec ''PATCH'' (''/api/v1/admin/products/'' @ slug)))"
    using assms(1) by (auto simp: Let_def split: sum.splits if_splits)
  have "\<forall>v. st = Some v \<longrightarrow> v \<in> set product_statuses"
    using t choice_models(2) by (auto split: option.splits simp: map_sum_def split: sum.splits)
  then show ?thesis
    using assms(2) CliProductsUpdate by (auto simp: spec fits_simps ProductUpdate_model_def split: option.splits)
qed

lemma tenants_fits:
  assumes "cli_tenants c x = Inr spec" and "list_all path_param (cli_params (TenantsCmd x))"
  shows "fits spec"
proof (cases x)
  case (CliTenantsCreate product t)
  then obtain knd obj where k: "choice [''company'', ''individual''] (nt_type t) = Inr knd"
    and spec: "spec = scoped product None (with_body ([(''slug'', JStr (nt_slug t)), (''name'', JStr (nt_name t)), (''type'', JStr knd),
      (''settings'', JObj obj)] @ given_text ''parent_id'' (nt_parent_id t) @ given_text ''expires_at'' (nt_expires_at t) @
      owner_body c t @ given_text ''plan_code'' (nt_plan_code t)) (request_spec ''POST'' ''/api/v1/tenants''))"
    using assms(1) by (auto simp: tenant_body_def split: sum.splits)
  have owner: "owner_body c t = given ''owner'' (\<lambda>o'. o') (if truthy (nt_owner_email t) then Some (JObj [(''email'', JStr (the (nt_owner_email t))),
      (''password'', JStr (if truthy (nt_owner_password t) then the (nt_owner_password t) else answer c ''owner password'')),
      (''full_name'', jopt JStr (nt_owner_name t))]) else None)"
    by (simp add: owner_body_def given_def)
  show ?thesis
    using choice_models(1) [OF k]
    by (auto simp: spec owner fits_simps TenantCreate_model_def TenantOwner_model_def jopt_def split: option.splits)
next
  case (CliTenantsExpire product tenant_id at_time)
  then have "spec = scoped product None (with_body [(''expires_at'', expiry_json c at_time)]
      (request_spec ''PATCH'' (''/api/v1/tenants/'' @ tenant_id)))"
    using assms(1) by simp
  then show ?thesis
    using assms(2) CliTenantsExpire
    by (auto simp: fits_simps TenantUpdate_model_def expiry_json_def split: option.splits)
qed (use assms in \<open>auto simp: fits_simps\<close>)

lemma users_fits:
  assumes "cli_users c x = Inr spec" and "list_all path_param (cli_params (UsersCmd x))"
  shows "fits spec"
proof (cases x)
  case (CliUsersInvite product tenant address full_name codes password)
  then show ?thesis
    using assms(1) by (auto simp: fits_simps UserInvite_model_def split: option.splits)
qed (use assms in \<open>auto simp: fits_simps split: if_splits\<close>)

lemma plans_fits:
  assumes "cli_plans c x = Inr spec" and "list_all path_param (cli_params (PlansCmd x))" and "cli_plan_ok c (PlansCmd x)"
  shows "fits spec"
proof (cases x)
  case (CliPlansList product)
  then show ?thesis using assms(1) by (auto simp: fits_simps)
next
  case (CliPlansCreate product p)
  then obtain interval feats where i: "choice [''month'', ''year'', ''week'', ''day''] (np_interval p) = Inr interval"
    and f: "(if truthy (np_features_json p) then json_array c (the (np_features_json p)) else Inr []) = Inr feats"
    and spec: "spec = scoped product None (with_body ([(''code'', JStr (np_code p)), (''name'', JStr (np_name p)),
      (''price_cents'', JInt (np_price_cents p)), (''currency'', JStr (map upper_char (np_currency p))), (''interval'', JStr interval),
      (''trial_days'', JInt (np_trial_days p)), (''is_public'', JBool (np_is_public p)), (''features'', JList feats)] @
      given ''description'' JStr (np_description p)) (request_spec ''POST'' ''/api/v1/plans''))"
    using assms(1) by (auto simp: plan_body_def split: sum.splits)
  have "interval \<in> set billing_intervals"
    using choiceD [OF i] assms(3) CliPlansCreate by (auto simp: billing_intervals_def)
  moreover have "list_all (conforms PlanFeatureIn_model) feats"
    using f assms(3) CliPlansCreate by (auto simp: json_array_def split: if_splits option.splits json.splits)
  ultimately show ?thesis
    by (auto simp: spec fits_simps PlanCreate_model_def split: option.splits)
next
  case (CliPlansUpdate product code name description price_cents is_public is_active)
  then have "spec = scoped product None (with_body (given ''name'' JStr name @ given ''description'' JStr description @
      given ''price_cents'' JInt price_cents @ given ''is_public'' JBool is_public @ given ''is_active'' JBool is_active)
      (request_spec ''PATCH'' (''/api/v1/plans/'' @ code)))"
    using assms(1) by (auto simp: Let_def split: if_splits)
  then show ?thesis
    using assms(2) CliPlansUpdate by (auto simp: fits_simps PlanUpdate_model_def split: option.splits)
qed

lemma subscription_fits: "cli_subscription x = Inr spec \<Longrightarrow> fits spec"
  by (cases x) (auto simp: fits_simps PurchaseRequest_model_def ChangePlanRequest_model_def CancelRequest_model_def)

lemma credits_fits: "cli_credits c x = Inr spec \<Longrightarrow> fits spec"
  by (cases x) (auto simp: fits_simps CreditGrantRequest_model_def split: sum.splits option.splits)

lemma login_fits: "fits (login_spec product address password tenant)"
  by (auto simp: login_spec_def fits_simps LoginRequest_model_def)

lemma audit_fits: "fits (audit_spec ''/api/v1/audit'' product tenant limit)"
    "fits (audit_spec ''/api/v1/credits/ledger'' product tenant limit)"
  by (simp_all add: audit_spec_def fits_simps)


definition sample_console :: console where
  "sample_console = \<lparr>json_loads = (\<lambda>_. None), decimal = (\<lambda>s. Some (True, s)), answer = (\<lambda>_. ''secret''),
     confirmed = True, iso_now = ''2026-01-01''\<rparr>"


section \<open>The session of the command line\<close>

lemma base_config_keys: "map fst (base_config g file) = config_keys"
  unfolding base_config_def
  by (simp add: load_keys dict_set_keys config_keys_def del: set_map)

lemma cleared_session: "cli_get (clear_session f) = None" "cli_get (clear_admin_token (clear_session f)) = None"
proof -
  have keys: "map fst (dict_set (load_config f) ''session'' JNull) = config_keys"
    by (subst dict_set_keys) (simp_all add: load_keys config_keys_def del: set_map)
  have "map fst (dict_set (dict_set (dict_set (load_config f) ''session'' JNull) ''admin_token'' JNull) ''admin_product_slug'' JNull) = config_keys"
    using keys by (subst dict_set_keys, subst dict_set_keys) (simp_all add: config_keys_def dict_set_keys del: set_map)
  then show "cli_get (clear_session f) = None" "cli_get (clear_admin_token (clear_session f)) = None"
    using keys by (simp_all add: cli_get_def clear_admin_token_def clear_session_def load_saved session_of_def dict_get_def)
qed

lemma login_stores:
  assumes "login_cmd m c g opts s = (Inr (), s')" and "\<not> truthy (lo_admin_token opts)"
  obtains product address tokens s1 a r t where "lo_product opts = Some product" "product \<noteq> []" "tokens = JObj t"
    "map_of t ''access_token'' = Some a" "map_of t ''refresh_token'' = Some r"
    "api_request (login_client m (base_config g (stored_tokens s)) product (stored_tokens s))
       (login_spec product address (answer c ''password'') (lo_tenant opts)) s = (Inr tokens, s1)"
    "load_config (stored_tokens s') = dict_set (base_config g (stored_tokens s)) ''session'' (JObj [(''access_token'', a),
       (''refresh_token'', r), (''expires_at'', dict_get t ''expires_at'' JNull), (''product_slug'', JStr product),
       (''email'', JStr address)])"
    "remote s' = remote s1"
proof -
  let ?config = "base_config g (stored_tokens s)" and ?product = "the (lo_product opts)"
    and ?address = "if truthy (lo_email opts) then the (lo_email opts) else answer c ''email''"
  have product: "lo_product opts = Some ?product" "?product \<noteq> []"
    using assms by (cases "lo_product opts"; auto simp: login_cmd_def Let_def split: if_splits)+
  obtain x s1 where x: "api_request (login_client m ?config ?product (stored_tokens s))
      (login_spec ?product ?address (answer c ''password'') (lo_tenant opts)) s = (x, s1)"
    by fastforce
  obtain tokens session where t: "x = Inr tokens" "login_session ?product ?address tokens = Inr session"
      "s' = s1\<lparr>stored_tokens := save_config (dict_set ?config ''session'' session)\<rparr>"
    using assms x product by (cases x) (auto simp: login_cmd_def Let_def split: sum.splits if_splits option.splits)
  then obtain d a r where d: "tokens = JObj d" "map_of d ''access_token'' = Some a" "map_of d ''refresh_token'' = Some r"
      "session = JObj [(''access_token'', a), (''refresh_token'', r), (''expires_at'', dict_get d ''expires_at'' JNull),
        (''product_slug'', JStr ?product), (''email'', JStr ?address)]"
    by (cases tokens) (auto simp: login_session_def split: sum.splits option.splits)
  have "map fst (dict_set ?config ''session'' session) = config_keys"
    by (subst dict_set_keys) (simp_all add: base_config_keys config_keys_def del: set_map)
  then have "load_config (stored_tokens s') = dict_set ?config ''session'' session"
    by (simp add: t(3) load_saved)
  then show ?thesis
    by (rule that [OF product d(1-3) x [unfolded t(1)], unfolded d(4) [symmetric]]) (simp add: t(3))
qed


text \<open>A service that signs everybody in.\<close>

definition sample_machine :: "unit machine" where
  "sample_machine = \<lparr>json_dump = (\<lambda>_. []), wire = (\<lambda>_ r. (Inr \<lparr>rs_status_code = 200, rs_empty = False,
     rs_json = Some (JObj [(''access_token'', JStr ''ey''), (''refresh_token'', JStr ''rt'')]), rs_reason_phrase = ''OK''\<rparr>, r)),
     random_key = (\<lambda>_. [])\<rparr>"

definition sample_login :: login_options where
  "sample_login = \<lparr>lo_product = Some ''shop'', lo_email = Some ''ann@example.com'', lo_tenant = None, lo_admin_token = None,
     lo_admin_product = None\<rparr>"

definition no_globals :: cli_globals where
  "no_globals = \<lparr>g_base_url = None, g_product_slug = None, g_acting_tenant_slug = None\<rparr>"


section \<open>Where the command line and the service differ\<close>

text \<open>Two of the four intervals the command line offers for a plan are none of the service's.\<close>

lemma cli_interval_refused:
  assumes "cli_plans c (CliPlansCreate product p) = Inr spec" and "str_lower (np_interval p) \<in> {''week'', ''day''}"
  shows "\<not> fits spec"
proof -
  obtain body where b: "plan_body c p = Inr body" "spec = scoped product None (with_body body (request_spec ''POST'' ''/api/v1/plans''))"
    using assms(1) by (auto split: sum.splits)
  have "map_of body ''interval'' = Some (JStr (str_lower (np_interval p)))"
    using b(1) by (auto simp: plan_body_def map_add_def dest!: choiceD split: sum.splits if_splits option.splits)
  then show ?thesis
    using assms(2) by (auto simp: b(2) fits_simps PlanCreate_model_def billing_intervals_def)
qed

text \<open>The audit log comes as a page, a dictionary; the command line takes it for one entry, and none of the columns it
  prints is a key of a page.\<close>

lemma audit_page_dashes:
  assumes "data = JObj [(''items'', items), (''total'', n), (''page'', k), (''page_size'', z)]"
  shows "print_output render False [''created_at'', ''action'', ''actor_user_id'', ''resource_type'', ''resource_id'', ''diff''] data =
    [''created_at | action | actor_user_id | resource_type | resource_id | diff'',
     ''-----------+--------+---------------+---------------+-------------+-----'', ''- | - | - | - | - | -'']"
  by (simp add: assms print_output_def coerce_rows_def table_row_def stringify_def dict_get_def numeral_eq_Suc Let_def)

end
