(* ===== verification/SdkAsync.thy ===== *)
theory SdkAsync
  imports SdkTyped
begin

text \<open>
  The asynchronous client, \<^verbatim>\<open>plynth_sdk/async_client.py\<close>. Its coroutines run without
  interruption from one \<^verbatim>\<open>await\<close> to the next, and two calls on one client share the token store, so a
  call is a machine: its phase says which \<^verbatim>\<open>await\<close> it stands at, and a step takes it to the next. The
  service handles a request in a step of its own. Calls interleave as a schedule says. A call that runs alone does what
  the synchronous client of theory \<open>SdkClient\<close> does; two that overlap may not.
\<close>

section \<open>A call, from await to await\<close>

datatype phase =
    Ready bool
  | Sent bool wire_request
  | Answered bool "string + wire_response"
  | Refreshing wire_response wire_request
  | Refreshed wire_response "string + wire_response"
  | Finished "sdk_error + json"

fun task_step :: "('s, 'r) PlynthClient \<Rightarrow> RequestSpec \<Rightarrow> phase \<Rightarrow> ('s, 'r) session \<Rightarrow> phase \<times> ('s, 'r) session" where
  "task_step c spec (Ready retried) s =
     (case build_headers c spec s of
        (Inl e, s) \<Rightarrow> (Finished (Inl e), s)
      | (Inr h, s) \<Rightarrow> (Sent retried (request_of spec h), s))"
| "task_step c spec (Sent retried rq) s = (case exchange c rq s of (a, s) \<Rightarrow> (Answered retried a, s))"
| "task_step c spec (Answered retried a) s =
     (case a of
        Inl msg \<Rightarrow> (Finished (Inl (PlynthNetworkError msg)), s)
      | Inr r \<Rightarrow>
          if rs_status_code r = 401 \<and> is_user_call spec \<and> \<not> retried
          then (case tokens_of c s of
                  None \<Rightarrow> (Finished (parse_response (json_text c) r), s)
                | Some current \<Rightarrow>
                    (case SdkClient.json_item current ''refresh_token'' of
                       Inl e \<Rightarrow> (Finished (Inl e), s)
                     | Inr t \<Rightarrow> (Refreshing r (refresh_request t), s)))
          else (Finished (parse_response (json_text c) r), s))"
| "task_step c spec (Refreshing r rq) s = (case exchange c rq s of (a, s) \<Rightarrow> (Refreshed r a, s))"
| "task_step c spec (Refreshed r a) s =
     (case a of
        Inl _ \<Rightarrow> (Finished (parse_response (json_text c) r), clear_tokens c s)
      | Inr q \<Rightarrow>
          if rs_status_code q \<noteq> 200 then (Finished (parse_response (json_text c) r), clear_tokens c s)
          else (case rs_json q of
                  None \<Rightarrow> (Finished (parse_response (json_text c) r), clear_tokens c s)
                | Some next_tokens \<Rightarrow> (Ready True, set_tokens c next_tokens s)))"
| "task_step c spec (Finished x) s = (Finished x, s)"

text \<open>How far a call is from its end.\<close>

fun rank :: "phase \<Rightarrow> nat" where
  "rank (Ready retried) = (if retried then 3 else 8)"
| "rank (Sent retried _) = (if retried then 2 else 7)"
| "rank (Answered retried _) = (if retried then 1 else 6)"
| "rank (Refreshing _ _) = 5"
| "rank (Refreshed _ _) = 4"
| "rank (Finished _) = 0"

lemma rank_step: "rank p \<noteq> 0 \<Longrightarrow> rank (fst (task_step c spec p s)) < rank p"
  by (cases p) (auto split: sum.splits prod.splits option.splits if_splits)

lemma rank_step_le: "rank (fst (task_step c spec p s)) \<le> rank p - 1"
proof (cases p)
  case (Finished x)
  then show ?thesis by simp
qed (use rank_step [of p c spec s] in \<open>auto split: if_splits simp del: task_step.simps\<close>)

text \<open>A call that runs to its end without another in between.\<close>

function run_task :: "('s, 'r) PlynthClient \<Rightarrow> RequestSpec \<Rightarrow> phase \<Rightarrow> ('s, 'r) session \<Rightarrow> (sdk_error + json) \<times> ('s, 'r) session" where
  "run_task c spec p s =
     (case p of Finished x \<Rightarrow> (x, s) | _ \<Rightarrow> run_task c spec (fst (task_step c spec p s)) (snd (task_step c spec p s)))"
  by pat_completeness auto
termination
  by (relation "measure (\<lambda>(_, _, p, _). rank p)") (simp, (simp only: in_measure case_prod_conv, rule rank_step, simp)+)

declare run_task.simps [simp del]

definition async_request :: "('s, 'r) PlynthClient \<Rightarrow> RequestSpec \<Rightarrow> ('s, 'r) session \<Rightarrow> (sdk_error + json) \<times> ('s, 'r) session" where
  "async_request c spec s = run_task c spec (Ready False) s"

lemma run_finished: "run_task c spec (Finished x) s = (x, s)"
  by (simp add: run_task.simps)

lemma run_step: "rank p \<noteq> 0 \<Longrightarrow> run_task c spec p s = (case task_step c spec p s of (p', s') \<Rightarrow> run_task c spec p' s')"
  by (cases p; subst run_task.simps) (simp_all add: split_beta del: task_step.simps)

lemma run_answered_last:
  "run_task c spec (Answered True a) s =
     (case a of Inl msg \<Rightarrow> (Inl (PlynthNetworkError msg), s) | Inr r \<Rightarrow> (parse_response (json_text c) r, s))"
  by (simp add: run_step run_finished split: sum.splits)

lemma run_refreshing:
  assumes "refresh_session c s = (x, s')" and "tokens_of c s = Some current" and "SdkClient.json_item current ''refresh_token'' = Inr t"
  shows "run_task c spec (Refreshing r (refresh_request t)) s =
     (case x of Inl e \<Rightarrow> (Inl e, s') | Inr ok \<Rightarrow> if ok then run_task c spec (Ready True) s' else (parse_response (json_text c) r, s'))"
  using assms
  by (auto simp: run_step run_finished refresh_session_def split: sum.splits prod.splits option.splits if_splits)

lemma run_ready:
  "run_task c spec (Ready retried) s =
     (case build_headers c spec s of
        (Inl e, s) \<Rightarrow> (Inl e, s)
      | (Inr h, s) \<Rightarrow> (case exchange c (request_of spec h) s of (a, s) \<Rightarrow> run_task c spec (Answered retried a) s))"
  by (simp add: run_step run_finished split: sum.splits prod.splits)

lemma run_last: "run_task c spec (Ready True) s = send c spec True s"
  by (simp add: run_ready run_answered_last send.simps [of c spec True] split: sum.splits prod.splits)

lemma run_answered_first:
  "run_task c spec (Answered False a) s =
     (case a of
        Inl msg \<Rightarrow> (Inl (PlynthNetworkError msg), s)
      | Inr r \<Rightarrow>
          if rs_status_code r = 401 \<and> is_user_call spec
          then (case refresh_session c s of
                  (Inl e, s) \<Rightarrow> (Inl e, s)
                | (Inr ok, s) \<Rightarrow> if ok then send c spec True s else (parse_response (json_text c) r, s))
          else (parse_response (json_text c) r, s))"
proof (cases a)
  case (Inl msg)
  then show ?thesis by (simp add: run_step run_finished)
next
  case (Inr r)
  obtain x s' where x: "refresh_session c s = (x, s')" by fastforce
  show ?thesis
  proof (cases "rs_status_code r = 401 \<and> is_user_call spec")
    case False
    then show ?thesis using Inr by (auto simp: run_step run_finished)
  next
    case True
    show ?thesis
    proof (cases "tokens_of c s")
      case None
      then show ?thesis using Inr True x by (auto simp: run_step run_finished refresh_session_def)
    next
      case (Some current)
      show ?thesis
      proof (cases "SdkClient.json_item current ''refresh_token''")
        case (Inl e)
        then show ?thesis using \<open>a = Inr r\<close> True Some x by (auto simp: run_step run_finished refresh_session_def)
      next
        case (Inr t)
        then show ?thesis
          using \<open>a = Inr r\<close> True Some run_refreshing [OF x Some Inr, of spec r] x
          by (simp add: run_step [of "Answered False (Inr r)"] run_last split: sum.splits)
      qed
    qed
  qed
qed

lemma run_first: "run_task c spec (Ready False) s = send c spec False s"
  by (simp add: run_ready run_answered_first send.simps [of c spec False] split: sum.splits prod.splits)

text \<open>Alone on its client a call does what the synchronous client does.\<close>

lemma async_request_alone: "async_request c spec s = request c spec s"
  by (simp add: async_request_def request_def run_first)

section \<open>Calls that overlap\<close>

type_synonym tasks = "(RequestSpec \<times> phase) list"

definition pool_step :: "('s, 'r) PlynthClient \<Rightarrow> nat \<Rightarrow> tasks \<times> ('s, 'r) session \<Rightarrow> tasks \<times> ('s, 'r) session" where
  "pool_step c i x = (case x of (calls, s) \<Rightarrow>
     if i < length calls
     then (case task_step c (fst (calls ! i)) (snd (calls ! i)) s of (p, s') \<Rightarrow> (calls[i := (fst (calls ! i), p)], s'))
     else (calls, s))"

definition run_schedule :: "('s, 'r) PlynthClient \<Rightarrow> nat list \<Rightarrow> tasks \<times> ('s, 'r) session \<Rightarrow> tasks \<times> ('s, 'r) session" where
  "run_schedule c order x = fold (pool_step c) order x"

lemma pool_step_rank:
  assumes "i < length calls" and "pool_step c j (calls, s) = (calls', s')"
  shows "length calls' = length calls \<and> rank (snd (calls' ! i)) \<le> rank (snd (calls ! i)) - (if i = j then 1 else 0)"
proof (cases "j < length calls")
  case True
  obtain p v where p: "task_step c (fst (calls ! j)) (snd (calls ! j)) s = (p, v)" by fastforce
  have "rank p \<le> rank (snd (calls ! j)) - 1"
    using rank_step_le [of c "fst (calls ! j)" "snd (calls ! j)" s] p by simp
  then show ?thesis using assms True p by (auto simp: pool_step_def nth_list_update)
qed (use assms in \<open>auto simp: pool_step_def\<close>)

text \<open>Every call ends, however the calls interleave: eight steps of its own are enough.\<close>

lemma schedule_ends:
  assumes "i < length calls" and "run_schedule c order (calls, s) = (calls', s')"
  shows "length calls' = length calls \<and> rank (snd (calls' ! i)) \<le> rank (snd (calls ! i)) - count_list order i"
  using assms
proof (induction order arbitrary: calls s)
  case Nil
  then show ?case by (simp add: run_schedule_def)
next
  case (Cons j js)
  obtain calls1 s1 where one: "pool_step c j (calls, s) = (calls1, s1)" by fastforce
  note step = pool_step_rank [OF Cons.prems(1) one]
  have "run_schedule c js (calls1, s1) = (calls', s')" using Cons.prems(2) one by (simp add: run_schedule_def)
  from Cons.IH [OF _ this] step Cons.prems(1) show ?case by (auto split: if_splits)
qed

lemma schedule_finishes:
  assumes "i < length calls" and "run_schedule c order (calls, s) = (calls', s')" and "8 \<le> count_list order i"
  shows "\<exists>x. snd (calls' ! i) = Finished x"
proof -
  have "rank p \<le> 8" for p by (cases p) auto
  then have "rank (snd (calls' ! i)) = 0" using schedule_ends [OF assms(1,2)] assms(3) by (metis diff_is_0_eq le_trans le_zero_eq)
  then show ?thesis by (cases "snd (calls' ! i)") (auto split: if_splits)
qed

text \<open>What the life of a token depends on.\<close>

definition alike :: "world \<Rightarrow> world \<Rightarrow> bool" where
  "alike w v \<longleftrightarrow> db v = db w \<and> lib v = lib w \<and> now v = now w \<and> settings v = settings w \<and> draws v = draws w \<and> draw_no w \<le> draw_no v \<and>
     redis_up v = redis_up w \<and> slug_cache v = slug_cache w"

lemma alike_refl [simp]: "alike w w"
  by (simp add: alike_def)

lemma alike_trans: "alike u v \<Longrightarrow> alike v w \<Longrightarrow> alike u w"
  by (auto simp: alike_def)

lemma alike_started [simp]: "alike w (started x w)"
  by (simp add: alike_def started_draws)

lemma live_token_alike: "live_token tok u w \<Longrightarrow> alike w v \<Longrightarrow> live_token tok u v"
  by (auto simp: alike_def elim: live_token_later)

lemma me_anonymous:
  assumes "h_authorization h = None" and "\<not> truthy (h_platform_admin_token h)" and "slug_fits (h_product_slug h) p w"
  shows "\<exists>e v. me h w = (Inl e, v) \<and> alike w v"
  using assms(1,2) resolve_fits [OF assms(3)]
  by (auto simp: me_def request_user_def get_current_user_def bearer_session_def svc_simps alike_def)

lemma dead_refresh_quiet:
  assumes "refresh_dead tok w"
  shows "\<exists>e. refresh_tokens_route tok w = (Inl e, w)"
proof (cases "jwt_decode (lib w) (now w) tok")
  case None
  then show ?thesis by (simp add: refresh_tokens_route_def refresh_def decode_token_def svc_simps)
next
  case (Some c)
  then obtain r where "List.find (\<lambda>r. RefreshToken_jti r = claim_jti c) (refresh_tokens (db w)) = Some r" "RefreshToken_revoked_at r \<noteq> None"
    using assms unfolding refresh_dead_def jti_dead_def by blast
  then show ?thesis using Some by (simp add: refresh_tokens_route_def refresh_def decode_token_def svc_simps)
qed

lemma serve_raises:
  assumes "m (started (map_of (rq_headers rq) ''X-Request-ID'') w) = (Inl e, v)"
    and "alike (started (map_of (rq_headers rq) ''X-Request-ID'') w) v"
  obtains w' where "serve f rq m w = (Inr (reply f (Failure (status_code e) (snd (fst (error_response e))))), w')" "alike w w'"
proof -
  obtain a w' where run: "serve f rq m w = (a, w')" by fastforce
  have "alike w v" by (rule alike_trans [OF alike_started assms(2)])
  then show ?thesis
    by (cases rule: serve_cases [OF run]) (use assms(1) run in \<open>auto simp: alike_def intro: that\<close>)
qed

lemma parse_failure: "400 \<le> st \<Longrightarrow> \<exists>e. parse_response render (reply f (Failure st x)) = Inl e"
  by (simp add: parse_response_def is_success_def split: option.splits)

text \<open>Two calls on a client whose access token has gone stale, at their first \<^verbatim>\<open>await\<close>s: both are refused, and
  both go for a refresh with the one refresh token. Then the first refresh is granted and the second is not.\<close>

definition overlapping :: "nat list" where
  "overlapping = [0, 1, 0, 1, 0, 1, 0, 1, 0, 1, 0, 0, 0]"

definition two_calls :: tasks where
  "two_calls = [(auth_spec AuthMe, Ready False), (auth_spec AuthMe, Ready False)]"

lemma me_user_call: "is_user_call (auth_spec AuthMe)"
  by (simp add: is_user_call_def auth_spec.simps request_spec_def is_admin_path_def API_PREFIX_def)

abbreviation refusal :: "('a \<Rightarrow> json) \<Rightarrow> app_error \<Rightarrow> wire_response" where
  "refusal f e \<equiv> reply f (Failure (status_code e) (snd (fst (error_response e))))"

lemma served_stale_alike:
  assumes "scheme (''Bearer '' @ t) = Some t" and "jwt_decode (lib w) (now w) t = None" and "slug_fits (product_slug (cfg c)) p w"
  obtains e w' where "serve me_json rq (me (request_headers scheme (me_headers c t))) w = (Inr (refusal me_json e), w')"
    "status_code e = 401" "alike w w'"
proof -
  obtain a w' where run: "serve me_json rq (me (request_headers scheme (me_headers c t))) w = (a, w')" by fastforce
  show ?thesis
    by (rule served_stale [where scheme = scheme, OF assms run]) (use run in \<open>auto simp: alike_def intro: that\<close>)
qed

text \<open>Two refreshes with one token: the service grants the first and refuses the second.\<close>

lemma served_refreshes:
  assumes "live_token tok u w" and "libs_ok w" and "sessions_ok w" and "0 < jwt_refresh_ttl_seconds (settings w)"
  obtains p v e v' where
    "serve token_pair_json (refresh_request (JStr tok)) (refresh_tokens_route tok) w = (Inr (reply token_pair_json (Success p)), v)"
    "serve token_pair_json (refresh_request (JStr tok)) (refresh_tokens_route tok) v = (Inr (refusal token_pair_json e), v')"
    "400 \<le> status_code e" "live_token (tp_refresh_token p) u v'" "redis_up v' = redis_up w" "slug_cache v' = slug_cache w"
proof -
  let ?run = "serve token_pair_json (refresh_request (JStr tok)) (refresh_tokens_route tok)" and ?w = "started None w"
  have ok: "libs_ok ?w" "sessions_ok ?w" "0 < jwt_refresh_ttl_seconds (settings ?w)"
    using assms(2-4) by (auto simp: libs_ok_def started_draws intro: sessions_ok_later)
  have "live_token tok u ?w" by (rule live_token_alike [OF assms(1) alike_started])
  then obtain access new exp v where run: "refresh tok ?w = (Inr (u, access, new, exp), v)"
    using live_token_refreshes by blast
  then have granted: "?run w = (Inr (reply token_pair_json (Success (token_pair (u, access, new, exp)))), v)"
    using serve_cases [of token_pair_json "refresh_request (JStr tok)" "refresh_tokens_route tok" w]
    by (cases "?run w") (fastforce simp: refresh_tokens_route_def bindS_apply ret_apply refresh_request_def)
  have "refresh_dead tok (started None v)"
    using refresh_kills [OF ok(1) run] by (simp add: refresh_dead_def jti_dead_def)
  then obtain e where e: "refresh_tokens_route tok (started None v) = (Inl e, started None v)"
    using dead_refresh_quiet by blast
  obtain v' where refused: "?run v = (Inr (refusal token_pair_json e), v')" "alike v v'"
    by (rule serve_raises [where m = "refresh_tokens_route tok" and rq = "refresh_request (JStr tok)" and f = token_pair_json and w = v
      and e = e and v = "started None v"]) (simp_all add: refresh_request_def e)
  have "redis_up v = redis_up w" "slug_cache v = slug_cache w"
    by (cases rule: refreshD [OF ok(2) run], simp)+
  then show ?thesis
    using that [OF granted refused(1) refusesD [OF refresh_refuses e]] refused(2)
      live_token_alike [OF refreshed_live [OF ok run] refused(2)] by (simp add: alike_def)
qed

abbreviation anonymous_headers :: "('s, 'r) PlynthClient \<Rightarrow> (string \<times> string) list" where
  "anonymous_headers c \<equiv> [(''Accept'', ''application/json'')] @ header ''X-Product-Slug'' (product_slug (cfg c))"

lemma served_anonymous:
  assumes "slug_fits (product_slug (cfg c)) p w"
  obtains e w' where "serve me_json rq (me (request_headers scheme (anonymous_headers c))) w = (Inr (refusal me_json e), w')"
    "400 \<le> status_code e" "alike w w'"
proof -
  let ?h = "request_headers scheme (anonymous_headers c)" and ?w = "started (map_of (rq_headers rq) ''X-Request-ID'') w"
  have "h_authorization ?h = None" "\<not> truthy (h_platform_admin_token ?h)" "slug_fits (h_product_slug ?h) p ?w"
    using assms by (cases "product_slug (cfg c)"; auto simp: slug_fits_def request_headers_def header_def)+
  then obtain e v where e: "me ?h ?w = (Inl e, v)" "alike ?w v"
    using me_anonymous by blast
  show ?thesis
    by (rule serve_raises [where m = "me ?h" and rq = rq and w = w and f = me_json, OF e]) (rule that [OF _ refusesD [OF me_refuses e(1)]])
qed



end
