(* ===== verification/AsyncResources.thy ===== *)
theory AsyncResources
  imports SdkAsync
begin

text \<open>
  The resource classes of the asynchronous client, \<^verbatim>\<open>plynth_sdk/resources/async_.py\<close>. Its text
  says that it mirrors the synchronous one exactly: the methods are those of theory \<open>SdkResources\<close>, the requests are
  written out from the asynchronous file, and the lemmas compare them, class by class.
\<close>

section \<open>Requests of the asynchronous resources\<close>

fun async_auth_spec :: "AuthCall \<Rightarrow> RequestSpec" where
  "async_auth_spec (AuthRegister req) = idempotent (no_auth (with_body req (request_spec ''POST'' ''/api/v1/auth/register'')))"
| "async_auth_spec (AuthRegisterIndividual req) =
     idempotent (no_auth (with_body req (request_spec ''POST'' ''/api/v1/auth/register-individual'')))"
| "async_auth_spec (AuthLogin req) = no_auth (with_body req (request_spec ''POST'' ''/api/v1/auth/login''))"
| "async_auth_spec (AuthGoogle req) = no_auth (with_body req (request_spec ''POST'' ''/api/v1/auth/google''))"
| "async_auth_spec (AuthLogout req) = with_body req (request_spec ''POST'' ''/api/v1/auth/logout'')"
| "async_auth_spec AuthMe = request_spec ''GET'' ''/api/v1/auth/me''"
| "async_auth_spec (AuthChangePassword req) = with_body req (request_spec ''POST'' ''/api/v1/auth/password'')"
| "async_auth_spec (AuthForgotPassword req) = no_auth (with_body req (request_spec ''POST'' ''/api/v1/auth/password/forgot''))"
| "async_auth_spec (AuthResetPassword req) = no_auth (with_body req (request_spec ''POST'' ''/api/v1/auth/password/reset''))"

fun async_tenants_spec :: "TenantsCall \<Rightarrow> RequestSpec" where
  "async_tenants_spec TenantsList = request_spec ''GET'' ''/api/v1/tenants''"
| "async_tenants_spec (TenantsCreate req) = idempotent (with_body req (request_spec ''POST'' ''/api/v1/tenants''))"
| "async_tenants_spec TenantsChildren = request_spec ''GET'' ''/api/v1/tenants/children''"
| "async_tenants_spec (TenantsUpdate tenant_id req) =
     idempotent (with_body req (request_spec ''PATCH'' (''/api/v1/tenants/'' @ tenant_id)))"
| "async_tenants_spec (TenantsActivate tenant_id) =
     idempotent (request_spec ''POST'' (''/api/v1/tenants/'' @ tenant_id @ ''/activate''))"
| "async_tenants_spec (TenantsDeactivate tenant_id) =
     idempotent (request_spec ''POST'' (''/api/v1/tenants/'' @ tenant_id @ ''/deactivate''))"

fun async_users_spec :: "UsersCall \<Rightarrow> RequestSpec" where
  "async_users_spec UsersList = request_spec ''GET'' ''/api/v1/users''"
| "async_users_spec (UsersInvite req) = idempotent (with_body req (request_spec ''POST'' ''/api/v1/users''))"
| "async_users_spec (UsersUpdate user_id req) = idempotent (with_body req (request_spec ''PATCH'' (''/api/v1/users/'' @ user_id)))"
| "async_users_spec (UsersActivate user_id) = idempotent (request_spec ''POST'' (''/api/v1/users/'' @ user_id @ ''/activate''))"
| "async_users_spec (UsersDeactivate user_id) =
     idempotent (request_spec ''POST'' (''/api/v1/users/'' @ user_id @ ''/deactivate''))"
| "async_users_spec (UsersDelete user_id) = idempotent (request_spec ''DELETE'' (''/api/v1/users/'' @ user_id))"

fun async_plans_spec :: "PlansCall \<Rightarrow> RequestSpec" where
  "async_plans_spec PlansList = no_auth (request_spec ''GET'' ''/api/v1/plans'')"
| "async_plans_spec (PlansCreate req) = idempotent (with_body req (request_spec ''POST'' ''/api/v1/plans''))"
| "async_plans_spec (PlansUpdate code req) = idempotent (with_body req (request_spec ''PATCH'' (''/api/v1/plans/'' @ code)))"

fun async_subscription_spec :: "SubscriptionCall \<Rightarrow> RequestSpec" where
  "async_subscription_spec SubscriptionGet = request_spec ''GET'' ''/api/v1/subscription''"
| "async_subscription_spec (SubscriptionPurchase req) =
     idempotent (with_body req (request_spec ''POST'' ''/api/v1/subscription/purchase''))"
| "async_subscription_spec (SubscriptionChange req) =
     idempotent (with_body req (request_spec ''POST'' ''/api/v1/subscription/change''))"
| "async_subscription_spec (SubscriptionCancel req) =
     idempotent (with_body req (request_spec ''POST'' ''/api/v1/subscription/cancel''))"

fun async_credits_spec :: "CreditsCall \<Rightarrow> RequestSpec" where
  "async_credits_spec CreditsWallets = request_spec ''GET'' ''/api/v1/credits/wallets''"
| "async_credits_spec (CreditsLedger limit cursor) =
     with_params (ledger_params limit cursor) (request_spec ''GET'' ''/api/v1/credits/ledger'')"
| "async_credits_spec (CreditsConsume req) = idempotent (with_body req (request_spec ''POST'' ''/api/v1/credits/consume''))"
| "async_credits_spec (CreditsGrant req) = idempotent (with_body req (request_spec ''POST'' ''/api/v1/credits/grant''))"

fun async_roles_spec :: "RolesCall \<Rightarrow> RequestSpec" where
  "async_roles_spec RolesList = request_spec ''GET'' ''/api/v1/roles''"
| "async_roles_spec (RolesCreate req) = idempotent (with_body req (request_spec ''POST'' ''/api/v1/roles''))"
| "async_roles_spec (RolesUpdate role_id req) = idempotent (with_body req (request_spec ''PATCH'' (''/api/v1/roles/'' @ role_id)))"
| "async_roles_spec (RolesAssign req) = idempotent (with_body req (request_spec ''POST'' ''/api/v1/roles/assign''))"
| "async_roles_spec RolesPermissions = request_spec ''GET'' ''/api/v1/roles/permissions''"

fun async_products_spec :: "ProductsCall \<Rightarrow> RequestSpec" where
  "async_products_spec ProductsList = as_admin (request_spec ''GET'' ''/api/v1/admin/products'')"
| "async_products_spec (ProductsCreate req) =
     idempotent (as_admin (with_body req (request_spec ''POST'' ''/api/v1/admin/products'')))"
| "async_products_spec (ProductsUpdate slug req) =
     idempotent (as_admin (with_body req (request_spec ''PATCH'' (''/api/v1/admin/products/'' @ slug))))"

fun async_admin_env_spec :: "AdminEnvCall \<Rightarrow> RequestSpec" where
  "async_admin_env_spec (AdminEnvList slug) = as_admin (request_spec ''GET'' (''/api/v1/admin/products/'' @ slug @ ''/env''))"
| "async_admin_env_spec (AdminEnvSet slug key req) =
     idempotent (as_admin (with_body req (request_spec ''PUT'' (''/api/v1/admin/products/'' @ slug @ ''/env/'' @ key))))"
| "async_admin_env_spec (AdminEnvPatch slug key req) =
     idempotent (as_admin (with_body req (request_spec ''PATCH'' (''/api/v1/admin/products/'' @ slug @ ''/env/'' @ key))))"
| "async_admin_env_spec (AdminEnvReveal slug key reason) =
     as_admin (with_params [(''reveal'', JBool True), (''reason'', JStr reason)] (request_spec ''GET'' (''/api/v1/admin/products/'' @ slug @ ''/env/'' @ key)))"
| "async_admin_env_spec (AdminEnvDelete slug key) =
     idempotent (as_admin (request_spec ''DELETE'' (''/api/v1/admin/products/'' @ slug @ ''/env/'' @ key)))"

fun async_service_tokens_spec :: "ServiceTokensCall \<Rightarrow> RequestSpec" where
  "async_service_tokens_spec (ServiceTokensIssue slug req) =
     idempotent (as_admin (with_body req (request_spec ''POST'' (''/api/v1/admin/products/'' @ slug @ ''/service-tokens''))))"
| "async_service_tokens_spec (ServiceTokensList slug) =
     as_admin (request_spec ''GET'' (''/api/v1/admin/products/'' @ slug @ ''/service-tokens''))"
| "async_service_tokens_spec (ServiceTokensRevoke slug token_id) =
     idempotent (as_admin (request_spec ''DELETE'' (''/api/v1/admin/products/'' @ slug @ ''/service-tokens/'' @ token_id)))"

fun async_env_spec :: "EnvCall \<Rightarrow> RequestSpec" where
  "async_env_spec EnvFetch = as_service (request_spec ''GET'' ''/api/v1/env'')"

fun async_admin_components_spec :: "AdminComponentsCall \<Rightarrow> RequestSpec" where
  "async_admin_components_spec (AdminComponentsList slug) =
     as_admin (request_spec ''GET'' (''/api/v1/admin/products/'' @ slug @ ''/components''))"
| "async_admin_components_spec (AdminComponentsCreate slug req) =
     idempotent (as_admin (with_body req (request_spec ''POST'' (''/api/v1/admin/products/'' @ slug @ ''/components''))))"
| "async_admin_components_spec (AdminComponentsUpdate slug code req) =
     idempotent (as_admin (with_body req (request_spec ''PATCH'' (''/api/v1/admin/products/'' @ slug @ ''/components/'' @ code))))"
| "async_admin_components_spec (AdminComponentsDelete slug code) =
     idempotent (as_admin (request_spec ''DELETE'' (''/api/v1/admin/products/'' @ slug @ ''/components/'' @ code)))"
| "async_admin_components_spec (AdminComponentsListTenant slug tenant_id) =
     as_admin (request_spec ''GET'' (''/api/v1/admin/products/'' @ slug @ ''/components/tenants/'' @ tenant_id))"
| "async_admin_components_spec (AdminComponentsSetTenantOverride slug tenant_id code req) =
     idempotent (as_admin (with_body req (request_spec ''PUT'' (''/api/v1/admin/products/'' @ slug @ ''/components/tenants/'' @ tenant_id @ ''/'' @ code))))"
| "async_admin_components_spec (AdminComponentsClearTenantOverride slug tenant_id code) =
     idempotent (as_admin (request_spec ''DELETE'' (''/api/v1/admin/products/'' @ slug @ ''/components/tenants/'' @ tenant_id @ ''/'' @ code)))"

fun async_components_spec :: "ComponentsCall \<Rightarrow> RequestSpec" where
  "async_components_spec ComponentsList = request_spec ''GET'' ''/api/v1/components''"
| "async_components_spec (ComponentsListForUser user_id) = request_spec ''GET'' (''/api/v1/users/'' @ user_id @ ''/components'')"
| "async_components_spec (ComponentsSetOverride user_id code req) =
     idempotent (with_body req (request_spec ''PUT'' (''/api/v1/users/'' @ user_id @ ''/components/'' @ code)))"
| "async_components_spec (ComponentsClearOverride user_id code) =
     idempotent (request_spec ''DELETE'' (''/api/v1/users/'' @ user_id @ ''/components/'' @ code))"

fun async_call_spec :: "SdkCall \<Rightarrow> RequestSpec" where
  "async_call_spec (Auth x) = async_auth_spec x"
| "async_call_spec (Tenants x) = async_tenants_spec x"
| "async_call_spec (Users x) = async_users_spec x"
| "async_call_spec (Plans x) = async_plans_spec x"
| "async_call_spec (Subscriptions x) = async_subscription_spec x"
| "async_call_spec (Credits x) = async_credits_spec x"
| "async_call_spec (Roles x) = async_roles_spec x"
| "async_call_spec (Products x) = async_products_spec x"
| "async_call_spec (AdminEnv x) = async_admin_env_spec x"
| "async_call_spec (ServiceTokens x) = async_service_tokens_spec x"
| "async_call_spec (Env x) = async_env_spec x"
| "async_call_spec (AdminComponents x) = async_admin_components_spec x"
| "async_call_spec (Components x) = async_components_spec x"

section \<open>The authentication resource\<close>

definition async_logout_body :: "dict \<Rightarrow> json option \<Rightarrow> sdk_error + dict" where
  "async_logout_body req cur =
     (case (case cur of None \<Rightarrow> Inr JNull | Some tokens \<Rightarrow> SdkClient.json_item tokens ''refresh_token'') of
        Inl e \<Rightarrow> Inl e
      | Inr t \<Rightarrow> Inr (if map_of req ''refresh_token'' = None then req @ [(''refresh_token'', t)] else req))"

definition async_sign_in :: "('s, 'r) PlynthClient \<Rightarrow> AuthCall \<Rightarrow> ('s, 'r) session \<Rightarrow> (sdk_error + json) \<times> ('s, 'r) session" where
  "async_sign_in c call s =
     (case async_request c (async_auth_spec call) s of
        (Inl e, s) \<Rightarrow> (Inl e, s)
      | (Inr tokens, s) \<Rightarrow> (Inr tokens, set_tokens c tokens s))"

definition async_sign_out :: "('s, 'r) PlynthClient \<Rightarrow> dict \<Rightarrow> ('s, 'r) session \<Rightarrow> (sdk_error + json) \<times> ('s, 'r) session" where
  "async_sign_out c req s =
     (case async_logout_body req (tokens_of c s) of
        Inl e \<Rightarrow> (Inl e, s)
      | Inr body \<Rightarrow>
        (case async_request c (async_auth_spec (AuthLogout body)) s of
           (Inl e, s) \<Rightarrow> (Inl e, s)
         | (Inr _, s) \<Rightarrow> (Inr JNull, clear_tokens c s)))"

fun run_async_auth :: "('s, 'r) PlynthClient \<Rightarrow> AuthCall \<Rightarrow> ('s, 'r) session \<Rightarrow> (sdk_error + json) \<times> ('s, 'r) session" where
  "run_async_auth c (AuthRegister req) s = async_sign_in c (AuthRegister req) s"
| "run_async_auth c (AuthRegisterIndividual req) s = async_sign_in c (AuthRegisterIndividual req) s"
| "run_async_auth c (AuthLogin req) s = async_sign_in c (AuthLogin req) s"
| "run_async_auth c (AuthGoogle req) s = async_sign_in c (AuthGoogle req) s"
| "run_async_auth c (AuthLogout req) s = async_sign_out c req s"
| "run_async_auth c call s = async_request c (async_auth_spec call) s"

section \<open>The mirror\<close>

lemma async_auth_spec [simp]: "async_auth_spec x = auth_spec x"
  by (cases x) (simp_all add: auth_spec.simps)

lemma async_tenants_spec [simp]: "async_tenants_spec x = tenants_spec x"
  by (cases x) (simp_all add: auth_spec.simps)

lemma async_users_spec [simp]: "async_users_spec x = users_spec x"
  by (cases x) (simp_all add: auth_spec.simps)

lemma async_plans_spec [simp]: "async_plans_spec x = plans_spec x"
  by (cases x) (simp_all add: auth_spec.simps)

lemma async_subscription_spec [simp]: "async_subscription_spec x = subscription_spec x"
  by (cases x) (simp_all add: auth_spec.simps)

lemma async_credits_spec [simp]: "async_credits_spec x = credits_spec x"
  by (cases x) (simp_all add: auth_spec.simps)

lemma async_roles_spec [simp]: "async_roles_spec x = roles_spec x"
  by (cases x) (simp_all add: auth_spec.simps)

lemma async_products_spec [simp]: "async_products_spec x = products_spec x"
  by (cases x) (simp_all add: auth_spec.simps)

lemma async_admin_env_spec [simp]: "async_admin_env_spec x = admin_env_spec x"
  by (cases x) (simp_all add: auth_spec.simps)

lemma async_service_tokens_spec [simp]: "async_service_tokens_spec x = service_tokens_spec x"
  by (cases x) (simp_all add: auth_spec.simps)

lemma async_env_spec [simp]: "async_env_spec x = env_spec x"
  by (cases x) (simp_all add: auth_spec.simps)

lemma async_admin_components_spec [simp]: "async_admin_components_spec x = admin_components_spec x"
  by (cases x) (simp_all add: auth_spec.simps)

lemma async_components_spec [simp]: "async_components_spec x = components_spec x"
  by (cases x) (simp_all add: auth_spec.simps)

lemma async_calls_mirror: "async_call_spec call = call_spec call"
  by (cases call) simp_all

lemma async_sign_in_mirrors: "async_sign_in c call s = sign_in c call s"
  by (simp add: async_sign_in_def sign_in_def async_request_alone)

lemma async_sign_out_mirrors: "async_sign_out c req s = sign_out c req s"
  by (simp add: async_sign_out_def sign_out_def async_logout_body_def logout_body_def async_request_alone
    split: sum.splits prod.splits)

lemma async_auth_mirrors: "run_async_auth c call s = run_auth c call s"
  by (cases call) (simp_all add: async_sign_in_mirrors async_sign_out_mirrors async_request_alone)

text \<open>C22: the asynchronous client is the synchronous one as long as its calls do not overlap. Every method of
  every resource class sends the request its synchronous namesake sends. A request that runs to its end with no other
  call on the client in between returns what the synchronous client returns, on every path: the errors of the headers
  and of the network, the refresh after a 401 and the second attempt; and it leaves the token store, the service and the
  keys drawn in the same state. So do the methods that sign in and out and write the token store themselves.\<close>

theorem async_alone:
  "async_call_spec call = call_spec call \<and> async_request c spec s = request c spec s \<and> run_async_auth c x s = run_auth c x s"
  by (simp add: async_calls_mirror async_request_alone async_auth_mirrors)

end
