(* ===== verification/Schema.thy ===== *)
theory Schema
  imports Prelude "HOL-Library.AList"
begin

text \<open>
  The schema of the database and the statements that change it, as the schema changes of
  \<^verbatim>\<open>src/scripts/migrate.py\<close> use them. A schema is what the catalogue of PostgreSQL holds under each name: tables and
  indexes share one name space. A statement does what the manual of PostgreSQL says: with its \<^verbatim>\<open>IF [NOT] EXISTS\<close> clause
  it passes over an object that is there, and it fails on a table or column that is not. A unique constraint is a name
  on its table with the index of the same name behind it. The names the database makes up itself (of primary and foreign
  keys) are left out.
\<close>

section \<open>Columns\<close>

datatype sql_type =
    Uuid
  | Timestamptz
  | Varchar nat
  | Text
  | Integer
  | Numeric nat nat
  | Boolean
  | Jsonb
  | Bytea
  | EnumType string

datatype on_delete = Cascade | SetNull

record column =
  col_name :: string
  col_type :: sql_type
  col_nullable :: bool
  col_primary :: bool
  col_default :: "string option"
  col_references :: "(string \<times> string \<times> on_delete) option"

definition col :: "string \<Rightarrow> sql_type \<Rightarrow> column" where
  "col n t = \<lparr>col_name = n, col_type = t, col_nullable = False, col_primary = False, col_default = None, col_references = None\<rparr>"

definition nullable :: "column \<Rightarrow> column" where
  "nullable c = c\<lparr>col_nullable := True\<rparr>"

definition primary :: "column \<Rightarrow> column" where
  "primary c = c\<lparr>col_primary := True\<rparr>"

definition defaults :: "string \<Rightarrow> column \<Rightarrow> column" where
  "defaults d c = c\<lparr>col_default := Some d\<rparr>"

definition references :: "string \<Rightarrow> string \<Rightarrow> on_delete \<Rightarrow> column \<Rightarrow> column" where
  "references t n d c = c\<lparr>col_references := Some (t, n, d)\<rparr>"

section \<open>Schemas and statements\<close>

datatype index_key = Asc string | Desc string

fun key_column :: "index_key \<Rightarrow> string" where
  "key_column (Asc c) = c"
| "key_column (Desc c) = c"

datatype relation =
    Table "column list" "string list"
  | Index bool string "index_key list" "string option"

type_synonym schema = "(string \<times> relation) list"

datatype statement =
    CreateTable string "column list"
  | AddColumn string column
  | DropConstraint string string
  | CreateIndex bool string string "index_key list" "string option"

datatype sql_error = UndefinedTable string | UndefinedColumn string string

fun table :: "schema \<Rightarrow> string \<Rightarrow> sql_error + column list \<times> string list" where
  "table s t = (case map_of s t of Some (Table cols ks) \<Rightarrow> Inr (cols, ks) | _ \<Rightarrow> Inl (UndefinedTable t))"

definition names :: "column list \<Rightarrow> string list" where
  "names cols = map col_name cols"

text \<open>The columns of a table that are wanted, or the first that is missing.\<close>

definition want_columns :: "schema \<Rightarrow> string \<Rightarrow> string list \<Rightarrow> sql_error + unit" where
  "want_columns s t cs =
     (case table s t of
        Inl e \<Rightarrow> Inl e
      | Inr (cols, _) \<Rightarrow> (case List.find (\<lambda>c. c \<notin> set (names cols)) cs of None \<Rightarrow> Inr () | Some c \<Rightarrow> Inl (UndefinedColumn t c)))"

fun want_references :: "schema \<Rightarrow> column list \<Rightarrow> sql_error + unit" where
  "want_references s [] = Inr ()"
| "want_references s (c # cols) =
     (case col_references c of
        None \<Rightarrow> want_references s cols
      | Some (t, n, _) \<Rightarrow> (case want_columns s t [n] of Inl e \<Rightarrow> Inl e | Inr _ \<Rightarrow> want_references s cols))"

definition drop_backing :: "string \<Rightarrow> schema \<Rightarrow> schema" where
  "drop_backing k s = (case map_of s k of Some (Index _ _ _ _) \<Rightarrow> AList.delete k s | _ \<Rightarrow> s)"

fun exec :: "statement \<Rightarrow> schema \<Rightarrow> sql_error + schema" where
  "exec (CreateTable t cols) s =
     (if map_of s t \<noteq> None then Inr s
      else (case want_references ((t, Table cols []) # s) cols of Inl e \<Rightarrow> Inl e | Inr _ \<Rightarrow> Inr ((t, Table cols []) # s)))"
| "exec (AddColumn t c) s =
     (case table s t of
        Inl e \<Rightarrow> Inl e
      | Inr (cols, ks) \<Rightarrow> Inr (if col_name c \<in> set (names cols) then s else AList.update t (Table (cols @ [c]) ks) s))"
| "exec (DropConstraint t k) s =
     (case table s t of
        Inl e \<Rightarrow> Inl e
      | Inr (cols, ks) \<Rightarrow> Inr (if k \<in> set ks then AList.update t (Table cols (removeAll k ks)) (drop_backing k s) else s))"
| "exec (CreateIndex u n t ks w) s =
     (case want_columns s t (map key_column ks) of
        Inl e \<Rightarrow> Inl e
      | Inr _ \<Rightarrow> Inr (if map_of s n \<noteq> None then s else (n, Index u t ks w) # s))"

fun execs :: "statement list \<Rightarrow> schema \<Rightarrow> sql_error + schema" where
  "execs [] s = Inr s"
| "execs (st # sts) s = (case exec st s of Inl e \<Rightarrow> Inl e | Inr s' \<Rightarrow> execs sts s')"

lemma execs_append: "execs (xs @ ys) s = (case execs xs s of Inl e \<Rightarrow> Inl e | Inr s' \<Rightarrow> execs ys s')"
  by (induction xs arbitrary: s) (auto split: sum.splits)

section \<open>What a statement leaves in place\<close>

text \<open>No table goes, no column of a table goes, and no constraint comes.\<close>

definition extended :: "schema \<Rightarrow> schema \<Rightarrow> bool" where
  "extended s s' \<longleftrightarrow> (\<forall>t cols ks. table s t = Inr (cols, ks) \<longrightarrow>
     (\<exists>cols' ks'. table s' t = Inr (cols', ks') \<and> set (names cols) \<subseteq> set (names cols') \<and> set ks' \<subseteq> set ks))"

lemma tableI: "map_of s t = Some (Table cols ks) \<Longrightarrow> table s t = Inr (cols, ks)"
  by simp

lemma tableD: "table s t = Inr (cols, ks) \<Longrightarrow> map_of s t = Some (Table cols ks)"
  by (auto split: option.splits relation.splits)

lemma table_iff: "table s t = Inr (cols, ks) \<longleftrightarrow> map_of s t = Some (Table cols ks)"
  by (metis tableI tableD)

declare table.simps [simp del]

lemma extended_refl [simp]: "extended s s"
  by (auto simp: extended_def)

lemma extended_trans: "extended r s \<Longrightarrow> extended s t \<Longrightarrow> extended r t"
  unfolding extended_def by (meson order_trans)

lemma map_of_drop_backing: "map_of (drop_backing k s) n = (if n = k then (case map_of s k of Some (Index _ _ _ _) \<Rightarrow> None | r \<Rightarrow> r) else map_of s n)"
  by (auto simp: drop_backing_def AList.delete_conv' split: option.splits relation.splits)

lemma exec_extends: "exec st s = Inr s' \<Longrightarrow> extended s s'"
  by (cases st)
    (auto simp: extended_def table_iff map_of_drop_backing AList.update_conv' names_def split: if_splits sum.splits option.splits relation.splits)

lemma execs_extends: "execs sts s = Inr s' \<Longrightarrow> extended s s'"
  by (induction sts arbitrary: s) (auto split: sum.splits dest: exec_extends intro: extended_trans)

lemma want_columns_ok:
  "want_columns s t cs = Inr u \<longleftrightarrow> (\<exists>cols ks. table s t = Inr (cols, ks) \<and> set cs \<subseteq> set (names cols))"
  by (auto simp: want_columns_def find_None_iff find_Some_iff split: sum.splits option.splits) (metis nth_mem subsetD)

lemma want_columns_extends: "want_columns s t cs = Inr u \<Longrightarrow> extended s s' \<Longrightarrow> want_columns s' t cs = Inr u"
  unfolding want_columns_ok extended_def by (meson order_trans)

text \<open>A statement that makes something and one that drops a constraint of its name stand in each other's way.\<close>

fun makes :: "statement \<Rightarrow> string option" where
  "makes (CreateTable t _) = Some t"
| "makes (CreateIndex _ n _ _ _) = Some n"
| "makes _ = None"

fun apart :: "statement \<Rightarrow> statement \<Rightarrow> bool" where
  "apart st (DropConstraint _ k) \<longleftrightarrow> makes st \<noteq> Some k"
| "apart _ _ \<longleftrightarrow> True"

lemma exec_keeps_name:
  "exec st' s = Inr s' \<Longrightarrow> map_of s n \<noteq> None \<Longrightarrow> makes st = Some n \<Longrightarrow> apart st st' \<Longrightarrow> map_of s' n \<noteq> None"
  by (cases st') (auto simp: map_of_drop_backing AList.update_conv' split: if_splits sum.splits)

text \<open>A statement is settled where it has nothing left to do.\<close>

definition settled :: "statement \<Rightarrow> schema \<Rightarrow> bool" where
  "settled st s \<longleftrightarrow> (case st of
       CreateTable t _ \<Rightarrow> map_of s t \<noteq> None
     | AddColumn t c \<Rightarrow> want_columns s t [col_name c] = Inr ()
     | DropConstraint t k \<Rightarrow> (\<exists>cols ks. table s t = Inr (cols, ks) \<and> k \<notin> set ks)
     | CreateIndex _ n t ks _ \<Rightarrow> want_columns s t (map key_column ks) = Inr () \<and> map_of s n \<noteq> None)"

lemma settled_exec: "settled st s \<Longrightarrow> exec st s = Inr s"
proof (cases st)
  case (AddColumn t c)
  assume "settled st s"
  then show ?thesis by (auto simp: AddColumn settled_def want_columns_ok)
qed (auto simp: settled_def)

lemma exec_settles: "exec st s = Inr s' \<Longrightarrow> settled st s'"
proof (cases st)
  case (CreateIndex u n t ks w)
  assume run: "exec st s = Inr s'"
  then have "want_columns s t (map key_column ks) = Inr ()"
    by (auto simp: CreateIndex split: sum.splits)
  from want_columns_extends [OF this exec_extends [OF run]] run show ?thesis
    by (auto simp: CreateIndex settled_def split: sum.splits if_splits)
qed (auto simp: settled_def want_columns_ok table_iff AList.update_conv' names_def split: sum.splits if_splits)

lemma settled_stays:
  assumes "settled st s" and "exec st' s = Inr s'" and "apart st st'"
  shows "settled st s'"
proof (cases st)
  case (DropConstraint t k)
  then show ?thesis
    using assms(1) exec_extends [OF assms(2)] unfolding settled_def extended_def by fastforce
qed (use assms exec_keeps_name [OF assms(2) _ _ assms(3)] want_columns_extends [OF _ exec_extends [OF assms(2)]] in
     \<open>auto simp: settled_def\<close>)

section \<open>Lists of statements\<close>

fun dropped :: "statement \<Rightarrow> string option" where
  "dropped (DropConstraint _ k) = Some k"
| "dropped _ = None"

lemma apart_dropped: "apart st st' \<longleftrightarrow> (\<forall>k. dropped st' = Some k \<longrightarrow> makes st \<noteq> Some k)"
  by (cases st') auto

definition all_apart :: "statement list \<Rightarrow> bool" where
  "all_apart sts \<longleftrightarrow> list_all (\<lambda>k. k \<notin> set (List.map_filter makes sts)) (List.map_filter dropped sts)"

lemma all_apartD: "all_apart sts \<Longrightarrow> st \<in> set sts \<Longrightarrow> st' \<in> set sts \<Longrightarrow> apart st st'"
  by (force simp: all_apart_def apart_dropped list_all_iff List.map_filter_def)

lemma all_settled_stay:
  assumes "execs sts s = Inr s'" and "settled st s" and "\<forall>st'\<in>set sts. apart st st'"
  shows "settled st s'"
  using assms by (induction sts arbitrary: s) (auto split: sum.splits dest: settled_stays)

lemma execs_settle:
  assumes "execs sts s = Inr s'" and "\<forall>st\<in>set sts. \<forall>st'\<in>set sts. apart st st'"
  shows "\<forall>st\<in>set sts. settled st s'"
  using assms
proof (induction sts arbitrary: s)
  case (Cons st sts)
  then obtain s1 where s1: "exec st s = Inr s1" "execs sts s1 = Inr s'" by (auto split: sum.splits)
  have "settled st s'" by (rule all_settled_stay [OF s1(2) exec_settles [OF s1(1)]]) (use Cons.prems(2) in simp)
  then show ?case using Cons.IH [OF s1(2)] Cons.prems(2) by simp
qed simp

lemma execs_settled: "\<forall>st\<in>set sts. settled st s \<Longrightarrow> execs sts s = Inr s"
  by (induction sts) (auto simp: settled_exec)

lemma execs_resume:
  assumes "all_apart sts" and "execs (take n sts) s = Inr s'"
  shows "execs sts s' = execs sts s"
proof -
  have "\<forall>st\<in>set (take n sts). \<forall>st'\<in>set (take n sts). apart st st'"
    using all_apartD [OF assms(1)] by (blast dest: in_set_takeD)
  then have "execs (take n sts) s' = Inr s'" by (rule execs_settled [OF execs_settle [OF assms(2)]])
  then have "execs (take n sts @ drop n sts) s' = execs (take n sts @ drop n sts) s"
    using assms(2) by (simp only: execs_append sum.case)
  then show ?thesis by simp
qed

text \<open>What a list of statements makes of one name can be told from that name alone, unless a dropped constraint
  has it.\<close>

fun at_name :: "string \<Rightarrow> statement \<Rightarrow> relation option \<Rightarrow> relation option" where
  "at_name n (CreateTable t cols) r = (if n = t \<and> r = None then Some (Table cols []) else r)"
| "at_name n (AddColumn t c) r = (if n = t then map_option (\<lambda>r. case r of
       Table cols ks \<Rightarrow> Table (if col_name c \<in> set (names cols) then cols else cols @ [c]) ks
     | Index u x ks w \<Rightarrow> Index u x ks w) r else r)"
| "at_name n (DropConstraint t k) r = (if n = t then map_option (\<lambda>r. case r of
       Table cols ks \<Rightarrow> Table cols (removeAll k ks)
     | Index u x ks w \<Rightarrow> Index u x ks w) r else r)"
| "at_name n (CreateIndex u m t ks w) r = (if n = m \<and> r = None then Some (Index u t ks w) else r)"

lemma exec_at_name:
  "exec st s = Inr s' \<Longrightarrow> (\<And>t k. st = DropConstraint t k \<Longrightarrow> n \<noteq> k) \<Longrightarrow> map_of s' n = at_name n st (map_of s n)"
  by (cases st) (auto simp: table_iff map_of_drop_backing AList.update_conv' split: if_splits sum.splits)

definition drops :: "statement list \<Rightarrow> string \<Rightarrow> bool" where
  "drops sts n \<longleftrightarrow> n \<in> set (List.map_filter dropped sts)"

definition planned :: "statement list \<Rightarrow> schema \<Rightarrow> string \<Rightarrow> relation option" where
  "planned sts s n = fold (at_name n) sts (map_of s n)"

lemma execs_planned: "execs sts s = Inr s' \<Longrightarrow> \<not> drops sts n \<Longrightarrow> map_of s' n = planned sts s n"
  unfolding planned_def
proof (induction sts arbitrary: s)
  case (Cons st sts)
  then obtain s1 where s1: "exec st s = Inr s1" "execs sts s1 = Inr s'" by (auto simp: split: sum.splits)
  have "map_of s1 n = at_name n st (map_of s n)" by (rule exec_at_name [OF s1(1)]) (use Cons.prems(2) in \<open>auto simp: drops_def map_filter_simps\<close>)
  moreover have "\<not> drops sts n" using Cons.prems(2) by (auto simp: drops_def map_filter_simps split: option.splits)
  ultimately show ?case using Cons.IH [OF s1(2)] by simp
qed simp

lemma fold_at_name_None: "fold (at_name n) sts r = None \<longleftrightarrow> r = None \<and> Some n \<notin> makes ` set sts"
proof (induction sts arbitrary: r)
  case (Cons st sts)
  have "at_name n st r = None \<longleftrightarrow> r = None \<and> makes st \<noteq> Some n" by (cases st) auto
  then show ?case using Cons.IH by auto
qed simp

lemma exec_new_name:
  "exec st s = Inr s' \<Longrightarrow> map_of s n = None \<Longrightarrow> makes st \<noteq> Some n \<Longrightarrow> map_of s' n = None"
  by (cases st) (auto simp: map_of_drop_backing AList.update_conv' table_iff split: if_splits sum.splits)

lemma execs_new_name:
  "execs sts s = Inr s' \<Longrightarrow> map_of s n = None \<Longrightarrow> Some n \<notin> makes ` set sts \<Longrightarrow> map_of s' n = None"
  by (induction sts arbitrary: s) (auto split: sum.splits dest: exec_new_name)

lemma execs_dom:
  assumes "execs sts s = Inr s'" and "\<And>n. drops sts n \<Longrightarrow> map_of s n = None \<and> Some n \<notin> makes ` set sts"
  shows "map_of s' n = None \<longleftrightarrow> map_of s n = None \<and> Some n \<notin> makes ` set sts"
  using execs_new_name [OF assms(1)] assms(2) execs_planned [OF assms(1), of n] fold_at_name_None [of n sts "map_of s n"]
  unfolding planned_def by metis

section \<open>A check that no statement fails\<close>

text \<open>What is known of a schema: these tables have at least these columns.\<close>

type_synonym known = "(string \<times> string list) list"

definition provides :: "schema \<Rightarrow> known \<Rightarrow> bool" where
  "provides s k \<longleftrightarrow> (\<forall>(t, cs)\<in>set k. want_columns s t cs = Inr ())"

definition knows :: "known \<Rightarrow> string \<Rightarrow> string list \<Rightarrow> bool" where
  "knows k t cs \<longleftrightarrow> list_all (\<lambda>c. list_ex (\<lambda>(t', cs'). t' = t \<and> c \<in> set cs') k) cs \<and> t \<in> fst ` set k"

lemma provides_knows: "provides s k \<Longrightarrow> knows k t cs \<Longrightarrow> want_columns s t cs = Inr ()"
proof -
  assume k: "provides s k" "knows k t cs"
  have held: "\<exists>cols ks. table s t = Inr (cols, ks) \<and> set cs' \<subseteq> set (names cols)" if "(t, cs') \<in> set k" for cs'
    using k(1) that unfolding provides_def by (auto simp: want_columns_ok)
  obtain cs' where "(t, cs') \<in> set k" using k(2) by (auto simp: knows_def)
  then obtain cols ks where t: "table s t = Inr (cols, ks)" using held by blast
  have "c \<in> set (names cols)" if "c \<in> set cs" for c
  proof -
    obtain cs' where "(t, cs') \<in> set k" "c \<in> set cs'" using k(2) \<open>c \<in> set cs\<close> by (auto simp: knows_def list_all_iff list_ex_iff)
    then show ?thesis using held [of cs'] t by auto
  qed
  then show ?thesis using t by (auto simp: want_columns_ok)
qed

lemma provides_extends: "provides s k \<Longrightarrow> extended s s' \<Longrightarrow> provides s' k"
  by (auto simp: provides_def dest: want_columns_extends)

definition reference_known :: "known \<Rightarrow> column \<Rightarrow> bool" where
  "reference_known k c \<longleftrightarrow> (case col_references c of None \<Rightarrow> True | Some (t, n, _) \<Rightarrow> knows k t [n])"

fun checked :: "statement \<Rightarrow> known \<Rightarrow> known option" where
  "checked (CreateTable t cols) k = (if list_all (reference_known k) cols then Some ((t, names cols) # k) else None)"
| "checked (AddColumn t c) k = (if knows k t [] then Some ((t, [col_name c]) # k) else None)"
| "checked (DropConstraint t _) k = (if knows k t [] then Some k else None)"
| "checked (CreateIndex _ _ t ks _) k = (if knows k t (map key_column ks) then Some k else None)"

fun all_checked :: "statement list \<Rightarrow> known \<Rightarrow> known option" where
  "all_checked [] k = Some k"
| "all_checked (st # sts) k = (case checked st k of None \<Rightarrow> None | Some k' \<Rightarrow> all_checked sts k')"

text \<open>The tables that a list of statements makes may be there already, with at least the columns it gives them.\<close>

definition fits :: "schema \<Rightarrow> statement \<Rightarrow> bool" where
  "fits s st \<longleftrightarrow> (case st of CreateTable t cols \<Rightarrow> map_of s t = None \<or> want_columns s t (names cols) = Inr () | _ \<Rightarrow> True)"

definition makes_once :: "statement list \<Rightarrow> bool" where
  "makes_once sts \<longleftrightarrow> distinct (List.map_filter makes sts)"

lemma makes_in: "st \<in> set sts \<Longrightarrow> makes st = Some a \<Longrightarrow> a \<in> set (List.map_filter makes sts)"
  by (force simp: List.map_filter_def)

lemma fits_stays:
  assumes "fits s st" and "exec st' s = Inr s'" and "makes st \<noteq> makes st' \<or> makes st = None"
  shows "fits s' st"
proof (cases st)
  case (CreateTable t cols)
  with assms(1) consider "map_of s t = None" | "want_columns s t (names cols) = Inr ()" by (auto simp: fits_def)
  then show ?thesis
  proof cases
    case 1
    then have "map_of s' t = None" using exec_new_name [OF assms(2)] assms(3) CreateTable by auto
    then show ?thesis by (simp add: fits_def CreateTable)
  next
    case 2
    then show ?thesis using want_columns_extends [OF _ exec_extends [OF assms(2)]] by (simp add: fits_def CreateTable)
  qed
qed (simp_all add: fits_def)

lemma extended_new: "map_of s t = None \<Longrightarrow> extended s ((t, r) # s)"
  by (auto simp: extended_def table_iff)

lemma want_references_known: "provides s k \<Longrightarrow> list_all (reference_known k) cols \<Longrightarrow> want_references s cols = Inr ()"
  by (induction cols) (auto simp: reference_known_def provides_knows split: option.splits)

lemma checked_sound:
  assumes "checked st k = Some k'" and "provides s k" and "fits s st"
  shows "\<exists>s'. exec st s = Inr s' \<and> provides s' k'"
proof (cases st)
  case (CreateTable t cols)
  with assms(1) have k': "list_all (reference_known k) cols" "k' = (t, names cols) # k" by (auto split: if_splits)
  show ?thesis
  proof (cases "map_of s t")
    case None
    let ?s = "(t, Table cols []) # s"
    have "provides ?s k" using provides_extends [OF assms(2) extended_new [OF None]] .
    moreover from this have "want_references ?s cols = Inr ()" using k'(1) by (rule want_references_known)
    moreover have "want_columns ?s t (names cols) = Inr ()" by (auto simp: want_columns_ok table_iff)
    ultimately show ?thesis using None k'(2) by (auto simp: CreateTable provides_def)
  next
    case (Some r)
    then show ?thesis using assms(2,3) k'(2) by (auto simp: CreateTable fits_def provides_def)
  qed
next
  case (AddColumn t c)
  with assms(1) have k': "knows k t []" "k' = (t, [col_name c]) # k" by (auto split: if_splits)
  obtain cols ks where t: "table s t = Inr (cols, ks)"
    using provides_knows [OF assms(2) k'(1)] by (auto simp: want_columns_ok)
  then obtain s' where run: "exec st s = Inr s'" by (auto simp: AddColumn)
  then have "want_columns s' t [col_name c] = Inr ()" using exec_settles [OF run] by (simp add: AddColumn settled_def)
  then show ?thesis using run provides_extends [OF assms(2) exec_extends [OF run]] k'(2) by (auto simp: provides_def)
next
  case (DropConstraint t c)
  with assms(1) have "knows k t []" and k': "k' = k" by (auto split: if_splits)
  from provides_knows [OF assms(2) this(1)] obtain s' where run: "exec st s = Inr s'"
    by (auto simp: DropConstraint want_columns_ok)
  then show ?thesis using provides_extends [OF assms(2) exec_extends [OF run]] k' by auto
next
  case (CreateIndex u n t ks w)
  with assms(1) have "knows k t (map key_column ks)" and k': "k' = k" by (auto split: if_splits)
  from provides_knows [OF assms(2) this(1)] obtain s' where run: "exec st s = Inr s'"
    by (auto simp: CreateIndex)
  then show ?thesis using provides_extends [OF assms(2) exec_extends [OF run]] k' by auto
qed

lemma all_checked_sound:
  assumes "all_checked sts k = Some k'" and "provides s k" and "\<forall>st\<in>set sts. fits s st" and "makes_once sts"
  shows "\<exists>s'. execs sts s = Inr s' \<and> provides s' k'"
  using assms
proof (induction sts arbitrary: k s)
  case (Cons st sts)
  then obtain k1 where k1: "checked st k = Some k1" "all_checked sts k1 = Some k'" by (auto split: option.splits)
  obtain s1 where s1: "exec st s = Inr s1" "provides s1 k1" using checked_sound [OF k1(1) Cons.prems(2)] Cons.prems(3) by auto
  have "fits s1 st'" if "st' \<in> set sts" for st'
  proof (rule fits_stays [OF _ s1(1)])
    show "fits s st'" using Cons.prems(3) that by simp
    show "makes st' \<noteq> makes st \<or> makes st' = None"
      using Cons.prems(4) makes_in [OF that] by (cases "makes st'") (auto simp: makes_once_def map_filter_simps split: option.splits)
  qed
  moreover have "makes_once sts" using Cons.prems(4) by (auto simp: makes_once_def map_filter_simps split: option.splits)
  ultimately show ?case using Cons.IH [OF k1(2) s1(2)] s1(1) by auto
qed auto

section \<open>A check that every statement is settled\<close>

fun quiet :: "known \<Rightarrow> string list \<Rightarrow> statement \<Rightarrow> bool" where
  "quiet k ns (CreateTable t _) \<longleftrightarrow> t \<in> set ns"
| "quiet k ns (AddColumn t c) \<longleftrightarrow> knows k t [col_name c]"
| "quiet k ns (DropConstraint t x) \<longleftrightarrow> knows k t [] \<and> x \<notin> set ns"
| "quiet k ns (CreateIndex _ n t ks _) \<longleftrightarrow> knows k t (map key_column ks) \<and> n \<in> set ns"

text \<open>Every constraint has its index.\<close>

definition constraints_named :: "schema \<Rightarrow> bool" where
  "constraints_named s \<longleftrightarrow> (\<forall>t cols ks. table s t = Inr (cols, ks) \<longrightarrow> set ks \<subseteq> fst ` set s)"

lemma quiet_settled:
  assumes "quiet k (map fst s) st" and "provides s k" and "constraints_named s"
  shows "settled st s"
proof (cases st)
  case (DropConstraint t x)
  with assms(1) have "knows k t []" "x \<notin> fst ` set s" by auto
  moreover obtain cols ks where t: "table s t = Inr (cols, ks)"
    using provides_knows [OF assms(2) calculation(1)] by (auto simp: want_columns_ok)
  moreover have "set ks \<subseteq> fst ` set s" using assms(3) t unfolding constraints_named_def by blast
  ultimately show ?thesis by (auto simp: DropConstraint settled_def)
qed (use assms(1) provides_knows [OF assms(2)] in \<open>auto simp: settled_def map_of_eq_None_iff image_iff\<close>)

end
