(* ===== verification/Migrations.thy ===== *)
theory Migrations
  imports Schema
begin

text \<open>
  The schema changes of \<^verbatim>\<open>src/scripts/migrate.py\<close>, statement by statement, the run that applies them in one
  transaction, and the tables of \<^verbatim>\<open>app/models\<close> that they touch, as \<^verbatim>\<open>metadata.create_all\<close> makes them with the naming
  convention of \<^verbatim>\<open>app/models/base.py\<close>. A migration is its name with its statements: the text of the script, split
  at the semicolons, is the text of these. An apostrophe in a default is written \<open>quote\<close>.
\<close>

section \<open>The migrations\<close>

type_synonym migration = "string \<times> statement list"

definition quote :: string where
  "quote = [CHR 0x27]"

definition migration_0001 :: migration where
  "migration_0001 = (''0001_tenants_expires_at'',
     [AddColumn ''tenants'' (nullable (col ''expires_at'' Timestamptz))])"

definition migration_0002 :: migration where
  "migration_0002 = (''0002_users_email_partial_unique'',
     [DropConstraint ''users'' ''uq_users_tenant_email'',
      CreateIndex True ''uq_users_tenant_email_alive'' ''users'' [Asc ''tenant_id'', Asc ''email''] (Some ''deleted_at IS NULL'')])"

definition migration_0003 :: migration where
  "migration_0003 = (''0003_tenants_slug_partial_unique'',
     [DropConstraint ''tenants'' ''uq_tenants_product_slug'',
      CreateIndex True ''uq_tenants_product_slug_alive'' ''tenants'' [Asc ''product_id'', Asc ''slug''] (Some ''deleted_at IS NULL'')])"

definition migration_0004 :: migration where
  "migration_0004 = (''0004_password_reset_tokens'',
     [CreateTable ''password_reset_tokens''
        [primary (col ''id'' Uuid),
         references ''products'' ''id'' Cascade (col ''product_id'' Uuid),
         references ''users'' ''id'' Cascade (col ''user_id'' Uuid),
         col ''token_hash'' (Varchar 64),
         col ''expires_at'' Timestamptz,
         nullable (col ''used_at'' Timestamptz),
         nullable (col ''requested_ip'' (Varchar 64)),
         defaults ''now()'' (col ''created_at'' Timestamptz),
         defaults ''now()'' (col ''updated_at'' Timestamptz)],
      CreateIndex True ''uq_password_reset_token_hash'' ''password_reset_tokens'' [Asc ''token_hash''] None,
      CreateIndex False ''ix_password_reset_tokens_user_id'' ''password_reset_tokens'' [Asc ''user_id''] None,
      CreateIndex False ''ix_password_reset_tokens_product_id'' ''password_reset_tokens'' [Asc ''product_id''] None])"

definition migration_0005 :: migration where
  "migration_0005 = (''0005_jobs'',
     [CreateTable ''jobs''
        [primary (col ''id'' Uuid),
         references ''products'' ''id'' Cascade (col ''product_id'' Uuid),
         references ''tenants'' ''id'' Cascade (col ''tenant_id'' Uuid),
         col ''type'' (Varchar 64),
         defaults (quote @ ''queued'' @ quote) (col ''status'' (Varchar 32)),
         defaults (quote @ ''{}'' @ quote @ ''::jsonb'') (col ''payload'' Jsonb),
         nullable (col ''result'' Jsonb),
         nullable (col ''error'' Jsonb),
         defaults ''0'' (col ''progress'' Integer),
         nullable (col ''idempotency_key'' (Varchar 128)),
         nullable (col ''reference'' (Varchar 128)),
         nullable (col ''callback_url'' (Varchar 512)),
         nullable (col ''credits_charged'' (Numeric 18 4)),
         col ''queued_at'' Timestamptz,
         nullable (col ''started_at'' Timestamptz),
         nullable (col ''completed_at'' Timestamptz),
         col ''expires_at'' Timestamptz,
         references ''users'' ''id'' SetNull (nullable (col ''created_by_user_id'' Uuid)),
         references ''tenants'' ''id'' SetNull (nullable (col ''acting_from_tenant_id'' Uuid)),
         defaults ''now()'' (col ''created_at'' Timestamptz),
         defaults ''now()'' (col ''updated_at'' Timestamptz)],
      CreateIndex False ''ix_jobs_product_id'' ''jobs'' [Asc ''product_id''] None,
      CreateIndex False ''ix_jobs_tenant_id'' ''jobs'' [Asc ''tenant_id''] None,
      CreateIndex False ''ix_jobs_type'' ''jobs'' [Asc ''type''] None,
      CreateIndex False ''ix_jobs_reference'' ''jobs'' [Asc ''reference''] None,
      CreateIndex False ''ix_jobs_created_by_user_id'' ''jobs'' [Asc ''created_by_user_id''] None,
      CreateIndex False ''ix_jobs_product_tenant_status'' ''jobs'' [Asc ''product_id'', Asc ''tenant_id'', Asc ''status''] None,
      CreateIndex True ''uq_jobs_idempotency'' ''jobs'' [Asc ''product_id'', Asc ''tenant_id'', Asc ''type'', Asc ''idempotency_key''] (Some ''idempotency_key IS NOT NULL'')])"

definition migration_0006 :: migration where
  "migration_0006 = (''0006_storage'',
     [CreateTable ''storage_collections''
        [primary (col ''id'' Uuid),
         references ''products'' ''id'' Cascade (col ''product_id'' Uuid),
         references ''tenants'' ''id'' Cascade (col ''tenant_id'' Uuid),
         col ''name'' (Varchar 64),
         defaults ''0'' (col ''default_ttl_seconds'' Integer),
         nullable (col ''description'' (Varchar 255)),
         defaults (quote @ ''{}'' @ quote @ ''::jsonb'') (col ''settings'' Jsonb),
         defaults ''now()'' (col ''created_at'' Timestamptz),
         defaults ''now()'' (col ''updated_at'' Timestamptz)],
      CreateIndex False ''ix_storage_collections_product_id'' ''storage_collections'' [Asc ''product_id''] None,
      CreateIndex False ''ix_storage_collections_tenant_id'' ''storage_collections'' [Asc ''tenant_id''] None,
      CreateIndex True ''uq_storage_collections_name'' ''storage_collections'' [Asc ''product_id'', Asc ''tenant_id'', Asc ''name''] None,
      CreateTable ''storage_documents''
        [primary (col ''id'' Uuid),
         references ''products'' ''id'' Cascade (col ''product_id'' Uuid),
         references ''tenants'' ''id'' Cascade (col ''tenant_id'' Uuid),
         references ''storage_collections'' ''id'' Cascade (col ''collection_id'' Uuid),
         col ''key'' (Varchar 255),
         defaults (quote @ ''{}'' @ quote @ ''::jsonb'') (col ''value'' Jsonb),
         defaults ''1'' (col ''version'' Integer),
         nullable (col ''expires_at'' Timestamptz),
         defaults ''now()'' (col ''created_at'' Timestamptz),
         defaults ''now()'' (col ''updated_at'' Timestamptz)],
      CreateIndex False ''ix_storage_documents_product_id'' ''storage_documents'' [Asc ''product_id''] None,
      CreateIndex False ''ix_storage_documents_tenant_id'' ''storage_documents'' [Asc ''tenant_id''] None,
      CreateIndex False ''ix_storage_documents_collection_id'' ''storage_documents'' [Asc ''collection_id''] None,
      CreateIndex True ''uq_storage_documents_key'' ''storage_documents'' [Asc ''product_id'', Asc ''tenant_id'', Asc ''collection_id'', Asc ''key''] None,
      CreateIndex False ''ix_storage_documents_sync'' ''storage_documents'' [Asc ''product_id'', Asc ''tenant_id'', Asc ''collection_id'', Asc ''updated_at''] None])"

definition migration_0007 :: migration where
  "migration_0007 = (''0007_webhooks'',
     [CreateTable ''webhook_endpoints''
        [primary (col ''id'' Uuid),
         references ''products'' ''id'' Cascade (col ''product_id'' Uuid),
         col ''url'' (Varchar 2048),
         nullable (col ''description'' (Varchar 255)),
         col ''secret'' (Varchar 64),
         defaults (quote @ ''[]'' @ quote @ ''::jsonb'') (col ''events'' Jsonb),
         defaults ''TRUE'' (col ''is_active'' Boolean),
         defaults ''now()'' (col ''created_at'' Timestamptz),
         defaults ''now()'' (col ''updated_at'' Timestamptz)],
      CreateIndex False ''ix_webhook_endpoints_product_id'' ''webhook_endpoints'' [Asc ''product_id''] None,
      CreateTable ''webhook_deliveries''
        [primary (col ''id'' Uuid),
         references ''webhook_endpoints'' ''id'' Cascade (col ''endpoint_id'' Uuid),
         references ''products'' ''id'' Cascade (col ''product_id'' Uuid),
         col ''event_type'' (Varchar 64),
         defaults (quote @ ''{}'' @ quote @ ''::jsonb'') (col ''payload'' Jsonb),
         nullable (col ''request_id'' (Varchar 64)),
         defaults ''0'' (col ''attempt'' Integer),
         defaults (quote @ ''pending'' @ quote) (col ''status'' (Varchar 16)),
         nullable (col ''response_status'' Integer),
         nullable (col ''response_body'' Text),
         nullable (col ''delivered_at'' Timestamptz),
         nullable (col ''next_retry_at'' Timestamptz),
         defaults ''now()'' (col ''created_at'' Timestamptz),
         defaults ''now()'' (col ''updated_at'' Timestamptz)],
      CreateIndex False ''ix_webhook_deliveries_product_created'' ''webhook_deliveries'' [Asc ''product_id'', Desc ''created_at''] None,
      CreateIndex False ''ix_webhook_deliveries_endpoint_id'' ''webhook_deliveries'' [Asc ''endpoint_id''] None])"

definition migration_0008 :: migration where
  "migration_0008 = (''0008_env_vars_and_service_tokens'',
     [CreateTable ''product_env_vars''
        [primary (col ''id'' Uuid),
         references ''products'' ''id'' Cascade (col ''product_id'' Uuid),
         col ''key'' (Varchar 128),
         col ''value_encrypted'' Bytea,
         defaults ''TRUE'' (col ''is_secret'' Boolean),
         nullable (col ''description'' (Varchar 255)),
         defaults ''now()'' (col ''last_rotated_at'' Timestamptz),
         defaults ''now()'' (col ''created_at'' Timestamptz),
         defaults ''now()'' (col ''updated_at'' Timestamptz)],
      CreateIndex False ''ix_product_env_vars_product_id'' ''product_env_vars'' [Asc ''product_id''] None,
      CreateIndex True ''uq_product_env_vars_key'' ''product_env_vars'' [Asc ''product_id'', Asc ''key''] None,
      CreateTable ''product_service_tokens''
        [primary (col ''id'' Uuid),
         references ''products'' ''id'' Cascade (col ''product_id'' Uuid),
         col ''name'' (Varchar 128),
         col ''token_hash'' (Varchar 64),
         defaults (quote @ ''[\"env:read\"]'' @ quote @ ''::jsonb'') (col ''scopes'' Jsonb),
         nullable (col ''expires_at'' Timestamptz),
         nullable (col ''revoked_at'' Timestamptz),
         nullable (col ''last_used_at'' Timestamptz),
         nullable (col ''last_used_ip'' (Varchar 64)),
         defaults ''now()'' (col ''created_at'' Timestamptz),
         defaults ''now()'' (col ''updated_at'' Timestamptz)],
      CreateIndex False ''ix_product_service_tokens_product_id'' ''product_service_tokens'' [Asc ''product_id''] None,
      CreateIndex True ''uq_service_tokens_token_hash'' ''product_service_tokens'' [Asc ''token_hash''] None])"

definition migration_0009 :: migration where
  "migration_0009 = (''0009_product_components'',
     [CreateTable ''product_components''
        [primary (col ''id'' Uuid),
         references ''products'' ''id'' Cascade (col ''product_id'' Uuid),
         col ''code'' (Varchar 64),
         col ''name'' (Varchar 128),
         nullable (col ''description'' (Varchar 255)),
         defaults ''TRUE'' (col ''is_default_enabled'' Boolean),
         defaults ''TRUE'' (col ''is_active'' Boolean),
         defaults (quote @ ''{}'' @ quote @ ''::jsonb'') (col ''settings'' Jsonb),
         defaults ''now()'' (col ''created_at'' Timestamptz),
         defaults ''now()'' (col ''updated_at'' Timestamptz)],
      CreateIndex False ''ix_product_components_product_id'' ''product_components'' [Asc ''product_id''] None,
      CreateIndex True ''uq_product_components_product_code'' ''product_components'' [Asc ''product_id'', Asc ''code''] None,
      CreateTable ''user_component_overrides''
        [primary (col ''id'' Uuid),
         references ''products'' ''id'' Cascade (col ''product_id'' Uuid),
         references ''tenants'' ''id'' Cascade (col ''tenant_id'' Uuid),
         references ''users'' ''id'' Cascade (col ''user_id'' Uuid),
         references ''product_components'' ''id'' Cascade (col ''component_id'' Uuid),
         col ''is_enabled'' Boolean,
         nullable (col ''reason'' (Varchar 255)),
         references ''users'' ''id'' SetNull (nullable (col ''set_by_user_id'' Uuid)),
         col ''set_at'' Timestamptz,
         defaults ''now()'' (col ''created_at'' Timestamptz),
         defaults ''now()'' (col ''updated_at'' Timestamptz)],
      CreateIndex False ''ix_user_component_overrides_product_id'' ''user_component_overrides'' [Asc ''product_id''] None,
      CreateIndex False ''ix_user_component_overrides_tenant_id'' ''user_component_overrides'' [Asc ''tenant_id''] None,
      CreateIndex False ''ix_user_component_overrides_user_id'' ''user_component_overrides'' [Asc ''user_id''] None,
      CreateIndex False ''ix_user_component_overrides_component_id'' ''user_component_overrides'' [Asc ''component_id''] None,
      CreateIndex True ''uq_user_component_overrides_user_component'' ''user_component_overrides'' [Asc ''user_id'', Asc ''component_id''] None])"

definition migration_0010 :: migration where
  "migration_0010 = (''0010_components_required_plan_codes'',
     [AddColumn ''product_components'' (nullable (col ''required_plan_codes'' Jsonb))])"

definition migration_0011 :: migration where
  "migration_0011 = (''0011_tenant_component_overrides'',
     [CreateTable ''tenant_component_overrides''
        [primary (col ''id'' Uuid),
         references ''products'' ''id'' Cascade (col ''product_id'' Uuid),
         references ''tenants'' ''id'' Cascade (col ''tenant_id'' Uuid),
         references ''product_components'' ''id'' Cascade (col ''component_id'' Uuid),
         col ''is_enabled'' Boolean,
         nullable (col ''reason'' (Varchar 255)),
         references ''users'' ''id'' SetNull (nullable (col ''set_by_user_id'' Uuid)),
         col ''set_at'' Timestamptz,
         defaults ''now()'' (col ''created_at'' Timestamptz),
         defaults ''now()'' (col ''updated_at'' Timestamptz)],
      CreateIndex False ''ix_tenant_component_overrides_product_id'' ''tenant_component_overrides'' [Asc ''product_id''] None,
      CreateIndex False ''ix_tenant_component_overrides_tenant_id'' ''tenant_component_overrides'' [Asc ''tenant_id''] None,
      CreateIndex False ''ix_tenant_component_overrides_component_id'' ''tenant_component_overrides'' [Asc ''component_id''] None,
      CreateIndex True ''uq_tenant_component_overrides_tenant_component'' ''tenant_component_overrides'' [Asc ''tenant_id'', Asc ''component_id''] None])"

definition MIGRATIONS :: "migration list" where
  "MIGRATIONS = [migration_0001, migration_0002, migration_0003, migration_0004, migration_0005, migration_0006, migration_0007, migration_0008, migration_0009, migration_0010, migration_0011]"

section \<open>The run\<close>

definition run_migration :: "migration \<Rightarrow> schema \<Rightarrow> sql_error + schema" where
  "run_migration m s = (case m of (_, sts) \<Rightarrow> execs sts s)"

fun run_migrations :: "migration list \<Rightarrow> schema \<Rightarrow> sql_error + schema" where
  "run_migrations [] s = Inr s"
| "run_migrations (m # ms) s = (case run_migration m s of Inl e \<Rightarrow> Inl e | Inr s' \<Rightarrow> run_migrations ms s')"

text \<open>The transaction of the session: an error takes everything back.\<close>

definition migrate :: "schema \<Rightarrow> (sql_error + unit) \<times> schema" where
  "migrate s = (case run_migrations MIGRATIONS s of Inl e \<Rightarrow> (Inl e, s) | Inr s' \<Rightarrow> (Inr (), s'))"

section \<open>The tables of the models\<close>

datatype table_arg =
    UniqueConstraint "string list" string
  | TableIndex bool string "string list" "string option"

record table_model =
  tablename :: string
  table_columns :: "(column \<times> bool) list"
  table_args :: "table_arg list"

definition model :: "string \<Rightarrow> (column \<times> bool) list \<Rightarrow> table_arg list \<Rightarrow> table_model" where
  "model t cols args = \<lparr>tablename = t, table_columns = cols, table_args = args\<rparr>"

text \<open>A column with the flag \<^verbatim>\<open>index=True\<close>, and one without.\<close>

definition indexed :: "column \<Rightarrow> column \<times> bool" where
  "indexed c = (c, True)"

definition plain :: "column \<Rightarrow> column \<times> bool" where
  "plain c = (c, False)"

definition UUIDPKMixin :: "(column \<times> bool) list" where
  "UUIDPKMixin = [plain (primary (col ''id'' Uuid))]"

definition TimestampMixin :: "(column \<times> bool) list" where
  "TimestampMixin = [plain (col ''created_at'' Timestamptz), plain (col ''updated_at'' Timestamptz)]"

definition SoftDeleteMixin :: "(column \<times> bool) list" where
  "SoftDeleteMixin = [plain (nullable (col ''deleted_at'' Timestamptz))]"

definition ProductScopedMixin :: "(column \<times> bool) list" where
  "ProductScopedMixin = [indexed (references ''products'' ''id'' Cascade (col ''product_id'' Uuid))]"

definition TenantScopedMixin :: "(column \<times> bool) list" where
  "TenantScopedMixin = [indexed (references ''tenants'' ''id'' Cascade (col ''tenant_id'' Uuid))]"

definition Product_table :: table_model where
  "Product_table = model ''products'' (UUIDPKMixin @ TimestampMixin @ SoftDeleteMixin @
     [plain (col ''name'' (Varchar 128)),
      indexed (col ''slug'' (Varchar 64)),
      plain (nullable (col ''description'' (Varchar 512))),
      plain (col ''status'' (EnumType ''product_status'')),
      plain (col ''is_active'' Boolean),
      plain (col ''settings'' Jsonb)])
     [UniqueConstraint [''slug''] ''uq_products_slug'']"

definition Tenant_table :: table_model where
  "Tenant_table = model ''tenants'' (UUIDPKMixin @ TimestampMixin @ SoftDeleteMixin @ ProductScopedMixin @
     [plain (col ''name'' (Varchar 255)),
      indexed (col ''slug'' (Varchar 64)),
      plain (col ''status'' (EnumType ''tenant_status'')),
      plain (col ''type'' (EnumType ''tenant_type'')),
      plain (references ''tenants'' ''id'' Cascade (nullable (col ''parent_id'' Uuid))),
      plain (col ''is_root'' Boolean),
      plain (col ''settings'' Jsonb),
      plain (nullable (col ''expires_at'' Timestamptz))])
     [TableIndex True ''uq_tenants_product_slug_alive'' [''product_id'', ''slug''] (Some ''deleted_at IS NULL'')]"

definition User_table :: table_model where
  "User_table = model ''users'' (UUIDPKMixin @ TimestampMixin @ SoftDeleteMixin @ ProductScopedMixin @ TenantScopedMixin @
     [indexed (col ''email'' (Varchar 320)),
      plain (col ''password_hash'' (Varchar 255)),
      plain (nullable (col ''full_name'' (Varchar 255))),
      plain (col ''is_active'' Boolean),
      plain (col ''is_verified'' Boolean),
      plain (nullable (col ''last_login_at'' Timestamptz)),
      plain (nullable (col ''mfa_secret'' (Varchar 64)))])
     [TableIndex True ''uq_users_tenant_email_alive'' [''tenant_id'', ''email''] (Some ''deleted_at IS NULL'')]"

definition PasswordResetToken_table :: table_model where
  "PasswordResetToken_table = model ''password_reset_tokens'' (UUIDPKMixin @ TimestampMixin @ ProductScopedMixin @
     [indexed (references ''users'' ''id'' Cascade (col ''user_id'' Uuid)),
      plain (col ''token_hash'' (Varchar 64)),
      plain (col ''expires_at'' Timestamptz),
      plain (nullable (col ''used_at'' Timestamptz)),
      plain (nullable (col ''requested_ip'' (Varchar 64)))])
     [UniqueConstraint [''token_hash''] ''uq_password_reset_token_hash'']"

definition Job_table :: table_model where
  "Job_table = model ''jobs'' (UUIDPKMixin @ TimestampMixin @ ProductScopedMixin @ TenantScopedMixin @
     [indexed (col ''type'' (Varchar 64)),
      plain (col ''status'' (EnumType ''job_status'')),
      plain (col ''payload'' Jsonb),
      plain (nullable (col ''result'' Jsonb)),
      plain (nullable (col ''error'' Jsonb)),
      plain (col ''progress'' Integer),
      plain (nullable (col ''idempotency_key'' (Varchar 128))),
      indexed (nullable (col ''reference'' (Varchar 128))),
      plain (nullable (col ''callback_url'' (Varchar 512))),
      plain (nullable (col ''credits_charged'' (Numeric 18 4))),
      plain (col ''queued_at'' Timestamptz),
      plain (nullable (col ''started_at'' Timestamptz)),
      plain (nullable (col ''completed_at'' Timestamptz)),
      plain (col ''expires_at'' Timestamptz),
      indexed (references ''users'' ''id'' SetNull (nullable (col ''created_by_user_id'' Uuid))),
      plain (references ''tenants'' ''id'' SetNull (nullable (col ''acting_from_tenant_id'' Uuid)))])
     [TableIndex False ''ix_jobs_product_tenant_status'' [''product_id'', ''tenant_id'', ''status''] None,
      TableIndex True ''uq_jobs_idempotency'' [''product_id'', ''tenant_id'', ''type'', ''idempotency_key''] (Some ''idempotency_key IS NOT NULL'')]"

definition StorageCollection_table :: table_model where
  "StorageCollection_table = model ''storage_collections'' (UUIDPKMixin @ TimestampMixin @ ProductScopedMixin @ TenantScopedMixin @
     [plain (col ''name'' (Varchar 64)),
      plain (col ''default_ttl_seconds'' Integer),
      plain (nullable (col ''description'' (Varchar 255))),
      plain (col ''settings'' Jsonb)])
     [UniqueConstraint [''product_id'', ''tenant_id'', ''name''] ''uq_storage_collections_name'']"

definition StorageDocument_table :: table_model where
  "StorageDocument_table = model ''storage_documents'' (UUIDPKMixin @ TimestampMixin @ ProductScopedMixin @ TenantScopedMixin @
     [indexed (references ''storage_collections'' ''id'' Cascade (col ''collection_id'' Uuid)),
      plain (col ''key'' (Varchar 255)),
      plain (col ''value'' Jsonb),
      plain (col ''version'' Integer),
      plain (nullable (col ''expires_at'' Timestamptz))])
     [UniqueConstraint [''product_id'', ''tenant_id'', ''collection_id'', ''key''] ''uq_storage_documents_key'',
      TableIndex False ''ix_storage_documents_sync'' [''product_id'', ''tenant_id'', ''collection_id'', ''updated_at''] None]"

definition WebhookEndpoint_table :: table_model where
  "WebhookEndpoint_table = model ''webhook_endpoints'' (UUIDPKMixin @ TimestampMixin @ ProductScopedMixin @
     [plain (col ''url'' (Varchar 2048)),
      plain (nullable (col ''description'' (Varchar 255))),
      plain (col ''secret'' (Varchar 64)),
      plain (col ''events'' Jsonb),
      plain (col ''is_active'' Boolean)])
     []"

definition WebhookDelivery_table :: table_model where
  "WebhookDelivery_table = model ''webhook_deliveries'' (UUIDPKMixin @ TimestampMixin @
     [plain (references ''webhook_endpoints'' ''id'' Cascade (col ''endpoint_id'' Uuid)),
      plain (references ''products'' ''id'' Cascade (col ''product_id'' Uuid)),
      plain (col ''event_type'' (Varchar 64)),
      plain (col ''payload'' Jsonb),
      plain (nullable (col ''request_id'' (Varchar 64))),
      plain (col ''attempt'' Integer),
      plain (col ''status'' (Varchar 16)),
      plain (nullable (col ''response_status'' Integer)),
      plain (nullable (col ''response_body'' Text)),
      plain (nullable (col ''delivered_at'' Timestamptz)),
      plain (nullable (col ''next_retry_at'' Timestamptz))])
     [TableIndex False ''ix_webhook_deliveries_product_created'' [''product_id'', ''created_at''] None,
      TableIndex False ''ix_webhook_deliveries_endpoint_id'' [''endpoint_id''] None]"

definition ProductEnvVar_table :: table_model where
  "ProductEnvVar_table = model ''product_env_vars'' (UUIDPKMixin @ TimestampMixin @ ProductScopedMixin @
     [plain (col ''key'' (Varchar 128)),
      plain (col ''value_encrypted'' Bytea),
      plain (col ''is_secret'' Boolean),
      plain (nullable (col ''description'' (Varchar 255))),
      plain (col ''last_rotated_at'' Timestamptz)])
     [TableIndex True ''uq_product_env_vars_key'' [''product_id'', ''key''] None]"

definition ProductServiceToken_table :: table_model where
  "ProductServiceToken_table = model ''product_service_tokens'' (UUIDPKMixin @ TimestampMixin @ ProductScopedMixin @
     [plain (col ''name'' (Varchar 128)),
      plain (col ''token_hash'' (Varchar 64)),
      plain (col ''scopes'' Jsonb),
      plain (nullable (col ''expires_at'' Timestamptz)),
      plain (nullable (col ''revoked_at'' Timestamptz)),
      plain (nullable (col ''last_used_at'' Timestamptz)),
      plain (nullable (col ''last_used_ip'' (Varchar 64)))])
     [UniqueConstraint [''token_hash''] ''uq_service_tokens_token_hash'']"

definition ProductComponent_table :: table_model where
  "ProductComponent_table = model ''product_components'' (UUIDPKMixin @ TimestampMixin @ ProductScopedMixin @
     [plain (col ''code'' (Varchar 64)),
      plain (col ''name'' (Varchar 128)),
      plain (nullable (col ''description'' (Varchar 255))),
      plain (col ''is_default_enabled'' Boolean),
      plain (col ''is_active'' Boolean),
      plain (col ''settings'' Jsonb),
      plain (nullable (col ''required_plan_codes'' Jsonb))])
     [UniqueConstraint [''product_id'', ''code''] ''uq_product_components_product_code'']"

definition UserComponentOverride_table :: table_model where
  "UserComponentOverride_table = model ''user_component_overrides'' (UUIDPKMixin @ TimestampMixin @ ProductScopedMixin @ TenantScopedMixin @
     [plain (references ''users'' ''id'' Cascade (col ''user_id'' Uuid)),
      plain (references ''product_components'' ''id'' Cascade (col ''component_id'' Uuid)),
      plain (col ''is_enabled'' Boolean),
      plain (nullable (col ''reason'' (Varchar 255))),
      plain (references ''users'' ''id'' SetNull (nullable (col ''set_by_user_id'' Uuid))),
      plain (col ''set_at'' Timestamptz)])
     [UniqueConstraint [''user_id'', ''component_id''] ''uq_user_component_overrides_user_component'',
      TableIndex False ''ix_user_component_overrides_user_id'' [''user_id''] None,
      TableIndex False ''ix_user_component_overrides_component_id'' [''component_id''] None]"

definition TenantComponentOverride_table :: table_model where
  "TenantComponentOverride_table = model ''tenant_component_overrides'' (UUIDPKMixin @ TimestampMixin @ ProductScopedMixin @ TenantScopedMixin @
     [plain (references ''product_components'' ''id'' Cascade (col ''component_id'' Uuid)),
      plain (col ''is_enabled'' Boolean),
      plain (nullable (col ''reason'' (Varchar 255))),
      plain (references ''users'' ''id'' SetNull (nullable (col ''set_by_user_id'' Uuid))),
      plain (col ''set_at'' Timestamptz)])
     [UniqueConstraint [''tenant_id'', ''component_id''] ''uq_tenant_component_overrides_tenant_component'',
      TableIndex False ''ix_tenant_component_overrides_component_id'' [''component_id''] None]"

definition MODELS :: "table_model list" where
  "MODELS =
    [Product_table, Tenant_table, User_table, PasswordResetToken_table, Job_table, StorageCollection_table, StorageDocument_table, WebhookEndpoint_table, WebhookDelivery_table, ProductEnvVar_table, ProductServiceToken_table, ProductComponent_table, UserComponentOverride_table, TenantComponentOverride_table]"

section \<open>What the models make\<close>

text \<open>The name of an index on one column is \<^verbatim>\<open>ix_<table>_<column>\<close>.\<close>

definition column_index :: "string \<Rightarrow> column \<times> bool \<Rightarrow> schema" where
  "column_index t x = (case x of (c, ix) \<Rightarrow>
     if ix then [(''ix_'' @ t @ ''_'' @ col_name c, Index False t [Asc (col_name c)] None)] else [])"

fun arg_index :: "string \<Rightarrow> table_arg \<Rightarrow> string \<times> relation" where
  "arg_index t (UniqueConstraint cs n) = (n, Index True t (map Asc cs) None)"
| "arg_index t (TableIndex u n cs w) = (n, Index u t (map Asc cs) w)"

fun arg_constraint :: "table_arg \<Rightarrow> string list" where
  "arg_constraint (UniqueConstraint _ n) = [n]"
| "arg_constraint (TableIndex _ _ _ _) = []"

definition create_table :: "table_model \<Rightarrow> schema" where
  "create_table m =
     (tablename m, Table (map fst (table_columns m)) (concat (map arg_constraint (table_args m)))) #
     concat (map (column_index (tablename m)) (table_columns m)) @ map (arg_index (tablename m)) (table_args m)"

definition create_all :: "table_model list \<Rightarrow> schema" where
  "create_all ms = concat (map create_table ms)"

section \<open>Where the two ways to a schema differ\<close>

text \<open>What the two say of a column, but for the default, which the models leave to Python, and of an index.\<close>

definition shape :: "column \<Rightarrow> string \<times> sql_type \<times> bool \<times> (string \<times> string \<times> on_delete) option" where
  "shape c = (col_name c, col_type c, col_nullable c, col_references c)"

fun relation_diff :: "relation \<Rightarrow> relation option \<Rightarrow> string list" where
  "relation_diff (Table cols ks) (Some (Table cols' ks')) =
     map col_name (filter (\<lambda>c. shape c \<notin> set (map shape cols')) cols @ filter (\<lambda>c. col_name c \<notin> set (names cols)) cols')"
| "relation_diff (Index u t ks w) (Some r) = (if r = Index u t ks w then [] else [t])"
| "relation_diff _ _ = [[]]"

fun entry_diff :: "(string \<Rightarrow> relation option) \<Rightarrow> string \<times> relation \<Rightarrow> (string \<times> string) list" where
  "entry_diff f (n, r) = map (Pair n) (relation_diff r (f n))"

definition schema_diff :: "schema \<Rightarrow> (string \<Rightarrow> relation option) \<Rightarrow> (string \<times> string) list" where
  "schema_diff s f = concat (map (entry_diff f) s)"

section \<open>The migrations and the models\<close>

definition statements :: "statement list" where
  "statements = concat (map snd MIGRATIONS)"

lemma run_statements: "run_migrations ms s = execs (concat (map snd ms)) s"
  by (induction ms arbitrary: s) (auto simp: run_migration_def execs_append split: sum.splits)

lemma migrate_execs: "migrate s = (case execs statements s of Inl e \<Rightarrow> (Inl e, s) | Inr s' \<Rightarrow> (Inr (), s'))"
  by (simp add: migrate_def run_statements statements_def)

definition wanted :: known where
  "wanted = [(''products'', [''id'']), (''tenants'', [''id'', ''product_id'', ''slug'', ''deleted_at'']),
     (''users'', [''id'', ''tenant_id'', ''email'', ''deleted_at''])]"

lemma statements_apart: "all_apart statements"
  by code_simp

lemma statements_once: "makes_once statements"
  by code_simp

lemma statements_checked: "all_checked statements wanted \<noteq> None"
  by code_simp

text \<open>C24: the deploy command can be repeated. On any database with the tables of products, tenants and users, whatever
  other tables of the script it has already, the run succeeds and leaves nothing to do: a second run changes nothing.
  If it was cut off after any number of statements and these were kept, a new run ends in the same schema.\<close>

theorem migrate_repeats:
  assumes "provides s wanted" and "\<forall>st\<in>set statements. fits s st"
  shows "\<exists>s'. migrate s = (Inr (), s') \<and> (\<forall>st\<in>set statements. settled st s') \<and> migrate s' = (Inr (), s') \<and>
     (\<forall>n. \<exists>sm. execs (take n statements) s = Inr sm \<and> migrate sm = (Inr (), s'))"
proof -
  from statements_checked obtain k where "all_checked statements wanted = Some k" by blast
  from all_checked_sound [OF this assms statements_once] obtain s' where run: "execs statements s = Inr s'" by blast
  have settled: "\<forall>st\<in>set statements. settled st s'"
    by (rule execs_settle [OF run]) (use all_apartD [OF statements_apart] in blast)
  have "\<exists>sm. execs (take n statements) s = Inr sm \<and> migrate sm = (Inr (), s')" for n
  proof -
    have "execs (take n statements @ drop n statements) s = Inr s'" using run by simp
    then obtain sm where sm: "execs (take n statements) s = Inr sm"
      by (simp only: execs_append) (auto split: sum.splits)
    then show ?thesis using execs_resume [OF statements_apart sm] run by (simp add: migrate_execs)
  qed
  then show ?thesis using run settled execs_settled [OF settled] by (auto simp: migrate_execs)
qed

text \<open>A database from before the first migration.\<close>

definition old_schema :: schema where
  "old_schema =
     [(''products'', Table [col ''id'' Uuid, col ''slug'' (Varchar 64)] [''uq_products_slug'']),
      (''uq_products_slug'', Index True ''products'' [Asc ''slug''] None),
      (''tenants'', Table [col ''id'' Uuid, col ''product_id'' Uuid, col ''slug'' (Varchar 64), nullable (col ''deleted_at'' Timestamptz)]
         [''uq_tenants_product_slug'']),
      (''uq_tenants_product_slug'', Index True ''tenants'' [Asc ''product_id'', Asc ''slug''] None),
      (''users'', Table [col ''id'' Uuid, col ''tenant_id'' Uuid, col ''email'' (Varchar 320), nullable (col ''deleted_at'' Timestamptz)]
         [''uq_users_tenant_email'']),
      (''uq_users_tenant_email'', Index True ''users'' [Asc ''tenant_id'', Asc ''email''] None)]"

theorem migrate_repeats_witness: "\<exists>s'. migrate old_schema = (Inr (), s') \<and> migrate s' = (Inr (), s')"
proof -
  have "list_all (\<lambda>(t, cs). want_columns old_schema t cs = Inr ()) wanted" by code_simp
  then have "provides old_schema wanted" by (simp add: provides_def list_all_iff)
  moreover have "list_all (fits old_schema) statements" by code_simp
  then have "\<forall>st\<in>set statements. fits old_schema st" by (simp add: list_all_iff)
  ultimately show ?thesis using migrate_repeats by blast
qed

text \<open>The core of the database: the tables the script does not make.\<close>

definition core :: schema where
  "core = create_all [Product_table, Tenant_table, User_table]"

lemma core_wanted: "provides core wanted"
proof -
  have "list_all (\<lambda>(t, cs). want_columns core t cs = Inr ()) wanted" by code_simp
  then show ?thesis by (simp add: provides_def list_all_iff)
qed

lemma core_fits: "\<forall>st\<in>set statements. fits core st"
proof -
  have "list_all (\<lambda>st. case st of CreateTable t _ \<Rightarrow> t \<notin> set (map fst core) | _ \<Rightarrow> True) statements" by code_simp
  then show ?thesis by (auto simp: list_all_iff fits_def map_of_eq_None_iff split: statement.splits)
qed

definition makes_all :: "statement list \<Rightarrow> schema \<Rightarrow> schema \<Rightarrow> bool" where
  "makes_all sts s s' \<longleftrightarrow>
     list_all (\<lambda>n. n \<in> set (map fst s')) (map fst s @ List.map_filter makes sts) \<and>
     list_all (\<lambda>k. k \<notin> set (map fst s')) (List.map_filter dropped sts)"

lemma core_makes_all: "makes_all statements core (create_all MODELS)"
  by code_simp

lemma core_diff:
  "schema_diff (create_all MODELS) (planned statements core) =
     [(''jobs'', ''status''), (''ix_webhook_deliveries_product_created'', ''webhook_deliveries'')]"
  by code_simp

lemma schema_diff_cong: "(\<And>n. n \<in> fst ` set s \<Longrightarrow> f n = g n) \<Longrightarrow> schema_diff s f = schema_diff s g"
proof -
  assume eq: "\<And>n. n \<in> fst ` set s \<Longrightarrow> f n = g n"
  have "map (entry_diff f) s = map (entry_diff g) s"
  proof (rule map_cong [OF refl])
    fix x assume "x \<in> set s"
    moreover obtain n r where x: "x = (n, r)" by fastforce
    ultimately have "f n = g n" by (intro eq) (simp add: rev_image_eqI)
    then show "entry_diff f x = entry_diff g x" by (simp add: x)
  qed
  then show ?thesis by (simp only: schema_diff_def)
qed

lemma schema_diff_None: "(n, r) \<in> set s \<Longrightarrow> f n = None \<Longrightarrow> (n, []) \<in> set (schema_diff s f)"
  by (force simp: schema_diff_def intro: bexI [of _ "(n, r)"])

section \<open>The schema of the models\<close>

lemma models_distinct: "distinct (map fst (create_all MODELS))"
  by code_simp

definition models_known :: "table_model list \<Rightarrow> known" where
  "models_known ms = map (\<lambda>m. (tablename m, names (map fst (table_columns m)))) ms"

lemma create_all_provides:
  assumes "distinct (map fst (create_all ms))"
  shows "provides (create_all ms) (models_known ms)"
proof -
  have "map_of (create_all ms) (tablename m) = Some (Table (map fst (table_columns m)) (concat (map arg_constraint (table_args m))))"
    if "m \<in> set ms" for m
    by (rule map_of_is_SomeI [OF assms]) (use that in \<open>auto simp: create_all_def create_table_def\<close>)
  then show ?thesis by (auto simp: provides_def models_known_def want_columns_ok table_iff)
qed

lemma arg_constraint_index: "x \<in> set (arg_constraint a) \<Longrightarrow> fst (arg_index t a) = x"
  by (cases a) auto

lemma create_all_named: "constraints_named (create_all ms)"
  unfolding constraints_named_def table_iff
proof (intro allI impI subsetI)
  fix t cols ks x
  assume "map_of (create_all ms) t = Some (Table cols ks)" and x: "x \<in> set ks"
  then obtain m where m: "m \<in> set ms" "(t, Table cols ks) \<in> set (create_table m)"
    by (auto simp: create_all_def dest!: map_of_SomeD)
  have "fst (snd (arg_index v a), w) \<noteq> Table cols ks" for v a and w :: unit by (cases a) auto
  then have "(t, Table cols ks) \<noteq> arg_index v a" for v a by (metis fst_conv snd_conv)
  with m(2) have "ks = concat (map arg_constraint (table_args m))"
    by (auto simp: create_table_def column_index_def split: if_splits)
  then obtain a where "a \<in> set (table_args m)" "x \<in> set (arg_constraint a)" using x by auto
  then have "x \<in> fst ` set (create_table m)"
    using arg_constraint_index by (force simp: create_table_def image_iff)
  then show "x \<in> fst ` set (create_all ms)" using m(1) by (auto simp: create_all_def)
qed

lemma models_quiet: "list_all (quiet (models_known MODELS) (map fst (create_all MODELS))) statements"
  by code_simp


end
