(* ===== verification/Seeds.thy ===== *)
theory Seeds
  imports LifecycleProperties Auth
begin

text \<open>
  The first rows of a deployment: \<^verbatim>\<open>src/scripts/seed.py\<close>. The script runs in one session. An exception of
  the trial is logged and passed over; if it is one of the database, the session cannot commit any more and the script
  fails. Amounts are in units of one ten-thousandth.
\<close>

section \<open>The script\<close>

definition DEFAULT_PRODUCT_SLUG :: string where
  "DEFAULT_PRODUCT_SLUG = ''platform''"

definition DEFAULT_PRODUCT_NAME :: string where
  "DEFAULT_PRODUCT_NAME = ''Default Product''"

definition units :: "int \<Rightarrow> int" where
  "units n = n * 10000"

record seed_plan_spec =
  ss_code :: string
  ss_name :: string
  ss_price_cents :: int
  ss_trial_days :: int
  ss_is_public :: bool
  ss_features :: "(string \<times> int option \<times> int option) list"

definition DEFAULT_PLANS :: "seed_plan_spec list" where
  "DEFAULT_PLANS =
     [\<lparr>ss_code = ''free'', ss_name = ''Free'', ss_price_cents = 0, ss_trial_days = 0, ss_is_public = True, ss_features =
        [(''seats'', Some (units 3), None), (''credits.ai_completion'', None, Some (units 100))]\<rparr>,
      \<lparr>ss_code = ''pro'', ss_name = ''Pro'', ss_price_cents = 2900, ss_trial_days = 14, ss_is_public = True, ss_features =
        [(''seats'', Some (units 25), None), (''credits.ai_completion'', None, Some (units 10000)),
         (''storage.gb'', Some (units 100), None)]\<rparr>,
      \<lparr>ss_code = ''enterprise'', ss_name = ''Enterprise'', ss_price_cents = 49900, ss_trial_days = 30, ss_is_public = False,
        ss_features = [(''seats'', None, None), (''credits.ai_completion'', None, Some (units 250000)),
         (''storage.gb'', Some (units 1000), None)]\<rparr>]"

definition seed_product :: "Product service" where
  "seed_product =
     bindS (scalar products (\<lambda>p. Product_slug p = DEFAULT_PRODUCT_SLUG)) (\<lambda>product.
     case product of
       Some p \<Rightarrow> ret p
     | None \<Rightarrow>
         bindS fresh (\<lambda>i.
         let p = \<lparr>Product_id = i, Product_name = DEFAULT_PRODUCT_NAME, Product_slug = DEFAULT_PRODUCT_SLUG,
               Product_description = None, Product_status = ProductActive, Product_is_active = True, Product_settings = [],
               Product_deleted_at = None\<rparr>
         in bindS (insert_row products products_update product_clash p) (\<lambda>_. ret p)))"

definition seed_feature :: "uuid \<Rightarrow> uuid \<Rightarrow> string \<times> int option \<times> int option \<Rightarrow> unit service" where
  "seed_feature product_id plan_id = (\<lambda>(key, limit, credit).
     bindS fresh (\<lambda>j.
     insert_row plan_features plan_features_update plan_feature_clash
       \<lparr>PlanFeature_id = j, PlanFeature_product_id = product_id, PlanFeature_plan_id = plan_id,
        PlanFeature_feature_key = key, PlanFeature_limit_value = limit, PlanFeature_credit_amount = credit,
        PlanFeature_is_hard_limit = True, PlanFeature_meta = []\<rparr>))"

definition seed_plan :: "uuid \<Rightarrow> seed_plan_spec \<Rightarrow> unit service" where
  "seed_plan product_id p =
     bindS (scalar plans (\<lambda>x. Plan_product_id x = product_id \<and> Plan_code x = ss_code p)) (\<lambda>existing.
     if existing \<noteq> None then ret ()
     else
     bindS fresh (\<lambda>i.
     bindS (insert_row plans plans_update plan_clash
       \<lparr>Plan_id = i, Plan_product_id = product_id, Plan_code = ss_code p, Plan_name = ss_name p, Plan_description = None,
        Plan_price_cents = ss_price_cents p, Plan_currency = ''USD'', Plan_interval = Month,
        Plan_trial_days = ss_trial_days p, Plan_is_public = ss_is_public p, Plan_is_active = True,
        Plan_provider_refs = []\<rparr>) (\<lambda>_.
     forS (ss_features p) (seed_feature product_id i))))"

definition seed_root :: "uuid \<Rightarrow> Tenant service" where
  "seed_root product_id =
     bindS (scalar tenants (\<lambda>t. Tenant_product_id t = product_id \<and> Tenant_slug t = ''platform'')) (\<lambda>root.
     case root of
       Some t \<Rightarrow> ret t
     | None \<Rightarrow>
         bindS fresh (\<lambda>i.
         bindS (gets now) (\<lambda>n.
         let t = \<lparr>Tenant_id = i, Tenant_product_id = product_id, Tenant_name = ''Platform Root'', Tenant_slug = ''platform'',
               Tenant_status = TenantActive, Tenant_type = Company, Tenant_parent_id = None, Tenant_is_root = True,
               Tenant_settings = [], Tenant_expires_at = None, Tenant_deleted_at = None, Tenant_created_at = n\<rparr>
         in bindS (insert_row tenants tenants_update tenant_clash t) (\<lambda>_. ret t))))"

definition seed_admin :: "uuid \<Rightarrow> uuid \<Rightarrow> unit service" where
  "seed_admin product_id root_id =
     bindS (scalar users (\<lambda>u. User_product_id u = product_id \<and> User_tenant_id u = root_id \<and>
              User_email u = ''admin@example.com'')) (\<lambda>admin.
     if admin \<noteq> None then ret ()
     else
     bindS (hash_password ''ChangeMeNow123!'') (\<lambda>h.
     bindS fresh (\<lambda>i.
     let u = \<lparr>User_id = i, User_product_id = product_id, User_tenant_id = root_id, User_email = ''admin@example.com'',
           User_password_hash = h, User_full_name = Some ''Platform Admin'', User_is_active = True, User_is_verified = True,
           User_last_login_at = None, User_deleted_at = None, User_is_platform_admin = False\<rparr>
     in
     bindS (insert_row users users_update user_clash u) (\<lambda>_.
     bindS (assign_role_by_name u ''owner'') (\<lambda>_. ret ())))))"

definition seed_trial :: "uuid \<Rightarrow> uuid \<Rightarrow> unit service" where
  "seed_trial root_id product_id =
     tryS (bindS (start_trial root_id product_id (Some ''pro'')) (\<lambda>_. ret ()))
       (\<lambda>e. if e = IntegrityError then raise e else ret ())"

definition seed_rows :: "unit service" where
  "seed_rows =
     bindS seed_product (\<lambda>product.
     bindS (ensure_system_roles_for_product (Product_id product)) (\<lambda>_.
     bindS (forS DEFAULT_PLANS (seed_plan (Product_id product))) (\<lambda>_.
     bindS (seed_root (Product_id product)) (\<lambda>root.
     bindS (set_current_product (Some (Product_id product))) (\<lambda>_.
     bindS (set_current_tenant (Some (Tenant_id root))) (\<lambda>_.
     bindS (seed_admin (Product_id product) (Tenant_id root)) (\<lambda>_.
     seed_trial (Tenant_id root) (Product_id product))))))))"

definition seed :: "unit service" where
  "seed = session_scope seed_rows"

section \<open>A second run\<close>

text \<open>What each part reads of the tables it does not write.\<close>

definition core_tables :: "world \<Rightarrow> Product list \<times> Permission list \<times> Role list \<times> RolePermission list" where
  "core_tables w = (products (db w), permissions (db w), roles (db w), role_permissions (db w))"

lemma seeded_core: "seeded pid w \<Longrightarrow> core_tables w' = core_tables w \<Longrightarrow> seeded pid w'"
  by (auto simp: seeded_def core_tables_def catalog_complete_def template_done_def system_role_def has_permission_def)

definition the_product :: "world \<Rightarrow> Product option" where
  "the_product w = List.find (\<lambda>p. Product_slug p = DEFAULT_PRODUCT_SLUG) (products (db w))"

definition the_root :: "uuid \<Rightarrow> world \<Rightarrow> Tenant option" where
  "the_root pid w = List.find (\<lambda>t. Tenant_product_id t = pid \<and> Tenant_slug t = ''platform'') (tenants (db w))"

definition has_plan :: "uuid \<Rightarrow> string \<Rightarrow> world \<Rightarrow> bool" where
  "has_plan pid code w \<longleftrightarrow> (\<exists>p \<in> set (plans (db w)). Plan_product_id p = pid \<and> Plan_code p = code)"

definition has_admin :: "uuid \<Rightarrow> uuid \<Rightarrow> world \<Rightarrow> bool" where
  "has_admin pid tid w \<longleftrightarrow>
     (\<exists>u \<in> set (users (db w)). User_product_id u = pid \<and> User_tenant_id u = tid \<and> User_email u = ''admin@example.com'')"

definition has_subscription :: "uuid \<Rightarrow> world \<Rightarrow> bool" where
  "has_subscription tid w \<longleftrightarrow> (\<exists>s \<in> set (subscriptions (db w)). Subscription_tenant_id s = tid)"

text \<open>The rows of the script are there.\<close>

definition bootstrapped :: "Product \<Rightarrow> Tenant \<Rightarrow> world \<Rightarrow> bool" where
  "bootstrapped p t w \<longleftrightarrow> the_product w = Some p \<and> seeded (Product_id p) w \<and>
     (\<forall>s \<in> set DEFAULT_PLANS. has_plan (Product_id p) (ss_code s) w) \<and> the_root (Product_id p) w = Some t \<and>
     has_admin (Product_id p) (Tenant_id t) w \<and> has_subscription (Tenant_id t) w \<and>
     cur_product w = Some (Product_id p) \<and> cur_tenant w = Some (Tenant_id t)"

lemma seed_plan_there: "has_plan pid (ss_code s) w \<Longrightarrow> seed_plan pid s w = (Inr (), w)"
  by (auto simp: seed_plan_def has_plan_def svc_simps find_None_iff_all)

lemma seed_plans_there: "\<forall>s \<in> set ss. has_plan pid (ss_code s) w \<Longrightarrow> forS ss (seed_plan pid) w = (Inr (), w)"
  by (induction ss) (simp_all add: svc_simps seed_plan_there)

lemma start_trial_again: "has_subscription tid w \<Longrightarrow> start_trial tid pid c w = (Inl (Conflict ''subscription already exists''), w)"
  by (auto simp: start_trial_def has_subscription_def svc_simps find_None_iff_all)

lemma seed_rows_again:
  assumes "bootstrapped p t w"
  shows "seed_rows w = (Inr (), w)"
proof -
  have "seed_product w = (Inr p, w)"
    using assms by (simp add: bootstrapped_def the_product_def seed_product_def svc_simps)
  moreover have "ensure_system_roles_for_product (Product_id p) w = (Inr (), w)"
    by (rule ensure_system_roles_noop) (use assms in \<open>simp add: bootstrapped_def\<close>)
  moreover have "forS DEFAULT_PLANS (seed_plan (Product_id p)) w = (Inr (), w)"
    by (rule seed_plans_there) (use assms in \<open>simp add: bootstrapped_def\<close>)
  moreover have "seed_root (Product_id p) w = (Inr t, w)"
    using assms by (simp add: bootstrapped_def the_root_def seed_root_def svc_simps)
  moreover have "set_current_product (Some (Product_id p)) w = (Inr (), w)" "set_current_tenant (Some (Tenant_id t)) w = (Inr (), w)"
    using assms by (simp_all add: bootstrapped_def set_current_product_def set_current_tenant_def svc_simps)
  moreover have "seed_admin (Product_id p) (Tenant_id t) w = (Inr (), w)"
    using assms by (auto simp: bootstrapped_def has_admin_def seed_admin_def svc_simps find_None_iff_all)
  moreover have "seed_trial (Tenant_id t) (Product_id p) w = (Inr (), w)"
    using assms by (simp add: bootstrapped_def seed_trial_def svc_simps start_trial_again)
  ultimately show ?thesis by (simp add: seed_rows_def bindS_step)
qed

section \<open>The first run\<close>

definition trial_view :: "world \<Rightarrow> (Product list \<times> Permission list \<times> Role list \<times> RolePermission list) \<times> Plan list \<times> Tenant list \<times> User list \<times>
    uuid option \<times> uuid option" where
  "trial_view w = (core_tables w, plans (db w), tenants (db w), users (db w), cur_product w, cur_tenant w)"

lemma frames_trial: "frames trial_view (start_trial tid pid c)"
  unfolding start_trial_def trial_plan_def plan_by_code_def list_plans_def Let_def
  by (intro frames_intros keeps_frames [OF keeps_credit_grant]) (simp_all add: trial_view_def core_tables_def)

lemma trial_ends:
  assumes "has_plan pid ''pro'' w"
  shows "wp (start_trial tid pid (Some ''pro'')) (\<lambda>_. has_subscription tid) (\<lambda>e w'. e \<noteq> IntegrityError \<longrightarrow> has_subscription tid w') w"
proof (cases "List.find (\<lambda>s. Subscription_tenant_id s = tid) (subscriptions (db w))")
  case (Some s)
  then have "has_subscription tid w" by (auto simp: has_subscription_def dest: find_SomeD)
  then show ?thesis by (simp add: wp_def start_trial_again)
next
  case None
  obtain p where p: "plan_by_code pid ''pro'' w = (Inr p, w)"
    using assms by (cases "List.find (\<lambda>p. Plan_product_id p = pid \<and> Plan_code p = ''pro'') (plans (db w))")
      (auto simp: has_plan_def plan_by_code_def svc_simps find_None_iff_all)
  have rest: "wp (bindS (grant_plan_credits tid pid p r) (\<lambda>_. bindS (record_audit a) (\<lambda>_. ret s))) (\<lambda>_. has_subscription tid)
      (\<lambda>e w'. e \<noteq> IntegrityError \<longrightarrow> has_subscription tid w') w'" if "has_subscription tid w'" for r a and s :: Subscription and w' :: world
  proof (rule wp_frames [where g = "\<lambda>w. subscriptions (db w)"])
    show "frames (\<lambda>w. subscriptions (db w)) (bindS (grant_plan_credits tid pid p r) (\<lambda>_. bindS (record_audit a) (\<lambda>_. ret s)))"
      by (intro frames_intros frames_subscriptions_grant) simp_all
  qed (use that in \<open>simp_all add: has_subscription_def\<close>)
  have tail: "wp (grant_plan_credits tid pid p r) (\<lambda>_. wp (bindS (record_audit a) (\<lambda>_. ret s)) (\<lambda>_. has_subscription tid)
      (\<lambda>e w'. e \<noteq> IntegrityError \<longrightarrow> has_subscription tid w')) (\<lambda>e w'. e \<noteq> IntegrityError \<longrightarrow> has_subscription tid w') w'"
    if "has_subscription tid w'" for r a and s :: Subscription and w' :: world
    using rest [OF that, of r a s] by (simp only: wp_bindS)
  show ?thesis
    using None by (auto simp: start_trial_def trial_plan_def Let_def wp_simps wp_def [of "plan_by_code pid ''pro''"] p
      intro!: tail) (simp_all add: has_subscription_def)
qed

lemma seed_trial_ends:
  assumes "seed_trial tid pid w = (Inr (), w')" and "has_plan pid ''pro'' w"
  shows "has_subscription tid w' \<and> trial_view w' = trial_view w"
proof -
  obtain r v where run: "start_trial tid pid (Some ''pro'') w = (r, v)" by fastforce
  have view: "trial_view v = trial_view w" by (rule framesD [OF frames_trial run])
  show ?thesis
  proof (cases r)
    case (Inl e)
    then show ?thesis
      using assms(1) run view trial_ends [OF assms(2), of tid] by (auto simp: seed_trial_def svc_simps wp_def split: if_splits)
  next
    case (Inr a)
    then show ?thesis using assms(1) run view trial_ends [OF assms(2), of tid] by (auto simp: seed_trial_def svc_simps wp_def)
  qed
qed

definition admin_view :: "world \<Rightarrow> (Product list \<times> Permission list \<times> Role list \<times> RolePermission list) \<times> Plan list \<times> Tenant list \<times>
    uuid option \<times> uuid option" where
  "admin_view w = (core_tables w, plans (db w), tenants (db w), cur_product w, cur_tenant w)"

lemma seed_admin_ends:
  assumes "seed_admin pid tid w = (Inr (), w')"
  shows "has_admin pid tid w' \<and> admin_view w' = admin_view w"
proof -
  have role: "frames (\<lambda>w. (admin_view w, users (db w))) (assign_role_by_name u n)" for u n
    unfolding assign_role_by_name_def assign_role_def Let_def
    by (intro frames_intros) (simp_all add: admin_view_def core_tables_def)
  have "wp (seed_admin pid tid) (\<lambda>_ v. has_admin pid tid v \<and> admin_view v = admin_view w) (\<lambda>_ _. True) w"
  proof (cases "List.find (\<lambda>u. User_product_id u = pid \<and> User_tenant_id u = tid \<and> User_email u = ''admin@example.com'') (users (db w))")
    case (Some u)
    then show ?thesis by (auto simp: seed_admin_def wp_simps has_admin_def dest: find_SomeD)
  next
    case None
    then show ?thesis
      by (auto simp: seed_admin_def hash_password_def wp_simps Let_def intro!: wp_frames [OF role])
        (auto simp: has_admin_def admin_view_def core_tables_def)
  qed
  from wp_InrD [OF this assms] show ?thesis .
qed

lemma seed_root_ends:
  assumes "seed_root pid w = (Inr t, w')"
  shows "the_root pid w' = Some t \<and> (core_tables w', plans (db w')) = (core_tables w, plans (db w))"
proof -
  have "wp (seed_root pid) (\<lambda>t v. the_root pid v = Some t \<and> (core_tables v, plans (db v)) = (core_tables w, plans (db w))) (\<lambda>_ _. True) w"
    by (auto simp: seed_root_def the_root_def wp_simps core_tables_def find_append Let_def split: option.splits)
  from wp_InrD [OF this assms] show ?thesis .
qed

lemma seed_plan_ends:
  assumes "seed_plan pid s w = (Inr (), w')"
  shows "has_plan pid (ss_code s) w' \<and> core_tables w' = core_tables w \<and> set (plans (db w)) \<subseteq> set (plans (db w'))"
proof (cases "has_plan pid (ss_code s) w")
  case True
  then show ?thesis using assms by (simp add: seed_plan_there)
next
  case False
  have features: "frames (\<lambda>w. (core_tables w, plans (db w))) (forS fs (seed_feature pid i))" for fs i
    unfolding seed_feature_def by (intro frames_intros) (simp_all add: core_tables_def)
  have "List.find (\<lambda>x. Plan_product_id x = pid \<and> Plan_code x = ss_code s) (plans (db w)) = None"
    using False by (auto simp: has_plan_def find_None_iff_all)
  then have "wp (seed_plan pid s) (\<lambda>_ v. has_plan pid (ss_code s) v \<and> core_tables v = core_tables w \<and> set (plans (db w)) \<subseteq> set (plans (db v)))
      (\<lambda>_ _. True) w"
    by (auto simp: seed_plan_def wp_simps intro!: wp_frames [OF features]) (auto simp: has_plan_def core_tables_def)
  from wp_InrD [OF this assms] show ?thesis .
qed

lemma seed_plans_end:
  assumes "forS ss (seed_plan pid) w = (Inr (), w')"
  shows "(\<forall>s \<in> set ss. has_plan pid (ss_code s) w') \<and> core_tables w' = core_tables w \<and> set (plans (db w)) \<subseteq> set (plans (db w'))"
  using assms
proof (induction ss arbitrary: w)
  case (Cons s ss)
  then obtain v where v: "seed_plan pid s w = (Inr (), v)" "forS ss (seed_plan pid) v = (Inr (), w')"
    by (auto simp: bindS_Inr_iff)
  note rest = Cons.IH [OF v(2)] and one = seed_plan_ends [OF v(1)]
  have "has_plan pid (ss_code s) w'" using one rest unfolding has_plan_def by blast
  then show ?case using one rest by auto
qed (simp add: svc_simps)

lemma frames_ensure_products: "frames (\<lambda>w. products (db w)) (ensure_system_roles_for_product pid)"
  unfolding ensure_system_roles_for_product_def ensure_permission_catalog_def add_permission_def ensure_template_def
    add_role_permission_def Let_def
  by (intro frames_intros) simp_all

lemma seed_rows_ends:
  assumes "seed_rows w = (Inr (), w')"
  shows "\<exists>p t. bootstrapped p t w'"
proof -
  define ctx where "ctx v p t = v\<lparr>cur_product := Some (Product_id p), cur_tenant := Some (Tenant_id t)\<rparr>" for v :: world and p :: Product and t :: Tenant
  obtain p w1 w2 w3 t w4 w6 where run:
      "seed_product w = (Inr p, w1)" "ensure_system_roles_for_product (Product_id p) w1 = (Inr (), w2)"
      "forS DEFAULT_PLANS (seed_plan (Product_id p)) w2 = (Inr (), w3)" "seed_root (Product_id p) w3 = (Inr t, w4)"
      "seed_admin (Product_id p) (Tenant_id t) (ctx w4 p t) = (Inr (), w6)"
      "seed_trial (Tenant_id t) (Product_id p) w6 = (Inr (), w')"
    using assms unfolding seed_rows_def bindS_Inr_iff set_current_product_def set_current_tenant_def modify_apply ctx_def
    by auto
  have first: "wp seed_product (\<lambda>p v. the_product v = Some p) (\<lambda>_ _. True) w"
    by (auto simp: seed_product_def the_product_def wp_simps find_append Let_def split: option.splits)
  then have p: "the_product w2 = Some p"
    using wp_InrD [OF first run(1)] framesD [OF frames_ensure_products run(2)] by (simp add: the_product_def)
  have roles: "seeded (Product_id p) w2" by (rule ensure_system_roles_seeds [OF run(2)])
  note plans = seed_plans_end [OF run(3)] and root = seed_root_ends [OF run(4)] and admin = seed_admin_ends [OF run(5)]
  have "has_plan (Product_id p) ''pro'' w6"
    using plans root admin by (auto simp: DEFAULT_PLANS_def has_plan_def admin_view_def ctx_def)
  note trial = seed_trial_ends [OF run(6) this]
  have core: "core_tables w' = core_tables w2" "plans (db w') = plans (db w3)" "tenants (db w') = tenants (db w4)"
      "users (db w') = users (db w6)" "cur_product w' = Some (Product_id p)" "cur_tenant w' = Some (Tenant_id t)"
    using plans root admin trial by (auto simp: trial_view_def admin_view_def core_tables_def ctx_def)
  show ?thesis
    using p seeded_core [OF roles core(1)] plans root admin trial core
    by (intro exI [of _ p] exI [of _ t])
      (auto simp: bootstrapped_def the_product_def the_root_def core_tables_def has_plan_def has_admin_def)
qed

text \<open>C26: the seed of a deployment can be run again. Once it has gone through, whatever the database held before, a
  second run goes through too and changes nothing: not the product, its roles, plans, root tenant and administrator, not
  the trial, which the second run is refused, and it leaves no audit entry.\<close>

theorem seed_repeats:
  assumes "seed w = (Inr (), w')"
  shows "seed w' = (Inr (), w')"
proof -
  have "seed_rows w = (Inr (), w')"
    using assms by (auto simp: seed_def session_scope_def split: prod.splits sum.splits)
  then obtain p t where "bootstrapped p t w'" using seed_rows_ends by blast
  from seed_rows_again [OF this] show ?thesis by (simp add: seed_def session_scope_def)
qed

section \<open>A run on an empty database\<close>

lemma grant_goes_through: "wp (grant t p f n r ref e) (\<lambda>_ _. True) (\<lambda>_ _. False) w"
  by (auto simp: grant_def grant_read_def grant_write_def get_or_create_wallet_def book_def Let_def wp_simps
    wallet_clash_def wallet_key_def find_None_iff_all split: option.splits)

lemma plan_credits_go_through: "wp (grant_plan_credits t p plan ref) (\<lambda>_ _. True) (\<lambda>_ _. False) w"
proof -
  have "returns (grant t p f n r ref e)" for f n r ref e
    using grant_goes_through by (simp add: returns_wp)
  then have "returns (grant_plan_credits t p plan ref)"
    unfolding grant_plan_credits_def by (intro returns_intros)
  then show ?thesis by (simp add: returns_wp)
qed

lemma trial_no_clash: "wp (start_trial t p c) (\<lambda>_ _. True) (\<lambda>e _. e \<noteq> IntegrityError) w"
proof -
  have tail: "wp (grant_plan_credits t p x r) (\<lambda>_. wp (bindS (record_audit a) (\<lambda>_. ret s)) (\<lambda>_ _. True) (\<lambda>e _. e \<noteq> IntegrityError))
      (\<lambda>e _. e \<noteq> IntegrityError) v" for x r a and s :: Subscription and v
    by (rule wp_mono [OF plan_credits_go_through]) (simp_all add: wp_simps)
  show ?thesis
    by (auto simp: start_trial_def trial_plan_def plan_by_code_def list_plans_def Let_def wp_simps subscription_clash_def
      find_None_iff_all intro!: tail split: option.splits)
qed

lemma seed_trial_goes_through: "\<exists>w'. seed_trial t p w = (Inr (), w')"
  using trial_no_clash [of t p "Some ''pro''" w]
  by (cases "start_trial t p (Some ''pro'') w"; cases "fst (start_trial t p (Some ''pro'') w)")
    (auto simp: seed_trial_def wp_def svc_simps)

lemma owner_role: "seeded pid w \<Longrightarrow> \<exists>r \<in> set (roles (db w)). Role_name r = ''owner'' \<and> Role_tenant_id r = None \<and> Role_product_id r = pid"
proof -
  assume s: "seeded pid w"
  have "\<exists>ps. (''owner'', ps) \<in> set (role_templates x)" for x
    by (force simp: role_templates_def SYSTEM_ROLES_def Let_def)
  with s obtain ps where "template_done (permissions (db w)) pid w (''owner'', ps)"
    unfolding seeded_def by blast
  then show ?thesis by (auto simp: template_done_def system_role_def dest!: find_SomeD)
qed

lemma seed_plans_go_through:
  assumes "fresh_ids w" and "plans (db w) = []" and "plan_features (db w) = []"
  shows "\<exists>w'. forS DEFAULT_PLANS (seed_plan pid) w = (Inr (), w')"
proof -
  have "draws w i = draws w j \<longleftrightarrow> i = j" for i j using assms(1) by (auto simp: fresh_ids_def inj_eq)
  then show ?thesis
    using assms by (simp add: DEFAULT_PLANS_def seed_plan_def seed_feature_def svc_simps plan_clash_def plan_feature_clash_def)
qed

definition untouched :: "world \<Rightarrow> Plan list \<times> PlanFeature list \<times> Tenant list \<times> User list \<times> UserRole list" where
  "untouched w = (plans (db w), plan_features (db w), tenants (db w), users (db w), user_roles (db w))"

lemma frames_ensure_untouched: "frames (\<lambda>w. (untouched w, draws w)) (ensure_system_roles_for_product pid)"
  unfolding ensure_system_roles_for_product_def ensure_permission_catalog_def add_permission_def ensure_template_def
    add_role_permission_def Let_def
  by (intro frames_intros) (simp_all add: untouched_def)

lemma frames_plans_untouched: "frames (\<lambda>w. (tenants (db w), users (db w), user_roles (db w), roles (db w))) (forS ss (seed_plan pid))"
  unfolding seed_plan_def seed_feature_def by (intro frames_intros) simp_all

lemma seed_on_empty: "\<exists>w'. seed sample_world = (Inr (), w')"
proof -
  obtain p w1 where p: "seed_product sample_world = (Inr p, w1)" "untouched w1 = ([], [], [], [], [])" "permission_ids_ok w1"
    by (auto simp: seed_product_def svc_simps Let_def sample_world_def empty_db_def untouched_def permission_ids_ok_def
      fresh_ids_def NIL_def)
  obtain w2 where roles: "ensure_system_roles_for_product (Product_id p) w1 = (Inr (), w2)"
    using ensure_system_roles_returns [OF p(3)] by blast
  have w2: "untouched w2 = ([], [], [], [], [])" "fresh_ids w2"
    using framesD [OF frames_ensure_untouched roles] p(2,3) by (simp_all add: permission_ids_ok_def fresh_ids_def)
  then obtain w3 where plans: "forS DEFAULT_PLANS (seed_plan (Product_id p)) w2 = (Inr (), w3)"
    using seed_plans_go_through [of w2] by (auto simp: untouched_def)
  have w3: "tenants (db w3) = []" "users (db w3) = []" "user_roles (db w3) = []" "roles (db w3) = roles (db w2)"
    using framesD [OF frames_plans_untouched plans] w2(1) by (simp_all add: untouched_def)
  obtain t w4 where root: "seed_root (Product_id p) w3 = (Inr t, w4)" "users (db w4) = []" "user_roles (db w4) = []"
      "roles (db w4) = roles (db w2)"
    using w3 by (auto simp: seed_root_def svc_simps Let_def)
  obtain r where "r \<in> set (roles (db w2))" "Role_name r = ''owner'' \<and> Role_tenant_id r = None \<and> Role_product_id r = Product_id p"
    using owner_role [OF ensure_system_roles_seeds [OF roles]] by blast
  then have "List.find (\<lambda>r. Role_name r = ''owner'' \<and> Role_tenant_id r = None \<and> Role_product_id r = Product_id p) (roles (db w4)) \<noteq> None"
    using root(4) by (auto simp: find_None_iff_all)
  then obtain w5 where admin: "seed_admin (Product_id p) (Tenant_id t)
      (w4\<lparr>cur_product := Some (Product_id p), cur_tenant := Some (Tenant_id t)\<rparr>) = (Inr (), w5)"
    using root by (auto simp: seed_admin_def hash_password_def assign_role_by_name_def assign_role_def svc_simps Let_def)
  obtain w6 where trial: "seed_trial (Tenant_id t) (Product_id p) w5 = (Inr (), w6)"
    using seed_trial_goes_through by blast
  have "seed_rows sample_world = (Inr (), w6)"
    using p(1) roles plans root(1) admin trial
    by (simp add: seed_rows_def bindS_step set_current_product_def set_current_tenant_def svc_simps)
  then show ?thesis by (simp add: seed_def session_scope_def)
qed

theorem seed_repeats_witness: "\<exists>w'. seed sample_world = (Inr (), w') \<and> seed w' = (Inr (), w')"
  using seed_on_empty seed_repeats by blast

end
