(* ===== verification/Spec2Isabelle.thy ===== *)
theory Spec2Isabelle
  imports Repository Credit LifecycleProperties Users Jobs Components Storage EnvVault WebhookOut RateLimit Reminders GoogleLogin TenantRoutes AccountRoutes CliProperties AsyncResources Migrations Seeds
begin

text \<open>
  Plynth is a platform that several SaaS products share: accounts and tenants, permissions, plans and subscriptions,
  prepaid credits, a catalogue of components, background jobs, a document store, a vault of environment variables, with
  a Python client and a command line in front of it. This development models the service under \<^verbatim>\<open>src/app\<close>, the
  client under \<^verbatim>\<open>src/sdks/python\<close>, the command line under \<^verbatim>\<open>src/plynth_cli\<close> and the schema migrations of
  \<^verbatim>\<open>src/scripts\<close>, and proves what makes them correct, one by one and together.

  \<^bold>\<open>How the parts interact.\<close> A request enters through the rate limit and the request context, which opens a transaction;
  the dependencies of its route find the product, the user (by bearer token, platform token or service token), the
  tenant it acts as and its permissions; the route calls a service; the service reads and writes tables, leaves an audit
  row and perhaps calls the billing provider, Redis or Google; the transaction commits, or an error rolls it back and
  becomes an envelope. The worker runs the sweep of grace periods and the payment reminders. The clients send
  requests, keep a pair of tokens and refresh it when it has gone stale; the command line keeps its tokens in a file.

  \<^bold>\<open>Conventions.\<close>
  \<^item> The state is one record, \<open>world\<close>: the tables of the database (one list of rows per table, one record per
    row, named after the classes of \<^verbatim>\<open>app/models\<close>), the context variables, the clock, the random source, Redis
    and what was handed to other services.
  \<^item> An asynchronous function of the source is a function from the world to an error or a value and the next world
    (\<open>svc\<close>); \<open>bindS\<close> is the sequence of two statements. Each \<^verbatim>\<open>raise\<close> is a branch with a value of \<open>app_error\<close>, which
    mirrors \<^verbatim>\<open>app/core/exceptions.py\<close> with its status codes.
  \<^item> Instants are microseconds, amounts of \<^verbatim>\<open>Numeric(18,4)\<close> are integers in units of one ten-thousandth, so no
    rounding is hidden. Python's integers are unbounded, and so are these. Text is a list of characters.
  \<^item> Where other requests can come between a read and a write that are one function of the source (a grant, the
    enqueuing of a job, the put of a document), the function is the composition of two definitions, and the theorems
    speak of what may happen in between.
  \<^item> Code that is not in the repository is a parameter: JWT, Argon2, SHA-256, HMAC and AES-GCM (\<open>libs\<close>, with what the
    code relies on as \<open>libs_ok\<close>), the billing services behind their drivers, Google, the HTTP transport of the clients.
    Theory \<open>Samples\<close> has concrete functions that satisfy the hypotheses; the witnesses run on them.

  \<^bold>\<open>Theories.\<close>

  Foundations:
  \<^item> \<open>Prelude\<close>: the errors, the service monad, its rules (\<open>svc_simps\<close>, a weakest-precondition calculus, \<open>keeps\<close> and
    \<open>frames\<close> for preserved invariants and tables left alone), lemmas on lists of rows.
  \<^item> \<open>Values\<close>, \<open>World\<close>: identifiers, instants, JSON, the enumerations and tables of \<^verbatim>\<open>app/models\<close>, the settings of
    \<^verbatim>\<open>core/config.py\<close>, sessions that commit and roll back (\<^verbatim>\<open>core/database.py\<close>).
  \<^item> \<open>AuditTrail\<close>: \<^verbatim>\<open>core/tenant.py\<close>, \<^verbatim>\<open>services/audit.py\<close>. \<open>Repository\<close>: \<^verbatim>\<open>repositories/base.py\<close>.
  \<^item> \<open>Interfaces\<close>: the contracts several components share, as locales (below).

  Money:
  \<^item> \<open>Credit\<close> (\<^verbatim>\<open>services/credit.py\<close>), \<open>PlanCatalog\<close> (\<^verbatim>\<open>services/plan.py\<close>), \<open>BillingProvider\<close> and \<open>Drivers\<close>
    (\<^verbatim>\<open>providers/billing\<close>), \<open>Lifecycle\<close> and \<open>LifecycleProperties\<close> (\<^verbatim>\<open>services/subscription.py\<close>, \<^verbatim>\<open>services/billing.py\<close>,
    \<^verbatim>\<open>api/v1/webhooks.py\<close>), \<open>Reminders\<close> (\<^verbatim>\<open>tasks/payment_reminders.py\<close>).

  Who may do what:
  \<^item> \<open>Rbac\<close> (\<^verbatim>\<open>services/rbac.py\<close>, \<^verbatim>\<open>api/v1/roles.py\<close>), \<open>Products\<close> (\<^verbatim>\<open>services/product.py\<close>, \<^verbatim>\<open>api/v1/admin.py\<close>),
    \<open>Tenancy\<close> (\<^verbatim>\<open>services/tenant.py\<close>), \<open>Security\<close>, \<open>Auth\<close>, \<open>GoogleLogin\<close> (\<^verbatim>\<open>core/security.py\<close>, \<^verbatim>\<open>services/auth.py\<close>),
    \<open>ServiceTokens\<close>, \<open>Users\<close>, \<open>Dependencies\<close> (\<^verbatim>\<open>core/dependencies.py\<close>).

  What a tenant has:
  \<^item> \<open>Jobs\<close>, \<open>Components\<close>, \<open>Storage\<close>, \<open>EnvVault\<close> (with \<^verbatim>\<open>core/crypto.py\<close> and \<^verbatim>\<open>services/google_oauth.py\<close>) and
    \<open>WebhookOut\<close>, after the services of these names.

  The edge of the service:
  \<^item> \<open>RateLimit\<close>, \<open>Http\<close> (middleware, transaction, envelopes), \<open>TenantRoutes\<close> and \<open>AccountRoutes\<close> (the handlers of
    \<^verbatim>\<open>api/v1\<close> that the other theories do not have), \<open>Routes\<close> (the routing table with the guard of every route),
    \<open>JsonTypes\<close>, \<open>ApiSchemas\<close> and \<open>ApiBodies\<close> (the models of \<^verbatim>\<open>app/schemas\<close> as types of JSON values).

  The clients:
  \<^item> \<open>SdkClient\<close>, \<open>SdkResources\<close>, \<open>SdkTypes\<close>: \<^verbatim>\<open>plynth_sdk\<close>, the synchronous client; \<open>SdkAsync\<close> and \<open>AsyncResources\<close>:
    the asynchronous one, whose calls are machines that step from \<^verbatim>\<open>await\<close> to \<^verbatim>\<open>await\<close>. \<open>SdkServer\<close> and \<open>SdkTyped\<close> put
    client and service together.
  \<^item> \<open>CliClient\<close>, \<open>CliCommands\<close>, \<open>CliProgram\<close>, \<open>CliProperties\<close>: \<^verbatim>\<open>plynth_cli\<close>.

  The database:
  \<^item> \<open>Schema\<close>, \<open>Migrations\<close>: \<^verbatim>\<open>scripts/migrate.py\<close> on a catalogue of tables and indexes, against the models.
    \<open>Seeds\<close>: \<^verbatim>\<open>scripts/seed.py\<close>, the first rows of a deployment, over the services.

  \<^bold>\<open>Contracts.\<close> A locale states what a provider promises and proves once what follows:
  \<^item> \<open>idempotent_by_reference\<close>: a caller's reference makes an operation happen once; instances \<open>grants\<close>, \<open>debits\<close>
    (credits) and \<open>job_keys\<close> (jobs).
  \<^item> \<open>revocable\<close> and its extension \<open>single_use\<close>: a credential that is dead stays dead, whatever the other
    operations do; instances \<open>service_tokens\<close>, \<open>refresh_tok\<close>, \<open>reset_tok\<close>.
  \<^item> \<open>keyed_rows\<close>: rows that a key identifies behave as a map; instances \<open>documents\<close>, \<open>env_vars\<close>.
  \<^item> \<open>quiet_provider\<close>: a billing provider that leaves the database alone; instance \<open>mock\<close>.
  \<^item> \<open>token_store_laws\<close>: what is put into a token store comes out of it; instances \<open>memory\<close> and \<open>cli\<close>.

  \<^bold>\<open>What the theorems show.\<close>
  \<^item> Invariants of runs: balances are the sums of their ledgers and never negative; a tenant has one subscription;
    tenants form a hierarchy of one level with unique live slugs; a job's columns agree with its status and a finished
    job never changes; a route touches the members of its own tenant only.
  \<^item> Refinement: the debit against an abstract account; the document store against a map; every method of the
    client and every command against the routing table, its guards and the models of the bodies.
  \<^item> Safety: refresh tokens rotate and a used one is dead; a user acts in its own tenant or a live direct child;
    the repository returns rows of the request's tenant; a Google login has a verified address behind it; enqueuing
    converges when calls race. One safety theorem shows a flaw: two overlapping calls of the asynchronous client can
    sign the user out.
  \<^item> Round trips: passwords, service tokens, vault entries, registration and login through the API, login and logout
    of the command line. Liveness: dunning through to the grace period and back; a stale client renews its session.
  \<^item> Equivalence: the two ways to ask for component access; the switcher of child tenants against the guard; the
    asynchronous client against the synchronous one; the migrations against the models.
  \<^item> Types: which responses have the type the client gives them, and that a running client only keeps and returns
    typed values. Bounds, pages, exact sets: the rate limit, the audit pages, the sweep, the permission check.

  \<^bold>\<open>Loops.\<close> No definition has fuel. The walk up a tenant's ancestors ends because it stops at an id seen before
  (measure: the tenants not seen), a request of the client because it repeats at most once, an asynchronous call
  because each step lowers its rank, which is eight at the start; the cut of a response body removes bytes. The other
  recursions are structural. The runs of the invariants are lists of operations of any length.

  \<^bold>\<open>Not modelled.\<close>
  \<^item> Pure input and output: logging (\<^verbatim>\<open>core/logging.py\<close>), the application factory with its CORS and health routes
    (\<^verbatim>\<open>main.py\<close>), the registration of cron jobs, connection pools and time-outs, colours of the terminal.
  \<^item> What frameworks do: the parsing of requests and options, pydantic's checks of the syntax of an email address,
    SQLAlchemy's identity map and flush order beyond what a result depends on, the JSON text of a value.
  \<^item> \<open>SELECT ... FOR UPDATE\<close> and isolation beyond the splits named above; a transaction is otherwise one step.
  \<^item> The seed of one product's demonstration data (\<^verbatim>\<open>scripts/seed_mayva.py\<close>), tests, examples, and the other languages (the desktop application, the
    TypeScript client), which do not share code with the service.
\<close>

end
